(* ===== verification/Prelude.thy ===== *)
theory Prelude
  imports Main "HOL-Library.Word" "HOL-Library.AList"
begin

text \<open>
  What the components share: the result type, machine integers with Rust's
  saturating and checked arithmetic, the hash map interface (a locale) and its
  association-list model, double-ended queues as lists, and the collections of
  simplification rules the component theories extend.

  A Rust \<^verbatim>\<open>HashMap\<close> is modelled by an association list. Lookup, insertion and
  removal obey the laws of the locale \<^verbatim>\<open>hash_map\<close>; the order in which
  \<^verbatim>\<open>values()\<close> and \<^verbatim>\<open>iter()\<close> enumerate entries is the order of the list, which stands for
  the unspecified iteration order of the source: a theorem about an arbitrary
  state covers every such order.
\<close>

named_theorems frame_simps \<open>which fields of the store an operation leaves alone\<close>
named_theorems result_simps \<open>evaluation of helper operations on each branch\<close>

section \<open>Results and machine integers\<close>

abbreviation Ok :: "'a \<Rightarrow> 'e + 'a" where "Ok \<equiv> Inr"
abbreviation Err :: "'e \<Rightarrow> 'e + 'a" where "Err \<equiv> Inl"

type_synonym u64 = "64 word"
type_synonym u32 = "32 word"
type_synonym u16 = "16 word"
type_synonym uuid = "128 word"
type_synonym timestamp = int
type_synonym duration = int
type_synonym usize = nat

definition usize_max :: usize where
  "usize_max = 2 ^ 64 - 1"

definition is_ok :: "'e + 'a \<Rightarrow> bool" where
  "is_ok r = (case r of Inr _ \<Rightarrow> True | Inl _ \<Rightarrow> False)"

lemma is_ok_simps [simp]: "is_ok (Ok x)" "\<not> is_ok (Err e)"
  by (simp_all add: is_ok_def)

definition saturating_add :: "'a::len word \<Rightarrow> 'a word \<Rightarrow> 'a word" where
  "saturating_add a b = (if a + b < a then - 1 else a + b)"

definition checked_add :: "'a::len word \<Rightarrow> 'a word \<Rightarrow> 'a word option" where
  "checked_add a b = (if a + b < a then None else Some (a + b))"

definition usize_saturating_mul :: "usize \<Rightarrow> usize \<Rightarrow> usize" where
  "usize_saturating_mul a b = min (a * b) usize_max"

lemma word_max_le [simp]: "(a::'a::len word) \<le> - 1"
  by (rule word_n1_ge)

lemma saturating_add_ge: "a \<le> saturating_add a b"
  by (auto simp: saturating_add_def not_less)

lemma saturating_add_max [simp]: "saturating_add (- 1) b = - 1"
proof (cases "- 1 + b < - 1")
  case False
  then have "- 1 + b = - 1" using word_n1_ge [of "- 1 + b"] by (simp only: not_less antisym)
  then show ?thesis by (simp only: saturating_add_def if_cancel)
qed (simp only: saturating_add_def if_True)

lemma saturating_add_one_gt:
  assumes "a \<noteq> - 1"
  shows "a < saturating_add a 1"
  using assms word_n1_ge [of a] by (auto simp: saturating_add_def not_less order_le_less)

lemma unat_saturating_add:
  fixes a b :: "'a::len word"
  shows "unat (saturating_add a b) = min (unat a + unat b) (2 ^ LENGTH('a) - 1)"
proof (cases "a + b < a")
  case True
  then have "2 ^ LENGTH('a) \<le> unat a + unat b"
    using no_plus_overflow_unat_size [of a b] by (auto simp: word_size not_less not_le)
  with True show ?thesis
    by (simp add: saturating_add_def unsigned_minus_1_eq_mask mask_eq_exp_minus_1)
next
  case False
  then have "unat a + unat b < 2 ^ LENGTH('a)"
    using no_plus_overflow_unat_size [of a b] by (auto simp: word_size not_less)
  with False show ?thesis
    by (simp add: saturating_add_def unat_word_ariths)
qed

lemma checked_add_Some:
  fixes a b :: "'a::len word"
  shows "checked_add a b = Some c \<longleftrightarrow> unat a + unat b < 2 ^ LENGTH('a) \<and> c = a + b"
  using no_plus_overflow_unat_size [of a b]
  by (auto simp: checked_add_def word_size not_less)

lemma checked_add_unat:
  assumes "checked_add a b = Some c"
  shows "unat c = unat a + unat b"
  using assms by (auto simp: checked_add_Some unat_word_ariths)

lemma unat_ucast_u32 [simp]: "unat (ucast (x::u32) :: u64) = unat x"
proof -
  have "unat x < 2 ^ 64" using unsigned_less [of x, where 'a = nat] by simp
  then show ?thesis by (simp add: unsigned_ucast_eq take_bit_nat_eq_self)
qed

section \<open>Hash maps\<close>

type_synonym ('k, 'v) hmap = "('k \<times> 'v) list"

text \<open>The laws of a hash map every client below relies on.\<close>

locale hash_map =
  fixes get :: "'m \<Rightarrow> 'k \<Rightarrow> 'v option"
    and ins :: "'k \<Rightarrow> 'v \<Rightarrow> 'm \<Rightarrow> 'm"
    and del :: "'k \<Rightarrow> 'm \<Rightarrow> 'm"
    and emp :: 'm
  assumes get_emp: "get emp k = None"
    and get_ins: "get (ins k v m) k' = (if k = k' then Some v else get m k')"
    and get_del: "get (del k m) k' = (if k = k' then None else get m k')"
begin

lemma get_ins_del: "get (ins k v (del k m)) = get (ins k v m)"
  by (rule ext) (simp add: get_ins get_del)

lemma get_ins_same: "get m k = Some v \<Longrightarrow> get (ins k v (del k m)) = get m"
  by (rule ext) (auto simp: get_ins get_del)

lemma dom_ins: "dom (get (ins k v m)) = insert k (dom (get m))"
  by (auto simp: dom_def get_ins)

lemma dom_del: "dom (get (del k m)) = dom (get m) - {k}"
  by (auto simp: dom_def get_del)

lemma ins_keeps_all:
  assumes "\<And>k' v'. get m k' = Some v' \<Longrightarrow> k' \<noteq> k \<Longrightarrow> P k' v'" and "P k v"
  shows "get (ins k v m) k' = Some v' \<Longrightarrow> P k' v'"
  using assms by (auto simp: get_ins split: if_splits)

end

definition hm_get :: "('k, 'v) hmap \<Rightarrow> 'k \<Rightarrow> 'v option" where
  "hm_get m k = map_of m k"

definition hm_insert :: "'k \<Rightarrow> 'v \<Rightarrow> ('k, 'v) hmap \<Rightarrow> ('k, 'v) hmap" where
  "hm_insert k v m = AList.update k v m"

definition hm_remove :: "'k \<Rightarrow> ('k, 'v) hmap \<Rightarrow> ('k, 'v) hmap" where
  "hm_remove k m = AList.delete k m"

definition hm_keys :: "('k, 'v) hmap \<Rightarrow> 'k list" where
  "hm_keys m = map fst m"

definition hm_values :: "('k, 'v) hmap \<Rightarrow> 'v list" where
  "hm_values m = map snd m"

definition hm_contains_key :: "'k \<Rightarrow> ('k, 'v) hmap \<Rightarrow> bool" where
  "hm_contains_key k m = (hm_get m k \<noteq> None)"

text \<open>One entry per key: what makes an association list a hash map.\<close>

definition hm_wf :: "('k, 'v) hmap \<Rightarrow> bool" where
  "hm_wf m = distinct (hm_keys m)"

interpretation hm: hash_map "hm_get :: ('k, 'v) hmap \<Rightarrow> 'k \<Rightarrow> 'v option" hm_insert hm_remove "[]"
  by unfold_locales
    (simp_all add: hm_get_def hm_insert_def hm_remove_def update_conv' delete_conv')

lemmas hm_simps [simp] = hm.get_emp hm.get_ins hm.get_del hm.dom_ins hm.dom_del

lemma hm_get_Nil [simp]: "hm_get [] = (\<lambda>_. None)"
  by (rule ext) simp

lemma hm_wf_Nil [simp]: "hm_wf []"
  by (simp add: hm_wf_def hm_keys_def)

lemma hm_wf_insert [simp]: "hm_wf m \<Longrightarrow> hm_wf (hm_insert k v m)"
  by (simp add: hm_wf_def hm_keys_def hm_insert_def distinct_update)

lemma hm_wf_remove [simp]: "hm_wf m \<Longrightarrow> hm_wf (hm_remove k m)"
  by (simp add: hm_wf_def hm_keys_def hm_remove_def distinct_delete)

lemma hm_entries_iff: "hm_wf m \<Longrightarrow> (k, v) \<in> set m \<longleftrightarrow> hm_get m k = Some v"
  by (auto simp: hm_wf_def hm_keys_def hm_get_def dest: map_of_SomeD intro: map_of_is_SomeI)

lemma hm_values_iff: "hm_wf m \<Longrightarrow> v \<in> set (hm_values m) \<longleftrightarrow> (\<exists>k. hm_get m k = Some v)"
  by (force simp: hm_values_def simp flip: hm_entries_iff)

lemma hm_keys_iff: "k \<in> set (hm_keys m) \<longleftrightarrow> (\<exists>v. hm_get m k = Some v)"
  using dom_map_of_conv_image_fst [of m] by (auto simp: hm_keys_def hm_get_def dom_def)

lemma hm_finite_dom [simp]: "finite (dom (hm_get m))"
  by (simp add: hm_get_def [abs_def] finite_dom_map_of)

lemma hm_values_count:
  assumes "hm_wf m"
  shows "length (filter P (hm_values m)) = card {k. \<exists>v. hm_get m k = Some v \<and> P v}"
proof -
  have "length (filter P (hm_values m)) = length (filter (P \<circ> snd) m)"
    by (simp add: hm_values_def filter_map)
  also have "\<dots> = card (fst ` set (filter (P \<circ> snd) m))"
  proof -
    have "distinct (map fst (filter (P \<circ> snd) m))"
      using assms by (simp add: hm_wf_def hm_keys_def distinct_map_filter)
    then show ?thesis by (metis distinct_card length_map list.set_map)
  qed
  also have "fst ` set (filter (P \<circ> snd) m) = {k. \<exists>v. hm_get m k = Some v \<and> P v}"
    using hm_entries_iff [OF assms] by force
  finally show ?thesis .
qed

lemma hm_length_dom: "hm_wf m \<Longrightarrow> length m = card (dom (hm_get m))"
  using hm_values_count [of m "\<lambda>_. True"]
  by (simp add: hm_values_def dom_def)

section \<open>Sorting and double-ended queues\<close>

text \<open>\<^verbatim>\<open>sort_by_key\<close> is the stable \<^const>\<open>sort_key\<close>; \<^verbatim>\<open>VecDeque::retain\<close>
  is \<^const>\<open>filter\<close>; \<^verbatim>\<open>push_back\<close> and \<^verbatim>\<open>pop_front\<close> act at the two ends of a list.\<close>

abbreviation push_back :: "'a list \<Rightarrow> 'a \<Rightarrow> 'a list" where
  "push_back xs x \<equiv> xs @ [x]"

lemma sorted_drop_bound:
  assumes "sorted_wrt R (map f xs)" "i < length xs" "x \<in> set (drop (Suc i) xs)"
  shows "R (f (xs ! i)) (f x)"
proof -
  have "map f xs = map f (take i xs) @ f (xs ! i) # map f (drop (Suc i) xs)"
    using id_take_nth_drop [OF assms(2)] by (metis list.simps(9) map_append)
  with assms(1, 3) show ?thesis by (simp add: sorted_wrt_append)
qed

end
