(* ===== verification/Text.thy ===== *)
theory Text
  imports Prelude "HOL-Library.Sublist"
begin

text \<open>
  Rust strings. A \<^verbatim>\<open>String\<close> is its UTF-8 byte sequence, one \<^typ>\<open>char\<close> per byte, so
  that \<^verbatim>\<open>len()\<close> is \<^const>\<open>length\<close>. The character classes the sources test are either
  ASCII classes, which hold of a string's characters exactly when they hold of its
  bytes (every byte of a multi-byte sequence is at least 128), or \<^verbatim>\<open>is_control\<close> and
  \<^verbatim>\<open>trim\<close>, whose non-ASCII members are written out as byte sequences.
\<close>

definition byte :: "char \<Rightarrow> nat" where
  "byte c = of_char c"

definition is_ascii_lowercase :: "char \<Rightarrow> bool" where
  "is_ascii_lowercase c = (97 \<le> byte c \<and> byte c \<le> 122)"

definition is_ascii_uppercase :: "char \<Rightarrow> bool" where
  "is_ascii_uppercase c = (65 \<le> byte c \<and> byte c \<le> 90)"

definition is_ascii_digit :: "char \<Rightarrow> bool" where
  "is_ascii_digit c = (48 \<le> byte c \<and> byte c \<le> 57)"

definition is_ascii_alphanumeric :: "char \<Rightarrow> bool" where
  "is_ascii_alphanumeric c = (is_ascii_lowercase c \<or> is_ascii_uppercase c \<or> is_ascii_digit c)"

definition to_ascii_lowercase :: "char \<Rightarrow> char" where
  "to_ascii_lowercase c = (if is_ascii_uppercase c then char_of (byte c + 32) else c)"

text \<open>\<^verbatim>\<open>char::is_control\<close> is the category Cc: U+0000 to U+001F, U+007F, and U+0080 to
  U+009F, which UTF-8 writes as the byte C2 followed by a byte 80 to 9F.\<close>

fun contains_control :: "string \<Rightarrow> bool" where
  "contains_control [] = False"
| "contains_control (c # cs) =
    (byte c < 32 \<or> byte c = 127
     \<or> (byte c = 194 \<and> (case cs of [] \<Rightarrow> False | d # _ \<Rightarrow> 128 \<le> byte d \<and> byte d \<le> 159))
     \<or> contains_control cs)"

text \<open>The UTF-8 encodings of the characters with the property White\_Space.\<close>

definition whitespace_encodings :: "nat list list" where
  "whitespace_encodings =
    [[9], [10], [11], [12], [13], [32], [194, 133], [194, 160], [225, 154, 128],
     [226, 128, 128], [226, 128, 129], [226, 128, 130], [226, 128, 131], [226, 128, 132],
     [226, 128, 133], [226, 128, 134], [226, 128, 135], [226, 128, 136], [226, 128, 137],
     [226, 128, 138], [226, 128, 168], [226, 128, 169], [226, 128, 175], [226, 129, 159],
     [227, 128, 128]]"

text \<open>\<^verbatim>\<open>value.trim() != value\<close>.\<close>

definition has_surrounding_whitespace :: "string \<Rightarrow> bool" where
  "has_surrounding_whitespace s =
    list_ex (\<lambda>w. prefix w (map byte s) \<or> suffix w (map byte s)) whitespace_encodings"

definition strip_prefix :: "string \<Rightarrow> string \<Rightarrow> string option" where
  "strip_prefix p s = (if prefix p s then Some (drop (length p) s) else None)"

definition str_contains :: "string \<Rightarrow> string \<Rightarrow> bool" where
  "str_contains p s = sublist p s"

fun split_on :: "(char \<Rightarrow> bool) \<Rightarrow> string \<Rightarrow> string list" where
  "split_on sep [] = [[]]"
| "split_on sep (c # cs) =
    (if sep c then [] # split_on sep cs
     else case split_on sep cs of [] \<Rightarrow> [[c]] | t # ts \<Rightarrow> (c # t) # ts)"

text \<open>\<^verbatim>\<open>to_string()\<close> on unsigned integers.\<close>

definition digit_char :: "nat \<Rightarrow> char" where
  "digit_char d = char_of (48 + d)"

function show_nat :: "nat \<Rightarrow> string" where
  "show_nat n = (if n < 10 then [digit_char n] else show_nat (n div 10) @ [digit_char (n mod 10)])"
  by pat_completeness auto
termination by (relation "measure id") auto

declare show_nat.simps [simp del]

lemma ascii_text_no_control:
  assumes "list_all (\<lambda>c. 32 \<le> byte c \<and> byte c < 127) s"
  shows "\<not> contains_control s"
  using assms by (induction s) (auto split: list.splits)

lemma ascii_lowercase_range: "is_ascii_lowercase c \<Longrightarrow> 32 \<le> byte c \<and> byte c < 127"
  and ascii_digit_range: "is_ascii_digit c \<Longrightarrow> 32 \<le> byte c \<and> byte c < 127"
  and ascii_alphanumeric_range: "is_ascii_alphanumeric c \<Longrightarrow> 32 \<le> byte c \<and> byte c < 127"
  by (auto simp: is_ascii_lowercase_def is_ascii_digit_def is_ascii_alphanumeric_def
      is_ascii_uppercase_def)

end
