(* ===== verification/Turn_Ids.thy ===== *)
theory Turn_Ids
  imports Text
begin

text \<open>
  Identifiers and scopes: \<^verbatim>\<open>ironclaw_turns/src/ids.rs\<close>, \<^verbatim>\<open>run_profile/refs.rs\<close> and
  \<^verbatim>\<open>scope.rs\<close>. A UUID newtype is a 128-bit word; a validated string newtype is a
  string, with the validator its constructor runs as a definition of its own.
\<close>

type_synonym turn_id = uuid
type_synonym turn_run_id = uuid
type_synonym turn_checkpoint_id = uuid
type_synonym turn_lease_token = uuid
type_synonym turn_runner_id = uuid
type_synonym accepted_message_ref = string
type_synonym source_binding_ref = string
type_synonym reply_target_binding_ref = string
type_synonym gate_ref = string
type_synonym idempotency_key = string
type_synonym run_profile_request = string
type_synonym run_profile_id = string
type_synonym run_profile_version = u64
type_synonym loop_exit_id = string
type_synonym loop_message_ref = string
type_synonym loop_result_ref = string
type_synonym loop_gate_ref = string
type_synonym loop_usage_summary_ref = string
type_synonym loop_diagnostic_ref = string
type_synonym tenant_id = string
type_synonym agent_id = string
type_synonym project_id = string
type_synonym thread_id = string
type_synonym user_id = string
type_synonym event_cursor = u64

section \<open>Validators\<close>

definition validate_ref :: "string \<Rightarrow> string \<Rightarrow> string + unit" where
  "validate_ref kind v =
    (if v = [] then Err (kind @ '' must not be empty'')
     else if length v > 256 then Err (kind @ '' must be at most 256 bytes'')
     else if contains_control v then Err (kind @ '' must not contain control characters'')
     else Ok ())"

definition bounded_ref_new :: "string \<Rightarrow> string \<Rightarrow> string + string" where
  "bounded_ref_new kind v = (case validate_ref kind v of Err e \<Rightarrow> Err e | Ok _ \<Rightarrow> Ok v)"

definition validate_loop_ref :: "string \<Rightarrow> string \<Rightarrow> string \<Rightarrow> string + unit" where
  "validate_loop_ref kind p v =
    (case validate_ref kind v of
       Err e \<Rightarrow> Err e
     | Ok _ \<Rightarrow>
        (case strip_prefix p v of
           None \<Rightarrow> Err (kind @ '' must start with '' @ p)
         | Some suff \<Rightarrow>
            (if suff = [] then Err (kind @ '' must include an opaque id after '' @ p)
             else if \<not> list_all (\<lambda>c. is_ascii_alphanumeric c \<or> c = CHR ''_'' \<or> c = CHR ''-'' \<or> c = CHR ''.'') suff
             then Err (kind @ '' opaque id must contain only ASCII letters, digits, _, -, or .'')
             else Ok ())))"

definition loop_ref_new :: "string \<Rightarrow> string \<Rightarrow> string \<Rightarrow> string + string" where
  "loop_ref_new kind p v = (case validate_loop_ref kind p v of Err e \<Rightarrow> Err e | Ok _ \<Rightarrow> Ok v)"

definition validate_profile_ref :: "string \<Rightarrow> string \<Rightarrow> string + unit" where
  "validate_profile_ref kind v =
    (if v = [] then Err (kind @ '' must not be empty'')
     else if length v > 128 then Err (kind @ '' must be at most 128 bytes'')
     else if \<not> list_all (\<lambda>c. is_ascii_lowercase c \<or> is_ascii_digit c \<or> c = CHR ''_'' \<or> c = CHR ''-'' \<or> c = CHR '':'') v
     then Err (kind @ '' must contain only lowercase ASCII letters, digits, _, -, or :'')
     else Ok ())"

definition profile_ref_new :: "string \<Rightarrow> string \<Rightarrow> string + string" where
  "profile_ref_new kind v = (case validate_profile_ref kind v of Err e \<Rightarrow> Err e | Ok _ \<Rightarrow> Ok v)"

definition gate_ref_new :: "string \<Rightarrow> string + gate_ref" where
  "gate_ref_new v = bounded_ref_new ''gate_ref'' v"

definition default_profile :: run_profile_id where
  "default_profile = ''default''"

definition interactive_default :: run_profile_id where
  "interactive_default = ''interactive_default''"

definition long_running_mission :: run_profile_id where
  "long_running_mission = ''long_running_mission''"

definition is_interactive_default :: "run_profile_id \<Rightarrow> bool" where
  "is_interactive_default p = (p = interactive_default)"

section \<open>Scopes and actors\<close>

datatype turn_thread_owner =
    ActorFallback
  | ExplicitUser (owner_user_id: user_id)
  | Ownerless

definition explicit :: "user_id option \<Rightarrow> turn_thread_owner" where
  "explicit owner = (case owner of Some u \<Rightarrow> ExplicitUser u | None \<Rightarrow> Ownerless)"

definition is_actor_fallback :: "turn_thread_owner \<Rightarrow> bool" where
  "is_actor_fallback owner = (case owner of ActorFallback \<Rightarrow> True | _ \<Rightarrow> False)"

definition is_explicit :: "turn_thread_owner \<Rightarrow> bool" where
  "is_explicit owner = (\<not> is_actor_fallback owner)"

definition owner_explicit_user_id :: "turn_thread_owner \<Rightarrow> user_id option" where
  "owner_explicit_user_id owner =
    (case owner of ExplicitUser u \<Rightarrow> Some u | ActorFallback \<Rightarrow> None | Ownerless \<Rightarrow> None)"

record turn_scope =
  sc_tenant_id :: tenant_id
  sc_agent_id :: "agent_id option"
  sc_project_id :: "project_id option"
  sc_thread_id :: thread_id
  sc_thread_owner :: turn_thread_owner

record turn_actor =
  ac_user_id :: user_id

definition turn_scope_new :: "tenant_id \<Rightarrow> agent_id option \<Rightarrow> project_id option \<Rightarrow> thread_id \<Rightarrow> turn_scope" where
  "turn_scope_new tenant agent project thread =
    \<lparr>sc_tenant_id = tenant, sc_agent_id = agent, sc_project_id = project,
     sc_thread_id = thread, sc_thread_owner = ActorFallback\<rparr>"

definition turn_scope_new_with_owner ::
    "tenant_id \<Rightarrow> agent_id option \<Rightarrow> project_id option \<Rightarrow> thread_id \<Rightarrow> user_id option \<Rightarrow> turn_scope" where
  "turn_scope_new_with_owner tenant agent project thread owner =
    \<lparr>sc_tenant_id = tenant, sc_agent_id = agent, sc_project_id = project,
     sc_thread_id = thread, sc_thread_owner = explicit owner\<rparr>"

definition explicit_owner_user_id :: "turn_scope \<Rightarrow> user_id option" where
  "explicit_owner_user_id scope = owner_explicit_user_id (sc_thread_owner scope)"

definition has_explicit_thread_owner :: "turn_scope \<Rightarrow> bool" where
  "has_explicit_thread_owner scope = is_explicit (sc_thread_owner scope)"

definition same_scope_envelope :: "turn_scope \<Rightarrow> turn_scope \<Rightarrow> bool" where
  "same_scope_envelope candidate scope =
    (sc_tenant_id candidate = sc_tenant_id scope
     \<and> sc_agent_id candidate = sc_agent_id scope
     \<and> sc_project_id candidate = sc_project_id scope)"

section \<open>Lemmas\<close>

text \<open>A loop gate reference is always a gate reference: the conversion a blocked loop
  exit performs cannot fail on a validated reference.\<close>

lemma loop_ref_is_bounded_ref:
  "loop_ref_new kind p v = Ok w \<Longrightarrow> validate_ref kind' v = Ok () \<and> w = v"
  by (auto simp: loop_ref_new_def validate_loop_ref_def validate_ref_def
      split: sum.splits option.splits if_splits)

lemma same_scope_envelope_refl [simp]: "same_scope_envelope s s"
  by (simp add: same_scope_envelope_def)

lemma same_scope_envelope_sym: "same_scope_envelope a b \<Longrightarrow> same_scope_envelope b a"
  by (simp add: same_scope_envelope_def)

lemma same_scope_envelope_trans:
  "same_scope_envelope a b \<Longrightarrow> same_scope_envelope b c \<Longrightarrow> same_scope_envelope a c"
  by (simp add: same_scope_envelope_def)

end
