(* ===== verification/Turn_Admission.thy ===== *)
theory Turn_Admission
  imports Turn_Ids
begin

text \<open>
  Admission control data and limit providers: \<^verbatim>\<open>ironclaw_turns/src/admission.rs\<close>.
  A run is counted in eight buckets, one total and one per-class bucket on each of
  the axes tenant, actor, project and agent.
\<close>

type_synonym turn_admission_class = string

definition validate_admission_class :: "string \<Rightarrow> string + unit" where
  "validate_admission_class v =
    (if v = [] then Err ''turn admission class must not be empty''
     else if length v > 128 then Err ''turn admission class must be at most 128 bytes''
     else if contains_control v then Err ''turn admission class must not contain control characters''
     else if \<not> list_all (\<lambda>c. is_ascii_lowercase c \<or> is_ascii_digit c \<or> c = CHR ''_'') v
     then Err ''turn admission class must contain only lowercase ASCII letters, digits, or _''
     else Ok ())"

definition turn_admission_class_new :: "string \<Rightarrow> string + turn_admission_class" where
  "turn_admission_class_new v = (case validate_admission_class v of Err e \<Rightarrow> Err e | Ok _ \<Rightarrow> Ok v)"

definition interactive_class :: turn_admission_class where
  "interactive_class = ''interactive''"

definition mission_class :: turn_admission_class where
  "mission_class = ''mission''"

definition admin_system_class :: turn_admission_class where
  "admin_system_class = ''admin_system''"

datatype turn_admission_axis_kind = AxisTenant | AxisActorUser | AxisProject | AxisAgent

datatype turn_admission_bucket_kind = BucketTotal | BucketClass

datatype turn_admission_bucket_scope =
    BucketTenant tenant_id
  | BucketActorUser tenant_id user_id
  | BucketProject tenant_id "project_id option"
  | BucketAgent tenant_id "agent_id option"

record turn_admission_bucket =
  bk_axis_kind :: turn_admission_axis_kind
  bk_bucket_kind :: turn_admission_bucket_kind
  bk_admission_class :: "turn_admission_class option"
  bk_scope :: turn_admission_bucket_scope

record turn_admission_limit_selector =
  sel_axis_kind :: turn_admission_axis_kind
  sel_bucket_kind :: turn_admission_bucket_kind
  sel_admission_class :: "turn_admission_class option"

definition from_bucket :: "turn_admission_bucket \<Rightarrow> turn_admission_limit_selector" where
  "from_bucket b = \<lparr>sel_axis_kind = bk_axis_kind b, sel_bucket_kind = bk_bucket_kind b,
     sel_admission_class = bk_admission_class b\<rparr>"

record turn_admission_limit =
  lim_max_active :: "u64 option"
  lim_retry_after_ms :: "u64 option"

definition unlimited :: turn_admission_limit where
  "unlimited = \<lparr>lim_max_active = None, lim_retry_after_ms = None\<rparr>"

definition max_active :: "u64 \<Rightarrow> turn_admission_limit" where
  "max_active n = \<lparr>lim_max_active = Some n, lim_retry_after_ms = None\<rparr>"

definition with_retry_after_ms :: "u64 \<Rightarrow> turn_admission_limit \<Rightarrow> turn_admission_limit" where
  "with_retry_after_ms ms l = l\<lparr>lim_retry_after_ms := Some ms\<rparr>"

datatype turn_admission_limit_unavailable = TurnAdmissionLimitUnavailable

text \<open>The trait \<^verbatim>\<open>TurnAdmissionLimitProvider\<close>.\<close>

type_synonym turn_admission_limit_provider =
  "turn_admission_bucket \<Rightarrow> turn_admission_limit_unavailable + turn_admission_limit"

definition allow_all_limit_for :: turn_admission_limit_provider where
  "allow_all_limit_for b = Ok unlimited"

record static_turn_admission_limit_provider =
  st_limits :: "(turn_admission_limit_selector, turn_admission_limit) hmap"
  st_unavailable :: bool

definition static_provider_default :: static_turn_admission_limit_provider where
  "static_provider_default = \<lparr>st_limits = [], st_unavailable = False\<rparr>"

definition with_total_limit ::
    "turn_admission_axis_kind \<Rightarrow> u64 \<Rightarrow> static_turn_admission_limit_provider
      \<Rightarrow> static_turn_admission_limit_provider" where
  "with_total_limit axis n p = p\<lparr>st_limits :=
     hm_insert \<lparr>sel_axis_kind = axis, sel_bucket_kind = BucketTotal, sel_admission_class = None\<rparr>
       (max_active n) (st_limits p)\<rparr>"

definition with_class_limit ::
    "turn_admission_axis_kind \<Rightarrow> turn_admission_class \<Rightarrow> u64
      \<Rightarrow> static_turn_admission_limit_provider \<Rightarrow> static_turn_admission_limit_provider" where
  "with_class_limit axis cls n p = p\<lparr>st_limits :=
     hm_insert \<lparr>sel_axis_kind = axis, sel_bucket_kind = BucketClass, sel_admission_class = Some cls\<rparr>
       (max_active n) (st_limits p)\<rparr>"

definition unavailable :: "static_turn_admission_limit_provider \<Rightarrow> static_turn_admission_limit_provider" where
  "unavailable p = p\<lparr>st_unavailable := True\<rparr>"

definition static_limit_for ::
    "static_turn_admission_limit_provider \<Rightarrow> turn_admission_limit_provider" where
  "static_limit_for p b =
    (if st_unavailable p then Err TurnAdmissionLimitUnavailable
     else Ok (case hm_get (st_limits p) (from_bucket b) of Some l \<Rightarrow> l | None \<Rightarrow> unlimited))"

record turn_admission_capacity_denial =
  den_axis_kind :: turn_admission_axis_kind
  den_bucket_kind :: turn_admission_bucket_kind
  den_admission_class :: "turn_admission_class option"
  den_limit :: u64
  den_active_count :: u64
  den_retry_after_ms :: "u64 option"

record turn_admission_reservation_record =
  rsv_run_id :: turn_run_id
  rsv_admission_class :: turn_admission_class
  rsv_buckets :: "turn_admission_bucket list"
  rsv_released :: bool

definition total_and_class ::
    "turn_admission_class \<Rightarrow> turn_admission_axis_kind \<Rightarrow> turn_admission_bucket_scope
      \<Rightarrow> turn_admission_bucket list" where
  "total_and_class cls axis scope =
    [\<lparr>bk_axis_kind = axis, bk_bucket_kind = BucketTotal, bk_admission_class = None,
      bk_scope = scope\<rparr>,
     \<lparr>bk_axis_kind = axis, bk_bucket_kind = BucketClass, bk_admission_class = Some cls,
      bk_scope = scope\<rparr>]"

definition admission_buckets ::
    "turn_scope \<Rightarrow> turn_actor \<Rightarrow> turn_admission_class \<Rightarrow> turn_admission_bucket list" where
  "admission_buckets scope actor cls =
    (let tenant = sc_tenant_id scope in
     total_and_class cls AxisTenant (BucketTenant tenant)
     @ total_and_class cls AxisActorUser (BucketActorUser tenant (ac_user_id actor))
     @ total_and_class cls AxisProject (BucketProject tenant (sc_project_id scope))
     @ total_and_class cls AxisAgent (BucketAgent tenant (sc_agent_id scope)))"

section \<open>Lemmas\<close>

text \<open>A limit provider whose answer depends only on a bucket's selector: two tenants
  (users, projects, agents) are held to the same limit.\<close>

locale uniform_limits =
  fixes limit_for :: turn_admission_limit_provider
  assumes selector_only: "from_bucket b = from_bucket b' \<Longrightarrow> limit_for b = limit_for b'"
begin

lemma buckets_same_limits:
  "map limit_for (admission_buckets s a cls) = map limit_for (admission_buckets s' a' cls)"
  by (auto simp: admission_buckets_def total_and_class_def Let_def from_bucket_def
      intro!: selector_only)

end

interpretation allow_all: uniform_limits allow_all_limit_for
  by unfold_locales (simp add: allow_all_limit_for_def)

interpretation static: uniform_limits "static_limit_for p" for p
  by unfold_locales (simp add: static_limit_for_def)

lemma admission_buckets_length [simp]: "length (admission_buckets s a cls) = 8"
  by (simp add: admission_buckets_def total_and_class_def Let_def)

lemma admission_buckets_distinct: "distinct (admission_buckets s a cls)"
  by (simp add: admission_buckets_def total_and_class_def Let_def)

lemma admission_buckets_class:
  "b \<in> set (admission_buckets s a cls) \<Longrightarrow> bk_admission_class b \<in> {None, Some cls}"
  by (auto simp: admission_buckets_def total_and_class_def Let_def)

lemma static_total_limit:
  "static_limit_for (with_total_limit axis n p) b =
    (if st_unavailable p then Err TurnAdmissionLimitUnavailable
     else if bk_axis_kind b = axis \<and> bk_bucket_kind b = BucketTotal \<and> bk_admission_class b = None
     then Ok (max_active n) else static_limit_for p b)"
  by (auto simp: static_limit_for_def with_total_limit_def from_bucket_def)

end
