(* ===== verification/Run_Profile.thy ===== *)
theory Run_Profile
  imports Turn_Ids
begin

text \<open>
  Run profiles: \<^verbatim>\<open>ironclaw_turns/src/run_profile/{policy,snapshot,driver,resolver}.rs\<close>.
  The registry of profile definitions, the authority checks on privileged
  dimensions, the budget ceiling, the personal-context downgrade and the FNV-1a
  fingerprint of a resolution.
\<close>

section \<open>Policies (policy.rs)\<close>

record steering_policy =
  sp_allow_steering :: bool
  sp_allow_interrupt :: bool
  sp_allow_driver_specific_nudges :: bool

record cancellation_policy =
  cp_allow_cancel :: bool
  cp_require_checkpoint_before_cancel :: bool

record checkpoint_policy =
  ck_require_before_model :: bool
  ck_require_before_side_effect :: bool
  ck_require_before_block :: bool
  ck_max_checkpoint_bytes :: u64
  ck_require_final_checkpoint :: bool
  ck_allow_no_reply_completion :: bool

record resource_budget_policy =
  rb_tier :: string
  rb_max_model_calls :: u32
  rb_max_capability_invocations :: u32

record runtime_profile_constraints =
  rc_allow_raw_runtime_backend_selection :: bool
  rc_allow_broad_capability_surface :: bool

datatype privileged_run_profile_dimension =
    LongRunningMission | BroadCapabilitySurface | HighBudget | SpecialDriver | RunnerPool

definition dimension_category :: "privileged_run_profile_dimension \<Rightarrow> string" where
  "dimension_category d = (case d of
     LongRunningMission \<Rightarrow> ''long_running_mission''
   | BroadCapabilitySurface \<Rightarrow> ''broad_capability_surface''
   | HighBudget \<Rightarrow> ''high_budget''
   | SpecialDriver \<Rightarrow> ''special_driver''
   | RunnerPool \<Rightarrow> ''runner_pool'')"

record redacted_run_profile_source =
  src_layer :: string
  src_source_ref :: string
  src_summary :: string

record redacted_run_profile_provenance =
  prov_sources :: "redacted_run_profile_source list"
  prov_effective_privileges :: "privileged_run_profile_dimension list"

datatype run_profile_request_authority = AuthUser | AuthProductSurface | AuthAdmin | AuthSystem

datatype personal_context_authority = ContextDirect | ContextShared

definition authority_allows ::
    "run_profile_request_authority \<Rightarrow> privileged_run_profile_dimension \<Rightarrow> bool" where
  "authority_allows a d = (case d of
     LongRunningMission \<Rightarrow> a \<in> {AuthProductSurface, AuthAdmin, AuthSystem}
   | SpecialDriver \<Rightarrow> a \<in> {AuthProductSurface, AuthAdmin, AuthSystem}
   | RunnerPool \<Rightarrow> a \<in> {AuthProductSurface, AuthAdmin, AuthSystem}
   | BroadCapabilitySurface \<Rightarrow> a \<in> {AuthAdmin, AuthSystem}
   | HighBudget \<Rightarrow> a \<in> {AuthAdmin, AuthSystem})"

datatype run_profile_resolution_error =
    ProfileUnauthorized privileged_run_profile_dimension
  | ProfileUnavailable string
  | ProfileInvalidRequest string

section \<open>Snapshots (snapshot.rs, driver.rs)\<close>

record agent_loop_driver_descriptor =
  drv_id :: string
  drv_version :: run_profile_version
  drv_checkpoint_schema_id :: "string option"
  drv_checkpoint_schema_version :: "run_profile_version option"

datatype personal_context_policy = ContextExcluded | ContextAllowed

definition personal_context_policy_as_str :: "personal_context_policy \<Rightarrow> string" where
  "personal_context_policy_as_str p =
    (case p of ContextExcluded \<Rightarrow> ''excluded'' | ContextAllowed \<Rightarrow> ''allowed'')"

record resolved_run_profile =
  rp_run_class_id :: string
  rp_profile_id :: run_profile_id
  rp_profile_version :: run_profile_version
  rp_loop_driver :: agent_loop_driver_descriptor
  rp_checkpoint_schema_id :: string
  rp_checkpoint_schema_version :: run_profile_version
  rp_model_profile_id :: string
  rp_capability_surface_profile_id :: string
  rp_context_profile_id :: string
  rp_steering_policy :: steering_policy
  rp_cancellation_policy :: cancellation_policy
  rp_checkpoint_policy :: checkpoint_policy
  rp_resource_budget_policy :: resource_budget_policy
  rp_personal_context_policy :: personal_context_policy
  rp_runtime_constraints :: runtime_profile_constraints
  rp_runner_pool_id :: "string option"
  rp_scheduling_class :: string
  rp_concurrency_class :: string
  rp_resolution_fingerprint :: string
  rp_provenance :: redacted_run_profile_provenance

definition legacy_compatibility ::
    "run_profile_id \<Rightarrow> run_profile_version \<Rightarrow> bool \<Rightarrow> resolved_run_profile" where
  "legacy_compatibility pid pver steering =
    (let schema_id = ''interactive_checkpoint_v1''; schema_version = 1 in
     \<lparr>rp_run_class_id = ''legacy_interactive_coding'',
      rp_profile_id = pid,
      rp_profile_version = pver,
      rp_loop_driver = \<lparr>drv_id = ''lightweight_loop'', drv_version = 1,
        drv_checkpoint_schema_id = Some schema_id,
        drv_checkpoint_schema_version = Some schema_version\<rparr>,
      rp_checkpoint_schema_id = schema_id,
      rp_checkpoint_schema_version = schema_version,
      rp_model_profile_id = ''interactive_model'',
      rp_capability_surface_profile_id = ''interactive_tools'',
      rp_context_profile_id = ''interactive_context'',
      rp_steering_policy = \<lparr>sp_allow_steering = steering, sp_allow_interrupt = True,
        sp_allow_driver_specific_nudges = False\<rparr>,
      rp_cancellation_policy = \<lparr>cp_allow_cancel = True,
        cp_require_checkpoint_before_cancel = False\<rparr>,
      rp_checkpoint_policy = \<lparr>ck_require_before_model = False,
        ck_require_before_side_effect = True, ck_require_before_block = True,
        ck_max_checkpoint_bytes = 64 * 1024, ck_require_final_checkpoint = False,
        ck_allow_no_reply_completion = False\<rparr>,
      rp_resource_budget_policy = \<lparr>rb_tier = ''interactive_standard'',
        rb_max_model_calls = 32, rb_max_capability_invocations = 64\<rparr>,
      rp_personal_context_policy = ContextExcluded,
      rp_runtime_constraints = \<lparr>rc_allow_raw_runtime_backend_selection = False,
        rc_allow_broad_capability_surface = False\<rparr>,
      rp_runner_pool_id = None,
      rp_scheduling_class = ''interactive'',
      rp_concurrency_class = ''thread_serial'',
      rp_resolution_fingerprint = ''legacy-persisted-profile-v1'',
      rp_provenance = \<lparr>prov_sources =
          [\<lparr>src_layer = ''legacy_persistence'', src_source_ref = ''turn-run-profile:legacy:v1'',
            src_summary = ''legacy persisted turn run profile reconstructed without raw authority handles''\<rparr>],
        prov_effective_privileges = []\<rparr>\<rparr>)"

section \<open>Definitions and the registry (resolver.rs)\<close>

record run_profile_resolution_request =
  rq_requested_run_profile :: "run_profile_request option"
  rq_authority :: run_profile_request_authority
  rq_personal_context_authority :: personal_context_authority

definition interactive_default_request :: run_profile_resolution_request where
  "interactive_default_request = \<lparr>rq_requested_run_profile = None, rq_authority = AuthUser,
     rq_personal_context_authority = ContextDirect\<rparr>"

text \<open>The trait \<^verbatim>\<open>RunProfileResolver\<close>.\<close>

type_synonym run_profile_resolver =
  "run_profile_resolution_request \<Rightarrow> run_profile_resolution_error + resolved_run_profile"

record run_profile_definition =
  pd_profile_id :: run_profile_id
  pd_profile_version :: run_profile_version
  pd_run_class_id :: string
  pd_loop_driver :: agent_loop_driver_descriptor
  pd_checkpoint_schema_id :: string
  pd_checkpoint_schema_version :: run_profile_version
  pd_model_profile_id :: string
  pd_capability_surface_profile_id :: string
  pd_context_profile_id :: string
  pd_steering_policy :: steering_policy
  pd_cancellation_policy :: cancellation_policy
  pd_checkpoint_policy :: checkpoint_policy
  pd_resource_budget_policy :: resource_budget_policy
  pd_personal_context_policy :: personal_context_policy
  pd_runtime_constraints :: runtime_profile_constraints
  pd_runner_pool_id :: "string option"
  pd_scheduling_class :: string
  pd_concurrency_class :: string
  pd_required_privileges :: "privileged_run_profile_dimension list"

definition interactive_profile :: run_profile_definition where
  "interactive_profile =
    \<lparr>pd_profile_id = interactive_default,
     pd_profile_version = 1,
     pd_run_class_id = ''interactive_coding'',
     pd_loop_driver = \<lparr>drv_id = ''lightweight_loop'', drv_version = 1,
       drv_checkpoint_schema_id = Some ''interactive_checkpoint_v1'',
       drv_checkpoint_schema_version = Some 1\<rparr>,
     pd_checkpoint_schema_id = ''interactive_checkpoint_v1'',
     pd_checkpoint_schema_version = 1,
     pd_model_profile_id = ''interactive_model'',
     pd_capability_surface_profile_id = ''interactive_tools'',
     pd_context_profile_id = ''interactive_context'',
     pd_steering_policy = \<lparr>sp_allow_steering = True, sp_allow_interrupt = True,
       sp_allow_driver_specific_nudges = False\<rparr>,
     pd_cancellation_policy = \<lparr>cp_allow_cancel = True,
       cp_require_checkpoint_before_cancel = False\<rparr>,
     pd_checkpoint_policy = \<lparr>ck_require_before_model = False,
       ck_require_before_side_effect = True, ck_require_before_block = True,
       ck_max_checkpoint_bytes = 64 * 1024, ck_require_final_checkpoint = False,
       ck_allow_no_reply_completion = False\<rparr>,
     pd_resource_budget_policy = \<lparr>rb_tier = ''interactive_standard'',
       rb_max_model_calls = 32, rb_max_capability_invocations = 64\<rparr>,
     pd_personal_context_policy = ContextExcluded,
     pd_runtime_constraints = \<lparr>rc_allow_raw_runtime_backend_selection = False,
       rc_allow_broad_capability_surface = False\<rparr>,
     pd_runner_pool_id = None,
     pd_scheduling_class = ''interactive'',
     pd_concurrency_class = ''thread_serial'',
     pd_required_privileges = []\<rparr>"

definition long_running_mission_profile :: run_profile_definition where
  "long_running_mission_profile =
    \<lparr>pd_profile_id = long_running_mission,
     pd_profile_version = 1,
     pd_run_class_id = ''long_running_mission'',
     pd_loop_driver = \<lparr>drv_id = ''codeact_loop'', drv_version = 1,
       drv_checkpoint_schema_id = Some ''durable_mission_v1'',
       drv_checkpoint_schema_version = Some 1\<rparr>,
     pd_checkpoint_schema_id = ''durable_mission_v1'',
     pd_checkpoint_schema_version = 1,
     pd_model_profile_id = ''mission_model'',
     pd_capability_surface_profile_id = ''mission_tools'',
     pd_context_profile_id = ''mission_context'',
     pd_steering_policy = \<lparr>sp_allow_steering = True, sp_allow_interrupt = True,
       sp_allow_driver_specific_nudges = False\<rparr>,
     pd_cancellation_policy = \<lparr>cp_allow_cancel = True,
       cp_require_checkpoint_before_cancel = True\<rparr>,
     pd_checkpoint_policy = \<lparr>ck_require_before_model = True,
       ck_require_before_side_effect = True, ck_require_before_block = True,
       ck_max_checkpoint_bytes = 256 * 1024, ck_require_final_checkpoint = True,
       ck_allow_no_reply_completion = False\<rparr>,
     pd_resource_budget_policy = \<lparr>rb_tier = ''mission_high'',
       rb_max_model_calls = 256, rb_max_capability_invocations = 1024\<rparr>,
     pd_personal_context_policy = ContextExcluded,
     pd_runtime_constraints = \<lparr>rc_allow_raw_runtime_backend_selection = False,
       rc_allow_broad_capability_surface = False\<rparr>,
     pd_runner_pool_id = Some ''mission_workers'',
     pd_scheduling_class = ''background'',
     pd_concurrency_class = ''mission_serial'',
     pd_required_privileges = [LongRunningMission, SpecialDriver, RunnerPool]\<rparr>"

definition interactive_like ::
    "run_profile_id \<Rightarrow> agent_loop_driver_descriptor \<Rightarrow> string \<Rightarrow> run_profile_version \<Rightarrow> string
      \<Rightarrow> run_profile_definition" where
  "interactive_like pid driver schema_id schema_version surface =
    interactive_profile\<lparr>pd_profile_id := pid, pd_profile_version := drv_version driver,
      pd_loop_driver := driver, pd_checkpoint_schema_id := schema_id,
      pd_checkpoint_schema_version := schema_version,
      pd_capability_surface_profile_id := surface\<rparr>"

definition with_personal_context_policy ::
    "personal_context_policy \<Rightarrow> run_profile_definition \<Rightarrow> run_profile_definition" where
  "with_personal_context_policy p d = d\<lparr>pd_personal_context_policy := p\<rparr>"

type_synonym run_profile_registry = "run_profile_definition list"

definition with_builtin_profiles :: run_profile_registry where
  "with_builtin_profiles = [interactive_profile, long_running_mission_profile]"

definition registry_profile :: "run_profile_registry \<Rightarrow> string \<Rightarrow> run_profile_definition option" where
  "registry_profile reg pid = List.find (\<lambda>d. pd_profile_id d = pid) reg"

datatype run_profile_registry_error = InvalidProfile string | DuplicateProfile run_profile_id

definition registry_register ::
    "run_profile_definition \<Rightarrow> run_profile_registry
      \<Rightarrow> (run_profile_registry_error + unit) \<times> run_profile_registry" where
  "registry_register d reg =
    (if registry_profile reg (pd_profile_id d) \<noteq> None
     then (Err (DuplicateProfile (pd_profile_id d)), reg)
     else (Ok (), reg @ [d]))"

section \<open>Resolution\<close>

definition source_ref_for :: "run_profile_definition \<Rightarrow> string" where
  "source_ref_for d =
    (if pd_profile_id d = interactive_default then ''builtin:interactive_default:v1''
     else if pd_profile_id d = long_running_mission then ''builtin:long_running_mission:v1''
     else ''builtin:unknown:v1'')"

definition provenance_for ::
    "run_profile_definition \<Rightarrow> run_profile_resolution_request \<Rightarrow> redacted_run_profile_provenance" where
  "provenance_for d request =
    (let summary = (if rq_requested_run_profile request \<noteq> None
                    then ''requested profile accepted within policy ceiling''
                    else ''system default profile selected'') in
     \<lparr>prov_sources = [\<lparr>src_layer = ''system_default'', src_source_ref = source_ref_for d,
        src_summary = summary\<rparr>],
      prov_effective_privileges = pd_required_privileges d\<rparr>)"

definition resolve_resource_budget_policy ::
    "run_profile_definition \<Rightarrow> run_profile_resolution_request \<Rightarrow> redacted_run_profile_provenance
      \<Rightarrow> resource_budget_policy \<times> redacted_run_profile_provenance" where
  "resolve_resource_budget_policy d request prov =
    (let policy = pd_resource_budget_policy d in
     if rb_tier policy = ''mission_high'' \<and> \<not> authority_allows (rq_authority request) HighBudget
     then (\<lparr>rb_tier = ''mission_standard'',
            rb_max_model_calls = min (rb_max_model_calls policy) 128,
            rb_max_capability_invocations = min (rb_max_capability_invocations policy) 512\<rparr>,
           prov\<lparr>prov_sources := prov_sources prov @
             [\<lparr>src_layer = ''policy_ceiling'', src_source_ref = ''builtin:budget-ceiling:v1'',
               src_summary = ''resource budget clamped to mission_standard by policy ceiling''\<rparr>]\<rparr>)
     else (policy, prov))"

text \<open>FNV-1a over the bytes of the updated strings, printed as \<^verbatim>\<open>{:016x}\<close>.\<close>

definition fnv_byte :: "char \<Rightarrow> u64 \<Rightarrow> u64" where
  "fnv_byte c h = xor h (of_nat (byte c)) * 0x100000001b3"

definition fnv_update :: "string \<Rightarrow> u64 \<Rightarrow> u64" where
  "fnv_update v h = fold fnv_byte v h"

definition bool_str :: "bool \<Rightarrow> string" where
  "bool_str b = (if b then ''true'' else ''false'')"

definition u64_str :: "u64 \<Rightarrow> string" where
  "u64_str n = show_nat (unat n)"

definition u32_str :: "u32 \<Rightarrow> string" where
  "u32_str n = show_nat (unat n)"

definition hex_digit :: "nat \<Rightarrow> char" where
  "hex_digit d = char_of (if d < 10 then 48 + d else 87 + d)"

definition hex16 :: "u64 \<Rightarrow> string" where
  "hex16 n = map (\<lambda>i. hex_digit (unat n div 16 ^ i mod 16)) (rev [0..<16])"

definition fingerprint_pieces ::
    "run_profile_definition \<Rightarrow> resource_budget_policy \<Rightarrow> personal_context_policy
      \<Rightarrow> redacted_run_profile_provenance \<Rightarrow> string list" where
  "fingerprint_pieces d budget ctx prov =
    [pd_profile_id d, u64_str (pd_profile_version d), pd_run_class_id d,
     drv_id (pd_loop_driver d), u64_str (drv_version (pd_loop_driver d)),
     (case drv_checkpoint_schema_id (pd_loop_driver d) of Some i \<Rightarrow> i | None \<Rightarrow> ''none''),
     u64_str (case drv_checkpoint_schema_version (pd_loop_driver d) of Some v \<Rightarrow> v | None \<Rightarrow> 0),
     pd_checkpoint_schema_id d, u64_str (pd_checkpoint_schema_version d),
     pd_model_profile_id d, pd_capability_surface_profile_id d, pd_context_profile_id d,
     personal_context_policy_as_str ctx,
     bool_str (sp_allow_steering (pd_steering_policy d)),
     bool_str (sp_allow_interrupt (pd_steering_policy d)),
     bool_str (sp_allow_driver_specific_nudges (pd_steering_policy d)),
     bool_str (cp_allow_cancel (pd_cancellation_policy d)),
     bool_str (cp_require_checkpoint_before_cancel (pd_cancellation_policy d)),
     bool_str (ck_require_before_model (pd_checkpoint_policy d)),
     bool_str (ck_require_before_side_effect (pd_checkpoint_policy d)),
     bool_str (ck_require_before_block (pd_checkpoint_policy d)),
     u64_str (ck_max_checkpoint_bytes (pd_checkpoint_policy d)),
     bool_str (ck_require_final_checkpoint (pd_checkpoint_policy d)),
     bool_str (ck_allow_no_reply_completion (pd_checkpoint_policy d)),
     rb_tier budget, u32_str (rb_max_model_calls budget),
     u32_str (rb_max_capability_invocations budget),
     bool_str (rc_allow_raw_runtime_backend_selection (pd_runtime_constraints d)),
     bool_str (rc_allow_broad_capability_surface (pd_runtime_constraints d)),
     (case pd_runner_pool_id d of Some p \<Rightarrow> p | None \<Rightarrow> ''none''),
     pd_scheduling_class d, pd_concurrency_class d]
    @ map dimension_category (prov_effective_privileges prov)
    @ concat (map (\<lambda>s. [src_layer s, src_source_ref s, src_summary s]) (prov_sources prov))"

definition fingerprint_for ::
    "run_profile_definition \<Rightarrow> resource_budget_policy \<Rightarrow> personal_context_policy
      \<Rightarrow> redacted_run_profile_provenance \<Rightarrow> string" where
  "fingerprint_for d budget ctx prov =
    ''fp:'' @ hex16 (fold fnv_update (fingerprint_pieces d budget ctx prov) 0xcbf29ce484222325)"

definition resolve_definition ::
    "run_profile_definition \<Rightarrow> run_profile_resolution_request \<Rightarrow> resolved_run_profile" where
  "resolve_definition d request =
    (let (budget, prov) = resolve_resource_budget_policy d request (provenance_for d request);
         ctx = (if pd_personal_context_policy d = ContextAllowed
                   \<and> rq_personal_context_authority request = ContextShared
                then ContextExcluded else pd_personal_context_policy d);
         fp = fingerprint_for d budget ctx prov in
     \<lparr>rp_run_class_id = pd_run_class_id d,
      rp_profile_id = pd_profile_id d,
      rp_profile_version = pd_profile_version d,
      rp_loop_driver = pd_loop_driver d,
      rp_checkpoint_schema_id = pd_checkpoint_schema_id d,
      rp_checkpoint_schema_version = pd_checkpoint_schema_version d,
      rp_model_profile_id = pd_model_profile_id d,
      rp_capability_surface_profile_id = pd_capability_surface_profile_id d,
      rp_context_profile_id = pd_context_profile_id d,
      rp_steering_policy = pd_steering_policy d,
      rp_cancellation_policy = pd_cancellation_policy d,
      rp_checkpoint_policy = pd_checkpoint_policy d,
      rp_resource_budget_policy = budget,
      rp_personal_context_policy = ctx,
      rp_runtime_constraints = pd_runtime_constraints d,
      rp_runner_pool_id = pd_runner_pool_id d,
      rp_scheduling_class = pd_scheduling_class d,
      rp_concurrency_class = pd_concurrency_class d,
      rp_resolution_fingerprint = fp,
      rp_provenance = prov\<rparr>)"

record in_memory_run_profile_resolver =
  rs_registry :: run_profile_registry
  rs_implicit_default_profile_id :: run_profile_id

definition resolver_default :: in_memory_run_profile_resolver where
  "resolver_default = \<lparr>rs_registry = with_builtin_profiles,
     rs_implicit_default_profile_id = interactive_default\<rparr>"

fun first_denied ::
    "run_profile_request_authority \<Rightarrow> privileged_run_profile_dimension list
      \<Rightarrow> privileged_run_profile_dimension option" where
  "first_denied a [] = None"
| "first_denied a (d # ds) = (if \<not> authority_allows a d then Some d else first_denied a ds)"

definition resolve_run_profile :: "in_memory_run_profile_resolver \<Rightarrow> run_profile_resolver" where
  "resolve_run_profile r request =
    (let requested = rq_requested_run_profile request;
         key = (case requested of
                  None \<Rightarrow> rs_implicit_default_profile_id r
                | Some name \<Rightarrow> if name = ''default'' then rs_implicit_default_profile_id r else name) in
     case registry_profile (rs_registry r) key of
       None \<Rightarrow> Err (ProfileUnavailable (case requested of Some name \<Rightarrow> name | None \<Rightarrow> key))
     | Some d \<Rightarrow>
        (case first_denied (rq_authority request) (pd_required_privileges d) of
           Some dim \<Rightarrow> Err (ProfileUnauthorized dim)
         | None \<Rightarrow> Ok (resolve_definition d request)))"

end
