(* ===== verification/Model_Route.thy ===== *)
theory Model_Route
  imports Text
begin

text \<open>
  Resolved model routes: \<^verbatim>\<open>LoopModelRouteSnapshot\<close> of
  \<^verbatim>\<open>ironclaw_turns/src/run_profile/host.rs\<close> and its validator, which bounds every
  component, restricts its alphabet and rejects credential markers.
\<close>

record loop_model_route_snapshot =
  mr_provider_id :: string
  mr_model_id :: string
  mr_config_version :: string
  mr_auth_version :: string

definition FORBIDDEN_MODEL_ROUTE_MARKERS :: "string list" where
  "FORBIDDEN_MODEL_ROUTE_MARKERS =
    [''access_token'', ''api_key'', ''apikey'', ''authorization'', ''password'', ''passwd'', ''secret'']"

definition FORBIDDEN_EXACT_MODEL_ROUTE_MARKERS :: "string list" where
  "FORBIDDEN_EXACT_MODEL_ROUTE_MARKERS = [''bearer'']"

definition validate_bounded_loop_string :: "string \<Rightarrow> string \<Rightarrow> usize \<Rightarrow> string + string" where
  "validate_bounded_loop_string v label max_bytes =
    (if v = [] then Err (label @ '' must not be empty'')
     else if length v > max_bytes
     then Err (label @ '' must be at most '' @ show_nat max_bytes @ '' bytes'')
     else if contains_control v then Err (label @ '' must not contain NUL/control characters'')
     else Ok v)"

definition model_route_marker_tokens :: "string \<Rightarrow> string list" where
  "model_route_marker_tokens v =
    filter (\<lambda>t. t \<noteq> [])
      (split_on (\<lambda>c. \<not> is_ascii_alphanumeric c \<and> c \<noteq> CHR ''-'' \<and> c \<noteq> CHR ''_'') v)"

definition token_contains_sensitive_marker :: "string \<Rightarrow> string \<Rightarrow> bool" where
  "token_contains_sensitive_marker token marker =
    (let n = map (\<lambda>c. if c = CHR ''-'' then CHR ''_'' else c) token in
     n = marker \<or> prefix (marker @ ''_'') n \<or> suffix (''_'' @ marker) n
     \<or> str_contains (''_'' @ marker @ ''_'') n)"

definition forbidden_token :: "string \<Rightarrow> bool" where
  "forbidden_token token =
    (token \<in> set FORBIDDEN_EXACT_MODEL_ROUTE_MARKERS
     \<or> list_ex (token_contains_sensitive_marker token) FORBIDDEN_MODEL_ROUTE_MARKERS
     \<or> prefix ''sk-'' token)"

definition reject_sensitive_model_route_markers :: "string \<Rightarrow> string \<Rightarrow> string + unit" where
  "reject_sensitive_model_route_markers label v =
    (if list_ex forbidden_token (model_route_marker_tokens (map to_ascii_lowercase v))
     then Err (label @ '' contains a forbidden marker'') else Ok ())"

definition validate_model_route_component_value ::
    "string \<Rightarrow> string \<Rightarrow> usize \<Rightarrow> (char \<Rightarrow> bool) \<Rightarrow> string + unit" where
  "validate_model_route_component_value label v max_bytes allowed =
    (case validate_bounded_loop_string v label max_bytes of
       Err e \<Rightarrow> Err e
     | Ok _ \<Rightarrow>
        (if has_surrounding_whitespace v
         then Err (label @ '' must not contain surrounding whitespace'')
         else if \<not> list_all allowed v then Err (label @ '' contains unsupported characters'')
         else reject_sensitive_model_route_markers label v))"

definition route_provider_char :: "char \<Rightarrow> bool" where
  "route_provider_char c = (is_ascii_alphanumeric c \<or> c \<in> set ''_-.'')"

definition route_model_char :: "char \<Rightarrow> bool" where
  "route_model_char c = (is_ascii_alphanumeric c \<or> c \<in> set ''_-.:/'')"

definition route_version_char :: "char \<Rightarrow> bool" where
  "route_version_char c = (is_ascii_alphanumeric c \<or> c \<in> set ''_-.:'')"

definition route_validate :: "loop_model_route_snapshot \<Rightarrow> string + unit" where
  "route_validate s =
    (case validate_model_route_component_value ''provider_id'' (mr_provider_id s) 128 route_provider_char of
       Err e \<Rightarrow> Err e
     | Ok _ \<Rightarrow>
    (case validate_model_route_component_value ''model_id'' (mr_model_id s) 256 route_model_char of
       Err e \<Rightarrow> Err e
     | Ok _ \<Rightarrow>
    (case validate_model_route_component_value ''config_version'' (mr_config_version s) 128 route_version_char of
       Err e \<Rightarrow> Err e
     | Ok _ \<Rightarrow>
       validate_model_route_component_value ''auth_version'' (mr_auth_version s) 128 route_version_char)))"

lemma validate_component_Ok:
  "validate_model_route_component_value label v n allowed = Ok u \<longleftrightarrow>
    v \<noteq> [] \<and> length v \<le> n \<and> \<not> contains_control v \<and> \<not> has_surrounding_whitespace v
    \<and> list_all allowed v
    \<and> list_all (\<lambda>t. \<not> forbidden_token t) (model_route_marker_tokens (map to_ascii_lowercase v))"
  by (auto simp: validate_model_route_component_value_def validate_bounded_loop_string_def
      reject_sensitive_model_route_markers_def list_ex_iff list_all_iff)

end
