(* ===== verification/Turn_Types.thy ===== *)
theory Turn_Types
  imports Turn_Admission Run_Profile Model_Route
begin

text \<open>
  The vocabulary of the turn runtime: statuses and errors (\<^verbatim>\<open>status.rs\<close>), requests
  (\<^verbatim>\<open>request.rs\<close>), responses (\<^verbatim>\<open>response.rs\<close>), runner requests (\<^verbatim>\<open>runner.rs\<close>) and
  checkpoint records (\<^verbatim>\<open>checkpoint_state.rs\<close>), all under \<^verbatim>\<open>ironclaw_turns/src\<close>.
  Field names carry a prefix for their record, since the sources reuse names such
  as \<^verbatim>\<open>scope\<close> and \<^verbatim>\<open>run_id\<close> in almost every struct.
\<close>

section \<open>Statuses (status.rs)\<close>

datatype turn_status =
    Queued | Running | BlockedApproval | BlockedAuth | BlockedResource | BlockedDependentRun
  | CancelRequested | Cancelled | Completed | Failed | RecoveryRequired

definition is_terminal :: "turn_status \<Rightarrow> bool" where
  "is_terminal s = (case s of
     Cancelled \<Rightarrow> True | Completed \<Rightarrow> True | Failed \<Rightarrow> True | RecoveryRequired \<Rightarrow> True | _ \<Rightarrow> False)"

definition keeps_active_lock :: "turn_status \<Rightarrow> bool" where
  "keeps_active_lock s = (\<not> is_terminal s)"

datatype turn_active_run_ref_state = RefMissing | RefNonterminal | RefTerminal

record turn_run_profile =
  tp_id :: run_profile_id
  tp_version :: run_profile_version
  tp_admission_class :: turn_admission_class
  tp_allow_steering :: bool
  tp_auto_queue_followups :: bool
  tp_resolved :: resolved_run_profile

definition compatibility_profile_id :: "resolved_run_profile \<Rightarrow> run_profile_id" where
  "compatibility_profile_id r =
    (if is_interactive_default (rp_profile_id r) then default_profile else rp_profile_id r)"

definition from_resolved :: "resolved_run_profile \<Rightarrow> turn_run_profile" where
  "from_resolved r =
    \<lparr>tp_id = compatibility_profile_id r,
     tp_version = rp_profile_version r,
     tp_admission_class = interactive_class,
     tp_allow_steering = sp_allow_steering (rp_steering_policy r),
     tp_auto_queue_followups = False,
     tp_resolved = r\<rparr>"

record runtime_credential_auth_requirement =
  ca_provider :: string
  ca_requester_extension :: string
  ca_provider_scopes :: "string list"

datatype blocked_reason =
    Approval gate_ref
  | Auth gate_ref "runtime_credential_auth_requirement list"
  | Resource gate_ref
  | AwaitDependentRun gate_ref

definition reason_status :: "blocked_reason \<Rightarrow> turn_status" where
  "reason_status r = (case r of
     Approval _ \<Rightarrow> BlockedApproval
   | Auth _ _ \<Rightarrow> BlockedAuth
   | Resource _ \<Rightarrow> BlockedResource
   | AwaitDependentRun _ \<Rightarrow> BlockedDependentRun)"

definition reason_gate_ref :: "blocked_reason \<Rightarrow> gate_ref" where
  "reason_gate_ref r = (case r of
     Approval g \<Rightarrow> g | Auth g _ \<Rightarrow> g | Resource g \<Rightarrow> g | AwaitDependentRun g \<Rightarrow> g)"

definition reason_credential_requirements ::
    "blocked_reason \<Rightarrow> runtime_credential_auth_requirement list" where
  "reason_credential_requirements r = (case r of Auth _ cs \<Rightarrow> cs | _ \<Rightarrow> [])"

text \<open>\<^verbatim>\<open>SanitizedFailure\<close> is its category.\<close>

type_synonym sanitized_failure = string

definition validate_sanitized_category :: "string \<Rightarrow> string \<Rightarrow> string + unit" where
  "validate_sanitized_category kind v =
    (if v = [] then Err (kind @ '' must not be empty'')
     else if length v > 256 then Err (kind @ '' must be at most 256 bytes'')
     else if contains_control v then Err (kind @ '' must not contain control characters'')
     else if \<not> list_all (\<lambda>c. is_ascii_lowercase c \<or> is_ascii_digit c \<or> c = CHR ''_'') v
     then Err (kind @ '' must contain only lowercase ASCII letters, digits, or underscores'')
     else Ok ())"

definition sanitized_failure_new :: "string \<Rightarrow> string + sanitized_failure" where
  "sanitized_failure_new v =
    (case validate_sanitized_category ''failure_category'' v of Err e \<Rightarrow> Err e | Ok _ \<Rightarrow> Ok v)"

datatype sanitized_cancel_reason = UserRequested | Superseded | Timeout | OperatorRequested | PolicyReason

definition cancel_category :: "sanitized_cancel_reason \<Rightarrow> string" where
  "cancel_category r = (case r of
     UserRequested \<Rightarrow> ''user_requested''
   | Superseded \<Rightarrow> ''superseded''
   | Timeout \<Rightarrow> ''timeout''
   | OperatorRequested \<Rightarrow> ''operator_requested''
   | PolicyReason \<Rightarrow> ''policy'')"

datatype admission_rejection_reason =
    TenantLimit | ProfileRejected | PolicyRejected | RejectedUnauthorized | RejectedUnavailable

definition rejection_category :: "admission_rejection_reason \<Rightarrow> string" where
  "rejection_category r = (case r of
     TenantLimit \<Rightarrow> ''tenant_limit''
   | ProfileRejected \<Rightarrow> ''profile_rejected''
   | PolicyRejected \<Rightarrow> ''policy''
   | RejectedUnauthorized \<Rightarrow> ''unauthorized''
   | RejectedUnavailable \<Rightarrow> ''unavailable'')"

record admission_rejection =
  rej_reason :: admission_rejection_reason
  rej_retry_after_ms :: "u64 option"
  rej_capacity_denial :: "turn_admission_capacity_denial option"

definition admission_rejection_new :: "admission_rejection_reason \<Rightarrow> admission_rejection" where
  "admission_rejection_new r =
    \<lparr>rej_reason = r, rej_retry_after_ms = None, rej_capacity_denial = None\<rparr>"

definition with_capacity_denial ::
    "turn_admission_capacity_denial \<Rightarrow> admission_rejection \<Rightarrow> admission_rejection" where
  "with_capacity_denial d r =
    r\<lparr>rej_retry_after_ms := den_retry_after_ms d, rej_capacity_denial := Some d\<rparr>"

record turn_run_state =
  rst_scope :: turn_scope
  rst_actor :: "turn_actor option"
  rst_turn_id :: turn_id
  rst_run_id :: turn_run_id
  rst_status :: turn_status
  rst_accepted_message_ref :: accepted_message_ref
  rst_source_binding_ref :: source_binding_ref
  rst_reply_target_binding_ref :: reply_target_binding_ref
  rst_resolved_run_profile_id :: run_profile_id
  rst_resolved_run_profile_version :: run_profile_version
  rst_resolved_model_route :: "loop_model_route_snapshot option"
  rst_received_at :: timestamp
  rst_checkpoint_id :: "turn_checkpoint_id option"
  rst_gate_ref :: "gate_ref option"
  rst_credential_requirements :: "runtime_credential_auth_requirement list"
  rst_failure :: "sanitized_failure option"
  rst_event_cursor :: event_cursor

section \<open>Responses (response.rs)\<close>

datatype submit_turn_response =
  Accepted
    (acc_turn_id: turn_id)
    (acc_run_id: turn_run_id)
    (acc_status: turn_status)
    (acc_profile_id: run_profile_id)
    (acc_profile_version: run_profile_version)
    (acc_event_cursor: event_cursor)
    (acc_message_ref: accepted_message_ref)
    (acc_reply_target: reply_target_binding_ref)

record thread_busy =
  tb_active_run_id :: turn_run_id
  tb_status :: turn_status
  tb_event_cursor :: event_cursor

record resume_turn_response =
  rsm_run_id :: turn_run_id
  rsm_status :: turn_status
  rsm_event_cursor :: event_cursor

record cancel_run_response =
  can_run_id :: turn_run_id
  can_status :: turn_status
  can_event_cursor :: event_cursor
  can_already_terminal :: bool
  can_actor :: "turn_actor option"

section \<open>Errors (status.rs)\<close>

datatype turn_error_category =
    CatThreadBusy | CatAdmissionRejected | CatScopeNotFound | CatUnauthorized
  | CatInvalidRequest | CatUnavailable | CatConflict | CatCapacityExceeded

datatype turn_capacity_resource = SpawnTreeDescendants | SubmitTurn | Replayed

definition capacity_resource_as_str :: "turn_capacity_resource \<Rightarrow> string" where
  "capacity_resource_as_str r = (case r of
     SpawnTreeDescendants \<Rightarrow> ''spawn_tree_descendants''
   | SubmitTurn \<Rightarrow> ''submit_turn''
   | Replayed \<Rightarrow> ''replayed'')"

datatype turn_error =
    ThreadBusy thread_busy
  | AdmissionRejected admission_rejection
  | ScopeNotFound
  | Unauthorized
  | InvalidRequest string
  | Unavailable string
  | Conflict string
  | CapacityExceeded turn_capacity_resource u64
  | InvalidTransition turn_status turn_status
  | LeaseMismatch

definition error_category :: "turn_error \<Rightarrow> turn_error_category" where
  "error_category e = (case e of
     ThreadBusy _ \<Rightarrow> CatThreadBusy
   | AdmissionRejected r \<Rightarrow> (case rej_reason r of
       TenantLimit \<Rightarrow> CatAdmissionRejected
     | ProfileRejected \<Rightarrow> CatInvalidRequest
     | PolicyRejected \<Rightarrow> CatUnauthorized
     | RejectedUnauthorized \<Rightarrow> CatUnauthorized
     | RejectedUnavailable \<Rightarrow> CatUnavailable)
   | ScopeNotFound \<Rightarrow> CatScopeNotFound
   | Unauthorized \<Rightarrow> CatUnauthorized
   | InvalidRequest _ \<Rightarrow> CatInvalidRequest
   | Unavailable _ \<Rightarrow> CatUnavailable
   | Conflict _ \<Rightarrow> CatConflict
   | InvalidTransition _ _ \<Rightarrow> CatConflict
   | LeaseMismatch \<Rightarrow> CatConflict
   | CapacityExceeded _ _ \<Rightarrow> CatCapacityExceeded)"

definition is_expected_admission_outcome :: "turn_error \<Rightarrow> bool" where
  "is_expected_admission_outcome e =
    (case e of ThreadBusy _ \<Rightarrow> True | AdmissionRejected _ \<Rightarrow> True | _ \<Rightarrow> False)"

definition adapter_status_code :: "turn_error \<Rightarrow> u16" where
  "adapter_status_code e = (case error_category e of
     CatThreadBusy \<Rightarrow> 409 | CatConflict \<Rightarrow> 409 | CatAdmissionRejected \<Rightarrow> 429
   | CatCapacityExceeded \<Rightarrow> 429 | CatScopeNotFound \<Rightarrow> 404 | CatUnauthorized \<Rightarrow> 403
   | CatInvalidRequest \<Rightarrow> 400 | CatUnavailable \<Rightarrow> 503)"

type_synonym 'a turn_result = "turn_error + 'a"

section \<open>Requests (request.rs)\<close>

datatype resume_turn_precondition =
    AnyBlockedGate | BlockedApprovalGate | BlockedAuthGate | BlockedResourceGate
  | BlockedDependentRunGate

definition required_status :: "resume_turn_precondition \<Rightarrow> turn_status option" where
  "required_status p = (case p of
     AnyBlockedGate \<Rightarrow> None
   | BlockedApprovalGate \<Rightarrow> Some BlockedApproval
   | BlockedAuthGate \<Rightarrow> Some BlockedAuth
   | BlockedResourceGate \<Rightarrow> Some BlockedResource
   | BlockedDependentRunGate \<Rightarrow> Some BlockedDependentRun)"

record submit_turn_request =
  sub_scope :: turn_scope
  sub_actor :: turn_actor
  sub_accepted_message_ref :: accepted_message_ref
  sub_source_binding_ref :: source_binding_ref
  sub_reply_target_binding_ref :: reply_target_binding_ref
  sub_requested_run_profile :: "run_profile_request option"
  sub_idempotency_key :: idempotency_key
  sub_received_at :: timestamp
  sub_requested_run_id :: "turn_run_id option"
  sub_parent_run_id :: "turn_run_id option"
  sub_subagent_depth :: u32
  sub_spawn_tree_root_run_id :: "turn_run_id option"

record submit_child_run_request =
  chd_parent_scope :: turn_scope
  chd_parent_run_id :: turn_run_id
  chd_child_scope :: turn_scope
  chd_actor :: turn_actor
  chd_accepted_message_ref :: accepted_message_ref
  chd_source_binding_ref :: source_binding_ref
  chd_reply_target_binding_ref :: reply_target_binding_ref
  chd_requested_run_profile :: "run_profile_request option"
  chd_idempotency_key :: idempotency_key
  chd_received_at :: timestamp
  chd_requested_run_id :: "turn_run_id option"
  chd_spawn_tree_descendant_cap :: u32

record resume_turn_request =
  res_scope :: turn_scope
  res_actor :: turn_actor
  res_run_id :: turn_run_id
  res_gate_resolution_ref :: gate_ref
  res_source_binding_ref :: source_binding_ref
  res_reply_target_binding_ref :: reply_target_binding_ref
  res_idempotency_key :: idempotency_key
  res_precondition :: resume_turn_precondition

record cancel_run_request =
  cr_scope :: turn_scope
  cr_actor :: turn_actor
  cr_run_id :: turn_run_id
  cr_reason :: sanitized_cancel_reason
  cr_idempotency_key :: idempotency_key

record get_run_state_request =
  gs_scope :: turn_scope
  gs_run_id :: turn_run_id

section \<open>Checkpoints (checkpoint\_state.rs, host.rs)\<close>

datatype loop_checkpoint_kind = BeforeModel | BeforeSideEffect | BeforeBlock | Final

type_synonym loop_checkpoint_state_ref = string

record loop_checkpoint_record =
  lc_checkpoint_id :: turn_checkpoint_id
  lc_scope :: turn_scope
  lc_turn_id :: turn_id
  lc_run_id :: turn_run_id
  lc_state_ref :: loop_checkpoint_state_ref
  lc_schema_id :: string
  lc_schema_version :: run_profile_version
  lc_kind :: loop_checkpoint_kind
  lc_gate_ref :: "loop_gate_ref option"
  lc_created_at :: timestamp

record put_loop_checkpoint_request =
  plc_scope :: turn_scope
  plc_turn_id :: turn_id
  plc_run_id :: turn_run_id
  plc_state_ref :: loop_checkpoint_state_ref
  plc_schema_id :: string
  plc_schema_version :: run_profile_version
  plc_kind :: loop_checkpoint_kind
  plc_gate_ref :: "loop_gate_ref option"

record get_loop_checkpoint_request =
  glc_scope :: turn_scope
  glc_turn_id :: turn_id
  glc_run_id :: turn_run_id
  glc_checkpoint_id :: turn_checkpoint_id

section \<open>Runner requests (runner.rs)\<close>

record claim_run_request =
  clm_runner_id :: turn_runner_id
  clm_lease_token :: turn_lease_token
  clm_scope_filter :: "turn_scope option"

record claimed_turn_run =
  clr_state :: turn_run_state
  clr_resolved_run_profile :: resolved_run_profile
  clr_runner_id :: turn_runner_id
  clr_lease_token :: turn_lease_token

text \<open>The lease a runner presents: the three fields every runner request starts with.\<close>

record lease_request =
  lr_run_id :: turn_run_id
  lr_runner_id :: turn_runner_id
  lr_lease_token :: turn_lease_token

record recover_expired_leases_request =
  rec_now :: timestamp
  rec_scope_filter :: "turn_scope option"

record record_model_route_snapshot_request = lease_request +
  rmr_snapshot :: loop_model_route_snapshot

record block_run_request = lease_request +
  blk_checkpoint_id :: turn_checkpoint_id
  blk_state_ref :: loop_checkpoint_state_ref
  blk_reason :: blocked_reason

record fail_run_request = lease_request +
  fl_failure :: sanitized_failure

datatype turn_runner_outcome =
    OutCompleted
  | OutCancelled
  | OutBlocked turn_checkpoint_id loop_checkpoint_state_ref blocked_reason
  | OutFailed sanitized_failure

datatype loop_exit_mapping =
    RunnerOutcome turn_runner_outcome
  | MapRecoveryRequired sanitized_failure

record apply_validated_loop_exit_request = lease_request +
  ale_mapping :: loop_exit_mapping

section \<open>Lemmas\<close>

lemma is_terminal_simps [simp]:
  "\<not> is_terminal Queued" "\<not> is_terminal Running" "\<not> is_terminal BlockedApproval"
  "\<not> is_terminal BlockedAuth" "\<not> is_terminal BlockedResource" "\<not> is_terminal BlockedDependentRun"
  "\<not> is_terminal CancelRequested" "is_terminal Cancelled" "is_terminal Completed"
  "is_terminal Failed" "is_terminal RecoveryRequired"
  by (simp_all add: is_terminal_def)

lemma reason_status_live [simp]:
  "\<not> is_terminal (reason_status r)" "reason_status r \<noteq> Queued" "reason_status r \<noteq> Running"
  "reason_status r \<noteq> CancelRequested"
  by (cases r; simp add: reason_status_def)+

lemma required_status_blocked:
  "required_status p = Some s \<Longrightarrow> s \<in> {BlockedApproval, BlockedAuth, BlockedResource, BlockedDependentRun}"
  by (cases p) (auto simp: required_status_def)

end
