(* ===== verification/Turn_Events.thy ===== *)
theory Turn_Events
  imports Turn_Types
begin

text \<open>
  Lifecycle events and their projection: \<^verbatim>\<open>ironclaw_turns/src/events.rs\<close>. A reader asks
  for the events of one scope after a cursor; \<^verbatim>\<open>project_turn_events\<close> answers with a page
  or, when retention has dropped events the reader has not seen, with a rebase
  cursor. The service checks the request, calls a source through the trait
  \<^verbatim>\<open>TurnEventProjectionSource\<close> (the locale \<^verbatim>\<open>event_projection_source\<close> of \<^verbatim>\<open>Turn_Projection\<close>) and strips what a
  transport must not see.
\<close>

section \<open>Events\<close>

datatype turn_event_kind =
    EvSubmitted | EvResumed | EvRunnerClaimed | EvRunnerHeartbeat | EvRecoveryRequired
  | EvBlocked | EvCancelRequested | EvCancelled | EvCompleted | EvFailed

datatype turn_blocked_gate_kind = GateApproval | GateAuth | GateResource | GateAwaitDependentRun

definition gate_kind_from_status :: "turn_status \<Rightarrow> turn_blocked_gate_kind option" where
  "gate_kind_from_status s = (case s of
     BlockedApproval \<Rightarrow> Some GateApproval
   | BlockedAuth \<Rightarrow> Some GateAuth
   | BlockedResource \<Rightarrow> Some GateResource
   | BlockedDependentRun \<Rightarrow> Some GateAwaitDependentRun
   | _ \<Rightarrow> None)"

record turn_blocked_gate_metadata =
  bg_gate_ref :: gate_ref
  bg_gate_kind :: turn_blocked_gate_kind
  bg_credential_requirements :: "runtime_credential_auth_requirement list"

record turn_lifecycle_event =
  ev_cursor :: event_cursor
  ev_scope :: turn_scope
  ev_occurred_at :: "timestamp option"
  ev_owner_user_id :: "user_id option"
  ev_run_id :: turn_run_id
  ev_status :: turn_status
  ev_kind :: turn_event_kind
  ev_blocked_gate :: "turn_blocked_gate_metadata option"
  ev_sanitized_reason :: "string option"

definition lifecycle_owner_user_id :: "turn_scope \<Rightarrow> user_id option \<Rightarrow> user_id option" where
  "lifecycle_owner_user_id scope fallback =
    (case explicit_owner_user_id scope of Some u \<Rightarrow> Some u | None \<Rightarrow> fallback)"

definition blocked_gate_of ::
    "turn_event_kind \<Rightarrow> gate_ref option \<Rightarrow> turn_status \<Rightarrow> runtime_credential_auth_requirement list
      \<Rightarrow> turn_blocked_gate_metadata option" where
  "blocked_gate_of kind gate status creds =
    (if kind = EvBlocked
     then Option.bind gate (\<lambda>g. map_option (\<lambda>k. \<lparr>bg_gate_ref = g, bg_gate_kind = k,
            bg_credential_requirements = creds\<rparr>) (gate_kind_from_status status))
     else None)"

definition event_from_run_state ::
    "timestamp \<Rightarrow> turn_run_state \<Rightarrow> turn_event_kind \<Rightarrow> string option \<Rightarrow> turn_lifecycle_event" where
  "event_from_run_state now st kind reason =
    \<lparr>ev_cursor = rst_event_cursor st,
     ev_scope = rst_scope st,
     ev_occurred_at = Some now,
     ev_owner_user_id = lifecycle_owner_user_id (rst_scope st) (map_option ac_user_id (rst_actor st)),
     ev_run_id = rst_run_id st,
     ev_status = rst_status st,
     ev_kind = kind,
     ev_blocked_gate = blocked_gate_of kind (rst_gate_ref st) (rst_status st)
       (rst_credential_requirements st),
     ev_sanitized_reason = reason\<rparr>"

definition into_public_projection_entry :: "turn_lifecycle_event \<Rightarrow> turn_lifecycle_event" where
  "into_public_projection_entry e = e\<lparr>ev_blocked_gate := None, ev_owner_user_id := None\<rparr>"

definition MAX_IN_MEMORY_EVENTS :: usize where
  "MAX_IN_MEMORY_EVENTS = 10000"

definition event_sink_publish ::
    "turn_lifecycle_event \<Rightarrow> turn_lifecycle_event list \<Rightarrow> turn_lifecycle_event list" where
  "event_sink_publish e events =
    (let events = events @ [e] in
     if length events > MAX_IN_MEMORY_EVENTS
     then drop (length events - MAX_IN_MEMORY_EVENTS) events else events)"

section \<open>Projection\<close>

record turn_event_page =
  pg_entries :: "turn_lifecycle_event list"
  pg_next_cursor :: event_cursor
  pg_truncated :: bool
  pg_rebase_required :: "event_cursor option"

definition event_visible ::
    "turn_scope \<Rightarrow> user_id option \<Rightarrow> turn_lifecycle_event \<Rightarrow> bool" where
  "event_visible scope owner e =
    (ev_scope e = scope
     \<and> (case owner of None \<Rightarrow> True | Some u \<Rightarrow> ev_owner_user_id e = Some u))"

definition project_turn_events ::
    "turn_lifecycle_event list \<Rightarrow> turn_scope \<Rightarrow> user_id option \<Rightarrow> event_cursor option \<Rightarrow> usize
      \<Rightarrow> event_cursor \<Rightarrow> turn_event_page" where
  "project_turn_events events scope owner after limit retention_floor =
    (let after = (case after of Some c \<Rightarrow> c | None \<Rightarrow> 0);
         scoped = sort_key ev_cursor (filter (event_visible scope owner) events);
         latest = (if scoped = [] then None else Some (ev_cursor (last scoped)));
         rebase =
           (if retention_floor > 0 \<and> after < retention_floor then Some retention_floor
            else case latest of
                Some l \<Rightarrow> if after > l then Some l else None
              | None \<Rightarrow> if after > retention_floor then Some retention_floor else None) in
     case rebase of
       Some c \<Rightarrow> \<lparr>pg_entries = [], pg_next_cursor = c, pg_truncated = False,
                  pg_rebase_required = Some c\<rparr>
     | None \<Rightarrow>
        (let matching = filter (\<lambda>e. ev_cursor e > after) scoped;
             truncated = (length matching > limit);
             matching = (if truncated then take limit matching else matching);
             next_c = (if matching = [] then after else ev_cursor (last matching)) in
         \<lparr>pg_entries = matching, pg_next_cursor = next_c, pg_truncated = truncated,
          pg_rebase_required = None\<rparr>))"

record turn_event_projection_cursor =
  pc_event :: event_cursor
  pc_scope :: turn_scope

definition cursor_for_scope :: "turn_scope \<Rightarrow> event_cursor \<Rightarrow> turn_event_projection_cursor" where
  "cursor_for_scope scope event = \<lparr>pc_event = event, pc_scope = scope\<rparr>"

definition origin_for_scope :: "turn_scope \<Rightarrow> turn_event_projection_cursor" where
  "origin_for_scope scope = \<lparr>pc_event = 0, pc_scope = scope\<rparr>"

record turn_event_projection_request =
  pr_scope :: turn_scope
  pr_owner_user_id :: "user_id option"
  pr_after :: "turn_event_projection_cursor option"
  pr_limit :: usize

record turn_event_projection_snapshot =
  ps_entries :: "turn_lifecycle_event list"
  ps_next_cursor :: turn_event_projection_cursor
  ps_truncated :: bool

datatype turn_event_projection_error =
    ProjectionInvalidRequest string
  | RebaseRequired (requested: turn_event_projection_cursor) (earliest: turn_event_projection_cursor)
  | Source string

definition MAX_TURN_EVENT_PROJECTION_LIMIT :: usize where
  "MAX_TURN_EVENT_PROJECTION_LIMIT = 1000"

type_synonym projection_source =
  "turn_scope \<Rightarrow> user_id option \<Rightarrow> event_cursor option \<Rightarrow> usize \<Rightarrow> turn_event_page turn_result"

definition projection_read ::
    "projection_source \<Rightarrow> turn_event_projection_request
      \<Rightarrow> turn_event_projection_error + turn_event_projection_snapshot" where
  "projection_read source request =
    (if pr_limit request = 0 \<or> pr_limit request > MAX_TURN_EVENT_PROJECTION_LIMIT
     then Err (ProjectionInvalidRequest ''limit must be between 1 and MAX_TURN_EVENT_PROJECTION_LIMIT'')
     else case pr_after request of
       Some cursor \<Rightarrow>
         if pc_scope cursor \<noteq> pr_scope request
         then Err (RebaseRequired cursor (origin_for_scope (pr_scope request)))
         else
          (case source (pr_scope request) (pr_owner_user_id request) (Some (pc_event cursor)) (pr_limit request) of
             Err _ \<Rightarrow> Err (Source ''read_turn_events_after'')
           | Ok page \<Rightarrow>
              (case pg_rebase_required page of
                 Some c \<Rightarrow> Err (RebaseRequired cursor (cursor_for_scope (pr_scope request) c))
               | None \<Rightarrow> Ok \<lparr>ps_entries = map into_public_projection_entry (pg_entries page),
                              ps_next_cursor = cursor_for_scope (pr_scope request) (pg_next_cursor page),
                              ps_truncated = pg_truncated page\<rparr>))
     | None \<Rightarrow>
        (case source (pr_scope request) (pr_owner_user_id request) None (pr_limit request) of
           Err _ \<Rightarrow> Err (Source ''read_turn_events_after'')
         | Ok page \<Rightarrow>
            (case pg_rebase_required page of
               Some c \<Rightarrow> Err (RebaseRequired (origin_for_scope (pr_scope request))
                             (cursor_for_scope (pr_scope request) c))
             | None \<Rightarrow> Ok \<lparr>ps_entries = map into_public_projection_entry (pg_entries page),
                            ps_next_cursor = cursor_for_scope (pr_scope request) (pg_next_cursor page),
                            ps_truncated = pg_truncated page\<rparr>)))"

section \<open>Lemmas on projection\<close>

text \<open>The specification of a page: the visible events after a cursor, in cursor order.\<close>

definition visible_after ::
    "turn_lifecycle_event list \<Rightarrow> turn_scope \<Rightarrow> user_id option \<Rightarrow> event_cursor
      \<Rightarrow> turn_lifecycle_event list" where
  "visible_after events scope owner after =
    filter (\<lambda>e. after < ev_cursor e) (sort_key ev_cursor (filter (event_visible scope owner) events))"

lemma visible_after_sorted: "sorted (map ev_cursor (visible_after events scope owner after))"
  by (simp add: visible_after_def sorted_filter)

lemma set_visible_after:
  "set (visible_after events scope owner after)
    = {e \<in> set events. event_visible scope owner e \<and> after < ev_cursor e}"
  by (auto simp: visible_after_def)

lemma project_rebase_None:
  assumes "pg_rebase_required (project_turn_events events scope owner after limit rfloor) = None"
  shows "project_turn_events events scope owner after limit rfloor =
    (let a = (case after of Some c \<Rightarrow> c | None \<Rightarrow> 0);
         m = take limit (visible_after events scope owner a) in
     \<lparr>pg_entries = m, pg_next_cursor = (if m = [] then a else ev_cursor (last m)),
      pg_truncated = (length (visible_after events scope owner a) > limit),
      pg_rebase_required = None\<rparr>)"
  using assms
  by (auto simp: project_turn_events_def visible_after_def Let_def split: option.splits if_splits)

lemma project_rebase_iff:
  "pg_rebase_required (project_turn_events events scope owner after limit rfloor) = Some c \<longleftrightarrow>
    (let a = (case after of Some c \<Rightarrow> c | None \<Rightarrow> 0);
         cs = map ev_cursor (sort_key ev_cursor (filter (event_visible scope owner) events));
         top = (if cs = [] then rfloor else last cs) in
     if 0 < rfloor \<and> a < rfloor then c = rfloor else top < a \<and> c = top)"
  by (auto simp: project_turn_events_def Let_def last_map split: option.splits if_splits)

lemma sorted_take_drop_boundary:
  fixes xs :: "'a list" and f :: "'a \<Rightarrow> 'b::linorder"
  assumes "sorted (map f xs)" "distinct (map f xs)" "n \<le> length xs" "0 < n"
  shows "filter (\<lambda>x. f (xs ! (n - 1)) < f x) xs = drop n xs"
proof -
  have "filter (\<lambda>x. f (xs ! (n - 1)) < f x) (take n xs) = []"
    using assms by (auto simp: filter_empty_conv in_set_conv_nth not_less sorted_iff_nth_mono)
  moreover have "filter (\<lambda>x. f (xs ! (n - 1)) < f x) (drop n xs) = drop n xs"
  proof (rule filter_True, rule ballI)
    fix x assume "x \<in> set (drop n xs)"
    then obtain i where "i < length (drop n xs)" "x = drop n xs ! i"
      by (metis in_set_conv_nth)
    then have i: "n + i < length xs" "x = xs ! (n + i)" by auto
    then have "f (xs ! (n - 1)) \<le> f x"
      using assms by (auto simp: sorted_iff_nth_mono)
    moreover have "n - 1 \<noteq> n + i" using \<open>0 < n\<close> by simp
    then have "f (xs ! (n - 1)) \<noteq> f x"
      using nth_eq_iff_index_eq [OF assms(2), of "n - 1" "n + i"] i assms(3) by simp
    ultimately show "f (xs ! (n - 1)) < f x" by simp
  qed
  ultimately show ?thesis
    by (metis append_self_conv2 append_take_drop_id filter_append)
qed

end
