(* ===== verification/Turn_Records.thy ===== *)
theory Turn_Records
  imports Turn_Events
begin

text \<open>
  The records a turn store keeps and persists: \<^verbatim>\<open>ironclaw_turns/src/store.rs\<close>. The
  idempotency record stores the outcome of an operation in a replayable form; an
  error is kept as its category and status code only.
\<close>

section \<open>Locks, turns and runs\<close>

definition lock_version_incremented :: "u64 \<Rightarrow> u64" where
  "lock_version_incremented v = saturating_add v 1"

record turn_active_lock_key =
  alk_scope :: turn_scope

definition lock_key_from :: "turn_scope \<Rightarrow> turn_active_lock_key" where
  "lock_key_from scope = \<lparr>alk_scope = scope\<rparr>"

record turn_record =
  tr_turn_id :: turn_id
  tr_scope :: turn_scope
  tr_actor :: turn_actor
  tr_accepted_message_ref :: accepted_message_ref
  tr_source_binding_ref :: source_binding_ref
  tr_reply_target_binding_ref :: reply_target_binding_ref
  tr_created_at :: timestamp

record turn_run_record =
  trr_run_id :: turn_run_id
  trr_turn_id :: turn_id
  trr_scope :: turn_scope
  trr_accepted_message_ref :: accepted_message_ref
  trr_source_binding_ref :: source_binding_ref
  trr_reply_target_binding_ref :: reply_target_binding_ref
  trr_status :: turn_status
  trr_profile :: turn_run_profile
  trr_resolved_model_route :: "loop_model_route_snapshot option"
  trr_checkpoint_id :: "turn_checkpoint_id option"
  trr_gate_ref :: "gate_ref option"
  trr_credential_requirements :: "runtime_credential_auth_requirement list"
  trr_failure :: "sanitized_failure option"
  trr_event_cursor :: event_cursor
  trr_runner_id :: "turn_runner_id option"
  trr_lease_token :: "turn_lease_token option"
  trr_lease_expires_at :: "timestamp option"
  trr_last_heartbeat_at :: "timestamp option"
  trr_claim_count :: u64
  trr_received_at :: timestamp
  trr_parent_run_id :: "turn_run_id option"
  trr_subagent_depth :: u32
  trr_spawn_tree_root_run_id :: "turn_run_id option"

record spawn_tree_reservation_key =
  stk_tenant_id :: tenant_id
  stk_agent_id :: "agent_id option"
  stk_project_id :: "project_id option"
  stk_root_run_id :: turn_run_id

definition spawn_tree_key :: "turn_scope \<Rightarrow> turn_run_id \<Rightarrow> spawn_tree_reservation_key" where
  "spawn_tree_key scope root =
    \<lparr>stk_tenant_id = sc_tenant_id scope, stk_agent_id = sc_agent_id scope,
     stk_project_id = sc_project_id scope, stk_root_run_id = root\<rparr>"

record spawn_tree_reservation =
  stv_scope :: turn_scope
  stv_root_run_id :: turn_run_id
  stv_descendant_count :: u64

record turn_active_lock_record =
  al_key :: turn_active_lock_key
  al_run_id :: turn_run_id
  al_status :: turn_status
  al_lock_version :: u64
  al_acquired_at :: timestamp
  al_updated_at :: timestamp

record turn_checkpoint_record =
  cpr_checkpoint_id :: turn_checkpoint_id
  cpr_run_id :: turn_run_id
  cpr_scope :: "turn_scope option"
  cpr_sequence :: u64
  cpr_status :: turn_status
  cpr_gate_ref :: gate_ref
  cpr_kind :: loop_checkpoint_kind
  cpr_state_ref :: loop_checkpoint_state_ref
  cpr_created_at :: timestamp

section \<open>Idempotency records\<close>

datatype turn_idempotency_operation_kind = OpSubmit | OpResume | OpCancel

datatype turn_idempotency_outcome_kind =
    OcAccepted | OcThreadBusy | OcAdmissionRejected | OcResumed | OcCancelRecorded
  | OcScopeNotFound | OcUnauthorized | OcInvalidRequest | OcUnavailable | OcConflict
  | OcCapacityExceeded

definition outcome_from_error :: "turn_error \<Rightarrow> turn_idempotency_outcome_kind" where
  "outcome_from_error e = (case e of
     ThreadBusy _ \<Rightarrow> OcThreadBusy
   | AdmissionRejected _ \<Rightarrow> OcAdmissionRejected
   | ScopeNotFound \<Rightarrow> OcScopeNotFound
   | Unauthorized \<Rightarrow> OcUnauthorized
   | InvalidRequest _ \<Rightarrow> OcInvalidRequest
   | Unavailable _ \<Rightarrow> OcUnavailable
   | CapacityExceeded _ _ \<Rightarrow> OcCapacityExceeded
   | Conflict _ \<Rightarrow> OcConflict
   | InvalidTransition _ _ \<Rightarrow> OcConflict
   | LeaseMismatch \<Rightarrow> OcConflict)"

record turn_idempotency_error_replay =
  er_category :: turn_error_category
  er_adapter_status_code :: u16
  er_capacity_resource :: "turn_capacity_resource option"
  er_capacity_cap :: "u64 option"

definition error_replay_from_error :: "turn_error \<Rightarrow> turn_idempotency_error_replay" where
  "error_replay_from_error e =
    (let (res, cap) = (case e of CapacityExceeded r c \<Rightarrow> (Some r, Some c) | _ \<Rightarrow> (None, None)) in
     \<lparr>er_category = error_category e, er_adapter_status_code = adapter_status_code e,
      er_capacity_resource = res, er_capacity_cap = cap\<rparr>)"

definition error_replay_to_error :: "turn_idempotency_error_replay \<Rightarrow> turn_error" where
  "error_replay_to_error r = (case er_category r of
     CatScopeNotFound \<Rightarrow> ScopeNotFound
   | CatUnauthorized \<Rightarrow> Unauthorized
   | CatInvalidRequest \<Rightarrow> InvalidRequest ''replayed invalid request''
   | CatUnavailable \<Rightarrow> Unavailable ''replayed unavailable''
   | CatConflict \<Rightarrow> Conflict ''replayed conflict''
   | CatCapacityExceeded \<Rightarrow> CapacityExceeded
       (case er_capacity_resource r of Some x \<Rightarrow> x | None \<Rightarrow> Replayed)
       (case er_capacity_cap r of Some c \<Rightarrow> c | None \<Rightarrow> 0)
   | CatThreadBusy \<Rightarrow> Conflict ''replayed malformed thread-busy idempotency record''
   | CatAdmissionRejected \<Rightarrow> Conflict ''replayed malformed admission idempotency record'')"

datatype turn_idempotency_replay =
    SubmitAccepted submit_turn_response
  | SubmitThreadBusy thread_busy
  | SubmitAdmissionRejected admission_rejection
  | ResumeSucceeded resume_turn_response
  | CancelRecorded cancel_run_response
  | ErrorReplay turn_idempotency_error_replay

record turn_idempotency_record =
  ir_scope :: turn_scope
  ir_operation :: turn_idempotency_operation_kind
  ir_key :: idempotency_key
  ir_turn_id :: "turn_id option"
  ir_run_id :: "turn_run_id option"
  ir_outcome :: turn_idempotency_outcome_kind
  ir_replay :: turn_idempotency_replay
  ir_created_at :: timestamp
  ir_expires_at :: "timestamp option"

definition replay_submit :: "turn_idempotency_record \<Rightarrow> submit_turn_response turn_result option" where
  "replay_submit r =
    (if ir_operation r \<noteq> OpSubmit then None
     else case ir_replay r of
       SubmitAccepted resp \<Rightarrow> Some (Ok resp)
     | SubmitThreadBusy _ \<Rightarrow> None
     | SubmitAdmissionRejected rej \<Rightarrow> Some (Err (AdmissionRejected rej))
     | ErrorReplay e \<Rightarrow> Some (Err (error_replay_to_error e))
     | _ \<Rightarrow> None)"

definition replay_resume :: "turn_idempotency_record \<Rightarrow> resume_turn_response turn_result option" where
  "replay_resume r =
    (if ir_operation r \<noteq> OpResume then None
     else case ir_replay r of
       ResumeSucceeded resp \<Rightarrow> Some (Ok resp)
     | ErrorReplay e \<Rightarrow> Some (Err (error_replay_to_error e))
     | _ \<Rightarrow> None)"

definition replay_cancel :: "turn_idempotency_record \<Rightarrow> cancel_run_response turn_result option" where
  "replay_cancel r =
    (if ir_operation r \<noteq> OpCancel then None
     else case ir_replay r of
       CancelRecorded resp \<Rightarrow> Some (Ok resp)
     | ErrorReplay e \<Rightarrow> Some (Err (error_replay_to_error e))
     | _ \<Rightarrow> None)"

section \<open>Snapshots\<close>

record turn_persistence_snapshot =
  sn_turns :: "turn_record list"
  sn_runs :: "turn_run_record list"
  sn_active_locks :: "turn_active_lock_record list"
  sn_checkpoints :: "turn_checkpoint_record list"
  sn_loop_checkpoints :: "loop_checkpoint_record list"
  sn_idempotency_records :: "turn_idempotency_record list"
  sn_events :: "turn_lifecycle_event list"
  sn_event_retention_floor :: event_cursor
  sn_admission_reservations :: "turn_admission_reservation_record list"
  sn_spawn_tree_reservations :: "spawn_tree_reservation list"

section \<open>Looking up an active run\<close>

text \<open>The trait method \<^verbatim>\<open>TurnStateStore::get_run_state\<close>.\<close>

type_synonym run_state_lookup = "get_run_state_request \<Rightarrow> turn_run_state turn_result"

definition active_run_ref_state ::
    "run_state_lookup \<Rightarrow> turn_scope \<Rightarrow> turn_run_id option
      \<Rightarrow> turn_active_run_ref_state turn_result" where
  "active_run_ref_state get_run_state scope active_run_ref =
    (case active_run_ref of
       None \<Rightarrow> Ok RefMissing
     | Some run_id \<Rightarrow>
        (case get_run_state \<lparr>gs_scope = scope, gs_run_id = run_id\<rparr> of
           Ok st \<Rightarrow> if is_terminal (rst_status st) then Ok RefTerminal else Ok RefNonterminal
         | Err e \<Rightarrow> if e = ScopeNotFound then Ok RefMissing else Err e))"

text \<open>The contract the documentation of \<^verbatim>\<open>get_run_state\<close> states: a run is returned
  exactly when it exists in the supplied scope, and a missing run and a run of
  another scope both answer \<^verbatim>\<open>ScopeNotFound\<close>.\<close>

locale run_state_store =
  fixes get_run_state :: run_state_lookup
    and holds_run :: "turn_run_id \<Rightarrow> turn_run_state option"
  assumes visible: "holds_run (gs_run_id q) = Some st \<Longrightarrow> rst_scope st = gs_scope q
      \<Longrightarrow> get_run_state q = Ok st"
    and hidden: "(\<And>st. holds_run (gs_run_id q) = Some st \<Longrightarrow> rst_scope st \<noteq> gs_scope q)
      \<Longrightarrow> get_run_state q = Err ScopeNotFound"
begin

lemma ref_state_total: "\<exists>r. active_run_ref_state get_run_state scope ref = Ok r"
proof (cases ref)
  case (Some run_id)
  let ?q = "\<lparr>gs_scope = scope, gs_run_id = run_id\<rparr>"
  consider st where "holds_run run_id = Some st" "rst_scope st = scope"
    | "\<And>st. holds_run run_id = Some st \<Longrightarrow> rst_scope st \<noteq> scope"
    by blast
  then show ?thesis
    using visible [of ?q] hidden [of ?q] Some
    by cases (auto simp: active_run_ref_state_def)
qed (simp add: active_run_ref_state_def)

lemma ref_state_missing_iff:
  "active_run_ref_state get_run_state scope (Some run_id) = Ok RefMissing \<longleftrightarrow>
    (\<forall>st. holds_run run_id = Some st \<longrightarrow> rst_scope st \<noteq> scope)"
proof -
  let ?q = "\<lparr>gs_scope = scope, gs_run_id = run_id\<rparr>"
  consider st where "holds_run run_id = Some st" "rst_scope st = scope"
    | "\<And>st. holds_run run_id = Some st \<Longrightarrow> rst_scope st \<noteq> scope"
    by blast
  then show ?thesis
    using visible [of ?q] hidden [of ?q]
    by cases (auto simp: active_run_ref_state_def)
qed

lemma ref_state_found:
  assumes "holds_run run_id = Some st" "rst_scope st = scope"
  shows "active_run_ref_state get_run_state scope (Some run_id)
    = Ok (if is_terminal (rst_status st) then RefTerminal else RefNonterminal)"
  using visible [of "\<lparr>gs_scope = scope, gs_run_id = run_id\<rparr>"] assms
  by (simp add: active_run_ref_state_def)

end

section \<open>Lemmas on replay\<close>

lemma error_replay_category:
  "error_category e \<notin> {CatThreadBusy, CatAdmissionRejected} \<Longrightarrow>
    error_category (error_replay_to_error (error_replay_from_error e)) = error_category e
    \<and> adapter_status_code (error_replay_to_error (error_replay_from_error e)) = adapter_status_code e"
  by (cases "error_category e")
    (auto simp: error_replay_to_error_def error_replay_from_error_def adapter_status_code_def
      error_category_def Let_def split: turn_error.splits admission_rejection_reason.splits)

lemma error_replay_idempotent:
  "er_category r \<notin> {CatThreadBusy, CatAdmissionRejected} \<Longrightarrow>
    error_replay_to_error (error_replay_from_error (error_replay_to_error r)) = error_replay_to_error r"
  by (cases "er_category r")
    (simp_all add: error_replay_to_error_def error_replay_from_error_def error_category_def Let_def)

end
