(* ===== verification/Turn_Store.thy ===== *)
theory Turn_Store
  imports Turn_Records
begin

text \<open>
  The state of the in-memory turn store and the helpers its operations are made of:
  \<^verbatim>\<open>Inner\<close>, \<^verbatim>\<open>RunRecord\<close> and the private methods of \<^verbatim>\<open>Inner\<close> in
  \<^verbatim>\<open>ironclaw_turns/src/memory.rs\<close>. The store is one mutex around \<^verbatim>\<open>Inner\<close>; each lock
  region of the source is a function on this record. What the operations take from
  their surroundings (the clock, fresh UUIDs, chrono's checked addition) is the
  record \<^verbatim>\<open>env\<close>.
\<close>

section \<open>State\<close>

record store_limits =
  max_events :: usize
  max_terminal_records :: usize
  max_idempotency_records :: usize
  runner_lease_ttl :: duration

definition default_limits :: "duration \<Rightarrow> store_limits" where
  "default_limits ttl = \<lparr>max_events = 10000, max_terminal_records = 10000,
     max_idempotency_records = 10000, runner_lease_ttl = ttl\<rparr>"

record run_record =
  rr_scope :: turn_scope
  rr_actor :: turn_actor
  rr_turn_id :: turn_id
  rr_run_id :: turn_run_id
  rr_status :: turn_status
  rr_profile :: turn_run_profile
  rr_resolved_model_route :: "loop_model_route_snapshot option"
  rr_accepted_message_ref :: accepted_message_ref
  rr_source_binding_ref :: source_binding_ref
  rr_reply_target_binding_ref :: reply_target_binding_ref
  rr_checkpoint_id :: "turn_checkpoint_id option"
  rr_gate_ref :: "gate_ref option"
  rr_credential_requirements :: "runtime_credential_auth_requirement list"
  rr_failure :: "sanitized_failure option"
  rr_event_cursor :: event_cursor
  rr_runner_id :: "turn_runner_id option"
  rr_lease_token :: "turn_lease_token option"
  rr_lease_expires_at :: "timestamp option"
  rr_last_heartbeat_at :: "timestamp option"
  rr_claim_count :: u64
  rr_received_at :: timestamp
  rr_parent_run_id :: "turn_run_id option"
  rr_subagent_depth :: u32
  rr_spawn_tree_root_run_id :: "turn_run_id option"

record submit_idempotency_key =
  sik_scope :: turn_scope
  sik_key :: idempotency_key

record run_idempotency_key =
  rik_scope :: turn_scope
  rik_run_id :: turn_run_id
  rik_key :: idempotency_key

record persisted_idempotency_key =
  pik_scope :: turn_scope
  pik_operation :: turn_idempotency_operation_kind
  pik_run_id :: "turn_run_id option"
  pik_key :: idempotency_key

record inner =
  in_cursor :: u64
  in_turns :: "(turn_id, turn_record) hmap"
  in_records :: "(turn_run_id, run_record) hmap"
  in_queued_runs :: "turn_run_id list"
  in_terminal_runs :: "turn_run_id list"
  in_active_locks :: "(turn_active_lock_key, turn_active_lock_record) hmap"
  in_checkpoints :: "turn_checkpoint_record list"
  in_loop_checkpoints :: "(turn_checkpoint_id, loop_checkpoint_record) hmap"
  in_submit_idempotency :: "(submit_idempotency_key, submit_turn_response turn_result) hmap"
  in_submit_in_flight :: "submit_idempotency_key list"
  in_resume_idempotency :: "(run_idempotency_key, resume_turn_response turn_result) hmap"
  in_cancel_idempotency :: "(run_idempotency_key, cancel_run_response turn_result) hmap"
  in_idempotency_records :: "(persisted_idempotency_key, turn_idempotency_record) hmap"
  in_submit_order :: "submit_idempotency_key list"
  in_resume_order :: "run_idempotency_key list"
  in_cancel_order :: "run_idempotency_key list"
  in_record_order :: "persisted_idempotency_key list"
  in_events :: "turn_lifecycle_event list"
  in_event_retention_floor :: event_cursor
  in_admission_reservations :: "(turn_run_id, turn_admission_reservation_record) hmap"
  in_tree_reservations :: "(spawn_tree_reservation_key, u64) hmap"
  in_limits :: store_limits

definition with_limits :: "store_limits \<Rightarrow> inner" where
  "with_limits limits =
    \<lparr>in_cursor = 0, in_turns = [], in_records = [], in_queued_runs = [], in_terminal_runs = [],
     in_active_locks = [], in_checkpoints = [], in_loop_checkpoints = [],
     in_submit_idempotency = [], in_submit_in_flight = [], in_resume_idempotency = [],
     in_cancel_idempotency = [], in_idempotency_records = [], in_submit_order = [],
     in_resume_order = [], in_cancel_order = [], in_record_order = [], in_events = [],
     in_event_retention_floor = 0, in_admission_reservations = [], in_tree_reservations = [],
     in_limits = limits\<rparr>"

record env =
  env_now :: timestamp
  env_event_now :: "event_cursor \<Rightarrow> timestamp"
  env_remember_now :: timestamp
  env_turn_id :: turn_id
  env_run_id :: turn_run_id
  env_checkpoint_id :: turn_checkpoint_id
  env_checked_add_signed :: "timestamp \<Rightarrow> duration \<Rightarrow> timestamp option"

section \<open>Run records\<close>

definition run_state :: "run_record \<Rightarrow> turn_run_state" where
  "run_state r =
    \<lparr>rst_scope = rr_scope r, rst_actor = Some (rr_actor r), rst_turn_id = rr_turn_id r,
     rst_run_id = rr_run_id r, rst_status = rr_status r,
     rst_accepted_message_ref = rr_accepted_message_ref r,
     rst_source_binding_ref = rr_source_binding_ref r,
     rst_reply_target_binding_ref = rr_reply_target_binding_ref r,
     rst_resolved_run_profile_id = tp_id (rr_profile r),
     rst_resolved_run_profile_version = tp_version (rr_profile r),
     rst_resolved_model_route = rr_resolved_model_route r,
     rst_received_at = rr_received_at r,
     rst_checkpoint_id = rr_checkpoint_id r,
     rst_gate_ref = rr_gate_ref r,
     rst_credential_requirements = rr_credential_requirements r,
     rst_failure = rr_failure r,
     rst_event_cursor = rr_event_cursor r\<rparr>"

definition persistence_record :: "run_record \<Rightarrow> turn_run_record" where
  "persistence_record r =
    \<lparr>trr_run_id = rr_run_id r, trr_turn_id = rr_turn_id r, trr_scope = rr_scope r,
     trr_accepted_message_ref = rr_accepted_message_ref r,
     trr_source_binding_ref = rr_source_binding_ref r,
     trr_reply_target_binding_ref = rr_reply_target_binding_ref r,
     trr_status = rr_status r, trr_profile = rr_profile r,
     trr_resolved_model_route = rr_resolved_model_route r,
     trr_checkpoint_id = rr_checkpoint_id r, trr_gate_ref = rr_gate_ref r,
     trr_credential_requirements = rr_credential_requirements r,
     trr_failure = rr_failure r, trr_event_cursor = rr_event_cursor r,
     trr_runner_id = rr_runner_id r, trr_lease_token = rr_lease_token r,
     trr_lease_expires_at = rr_lease_expires_at r,
     trr_last_heartbeat_at = rr_last_heartbeat_at r,
     trr_claim_count = rr_claim_count r, trr_received_at = rr_received_at r,
     trr_parent_run_id = rr_parent_run_id r, trr_subagent_depth = rr_subagent_depth r,
     trr_spawn_tree_root_run_id = rr_spawn_tree_root_run_id r\<rparr>"

section \<open>Cursors, leases and events\<close>

definition next_cursor :: "inner \<Rightarrow> event_cursor \<times> inner" where
  "next_cursor s = (let c = saturating_add (in_cursor s) 1 in (c, s\<lparr>in_cursor := c\<rparr>))"

definition next_lease_expiry :: "env \<Rightarrow> inner \<Rightarrow> timestamp \<Rightarrow> timestamp" where
  "next_lease_expiry env s now =
    (case env_checked_add_signed env now (runner_lease_ttl (in_limits s)) of
       Some t \<Rightarrow> t | None \<Rightarrow> now)"

definition event_of_record ::
    "env \<Rightarrow> run_record \<Rightarrow> turn_event_kind \<Rightarrow> string option \<Rightarrow> turn_lifecycle_event" where
  "event_of_record env r kind reason =
    \<lparr>ev_cursor = rr_event_cursor r,
     ev_scope = rr_scope r,
     ev_occurred_at = Some (env_event_now env (rr_event_cursor r)),
     ev_owner_user_id = lifecycle_owner_user_id (rr_scope r) (Some (ac_user_id (rr_actor r))),
     ev_run_id = rr_run_id r,
     ev_status = rr_status r,
     ev_kind = kind,
     ev_blocked_gate = blocked_gate_of kind (rr_gate_ref r) (rr_status r) (rr_credential_requirements r),
     ev_sanitized_reason = reason\<rparr>"

definition push_event ::
    "env \<Rightarrow> run_record \<Rightarrow> turn_event_kind \<Rightarrow> string option \<Rightarrow> inner \<Rightarrow> inner" where
  "push_event env r kind reason s =
    (let events = in_events s @ [event_of_record env r kind reason];
         cap = max_events (in_limits s) in
     if length events > cap
     then let excess = length events - cap;
              floor' = (if excess - 1 < length events
                        then max (in_event_retention_floor s) (ev_cursor (events ! (excess - 1)))
                        else in_event_retention_floor s) in
          s\<lparr>in_event_retention_floor := floor', in_events := drop excess events\<rparr>
     else s\<lparr>in_events := events\<rparr>)"

section \<open>Records and the queue\<close>

definition take_record :: "turn_run_id \<Rightarrow> inner \<Rightarrow> (run_record \<times> inner) turn_result" where
  "take_record run_id s =
    (case hm_get (in_records s) run_id of
       None \<Rightarrow> Err ScopeNotFound
     | Some r \<Rightarrow> Ok (r, s\<lparr>in_records := hm_remove run_id (in_records s)\<rparr>))"

definition insert_record :: "run_record \<Rightarrow> inner \<Rightarrow> inner" where
  "insert_record r s = s\<lparr>in_records := hm_insert (rr_run_id r) r (in_records s)\<rparr>"

fun pop_queued_loop ::
    "nat \<Rightarrow> turn_scope option \<Rightarrow> (turn_run_id, run_record) hmap \<Rightarrow> turn_run_id list
      \<Rightarrow> turn_run_id option \<times> turn_run_id list" where
  "pop_queued_loop 0 flt recs q = (None, q)"
| "pop_queued_loop (Suc n) flt recs [] = (None, [])"
| "pop_queued_loop (Suc n) flt recs (k # q) =
    (case hm_get recs k of
       None \<Rightarrow> pop_queued_loop n flt recs q
     | Some r \<Rightarrow>
        if rr_status r \<noteq> Queued then pop_queued_loop n flt recs q
        else if flt = None \<or> flt = Some (rr_scope r) then (Some k, q)
        else pop_queued_loop n flt recs (push_back q k))"

definition pop_matching_queued_run :: "turn_scope option \<Rightarrow> inner \<Rightarrow> turn_run_id option \<times> inner" where
  "pop_matching_queued_run flt s =
    (let (found, q) = pop_queued_loop (length (in_queued_runs s)) flt (in_records s) (in_queued_runs s) in
     (found, s\<lparr>in_queued_runs := q\<rparr>))"

definition push_queued_run :: "turn_run_id \<Rightarrow> inner \<Rightarrow> inner" where
  "push_queued_run run_id s = s\<lparr>in_queued_runs := push_back (in_queued_runs s) run_id\<rparr>"

definition remove_queued_run :: "turn_run_id \<Rightarrow> inner \<Rightarrow> inner" where
  "remove_queued_run run_id s = s\<lparr>in_queued_runs := filter (\<lambda>q. q \<noteq> run_id) (in_queued_runs s)\<rparr>"

section \<open>Active locks\<close>

definition update_active_lock :: "run_record \<Rightarrow> timestamp \<Rightarrow> inner \<Rightarrow> inner" where
  "update_active_lock r updated_at s =
    (let key = lock_key_from (rr_scope r) in
     case hm_get (in_active_locks s) key of
       Some l \<Rightarrow>
         if al_run_id l = rr_run_id r
         then s\<lparr>in_active_locks := hm_insert key
                (l\<lparr>al_status := rr_status r,
                   al_lock_version := lock_version_incremented (al_lock_version l),
                   al_updated_at := updated_at\<rparr>) (in_active_locks s)\<rparr>
         else s
     | None \<Rightarrow> s)"

definition touch_active_lock :: "run_record \<Rightarrow> timestamp \<Rightarrow> inner \<Rightarrow> inner" where
  "touch_active_lock r updated_at s =
    (let key = lock_key_from (rr_scope r) in
     case hm_get (in_active_locks s) key of
       Some l \<Rightarrow>
         if al_run_id l = rr_run_id r
         then s\<lparr>in_active_locks := hm_insert key (l\<lparr>al_updated_at := updated_at\<rparr>) (in_active_locks s)\<rparr>
         else s
     | None \<Rightarrow> s)"

definition release_active_lock :: "run_record \<Rightarrow> inner \<Rightarrow> inner" where
  "release_active_lock r s =
    (let key = lock_key_from (rr_scope r) in
     case hm_get (in_active_locks s) key of
       Some l \<Rightarrow>
         if al_run_id l = rr_run_id r
         then s\<lparr>in_active_locks := hm_remove key (in_active_locks s)\<rparr> else s
     | None \<Rightarrow> s)"

definition store_thread_busy :: "turn_active_lock_key \<Rightarrow> inner \<Rightarrow> thread_busy option" where
  "store_thread_busy key s =
    (case hm_get (in_active_locks s) key of
       None \<Rightarrow> None
     | Some l \<Rightarrow>
        (case hm_get (in_records s) (al_run_id l) of
           None \<Rightarrow> None
         | Some r \<Rightarrow>
            if keeps_active_lock (rr_status r)
            then Some \<lparr>tb_active_run_id = al_run_id l, tb_status = rr_status r,
                       tb_event_cursor = rr_event_cursor r\<rparr>
            else None))"

section \<open>Admission\<close>

definition active_admission_count :: "turn_admission_bucket \<Rightarrow> inner \<Rightarrow> u64" where
  "active_admission_count b s =
    of_nat (length (filter (\<lambda>v. \<not> rsv_released v \<and> b \<in> set (rsv_buckets v))
      (hm_values (in_admission_reservations s))))"

definition active_admission_reservations :: "inner \<Rightarrow> turn_admission_reservation_record list" where
  "active_admission_reservations s =
    filter (\<lambda>v. \<not> rsv_released v) (hm_values (in_admission_reservations s))"

fun check_buckets ::
    "turn_admission_limit_provider \<Rightarrow> (turn_admission_bucket \<Rightarrow> u64) \<Rightarrow> turn_admission_bucket list
      \<Rightarrow> admission_rejection + unit" where
  "check_buckets limit_for count [] = Ok ()"
| "check_buckets limit_for count (b # bs) =
    (case limit_for b of
       Err _ \<Rightarrow> Err (admission_rejection_new RejectedUnavailable)
     | Ok limit \<Rightarrow>
        (case lim_max_active limit of
           Some n \<Rightarrow>
             if count b \<ge> n
             then Err (with_capacity_denial
                    \<lparr>den_axis_kind = bk_axis_kind b, den_bucket_kind = bk_bucket_kind b,
                     den_admission_class = bk_admission_class b, den_limit = n,
                     den_active_count = count b,
                     den_retry_after_ms = lim_retry_after_ms limit\<rparr>
                    (admission_rejection_new TenantLimit))
             else check_buckets limit_for count bs
         | None \<Rightarrow> check_buckets limit_for count bs))"

definition reserve_admission ::
    "turn_admission_limit_provider \<Rightarrow> turn_run_id \<Rightarrow> turn_admission_class \<Rightarrow> turn_scope \<Rightarrow> turn_actor
      \<Rightarrow> inner \<Rightarrow> (admission_rejection + unit) \<times> inner" where
  "reserve_admission limit_for run_id cls scope actor s =
    (let buckets = admission_buckets scope actor cls in
     case check_buckets limit_for (\<lambda>b. active_admission_count b s) buckets of
       Err rej \<Rightarrow> (Err rej, s)
     | Ok _ \<Rightarrow> (Ok (), s\<lparr>in_admission_reservations := hm_insert run_id
         \<lparr>rsv_run_id = run_id, rsv_admission_class = cls, rsv_buckets = buckets,
          rsv_released = False\<rparr> (in_admission_reservations s)\<rparr>))"

definition release_admission :: "turn_run_id \<Rightarrow> inner \<Rightarrow> inner" where
  "release_admission run_id s =
    (case hm_get (in_admission_reservations s) run_id of
       Some v \<Rightarrow> s\<lparr>in_admission_reservations :=
         hm_insert run_id (v\<lparr>rsv_released := True\<rparr>) (in_admission_reservations s)\<rparr>
     | None \<Rightarrow> s)"

section \<open>Checkpoints and terminal runs\<close>

definition record_checkpoint ::
    "run_record \<Rightarrow> turn_checkpoint_id \<Rightarrow> loop_checkpoint_state_ref \<Rightarrow> gate_ref \<Rightarrow> timestamp
      \<Rightarrow> inner \<Rightarrow> inner" where
  "record_checkpoint r checkpoint_id state_ref gate created_at s =
    (let n = length (filter (\<lambda>c. cpr_run_id c = rr_run_id r) (in_checkpoints s)) in
     s\<lparr>in_checkpoints := in_checkpoints s @
        [\<lparr>cpr_checkpoint_id = checkpoint_id, cpr_run_id = rr_run_id r,
          cpr_scope = Some (rr_scope r), cpr_sequence = of_nat (min (n + 1) usize_max),
          cpr_status = rr_status r, cpr_gate_ref = gate, cpr_kind = BeforeBlock,
          cpr_state_ref = state_ref, cpr_created_at = created_at\<rparr>]\<rparr>)"

definition mark_terminal :: "turn_run_id \<Rightarrow> inner \<Rightarrow> inner" where
  "mark_terminal run_id s =
    (let s = release_admission run_id s in
     s\<lparr>in_terminal_runs := push_back (in_terminal_runs s) run_id\<rparr>)"

definition record_is_terminal :: "(turn_run_id, run_record) hmap \<Rightarrow> turn_run_id \<Rightarrow> bool" where
  "record_is_terminal recs run_id =
    (case hm_get recs run_id of Some r \<Rightarrow> is_terminal (rr_status r) | None \<Rightarrow> False)"

fun prune_terminal_loop ::
    "usize \<Rightarrow> spawn_tree_reservation_key list \<Rightarrow> turn_run_id list
      \<Rightarrow> (turn_run_id, run_record) hmap
      \<Rightarrow> (turn_run_id, turn_admission_reservation_record) hmap
      \<Rightarrow> turn_run_id list \<times> (turn_run_id, run_record) hmap
         \<times> (turn_run_id, turn_admission_reservation_record) hmap" where
  "prune_terminal_loop cap roots [] recs adm = ([], recs, adm)"
| "prune_terminal_loop cap roots (k # ks) recs adm =
    (if length (k # ks) > cap
     then if record_is_terminal recs k \<and> \<not> list_ex (\<lambda>v. stk_root_run_id v = k) roots
          then prune_terminal_loop cap roots ks (hm_remove k recs) (hm_remove k adm)
          else prune_terminal_loop cap roots ks recs adm
     else (k # ks, recs, adm))"

definition prune_terminal_records :: "inner \<Rightarrow> inner" where
  "prune_terminal_records s =
    (let (ts, recs, adm) =
       prune_terminal_loop (max_terminal_records (in_limits s)) (hm_keys (in_tree_reservations s))
         (in_terminal_runs s) (in_records s) (in_admission_reservations s) in
     s\<lparr>in_terminal_runs := ts, in_records := recs, in_admission_reservations := adm\<rparr>)"

section \<open>Leases\<close>

definition ensure_active_lease ::
    "run_record \<Rightarrow> turn_runner_id \<Rightarrow> turn_lease_token \<Rightarrow> timestamp \<Rightarrow> unit turn_result" where
  "ensure_active_lease r runner_id lease_token now =
    (if rr_runner_id r \<noteq> Some runner_id \<or> rr_lease_token r \<noteq> Some lease_token
     then Err LeaseMismatch
     else if (case rr_lease_expires_at r of Some t \<Rightarrow> t \<le> now | None \<Rightarrow> False)
     then Err (Conflict ''turn run lease expired'')
     else Ok ())"

record lease_expired_outcome =
  lx_status :: turn_status
  lx_failure :: "sanitized_failure option"
  lx_event_kind :: turn_event_kind
  lx_event_detail :: "string option"

definition expired_lease_terminal_outcome :: "turn_status \<Rightarrow> lease_expired_outcome" where
  "expired_lease_terminal_outcome st =
    (if st = CancelRequested
     then \<lparr>lx_status = Cancelled, lx_failure = None, lx_event_kind = EvCancelled,
           lx_event_detail = None\<rparr>
     else \<lparr>lx_status = Failed, lx_failure = Some ''lease_expired'', lx_event_kind = EvFailed,
           lx_event_detail = Some ''lease_expired''\<rparr>)"

end
