(* ===== verification/Turn_Transitions.thy ===== *)
theory Turn_Transitions
  imports Turn_Store
begin

text \<open>
  The runner-facing operations of the store (\<^verbatim>\<open>TurnRunTransitionPort for
  InMemoryTurnStateStore\<close> and the \<^verbatim>\<open>Inner\<close> transitions behind it) and the
  single-shot resume and cancel transitions: \<^verbatim>\<open>ironclaw_turns/src/memory.rs\<close>. Every
  operation takes the environment, a request and the state, and returns its result
  with the state it leaves. A record is taken out of the map, transformed, and put
  back on every branch, as in the source.
\<close>

section \<open>Shared blocks\<close>

text \<open>The statements every terminal transition repeats: set the outcome, drop the
  lease, take a cursor, release the thread lock, leave the queue, publish, and mark
  the run terminal.\<close>

definition terminalize ::
    "env \<Rightarrow> turn_status \<Rightarrow> sanitized_failure option \<Rightarrow> turn_event_kind \<Rightarrow> string option
      \<Rightarrow> run_record \<Rightarrow> inner \<Rightarrow> run_record \<times> inner" where
  "terminalize env status failure kind detail r s =
    (let r = r\<lparr>rr_status := status, rr_failure := failure, rr_runner_id := None,
               rr_lease_token := None, rr_lease_expires_at := None\<rparr>;
         (c, s) = next_cursor s;
         r = r\<lparr>rr_event_cursor := c\<rparr>;
         s = release_active_lock r s;
         s = remove_queued_run (rr_run_id r) s;
         s = push_event env r kind detail s;
         s = mark_terminal (rr_run_id r) s in
     (r, s))"

text \<open>The statements \<^verbatim>\<open>block_run\<close> and \<^verbatim>\<open>block_claimed_record\<close> share.\<close>

definition block_record ::
    "env \<Rightarrow> turn_checkpoint_id \<Rightarrow> loop_checkpoint_state_ref \<Rightarrow> blocked_reason
      \<Rightarrow> run_record \<Rightarrow> inner \<Rightarrow> run_record \<times> inner" where
  "block_record env checkpoint_id state_ref reason r s =
    (let now = env_now env;
         r = r\<lparr>rr_status := reason_status reason, rr_checkpoint_id := Some checkpoint_id,
               rr_gate_ref := Some (reason_gate_ref reason),
               rr_credential_requirements := reason_credential_requirements reason,
               rr_runner_id := None, rr_lease_token := None, rr_lease_expires_at := None\<rparr>;
         (c, s) = next_cursor s;
         r = r\<lparr>rr_event_cursor := c\<rparr>;
         s = record_checkpoint r checkpoint_id state_ref (reason_gate_ref reason) now s;
         s = update_active_lock r now s;
         s = push_event env r EvBlocked None s in
     (r, s))"

section \<open>Claiming and heartbeats\<close>

definition claim_next_run ::
    "env \<Rightarrow> claim_run_request \<Rightarrow> inner \<Rightarrow> claimed_turn_run option turn_result \<times> inner" where
  "claim_next_run env q s =
    (case pop_matching_queued_run (clm_scope_filter q) s of
       (None, s) \<Rightarrow> (Ok None, s)
     | (Some run_id, s) \<Rightarrow>
        (case take_record run_id s of
           Err e \<Rightarrow> (Err e, s)
         | Ok (r, s) \<Rightarrow>
            (let now = env_now env;
                 r = r\<lparr>rr_status := Running, rr_runner_id := Some (clm_runner_id q),
                       rr_lease_token := Some (clm_lease_token q),
                       rr_lease_expires_at := Some (next_lease_expiry env s now),
                       rr_last_heartbeat_at := Some now,
                       rr_claim_count := saturating_add (rr_claim_count r) 1\<rparr>;
                 (c, s) = next_cursor s;
                 r = r\<lparr>rr_event_cursor := c\<rparr>;
                 s = update_active_lock r now s;
                 claimed = \<lparr>clr_state = run_state r,
                            clr_resolved_run_profile = tp_resolved (rr_profile r),
                            clr_runner_id = clm_runner_id q,
                            clr_lease_token = clm_lease_token q\<rparr>;
                 s = push_event env r EvRunnerClaimed None s;
                 s = insert_record r s in
             (Ok (Some claimed), s))))"

definition heartbeat :: "env \<Rightarrow> lease_request \<Rightarrow> inner \<Rightarrow> event_cursor turn_result \<times> inner" where
  "heartbeat env q s =
    (case take_record (lr_run_id q) s of
       Err e \<Rightarrow> (Err e, s)
     | Ok (r, s) \<Rightarrow>
        (let now = env_now env;
             (result, r, s) =
               (case ensure_active_lease r (lr_runner_id q) (lr_lease_token q) now of
                  Err e \<Rightarrow> (Err e, r, s)
                | Ok _ \<Rightarrow>
                   if rr_status r \<noteq> Running
                   then (Err (InvalidTransition (rr_status r) Running), r, s)
                   else
                     (let r = r\<lparr>rr_last_heartbeat_at := Some now,
                                rr_lease_expires_at := Some (next_lease_expiry env s now)\<rparr>;
                          (c, s) = next_cursor s;
                          r = r\<lparr>rr_event_cursor := c\<rparr>;
                          s = touch_active_lock r now s;
                          s = push_event env r EvRunnerHeartbeat None s in
                      (Ok c, r, s))) in
         (result, insert_record r s)))"

definition record_model_route_snapshot ::
    "env \<Rightarrow> record_model_route_snapshot_request \<Rightarrow> inner \<Rightarrow> turn_run_state turn_result \<times> inner" where
  "record_model_route_snapshot env q s =
    (case take_record (lr_run_id q) s of
       Err e \<Rightarrow> (Err e, s)
     | Ok (r, s) \<Rightarrow>
        (let now = env_now env;
             (result, r, s) =
               (case ensure_active_lease r (lr_runner_id q) (lr_lease_token q) now of
                  Err e \<Rightarrow> (Err e, r, s)
                | Ok _ \<Rightarrow>
                   if rr_status r \<noteq> Running
                   then (Err (InvalidTransition (rr_status r) Running), r, s)
                   else case route_validate (rmr_snapshot q) of
                       Err reason \<Rightarrow> (Err (InvalidRequest reason), r, s)
                     | Ok _ \<Rightarrow>
                        (case rr_resolved_model_route r of
                           Some existing \<Rightarrow>
                             if existing \<noteq> rmr_snapshot q
                             then (Err (Conflict ''run already has a different resolved model route''), r, s)
                             else (Ok (run_state r), r, s)
                         | None \<Rightarrow>
                            (let r = r\<lparr>rr_resolved_model_route := Some (rmr_snapshot q)\<rparr>;
                                 s = touch_active_lock r now s in
                             (Ok (run_state r), r, s)))) in
         (result, insert_record r s)))"

section \<open>Blocking\<close>

definition block_run ::
    "env \<Rightarrow> block_run_request \<Rightarrow> inner \<Rightarrow> turn_run_state turn_result \<times> inner" where
  "block_run env q s =
    (case take_record (lr_run_id q) s of
       Err e \<Rightarrow> (Err e, s)
     | Ok (r, s) \<Rightarrow>
        (let (result, r, s) =
               (case ensure_active_lease r (lr_runner_id q) (lr_lease_token q) (env_now env) of
                  Err e \<Rightarrow> (Err e, r, s)
                | Ok _ \<Rightarrow>
                   if rr_status r \<noteq> Running
                   then (Err (InvalidTransition (rr_status r) (reason_status (blk_reason q))), r, s)
                   else
                     (let (r, s) = block_record env (blk_checkpoint_id q) (blk_state_ref q) (blk_reason q) r s in
                      (Ok (run_state r), r, s))) in
         (result, insert_record r s)))"

section \<open>Terminal transitions\<close>

definition cancel_completion_transition ::
    "env \<Rightarrow> lease_request \<Rightarrow> inner \<Rightarrow> turn_run_state turn_result \<times> inner" where
  "cancel_completion_transition env q s =
    (case take_record (lr_run_id q) s of
       Err e \<Rightarrow> (Err e, s)
     | Ok (r, s) \<Rightarrow>
        (let (result, r, s) =
               (case ensure_active_lease r (lr_runner_id q) (lr_lease_token q) (env_now env) of
                  Err e \<Rightarrow> (Err e, r, s)
                | Ok _ \<Rightarrow>
                   if rr_status r \<noteq> CancelRequested
                   then (Err (InvalidTransition (rr_status r) Cancelled), r, s)
                   else
                     (let (r, s) = terminalize env Cancelled None EvCancelled None r s in
                      (Ok (run_state r), r, s))) in
         (result, prune_terminal_records (insert_record r s))))"

definition terminal_transition ::
    "env \<Rightarrow> turn_run_id \<Rightarrow> turn_runner_id \<Rightarrow> turn_lease_token \<Rightarrow> turn_status \<Rightarrow> sanitized_failure option
      \<Rightarrow> turn_event_kind \<Rightarrow> inner \<Rightarrow> turn_run_state turn_result \<times> inner" where
  "terminal_transition env run_id runner_id lease_token status failure kind s =
    (case take_record run_id s of
       Err e \<Rightarrow> (Err e, s)
     | Ok (r, s) \<Rightarrow>
        (let (result, r, s) =
               (case ensure_active_lease r runner_id lease_token (env_now env) of
                  Err e \<Rightarrow> (Err e, r, s)
                | Ok _ \<Rightarrow>
                   if rr_status r = CancelRequested \<or> is_terminal (rr_status r)
                   then (Err (InvalidTransition (rr_status r) status), r, s)
                   else
                     (let (r, s) = terminalize env status failure kind failure r s in
                      (Ok (run_state r), r, s))) in
         (result, prune_terminal_records (insert_record r s))))"

definition complete_run :: "env \<Rightarrow> lease_request \<Rightarrow> inner \<Rightarrow> turn_run_state turn_result \<times> inner" where
  "complete_run env q s =
    terminal_transition env (lr_run_id q) (lr_runner_id q) (lr_lease_token q) Completed None EvCompleted s"

definition cancel_run :: "env \<Rightarrow> lease_request \<Rightarrow> inner \<Rightarrow> turn_run_state turn_result \<times> inner" where
  "cancel_run env q s = cancel_completion_transition env q s"

definition fail_run :: "env \<Rightarrow> fail_run_request \<Rightarrow> inner \<Rightarrow> turn_run_state turn_result \<times> inner" where
  "fail_run env q s =
    terminal_transition env (lr_run_id q) (lr_runner_id q) (lr_lease_token q) Failed
      (Some (fl_failure q)) EvFailed s"

section \<open>Validated loop exits\<close>

datatype applied_loop_transition =
    Applied run_record turn_run_state bool
  | Rejected run_record turn_error

definition complete_claimed_record :: "env \<Rightarrow> run_record \<Rightarrow> inner \<Rightarrow> applied_loop_transition \<times> inner" where
  "complete_claimed_record env r s =
    (if rr_status r \<noteq> Running
     then (Rejected r (InvalidTransition (rr_status r) Completed), s)
     else let (r, s) = terminalize env Completed None EvCompleted None r s in
          (Applied r (run_state r) True, s))"

definition cancel_claimed_record :: "env \<Rightarrow> run_record \<Rightarrow> inner \<Rightarrow> applied_loop_transition \<times> inner" where
  "cancel_claimed_record env r s =
    (if rr_status r \<noteq> CancelRequested
     then (Rejected r (InvalidTransition (rr_status r) Cancelled), s)
     else let (r, s) = terminalize env Cancelled None EvCancelled None r s in
          (Applied r (run_state r) True, s))"

definition block_claimed_record ::
    "env \<Rightarrow> turn_checkpoint_id \<Rightarrow> loop_checkpoint_state_ref \<Rightarrow> blocked_reason
      \<Rightarrow> run_record \<Rightarrow> inner \<Rightarrow> applied_loop_transition \<times> inner" where
  "block_claimed_record env checkpoint_id state_ref reason r s =
    (if rr_status r \<noteq> Running
     then (Rejected r (InvalidTransition (rr_status r) (reason_status reason)), s)
     else let (r, s) = block_record env checkpoint_id state_ref reason r s in
          (Applied r (run_state r) False, s))"

definition fail_claimed_record ::
    "env \<Rightarrow> sanitized_failure \<Rightarrow> run_record \<Rightarrow> inner \<Rightarrow> applied_loop_transition \<times> inner" where
  "fail_claimed_record env failure r s =
    (if rr_status r \<noteq> Running
     then (Rejected r (InvalidTransition (rr_status r) Failed), s)
     else let (r, s) = terminalize env Failed (Some failure) EvFailed (Some failure) r s in
          (Applied r (run_state r) True, s))"

definition cancel_or_fail_claimed_record ::
    "env \<Rightarrow> sanitized_failure \<Rightarrow> run_record \<Rightarrow> inner \<Rightarrow> applied_loop_transition \<times> inner" where
  "cancel_or_fail_claimed_record env failure r s =
    (case rr_status r of
       Running \<Rightarrow> fail_claimed_record env failure r s
     | CancelRequested \<Rightarrow> cancel_claimed_record env r s
     | _ \<Rightarrow> (Rejected r (InvalidTransition (rr_status r) Failed), s))"

definition commit_transition ::
    "applied_loop_transition \<Rightarrow> inner \<Rightarrow> turn_run_state turn_result \<times> inner" where
  "commit_transition t s =
    (case t of
       Applied r st prune_terminal \<Rightarrow>
         (let s = insert_record r s;
              s = (if prune_terminal then prune_terminal_records s else s) in
          (Ok st, s))
     | Rejected r e \<Rightarrow> (Err e, insert_record r s))"

definition apply_validated_loop_exit_transition ::
    "env \<Rightarrow> apply_validated_loop_exit_request \<Rightarrow> inner \<Rightarrow> turn_run_state turn_result \<times> inner" where
  "apply_validated_loop_exit_transition env q s =
    (case take_record (lr_run_id q) s of
       Err e \<Rightarrow> (Err e, s)
     | Ok (r, s) \<Rightarrow>
        (let (t, s) =
               (case ensure_active_lease r (lr_runner_id q) (lr_lease_token q) (env_now env) of
                  Err e \<Rightarrow> (Rejected r e, s)
                | Ok _ \<Rightarrow>
                   (case ale_mapping q of
                      RunnerOutcome OutCompleted \<Rightarrow> complete_claimed_record env r s
                    | RunnerOutcome OutCancelled \<Rightarrow>
                        cancel_or_fail_claimed_record env ''interrupted_unexpectedly'' r s
                    | RunnerOutcome (OutBlocked checkpoint_id state_ref reason) \<Rightarrow>
                        block_claimed_record env checkpoint_id state_ref reason r s
                    | RunnerOutcome (OutFailed failure) \<Rightarrow> fail_claimed_record env failure r s
                    | MapRecoveryRequired failure \<Rightarrow> cancel_or_fail_claimed_record env failure r s)) in
         commit_transition t s))"

definition runner_failure_transition ::
    "env \<Rightarrow> fail_run_request \<Rightarrow> inner \<Rightarrow> turn_run_state turn_result \<times> inner" where
  "runner_failure_transition env q s =
    (case take_record (lr_run_id q) s of
       Err e \<Rightarrow> (Err e, s)
     | Ok (r, s) \<Rightarrow>
        (let (t, s) =
               (case ensure_active_lease r (lr_runner_id q) (lr_lease_token q) (env_now env) of
                  Err e \<Rightarrow> (Rejected r e, s)
                | Ok _ \<Rightarrow> cancel_or_fail_claimed_record env (fl_failure q) r s) in
         commit_transition t s))"

section \<open>Relinquishing and recovery\<close>

definition relinquish_transition ::
    "env \<Rightarrow> lease_request \<Rightarrow> inner \<Rightarrow> turn_run_state turn_result \<times> inner" where
  "relinquish_transition env q s =
    (case take_record (lr_run_id q) s of
       Err e \<Rightarrow> (Err e, s)
     | Ok (r, s) \<Rightarrow>
        (case ensure_active_lease r (lr_runner_id q) (lr_lease_token q) (env_now env) of
           Err e \<Rightarrow> (Err e, insert_record r s)
         | Ok _ \<Rightarrow>
            (case rr_status r of
               Running \<Rightarrow>
                 (let r = r\<lparr>rr_status := Queued, rr_failure := None, rr_runner_id := None,
                            rr_lease_token := None, rr_lease_expires_at := None\<rparr>;
                      (c, s) = next_cursor s;
                      r = r\<lparr>rr_event_cursor := c\<rparr>;
                      s = update_active_lock r (env_now env) s;
                      s = push_event env r EvRunnerHeartbeat None s;
                      s = insert_record r s;
                      s = push_queued_run (lr_run_id q) s in
                  (Ok (run_state r), s))
             | CancelRequested \<Rightarrow>
                 (let (r, s) = terminalize env Cancelled None EvCancelled None r s in
                  (Ok (run_state r), prune_terminal_records (insert_record r s)))
             | _ \<Rightarrow> (Err (InvalidTransition (rr_status r) Queued), insert_record r s))))"

definition lease_expired_filter :: "recover_expired_leases_request \<Rightarrow> run_record \<Rightarrow> bool" where
  "lease_expired_filter q r =
    ((rr_status r = Running \<or> rr_status r = CancelRequested)
     \<and> (case rec_scope_filter q of Some scope \<Rightarrow> scope = rr_scope r | None \<Rightarrow> True)
     \<and> (case rr_lease_expires_at r of Some t \<Rightarrow> t \<le> rec_now q | None \<Rightarrow> False))"

fun recover_loop ::
    "env \<Rightarrow> turn_run_id list \<Rightarrow> inner \<Rightarrow> turn_run_state list \<times> inner" where
  "recover_loop env [] s = ([], s)"
| "recover_loop env (k # ks) s =
    (case hm_get (in_records s) k of
       None \<Rightarrow> recover_loop env ks s
     | Some r \<Rightarrow>
        (let s = s\<lparr>in_records := hm_remove k (in_records s)\<rparr>;
             outcome = expired_lease_terminal_outcome (rr_status r);
             (r, s) = terminalize env (lx_status outcome) (lx_failure outcome)
                        (lx_event_kind outcome) (lx_event_detail outcome) r s;
             s = s\<lparr>in_records := hm_insert k r (in_records s)\<rparr>;
             (recovered, s) = recover_loop env ks s in
         (run_state r # recovered, s)))"

definition recover_expired_leases ::
    "env \<Rightarrow> recover_expired_leases_request \<Rightarrow> inner \<Rightarrow> turn_run_state list \<times> inner" where
  "recover_expired_leases env q s =
    (let expired = map fst (filter (\<lambda>(k, r). lease_expired_filter q r) (in_records s));
         (recovered, s) = recover_loop env expired s in
     (recovered, prune_terminal_records s))"

section \<open>Resume and cancel\<close>

definition resumable_status :: "resume_turn_precondition \<Rightarrow> turn_status \<Rightarrow> bool" where
  "resumable_status p st =
    (case required_status p of
       Some required \<Rightarrow> st = required
     | None \<Rightarrow> st \<in> {BlockedApproval, BlockedAuth, BlockedResource})"

definition resume_turn_once ::
    "env \<Rightarrow> resume_turn_request \<Rightarrow> inner \<Rightarrow> resume_turn_response turn_result \<times> inner" where
  "resume_turn_once env q s =
    (case take_record (res_run_id q) s of
       Err e \<Rightarrow> (Err e, s)
     | Ok (r, s) \<Rightarrow>
        (let (result, r, s) =
               (if rr_scope r \<noteq> res_scope q then (Err ScopeNotFound, r, s)
                else if \<not> resumable_status (res_precondition q) (rr_status r)
                then (Err (InvalidTransition (rr_status r) Queued), r, s)
                else if rr_actor r \<noteq> res_actor q then (Err Unauthorized, r, s)
                else if rr_gate_ref r \<noteq> Some (res_gate_resolution_ref q)
                then (Err (InvalidRequest ''gate resolution reference mismatch''), r, s)
                else
                  (let r = r\<lparr>rr_status := Queued, rr_gate_ref := None,
                             rr_credential_requirements := [],
                             rr_source_binding_ref := res_source_binding_ref q,
                             rr_reply_target_binding_ref := res_reply_target_binding_ref q\<rparr>;
                       (c, s) = next_cursor s;
                       r = r\<lparr>rr_event_cursor := c\<rparr>;
                       s = update_active_lock r (env_now env) s;
                       s = push_queued_run (rr_run_id r) s;
                       response = \<lparr>rsm_run_id = rr_run_id r, rsm_status = rr_status r,
                                   rsm_event_cursor = rr_event_cursor r\<rparr>;
                       s = push_event env r EvResumed None s in
                   (Ok response, r, s))) in
         (result, insert_record r s)))"

definition cancel_response :: "run_record \<Rightarrow> bool \<Rightarrow> cancel_run_response" where
  "cancel_response r already_terminal =
    \<lparr>can_run_id = rr_run_id r, can_status = rr_status r, can_event_cursor = rr_event_cursor r,
     can_already_terminal = already_terminal, can_actor = Some (rr_actor r)\<rparr>"

definition cancel_next :: "turn_status \<Rightarrow> (turn_status \<times> turn_event_kind) option" where
  "cancel_next st =
    (if st \<in> {Queued, BlockedApproval, BlockedAuth, BlockedResource, BlockedDependentRun}
     then Some (Cancelled, EvCancelled)
     else if st \<in> {Running, CancelRequested} then Some (CancelRequested, EvCancelRequested)
     else None)"

definition request_cancel_once ::
    "env \<Rightarrow> cancel_run_request \<Rightarrow> inner \<Rightarrow> cancel_run_response turn_result \<times> inner" where
  "request_cancel_once env q s =
    (case take_record (cr_run_id q) s of
       Err e \<Rightarrow> (Err e, s)
     | Ok (r, s) \<Rightarrow>
        (let (result, r, s) =
               (if rr_scope r \<noteq> cr_scope q then (Err ScopeNotFound, r, s)
                else if rr_actor r \<noteq> cr_actor q then (Err Unauthorized, r, s)
                else if is_terminal (rr_status r) then (Ok (cancel_response r True), r, s)
                else case cancel_next (rr_status r) of
                    None \<Rightarrow> (Ok (cancel_response r True), r, s)
                  | Some (next_status, kind) \<Rightarrow>
                     (let r = r\<lparr>rr_status := next_status\<rparr>;
                          (r, s) =
                            (if is_terminal (rr_status r)
                             then (r\<lparr>rr_failure := None\<rparr>,
                                   remove_queued_run (rr_run_id r)
                                     (release_active_lock (r\<lparr>rr_failure := None\<rparr>) s))
                             else (r, update_active_lock r (env_now env) s));
                          (c, s) = next_cursor s;
                          r = r\<lparr>rr_event_cursor := c\<rparr>;
                          response = cancel_response r False;
                          s = push_event env r kind (Some (cancel_category (cr_reason q))) s;
                          s = (if is_terminal (rr_status r) then mark_terminal (rr_run_id r) s else s) in
                      (Ok response, r, s))) in
         (result, prune_terminal_records (insert_record r s))))"

end
