(* ===== verification/Turn_Invariant.thy ===== *)
theory Turn_Invariant
  imports Turn_Transitions
begin

text \<open>
  The invariant of the in-memory turn store and what the helper operations do to it.
  The invariant ties the redundant parts of \<^verbatim>\<open>Inner\<close> together: thread locks, queue,
  leases, admission reservations, spawn-tree counts, the list of terminal runs and
  the event log all follow from the run records.
\<close>

section \<open>The invariant\<close>

definition lease_shape :: "run_record \<Rightarrow> bool" where
  "lease_shape r \<longleftrightarrow>
    (rr_runner_id r \<noteq> None) = (rr_status r \<in> {Running, CancelRequested})
    \<and> (rr_lease_token r \<noteq> None) = (rr_status r \<in> {Running, CancelRequested})
    \<and> (rr_lease_expires_at r \<noteq> None) = (rr_status r \<in> {Running, CancelRequested})"

definition lineage_shape :: "run_record \<Rightarrow> bool" where
  "lineage_shape r \<longleftrightarrow>
    (rr_parent_run_id r = None) = (rr_subagent_depth r = 0)
    \<and> (rr_parent_run_id r = None) = (rr_spawn_tree_root_run_id r = None)"

definition records_ok :: "(turn_run_id, run_record) hmap \<Rightarrow> bool" where
  "records_ok recs \<longleftrightarrow> hm_wf recs
    \<and> (\<forall>k r. hm_get recs k = Some r \<longrightarrow> rr_run_id r = k \<and> lease_shape r \<and> lineage_shape r)"

definition locks_ok ::
    "(turn_run_id, run_record) hmap \<Rightarrow> (turn_active_lock_key, turn_active_lock_record) hmap \<Rightarrow> bool" where
  "locks_ok recs locks \<longleftrightarrow> hm_wf locks
    \<and> (\<forall>key l. hm_get locks key = Some l \<longrightarrow> al_key l = key
        \<and> (\<exists>r. hm_get recs (al_run_id l) = Some r \<and> lock_key_from (rr_scope r) = key
             \<and> rr_status r = al_status l \<and> \<not> is_terminal (rr_status r)))
    \<and> (\<forall>k r. hm_get recs k = Some r \<longrightarrow> \<not> is_terminal (rr_status r)
        \<longrightarrow> (\<exists>l. hm_get locks (lock_key_from (rr_scope r)) = Some l \<and> al_run_id l = k))"

definition queue_ok :: "(turn_run_id, run_record) hmap \<Rightarrow> turn_run_id list \<Rightarrow> bool" where
  "queue_ok recs q \<longleftrightarrow> distinct q
    \<and> (\<forall>k. k \<in> set q \<longleftrightarrow> (\<exists>r. hm_get recs k = Some r \<and> rr_status r = Queued))"

definition reservation_of :: "run_record \<Rightarrow> turn_admission_reservation_record" where
  "reservation_of r =
    \<lparr>rsv_run_id = rr_run_id r, rsv_admission_class = tp_admission_class (rr_profile r),
     rsv_buckets = admission_buckets (rr_scope r) (rr_actor r) (tp_admission_class (rr_profile r)),
     rsv_released = is_terminal (rr_status r)\<rparr>"

definition admission_ok ::
    "(turn_run_id, run_record) hmap \<Rightarrow> (turn_run_id, turn_admission_reservation_record) hmap \<Rightarrow> bool" where
  "admission_ok recs adm \<longleftrightarrow> hm_wf adm
    \<and> (\<forall>k. hm_get adm k = map_option reservation_of (hm_get recs k))"

definition terminal_ok ::
    "(turn_run_id, run_record) hmap \<Rightarrow> (spawn_tree_reservation_key, u64) hmap \<Rightarrow> turn_run_id list \<Rightarrow> bool" where
  "terminal_ok recs tree ts \<longleftrightarrow> distinct ts
    \<and> (\<forall>k \<in> set ts. record_is_terminal recs k)
    \<and> (\<forall>k. record_is_terminal recs k \<longrightarrow>
         k \<in> set ts \<or> (\<exists>key n. hm_get tree key = Some n \<and> stk_root_run_id key = k))"

definition tree_ok ::
    "(turn_run_id, run_record) hmap \<Rightarrow> (spawn_tree_reservation_key, u64) hmap \<Rightarrow> bool" where
  "tree_ok recs tree \<longleftrightarrow> hm_wf tree
    \<and> (\<forall>key n. hm_get tree key = Some n \<longrightarrow> 0 < n
        \<and> (\<exists>r. hm_get recs (stk_root_run_id key) = Some r
             \<and> key = spawn_tree_key (rr_scope r) (stk_root_run_id key)))"

definition event_log_ok ::
    "u64 \<Rightarrow> event_cursor \<Rightarrow> turn_lifecycle_event list \<Rightarrow> usize \<Rightarrow> bool" where
  "event_log_ok cur rfloor events cap \<longleftrightarrow>
    length events \<le> cap \<and> rfloor \<le> cur
    \<and> sorted (map ev_cursor events)
    \<and> (\<forall>e \<in> set events. rfloor \<le> ev_cursor e \<and> ev_cursor e \<le> cur)
    \<and> (cur \<noteq> - 1 \<longrightarrow> sorted_wrt (<) (map ev_cursor events) \<and> (\<forall>e \<in> set events. rfloor < ev_cursor e))"

definition cursors_ok :: "u64 \<Rightarrow> (turn_run_id, run_record) hmap \<Rightarrow> bool" where
  "cursors_ok cur recs \<longleftrightarrow> (\<forall>k r. hm_get recs k = Some r \<longrightarrow> rr_event_cursor r \<le> cur)"

definition store_inv :: "inner \<Rightarrow> bool" where
  "store_inv s \<longleftrightarrow>
    records_ok (in_records s)
    \<and> locks_ok (in_records s) (in_active_locks s)
    \<and> queue_ok (in_records s) (in_queued_runs s)
    \<and> admission_ok (in_records s) (in_admission_reservations s)
    \<and> tree_ok (in_records s) (in_tree_reservations s)
    \<and> terminal_ok (in_records s) (in_tree_reservations s) (in_terminal_runs s)
    \<and> event_log_ok (in_cursor s) (in_event_retention_floor s) (in_events s) (max_events (in_limits s))
    \<and> cursors_ok (in_cursor s) (in_records s)"

definition terminal_bound :: "inner \<Rightarrow> bool" where
  "terminal_bound s \<longleftrightarrow> length (in_terminal_runs s) \<le> max_terminal_records (in_limits s)"

lemma store_inv_init: "store_inv (with_limits limits)"
  by (simp add: store_inv_def with_limits_def records_ok_def locks_ok_def queue_ok_def
      admission_ok_def tree_ok_def terminal_ok_def event_log_ok_def cursors_ok_def
      record_is_terminal_def)

section \<open>Helpers as record updates\<close>

text \<open>Each helper of the store changes only some fields. The rules \<^verbatim>\<open>frame_simps\<close> rewrite a
  helper to an update of exactly those fields, so that the state an operation
  leaves becomes one record update.\<close>

definition log_push ::
    "usize \<Rightarrow> event_cursor \<Rightarrow> turn_lifecycle_event list \<Rightarrow> turn_lifecycle_event
      \<Rightarrow> event_cursor \<times> turn_lifecycle_event list" where
  "log_push cap rfloor events e =
    (if Suc (length events) > cap
     then (max rfloor (ev_cursor ((events @ [e]) ! (length events - cap))),
           drop (Suc (length events) - cap) (events @ [e]))
     else (rfloor, events @ [e]))"

definition locks_update ::
    "run_record \<Rightarrow> timestamp \<Rightarrow> (turn_active_lock_key, turn_active_lock_record) hmap
      \<Rightarrow> (turn_active_lock_key, turn_active_lock_record) hmap" where
  "locks_update r t locks =
    (case hm_get locks (lock_key_from (rr_scope r)) of
       Some l \<Rightarrow> if al_run_id l = rr_run_id r
         then hm_insert (lock_key_from (rr_scope r))
           (l\<lparr>al_status := rr_status r, al_lock_version := lock_version_incremented (al_lock_version l),
              al_updated_at := t\<rparr>) locks
         else locks
     | None \<Rightarrow> locks)"

definition locks_touch ::
    "run_record \<Rightarrow> timestamp \<Rightarrow> (turn_active_lock_key, turn_active_lock_record) hmap
      \<Rightarrow> (turn_active_lock_key, turn_active_lock_record) hmap" where
  "locks_touch r t locks =
    (case hm_get locks (lock_key_from (rr_scope r)) of
       Some l \<Rightarrow> if al_run_id l = rr_run_id r
         then hm_insert (lock_key_from (rr_scope r)) (l\<lparr>al_updated_at := t\<rparr>) locks else locks
     | None \<Rightarrow> locks)"

definition locks_release ::
    "run_record \<Rightarrow> (turn_active_lock_key, turn_active_lock_record) hmap
      \<Rightarrow> (turn_active_lock_key, turn_active_lock_record) hmap" where
  "locks_release r locks =
    (case hm_get locks (lock_key_from (rr_scope r)) of
       Some l \<Rightarrow> if al_run_id l = rr_run_id r then hm_remove (lock_key_from (rr_scope r)) locks else locks
     | None \<Rightarrow> locks)"

definition adm_release ::
    "turn_run_id \<Rightarrow> (turn_run_id, turn_admission_reservation_record) hmap
      \<Rightarrow> (turn_run_id, turn_admission_reservation_record) hmap" where
  "adm_release k adm =
    (case hm_get adm k of
       Some v \<Rightarrow> hm_insert k (v\<lparr>rsv_released := True\<rparr>) adm | None \<Rightarrow> adm)"

lemma next_cursor_frame [frame_simps]:
  "next_cursor s = (saturating_add (in_cursor s) 1, s\<lparr>in_cursor := saturating_add (in_cursor s) 1\<rparr>)"
  by (simp add: next_cursor_def Let_def)

lemma push_event_frame [frame_simps]:
  "push_event env r kind reason s =
    s\<lparr>in_event_retention_floor := fst (log_push (max_events (in_limits s)) (in_event_retention_floor s)
        (in_events s) (event_of_record env r kind reason)),
      in_events := snd (log_push (max_events (in_limits s)) (in_event_retention_floor s)
        (in_events s) (event_of_record env r kind reason))\<rparr>"
  by (simp add: push_event_def log_push_def Let_def less_Suc_eq_le Suc_diff_le)

lemma update_active_lock_frame [frame_simps]:
  "update_active_lock r t s = s\<lparr>in_active_locks := locks_update r t (in_active_locks s)\<rparr>"
  by (simp add: update_active_lock_def locks_update_def Let_def split: option.splits)

lemma touch_active_lock_frame [frame_simps]:
  "touch_active_lock r t s = s\<lparr>in_active_locks := locks_touch r t (in_active_locks s)\<rparr>"
  by (simp add: touch_active_lock_def locks_touch_def Let_def split: option.splits)

lemma release_active_lock_frame [frame_simps]:
  "release_active_lock r s = s\<lparr>in_active_locks := locks_release r (in_active_locks s)\<rparr>"
  by (simp add: release_active_lock_def locks_release_def Let_def split: option.splits)

lemma mark_terminal_frame [frame_simps]:
  "mark_terminal k s =
    s\<lparr>in_admission_reservations := adm_release k (in_admission_reservations s),
      in_terminal_runs := push_back (in_terminal_runs s) k\<rparr>"
  by (simp add: mark_terminal_def release_admission_def adm_release_def Let_def split: option.splits)

lemmas update_frames [frame_simps] =
  remove_queued_run_def push_queued_run_def insert_record_def record_checkpoint_def [unfolded Let_def]

section \<open>The event log\<close>

lemma saturating_one_below_max:
  fixes c :: u64
  assumes "saturating_add c 1 \<noteq> - 1"
  shows "c < saturating_add c 1"
proof (rule saturating_add_one_gt)
  show "c \<noteq> - 1" using assms by auto
qed

lemma event_log_push:
  assumes ok: "event_log_ok cur rfloor events cap" and e: "ev_cursor e = saturating_add cur 1"
  shows "event_log_ok (saturating_add cur 1) (fst (log_push cap rfloor events e))
    (snd (log_push cap rfloor events e)) cap"
proof -
  let ?c = "saturating_add cur 1" and ?xs = "events @ [e]"
  have le: "cur \<le> ?c" by (rule saturating_add_ge)
  have xs: "\<forall>x \<in> set ?xs. ev_cursor x \<le> ?c"
    using ok e le order_trans [of _ cur ?c] by (auto simp: event_log_ok_def)
  have sorted: "sorted (map ev_cursor ?xs)"
    using ok e xs by (auto simp: event_log_ok_def sorted_append)
  have strict: "sorted_wrt (<) (map ev_cursor ?xs) \<and> (\<forall>x \<in> set ?xs. rfloor < ev_cursor x)" if "?c \<noteq> - 1"
  proof -
    from that have "cur < ?c" by (rule saturating_one_below_max)
    moreover from this have "cur \<noteq> - 1" using word_n1_ge [of ?c] by auto
    ultimately show ?thesis
      using ok e by (fastforce simp: event_log_ok_def sorted_wrt_append)
  qed
  show ?thesis
  proof (cases "Suc (length events) > cap")
    case False
    then show ?thesis
      using ok xs sorted strict e le by (auto simp: event_log_ok_def log_push_def)
  next
    case True
    define i where "i = length events - cap"
    have i: "i < length ?xs" "Suc (length events) - cap = Suc i"
      using True by (auto simp: i_def)
    have ge: "ev_cursor (?xs ! i) \<le> ev_cursor x" if "x \<in> set (drop (Suc i) ?xs)" for x
      by (rule sorted_drop_bound [OF sorted i(1) that])
    have gt: "ev_cursor (?xs ! i) < ev_cursor x" if "?c \<noteq> - 1" "x \<in> set (drop (Suc i) ?xs)" for x
      by (rule sorted_drop_bound [OF conjunct1 [OF strict [OF that(1)]] i(1) that(2)])
    have at: "ev_cursor (?xs ! i) \<le> ?c" using xs i(1) nth_mem by blast
    have sub: "set (drop (Suc i) ?xs) \<subseteq> set ?xs" by (rule set_drop_subset)
    have push: "log_push cap rfloor events e = (max rfloor (ev_cursor (?xs ! i)), drop (Suc i) ?xs)"
      using True i by (simp add: log_push_def i_def)
    let ?ys = "drop (Suc i) ?xs" and ?f = "max rfloor (ev_cursor (?xs ! i))"
    have f0: "rfloor \<le> ?c" "\<forall>x \<in> set ?xs. rfloor \<le> ev_cursor x"
      using ok e le order_trans [of rfloor cur ?c] by (auto simp: event_log_ok_def)
    have "length ?ys \<le> cap" using i by (simp add: i_def)
    moreover have "?f \<le> ?c" using f0 at by (simp only: max.bounded_iff)
    moreover have "sorted (map ev_cursor ?ys)"
      using sorted by (metis drop_map sorted_wrt_drop)
    moreover have "?f \<le> ev_cursor x \<and> ev_cursor x \<le> ?c" if "x \<in> set ?ys" for x
      using ge [OF that] f0 xs subsetD [OF sub that] by (simp only: max.bounded_iff)
    moreover have "sorted_wrt (<) (map ev_cursor ?ys)" if "?c \<noteq> - 1"
      using strict [OF that] by (metis drop_map sorted_wrt_drop)
    moreover have "?f < ev_cursor x" if "?c \<noteq> - 1" "x \<in> set ?ys" for x
      using gt [OF that] strict [OF that(1)] subsetD [OF sub that(2)] by (simp only: max_less_iff_conj)
    ultimately show ?thesis
      unfolding push event_log_ok_def fst_conv snd_conv by blast
  qed
qed

section \<open>Replacing a record\<close>

text \<open>What no transition changes about a run.\<close>

definition same_run :: "run_record \<Rightarrow> run_record \<Rightarrow> bool" where
  "same_run r r' \<longleftrightarrow> rr_run_id r' = rr_run_id r \<and> rr_scope r' = rr_scope r \<and> rr_actor r' = rr_actor r
    \<and> rr_turn_id r' = rr_turn_id r \<and> rr_profile r' = rr_profile r
    \<and> rr_received_at r' = rr_received_at r \<and> rr_parent_run_id r' = rr_parent_run_id r
    \<and> rr_subagent_depth r' = rr_subagent_depth r
    \<and> rr_spawn_tree_root_run_id r' = rr_spawn_tree_root_run_id r"

definition put_record ::
    "run_record \<Rightarrow> (turn_run_id, run_record) hmap \<Rightarrow> (turn_run_id, run_record) hmap" where
  "put_record r recs = hm_insert (rr_run_id r) r (hm_remove (rr_run_id r) recs)"

lemma put_record_get [simp]:
  "hm_get (put_record r recs) k = (if k = rr_run_id r then Some r else hm_get recs k)"
  by (simp add: put_record_def)

lemma put_record_wf [simp]: "hm_wf recs \<Longrightarrow> hm_wf (put_record r recs)"
  by (simp add: put_record_def)

lemma put_record_dom: "dom (hm_get (put_record r recs)) = insert (rr_run_id r) (dom (hm_get recs))"
  by (auto simp: put_record_def)

lemma records_put:
  assumes "records_ok recs" "hm_get recs k = Some r" "same_run r r'" "lease_shape r'"
  shows "records_ok (put_record r' recs)"
  using assms by (auto simp: records_ok_def same_run_def lineage_shape_def)

lemma record_scope_unique:
  assumes "locks_ok recs locks"
    and "hm_get recs k = Some r" "\<not> is_terminal (rr_status r)"
    and "hm_get recs k' = Some r'" "\<not> is_terminal (rr_status r')"
    and "rr_scope r = rr_scope r'"
  shows "k = k'"
proof -
  from assms obtain l where "hm_get locks (lock_key_from (rr_scope r)) = Some l" "al_run_id l = k"
    unfolding locks_ok_def by blast
  moreover from assms obtain l' where "hm_get locks (lock_key_from (rr_scope r')) = Some l'" "al_run_id l' = k'"
    unfolding locks_ok_def by blast
  ultimately show ?thesis using assms(6) by simp
qed

lemma lock_key_inj [simp]: "lock_key_from a = lock_key_from b \<longleftrightarrow> a = b"
  by (simp add: lock_key_from_def)

lemma locks_set:
  assumes locks: "locks_ok recs locks" and recs: "records_ok recs"
    and r: "hm_get recs k = Some r" "\<not> is_terminal (rr_status r)"
    and r': "same_run r r'" "\<not> is_terminal (rr_status r')"
    and l: "al_key l = lock_key_from (rr_scope r)" "al_run_id l = k" "al_status l = rr_status r'"
  shows "locks_ok (put_record r' recs) (hm_insert (lock_key_from (rr_scope r)) l locks)"
proof -
  have k: "rr_run_id r' = k" "rr_scope r' = rr_scope r"
    using recs r r' by (auto simp: records_ok_def same_run_def)
  have other: "al_run_id m \<noteq> k" if "hm_get locks key = Some m" "key \<noteq> lock_key_from (rr_scope r)" for key m
    using locks that r unfolding locks_ok_def by (metis option.inject)
  have uniq: "rr_scope x \<noteq> rr_scope r" if "hm_get recs j = Some x" "\<not> is_terminal (rr_status x)" "j \<noteq> k" for j x
    using record_scope_unique [OF locks that(1,2) r] that(3) by blast
  show ?thesis
    unfolding locks_ok_def
  proof (intro conjI allI impI)
    show "hm_wf (hm_insert (lock_key_from (rr_scope r)) l locks)"
      using locks by (simp add: locks_ok_def)
  next
    fix key m assume "hm_get (hm_insert (lock_key_from (rr_scope r)) l locks) key = Some m"
    then show "al_key m = key" "\<exists>x. hm_get (put_record r' recs) (al_run_id m) = Some x \<and> lock_key_from (rr_scope x) = key
        \<and> rr_status x = al_status m \<and> \<not> is_terminal (rr_status x)"
      using locks l k r' other [of key m]
      by (auto simp: locks_ok_def split: if_splits)
  next
    fix j x assume "hm_get (put_record r' recs) j = Some x" "\<not> is_terminal (rr_status x)"
    then show "\<exists>m. hm_get (hm_insert (lock_key_from (rr_scope r)) l locks) (lock_key_from (rr_scope x)) = Some m
        \<and> al_run_id m = j"
      using locks l k uniq [of j x] by (auto simp: locks_ok_def split: if_splits)
  qed
qed

lemma live_lock:
  assumes "locks_ok recs locks" "hm_get recs k = Some r" "\<not> is_terminal (rr_status r)"
  obtains l where "hm_get locks (lock_key_from (rr_scope r)) = Some l" "al_run_id l = k"
    "al_key l = lock_key_from (rr_scope r)" "al_status l = rr_status r"
proof -
  from assms obtain l where "hm_get locks (lock_key_from (rr_scope r)) = Some l" "al_run_id l = k"
    unfolding locks_ok_def by blast
  moreover from this assms have "al_key l = lock_key_from (rr_scope r)" "al_status l = rr_status r"
    unfolding locks_ok_def by (metis option.inject)+
  ultimately show thesis using that by blast
qed

lemma locks_update_ok:
  assumes "locks_ok recs locks" "records_ok recs" "hm_get recs k = Some r" "\<not> is_terminal (rr_status r)"
    "same_run r r'" "\<not> is_terminal (rr_status r')"
  shows "locks_ok (put_record r' recs) (locks_update r' t locks)"
proof -
  obtain l where l: "hm_get locks (lock_key_from (rr_scope r)) = Some l" "al_run_id l = k"
    "al_key l = lock_key_from (rr_scope r)" "al_status l = rr_status r"
    using live_lock [OF assms(1,3,4)] .
  moreover have "rr_run_id r' = k" "rr_scope r' = rr_scope r"
    using assms by (auto simp: records_ok_def same_run_def)
  ultimately show ?thesis
    using locks_set [OF assms] by (simp add: locks_update_def)
qed

lemma locks_touch_ok:
  assumes "locks_ok recs locks" "records_ok recs" "hm_get recs k = Some r" "\<not> is_terminal (rr_status r)"
    "same_run r r'" "rr_status r' = rr_status r"
  shows "locks_ok (put_record r' recs) (locks_touch r' t locks)"
proof -
  obtain l where l: "hm_get locks (lock_key_from (rr_scope r)) = Some l" "al_run_id l = k"
    "al_key l = lock_key_from (rr_scope r)" "al_status l = rr_status r"
    using live_lock [OF assms(1,3,4)] .
  moreover have "rr_run_id r' = k" "rr_scope r' = rr_scope r"
    using assms by (auto simp: records_ok_def same_run_def)
  ultimately show ?thesis
    using locks_set [OF assms(1-5)] assms by (simp add: locks_touch_def)
qed

lemma locks_release_ok:
  assumes locks: "locks_ok recs locks" and recs: "records_ok recs"
    and r: "hm_get recs k = Some r" "\<not> is_terminal (rr_status r)"
    and r': "same_run r r'" "is_terminal (rr_status r')"
  shows "locks_ok (put_record r' recs) (locks_release r' locks)"
proof -
  obtain l where l: "hm_get locks (lock_key_from (rr_scope r)) = Some l" "al_run_id l = k"
    using live_lock [OF locks r] by metis
  have k: "rr_run_id r' = k" "rr_scope r' = rr_scope r"
    using recs r r' by (auto simp: records_ok_def same_run_def)
  have rel: "locks_release r' locks = hm_remove (lock_key_from (rr_scope r)) locks"
    using l k by (simp add: locks_release_def)
  have other: "al_run_id m \<noteq> k" if "hm_get locks key = Some m" "key \<noteq> lock_key_from (rr_scope r)" for key m
    using locks that r unfolding locks_ok_def by (metis option.inject)
  have uniq: "rr_scope x \<noteq> rr_scope r" if "hm_get recs j = Some x" "\<not> is_terminal (rr_status x)" "j \<noteq> k" for j x
    using record_scope_unique [OF locks that(1,2) r] that(3) by blast
  show ?thesis
    unfolding locks_ok_def rel
  proof (intro conjI allI impI)
    show "hm_wf (hm_remove (lock_key_from (rr_scope r)) locks)"
      using locks by (simp add: locks_ok_def)
  next
    fix key m assume "hm_get (hm_remove (lock_key_from (rr_scope r)) locks) key = Some m"
    then show "al_key m = key" "\<exists>x. hm_get (put_record r' recs) (al_run_id m) = Some x \<and> lock_key_from (rr_scope x) = key
        \<and> rr_status x = al_status m \<and> \<not> is_terminal (rr_status x)"
      using locks k other [of key m] by (auto simp: locks_ok_def split: if_splits)
  next
    fix j x assume "hm_get (put_record r' recs) j = Some x" "\<not> is_terminal (rr_status x)"
    then show "\<exists>m. hm_get (hm_remove (lock_key_from (rr_scope r)) locks) (lock_key_from (rr_scope x)) = Some m
        \<and> al_run_id m = j"
      using locks k r' uniq [of j x] by (auto simp: locks_ok_def split: if_splits)
  qed
qed

lemma queue_put:
  assumes "queue_ok recs q" "hm_get recs k = Some r" "rr_run_id r' = k"
    and "distinct q'" "set q' = (set q - {k}) \<union> (if rr_status r' = Queued then {k} else {})"
  shows "queue_ok (put_record r' recs) q'"
  using assms by (auto simp: queue_ok_def)

lemma tree_put:
  assumes "tree_ok recs tree" "hm_get recs k = Some r" "rr_run_id r' = k" "rr_scope r' = rr_scope r"
  shows "tree_ok (put_record r' recs) tree"
  using assms unfolding tree_ok_def by (auto split: if_splits) (metis option.inject)+

lemma cursors_put:
  assumes "cursors_ok cur recs" "cur \<le> cur'" "rr_event_cursor r' \<le> cur'"
  shows "cursors_ok cur' (put_record r' recs)"
  using assms unfolding cursors_ok_def by (auto split: if_splits intro: order_trans)

lemma admission_put_live:
  assumes "admission_ok recs adm" "hm_get recs k = Some r" "rr_run_id r = k" "same_run r r'"
    "is_terminal (rr_status r') = is_terminal (rr_status r)"
  shows "admission_ok (put_record r' recs) adm"
  using assms by (auto simp: admission_ok_def same_run_def reservation_of_def)

lemma admission_put_terminal:
  assumes "admission_ok recs adm" "hm_get recs k = Some r" "rr_run_id r = k" "same_run r r'"
    "is_terminal (rr_status r')"
  shows "admission_ok (put_record r' recs) (adm_release k adm)"
  using assms by (auto simp: admission_ok_def same_run_def reservation_of_def adm_release_def)

lemma record_is_terminal_put:
  "record_is_terminal (put_record r' recs) j =
    (if j = rr_run_id r' then is_terminal (rr_status r') else record_is_terminal recs j)"
  by (simp add: record_is_terminal_def)

lemma terminal_put_live:
  assumes "terminal_ok recs tree ts" "hm_get recs k = Some r" "rr_run_id r' = k"
    "is_terminal (rr_status r') = is_terminal (rr_status r)"
  shows "terminal_ok (put_record r' recs) tree ts"
  using assms unfolding terminal_ok_def record_is_terminal_put
  by (auto simp: record_is_terminal_def split: option.splits)

lemma terminal_put_terminal:
  assumes "terminal_ok recs tree ts" "hm_get recs k = Some r" "rr_run_id r' = k"
    "\<not> is_terminal (rr_status r)" "is_terminal (rr_status r')"
  shows "terminal_ok (put_record r' recs) tree (push_back ts k)"
proof -
  have "k \<notin> set ts" using assms by (auto simp: terminal_ok_def record_is_terminal_def)
  then show ?thesis
    using assms unfolding terminal_ok_def record_is_terminal_put by auto
qed

section \<open>The two kinds of transition\<close>

text \<open>A step of the event log: the cursor advances and the event of the new record is
  appended, or nothing is published.\<close>

definition log_step :: "run_record \<Rightarrow> run_record \<Rightarrow> inner \<Rightarrow> inner \<Rightarrow> bool" where
  "log_step r r' s s' \<longleftrightarrow>
    (in_cursor s' = saturating_add (in_cursor s) 1 \<and> rr_event_cursor r' = in_cursor s'
      \<and> (\<exists>e. ev_cursor e = in_cursor s'
           \<and> in_event_retention_floor s' = fst (log_push (max_events (in_limits s)) (in_event_retention_floor s) (in_events s) e)
           \<and> in_events s' = snd (log_push (max_events (in_limits s)) (in_event_retention_floor s) (in_events s) e)))
    \<or> (in_cursor s' = in_cursor s \<and> rr_event_cursor r' = rr_event_cursor r
      \<and> in_event_retention_floor s' = in_event_retention_floor s \<and> in_events s' = in_events s)"

lemma log_step_same:
  assumes "in_cursor s' = in_cursor s" "rr_event_cursor r' = rr_event_cursor r"
    "in_event_retention_floor s' = in_event_retention_floor s" "in_events s' = in_events s"
  shows "log_step r r' s s'"
  using assms by (simp add: log_step_def)

lemma log_step_push:
  assumes "in_cursor s' = saturating_add (in_cursor s) 1" "rr_event_cursor r' = in_cursor s'"
    "in_event_retention_floor s' = fst (log_push (max_events (in_limits s)) (in_event_retention_floor s)
       (in_events s) (event_of_record env r' kind d))"
    "in_events s' = snd (log_push (max_events (in_limits s)) (in_event_retention_floor s)
       (in_events s) (event_of_record env r' kind d))"
  shows "log_step r r' s s'"
proof -
  have "ev_cursor (event_of_record env r' kind d) = in_cursor s'"
    using assms(2) by (simp add: event_of_record_def)
  with assms show ?thesis unfolding log_step_def by blast
qed

lemma log_step_ok:
  assumes "log_step r r' s s'" "in_limits s' = in_limits s"
    and "event_log_ok (in_cursor s) (in_event_retention_floor s) (in_events s) (max_events (in_limits s))"
    and "cursors_ok (in_cursor s) recs" "hm_get recs k = Some r"
  shows "event_log_ok (in_cursor s') (in_event_retention_floor s') (in_events s') (max_events (in_limits s'))"
    and "cursors_ok (in_cursor s') (put_record r' recs)"
proof -
  show "event_log_ok (in_cursor s') (in_event_retention_floor s') (in_events s') (max_events (in_limits s'))"
    using assms event_log_push [OF assms(3)] by (auto simp: log_step_def)
  have "in_cursor s \<le> in_cursor s'" "rr_event_cursor r' \<le> in_cursor s'"
    using assms saturating_add_ge [of "in_cursor s" 1] by (auto simp: log_step_def cursors_ok_def)
  then show "cursors_ok (in_cursor s') (put_record r' recs)"
    using cursors_put [OF assms(4)] by blast
qed

lemma store_inv_live_step:
  assumes inv: "store_inv s" and r: "hm_get (in_records s) k = Some r" "\<not> is_terminal (rr_status r)"
    and r': "same_run r r'" "\<not> is_terminal (rr_status r')" "lease_shape r'"
    and recs: "in_records s' = put_record r' (in_records s)"
    and locks: "in_active_locks s' = locks_update r' t (in_active_locks s)
      \<or> in_active_locks s' = locks_touch r' t (in_active_locks s) \<and> rr_status r' = rr_status r"
    and queue: "distinct (in_queued_runs s')"
      "set (in_queued_runs s') = (set (in_queued_runs s) - {k}) \<union> (if rr_status r' = Queued then {k} else {})"
    and same: "in_admission_reservations s' = in_admission_reservations s"
      "in_tree_reservations s' = in_tree_reservations s" "in_terminal_runs s' = in_terminal_runs s"
      "in_limits s' = in_limits s"
    and log: "log_step r r' s s'"
  shows "store_inv s'"
proof -
  note parts = inv [unfolded store_inv_def]
  have k: "rr_run_id r = k" "rr_run_id r' = k" "rr_scope r' = rr_scope r"
    using parts r r'(1) by (auto simp: records_ok_def same_run_def)
  show ?thesis
    unfolding store_inv_def recs
    using parts k r r' locks queue same log
      records_put [of "in_records s" k r r'] queue_put [of "in_records s" "in_queued_runs s" k r r']
      locks_update_ok [of "in_records s" "in_active_locks s" k r r' t]
      locks_touch_ok [of "in_records s" "in_active_locks s" k r r' t]
      admission_put_live [of "in_records s" "in_admission_reservations s" k r r']
      tree_put [of "in_records s" "in_tree_reservations s" k r r']
      terminal_put_live [of "in_records s" "in_tree_reservations s" "in_terminal_runs s" k r r']
      log_step_ok [OF log same(4), of "in_records s" k]
    by (auto simp del: put_record_get)
qed

lemma store_inv_terminal_step:
  assumes inv: "store_inv s" and r: "hm_get (in_records s) k = Some r" "\<not> is_terminal (rr_status r)"
    and r': "same_run r r'" "is_terminal (rr_status r')" "lease_shape r'"
    and recs: "in_records s' = put_record r' (in_records s)"
    and locks: "in_active_locks s' = locks_release r' (in_active_locks s)"
    and queue: "in_queued_runs s' = filter (\<lambda>q. q \<noteq> k) (in_queued_runs s)"
    and adm: "in_admission_reservations s' = adm_release k (in_admission_reservations s)"
    and ts: "in_terminal_runs s' = push_back (in_terminal_runs s) k"
    and same: "in_tree_reservations s' = in_tree_reservations s" "in_limits s' = in_limits s"
    and log: "log_step r r' s s'"
  shows "store_inv s'"
proof -
  note parts = inv [unfolded store_inv_def]
  have k: "rr_run_id r = k" "rr_run_id r' = k" "rr_scope r' = rr_scope r"
    using parts r r'(1) by (auto simp: records_ok_def same_run_def)
  have q: "rr_status r' \<noteq> Queued" using r'(2) by auto
  have "queue_ok (put_record r' (in_records s)) (in_queued_runs s')"
    using parts q queue queue_put [of "in_records s" "in_queued_runs s" k r r'] r k
    by (auto simp: queue_ok_def)
  then show ?thesis
    unfolding store_inv_def recs
    using parts k r r' locks adm ts same
      records_put [of "in_records s" k r r']
      locks_release_ok [of "in_records s" "in_active_locks s" k r r']
      admission_put_terminal [of "in_records s" "in_admission_reservations s" k r r']
      tree_put [of "in_records s" "in_tree_reservations s" k r r']
      terminal_put_terminal [of "in_records s" "in_tree_reservations s" "in_terminal_runs s" k r r']
      log_step_ok [OF log same(2), of "in_records s" k]
    by (auto simp del: put_record_get)
qed

section \<open>Pruning\<close>

text \<open>One iteration of the pruning loop drops a run that is terminal and roots no spawn
  tree; whatever it drops, every part of the invariant survives.\<close>

definition prune_inv ::
    "inner \<Rightarrow> (turn_run_id, run_record) hmap \<Rightarrow> (turn_run_id, turn_admission_reservation_record) hmap
      \<Rightarrow> turn_run_id list \<Rightarrow> bool" where
  "prune_inv s recs adm ts \<longleftrightarrow>
    store_inv (s\<lparr>in_records := recs, in_admission_reservations := adm, in_terminal_runs := ts\<rparr>)"

lemma prune_inv_drop:
  assumes "prune_inv s recs adm (k # ts)" "record_is_terminal recs k"
    and "\<not> list_ex (\<lambda>v. stk_root_run_id v = k) (hm_keys (in_tree_reservations s))"
  shows "prune_inv s (hm_remove k recs) (hm_remove k adm) ts"
proof -
  have root: "stk_root_run_id key \<noteq> k" if "hm_get (in_tree_reservations s) key = Some n" for key n
    using assms(3) that by (auto simp: list_ex_iff hm_keys_iff)
  obtain r where r: "hm_get recs k = Some r" "is_terminal (rr_status r)"
    using assms(2) by (auto simp: record_is_terminal_def split: option.splits)
  note inv = assms(1) [unfolded prune_inv_def store_inv_def, simplified]
  have "records_ok (hm_remove k recs)"
    using inv by (auto simp: records_ok_def split: if_splits)
  moreover have "locks_ok (hm_remove k recs) (in_active_locks s)"
    using inv r unfolding locks_ok_def by (auto split: if_splits) (metis option.inject)+
  moreover have "queue_ok (hm_remove k recs) (in_queued_runs s)"
    using inv r by (auto simp: queue_ok_def)
  moreover have "admission_ok (hm_remove k recs) (hm_remove k adm)"
    using inv by (auto simp: admission_ok_def)
  moreover have "tree_ok (hm_remove k recs) (in_tree_reservations s)"
    using inv root by (fastforce simp: tree_ok_def)
  moreover have "terminal_ok (hm_remove k recs) (in_tree_reservations s) ts"
    using inv by (auto simp: terminal_ok_def record_is_terminal_def split: if_splits)
  moreover have "cursors_ok (in_cursor s) (hm_remove k recs)"
    using inv by (auto simp: cursors_ok_def)
  ultimately show ?thesis
    using inv by (simp add: prune_inv_def store_inv_def)
qed

lemma prune_inv_skip:
  assumes "prune_inv s recs adm (k # ts)"
    and "list_ex (\<lambda>v. stk_root_run_id v = k) (hm_keys (in_tree_reservations s))"
  shows "prune_inv s recs adm ts"
proof -
  obtain key n where "hm_get (in_tree_reservations s) key = Some n" "stk_root_run_id key = k"
    using assms(2) by (auto simp: list_ex_iff hm_keys_iff)
  then have "terminal_ok recs (in_tree_reservations s) ts"
    using assms(1) unfolding prune_inv_def store_inv_def terminal_ok_def by auto
  then show ?thesis
    using assms(1) by (simp add: prune_inv_def store_inv_def)
qed

lemma prune_loop_inv:
  assumes "prune_inv s recs adm ts"
    and "prune_terminal_loop cap (hm_keys (in_tree_reservations s)) ts recs adm = (ts', recs', adm')"
  shows "prune_inv s recs' adm' ts'"
  using assms
proof (induction cap "hm_keys (in_tree_reservations s)" ts recs adm rule: prune_terminal_loop.induct)
  case (2 cap k ks recs adm)
  have "record_is_terminal recs k"
    using "2.prems"(1) by (auto simp: prune_inv_def store_inv_def terminal_ok_def)
  with 2 show ?case
    using prune_inv_drop [of s recs adm k ks] prune_inv_skip [of s recs adm k ks]
    by (auto split: if_splits)
qed auto

lemma prune_inv_self: "prune_inv s (in_records s) (in_admission_reservations s) (in_terminal_runs s) = store_inv s"
  by (simp add: prune_inv_def)

lemma store_inv_prune [intro]:
  assumes "store_inv s"
  shows "store_inv (prune_terminal_records s)"
proof -
  obtain ts recs adm where loop: "prune_terminal_loop (max_terminal_records (in_limits s))
      (hm_keys (in_tree_reservations s)) (in_terminal_runs s) (in_records s) (in_admission_reservations s)
      = (ts, recs, adm)"
    by (metis prod_cases3)
  have "prune_inv s recs adm ts"
    using prune_loop_inv [OF _ loop] assms by (simp add: prune_inv_self)
  moreover have "s\<lparr>in_records := recs, in_admission_reservations := adm, in_terminal_runs := ts\<rparr>
      = s\<lparr>in_terminal_runs := ts, in_records := recs, in_admission_reservations := adm\<rparr>"
    by simp
  ultimately show ?thesis
    using loop by (simp add: prune_terminal_records_def prune_inv_def)
qed

lemma prune_loop_length:
  "prune_terminal_loop cap roots ts recs adm = (ts', recs', adm') \<Longrightarrow> length ts' \<le> cap"
  by (induction cap roots ts recs adm rule: prune_terminal_loop.induct) (auto split: if_splits)

lemma terminal_bound_prune [intro, simp]: "terminal_bound (prune_terminal_records s)"
  using prune_loop_length
  by (auto simp: terminal_bound_def prune_terminal_records_def split: prod.splits)

end
