(* ===== verification/Turn_Safety.thy ===== *)
theory Turn_Safety
  imports Turn_Invariant
begin

text \<open>
  Every transition of \<^verbatim>\<open>Turn_Transitions\<close> keeps the invariant of the store, on every
  branch, and an error leaves the store as it was.
\<close>

section \<open>Putting a record back\<close>

text \<open>Two states that differ at most in the order of the record map.\<close>

definition store_equiv :: "inner \<Rightarrow> inner \<Rightarrow> bool" where
  "store_equiv s s' \<longleftrightarrow>
    s' = s\<lparr>in_records := in_records s'\<rparr> \<and> hm_get (in_records s') = hm_get (in_records s)
    \<and> (hm_wf (in_records s) \<longrightarrow> hm_wf (in_records s'))"

lemma store_equiv_refl [simp]: "store_equiv s s"
  by (simp add: store_equiv_def)

lemma store_inv_equiv:
  assumes "store_equiv s s'" "store_inv s"
  shows "store_inv s'"
proof -
  from assms(1) obtain recs where s': "s' = s\<lparr>in_records := recs\<rparr>"
    and get: "hm_get recs = hm_get (in_records s)" and wf: "hm_wf (in_records s) \<longrightarrow> hm_wf recs"
    by (metis store_equiv_def inner.select_convs(3) inner.surjective inner.update_convs(3))
  have "record_is_terminal recs = record_is_terminal (in_records s)"
    by (rule ext) (simp add: record_is_terminal_def get)
  then show ?thesis
    using assms(2) wf
    by (simp add: s' store_inv_def records_ok_def locks_ok_def queue_ok_def admission_ok_def
        tree_ok_def terminal_ok_def cursors_ok_def get)
qed

lemma reinsert_equiv:
  assumes "hm_get (in_records s) k = Some r" "rr_run_id r = k"
  shows "store_equiv s (insert_record r (s\<lparr>in_records := hm_remove k (in_records s)\<rparr>))"
  using assms by (auto simp: store_equiv_def insert_record_def fun_eq_iff)

lemma store_inv_run_id:
  "store_inv s \<Longrightarrow> hm_get (in_records s) k = Some r \<Longrightarrow> rr_run_id r = k"
  by (simp add: store_inv_def records_ok_def)

lemma store_inv_reinsert:
  assumes "store_inv s" "hm_get (in_records s) k = Some r"
  shows "store_inv (insert_record r (s\<lparr>in_records := hm_remove k (in_records s)\<rparr>))"
  using store_inv_equiv [OF reinsert_equiv] store_inv_run_id assms by blast

lemma store_inv_lease_shape:
  "store_inv s \<Longrightarrow> hm_get (in_records s) k = Some r \<Longrightarrow> lease_shape r"
  by (simp add: store_inv_def records_ok_def)

text \<open>A lease that is accepted belongs to a run that is running or being cancelled.\<close>

lemma ensure_active_lease_Ok:
  "ensure_active_lease r runner token now = Ok u \<longleftrightarrow>
    rr_runner_id r = Some runner \<and> rr_lease_token r = Some token
    \<and> (\<forall>t. rr_lease_expires_at r = Some t \<longrightarrow> now < t)"
  by (auto simp: ensure_active_lease_def split: option.splits)

lemma lease_status:
  assumes "store_inv s" "hm_get (in_records s) k = Some r"
    "ensure_active_lease r runner token now = Ok u"
  shows "rr_status r = Running \<or> rr_status r = CancelRequested"
  using store_inv_lease_shape [OF assms(1,2)] assms(3)
  by (auto simp: lease_shape_def ensure_active_lease_Ok)

section \<open>The shared blocks\<close>

definition terminal_record ::
    "turn_status \<Rightarrow> sanitized_failure option \<Rightarrow> event_cursor \<Rightarrow> run_record \<Rightarrow> run_record" where
  "terminal_record status failure c r = r\<lparr>rr_status := status, rr_failure := failure,
     rr_runner_id := None, rr_lease_token := None, rr_lease_expires_at := None, rr_event_cursor := c\<rparr>"

lemma terminal_record_simps [simp]:
  "same_run r (terminal_record st f c r)" "rr_status (terminal_record st f c r) = st"
  "rr_run_id (terminal_record st f c r) = rr_run_id r" "rr_scope (terminal_record st f c r) = rr_scope r"
  "rr_event_cursor (terminal_record st f c r) = c" "rr_failure (terminal_record st f c r) = f"
  "is_terminal st \<Longrightarrow> lease_shape (terminal_record st f c r)"
  by (auto simp: terminal_record_def same_run_def lease_shape_def)

lemma terminalize_eq:
  "terminalize env st f kind d r s =
    (let c = saturating_add (in_cursor s) 1; r' = terminal_record st f c r in
     (r', s\<lparr>in_cursor := c, in_active_locks := locks_release r' (in_active_locks s),
            in_queued_runs := filter (\<lambda>q. q \<noteq> rr_run_id r) (in_queued_runs s),
            in_event_retention_floor := fst (log_push (max_events (in_limits s))
              (in_event_retention_floor s) (in_events s) (event_of_record env r' kind d)),
            in_events := snd (log_push (max_events (in_limits s))
              (in_event_retention_floor s) (in_events s) (event_of_record env r' kind d)),
            in_admission_reservations := adm_release (rr_run_id r) (in_admission_reservations s),
            in_terminal_runs := push_back (in_terminal_runs s) (rr_run_id r)\<rparr>))"
  by (simp add: terminalize_def frame_simps terminal_record_def Let_def)

lemma terminalize_inv:
  assumes inv: "store_inv s" and r: "hm_get (in_records s) k = Some r" "\<not> is_terminal (rr_status r)"
    and st: "is_terminal st"
    and eq: "terminalize env st f kind d r (s\<lparr>in_records := hm_remove k (in_records s)\<rparr>) = (r', s')"
  shows "store_inv (insert_record r' s')"
proof -
  have k: "rr_run_id r = k" using store_inv_run_id [OF inv r(1)] .
  have r': "r' = terminal_record st f (saturating_add (in_cursor s) 1) r"
    using eq by (simp add: terminalize_eq Let_def)
  have log: "log_step r r' s (insert_record r' s')"
    by (rule log_step_push [of _ _ _ env kind d])
      (use eq in \<open>auto simp: r' terminalize_eq Let_def insert_record_def\<close>)
  show ?thesis
    by (rule store_inv_terminal_step [OF inv r _ _ _ _ _ _ _ _ _ _ log])
      (use eq k st in \<open>auto simp: r' terminalize_eq Let_def insert_record_def put_record_def\<close>)
qed

lemma terminalize_invD:
  assumes "terminalize env st f kind d r (s\<lparr>in_records := hm_remove k (in_records s)\<rparr>) = (r', s')"
    and "store_inv s" "hm_get (in_records s) k = Some r" "\<not> is_terminal (rr_status r)" "is_terminal st"
  shows "store_inv (insert_record r' s')"
  using terminalize_inv assms by blast

definition blocked_record ::
    "turn_checkpoint_id \<Rightarrow> blocked_reason \<Rightarrow> event_cursor \<Rightarrow> run_record \<Rightarrow> run_record" where
  "blocked_record cid reason c r = r\<lparr>rr_status := reason_status reason, rr_checkpoint_id := Some cid,
     rr_gate_ref := Some (reason_gate_ref reason),
     rr_credential_requirements := reason_credential_requirements reason,
     rr_runner_id := None, rr_lease_token := None, rr_lease_expires_at := None, rr_event_cursor := c\<rparr>"

lemma blocked_record_simps [simp]:
  "same_run r (blocked_record cid reason c r)" "rr_status (blocked_record cid reason c r) = reason_status reason"
  "rr_run_id (blocked_record cid reason c r) = rr_run_id r" "rr_event_cursor (blocked_record cid reason c r) = c"
  "lease_shape (blocked_record cid reason c r)"
  by (auto simp: blocked_record_def same_run_def lease_shape_def)

lemma block_record_eq:
  "block_record env cid sref reason r s =
    (let c = saturating_add (in_cursor s) 1; r' = blocked_record cid reason c r in
     (r', s\<lparr>in_cursor := c,
            in_checkpoints := in_checkpoints (record_checkpoint r' cid sref (reason_gate_ref reason) (env_now env) s),
            in_active_locks := locks_update r' (env_now env) (in_active_locks s),
            in_event_retention_floor := fst (log_push (max_events (in_limits s))
              (in_event_retention_floor s) (in_events s) (event_of_record env r' EvBlocked None)),
            in_events := snd (log_push (max_events (in_limits s))
              (in_event_retention_floor s) (in_events s) (event_of_record env r' EvBlocked None))\<rparr>))"
  by (simp add: block_record_def frame_simps blocked_record_def Let_def)

lemma block_record_inv:
  assumes inv: "store_inv s" and r: "hm_get (in_records s) k = Some r" "rr_status r = Running"
    and eq: "block_record env cid sref reason r (s\<lparr>in_records := hm_remove k (in_records s)\<rparr>) = (r', s')"
  shows "store_inv (insert_record r' s')"
proof -
  have k: "rr_run_id r = k" using store_inv_run_id [OF inv r(1)] .
  have r': "r' = blocked_record cid reason (saturating_add (in_cursor s) 1) r"
    using eq by (simp add: block_record_eq Let_def)
  have q: "k \<notin> set (in_queued_runs s)" "distinct (in_queued_runs s)"
    using inv r by (auto simp: store_inv_def queue_ok_def)
  have log: "log_step r r' s (insert_record r' s')"
    by (rule log_step_push [of _ _ _ env EvBlocked None])
      (use eq in \<open>auto simp: r' block_record_eq Let_def insert_record_def\<close>)
  show ?thesis
    by (rule store_inv_live_step [OF inv r(1) _ _ _ _ _ _ _ _ _ _ _ _ log, where t = "env_now env"])
      (use eq in \<open>auto simp: r r' k q block_record_eq Let_def insert_record_def put_record_def\<close>)
qed

lemma block_record_invD:
  assumes "block_record env cid sref reason r (s\<lparr>in_records := hm_remove k (in_records s)\<rparr>) = (r', s')"
    and "store_inv s" "hm_get (in_records s) k = Some r" "rr_status r = Running"
  shows "store_inv (insert_record r' s')"
  using block_record_inv assms by blast

section \<open>Runner operations\<close>

text \<open>The first branch of every operation: the run is unknown, or it is taken.\<close>

lemma take_record_cases:
  assumes "store_inv s"
  obtains (missing) "hm_get (in_records s) k = None" "take_record k s = Err ScopeNotFound"
  | (found) r where "hm_get (in_records s) k = Some r" "rr_run_id r = k" "lease_shape r"
      "take_record k s = Ok (r, s\<lparr>in_records := hm_remove k (in_records s)\<rparr>)"
      "store_inv (insert_record r (s\<lparr>in_records := hm_remove k (in_records s)\<rparr>))"
  using assms store_inv_run_id store_inv_lease_shape store_inv_reinsert
  by (cases "hm_get (in_records s) k") (auto simp: take_record_def)

lemma heartbeat_inv:
  assumes "store_inv s"
  shows "store_inv (snd (heartbeat env q s))"
  using assms
proof (cases rule: take_record_cases [where k = "lr_run_id q"])
  case missing
  then show ?thesis using assms by (simp add: heartbeat_def)
next
  case (found r)
  let ?s0 = "s\<lparr>in_records := hm_remove (lr_run_id q) (in_records s)\<rparr>" and ?c = "saturating_add (in_cursor s) 1"
  let ?r = "r\<lparr>rr_last_heartbeat_at := Some (env_now env),
    rr_lease_expires_at := Some (next_lease_expiry env ?s0 (env_now env)), rr_event_cursor := ?c\<rparr>"
  have err: "store_inv (snd (heartbeat env q s))"
    if "\<not> (ensure_active_lease r (lr_runner_id q) (lr_lease_token q) (env_now env) = Ok () \<and> rr_status r = Running)"
    using that found by (auto simp: heartbeat_def Let_def split: sum.splits)
  have ok: "store_inv (snd (heartbeat env q s))"
    if l: "ensure_active_lease r (lr_runner_id q) (lr_lease_token q) (env_now env) = Ok ()" "rr_status r = Running"
  proof -
    have s': "snd (heartbeat env q s) = insert_record ?r (push_event env ?r EvRunnerHeartbeat None
        (touch_active_lock ?r (env_now env) (?s0\<lparr>in_cursor := ?c\<rparr>)))"
      using l found by (simp add: heartbeat_def next_cursor_frame Let_def)
    have q: "lr_run_id q \<notin> set (in_queued_runs s)" "distinct (in_queued_runs s)"
      using assms found l(2) by (auto simp: store_inv_def queue_ok_def)
    have log: "log_step r ?r s (snd (heartbeat env q s))"
      by (rule log_step_push [of _ _ _ env EvRunnerHeartbeat None]) (simp_all add: s' frame_simps)
    show ?thesis
      by (rule store_inv_live_step [OF assms found(1) _ _ _ _ _ _ _ _ _ _ _ _ log, where t = "env_now env"])
        (use found l q in \<open>auto simp: s' frame_simps put_record_def same_run_def lease_shape_def\<close>)
  qed
  from err ok show ?thesis by blast
qed

text \<open>The scan of the queue: it returns the first matching run, and rotates the runs it
  passed over to the back.\<close>

definition queued_match ::
    "turn_scope option \<Rightarrow> (turn_run_id, run_record) hmap \<Rightarrow> turn_run_id \<Rightarrow> bool" where
  "queued_match flt recs k =
    (case hm_get recs k of Some r \<Rightarrow> flt = None \<or> flt = Some (rr_scope r) | None \<Rightarrow> False)"

lemma pop_queued_loop_eq:
  assumes "\<forall>k \<in> set q. \<exists>r. hm_get recs k = Some r \<and> rr_status r = Queued" "n \<le> length q"
  shows "pop_queued_loop n flt recs q =
    (case dropWhile (\<lambda>k. \<not> queued_match flt recs k) (take n q) of
       [] \<Rightarrow> (None, drop n q @ take n q)
     | k # vs \<Rightarrow> (Some k, vs @ drop n q @ takeWhile (\<lambda>k. \<not> queued_match flt recs k) (take n q)))"
  using assms
proof (induction n arbitrary: q)
  case (Suc n)
  then obtain x q0 where q: "q = x # q0" by (cases q) auto
  obtain r where r: "hm_get recs x = Some r" "rr_status r = Queued" using Suc.prems q by auto
  have IH: "pop_queued_loop n flt recs (push_back q0 x) =
    (case dropWhile (\<lambda>k. \<not> queued_match flt recs k) (take n q0) of
       [] \<Rightarrow> (None, (drop n q0 @ [x]) @ take n q0)
     | k # vs \<Rightarrow> (Some k, vs @ (drop n q0 @ [x]) @ takeWhile (\<lambda>k. \<not> queued_match flt recs k) (take n q0)))"
  proof -
    have tk: "take n (push_back q0 x) = take n q0" "drop n (push_back q0 x) = push_back (drop n q0) x"
      using Suc.prems q by simp_all
    have "\<forall>k \<in> set (push_back q0 x). \<exists>r. hm_get recs k = Some r \<and> rr_status r = Queued"
      "n \<le> length (push_back q0 x)"
      using Suc.prems q by auto
    from Suc.IH [OF this] show ?thesis by (simp only: tk)
  qed
  show ?case
  proof (cases "queued_match flt recs x")
    case True
    then show ?thesis using q r by (simp add: queued_match_def)
  next
    case False
    then have "pop_queued_loop (Suc n) flt recs q = pop_queued_loop n flt recs (push_back q0 x)"
      using q r by (auto simp: queued_match_def)
    then show ?thesis
      unfolding IH using q False
      by (cases "dropWhile (\<lambda>k. \<not> queued_match flt recs k) (take n q0)")
        (simp_all del: dropWhile_eq_Nil_conv pop_queued_loop.simps)
  qed
qed simp

lemma pop_matching_Some:
  assumes "store_inv s" "pop_matching_queued_run flt s = (Some k, s')"
  obtains us vs r where "in_queued_runs s = us @ k # vs" "s' = s\<lparr>in_queued_runs := vs @ us\<rparr>"
    "hm_get (in_records s) k = Some r" "rr_status r = Queued"
    "flt = None \<or> flt = Some (rr_scope r)" "\<forall>u \<in> set us. \<not> queued_match flt (in_records s) u"
proof -
  let ?q = "in_queued_runs s" and ?P = "\<lambda>k. \<not> queued_match flt (in_records s) k"
  have queued: "\<forall>k \<in> set ?q. \<exists>r. hm_get (in_records s) k = Some r \<and> rr_status r = Queued"
    using assms(1) by (auto simp: store_inv_def queue_ok_def)
  from assms(2) obtain vs where dw: "dropWhile ?P ?q = k # vs"
    and s': "s' = s\<lparr>in_queued_runs := vs @ takeWhile ?P ?q\<rparr>"
    using pop_queued_loop_eq [OF queued order_refl, of flt]
    by (auto simp: pop_matching_queued_run_def split: list.splits)
  have q: "?q = takeWhile ?P ?q @ k # vs" using dw by (metis takeWhile_dropWhile_id)
  then have "k \<in> set ?q" by (metis in_set_conv_decomp)
  then obtain r where "hm_get (in_records s) k = Some r" "rr_status r = Queued"
    using queued by auto
  moreover have "queued_match flt (in_records s) k"
    using dw by (metis hd_dropWhile list.distinct(1) list.sel(1))
  ultimately show thesis
    using that [OF q s'] by (auto simp: queued_match_def dest: set_takeWhileD)
qed

lemma pop_matching_None:
  assumes "store_inv s" "pop_matching_queued_run flt s = (None, s')"
  shows "s' = s" "\<forall>k \<in> set (in_queued_runs s). \<not> queued_match flt (in_records s) k"
proof -
  have queued: "\<forall>k \<in> set (in_queued_runs s). \<exists>r. hm_get (in_records s) k = Some r \<and> rr_status r = Queued"
    using assms(1) by (auto simp: store_inv_def queue_ok_def)
  from assms(2) pop_queued_loop_eq [OF queued order_refl, of flt]
  show "s' = s" "\<forall>k \<in> set (in_queued_runs s). \<not> queued_match flt (in_records s) k"
    by (auto simp: pop_matching_queued_run_def split: list.splits)
qed

definition claimed_record :: "env \<Rightarrow> claim_run_request \<Rightarrow> inner \<Rightarrow> run_record \<Rightarrow> run_record" where
  "claimed_record env q s r = r\<lparr>rr_status := Running, rr_runner_id := Some (clm_runner_id q),
     rr_lease_token := Some (clm_lease_token q),
     rr_lease_expires_at := Some (next_lease_expiry env s (env_now env)),
     rr_last_heartbeat_at := Some (env_now env),
     rr_claim_count := saturating_add (rr_claim_count r) 1,
     rr_event_cursor := saturating_add (in_cursor s) 1\<rparr>"

lemma claimed_record_simps [simp]:
  "same_run r (claimed_record env q s r)" "rr_status (claimed_record env q s r) = Running"
  "rr_run_id (claimed_record env q s r) = rr_run_id r" "rr_scope (claimed_record env q s r) = rr_scope r"
  "rr_event_cursor (claimed_record env q s r) = saturating_add (in_cursor s) 1"
  "lease_shape (claimed_record env q s r)"
  by (auto simp: claimed_record_def same_run_def lease_shape_def)

lemma next_lease_expiry_cong [simp]:
  "next_lease_expiry env (s\<lparr>in_records := x\<rparr>) t = next_lease_expiry env s t"
  "next_lease_expiry env (s\<lparr>in_queued_runs := y\<rparr>) t = next_lease_expiry env s t"
  by (simp_all add: next_lease_expiry_def)

text \<open>Claiming: nothing matches and nothing changes, or the first match is leased.\<close>

lemma claim_next_run_cases:
  assumes "store_inv s"
  obtains (idle) "claim_next_run env q s = (Ok None, s)"
      "\<forall>k \<in> set (in_queued_runs s). \<not> queued_match (clm_scope_filter q) (in_records s) k"
  | (claimed) k r us vs where "in_queued_runs s = us @ k # vs"
      "\<forall>u \<in> set us. \<not> queued_match (clm_scope_filter q) (in_records s) u"
      "hm_get (in_records s) k = Some r" "rr_status r = Queued"
      "queued_match (clm_scope_filter q) (in_records s) k"
      "claim_next_run env q s =
        (Ok (Some \<lparr>clr_state = run_state (claimed_record env q s r),
             clr_resolved_run_profile = tp_resolved (rr_profile r),
             clr_runner_id = clm_runner_id q, clr_lease_token = clm_lease_token q\<rparr>),
         insert_record (claimed_record env q s r)
          (push_event env (claimed_record env q s r) EvRunnerClaimed None
            (update_active_lock (claimed_record env q s r) (env_now env)
              (s\<lparr>in_queued_runs := vs @ us, in_records := hm_remove k (in_records s),
                 in_cursor := saturating_add (in_cursor s) 1\<rparr>))))"
proof (cases "pop_matching_queued_run (clm_scope_filter q) s")
  case (Pair found s1)
  show thesis
  proof (cases found)
    case None
    with Pair have "pop_matching_queued_run (clm_scope_filter q) s = (None, s1)" by simp
    from pop_matching_None [OF assms this] this idle show thesis
      by (simp add: claim_next_run_def)
  next
    case (Some k)
    with Pair have pop: "pop_matching_queued_run (clm_scope_filter q) s = (Some k, s1)" by simp
    from pop_matching_Some [OF assms pop] obtain us vs r where *:
      "in_queued_runs s = us @ k # vs" "s1 = s\<lparr>in_queued_runs := vs @ us\<rparr>"
      "hm_get (in_records s) k = Some r" "rr_status r = Queued"
      "clm_scope_filter q = None \<or> clm_scope_filter q = Some (rr_scope r)"
      "\<forall>u \<in> set us. \<not> queued_match (clm_scope_filter q) (in_records s) u" .
    show thesis
      by (rule claimed [OF *(1) *(6) *(3) *(4)])
        (use * pop in \<open>auto simp: queued_match_def claim_next_run_def take_record_def Let_def
          next_cursor_frame claimed_record_def\<close>)
  qed
qed

lemma claim_next_run_inv:
  assumes "store_inv s"
  shows "store_inv (snd (claim_next_run env q s))"
  using assms
proof (cases rule: claim_next_run_cases [where env = env and q = q])
  case idle
  then show ?thesis using assms by simp
next
  case (claimed k r us vs)
  let ?r = "claimed_record env q s r"
  have k: "rr_run_id r = k" using store_inv_run_id [OF assms claimed(3)] .
  have q: "distinct (us @ k # vs)"
    using assms claimed(1) by (simp add: store_inv_def queue_ok_def)
  have log: "log_step r ?r s (snd (claim_next_run env q s))"
    by (rule log_step_push [of _ _ _ env EvRunnerClaimed None]) (simp_all add: claimed frame_simps)
  show ?thesis
    by (rule store_inv_live_step [OF assms claimed(3) _ _ _ _ _ _ _ _ _ _ _ _ log, where t = "env_now env"])
      (use k q in \<open>auto simp: claimed frame_simps put_record_def\<close>)
qed

lemma record_model_route_snapshot_inv:
  assumes "store_inv s"
  shows "store_inv (snd (record_model_route_snapshot env q s))"
  using assms
proof (cases rule: take_record_cases [where k = "lr_run_id q"])
  case missing
  then show ?thesis using assms by (simp add: record_model_route_snapshot_def)
next
  case (found r)
  let ?s0 = "s\<lparr>in_records := hm_remove (lr_run_id q) (in_records s)\<rparr>"
    and ?r = "r\<lparr>rr_resolved_model_route := Some (rmr_snapshot q)\<rparr>"
  let ?ok = "ensure_active_lease r (lr_runner_id q) (lr_lease_token q) (env_now env) = Ok ()
    \<and> rr_status r = Running \<and> route_validate (rmr_snapshot q) = Ok () \<and> rr_resolved_model_route r = None"
  have err: "store_inv (snd (record_model_route_snapshot env q s))" if "\<not> ?ok"
    using that found by (auto simp: record_model_route_snapshot_def Let_def split: sum.splits option.splits)
  have ok: "store_inv (snd (record_model_route_snapshot env q s))" if l: ?ok
  proof -
    have s': "snd (record_model_route_snapshot env q s)
        = insert_record ?r (touch_active_lock ?r (env_now env) ?s0)"
      using l found by (simp add: record_model_route_snapshot_def Let_def)
    have q: "lr_run_id q \<notin> set (in_queued_runs s)" "distinct (in_queued_runs s)"
      using assms found l by (auto simp: store_inv_def queue_ok_def)
    have log: "log_step r ?r s (snd (record_model_route_snapshot env q s))"
      by (rule log_step_same) (simp_all add: s' frame_simps)
    show ?thesis
      by (rule store_inv_live_step [OF assms found(1) _ _ _ _ _ _ _ _ _ _ _ _ log, where t = "env_now env"])
        (use found l q in \<open>auto simp: s' frame_simps put_record_def same_run_def lease_shape_def\<close>)
  qed
  from err ok show ?thesis by blast
qed

lemma block_run_inv:
  assumes "store_inv s"
  shows "store_inv (snd (block_run env q s))"
  using assms
proof (cases rule: take_record_cases [where k = "lr_run_id q"])
  case missing
  then show ?thesis using assms by (simp add: block_run_def)
next
  case (found r)
  then show ?thesis
    by (auto simp: block_run_def Let_def split: sum.splits prod.splits
        dest!: block_record_invD [OF _ assms found(1)])
qed

lemma cancel_completion_transition_inv:
  assumes "store_inv s"
  shows "store_inv (snd (cancel_completion_transition env q s))"
  using assms
proof (cases rule: take_record_cases [where k = "lr_run_id q"])
  case missing
  then show ?thesis using assms by (simp add: cancel_completion_transition_def)
next
  case (found r)
  then show ?thesis
    by (auto simp: cancel_completion_transition_def Let_def split: sum.splits prod.splits
        dest!: terminalize_invD [OF _ assms found(1)])
qed

lemma terminal_transition_inv:
  assumes "store_inv s" "is_terminal st"
  shows "store_inv (snd (terminal_transition env k runner token st f kind s))"
  using assms(1)
proof (cases rule: take_record_cases [where k = k])
  case missing
  then show ?thesis using assms by (simp add: terminal_transition_def)
next
  case (found r)
  from found(3-5) show ?thesis
    by (auto simp: terminal_transition_def Let_def assms(2) split: sum.splits prod.splits
        dest!: terminalize_invD [OF _ assms(1) found(1)])
qed

section \<open>Validated loop exits\<close>

text \<open>What a loop transition owes the store before it is committed.\<close>

definition commit_ok :: "applied_loop_transition \<times> inner \<Rightarrow> bool" where
  "commit_ok ts \<longleftrightarrow> (case ts of
     (Applied r st prune, s) \<Rightarrow> store_inv (insert_record r s)
   | (Rejected r e, s) \<Rightarrow> store_inv (insert_record r s))"

lemma commit_transition_inv:
  "commit_ok (t, s) \<Longrightarrow> store_inv (snd (commit_transition t s))"
  by (auto simp: commit_ok_def commit_transition_def Let_def split: applied_loop_transition.splits)

lemma claimed_record_commit_ok:
  assumes inv: "store_inv s" and r: "hm_get (in_records s) k = Some r"
    and s0: "s0 = s\<lparr>in_records := hm_remove k (in_records s)\<rparr>"
  shows rejected_commit_ok: "commit_ok (Rejected r e, s0)"
    and complete_commit_ok: "commit_ok (complete_claimed_record env r s0)"
    and cancel_commit_ok: "commit_ok (cancel_claimed_record env r s0)"
    and fail_commit_ok: "commit_ok (fail_claimed_record env f r s0)"
    and block_commit_ok: "commit_ok (block_claimed_record env cid sref reason r s0)"
proof -
  have restored: "store_inv (insert_record r s0)"
    using store_inv_reinsert [OF inv r] by (simp add: s0)
  note dests = terminalize_invD [OF _ inv r] block_record_invD [OF _ inv r]
  show "commit_ok (Rejected r e, s0)" using restored by (simp add: commit_ok_def)
  show "commit_ok (complete_claimed_record env r s0)" using restored
    by (auto simp: s0 commit_ok_def complete_claimed_record_def split: prod.splits dest!: dests)
  show "commit_ok (cancel_claimed_record env r s0)" using restored
    by (auto simp: s0 commit_ok_def cancel_claimed_record_def split: prod.splits dest!: dests)
  show "commit_ok (fail_claimed_record env f r s0)" using restored
    by (auto simp: s0 commit_ok_def fail_claimed_record_def split: prod.splits dest!: dests)
  show "commit_ok (block_claimed_record env cid sref reason r s0)" using restored
    by (auto simp: s0 commit_ok_def block_claimed_record_def split: prod.splits dest!: dests)
qed

lemma cancel_or_fail_commit_ok:
  assumes "store_inv s" "hm_get (in_records s) k = Some r"
  shows "commit_ok (cancel_or_fail_claimed_record env f r (s\<lparr>in_records := hm_remove k (in_records s)\<rparr>))"
  using claimed_record_commit_ok [OF assms refl]
  by (simp add: cancel_or_fail_claimed_record_def split: turn_status.split)

lemma apply_validated_loop_exit_transition_inv:
  assumes "store_inv s"
  shows "store_inv (snd (apply_validated_loop_exit_transition env q s))"
  using assms
proof (cases rule: take_record_cases [where k = "lr_run_id q"])
  case missing
  then show ?thesis using assms by (simp add: apply_validated_loop_exit_transition_def)
next
  case (found r)
  then show ?thesis
    using claimed_record_commit_ok [OF assms found(1) refl] cancel_or_fail_commit_ok [OF assms found(1)]
    by (auto simp: apply_validated_loop_exit_transition_def Let_def intro: commit_transition_inv
        split: sum.splits prod.splits loop_exit_mapping.splits turn_runner_outcome.splits)
      (metis commit_transition_inv)+
qed

lemma runner_failure_transition_inv:
  assumes "store_inv s"
  shows "store_inv (snd (runner_failure_transition env q s))"
  using assms
proof (cases rule: take_record_cases [where k = "lr_run_id q"])
  case missing
  then show ?thesis using assms by (simp add: runner_failure_transition_def)
next
  case (found r)
  then show ?thesis
    using claimed_record_commit_ok(1) [OF assms found(1) refl] cancel_or_fail_commit_ok [OF assms found(1)]
    by (auto simp: runner_failure_transition_def Let_def split: sum.splits prod.splits)
      (metis commit_transition_inv)+
qed

section \<open>Relinquishing and recovery\<close>

definition requeued_record :: "event_cursor \<Rightarrow> run_record \<Rightarrow> run_record" where
  "requeued_record c r = r\<lparr>rr_status := Queued, rr_failure := None, rr_runner_id := None,
     rr_lease_token := None, rr_lease_expires_at := None, rr_event_cursor := c\<rparr>"

lemma requeued_record_simps [simp]:
  "same_run r (requeued_record c r)" "rr_status (requeued_record c r) = Queued"
  "rr_run_id (requeued_record c r) = rr_run_id r" "rr_event_cursor (requeued_record c r) = c"
  "lease_shape (requeued_record c r)"
  by (auto simp: requeued_record_def same_run_def lease_shape_def)

lemma relinquish_transition_inv:
  assumes "store_inv s"
  shows "store_inv (snd (relinquish_transition env q s))"
  using assms
proof (cases rule: take_record_cases [where k = "lr_run_id q"])
  case missing
  then show ?thesis using assms by (simp add: relinquish_transition_def)
next
  case (found r)
  let ?s0 = "s\<lparr>in_records := hm_remove (lr_run_id q) (in_records s)\<rparr>" and ?c = "saturating_add (in_cursor s) 1"
  let ?r = "requeued_record ?c r"
  let ?ok = "ensure_active_lease r (lr_runner_id q) (lr_lease_token q) (env_now env) = Ok () \<and> rr_status r = Running"
  have other: "store_inv (snd (relinquish_transition env q s))" if "\<not> ?ok"
    using that found
    by (auto simp: relinquish_transition_def Let_def split: sum.splits prod.splits turn_status.splits
        dest!: terminalize_invD [OF _ assms found(1)])
  have ok: "store_inv (snd (relinquish_transition env q s))" if l: ?ok
  proof -
    have s': "snd (relinquish_transition env q s) = push_queued_run (lr_run_id q) (insert_record ?r
        (push_event env ?r EvRunnerHeartbeat None (update_active_lock ?r (env_now env) (?s0\<lparr>in_cursor := ?c\<rparr>))))"
      using l found by (simp add: relinquish_transition_def next_cursor_frame requeued_record_def Let_def)
    have q: "lr_run_id q \<notin> set (in_queued_runs s)" "distinct (in_queued_runs s)"
      using assms found l by (auto simp: store_inv_def queue_ok_def)
    have log: "log_step r ?r s (snd (relinquish_transition env q s))"
      by (rule log_step_push [of _ _ _ env EvRunnerHeartbeat None]) (simp_all add: s' frame_simps)
    show ?thesis
      by (rule store_inv_live_step [OF assms found(1) _ _ _ _ _ _ _ _ _ _ _ _ log, where t = "env_now env"])
        (use found l q in \<open>auto simp: s' frame_simps put_record_def\<close>)
  qed
  from other ok show ?thesis by blast
qed

lemma expired_outcome_terminal [simp]: "is_terminal (lx_status (expired_lease_terminal_outcome st))"
  by (simp add: expired_lease_terminal_outcome_def)

lemma terminalize_insert:
  assumes "terminalize env st f kind d r s = (r', s')"
  shows "rr_run_id r' = rr_run_id r" "in_records s' = in_records s"
  using assms by (auto simp: terminalize_eq Let_def)

lemma recover_loop_inv:
  assumes "store_inv s" "distinct ks"
    and "\<forall>k \<in> set ks. \<forall>r. hm_get (in_records s) k = Some r \<longrightarrow> \<not> is_terminal (rr_status r)"
  shows "store_inv (snd (recover_loop env ks s))"
  using assms
proof (induction ks arbitrary: s)
  case (Cons k ks)
  show ?case
  proof (cases "hm_get (in_records s) k")
    case None
    with Cons show ?thesis by simp
  next
    case (Some r)
    define out where "out = expired_lease_terminal_outcome (rr_status r)"
    obtain r' s' where t: "terminalize env (lx_status out) (lx_failure out) (lx_event_kind out) (lx_event_detail out) r
        (s\<lparr>in_records := hm_remove k (in_records s)\<rparr>) = (r', s')"
      by (metis surj_pair)
    have k: "rr_run_id r' = k" using terminalize_insert(1) [OF t] store_inv_run_id [OF Cons.prems(1) Some] by simp
    then have ins: "s'\<lparr>in_records := hm_insert k r' (in_records s')\<rparr> = insert_record r' s'"
      by (simp add: insert_record_def)
    have live: "\<not> is_terminal (rr_status r)" using Cons.prems(3) Some by simp
    have "store_inv (insert_record r' s')"
      using terminalize_invD [OF t Cons.prems(1) Some live] by (simp add: out_def)
    moreover have "\<forall>j \<in> set ks. \<forall>x. hm_get (in_records (insert_record r' s')) j = Some x \<longrightarrow> \<not> is_terminal (rr_status x)"
      using Cons.prems terminalize_insert [OF t] k by (auto simp: insert_record_def)
    ultimately have "store_inv (snd (recover_loop env ks (insert_record r' s')))"
      using Cons.IH Cons.prems(2) by simp
    then show ?thesis
      using Some t ins by (auto simp: out_def split: prod.splits)
  qed
qed simp

lemma recover_expired_leases_inv:
  assumes "store_inv s"
  shows "store_inv (snd (recover_expired_leases env q s))"
proof -
  let ?ks = "map fst (filter (\<lambda>(k, r). lease_expired_filter q r) (in_records s))"
  have wf: "hm_wf (in_records s)" using assms by (simp add: store_inv_def records_ok_def)
  then have "distinct ?ks"
    by (simp add: hm_wf_def hm_keys_def distinct_map_filter)
  moreover have "\<forall>k \<in> set ?ks. \<forall>r. hm_get (in_records s) k = Some r \<longrightarrow> \<not> is_terminal (rr_status r)"
    using hm_entries_iff [OF wf] by (auto simp: lease_expired_filter_def)
  ultimately show ?thesis
    using recover_loop_inv [OF assms, of ?ks env]
    by (auto simp: recover_expired_leases_def Let_def split: prod.splits)
qed

section \<open>Resume and cancel\<close>

definition resumed_record :: "resume_turn_request \<Rightarrow> event_cursor \<Rightarrow> run_record \<Rightarrow> run_record" where
  "resumed_record q c r = r\<lparr>rr_status := Queued, rr_gate_ref := None, rr_credential_requirements := [],
     rr_source_binding_ref := res_source_binding_ref q,
     rr_reply_target_binding_ref := res_reply_target_binding_ref q, rr_event_cursor := c\<rparr>"

definition resume_allowed :: "resume_turn_request \<Rightarrow> run_record \<Rightarrow> bool" where
  "resume_allowed q r \<longleftrightarrow> rr_scope r = res_scope q \<and> resumable_status (res_precondition q) (rr_status r)
    \<and> rr_actor r = res_actor q \<and> rr_gate_ref r = Some (res_gate_resolution_ref q)"

lemma resumable_blocked:
  "resumable_status p st \<Longrightarrow> st \<in> {BlockedApproval, BlockedAuth, BlockedResource, BlockedDependentRun}"
  by (auto simp: resumable_status_def dest: required_status_blocked split: option.splits)

lemma resume_turn_once_inv:
  assumes "store_inv s"
  shows "store_inv (snd (resume_turn_once env q s))"
  using assms
proof (cases rule: take_record_cases [where k = "res_run_id q"])
  case missing
  then show ?thesis using assms by (simp add: resume_turn_once_def)
next
  case (found r)
  let ?s0 = "s\<lparr>in_records := hm_remove (res_run_id q) (in_records s)\<rparr>" and ?c = "saturating_add (in_cursor s) 1"
  let ?r = "resumed_record q ?c r"
  have err: "store_inv (snd (resume_turn_once env q s))" if "\<not> resume_allowed q r"
    using that found by (auto simp: resume_turn_once_def resume_allowed_def Let_def)
  have ok: "store_inv (snd (resume_turn_once env q s))" if l: "resume_allowed q r"
  proof -
    have st: "\<not> is_terminal (rr_status r)" "rr_status r \<noteq> Queued" "rr_runner_id r = None"
        "rr_lease_token r = None" "rr_lease_expires_at r = None"
      using l found(3) resumable_blocked [of "res_precondition q" "rr_status r"]
      by (auto simp: resume_allowed_def lease_shape_def)
    have s': "snd (resume_turn_once env q s) = insert_record ?r (push_event env ?r EvResumed None
        (push_queued_run (rr_run_id r) (update_active_lock ?r (env_now env) (?s0\<lparr>in_cursor := ?c\<rparr>))))"
      using l found by (simp add: resume_turn_once_def resume_allowed_def next_cursor_frame resumed_record_def Let_def)
    have q: "res_run_id q \<notin> set (in_queued_runs s)" "distinct (in_queued_runs s)"
      using assms found st by (auto simp: store_inv_def queue_ok_def)
    have log: "log_step r ?r s (snd (resume_turn_once env q s))"
      by (rule log_step_push [of _ _ _ env EvResumed None]) (simp_all add: s' frame_simps resumed_record_def)
    show ?thesis
      by (rule store_inv_live_step [OF assms found(1) _ _ _ _ _ _ _ _ _ _ _ _ log, where t = "env_now env"])
        (use found st q in \<open>auto simp: s' frame_simps put_record_def resumed_record_def same_run_def lease_shape_def\<close>)
  qed
  from err ok show ?thesis by blast
qed

lemma cancel_next_cases:
  assumes "\<not> is_terminal st"
  obtains (terminal) "cancel_next st = Some (Cancelled, EvCancelled)" "st \<notin> {Running, CancelRequested}"
  | (cooperative) "cancel_next st = Some (CancelRequested, EvCancelRequested)" "st \<in> {Running, CancelRequested}"
  using assms by (cases st) (auto simp: cancel_next_def)

definition cancelled_record :: "turn_status \<Rightarrow> event_cursor \<Rightarrow> run_record \<Rightarrow> run_record" where
  "cancelled_record st c r =
    (if is_terminal st then r\<lparr>rr_status := st, rr_failure := None, rr_event_cursor := c\<rparr>
     else r\<lparr>rr_status := st, rr_event_cursor := c\<rparr>)"

lemma lock_event_cursor [simp]:
  "locks_release (r\<lparr>rr_event_cursor := c\<rparr>) locks = locks_release r locks"
  "locks_update (r\<lparr>rr_event_cursor := c\<rparr>) t locks = locks_update r t locks"
  by (simp_all add: locks_release_def locks_update_def split: option.split)

lemma request_cancel_once_inv:
  assumes "store_inv s"
  shows "store_inv (snd (request_cancel_once env q s))"
  using assms
proof (cases rule: take_record_cases [where k = "cr_run_id q"])
  case missing
  then show ?thesis using assms by (simp add: request_cancel_once_def)
next
  case (found r)
  let ?s0 = "s\<lparr>in_records := hm_remove (cr_run_id q) (in_records s)\<rparr>" and ?c = "saturating_add (in_cursor s) 1"
  let ?d = "Some (cancel_category (cr_reason q))"
  let ?ok = "rr_scope r = cr_scope q \<and> rr_actor r = cr_actor q \<and> \<not> is_terminal (rr_status r)"
  show ?thesis
  proof (cases ?ok)
    case False
    then show ?thesis using found by (auto simp: request_cancel_once_def Let_def)
  next
    case True
    have dq: "distinct (in_queued_runs s)" using assms by (simp add: store_inv_def queue_ok_def)
    from True have "\<not> is_terminal (rr_status r)" by simp
    then show ?thesis
    proof (cases rule: cancel_next_cases)
      case terminal
      let ?r = "cancelled_record Cancelled ?c r"
      let ?s1 = "insert_record ?r (mark_terminal (rr_run_id r) (push_event env ?r EvCancelled ?d
        ((remove_queued_run (rr_run_id r) (release_active_lock ?r ?s0))\<lparr>in_cursor := ?c\<rparr>)))"
      have s': "snd (request_cancel_once env q s) = prune_terminal_records ?s1"
        using True terminal found
        by (simp add: request_cancel_once_def frame_simps cancelled_record_def Let_def)
      have log: "log_step r ?r s ?s1"
        by (rule log_step_push [of _ _ _ env EvCancelled ?d]) (simp_all add: frame_simps cancelled_record_def)
      have "store_inv ?s1"
        by (rule store_inv_terminal_step [OF assms found(1) _ _ _ _ _ _ _ _ _ _ _ log])
          (use found True terminal in \<open>auto simp: frame_simps put_record_def cancelled_record_def same_run_def lease_shape_def\<close>)
      then show ?thesis unfolding s' by (rule store_inv_prune)
    next
      case cooperative
      let ?r = "cancelled_record CancelRequested ?c r"
      let ?s1 = "insert_record ?r (push_event env ?r EvCancelRequested ?d
        ((update_active_lock ?r (env_now env) ?s0)\<lparr>in_cursor := ?c\<rparr>))"
      have s': "snd (request_cancel_once env q s) = prune_terminal_records ?s1"
        using True cooperative found
        by (simp add: request_cancel_once_def frame_simps cancelled_record_def Let_def)
      have q: "cr_run_id q \<notin> set (in_queued_runs s)"
        using assms found cooperative by (auto simp: store_inv_def queue_ok_def)
      have log: "log_step r ?r s ?s1"
        by (rule log_step_push [of _ _ _ env EvCancelRequested ?d]) (simp_all add: frame_simps cancelled_record_def)
      have "store_inv ?s1"
        by (rule store_inv_live_step [OF assms found(1) _ _ _ _ _ _ _ _ _ _ _ _ log, where t = "env_now env"])
          (use found True cooperative q dq in \<open>auto simp: frame_simps put_record_def cancelled_record_def same_run_def lease_shape_def\<close>)
      then show ?thesis unfolding s' by (rule store_inv_prune)
    qed
  qed
qed

end
