(* ===== verification/Turn_Idempotency.thy ===== *)
theory Turn_Idempotency
  imports Turn_Safety
begin

text \<open>
  Idempotency bookkeeping of the store: \<^verbatim>\<open>remember_*\<close>, \<^verbatim>\<open>prune_ordered_map\<close> and the
  idempotency records in \<^verbatim>\<open>ironclaw_turns/src/memory.rs\<close>, and the replaying
  operations \<^verbatim>\<open>resume_turn\<close> and \<^verbatim>\<open>request_cancel\<close>.
\<close>

section \<open>Ordered maps\<close>

fun prune_over ::
    "usize \<Rightarrow> 'k list \<Rightarrow> ('k, 'v) hmap \<Rightarrow> 'k list \<Rightarrow> ('k, 'v) hmap \<times> 'k list \<times> 'k list" where
  "prune_over max_len [] m removed = (m, [], removed)"
| "prune_over max_len (k # order) m removed =
    (if length m > max_len
     then if hm_contains_key k m then prune_over max_len order (hm_remove k m) (removed @ [k])
          else prune_over max_len order m removed
     else (m, k # order, removed))"

definition prune_ordered_map ::
    "('k, 'v) hmap \<Rightarrow> 'k list \<Rightarrow> usize \<Rightarrow> ('k, 'v) hmap \<times> 'k list \<times> 'k list" where
  "prune_ordered_map m order max_len =
    (let (m, order, removed) = prune_over max_len order m [] in
     (m, dropWhile (\<lambda>k. \<not> hm_contains_key k m) order, removed))"

section \<open>Keys and records\<close>

definition persisted_key_for_record :: "turn_idempotency_record \<Rightarrow> persisted_idempotency_key" where
  "persisted_key_for_record r =
    \<lparr>pik_scope = ir_scope r, pik_operation = ir_operation r,
     pik_run_id = (case ir_operation r of OpSubmit \<Rightarrow> None | OpResume \<Rightarrow> ir_run_id r | OpCancel \<Rightarrow> ir_run_id r),
     pik_key = ir_key r\<rparr>"

definition persisted_submit_key :: "submit_idempotency_key \<Rightarrow> persisted_idempotency_key" where
  "persisted_submit_key k =
    \<lparr>pik_scope = sik_scope k, pik_operation = OpSubmit, pik_run_id = None, pik_key = sik_key k\<rparr>"

definition persisted_run_key ::
    "turn_idempotency_operation_kind \<Rightarrow> run_idempotency_key \<Rightarrow> persisted_idempotency_key" where
  "persisted_run_key op k =
    \<lparr>pik_scope = rik_scope k, pik_operation = op, pik_run_id = Some (rik_run_id k), pik_key = rik_key k\<rparr>"

definition submit_idempotency_record ::
    "submit_idempotency_key \<Rightarrow> submit_turn_response turn_result \<Rightarrow> timestamp \<Rightarrow> turn_idempotency_record" where
  "submit_idempotency_record k result created_at =
    (let (turn_id, run_id, outcome, replay) =
      (case result of
         Ok resp \<Rightarrow> (Some (acc_turn_id resp), Some (acc_run_id resp), OcAccepted, SubmitAccepted resp)
       | Err (ThreadBusy busy) \<Rightarrow> (None, Some (tb_active_run_id busy), OcThreadBusy, SubmitThreadBusy busy)
       | Err (AdmissionRejected rej) \<Rightarrow> (None, None, OcAdmissionRejected, SubmitAdmissionRejected rej)
       | Err e \<Rightarrow> (None, None, outcome_from_error e, ErrorReplay (error_replay_from_error e))) in
     \<lparr>ir_scope = sik_scope k, ir_operation = OpSubmit, ir_key = sik_key k, ir_turn_id = turn_id,
      ir_run_id = run_id, ir_outcome = outcome, ir_replay = replay, ir_created_at = created_at,
      ir_expires_at = None\<rparr>)"

definition resume_idempotency_record ::
    "run_idempotency_key \<Rightarrow> resume_turn_response turn_result \<Rightarrow> timestamp \<Rightarrow> turn_idempotency_record" where
  "resume_idempotency_record k result created_at =
    (let (outcome, replay) =
      (case result of
         Ok resp \<Rightarrow> (OcResumed, ResumeSucceeded resp)
       | Err e \<Rightarrow> (outcome_from_error e, ErrorReplay (error_replay_from_error e))) in
     \<lparr>ir_scope = rik_scope k, ir_operation = OpResume, ir_key = rik_key k, ir_turn_id = None,
      ir_run_id = Some (rik_run_id k), ir_outcome = outcome, ir_replay = replay,
      ir_created_at = created_at, ir_expires_at = None\<rparr>)"

definition cancel_idempotency_record ::
    "run_idempotency_key \<Rightarrow> cancel_run_response turn_result \<Rightarrow> timestamp \<Rightarrow> turn_idempotency_record" where
  "cancel_idempotency_record k result created_at =
    (let (outcome, replay) =
      (case result of
         Ok resp \<Rightarrow> (OcCancelRecorded, CancelRecorded resp)
       | Err e \<Rightarrow> (outcome_from_error e, ErrorReplay (error_replay_from_error e))) in
     \<lparr>ir_scope = rik_scope k, ir_operation = OpCancel, ir_key = rik_key k, ir_turn_id = None,
      ir_run_id = Some (rik_run_id k), ir_outcome = outcome, ir_replay = replay,
      ir_created_at = created_at, ir_expires_at = None\<rparr>)"

section \<open>Remembering outcomes\<close>

definition remember_persisted_idempotency :: "turn_idempotency_record \<Rightarrow> inner \<Rightarrow> inner" where
  "remember_persisted_idempotency r s =
    (let k = persisted_key_for_record r;
         s = (if hm_contains_key k (in_idempotency_records s) then s
              else s\<lparr>in_record_order := push_back (in_record_order s) k\<rparr>) in
     s\<lparr>in_idempotency_records := hm_insert k r (in_idempotency_records s)\<rparr>)"

definition remove_persisted :: "persisted_idempotency_key \<Rightarrow> inner \<Rightarrow> inner" where
  "remove_persisted k s = s\<lparr>in_idempotency_records := hm_remove k (in_idempotency_records s)\<rparr>"

definition prune_idempotency_records :: "inner \<Rightarrow> inner" where
  "prune_idempotency_records s =
    (let (m, order, _) = prune_ordered_map (in_idempotency_records s) (in_record_order s)
           (usize_saturating_mul (max_idempotency_records (in_limits s)) 3) in
     s\<lparr>in_idempotency_records := m, in_record_order := order\<rparr>)"

definition remember_submit_idempotency ::
    "submit_idempotency_key \<Rightarrow> submit_turn_response turn_result \<Rightarrow> timestamp \<Rightarrow> inner \<Rightarrow> inner" where
  "remember_submit_idempotency k result created_at s =
    (let s = (if hm_contains_key k (in_submit_idempotency s) then s
              else s\<lparr>in_submit_order := push_back (in_submit_order s) k\<rparr>);
         s = remember_persisted_idempotency (submit_idempotency_record k result created_at) s;
         s = s\<lparr>in_submit_idempotency := hm_insert k result (in_submit_idempotency s)\<rparr>;
         (m, order, removed) = prune_ordered_map (in_submit_idempotency s) (in_submit_order s)
           (max_idempotency_records (in_limits s));
         s = s\<lparr>in_submit_idempotency := m, in_submit_order := order\<rparr>;
         s = fold (\<lambda>k. remove_persisted (persisted_submit_key k)) removed s in
     prune_idempotency_records s)"

definition remember_resume_idempotency ::
    "run_idempotency_key \<Rightarrow> resume_turn_response turn_result \<Rightarrow> timestamp \<Rightarrow> inner \<Rightarrow> inner" where
  "remember_resume_idempotency k result created_at s =
    (let s = (if hm_contains_key k (in_resume_idempotency s) then s
              else s\<lparr>in_resume_order := push_back (in_resume_order s) k\<rparr>);
         s = remember_persisted_idempotency (resume_idempotency_record k result created_at) s;
         s = s\<lparr>in_resume_idempotency := hm_insert k result (in_resume_idempotency s)\<rparr>;
         (m, order, removed) = prune_ordered_map (in_resume_idempotency s) (in_resume_order s)
           (max_idempotency_records (in_limits s));
         s = s\<lparr>in_resume_idempotency := m, in_resume_order := order\<rparr>;
         s = fold (\<lambda>k. remove_persisted (persisted_run_key OpResume k)) removed s in
     prune_idempotency_records s)"

definition remember_cancel_idempotency ::
    "run_idempotency_key \<Rightarrow> cancel_run_response turn_result \<Rightarrow> timestamp \<Rightarrow> inner \<Rightarrow> inner" where
  "remember_cancel_idempotency k result created_at s =
    (let s = (if hm_contains_key k (in_cancel_idempotency s) then s
              else s\<lparr>in_cancel_order := push_back (in_cancel_order s) k\<rparr>);
         s = remember_persisted_idempotency (cancel_idempotency_record k result created_at) s;
         s = s\<lparr>in_cancel_idempotency := hm_insert k result (in_cancel_idempotency s)\<rparr>;
         (m, order, removed) = prune_ordered_map (in_cancel_idempotency s) (in_cancel_order s)
           (max_idempotency_records (in_limits s));
         s = s\<lparr>in_cancel_idempotency := m, in_cancel_order := order\<rparr>;
         s = fold (\<lambda>k. remove_persisted (persisted_run_key OpCancel k)) removed s in
     prune_idempotency_records s)"

section \<open>Replaying operations\<close>

definition resume_turn ::
    "env \<Rightarrow> resume_turn_request \<Rightarrow> inner \<Rightarrow> resume_turn_response turn_result \<times> inner" where
  "resume_turn env q s =
    (let k = \<lparr>rik_scope = res_scope q, rik_run_id = res_run_id q, rik_key = res_idempotency_key q\<rparr> in
     case hm_get (in_resume_idempotency s) k of
       Some result \<Rightarrow> (result, s)
     | None \<Rightarrow>
        (let (result, s) = resume_turn_once env q s in
         (result, remember_resume_idempotency k result (env_remember_now env) s)))"

definition request_cancel ::
    "env \<Rightarrow> cancel_run_request \<Rightarrow> inner \<Rightarrow> cancel_run_response turn_result \<times> inner" where
  "request_cancel env q s =
    (let k = \<lparr>rik_scope = cr_scope q, rik_run_id = cr_run_id q, rik_key = cr_idempotency_key q\<rparr> in
     case hm_get (in_cancel_idempotency s) k of
       Some result \<Rightarrow> (result, s)
     | None \<Rightarrow>
        (let (result, s) = request_cancel_once env q s in
         (result, remember_cancel_idempotency k result (env_remember_now env) s)))"

section \<open>Lemmas on ordered maps\<close>

text \<open>A bounded map with its insertion order: the interface of the three replay caches.\<close>

definition order_ok :: "('k, 'v) hmap \<Rightarrow> 'k list \<Rightarrow> bool" where
  "order_ok m order \<longleftrightarrow> hm_wf m \<and> distinct order \<and> set order = dom (hm_get m)"

lemma order_ok_length: "order_ok m order \<Longrightarrow> length m = length order"
  by (metis order_ok_def hm_length_dom distinct_card)

lemma hm_contains_key_dom: "hm_contains_key k m \<longleftrightarrow> k \<in> dom (hm_get m)"
  by (auto simp: hm_contains_key_def)

lemma prune_over_spec:
  assumes "order_ok m order" "prune_over n order m removed = (m', order', removed')"
  shows "order_ok m' order' \<and> order' = drop (length order - n) order
    \<and> hm_get m' = hm_get m |` set order'"
  using assms
proof (induction n order m removed rule: prune_over.induct)
  case (1 n m removed)
  then show ?case by (auto simp: order_ok_def restrict_map_def fun_eq_iff)
next
  case (2 n k order m removed)
  have len: "length m = Suc (length order)" using order_ok_length [OF "2.prems"(1)] by simp
  have k: "hm_contains_key k m" using "2.prems"(1) by (auto simp: order_ok_def hm_contains_key_dom)
  show ?case
  proof (cases "length m > n")
    case True
    have ok: "order_ok (hm_remove k m) order"
      using "2.prems"(1) by (auto simp: order_ok_def)
    have IH: "order_ok m' order' \<and> order' = drop (length order - n) order
        \<and> hm_get m' = hm_get (hm_remove k m) |` set order'"
      using "2.IH"(1) [OF True k ok] "2.prems"(2) True k by (simp only: prune_over.simps if_True)
    moreover have "k \<notin> set order'"
      using "2.prems"(1) IH set_drop_subset [of "length order - n" order] by (auto simp: order_ok_def)
    moreover have "Suc (length order) - n = Suc (length order - n)" using True len by simp
    ultimately show ?thesis by (auto simp: restrict_map_def fun_eq_iff)
  next
    case False
    then have "m' = m" "order' = k # order" using "2.prems"(2) by auto
    then show ?thesis
      using "2.prems"(1) False len by (auto simp: order_ok_def restrict_map_def fun_eq_iff)
  qed
qed

lemma prune_ordered_map_spec:
  assumes "order_ok m order" "prune_ordered_map m order n = (m', order', removed)"
  shows "order_ok m' order'" "order' = drop (length order - n) order"
    "hm_get m' = hm_get m |` set order'"
proof -
  obtain m1 o1 r1 where po: "prune_over n order m [] = (m1, o1, r1)" by (metis prod_cases3)
  note spec = prune_over_spec [OF assms(1) po]
  have all: "\<forall>k \<in> set o1. hm_contains_key k m1"
    using conjunct1 [OF spec] by (simp add: order_ok_def hm_contains_key_dom)
  have "dropWhile (\<lambda>k. \<not> hm_contains_key k m1) o1 = o1"
    using all by (cases o1) simp_all
  then have eq: "m' = m1" "order' = o1" using assms(2) po by (simp_all add: prune_ordered_map_def)
  show "order_ok m' order'" unfolding eq using spec by (rule conjunct1)
  show "order' = drop (length order - n) order" unfolding eq using spec by (rule conjunct1 [OF conjunct2])
  show "hm_get m' = hm_get m |` set order'" unfolding eq using spec by (rule conjunct2 [OF conjunct2])
qed

lemma remembered_survives:
  assumes "order_ok m order" "k \<notin> dom (hm_get m)" "0 < n"
    and "prune_ordered_map (hm_insert k v m) (push_back order k) n = (m', order', removed)"
  shows "hm_get m' k = Some v" "order_ok m' order'" "length m' \<le> n"
proof -
  have ok: "order_ok (hm_insert k v m) (push_back order k)"
    using assms by (auto simp: order_ok_def)
  note spec = prune_ordered_map_spec [OF ok assms(4)]
  have "k \<in> set order'"
    using spec(2) assms(3) by (simp add: drop_append)
  then show "hm_get m' k = Some v" using spec(3) by (simp add: restrict_map_def)
  show "order_ok m' order'" by (rule spec(1))
  show "length m' \<le> n" using order_ok_length [OF spec(1)] spec(2) by simp
qed

section \<open>Remembering leaves the runs alone\<close>

lemma store_inv_idem_fields [simp]:
  "store_inv (s\<lparr>in_turns := a\<rparr>) = store_inv s"
  "store_inv (s\<lparr>in_checkpoints := b\<rparr>) = store_inv s"
  "store_inv (s\<lparr>in_loop_checkpoints := c\<rparr>) = store_inv s"
  "store_inv (s\<lparr>in_submit_idempotency := d\<rparr>) = store_inv s"
  "store_inv (s\<lparr>in_submit_in_flight := e\<rparr>) = store_inv s"
  "store_inv (s\<lparr>in_resume_idempotency := f\<rparr>) = store_inv s"
  "store_inv (s\<lparr>in_cancel_idempotency := g\<rparr>) = store_inv s"
  "store_inv (s\<lparr>in_idempotency_records := h\<rparr>) = store_inv s"
  "store_inv (s\<lparr>in_submit_order := i\<rparr>) = store_inv s"
  "store_inv (s\<lparr>in_resume_order := j\<rparr>) = store_inv s"
  "store_inv (s\<lparr>in_cancel_order := l\<rparr>) = store_inv s"
  "store_inv (s\<lparr>in_record_order := m\<rparr>) = store_inv s"
  by (simp_all add: store_inv_def)

lemma fold_remove_persisted:
  "fold (\<lambda>k. remove_persisted (f k)) ks s =
    s\<lparr>in_idempotency_records := fold (\<lambda>k. hm_remove (f k)) ks (in_idempotency_records s)\<rparr>"
  by (induction ks arbitrary: s) (simp_all add: remove_persisted_def)

lemma remember_persisted_frame:
  "remember_persisted_idempotency r s =
    s\<lparr>in_record_order := (if hm_contains_key (persisted_key_for_record r) (in_idempotency_records s)
        then in_record_order s else push_back (in_record_order s) (persisted_key_for_record r)),
      in_idempotency_records := hm_insert (persisted_key_for_record r) r (in_idempotency_records s)\<rparr>"
  by (simp add: remember_persisted_idempotency_def Let_def)

lemma prune_idempotency_frame:
  "prune_idempotency_records s =
    (let pr = prune_ordered_map (in_idempotency_records s) (in_record_order s)
       (usize_saturating_mul (max_idempotency_records (in_limits s)) 3) in
     s\<lparr>in_idempotency_records := fst pr, in_record_order := fst (snd pr)\<rparr>)"
  by (simp add: prune_idempotency_records_def Let_def split_beta)

lemma remember_submit_frame:
  "remember_submit_idempotency k result t s =
    (let po = prune_ordered_map (hm_insert k result (in_submit_idempotency s))
           (if hm_contains_key k (in_submit_idempotency s) then in_submit_order s
            else push_back (in_submit_order s) k) (max_idempotency_records (in_limits s));
         s1 = remember_persisted_idempotency (submit_idempotency_record k result t) s;
         pr = prune_ordered_map (fold (\<lambda>k. hm_remove (persisted_submit_key k)) (snd (snd po)) (in_idempotency_records s1))
           (in_record_order s1) (usize_saturating_mul (max_idempotency_records (in_limits s)) 3) in
     s\<lparr>in_submit_idempotency := fst po, in_submit_order := fst (snd po),
       in_idempotency_records := fst pr, in_record_order := fst (snd pr)\<rparr>)"
  by (simp add: remember_submit_idempotency_def remember_persisted_frame fold_remove_persisted
      prune_idempotency_frame Let_def split_beta)

lemma remember_resume_frame:
  "remember_resume_idempotency k result t s =
    (let po = prune_ordered_map (hm_insert k result (in_resume_idempotency s))
           (if hm_contains_key k (in_resume_idempotency s) then in_resume_order s
            else push_back (in_resume_order s) k) (max_idempotency_records (in_limits s));
         s1 = remember_persisted_idempotency (resume_idempotency_record k result t) s;
         pr = prune_ordered_map (fold (\<lambda>k. hm_remove (persisted_run_key OpResume k)) (snd (snd po)) (in_idempotency_records s1))
           (in_record_order s1) (usize_saturating_mul (max_idempotency_records (in_limits s)) 3) in
     s\<lparr>in_resume_idempotency := fst po, in_resume_order := fst (snd po),
       in_idempotency_records := fst pr, in_record_order := fst (snd pr)\<rparr>)"
  by (simp add: remember_resume_idempotency_def remember_persisted_frame fold_remove_persisted
      prune_idempotency_frame Let_def split_beta)

lemma remember_cancel_frame:
  "remember_cancel_idempotency k result t s =
    (let po = prune_ordered_map (hm_insert k result (in_cancel_idempotency s))
           (if hm_contains_key k (in_cancel_idempotency s) then in_cancel_order s
            else push_back (in_cancel_order s) k) (max_idempotency_records (in_limits s));
         s1 = remember_persisted_idempotency (cancel_idempotency_record k result t) s;
         pr = prune_ordered_map (fold (\<lambda>k. hm_remove (persisted_run_key OpCancel k)) (snd (snd po)) (in_idempotency_records s1))
           (in_record_order s1) (usize_saturating_mul (max_idempotency_records (in_limits s)) 3) in
     s\<lparr>in_cancel_idempotency := fst po, in_cancel_order := fst (snd po),
       in_idempotency_records := fst pr, in_record_order := fst (snd pr)\<rparr>)"
  by (simp add: remember_cancel_idempotency_def remember_persisted_frame fold_remove_persisted
      prune_idempotency_frame Let_def split_beta)

lemma remember_inv [simp]:
  "store_inv (remember_submit_idempotency k1 result1 t1 s) = store_inv s"
  "store_inv (remember_resume_idempotency k2 result2 t2 s) = store_inv s"
  "store_inv (remember_cancel_idempotency k3 result3 t3 s) = store_inv s"
  by (simp_all add: remember_submit_frame remember_resume_frame remember_cancel_frame Let_def)

lemma resume_turn_inv:
  assumes "store_inv s"
  shows "store_inv (snd (resume_turn env q s))"
  using assms resume_turn_once_inv [OF assms, of env q]
  by (auto simp: resume_turn_def Let_def split: option.splits prod.splits)

lemma request_cancel_inv:
  assumes "store_inv s"
  shows "store_inv (snd (request_cancel env q s))"
  using assms request_cancel_once_inv [OF assms, of env q]
  by (auto simp: request_cancel_def Let_def split: option.splits prod.splits)

section \<open>The invariant of the replay caches\<close>

text \<open>One step of a cache: enter a key at the end of the order, or overwrite it, then prune.\<close>

definition cache_remember ::
    "usize \<Rightarrow> 'k \<Rightarrow> 'v \<Rightarrow> ('k, 'v) hmap \<times> 'k list \<Rightarrow> ('k, 'v) hmap \<times> 'k list" where
  "cache_remember n k v c =
    (let po = prune_ordered_map (hm_insert k v (fst c))
       (if hm_contains_key k (fst c) then snd c else push_back (snd c) k) n in
     (fst po, fst (snd po)))"

definition cache_ok :: "('k, 'v) hmap \<times> 'k list \<Rightarrow> bool" where
  "cache_ok c = order_ok (fst c) (snd c)"

lemma cache_remember_pre:
  assumes "cache_ok c"
  shows "order_ok (hm_insert k v (fst c)) (if hm_contains_key k (fst c) then snd c else push_back (snd c) k)"
  using assms by (auto simp: cache_ok_def order_ok_def hm_contains_key_dom)

lemma cache_remember_ok:
  assumes "cache_ok c"
  shows "cache_ok (cache_remember n k v c)" "length (fst (cache_remember n k v c)) \<le> n"
proof -
  obtain m' order' removed where po: "prune_ordered_map (hm_insert k v (fst c))
      (if hm_contains_key k (fst c) then snd c else push_back (snd c) k) n = (m', order', removed)"
    by (metis prod_cases3)
  note spec = prune_ordered_map_spec [OF cache_remember_pre [OF assms] po]
  have eq: "cache_remember n k v c = (m', order')" unfolding cache_remember_def po by simp
  show "cache_ok (cache_remember n k v c)" using spec(1) by (simp add: eq cache_ok_def)
  show "length (fst (cache_remember n k v c)) \<le> n"
    using order_ok_length [OF spec(1)] spec(2) by (simp add: eq)
qed

lemma cache_remember_get:
  assumes "cache_ok c" "hm_get (fst c) k = None" "0 < n"
  shows "hm_get (fst (cache_remember n k v c)) k = Some v"
proof -
  obtain m' order' removed where po: "prune_ordered_map (hm_insert k v (fst c)) (push_back (snd c) k) n = (m', order', removed)"
    by (metis prod_cases3)
  have "k \<notin> dom (hm_get (fst c))" using assms(2) by auto
  from remembered_survives(1) [OF assms(1) [unfolded cache_ok_def] this assms(3) po]
  show ?thesis using po assms(2) by (simp add: cache_remember_def hm_contains_key_def)
qed

lemma cache_remember_only:
  assumes "cache_ok c" "hm_get (fst (cache_remember n k v c)) j = Some w"
  shows "j = k \<and> w = v \<or> hm_get (fst c) j = Some w"
proof -
  obtain m' order' removed where po: "prune_ordered_map (hm_insert k v (fst c))
      (if hm_contains_key k (fst c) then snd c else push_back (snd c) k) n = (m', order', removed)"
    by (metis prod_cases3)
  note spec = prune_ordered_map_spec [OF cache_remember_pre [OF assms(1)] po]
  from assms(2) have "hm_get m' j = Some w" unfolding cache_remember_def po by simp
  then show ?thesis using spec(3) by (auto simp: restrict_map_def split: if_splits)
qed

text \<open>Below the bound nothing is forgotten.\<close>

lemma cache_remember_below:
  assumes "cache_ok c" "length (fst c) < n"
  shows "hm_get (fst (cache_remember n k v c)) = (hm_get (fst c))(k \<mapsto> v)"
proof -
  let ?order = "if hm_contains_key k (fst c) then snd c else push_back (snd c) k"
  obtain m' order' removed where po: "prune_ordered_map (hm_insert k v (fst c)) ?order n = (m', order', removed)"
    by (metis prod_cases3)
  note spec = prune_ordered_map_spec [OF cache_remember_pre [OF assms(1)] po]
  have "length (snd c) < n" using assms order_ok_length unfolding cache_ok_def by fastforce
  then have "order' = ?order" using spec(2) by simp
  moreover have "set ?order = dom (hm_get (hm_insert k v (fst c)))"
    using cache_remember_pre [OF assms(1)] by (simp only: order_ok_def)
  ultimately have "hm_get m' = hm_get (hm_insert k v (fst c))"
    using spec(3) by (simp only: restrict_map_def) (auto simp: fun_eq_iff dom_def)
  then show ?thesis unfolding cache_remember_def po by (auto simp: fun_eq_iff)
qed

text \<open>Running an operation under a cache: a remembered result is returned as it is, and any
  other result is remembered. \<^verbatim>\<open>resume_turn\<close> and \<^verbatim>\<open>request_cancel\<close> have this shape.\<close>

definition memo ::
    "('s \<Rightarrow> 'k \<Rightarrow> 'v option) \<Rightarrow> ('v \<Rightarrow> 's \<Rightarrow> 's) \<Rightarrow> 'k \<Rightarrow> ('s \<Rightarrow> 'v \<times> 's) \<Rightarrow> 's \<Rightarrow> 'v \<times> 's" where
  "memo look remember k f s =
    (case look s k of
       Some v \<Rightarrow> (v, s)
     | None \<Rightarrow> (let (v, s) = f s in (v, remember v s)))"

locale replay_cache =
  fixes look :: "'s \<Rightarrow> 'k \<Rightarrow> 'v option"
    and remember :: "'k \<Rightarrow> 'v \<Rightarrow> 't \<Rightarrow> 's \<Rightarrow> 's"
    and ok :: "'s \<Rightarrow> bool"
    and cap :: "'s \<Rightarrow> usize"
  assumes remember_look: "ok s \<Longrightarrow> look s k = None \<Longrightarrow> 0 < cap s \<Longrightarrow> look (remember k v t s) k = Some v"
    and remember_ok: "ok s \<Longrightarrow> ok (remember k v t s)"
    and remember_card: "ok s \<Longrightarrow> card (dom (look (remember k v t s))) \<le> cap s"
begin

lemma memo_remembers:
  assumes "ok s" "0 < cap s" "\<And>v s1. f s = (v, s1) \<Longrightarrow> ok s1 \<and> cap s1 = cap s \<and> look s1 k = look s k"
    and "memo look (\<lambda>v. remember k v t) k f s = (v, s')"
  shows "look s' k = Some v"
proof (cases "look s k")
  case None
  obtain w s1 where f: "f s = (w, s1)" by (metis surj_pair)
  with None assms(4) have "v = w" "s' = remember k w t s1" by (auto simp: memo_def)
  with remember_look [of s1 k w t] assms(1,2) assms(3) [OF f] None show ?thesis by simp
qed (use assms(4) in \<open>simp add: memo_def\<close>)

text \<open>A second request under the same key, whatever it asks for, returns the first result
  and changes nothing.\<close>

lemma memo_replay:
  assumes "ok s" "0 < cap s" "\<And>v s1. f s = (v, s1) \<Longrightarrow> ok s1 \<and> cap s1 = cap s \<and> look s1 k = look s k"
    and "memo look (\<lambda>v. remember k v t) k f s = (v, s')"
  shows "memo look (\<lambda>v. remember k v t') k g s' = (v, s')"
  using memo_remembers [OF assms] by (simp add: memo_def)

end

definition submit_cache :: "inner \<Rightarrow> (submit_idempotency_key, submit_turn_response turn_result) hmap \<times> submit_idempotency_key list" where
  "submit_cache s = (in_submit_idempotency s, in_submit_order s)"

definition resume_cache :: "inner \<Rightarrow> (run_idempotency_key, resume_turn_response turn_result) hmap \<times> run_idempotency_key list" where
  "resume_cache s = (in_resume_idempotency s, in_resume_order s)"

definition cancel_cache :: "inner \<Rightarrow> (run_idempotency_key, cancel_run_response turn_result) hmap \<times> run_idempotency_key list" where
  "cancel_cache s = (in_cancel_idempotency s, in_cancel_order s)"

lemmas cache_defs = submit_cache_def resume_cache_def cancel_cache_def

lemma remember_caches:
  "submit_cache (remember_submit_idempotency k1 v1 t1 s) = cache_remember (max_idempotency_records (in_limits s)) k1 v1 (submit_cache s)"
  "resume_cache (remember_submit_idempotency k1 v1 t1 s) = resume_cache s"
  "cancel_cache (remember_submit_idempotency k1 v1 t1 s) = cancel_cache s"
  "submit_cache (remember_resume_idempotency k2 v2 t2 s) = submit_cache s"
  "resume_cache (remember_resume_idempotency k2 v2 t2 s) = cache_remember (max_idempotency_records (in_limits s)) k2 v2 (resume_cache s)"
  "cancel_cache (remember_resume_idempotency k2 v2 t2 s) = cancel_cache s"
  "submit_cache (remember_cancel_idempotency k3 v3 t3 s) = submit_cache s"
  "resume_cache (remember_cancel_idempotency k3 v3 t3 s) = resume_cache s"
  "cancel_cache (remember_cancel_idempotency k3 v3 t3 s) = cache_remember (max_idempotency_records (in_limits s)) k3 v3 (cancel_cache s)"
  by (simp_all add: remember_submit_frame remember_resume_frame remember_cancel_frame cache_defs cache_remember_def Let_def)

lemma remember_limits [simp]:
  "in_limits (remember_submit_idempotency k1 v1 t1 s) = in_limits s"
  "in_limits (remember_resume_idempotency k2 v2 t2 s) = in_limits s"
  "in_limits (remember_cancel_idempotency k3 v3 t3 s) = in_limits s"
  by (simp_all add: remember_submit_frame remember_resume_frame remember_cancel_frame Let_def)

definition idem_inv :: "inner \<Rightarrow> bool" where
  "idem_inv s \<longleftrightarrow> cache_ok (submit_cache s) \<and> cache_ok (resume_cache s) \<and> cache_ok (cancel_cache s)"

lemma idem_inv_init: "idem_inv (with_limits limits)"
  by (simp add: idem_inv_def cache_defs with_limits_def cache_ok_def order_ok_def)

lemma idem_inv_remember:
  assumes "idem_inv s"
  shows "idem_inv (remember_submit_idempotency k1 v1 t1 s)" "idem_inv (remember_resume_idempotency k2 v2 t2 s)"
    "idem_inv (remember_cancel_idempotency k3 v3 t3 s)"
  using assms by (simp_all add: idem_inv_def remember_caches cache_remember_ok)

lemma cache_ok_card: "cache_ok c \<Longrightarrow> card (dom (hm_get (fst c))) = length (fst c)"
  by (simp add: cache_ok_def order_ok_def hm_length_dom)

interpretation submit_replays: replay_cache "\<lambda>s. hm_get (fst (submit_cache s))" remember_submit_idempotency
    "\<lambda>s. cache_ok (submit_cache s)" "\<lambda>s. max_idempotency_records (in_limits s)"
  by unfold_locales
    (simp_all add: remember_caches cache_remember_get cache_remember_ok cache_ok_card)

interpretation resume_replays: replay_cache "\<lambda>s. hm_get (fst (resume_cache s))" remember_resume_idempotency
    "\<lambda>s. cache_ok (resume_cache s)" "\<lambda>s. max_idempotency_records (in_limits s)"
  by unfold_locales
    (simp_all add: remember_caches cache_remember_get cache_remember_ok cache_ok_card)

interpretation cancel_replays: replay_cache "\<lambda>s. hm_get (fst (cancel_cache s))" remember_cancel_idempotency
    "\<lambda>s. cache_ok (cancel_cache s)" "\<lambda>s. max_idempotency_records (in_limits s)"
  by unfold_locales
    (simp_all add: remember_caches cache_remember_get cache_remember_ok cache_ok_card)

end
