(* ===== verification/Turn_Submit.thy ===== *)
theory Turn_Submit
  imports Turn_Idempotency
begin

text \<open>
  Submitting turns: \<^verbatim>\<open>submit_turn\<close>, \<^verbatim>\<open>submit_child_turn\<close> and the spawn-tree operations of
  \<^verbatim>\<open>ironclaw_turns/src/memory.rs\<close>. \<^verbatim>\<open>submit_turn\<close> takes the store's mutex several times,
  with the admission policy and the profile resolver called in between, so it is
  modelled as its lock regions: begin (replay, enter, or wait for the thread that
  holds the same key in flight), rejection of lineage fields, the admission result,
  and the commit. \<^verbatim>\<open>submit_turn\<close> here composes the regions without interleaving;
  the state machine of \<^verbatim>\<open>Turn_Machine\<close> interleaves them.
\<close>

type_synonym turn_admission_policy = "submit_turn_request \<Rightarrow> admission_rejection + unit"

definition allow_all_admission_policy :: turn_admission_policy where
  "allow_all_admission_policy q = Ok ()"

definition profile_resolution_error_to_turn_error :: "run_profile_resolution_error \<Rightarrow> turn_error" where
  "profile_resolution_error_to_turn_error e =
    AdmissionRejected (admission_rejection_new
      (case e of
         ProfileUnauthorized _ \<Rightarrow> RejectedUnauthorized
       | ProfileUnavailable _ \<Rightarrow> ProfileRejected
       | ProfileInvalidRequest _ \<Rightarrow> ProfileRejected))"

definition invalid_lineage :: "string \<Rightarrow> turn_error" where
  "invalid_lineage reason = InvalidRequest reason"

section \<open>In-flight keys\<close>

datatype submit_begin_outcome =
    Replay "submit_turn_response turn_result"
  | Entered
  | MustWait

definition submit_begin :: "submit_idempotency_key \<Rightarrow> inner \<Rightarrow> submit_begin_outcome \<times> inner" where
  "submit_begin key s =
    (case hm_get (in_submit_idempotency s) key of
       Some result \<Rightarrow> (Replay result, s)
     | None \<Rightarrow>
        if key \<in> set (in_submit_in_flight s) then (MustWait, s)
        else (Entered, s\<lparr>in_submit_in_flight := key # in_submit_in_flight s\<rparr>))"

text \<open>Removing the key from the in-flight set, on every return path and again in the
  guard's \<^verbatim>\<open>Drop\<close>, where it then finds nothing.\<close>

definition leave_in_flight :: "submit_idempotency_key \<Rightarrow> inner \<Rightarrow> inner" where
  "leave_in_flight key s = s\<lparr>in_submit_in_flight := filter (\<lambda>k. k \<noteq> key) (in_submit_in_flight s)\<rparr>"

definition finish_submit ::
    "submit_idempotency_key \<Rightarrow> submit_turn_response turn_result \<Rightarrow> timestamp \<Rightarrow> inner
      \<Rightarrow> submit_turn_response turn_result \<times> inner" where
  "finish_submit key result created_at s =
    (result, leave_in_flight key (remember_submit_idempotency key result created_at s))"

section \<open>Accepting a run\<close>

record accepted_run =
  ar_scope :: turn_scope
  ar_actor :: turn_actor
  ar_accepted_message_ref :: accepted_message_ref
  ar_source_binding_ref :: source_binding_ref
  ar_reply_target_binding_ref :: reply_target_binding_ref
  ar_received_at :: timestamp
  ar_profile :: turn_run_profile
  ar_run_id :: turn_run_id
  ar_parent_run_id :: "turn_run_id option"
  ar_subagent_depth :: u32
  ar_spawn_tree_root_run_id :: "turn_run_id option"

definition queued_record :: "env \<Rightarrow> accepted_run \<Rightarrow> event_cursor \<Rightarrow> run_record" where
  "queued_record env a c =
    \<lparr>rr_scope = ar_scope a, rr_actor = ar_actor a, rr_turn_id = env_turn_id env,
     rr_run_id = ar_run_id a, rr_status = Queued, rr_profile = ar_profile a,
     rr_resolved_model_route = None, rr_accepted_message_ref = ar_accepted_message_ref a,
     rr_source_binding_ref = ar_source_binding_ref a,
     rr_reply_target_binding_ref = ar_reply_target_binding_ref a,
     rr_checkpoint_id = None, rr_gate_ref = None, rr_credential_requirements = [],
     rr_failure = None, rr_event_cursor = c, rr_runner_id = None, rr_lease_token = None,
     rr_lease_expires_at = None, rr_last_heartbeat_at = None, rr_claim_count = 0,
     rr_received_at = ar_received_at a, rr_parent_run_id = ar_parent_run_id a,
     rr_subagent_depth = ar_subagent_depth a,
     rr_spawn_tree_root_run_id = ar_spawn_tree_root_run_id a\<rparr>"

text \<open>The statements that end both submit operations: turn and run records, the thread
  lock, the queue, the event and the response.\<close>

definition accept_run :: "env \<Rightarrow> accepted_run \<Rightarrow> inner \<Rightarrow> submit_turn_response \<times> inner" where
  "accept_run env a s =
    (let (c, s) = next_cursor s;
         turn = \<lparr>tr_turn_id = env_turn_id env, tr_scope = ar_scope a, tr_actor = ar_actor a,
                 tr_accepted_message_ref = ar_accepted_message_ref a,
                 tr_source_binding_ref = ar_source_binding_ref a,
                 tr_reply_target_binding_ref = ar_reply_target_binding_ref a,
                 tr_created_at = ar_received_at a\<rparr>;
         r = queued_record env a c;
         key = lock_key_from (ar_scope a);
         s = s\<lparr>in_turns := hm_insert (env_turn_id env) turn (in_turns s)\<rparr>;
         s = s\<lparr>in_active_locks := hm_insert key
               \<lparr>al_key = key, al_run_id = ar_run_id a, al_status = Queued, al_lock_version = 1,
                al_acquired_at = ar_received_at a, al_updated_at = ar_received_at a\<rparr>
               (in_active_locks s)\<rparr>;
         s = push_queued_run (ar_run_id a) s;
         s = s\<lparr>in_records := hm_insert (ar_run_id a) r (in_records s)\<rparr>;
         s = push_event env r EvSubmitted None s in
     (Accepted (env_turn_id env) (ar_run_id a) Queued (tp_id (ar_profile a))
        (tp_version (ar_profile a)) c (ar_accepted_message_ref a) (ar_reply_target_binding_ref a), s))"

section \<open>Submitting a turn\<close>

definition submit_key :: "submit_turn_request \<Rightarrow> submit_idempotency_key" where
  "submit_key q = \<lparr>sik_scope = sub_scope q, sik_key = sub_idempotency_key q\<rparr>"

definition submit_has_lineage :: "submit_turn_request \<Rightarrow> bool" where
  "submit_has_lineage q \<longleftrightarrow> sub_parent_run_id q \<noteq> None \<or> sub_subagent_depth q \<noteq> 0
    \<or> sub_spawn_tree_root_run_id q \<noteq> None"

definition submit_reject_lineage ::
    "submit_turn_request \<Rightarrow> inner \<Rightarrow> submit_turn_response turn_result \<times> inner" where
  "submit_reject_lineage q s =
    (let key = submit_key q in
     case hm_get (in_submit_idempotency s) key of
       Some result \<Rightarrow> (result, leave_in_flight key s)
     | None \<Rightarrow>
        finish_submit key (Err (InvalidRequest ''child runs must be submitted through submit_child_turn''))
          (sub_received_at q) s)"

definition submit_admission_phase ::
    "submit_idempotency_key \<Rightarrow> timestamp \<Rightarrow> (admission_rejection + unit) \<Rightarrow> inner
      \<Rightarrow> submit_turn_response turn_result option \<times> inner" where
  "submit_admission_phase key received_at admission_result s =
    (case hm_get (in_submit_idempotency s) key of
       Some result \<Rightarrow> (Some result, leave_in_flight key s)
     | None \<Rightarrow>
        (case admission_result of
           Err rejection \<Rightarrow>
             (let (r, s) = finish_submit key (Err (AdmissionRejected rejection)) received_at s in (Some r, s))
         | Ok _ \<Rightarrow> (None, s)))"

definition submit_commit ::
    "env \<Rightarrow> turn_admission_limit_provider \<Rightarrow> submit_turn_request
      \<Rightarrow> (run_profile_resolution_error + resolved_run_profile) \<Rightarrow> inner
      \<Rightarrow> submit_turn_response turn_result \<times> inner" where
  "submit_commit env limit_for q profile_resolution s =
    (let key = submit_key q; received = sub_received_at q in
     case hm_get (in_submit_idempotency s) key of
       Some result \<Rightarrow> (result, leave_in_flight key s)
     | None \<Rightarrow>
        (case profile_resolution of
           Err e \<Rightarrow> finish_submit key (Err (profile_resolution_error_to_turn_error e)) received s
         | Ok resolved \<Rightarrow>
            (let profile = from_resolved resolved in
             case store_thread_busy (lock_key_from (sub_scope q)) s of
               Some busy \<Rightarrow> (Err (ThreadBusy busy), leave_in_flight key s)
             | None \<Rightarrow>
                (let run_id = (case sub_requested_run_id q of Some i \<Rightarrow> i | None \<Rightarrow> env_run_id env) in
                 if hm_contains_key run_id (in_records s)
                 then finish_submit key (Err (Conflict ''requested_run_id already bound'')) received s
                 else
                   (case reserve_admission limit_for run_id (tp_admission_class profile)
                           (sub_scope q) (sub_actor q) s of
                      (Err rejection, s) \<Rightarrow> finish_submit key (Err (AdmissionRejected rejection)) received s
                    | (Ok _, s) \<Rightarrow>
                       (let (response, s) = accept_run env
                              \<lparr>ar_scope = sub_scope q, ar_actor = sub_actor q,
                               ar_accepted_message_ref = sub_accepted_message_ref q,
                               ar_source_binding_ref = sub_source_binding_ref q,
                               ar_reply_target_binding_ref = sub_reply_target_binding_ref q,
                               ar_received_at = received, ar_profile = profile, ar_run_id = run_id,
                               ar_parent_run_id = None, ar_subagent_depth = 0,
                               ar_spawn_tree_root_run_id = None\<rparr> s in
                        finish_submit key (Ok response) received s))))))"

definition profile_request :: "run_profile_request option \<Rightarrow> run_profile_resolution_request" where
  "profile_request name = interactive_default_request\<lparr>rq_requested_run_profile := name\<rparr>"

definition submit_turn ::
    "env \<Rightarrow> turn_admission_limit_provider \<Rightarrow> turn_admission_policy \<Rightarrow> run_profile_resolver
      \<Rightarrow> submit_turn_request \<Rightarrow> inner \<Rightarrow> submit_turn_response turn_result option \<times> inner" where
  "submit_turn env limit_for policy resolver q s =
    (let key = submit_key q in
     case submit_begin key s of
       (Replay result, s) \<Rightarrow> (Some result, s)
     | (MustWait, s) \<Rightarrow> (None, s)
     | (Entered, s) \<Rightarrow>
        if submit_has_lineage q
        then (let (r, s) = submit_reject_lineage q s in (Some r, s))
        else
          (case submit_admission_phase key (sub_received_at q) (policy q) s of
             (Some r, s) \<Rightarrow> (Some r, s)
           | (None, s) \<Rightarrow>
              (let (r, s) = submit_commit env limit_for q
                     (resolver (profile_request (sub_requested_run_profile q))) s in
               (Some r, s))))"

section \<open>Submitting a child run\<close>

definition child_key :: "submit_child_run_request \<Rightarrow> submit_idempotency_key" where
  "child_key q = \<lparr>sik_scope = chd_child_scope q, sik_key = chd_idempotency_key q\<rparr>"

definition visible_parent :: "submit_child_run_request \<Rightarrow> inner \<Rightarrow> run_record option" where
  "visible_parent q s =
    (case hm_get (in_records s) (chd_parent_run_id q) of
       Some r \<Rightarrow> if rr_scope r = chd_parent_scope q then Some r else None
     | None \<Rightarrow> None)"

definition root_of :: "run_record \<Rightarrow> turn_run_id" where
  "root_of r = (case rr_spawn_tree_root_run_id r of Some i \<Rightarrow> i | None \<Rightarrow> rr_run_id r)"

text \<open>The checks on the parent that both lock regions make.\<close>

definition check_parent :: "submit_child_run_request \<Rightarrow> inner \<Rightarrow> run_record turn_result" where
  "check_parent q s =
    (case visible_parent q s of
       None \<Rightarrow> Err ScopeNotFound
     | Some parent \<Rightarrow>
        if \<not> same_scope_envelope (rr_scope parent) (chd_child_scope q) then Err Unauthorized
        else if rr_subagent_depth parent = - 1
        then Err (invalid_lineage ''subagent depth would overflow'')
        else Ok parent)"

definition submit_child_template ::
    "submit_child_run_request \<Rightarrow> inner
      \<Rightarrow> (submit_turn_response turn_result + submit_turn_request) \<times> inner" where
  "submit_child_template q s =
    (let key = child_key q in
     case hm_get (in_submit_idempotency s) key of
       Some result \<Rightarrow> (Inl result, leave_in_flight key s)
     | None \<Rightarrow>
        (case check_parent q s of
           Err e \<Rightarrow> (let (r, s) = finish_submit key (Err e) (chd_received_at q) s in (Inl r, s))
         | Ok parent \<Rightarrow>
            (Inr \<lparr>sub_scope = chd_child_scope q, sub_actor = chd_actor q,
                  sub_accepted_message_ref = chd_accepted_message_ref q,
                  sub_source_binding_ref = chd_source_binding_ref q,
                  sub_reply_target_binding_ref = chd_reply_target_binding_ref q,
                  sub_requested_run_profile = chd_requested_run_profile q,
                  sub_idempotency_key = chd_idempotency_key q,
                  sub_received_at = chd_received_at q,
                  sub_requested_run_id = chd_requested_run_id q,
                  sub_parent_run_id = Some (rr_run_id parent),
                  sub_subagent_depth = rr_subagent_depth parent + 1,
                  sub_spawn_tree_root_run_id = Some (root_of parent)\<rparr>, s)))"

definition tree_count :: "spawn_tree_reservation_key \<Rightarrow> inner \<Rightarrow> u64" where
  "tree_count key s = (case hm_get (in_tree_reservations s) key of Some n \<Rightarrow> n | None \<Rightarrow> 0)"

definition set_tree_count :: "spawn_tree_reservation_key \<Rightarrow> u64 \<Rightarrow> inner \<Rightarrow> inner" where
  "set_tree_count key n s = s\<lparr>in_tree_reservations := hm_insert key n (in_tree_reservations s)\<rparr>"

definition restore_tree_count :: "spawn_tree_reservation_key \<Rightarrow> u64 \<Rightarrow> inner \<Rightarrow> inner" where
  "restore_tree_count key previous s =
    (if previous = 0 then s\<lparr>in_tree_reservations := hm_remove key (in_tree_reservations s)\<rparr>
     else set_tree_count key previous s)"

text \<open>The checks on the root, and the next count of its tree.\<close>

definition check_root :: "submit_child_run_request \<Rightarrow> run_record \<Rightarrow> inner \<Rightarrow> turn_run_id turn_result" where
  "check_root q parent s =
    (case hm_get (in_records s) (root_of parent) of
       None \<Rightarrow> Err ScopeNotFound
     | Some root \<Rightarrow>
        if \<not> same_scope_envelope (rr_scope root) (chd_child_scope q) then Err Unauthorized
        else if root_of root \<noteq> rr_run_id root
        then Err (invalid_lineage ''root_run_id must identify the spawn tree root'')
        else Ok (root_of parent))"

definition next_tree_count :: "u64 \<Rightarrow> u32 \<Rightarrow> u64 option" where
  "next_tree_count previous cap =
    (case checked_add previous 1 of
       Some n \<Rightarrow> if n \<le> ucast cap then Some n else None
     | None \<Rightarrow> None)"

definition submit_child_commit ::
    "env \<Rightarrow> turn_admission_limit_provider \<Rightarrow> submit_child_run_request
      \<Rightarrow> (run_profile_resolution_error + resolved_run_profile) \<Rightarrow> inner
      \<Rightarrow> submit_turn_response turn_result \<times> inner" where
  "submit_child_commit env limit_for q profile_resolution s =
    (let key = child_key q; received = chd_received_at q; cap = chd_spawn_tree_descendant_cap q;
         reject = (\<lambda>e s. finish_submit key (Err e) received s) in
     case hm_get (in_submit_idempotency s) key of
       Some result \<Rightarrow> (result, leave_in_flight key s)
     | None \<Rightarrow>
    (case profile_resolution of
       Err e \<Rightarrow> reject (profile_resolution_error_to_turn_error e) s
     | Ok resolved \<Rightarrow>
    (case check_parent q s of
       Err e \<Rightarrow> reject e s
     | Ok parent \<Rightarrow>
    (case check_root q parent s of
       Err e \<Rightarrow> reject e s
     | Ok root_run_id \<Rightarrow>
    (case store_thread_busy (lock_key_from (chd_child_scope q)) s of
       Some busy \<Rightarrow> (Err (ThreadBusy busy), leave_in_flight key s)
     | None \<Rightarrow>
    (let profile = from_resolved resolved;
         run_id = (case chd_requested_run_id q of Some i \<Rightarrow> i | None \<Rightarrow> env_run_id env) in
     if hm_contains_key run_id (in_records s)
     then reject (Conflict ''requested_run_id already bound'') s
     else
    (let reservation_key = spawn_tree_key (chd_child_scope q) root_run_id;
         previous = tree_count reservation_key s in
     case next_tree_count previous cap of
       None \<Rightarrow> reject (CapacityExceeded SpawnTreeDescendants (ucast cap)) s
     | Some next \<Rightarrow>
    (case reserve_admission limit_for run_id (tp_admission_class profile) (chd_child_scope q)
            (chd_actor q) (set_tree_count reservation_key next s) of
       (Err rejection, s) \<Rightarrow>
         reject (AdmissionRejected rejection) (restore_tree_count reservation_key previous s)
     | (Ok _, s) \<Rightarrow>
        (let (response, s) = accept_run env
               \<lparr>ar_scope = chd_child_scope q, ar_actor = chd_actor q,
                ar_accepted_message_ref = chd_accepted_message_ref q,
                ar_source_binding_ref = chd_source_binding_ref q,
                ar_reply_target_binding_ref = chd_reply_target_binding_ref q,
                ar_received_at = received, ar_profile = profile, ar_run_id = run_id,
                ar_parent_run_id = Some (rr_run_id parent),
                ar_subagent_depth = rr_subagent_depth parent + 1,
                ar_spawn_tree_root_run_id = Some root_run_id\<rparr> s in
         finish_submit key (Ok response) received s)))))))))"

definition submit_child_turn ::
    "env \<Rightarrow> turn_admission_limit_provider \<Rightarrow> turn_admission_policy \<Rightarrow> run_profile_resolver
      \<Rightarrow> submit_child_run_request \<Rightarrow> inner \<Rightarrow> submit_turn_response turn_result option \<times> inner" where
  "submit_child_turn env limit_for policy resolver q s =
    (let key = child_key q in
     case submit_begin key s of
       (Replay result, s) \<Rightarrow> (Some result, s)
     | (MustWait, s) \<Rightarrow> (None, s)
     | (Entered, s) \<Rightarrow>
        (case submit_child_template q s of
           (Inl r, s) \<Rightarrow> (Some r, s)
         | (Inr template, s) \<Rightarrow>
            (case submit_admission_phase key (chd_received_at q) (policy template) s of
               (Some r, s) \<Rightarrow> (Some r, s)
             | (None, s) \<Rightarrow>
                (let (r, s) = submit_child_commit env limit_for q
                       (resolver (profile_request (sub_requested_run_profile template))) s in
                 (Some r, s)))))"

end
