(* ===== verification/Turn_Tree.thy ===== *)
theory Turn_Tree
  imports Turn_Submit
begin

text \<open>
  Spawn-tree capacity and the read operations of the store:
  \<^verbatim>\<open>reserve_tree_descendants\<close>, \<^verbatim>\<open>release_tree_descendants\<close>, \<^verbatim>\<open>children_of\<close>,
  \<^verbatim>\<open>get_run_record\<close>, \<^verbatim>\<open>get_run_state\<close>, the approval lookups, loop checkpoints and the
  event projection source, in \<^verbatim>\<open>ironclaw_turns/src/memory.rs\<close>.
\<close>

section \<open>Spawn-tree reservations\<close>

definition canonical_root :: "turn_scope \<Rightarrow> turn_run_id \<Rightarrow> inner \<Rightarrow> turn_run_id turn_result" where
  "canonical_root scope root_run_id s =
    (case hm_get (in_records s) root_run_id of
       None \<Rightarrow> Err ScopeNotFound
     | Some root \<Rightarrow>
        if \<not> same_scope_envelope (rr_scope root) scope then Err Unauthorized
        else if root_of root \<noteq> rr_run_id root
        then Err (InvalidRequest ''root_run_id must identify the spawn tree root'')
        else Ok (root_of root))"

definition reserve_tree_descendants ::
    "turn_scope \<Rightarrow> turn_run_id \<Rightarrow> u32 \<Rightarrow> u32 \<Rightarrow> inner \<Rightarrow> spawn_tree_reservation turn_result \<times> inner" where
  "reserve_tree_descendants scope root_run_id delta cap s =
    (if delta = 0 then (Err (InvalidRequest ''reservation delta must be greater than zero''), s)
     else case canonical_root scope root_run_id s of
       Err e \<Rightarrow> (Err e, s)
     | Ok root \<Rightarrow>
        (let key = spawn_tree_key scope root in
         case checked_add (tree_count key s) (ucast delta) of
           None \<Rightarrow> (Err (CapacityExceeded SpawnTreeDescendants (ucast cap)), s)
         | Some next \<Rightarrow>
            if next > ucast cap then (Err (CapacityExceeded SpawnTreeDescendants (ucast cap)), s)
            else (Ok \<lparr>stv_scope = scope, stv_root_run_id = root, stv_descendant_count = next\<rparr>,
                  set_tree_count key next s)))"

definition retire_root :: "turn_run_id \<Rightarrow> inner \<Rightarrow> inner" where
  "retire_root root s =
    (if record_is_terminal (in_records s) root \<and> root \<notin> set (in_terminal_runs s)
     then if length (in_terminal_runs s) \<ge> max_terminal_records (in_limits s)
          then s\<lparr>in_records := hm_remove root (in_records s),
                 in_admission_reservations := hm_remove root (in_admission_reservations s)\<rparr>
          else prune_terminal_records (s\<lparr>in_terminal_runs := push_back (in_terminal_runs s) root\<rparr>)
     else s)"

definition release_tree_descendants ::
    "turn_scope \<Rightarrow> turn_run_id \<Rightarrow> u32 \<Rightarrow> inner \<Rightarrow> unit turn_result \<times> inner" where
  "release_tree_descendants scope root_run_id delta s =
    (case canonical_root scope root_run_id s of
       Err e \<Rightarrow> (Err e, s)
     | Ok root \<Rightarrow>
        (let key = spawn_tree_key scope root in
         case hm_get (in_tree_reservations s) key of
           None \<Rightarrow> (Ok (), s)
         | Some previous \<Rightarrow>
            if previous < ucast delta
            then (Err (InvalidRequest ''release delta exceeds current reservation count''), s)
            else if previous - ucast delta = 0
            then (Ok (), retire_root root
                   (s\<lparr>in_tree_reservations := hm_remove key (in_tree_reservations s)\<rparr>))
            else (Ok (), set_tree_count key (previous - ucast delta) s)))"

section \<open>Reading runs\<close>

definition get_run_state :: "inner \<Rightarrow> get_run_state_request \<Rightarrow> turn_run_state turn_result" where
  "get_run_state s q =
    (case hm_get (in_records s) (gs_run_id q) of
       Some r \<Rightarrow> if rr_scope r = gs_scope q then Ok (run_state r) else Err ScopeNotFound
     | None \<Rightarrow> Err ScopeNotFound)"

definition get_run_record :: "turn_scope \<Rightarrow> turn_run_id \<Rightarrow> inner \<Rightarrow> turn_run_record option turn_result" where
  "get_run_record scope run_id s =
    (case hm_get (in_records s) run_id of
       Some r \<Rightarrow> if rr_scope r = scope then Ok (Some (persistence_record r)) else Ok None
     | None \<Rightarrow> Ok None)"

definition children_of :: "turn_scope \<Rightarrow> turn_run_id \<Rightarrow> inner \<Rightarrow> turn_run_record list turn_result" where
  "children_of scope run_id s =
    (case hm_get (in_records s) run_id of
       None \<Rightarrow> Ok []
     | Some parent \<Rightarrow>
        if rr_scope parent \<noteq> scope then Ok []
        else Ok (sort_key trr_received_at (map persistence_record
               (filter (\<lambda>r. same_scope_envelope (rr_scope r) scope \<and> rr_parent_run_id r = Some run_id)
                 (hm_values (in_records s))))))"

definition blocked_approval_runs_for_actor ::
    "turn_scope \<Rightarrow> turn_actor \<Rightarrow> inner \<Rightarrow> turn_run_state list turn_result" where
  "blocked_approval_runs_for_actor scope actor s =
    Ok (sort_key rst_run_id (map run_state
      (filter (\<lambda>r. rr_scope r = scope \<and> rr_actor r = actor \<and> rr_status r = BlockedApproval
                 \<and> rr_gate_ref r \<noteq> None) (hm_values (in_records s)))))"

definition approval_run_for_actor_and_gate ::
    "turn_scope \<Rightarrow> turn_actor \<Rightarrow> gate_ref \<Rightarrow> inner \<Rightarrow> turn_run_id option turn_result" where
  "approval_run_for_actor_and_gate scope actor gate s =
    (case List.find (\<lambda>r. rr_scope r = scope \<and> rr_actor r = actor \<and> rr_status r = BlockedApproval
                      \<and> rr_gate_ref r = Some gate) (hm_values (in_records s)) of
       Some r \<Rightarrow> Ok (Some (rr_run_id r))
     | None \<Rightarrow>
        (let historical = List.map_filter (\<lambda>c.
               case hm_get (in_records s) (cpr_run_id c) of
                 Some r \<Rightarrow> if rr_scope r = scope \<and> rr_actor r = actor then Some (rr_run_id r) else None
               | None \<Rightarrow> None)
             (filter (\<lambda>c. cpr_status c = BlockedApproval \<and> cpr_gate_ref c = gate
                       \<and> (case cpr_scope c of None \<Rightarrow> True | Some stored \<Rightarrow> stored = scope))
               (in_checkpoints s)) in
         Ok (case remdups_adj (sort historical) of [] \<Rightarrow> None | k # _ \<Rightarrow> Some k)))"

definition read_turn_events_after :: "inner \<Rightarrow> projection_source" where
  "read_turn_events_after s scope owner after limit =
    Ok (project_turn_events (in_events s) scope owner after limit (in_event_retention_floor s))"

section \<open>Loop checkpoints\<close>

definition put_loop_checkpoint ::
    "env \<Rightarrow> put_loop_checkpoint_request \<Rightarrow> inner \<Rightarrow> loop_checkpoint_record turn_result \<times> inner" where
  "put_loop_checkpoint env q s =
    (let r = \<lparr>lc_checkpoint_id = env_checkpoint_id env, lc_scope = plc_scope q,
              lc_turn_id = plc_turn_id q, lc_run_id = plc_run_id q, lc_state_ref = plc_state_ref q,
              lc_schema_id = plc_schema_id q, lc_schema_version = plc_schema_version q,
              lc_kind = plc_kind q, lc_gate_ref = plc_gate_ref q, lc_created_at = env_now env\<rparr> in
     (Ok r, s\<lparr>in_loop_checkpoints := hm_insert (env_checkpoint_id env) r (in_loop_checkpoints s)\<rparr>))"

definition get_loop_checkpoint ::
    "get_loop_checkpoint_request \<Rightarrow> inner \<Rightarrow> loop_checkpoint_record option turn_result" where
  "get_loop_checkpoint q s =
    (case hm_get (in_loop_checkpoints s) (glc_checkpoint_id q) of
       None \<Rightarrow> Ok None
     | Some r \<Rightarrow>
        if lc_scope r = glc_scope q \<and> lc_turn_id r = glc_turn_id q \<and> lc_run_id r = glc_run_id q
           \<and> lc_checkpoint_id r = glc_checkpoint_id q
        then Ok (Some r) else Ok None)"

section \<open>The store as a run-state store\<close>

interpretation memory_runs: run_state_store "get_run_state s" "\<lambda>k. map_option run_state (hm_get (in_records s) k)" for s
  by unfold_locales (auto simp: get_run_state_def run_state_def split: option.splits)

end
