(* ===== verification/Turn_Submit_Safety.thy ===== *)
theory Turn_Submit_Safety
  imports Turn_Tree
begin

text \<open>
  Submitting turns and child runs, reserving and releasing spawn-tree capacity: each
  keeps the invariant of the store on every branch.
\<close>

section \<open>Accepting a run\<close>

definition acceptable :: "accepted_run \<Rightarrow> inner \<Rightarrow> bool" where
  "acceptable a s \<longleftrightarrow>
    hm_get (in_records s) (ar_run_id a) = None
    \<and> hm_get (in_active_locks s) (lock_key_from (ar_scope a)) = None
    \<and> (ar_parent_run_id a = None) = (ar_subagent_depth a = 0)
    \<and> (ar_parent_run_id a = None) = (ar_spawn_tree_root_run_id a = None)"

lemma queued_record_simps [simp]:
  "rr_run_id (queued_record env a c) = ar_run_id a" "rr_scope (queued_record env a c) = ar_scope a"
  "rr_status (queued_record env a c) = Queued" "rr_event_cursor (queued_record env a c) = c"
  "rr_actor (queued_record env a c) = ar_actor a" "rr_profile (queued_record env a c) = ar_profile a"
  "lease_shape (queued_record env a c)"
  by (simp_all add: queued_record_def lease_shape_def)

lemma records_new:
  assumes "records_ok recs" "lease_shape r" "lineage_shape r"
  shows "records_ok (hm_insert (rr_run_id r) r recs)"
  using assms by (auto simp: records_ok_def)

lemma locks_new:
  assumes locks: "locks_ok recs locks" and k: "hm_get recs (rr_run_id r) = None"
    and free: "hm_get locks (lock_key_from (rr_scope r)) = None"
    and l: "al_key l = lock_key_from (rr_scope r)" "al_run_id l = rr_run_id r" "al_status l = rr_status r"
    and live: "\<not> is_terminal (rr_status r)"
  shows "locks_ok (hm_insert (rr_run_id r) r recs) (hm_insert (lock_key_from (rr_scope r)) l locks)"
  unfolding locks_ok_def
proof (intro conjI allI impI)
  show "hm_wf (hm_insert (lock_key_from (rr_scope r)) l locks)" using locks by (simp add: locks_ok_def)
next
  fix key m assume "hm_get (hm_insert (lock_key_from (rr_scope r)) l locks) key = Some m"
  then show "al_key m = key" "\<exists>x. hm_get (hm_insert (rr_run_id r) r recs) (al_run_id m) = Some x
      \<and> lock_key_from (rr_scope x) = key \<and> rr_status x = al_status m \<and> \<not> is_terminal (rr_status x)"
    using locks l live k by (auto simp: locks_ok_def split: if_splits) fastforce
next
  fix j x assume "hm_get (hm_insert (rr_run_id r) r recs) j = Some x" "\<not> is_terminal (rr_status x)"
  then show "\<exists>m. hm_get (hm_insert (lock_key_from (rr_scope r)) l locks) (lock_key_from (rr_scope x)) = Some m
      \<and> al_run_id m = j"
    using locks l free by (auto simp: locks_ok_def split: if_splits) fastforce
qed

lemma queue_new:
  assumes "queue_ok recs q" "hm_get recs (rr_run_id r) = None" "rr_status r = Queued"
  shows "queue_ok (hm_insert (rr_run_id r) r recs) (push_back q (rr_run_id r))"
  using assms by (auto simp: queue_ok_def)

lemma admission_new:
  assumes "admission_ok recs adm" "hm_get recs (rr_run_id r) = None"
  shows "admission_ok (hm_insert (rr_run_id r) r recs) (hm_insert (rr_run_id r) (reservation_of r) adm)"
  using assms by (auto simp: admission_ok_def)

lemma tree_new:
  assumes "tree_ok recs tree" "hm_get recs (rr_run_id r) = None"
  shows "tree_ok (hm_insert (rr_run_id r) r recs) tree"
  using assms by (fastforce simp: tree_ok_def)

lemma terminal_new:
  assumes "terminal_ok recs tree ts" "hm_get recs (rr_run_id r) = None" "\<not> is_terminal (rr_status r)"
  shows "terminal_ok (hm_insert (rr_run_id r) r recs) tree ts"
  using assms by (auto simp: terminal_ok_def record_is_terminal_def split: if_splits)

lemma terminal_tree_mono:
  assumes "terminal_ok recs tree ts" "dom (hm_get tree) \<subseteq> dom (hm_get tree')"
  shows "terminal_ok recs tree' ts"
  using assms unfolding terminal_ok_def by blast

lemma accept_run_inv:
  assumes inv: "store_inv s" and a: "acceptable a s"
    and tree: "tree_ok (in_records s) tree'" "dom (hm_get (in_tree_reservations s)) \<subseteq> dom (hm_get tree')"
    and s1: "s1 = s\<lparr>in_tree_reservations := tree', in_admission_reservations := hm_insert (ar_run_id a)
        \<lparr>rsv_run_id = ar_run_id a, rsv_admission_class = tp_admission_class (ar_profile a),
         rsv_buckets = admission_buckets (ar_scope a) (ar_actor a) (tp_admission_class (ar_profile a)),
         rsv_released = False\<rparr> (in_admission_reservations s)\<rparr>"
  shows "store_inv (snd (accept_run env a s1))"
proof -
  let ?c = "saturating_add (in_cursor s) 1"
  let ?r = "queued_record env a ?c" and ?k = "ar_run_id a"
  let ?l = "\<lparr>al_key = lock_key_from (ar_scope a), al_run_id = ?k, al_status = Queued, al_lock_version = 1,
    al_acquired_at = ar_received_at a, al_updated_at = ar_received_at a\<rparr>"
  let ?push = "log_push (max_events (in_limits s)) (in_event_retention_floor s) (in_events s)
    (event_of_record env ?r EvSubmitted None)"
  note parts = inv [unfolded store_inv_def]
  have fresh: "hm_get (in_records s) (rr_run_id ?r) = None" using a by (simp add: acceptable_def)
  have lin: "lineage_shape ?r" using a by (auto simp: acceptable_def lineage_shape_def queued_record_def)
  have rsv: "reservation_of ?r = \<lparr>rsv_run_id = ?k, rsv_admission_class = tp_admission_class (ar_profile a),
     rsv_buckets = admission_buckets (ar_scope a) (ar_actor a) (tp_admission_class (ar_profile a)),
     rsv_released = False\<rparr>"
    by (simp add: reservation_of_def)
  have "records_ok (hm_insert ?k ?r (in_records s))"
    using records_new [of "in_records s" ?r] parts lin by simp
  moreover have "locks_ok (hm_insert ?k ?r (in_records s)) (hm_insert (lock_key_from (ar_scope a)) ?l (in_active_locks s))"
    using locks_new [of "in_records s" "in_active_locks s" ?r ?l] parts fresh a by (simp add: acceptable_def)
  moreover have "queue_ok (hm_insert ?k ?r (in_records s)) (push_back (in_queued_runs s) ?k)"
    using queue_new [of "in_records s" _ ?r] parts fresh by simp
  moreover have "admission_ok (hm_insert ?k ?r (in_records s)) (in_admission_reservations s1)"
    using admission_new [of "in_records s" _ ?r] parts fresh rsv by (simp add: s1)
  moreover have "tree_ok (hm_insert ?k ?r (in_records s)) tree'"
    using tree_new [OF tree(1) fresh] by simp
  moreover have "terminal_ok (hm_insert ?k ?r (in_records s)) tree' (in_terminal_runs s)"
    using terminal_new [OF terminal_tree_mono [OF _ tree(2)] fresh] parts by simp
  moreover have "event_log_ok ?c (fst ?push) (snd ?push) (max_events (in_limits s))"
    using event_log_push parts by (simp add: event_of_record_def)
  moreover have "cursors_ok ?c (hm_insert ?k ?r (in_records s))"
    using parts saturating_add_ge [of "in_cursor s" 1]
    by (auto simp: cursors_ok_def intro: order_trans)
  ultimately show ?thesis
    by (simp add: store_inv_def accept_run_def frame_simps Let_def s1)
qed

section \<open>Submitting\<close>

lemma leave_in_flight_inv [simp]: "store_inv (leave_in_flight key s) = store_inv s"
  by (simp add: leave_in_flight_def)

lemma finish_submit_inv [simp]: "store_inv (snd (finish_submit key result t s)) = store_inv s"
  by (simp add: finish_submit_def)

lemma submit_begin_inv [simp]: "store_inv (snd (submit_begin key s)) = store_inv s"
  by (simp add: submit_begin_def split: option.splits)

lemma submit_reject_lineage_inv [simp]: "store_inv (snd (submit_reject_lineage q s)) = store_inv s"
  by (simp add: submit_reject_lineage_def Let_def split: option.splits)

lemma submit_admission_phase_inv [simp]:
  "store_inv (snd (submit_admission_phase key t adm s)) = store_inv s"
  by (simp add: submit_admission_phase_def finish_submit_def split: option.splits sum.splits)

text \<open>A thread that is not busy has no lock: a lock is never stale.\<close>

lemma thread_not_busy:
  assumes "store_inv s" "store_thread_busy key s = None"
  shows "hm_get (in_active_locks s) key = None"
proof (rule ccontr)
  assume "hm_get (in_active_locks s) key \<noteq> None"
  then obtain l where l: "hm_get (in_active_locks s) key = Some l" by auto
  then obtain r where "hm_get (in_records s) (al_run_id l) = Some r" "\<not> is_terminal (rr_status r)"
    using assms(1) unfolding store_inv_def locks_ok_def by blast
  with l assms(2) show False by (simp add: store_thread_busy_def keeps_active_lock_def)
qed

lemma reserve_admission_cases:
  obtains (rejected) rej where "reserve_admission limit_for k cls scope actor s = (Err rej, s)"
  | (reserved) "reserve_admission limit_for k cls scope actor s = (Ok (), s\<lparr>in_admission_reservations :=
      hm_insert k \<lparr>rsv_run_id = k, rsv_admission_class = cls, rsv_buckets = admission_buckets scope actor cls,
        rsv_released = False\<rparr> (in_admission_reservations s)\<rparr>)"
    "check_buckets limit_for (\<lambda>b. active_admission_count b s) (admission_buckets scope actor cls) = Ok ()"
  by (cases "check_buckets limit_for (\<lambda>b. active_admission_count b s) (admission_buckets scope actor cls)")
    (auto simp: reserve_admission_def Let_def)

lemma submit_commit_inv:
  assumes inv: "store_inv s"
  shows "store_inv (snd (submit_commit env limit_for q res s))"
proof (cases "hm_get (in_submit_idempotency s) (submit_key q)")
  case (Some result)
  then show ?thesis using inv by (simp add: submit_commit_def Let_def)
next
  case none: None
  show ?thesis
  proof (cases res)
    case (Inl e)
    then show ?thesis using inv none by (simp add: submit_commit_def Let_def)
  next
    case (Inr resolved)
    show ?thesis
    proof (cases "store_thread_busy (lock_key_from (sub_scope q)) s")
      case (Some busy)
      then show ?thesis using inv none Inr by (simp add: submit_commit_def Let_def)
    next
      case None
      let ?k = "case sub_requested_run_id q of Some i \<Rightarrow> i | None \<Rightarrow> env_run_id env"
      let ?cls = "tp_admission_class (from_resolved resolved)"
      show ?thesis
      proof (cases "hm_contains_key ?k (in_records s)")
        case True
        then show ?thesis using inv none Inr None by (simp add: submit_commit_def Let_def)
      next
        case False
        show ?thesis
        proof (cases rule: reserve_admission_cases [of limit_for ?k ?cls "sub_scope q" "sub_actor q" s])
          case (rejected rej)
          then show ?thesis using inv none Inr None False by (simp add: submit_commit_def Let_def)
        next
          case reserved
          let ?a = "\<lparr>ar_scope = sub_scope q, ar_actor = sub_actor q,
            ar_accepted_message_ref = sub_accepted_message_ref q,
            ar_source_binding_ref = sub_source_binding_ref q,
            ar_reply_target_binding_ref = sub_reply_target_binding_ref q,
            ar_received_at = sub_received_at q, ar_profile = from_resolved resolved, ar_run_id = ?k,
            ar_parent_run_id = None, ar_subagent_depth = 0, ar_spawn_tree_root_run_id = None\<rparr>"
          have "acceptable ?a s"
            using False thread_not_busy [OF inv None] by (simp add: acceptable_def hm_contains_key_def)
          from accept_run_inv [OF inv this, of "in_tree_reservations s" _ env] inv
          have "store_inv (snd (accept_run env ?a (s\<lparr>in_admission_reservations :=
              hm_insert ?k \<lparr>rsv_run_id = ?k, rsv_admission_class = ?cls,
                rsv_buckets = admission_buckets (sub_scope q) (sub_actor q) ?cls, rsv_released = False\<rparr>
                (in_admission_reservations s)\<rparr>)))"
            by (simp add: store_inv_def)
          then show ?thesis
            using none Inr None False reserved(1) by (simp add: submit_commit_def Let_def split_beta)
        qed
      qed
    qed
  qed
qed

lemma submit_turn_inv:
  assumes "store_inv s"
  shows "store_inv (snd (submit_turn env limit_for policy resolver q s))"
proof -
  obtain b s1 where b: "submit_begin (submit_key q) s = (b, s1)" by (metis surj_pair)
  have s1: "store_inv s1" using assms submit_begin_inv [of "submit_key q" s] b by simp
  obtain p s2 where p: "submit_admission_phase (submit_key q) (sub_received_at q) (policy q) s1 = (p, s2)"
    by (metis surj_pair)
  have s2: "store_inv s2"
    using s1 submit_admission_phase_inv [of "submit_key q" "sub_received_at q" "policy q" s1] p by simp
  show ?thesis
    using s1 s2 submit_commit_inv [OF s2] submit_reject_lineage_inv [of q s1]
    by (auto simp: submit_turn_def b p Let_def split_beta split: submit_begin_outcome.splits option.splits)
qed

section \<open>Child runs\<close>

lemma check_parent_Ok:
  assumes "store_inv s" "check_parent q s = Ok parent"
  shows "hm_get (in_records s) (chd_parent_run_id q) = Some parent" "rr_run_id parent = chd_parent_run_id q"
    "rr_scope parent = chd_parent_scope q" "same_scope_envelope (rr_scope parent) (chd_child_scope q)"
    "rr_subagent_depth parent \<noteq> - 1"
  using assms store_inv_run_id [OF assms(1)]
  by (auto simp: check_parent_def visible_parent_def split: option.splits if_splits)

lemma check_root_Ok:
  assumes "store_inv s" "check_root q parent s = Ok k"
  obtains root where "hm_get (in_records s) k = Some root" "rr_run_id root = k" "root_of root = k"
    "same_scope_envelope (rr_scope root) (chd_child_scope q)" "k = root_of parent"
  using assms store_inv_run_id [OF assms(1)]
  by (auto simp: check_root_def split: option.splits if_splits)

lemma spawn_tree_key_envelope:
  "same_scope_envelope a b \<Longrightarrow> spawn_tree_key a k = spawn_tree_key b k"
  by (simp add: same_scope_envelope_def spawn_tree_key_def)

lemma spawn_tree_key_root [simp]: "stk_root_run_id (spawn_tree_key scope k) = k"
  by (simp add: spawn_tree_key_def)

lemma tree_ok_insert:
  assumes "tree_ok recs tree" "hm_get recs k = Some root" "same_scope_envelope (rr_scope root) scope" "0 < n"
  shows "tree_ok recs (hm_insert (spawn_tree_key scope k) n tree)"
  using assms spawn_tree_key_envelope [OF assms(3)]
  by (auto simp: tree_ok_def split: if_splits)

lemma next_tree_count_Some:
  assumes "next_tree_count previous cap = Some n"
  shows "n = previous + 1" "0 < n" "n \<le> ucast cap" "unat n = unat previous + 1"
proof -
  have ca: "checked_add previous 1 = Some n" "n \<le> ucast cap"
    using assms by (auto simp: next_tree_count_def split: option.splits if_splits)
  show "n = previous + 1" "n \<le> ucast cap" using ca by (auto simp: checked_add_Some)
  show u: "unat n = unat previous + 1" using checked_add_unat [OF ca(1)] by simp
  show "0 < n" using u by (metis Suc_eq_plus1 nat.distinct(1) unat_0 word_neq_0_conv)
qed

lemma restore_tree_count_inv:
  assumes inv: "store_inv s"
  shows "store_inv (restore_tree_count key (tree_count key s) (set_tree_count key n s))"
proof (cases "hm_get (in_tree_reservations s) key")
  case None
  have get: "hm_get (hm_remove key (hm_insert key n (in_tree_reservations s))) = hm_get (in_tree_reservations s)"
    using None by (auto simp: fun_eq_iff)
  show ?thesis
    using inv None
    by (simp add: restore_tree_count_def set_tree_count_def tree_count_def store_inv_def tree_ok_def
        terminal_ok_def get)
next
  case (Some m)
  have m: "m \<noteq> 0" using inv Some by (auto simp: store_inv_def tree_ok_def)
  have get: "hm_get (hm_insert key m (hm_insert key n (in_tree_reservations s))) = hm_get (in_tree_reservations s)"
    using Some by (auto simp: fun_eq_iff)
  show ?thesis
    using inv Some m
    by (simp add: restore_tree_count_def set_tree_count_def tree_count_def store_inv_def tree_ok_def
        terminal_ok_def get)
qed

lemma submit_child_template_inv [simp]:
  "store_inv (snd (submit_child_template q s)) = store_inv s"
  by (simp add: submit_child_template_def finish_submit_def Let_def split: option.splits sum.splits)

lemma child_reserve_inv:
  assumes inv: "store_inv s"
    and parent: "check_parent q s = Ok parent" and root: "check_root q parent s = Ok root_run_id"
    and busy: "store_thread_busy (lock_key_from (chd_child_scope q)) s = None"
    and k: "\<not> hm_contains_key k (in_records s)"
    and n: "next_tree_count (tree_count (spawn_tree_key (chd_child_scope q) root_run_id) s) cap = Some n"
    and a: "ar_scope a = chd_child_scope q" "ar_run_id a = k"
      "ar_parent_run_id a = Some (rr_run_id parent)" "ar_subagent_depth a = rr_subagent_depth parent + 1"
      "ar_spawn_tree_root_run_id a = Some root_run_id"
    and s1: "s1 = (set_tree_count (spawn_tree_key (chd_child_scope q) root_run_id) n s)\<lparr>in_admission_reservations :=
        hm_insert k \<lparr>rsv_run_id = k, rsv_admission_class = tp_admission_class (ar_profile a),
          rsv_buckets = admission_buckets (ar_scope a) (ar_actor a) (tp_admission_class (ar_profile a)),
          rsv_released = False\<rparr> (in_admission_reservations s)\<rparr>"
  shows "store_inv (snd (accept_run env a s1))"
proof -
  let ?tree = "hm_insert (spawn_tree_key (chd_child_scope q) root_run_id) n (in_tree_reservations s)"
  obtain rr where rr: "hm_get (in_records s) root_run_id = Some rr"
      "same_scope_envelope (rr_scope rr) (chd_child_scope q)"
    by (rule check_root_Ok [OF inv root])
  have depth: "rr_subagent_depth parent + 1 \<noteq> 0"
    using check_parent_Ok(5) [OF inv parent] by (simp add: add_eq_0_iff2)
  have "tree_ok (in_records s) ?tree"
    using tree_ok_insert [OF _ rr next_tree_count_Some(2) [OF n]] inv by (simp add: store_inv_def)
  moreover have "dom (hm_get (in_tree_reservations s)) \<subseteq> dom (hm_get ?tree)" by auto
  moreover have "acceptable a s"
    using thread_not_busy [OF inv busy] k a depth by (simp add: acceptable_def hm_contains_key_def)
  ultimately show ?thesis
    using accept_run_inv [OF inv, of a ?tree s1 env] a(2) by (simp add: s1 set_tree_count_def)
qed

lemma submit_child_commit_inv:
  assumes inv: "store_inv s"
  shows "store_inv (snd (submit_child_commit env limit_for q res s))"
proof -
  let ?k = "case chd_requested_run_id q of Some i \<Rightarrow> i | None \<Rightarrow> env_run_id env"
  let ?scope = "chd_child_scope q" and ?cap = "chd_spawn_tree_descendant_cap q"
  consider (early) "hm_get (in_submit_idempotency s) (child_key q) \<noteq> None"
    | (early') "(\<exists>e. res = Err e)" | (early'') "\<exists>e. check_parent q s = Err e"
    | (root_err) parent e where "check_parent q s = Ok parent" "check_root q parent s = Err e"
    | (busy) parent root busy where "check_parent q s = Ok parent" "check_root q parent s = Ok root"
        "store_thread_busy (lock_key_from ?scope) s = Some busy"
    | (bound) parent root where "check_parent q s = Ok parent" "check_root q parent s = Ok root"
        "store_thread_busy (lock_key_from ?scope) s = None" "hm_contains_key ?k (in_records s)"
    | (full) parent root where "check_parent q s = Ok parent" "check_root q parent s = Ok root"
        "store_thread_busy (lock_key_from ?scope) s = None" "\<not> hm_contains_key ?k (in_records s)"
        "next_tree_count (tree_count (spawn_tree_key ?scope root) s) ?cap = None"
    | (go) resolved parent root n where "hm_get (in_submit_idempotency s) (child_key q) = None"
        "res = Ok resolved" "check_parent q s = Ok parent" "check_root q parent s = Ok root"
        "store_thread_busy (lock_key_from ?scope) s = None" "\<not> hm_contains_key ?k (in_records s)"
        "next_tree_count (tree_count (spawn_tree_key ?scope root) s) ?cap = Some n"
    by (metis option.exhaust sum.exhaust)
  then show ?thesis
  proof cases
    case (go resolved parent root n)
    let ?s1 = "set_tree_count (spawn_tree_key ?scope root) n s"
    let ?cls = "tp_admission_class (from_resolved resolved)"
    show ?thesis
    proof (cases rule: reserve_admission_cases [of limit_for ?k ?cls ?scope "chd_actor q" ?s1])
      case (rejected rej)
      then show ?thesis
        using go restore_tree_count_inv [OF inv] by (simp add: submit_child_commit_def Let_def)
    next
      case reserved
      have adm: "in_admission_reservations ?s1 = in_admission_reservations s" by (simp add: set_tree_count_def)
      let ?a = "\<lparr>ar_scope = ?scope, ar_actor = chd_actor q,
        ar_accepted_message_ref = chd_accepted_message_ref q,
        ar_source_binding_ref = chd_source_binding_ref q,
        ar_reply_target_binding_ref = chd_reply_target_binding_ref q,
        ar_received_at = chd_received_at q, ar_profile = from_resolved resolved, ar_run_id = ?k,
        ar_parent_run_id = Some (rr_run_id parent), ar_subagent_depth = rr_subagent_depth parent + 1,
        ar_spawn_tree_root_run_id = Some root\<rparr>"
      have "store_inv (snd (accept_run env ?a (snd (reserve_admission limit_for ?k ?cls ?scope (chd_actor q) ?s1))))"
        by (rule child_reserve_inv [OF inv go(3-7), of ?a]) (simp_all add: reserved(1) adm)
      then show ?thesis
        using go reserved(1) by (simp add: submit_child_commit_def Let_def split_beta)
    qed
  qed (use inv in \<open>auto simp: submit_child_commit_def Let_def split: option.splits sum.splits\<close>)
qed

lemma submit_child_turn_inv:
  assumes "store_inv s"
  shows "store_inv (snd (submit_child_turn env limit_for policy resolver q s))"
proof -
  obtain b s1 where b: "submit_begin (child_key q) s = (b, s1)" by (metis surj_pair)
  have s1: "store_inv s1" using assms submit_begin_inv [of "child_key q" s] b by simp
  obtain t s2 where t: "submit_child_template q s1 = (t, s2)" by (metis surj_pair)
  have s2: "store_inv s2" using s1 submit_child_template_inv [of q s1] t by simp
  show ?thesis
  proof (cases "b = Entered \<and> (\<exists>template. t = Inr template)")
    case True
    then obtain template where t': "t = Inr template" by blast
    obtain p s3 where p: "submit_admission_phase (child_key q) (chd_received_at q) (policy template) s2 = (p, s3)"
      by (metis surj_pair)
    have "store_inv s3"
      using s2 submit_admission_phase_inv [of "child_key q" "chd_received_at q" "policy template" s2] p by simp
    then show ?thesis
      using True t' submit_child_commit_inv
      by (auto simp: submit_child_turn_def b t p Let_def split_beta split: option.splits)
  next
    case False
    then show ?thesis
      using s1 s2 by (auto simp: submit_child_turn_def b t split: submit_begin_outcome.splits sum.splits)
  qed
qed

section \<open>Spawn-tree reservations\<close>

lemma canonical_root_Ok:
  assumes "store_inv s" "canonical_root scope k s = Ok root"
  obtains r where "root = k" "hm_get (in_records s) k = Some r" "rr_run_id r = k" "root_of r = k"
    "same_scope_envelope (rr_scope r) scope"
  using assms store_inv_run_id [OF assms(1)]
  by (auto simp: canonical_root_def split: option.splits if_splits)

lemma store_inv_tree_insert:
  assumes inv: "store_inv s" and r: "hm_get (in_records s) k = Some r"
    "same_scope_envelope (rr_scope r) scope" and n: "0 < n"
  shows "store_inv (set_tree_count (spawn_tree_key scope k) n s)"
proof -
  let ?tree = "hm_insert (spawn_tree_key scope k) n (in_tree_reservations s)"
  have "tree_ok (in_records s) ?tree"
    using tree_ok_insert [OF _ r n] inv by (simp add: store_inv_def)
  moreover have "terminal_ok (in_records s) ?tree (in_terminal_runs s)"
    by (rule terminal_tree_mono [of _ "in_tree_reservations s"]) (use inv in \<open>auto simp: store_inv_def\<close>)
  ultimately show ?thesis using inv by (simp add: store_inv_def set_tree_count_def)
qed

lemma reserve_count_pos:
  assumes "checked_add n (ucast (delta::u32)) = Some (m::u64)" "delta \<noteq> 0"
  shows "0 < m"
proof -
  have "unat delta > 0" using assms(2) by (simp add: unat_gt_0)
  then have "unat m > 0" using checked_add_unat [OF assms(1)] by simp
  then show ?thesis by (simp add: word_gt_0 unat_gt_0)
qed

lemma reserve_tree_descendants_inv:
  assumes inv: "store_inv s"
  shows "store_inv (snd (reserve_tree_descendants scope k delta cap s))"
proof (cases "canonical_root scope k s")
  case (Inl e)
  then show ?thesis using inv by (simp add: reserve_tree_descendants_def)
next
  case (Inr root)
  obtain r where r: "root = k" "hm_get (in_records s) k = Some r" "same_scope_envelope (rr_scope r) scope"
    by (rule canonical_root_Ok [OF inv Inr])
  show ?thesis
    using Inr r inv store_inv_tree_insert [OF inv r(2,3)] reserve_count_pos
    by (auto simp: reserve_tree_descendants_def Let_def split: option.splits)
qed

lemma tree_key_of_root:
  assumes "tree_ok recs tree" "hm_get recs k = Some r" "hm_get tree key = Some n" "stk_root_run_id key = k"
  shows "key = spawn_tree_key (rr_scope r) k"
  using assms unfolding tree_ok_def by (metis option.inject)

lemma retire_root_inv:
  assumes inv: "store_inv s" and r: "hm_get (in_records s) k = Some r"
  shows "store_inv (retire_root k (s\<lparr>in_tree_reservations :=
    hm_remove (spawn_tree_key (rr_scope r) k) (in_tree_reservations s)\<rparr>))"
proof -
  let ?tree = "hm_remove (spawn_tree_key (rr_scope r) k) (in_tree_reservations s)"
  let ?s1 = "s\<lparr>in_tree_reservations := ?tree\<rparr>"
  note parts = inv [unfolded store_inv_def]
  have listed: "\<forall>j \<in> set (in_terminal_runs s). record_is_terminal (in_records s) j"
    using parts by (simp add: terminal_ok_def)
  have tree: "tree_ok (in_records s) ?tree" using parts by (auto simp: tree_ok_def split: if_splits)
  have none: "stk_root_run_id key \<noteq> k" if "hm_get ?tree key = Some n" for key n
    using tree_key_of_root [of "in_records s" "in_tree_reservations s" k r key n] parts r that
    by (auto split: if_splits)
  have others: "j \<in> set (in_terminal_runs s) \<or> (\<exists>key n. hm_get ?tree key = Some n \<and> stk_root_run_id key = j)"
    if "record_is_terminal (in_records s) j" "j \<noteq> k" for j
  proof -
    have "j \<in> set (in_terminal_runs s) \<or>
        (\<exists>key n. hm_get (in_tree_reservations s) key = Some n \<and> stk_root_run_id key = j)"
      using parts that(1) unfolding terminal_ok_def by blast
    then show ?thesis
    proof
      assume "\<exists>key n. hm_get (in_tree_reservations s) key = Some n \<and> stk_root_run_id key = j"
      then obtain key n where key: "hm_get (in_tree_reservations s) key = Some n" "stk_root_run_id key = j"
        by blast
      then have "hm_get ?tree key = Some n" using that(2) by auto
      with key show ?thesis by blast
    qed simp
  qed
  have ts: "store_inv (?s1\<lparr>in_terminal_runs := ts\<rparr>)"
    if "distinct ts" "set ts = insert k (set (in_terminal_runs s))" "record_is_terminal (in_records s) k" for ts
  proof -
    have "terminal_ok (in_records s) ?tree ts"
      unfolding terminal_ok_def
    proof (intro conjI allI impI)
      show "distinct ts" by (rule that(1))
      show "\<forall>j \<in> set ts. record_is_terminal (in_records s) j" using that(2,3) listed by simp
      show "j \<in> set ts \<or> (\<exists>key n. hm_get ?tree key = Some n \<and> stk_root_run_id key = j)"
        if "record_is_terminal (in_records s) j" for j
        using others [OF that] \<open>set ts = _\<close> by (cases "j = k") auto
    qed
    then show ?thesis using parts tree by (simp add: store_inv_def)
  qed
  show ?thesis
  proof (cases "record_is_terminal (in_records s) k \<and> k \<notin> set (in_terminal_runs s)")
    case True
    have d: "distinct (in_terminal_runs s)" using parts by (simp add: terminal_ok_def)
    have "prune_inv ?s1 (in_records s) (in_admission_reservations s) (k # in_terminal_runs s)"
      using ts [of "k # in_terminal_runs s"] d True by (simp add: prune_inv_def)
    moreover have "stk_root_run_id v \<noteq> k" if "v \<in> set (hm_keys ?tree)" for v
      using none that unfolding hm_keys_iff by blast
    then have "\<not> list_ex (\<lambda>v. stk_root_run_id v = k) (hm_keys (in_tree_reservations ?s1))"
      by (auto simp: list_ex_iff)
    ultimately have "prune_inv ?s1 (hm_remove k (in_records s)) (hm_remove k (in_admission_reservations s))
        (in_terminal_runs s)"
      using prune_inv_drop True by blast
    moreover have "store_inv (prune_terminal_records (?s1\<lparr>in_terminal_runs := push_back (in_terminal_runs s) k\<rparr>))"
      by (rule store_inv_prune, rule ts) (use d True in auto)
    ultimately show ?thesis
      using True by (simp add: retire_root_def prune_inv_def)
  next
    case False
    have "terminal_ok (in_records s) ?tree (in_terminal_runs s)"
      unfolding terminal_ok_def
    proof (intro conjI allI impI)
      show "distinct (in_terminal_runs s)" using parts by (simp add: terminal_ok_def)
      show "\<forall>j \<in> set (in_terminal_runs s). record_is_terminal (in_records s) j" by (rule listed)
      show "j \<in> set (in_terminal_runs s) \<or> (\<exists>key n. hm_get ?tree key = Some n \<and> stk_root_run_id key = j)"
        if "record_is_terminal (in_records s) j" for j
        using others [OF that] that False by (cases "j = k") auto
    qed
    then have "store_inv ?s1" using parts tree by (simp add: store_inv_def)
    then show ?thesis using False by (auto simp: retire_root_def)
  qed
qed

lemma release_tree_descendants_inv:
  assumes inv: "store_inv s"
  shows "store_inv (snd (release_tree_descendants scope k delta s))"
proof (cases "canonical_root scope k s")
  case (Inl e)
  then show ?thesis using inv by (simp add: release_tree_descendants_def)
next
  case (Inr root)
  obtain r where r: "root = k" "hm_get (in_records s) k = Some r" "same_scope_envelope (rr_scope r) scope"
    by (rule canonical_root_Ok [OF inv Inr])
  show ?thesis
    using Inr r inv retire_root_inv [OF inv r(2)] spawn_tree_key_envelope [OF r(3)]
      store_inv_tree_insert [OF inv r(2,3)]
    by (auto simp: release_tree_descendants_def Let_def word_gt_0 split: option.splits)
qed

end
