(* ===== verification/Turn_Evolution.thy ===== *)
theory Turn_Evolution
  imports Turn_Submit_Safety
begin

text \<open>
  How runs evolve. The abstract specification of a run is an automaton on its
  status; every operation of the store moves each run by at most one edge of it,
  never changes what identifies the run, and creates runs only as queued.
\<close>

section \<open>The abstract run automaton\<close>

inductive status_edge :: "turn_status \<Rightarrow> turn_status \<Rightarrow> bool" where
  claim: "status_edge Queued Running"
| cancel_queued: "status_edge Queued Cancelled"
| block: "st \<in> {BlockedApproval, BlockedAuth, BlockedResource, BlockedDependentRun} \<Longrightarrow> status_edge Running st"
| complete: "status_edge Running Completed"
| fail: "status_edge Running Failed"
| relinquish: "status_edge Running Queued"
| request_cancel: "status_edge Running CancelRequested"
| cancel: "status_edge CancelRequested Cancelled"
| resume: "st \<in> {BlockedApproval, BlockedAuth, BlockedResource, BlockedDependentRun} \<Longrightarrow> status_edge st Queued"
| cancel_blocked: "st \<in> {BlockedApproval, BlockedAuth, BlockedResource, BlockedDependentRun} \<Longrightarrow> status_edge st Cancelled"

inductive_simps status_edge_iff: "status_edge a b"

definition status_step :: "turn_status \<Rightarrow> turn_status \<Rightarrow> bool" where
  "status_step a b \<longleftrightarrow> a = b \<or> status_edge a b"

lemma status_step_refl [simp]: "status_step a a"
  by (simp add: status_step_def)

lemma status_edge_from_terminal: "is_terminal a \<Longrightarrow> \<not> status_edge a b"
  by (cases a) (auto simp: status_edge_iff)

lemma status_step_terminal: "is_terminal a \<Longrightarrow> status_step a b \<Longrightarrow> b = a"
  using status_edge_from_terminal by (auto simp: status_step_def)

lemma status_edge_block [simp]: "status_step Running (reason_status r)"
  by (cases r) (auto simp: status_step_def status_edge_iff reason_status_def)

section \<open>One operation, one edge\<close>

definition evolves :: "inner \<Rightarrow> inner \<Rightarrow> bool" where
  "evolves s s' \<longleftrightarrow> (\<forall>k r'. hm_get (in_records s') k = Some r' \<longrightarrow>
    (\<exists>r. hm_get (in_records s) k = Some r \<and> same_run r r' \<and> status_step (rr_status r) (rr_status r')))"

definition evolves_or_new :: "inner \<Rightarrow> inner \<Rightarrow> bool" where
  "evolves_or_new s s' \<longleftrightarrow> (\<forall>k r'. hm_get (in_records s') k = Some r' \<longrightarrow>
    (\<exists>r. hm_get (in_records s) k = Some r \<and> same_run r r' \<and> status_step (rr_status r) (rr_status r'))
    \<or> hm_get (in_records s) k = None \<and> rr_status r' = Queued)"

lemma same_run_refl [simp]: "same_run r r"
  by (simp add: same_run_def)

lemma evolves_same: "hm_get (in_records s') = hm_get (in_records s) \<Longrightarrow> evolves s s'"
  by (simp add: evolves_def)

lemma evolves_refl [simp]: "evolves s s"
  by (rule evolves_same) simp

lemma evolves_put:
  assumes "hm_get (in_records s) k = Some r" "same_run r r'" "status_step (rr_status r) (rr_status r')"
    and "in_records s' = hm_insert k r' (hm_remove k (in_records s))"
  shows "evolves s s'"
  using assms by (auto simp: evolves_def split: if_splits)

lemma evolves_new: "evolves s s' \<Longrightarrow> evolves_or_new s s'"
  by (auto simp: evolves_def evolves_or_new_def)

lemma prune_loop_records:
  "prune_terminal_loop cap roots ts recs adm = (ts', recs', adm') \<Longrightarrow>
    hm_get recs' k = Some r \<Longrightarrow> hm_get recs k = Some r"
  by (induction cap roots ts recs adm rule: prune_terminal_loop.induct) (auto split: if_splits)

lemma prune_records: "hm_get (in_records (prune_terminal_records s)) k = Some r \<Longrightarrow> hm_get (in_records s) k = Some r"
  by (auto simp: prune_terminal_records_def split: prod.splits dest: prune_loop_records)

lemma prune_loop_keeps:
  "prune_terminal_loop cap roots ts recs adm = (ts', recs', adm') \<Longrightarrow> hm_get recs k = Some r \<Longrightarrow>
    \<not> is_terminal (rr_status r) \<Longrightarrow> hm_get recs' k = Some r"
proof (induction cap roots ts recs adm rule: prune_terminal_loop.induct)
  case (2 cap roots j ks recs adm)
  then show ?case by (cases "j = k") (auto simp: record_is_terminal_def split: if_splits)
qed simp

lemma prune_keeps:
  "hm_get (in_records s) k = Some r \<Longrightarrow> \<not> is_terminal (rr_status r) \<Longrightarrow>
    hm_get (in_records (prune_terminal_records s)) k = Some r"
  by (auto simp: prune_terminal_records_def split: prod.splits dest: prune_loop_keeps)

lemma evolves_prune: "evolves s s' \<Longrightarrow> evolves s (prune_terminal_records s')"
  by (meson evolves_def prune_records)

lemma evolves_reinsert:
  assumes "hm_get (in_records s) k = Some r" "rr_run_id r = k"
  shows "evolves s (insert_record r (s\<lparr>in_records := hm_remove k (in_records s)\<rparr>))"
  using reinsert_equiv [OF assms] by (intro evolves_same) (simp add: store_equiv_def)

lemma terminalize_evolves:
  assumes "terminalize env st f kind d r (s\<lparr>in_records := hm_remove k (in_records s)\<rparr>) = (r', s')"
    and "hm_get (in_records s) k = Some r" "rr_run_id r = k" "status_step (rr_status r) st"
  shows "evolves s (insert_record r' s')"
  using assms
  by (intro evolves_put [of s k r r']) (auto simp: terminalize_eq insert_record_def Let_def)

lemma block_record_evolves:
  assumes "block_record env cid sref reason r (s\<lparr>in_records := hm_remove k (in_records s)\<rparr>) = (r', s')"
    and "hm_get (in_records s) k = Some r" "rr_run_id r = k" "rr_status r = Running"
  shows "evolves s (insert_record r' s')"
  using assms
  by (intro evolves_put [of s k r r']) (auto simp: block_record_eq insert_record_def Let_def)

lemmas step_simps = status_step_def status_edge_iff

lemma heartbeat_evolves:
  assumes "store_inv s"
  shows "evolves s (snd (heartbeat env q s))"
  using assms
proof (cases rule: take_record_cases [where k = "lr_run_id q"])
  case (found r)
  show ?thesis
    using found evolves_reinsert [OF found(1,2)]
    by (auto simp: heartbeat_def Let_def frame_simps split: sum.splits
        intro!: evolves_put [OF found(1), where r' = "r\<lparr>rr_last_heartbeat_at := a, rr_lease_expires_at := b, rr_event_cursor := c\<rparr>" for a b c])
      (simp_all add: same_run_def)
qed (simp add: heartbeat_def)

lemma route_evolves:
  assumes "store_inv s"
  shows "evolves s (snd (record_model_route_snapshot env q s))"
  using assms
proof (cases rule: take_record_cases [where k = "lr_run_id q"])
  case (found r)
  have "evolves s (insert_record (r\<lparr>rr_resolved_model_route := x\<rparr>)
      (touch_active_lock (r\<lparr>rr_resolved_model_route := x\<rparr>) t (s\<lparr>in_records := hm_remove (lr_run_id q) (in_records s)\<rparr>)))" for x t
    by (rule evolves_put [OF found(1), of "r\<lparr>rr_resolved_model_route := x\<rparr>"])
      (use found in \<open>auto simp: same_run_def frame_simps\<close>)
  then show ?thesis
    using found evolves_reinsert [OF found(1,2)]
    by (auto simp: record_model_route_snapshot_def Let_def split: sum.splits option.splits)
qed (simp add: record_model_route_snapshot_def)

lemma block_run_evolves:
  assumes "store_inv s"
  shows "evolves s (snd (block_run env q s))"
  using assms
proof (cases rule: take_record_cases [where k = "lr_run_id q"])
  case (found r)
  then show ?thesis
    using evolves_reinsert [OF found(1,2)]
    by (auto simp: block_run_def Let_def split: sum.splits prod.splits dest!: block_record_evolves [OF _ found(1,2)])
qed (simp add: block_run_def)

lemma cancel_completion_evolves:
  assumes "store_inv s"
  shows "evolves s (snd (cancel_completion_transition env q s))"
  using assms
proof (cases rule: take_record_cases [where k = "lr_run_id q"])
  case (found r)
  then show ?thesis
    using evolves_reinsert [OF found(1,2)]
    by (auto simp: cancel_completion_transition_def Let_def step_simps split: sum.splits prod.splits
        intro!: evolves_prune dest!: terminalize_evolves [OF _ found(1,2)])
qed (simp add: cancel_completion_transition_def)

lemma terminal_transition_evolves:
  assumes "store_inv s" "st = Completed \<or> st = Failed"
  shows "evolves s (snd (terminal_transition env k runner token st f kind s))"
  using assms(1)
proof (cases rule: take_record_cases [where k = k])
  case (found r)
  have "evolves s (insert_record r' s')"
    if "terminalize env st f kind f r (s\<lparr>in_records := hm_remove k (in_records s)\<rparr>) = (r', s')"
      "ensure_active_lease r runner token now = Ok u" "rr_status r \<noteq> CancelRequested" for r' s' now u
    using terminalize_evolves [OF that(1) found(1,2)] lease_status [OF assms(1) found(1) that(2)] that(3) assms(2)
    by (auto simp: step_simps)
  then show ?thesis
    using found(3-5) evolves_reinsert [OF found(1,2)]
    by (auto simp: terminal_transition_def Let_def split: sum.splits prod.splits intro!: evolves_prune)
qed (simp add: terminal_transition_def)

definition commit_evolves :: "inner \<Rightarrow> applied_loop_transition \<times> inner \<Rightarrow> bool" where
  "commit_evolves s ts \<longleftrightarrow> (case ts of
     (Applied r st prune, s') \<Rightarrow> evolves s (insert_record r s')
   | (Rejected r e, s') \<Rightarrow> evolves s (insert_record r s'))"

lemma commit_transition_evolves:
  "commit_evolves s (t, s') \<Longrightarrow> evolves s (snd (commit_transition t s'))"
  by (auto simp: commit_evolves_def commit_transition_def Let_def intro!: evolves_prune
      split: applied_loop_transition.splits)

lemma claimed_record_evolves:
  assumes r: "hm_get (in_records s) k = Some r" "rr_run_id r = k"
    and s0: "s0 = s\<lparr>in_records := hm_remove k (in_records s)\<rparr>"
  shows "commit_evolves s (Rejected r e, s0)"
    and "commit_evolves s (complete_claimed_record env r s0)"
    and "commit_evolves s (cancel_claimed_record env r s0)"
    and "commit_evolves s (fail_claimed_record env f r s0)"
    and "commit_evolves s (block_claimed_record env cid sref reason r s0)"
  unfolding s0 using evolves_reinsert [OF r]
  by (auto simp: commit_evolves_def complete_claimed_record_def cancel_claimed_record_def
      fail_claimed_record_def block_claimed_record_def step_simps split: prod.splits
      dest!: terminalize_evolves [OF _ r] block_record_evolves [OF _ r])

lemma cancel_or_fail_evolves:
  assumes "hm_get (in_records s) k = Some r" "rr_run_id r = k"
  shows "commit_evolves s (cancel_or_fail_claimed_record env f r (s\<lparr>in_records := hm_remove k (in_records s)\<rparr>))"
  using claimed_record_evolves [OF assms refl]
  by (simp add: cancel_or_fail_claimed_record_def split: turn_status.split)

lemma apply_exit_evolves:
  assumes "store_inv s"
  shows "evolves s (snd (apply_validated_loop_exit_transition env q s))"
  using assms
proof (cases rule: take_record_cases [where k = "lr_run_id q"])
  case (found r)
  then show ?thesis
    using claimed_record_evolves [OF found(1,2) refl] cancel_or_fail_evolves [OF found(1,2)]
    by (auto simp: apply_validated_loop_exit_transition_def Let_def
        split: sum.splits prod.splits loop_exit_mapping.splits turn_runner_outcome.splits)
      (metis commit_transition_evolves)+
qed (simp add: apply_validated_loop_exit_transition_def)

lemma runner_failure_evolves:
  assumes "store_inv s"
  shows "evolves s (snd (runner_failure_transition env q s))"
  using assms
proof (cases rule: take_record_cases [where k = "lr_run_id q"])
  case (found r)
  then show ?thesis
    using claimed_record_evolves(1) [OF found(1,2) refl] cancel_or_fail_evolves [OF found(1,2)]
    by (auto simp: runner_failure_transition_def Let_def split: sum.splits prod.splits)
      (metis commit_transition_evolves)+
qed (simp add: runner_failure_transition_def)

lemma claim_evolves:
  assumes "store_inv s"
  shows "evolves s (snd (claim_next_run env q s))"
  using assms
proof (cases rule: claim_next_run_cases [where env = env and q = q])
  case (claimed k r us vs)
  show ?thesis
    by (rule evolves_put [OF claimed(3), of "claimed_record env q s r"])
      (use claimed store_inv_run_id [OF assms claimed(3)] in \<open>auto simp: frame_simps step_simps\<close>)
qed simp

lemma relinquish_evolves:
  assumes "store_inv s"
  shows "evolves s (snd (relinquish_transition env q s))"
  using assms
proof (cases rule: take_record_cases [where k = "lr_run_id q"])
  case (found r)
  have run: "evolves s (snd (relinquish_transition env q s))"
    if "ensure_active_lease r (lr_runner_id q) (lr_lease_token q) (env_now env) = Ok u" "rr_status r = Running" for u
    by (rule evolves_put [OF found(1), of "requeued_record (saturating_add (in_cursor s) 1) r"])
      (use that found in \<open>auto simp: relinquish_transition_def frame_simps requeued_record_def same_run_def step_simps Let_def\<close>)
  show ?thesis
    using run found evolves_reinsert [OF found(1,2)]
    by (cases "ensure_active_lease r (lr_runner_id q) (lr_lease_token q) (env_now env)"; cases "rr_status r")
      (auto simp: relinquish_transition_def Let_def step_simps split: prod.splits
        intro!: evolves_prune dest!: terminalize_evolves [OF _ found(1,2)])
qed (simp add: relinquish_transition_def)

section \<open>Recovery, run by run\<close>

text \<open>The recovery loop treats each run it lists exactly once and leaves the others alone.\<close>

definition recovered_record :: "event_cursor \<Rightarrow> run_record \<Rightarrow> run_record" where
  "recovered_record c r =
    (let out = expired_lease_terminal_outcome (rr_status r) in terminal_record (lx_status out) (lx_failure out) c r)"

lemma recover_step:
  assumes "hm_get (in_records s) k = Some r" "rr_run_id r = k"
  obtains s' c where "recover_loop env (k # ks) s =
      (let (recovered, s'') = recover_loop env ks s' in (run_state (recovered_record c r) # recovered, s''))"
    "in_records s' = put_record (recovered_record c r) (in_records s)"
proof -
  let ?out = "expired_lease_terminal_outcome (rr_status r)"
  obtain r' s1 where t: "terminalize env (lx_status ?out) (lx_failure ?out) (lx_event_kind ?out) (lx_event_detail ?out) r
      (s\<lparr>in_records := hm_remove k (in_records s)\<rparr>) = (r', s1)" by (metis surj_pair)
  then have r': "r' = recovered_record (saturating_add (in_cursor s) 1) r" "in_records s1 = hm_remove k (in_records s)"
    by (auto simp: terminalize_eq Let_def recovered_record_def)
  show thesis
    by (rule that [of "s1\<lparr>in_records := hm_insert k r' (in_records s1)\<rparr>" "saturating_add (in_cursor s) 1"])
      (use assms t r' in \<open>simp_all add: Let_def put_record_def recovered_record_def\<close>)
qed

lemma recovered_record_run_id [simp]: "rr_run_id (recovered_record c r) = rr_run_id r"
  by (simp add: recovered_record_def Let_def)

lemma recover_loop_runs:
  assumes "distinct ks" "\<forall>k \<in> set ks. \<exists>r. hm_get (in_records s) k = Some r \<and> rr_run_id r = k"
  shows "(\<forall>k. k \<notin> set ks \<longrightarrow> hm_get (in_records (snd (recover_loop env ks s))) k = hm_get (in_records s) k)
    \<and> (\<forall>k r. k \<in> set ks \<longrightarrow> hm_get (in_records s) k = Some r \<longrightarrow>
        (\<exists>c. hm_get (in_records (snd (recover_loop env ks s))) k = Some (recovered_record c r)))
    \<and> map rst_run_id (fst (recover_loop env ks s)) = ks"
  using assms
proof (induction ks arbitrary: s)
  case (Cons j ks)
  obtain rj where rj: "hm_get (in_records s) j = Some rj" "rr_run_id rj = j" using Cons.prems by auto
  obtain s' c where step: "recover_loop env (j # ks) s =
      (let (recovered, s'') = recover_loop env ks s' in (run_state (recovered_record c rj) # recovered, s''))"
    and recs: "in_records s' = put_record (recovered_record c rj) (in_records s)"
    using recover_step [OF rj] by metis
  have rest: "distinct ks" "\<forall>k \<in> set ks. \<exists>r. hm_get (in_records s') k = Some r \<and> rr_run_id r = k"
    using Cons.prems rj by (auto simp: recs)
  note IH = Cons.IH [OF rest]
  have out: "snd (recover_loop env (j # ks) s) = snd (recover_loop env ks s')"
    "fst (recover_loop env (j # ks) s) = run_state (recovered_record c rj) # fst (recover_loop env ks s')"
    unfolding step by (simp_all add: split_beta Let_def)
  have get: "hm_get (in_records s') k = (if k = j then Some (recovered_record c rj) else hm_get (in_records s) k)" for k
    by (simp add: recs rj)
  show ?case
    unfolding out using IH Cons.prems(1) rj by (auto simp: get run_state_def split: if_splits)
qed simp

definition expired_runs :: "recover_expired_leases_request \<Rightarrow> inner \<Rightarrow> turn_run_id list" where
  "expired_runs q s = map fst (filter (\<lambda>(k, r). lease_expired_filter q r) (in_records s))"

lemma recover_expired_leases_eq:
  "recover_expired_leases env q s =
    (let rs = recover_loop env (expired_runs q s) s in (fst rs, prune_terminal_records (snd rs)))"
  by (simp add: recover_expired_leases_def expired_runs_def Let_def split_beta)

lemma expired_runs:
  assumes "store_inv s"
  shows "distinct (expired_runs q s)"
    and "k \<in> set (expired_runs q s) \<longleftrightarrow> (\<exists>r. hm_get (in_records s) k = Some r \<and> lease_expired_filter q r)"
    and "\<forall>k \<in> set (expired_runs q s). \<exists>r. hm_get (in_records s) k = Some r \<and> rr_run_id r = k"
proof -
  have wf: "hm_wf (in_records s)" using assms by (simp add: store_inv_def records_ok_def)
  then show "distinct (expired_runs q s)"
    by (simp add: expired_runs_def hm_wf_def hm_keys_def distinct_map_filter)
  show mem: "k \<in> set (expired_runs q s) \<longleftrightarrow> (\<exists>r. hm_get (in_records s) k = Some r \<and> lease_expired_filter q r)" for k
    using hm_entries_iff [OF wf] by (auto simp: expired_runs_def image_iff)
  then show "\<forall>k \<in> set (expired_runs q s). \<exists>r. hm_get (in_records s) k = Some r \<and> rr_run_id r = k"
    using store_inv_run_id [OF assms] by blast
qed

lemma recovered_edge:
  assumes "lease_expired_filter q r"
  shows "same_run r (recovered_record c r)" "status_step (rr_status r) (rr_status (recovered_record c r))"
    "is_terminal (rr_status (recovered_record c r))"
  using assms by (auto simp: recovered_record_def lease_expired_filter_def expired_lease_terminal_outcome_def step_simps Let_def)

lemma recover_evolves:
  assumes "store_inv s"
  shows "evolves s (snd (recover_expired_leases env q s))"
proof -
  note runs = recover_loop_runs [OF expired_runs(1,3) [OF assms], of q env]
  have "evolves s (snd (recover_loop env (expired_runs q s) s))"
    unfolding evolves_def
  proof (intro allI impI)
    fix k r' assume r': "hm_get (in_records (snd (recover_loop env (expired_runs q s) s))) k = Some r'"
    show "\<exists>r. hm_get (in_records s) k = Some r \<and> same_run r r' \<and> status_step (rr_status r) (rr_status r')"
    proof (cases "k \<in> set (expired_runs q s)")
      case True
      then obtain r where "hm_get (in_records s) k = Some r" "lease_expired_filter q r"
        using expired_runs(2) [OF assms] by blast
      with runs r' True recovered_edge show ?thesis by (metis option.inject)
    next
      case False
      with runs r' show ?thesis by auto
    qed
  qed
  then show ?thesis by (simp add: recover_expired_leases_eq Let_def evolves_prune)
qed

section \<open>Requests and submissions\<close>

lemma resume_once_evolves:
  assumes "store_inv s"
  shows "evolves s (snd (resume_turn_once env q s))"
  using assms
proof (cases rule: take_record_cases [where k = "res_run_id q"])
  case (found r)
  show ?thesis
  proof (cases "resume_allowed q r")
    case True
    then have st: "status_step (rr_status r) Queued"
      using resumable_blocked [of "res_precondition q" "rr_status r"] by (auto simp: resume_allowed_def step_simps)
    show ?thesis
      by (rule evolves_put [OF found(1), of "resumed_record q (saturating_add (in_cursor s) 1) r"])
        (use True found st in \<open>auto simp: resume_turn_once_def resume_allowed_def frame_simps resumed_record_def same_run_def Let_def\<close>)
  next
    case False
    then show ?thesis
      using found evolves_reinsert [OF found(1,2)] by (auto simp: resume_turn_once_def resume_allowed_def Let_def)
  qed
qed (simp add: resume_turn_once_def)

lemma cancel_once_evolves:
  assumes "store_inv s"
  shows "evolves s (snd (request_cancel_once env q s))"
  using assms
proof (cases rule: take_record_cases [where k = "cr_run_id q"])
  case (found r)
  let ?ok = "rr_scope r = cr_scope q \<and> rr_actor r = cr_actor q \<and> \<not> is_terminal (rr_status r)"
  let ?c = "saturating_add (in_cursor s) 1"
  have go: "evolves s (snd (request_cancel_once env q s))"
    if ok: ?ok and nx: "cancel_next (rr_status r) = Some (st, kind)" for st kind
  proof -
    have st: "status_step (rr_status r) st"
      using nx by (cases "rr_status r") (auto simp: cancel_next_def step_simps)
    define s1 where "s1 = (if is_terminal st
      then insert_record (cancelled_record st ?c r) (mark_terminal (rr_run_id r) (push_event env (cancelled_record st ?c r) kind
        (Some (cancel_category (cr_reason q))) ((remove_queued_run (rr_run_id r) (release_active_lock (cancelled_record st ?c r)
        (s\<lparr>in_records := hm_remove (cr_run_id q) (in_records s)\<rparr>)))\<lparr>in_cursor := ?c\<rparr>)))
      else insert_record (cancelled_record st ?c r) (push_event env (cancelled_record st ?c r) kind
        (Some (cancel_category (cr_reason q))) ((update_active_lock (cancelled_record st ?c r) (env_now env)
        (s\<lparr>in_records := hm_remove (cr_run_id q) (in_records s)\<rparr>))\<lparr>in_cursor := ?c\<rparr>)))"
    have "snd (request_cancel_once env q s) = prune_terminal_records s1"
      using ok nx found by (simp add: request_cancel_once_def s1_def frame_simps cancelled_record_def Let_def)
    moreover have "evolves s s1"
      by (rule evolves_put [OF found(1), of "cancelled_record st ?c r"])
        (use found st in \<open>auto simp: s1_def frame_simps cancelled_record_def same_run_def\<close>)
    ultimately show ?thesis by (simp add: evolves_prune)
  qed
  show ?thesis
  proof (cases ?ok)
    case True
    then show ?thesis using go cancel_next_cases [of "rr_status r"] by metis
  next
    case False
    then show ?thesis
      using found evolves_reinsert [OF found(1,2)]
      by (auto simp: request_cancel_once_def Let_def intro!: evolves_prune)
  qed
qed (simp add: request_cancel_once_def)

lemma remember_records [simp]:
  "in_records (remember_submit_idempotency k1 result1 t1 s) = in_records s"
  "in_records (remember_resume_idempotency k2 result2 t2 s) = in_records s"
  "in_records (remember_cancel_idempotency k3 result3 t3 s) = in_records s"
  by (simp_all add: remember_submit_frame remember_resume_frame remember_cancel_frame Let_def)

lemma evolves_remember [simp]:
  "evolves s (remember_resume_idempotency k2 result2 t2 s') = evolves s s'"
  "evolves s (remember_cancel_idempotency k3 result3 t3 s') = evolves s s'"
  by (simp_all add: evolves_def)

lemma resume_turn_evolves: "store_inv s \<Longrightarrow> evolves s (snd (resume_turn env q s))"
  using resume_once_evolves [of s env q] by (auto simp: resume_turn_def Let_def split: option.splits prod.splits)

lemma request_cancel_evolves: "store_inv s \<Longrightarrow> evolves s (snd (request_cancel env q s))"
  using cancel_once_evolves [of s env q] by (auto simp: request_cancel_def Let_def split: option.splits prod.splits)

lemma finish_submit_records [simp]: "in_records (snd (finish_submit key result t s)) = in_records s"
  by (simp add: finish_submit_def leave_in_flight_def)

lemma leave_in_flight_records [simp]: "in_records (leave_in_flight key s) = in_records s"
  by (simp add: leave_in_flight_def)

text \<open>What a submission may do to the runs: nothing, or add one queued run whose admission
  buckets all had room.\<close>

definition admits :: "turn_admission_limit_provider \<Rightarrow> inner \<Rightarrow> inner \<Rightarrow> bool" where
  "admits limit_for s s' \<longleftrightarrow> (\<exists>env a c.
     hm_get (in_records s) (ar_run_id a) = None
     \<and> in_records s' = hm_insert (ar_run_id a) (queued_record env a c) (in_records s)
     \<and> check_buckets limit_for (\<lambda>b. active_admission_count b s)
         (admission_buckets (ar_scope a) (ar_actor a) (tp_admission_class (ar_profile a))) = Ok ())"

lemma accept_run_records:
  "\<exists>c. in_records (snd (accept_run env a s)) = hm_insert (ar_run_id a) (queued_record env a c) (in_records s)"
  by (auto simp: accept_run_def Let_def frame_simps split: prod.splits)

lemma accept_admits:
  assumes "\<not> hm_contains_key (ar_run_id a) (in_records s)" "in_records s1 = in_records s"
    and "check_buckets limit_for (\<lambda>b. active_admission_count b s)
         (admission_buckets (ar_scope a) (ar_actor a) (tp_admission_class (ar_profile a))) = Ok ()"
  shows "admits limit_for s (snd (finish_submit key result t (snd (accept_run env a s1))))"
  using assms accept_run_records [of env a s1] unfolding admits_def hm_contains_key_def by auto

lemma submit_commit_admits:
  "in_records (snd (submit_commit env limit_for q res s)) = in_records s
    \<or> admits limit_for s (snd (submit_commit env limit_for q res s))"
proof -
  let ?k = "case sub_requested_run_id q of Some i \<Rightarrow> i | None \<Rightarrow> env_run_id env"
  have go: "?thesis" if "hm_get (in_submit_idempotency s) (submit_key q) = None" "res = Ok resolved"
      "store_thread_busy (lock_key_from (sub_scope q)) s = None" "\<not> hm_contains_key ?k (in_records s)" for resolved
    using that
    by (cases rule: reserve_admission_cases [of limit_for ?k "tp_admission_class (from_resolved resolved)" "sub_scope q" "sub_actor q" s])
      (auto simp: submit_commit_def Let_def split_beta intro!: accept_admits)
  show ?thesis
  proof (cases "hm_get (in_submit_idempotency s) (submit_key q) \<noteq> None \<or> (\<exists>e. res = Err e)
      \<or> store_thread_busy (lock_key_from (sub_scope q)) s \<noteq> None \<or> hm_contains_key ?k (in_records s)")
    case True
    then have "in_records (snd (submit_commit env limit_for q res s)) = in_records s"
      by (auto simp: submit_commit_def Let_def split: option.splits sum.splits)
    then show ?thesis ..
  next
    case False
    then obtain resolved where "res = Ok resolved" by (cases res) auto
    with False go show ?thesis by blast
  qed
qed

lemma tree_count_frame [simp]:
  "in_records (set_tree_count key n s) = in_records s"
  "in_admission_reservations (set_tree_count key n s) = in_admission_reservations s"
  "active_admission_count b (set_tree_count key n s) = active_admission_count b s"
  "in_records (restore_tree_count key n s) = in_records s"
  by (simp_all add: set_tree_count_def restore_tree_count_def active_admission_count_def)

lemma submit_child_commit_admits:
  "in_records (snd (submit_child_commit env limit_for q res s)) = in_records s
    \<or> admits limit_for s (snd (submit_child_commit env limit_for q res s))"
proof -
  let ?k = "case chd_requested_run_id q of Some i \<Rightarrow> i | None \<Rightarrow> env_run_id env"
  let ?scope = "chd_child_scope q" and ?cap = "chd_spawn_tree_descendant_cap q"
  have go: "?thesis" if go: "hm_get (in_submit_idempotency s) (child_key q) = None" "res = Ok resolved"
      "check_parent q s = Ok parent" "check_root q parent s = Ok root"
      "store_thread_busy (lock_key_from ?scope) s = None" "\<not> hm_contains_key ?k (in_records s)"
      "next_tree_count (tree_count (spawn_tree_key ?scope root) s) ?cap = Some n" for resolved parent root n
    using go
    by (cases rule: reserve_admission_cases [of limit_for ?k "tp_admission_class (from_resolved resolved)" ?scope
          "chd_actor q" "set_tree_count (spawn_tree_key ?scope root) n s"])
      (auto simp: submit_child_commit_def Let_def split_beta intro!: accept_admits)
  have stay: "in_records (snd (submit_child_commit env limit_for q res s)) = in_records s"
    if "hm_get (in_submit_idempotency s) (child_key q) \<noteq> None \<or> (\<exists>e. res = Err e) \<or> (\<exists>e. check_parent q s = Err e)
      \<or> (\<exists>parent. check_parent q s = Ok parent \<and> ((\<exists>e. check_root q parent s = Err e)
          \<or> store_thread_busy (lock_key_from ?scope) s \<noteq> None \<or> hm_contains_key ?k (in_records s)
          \<or> (\<exists>root. check_root q parent s = Ok root \<and>
               next_tree_count (tree_count (spawn_tree_key ?scope root) s) ?cap = None)))"
    using that by (auto simp: submit_child_commit_def Let_def split: option.splits sum.splits)
  show ?thesis
    using go stay by (metis option.exhaust sum.exhaust)
qed

lemma retire_root_records: "hm_get (in_records (retire_root root s)) k = Some r \<Longrightarrow> hm_get (in_records s) k = Some r"
  by (auto simp: retire_root_def dest: prune_records split: if_splits)

lemma tree_ops_evolve:
  "evolves s (snd (reserve_tree_descendants scope k delta cap s))"
  "evolves s (snd (release_tree_descendants scope k delta s))"
proof -
  show "evolves s (snd (reserve_tree_descendants scope k delta cap s))"
    by (auto simp: reserve_tree_descendants_def Let_def intro!: evolves_same split: sum.splits option.splits)
  have "evolves s (retire_root root (s\<lparr>in_tree_reservations := t\<rparr>))" for root t
    unfolding evolves_def by (auto dest!: retire_root_records)
  then show "evolves s (snd (release_tree_descendants scope k delta s))"
    by (auto simp: release_tree_descendants_def Let_def intro: evolves_same split: sum.splits option.splits)
qed

end
