(* ===== verification/Turn_Machine.thy ===== *)
theory Turn_Machine
  imports Turn_Evolution
begin

text \<open>
  The store as a state machine. Every lock region of every operation of
  \<^verbatim>\<open>InMemoryTurnStateStore\<close> is one atomic step of \<^verbatim>\<open>store_step\<close>, with arbitrary
  requests, clocks and fresh identifiers; \<^verbatim>\<open>submit_turn\<close> and \<^verbatim>\<open>submit_child_turn\<close>
  contribute one step per region, so that any interleaving of the regions of
  concurrent callers is a run of this machine. The properties of reachable states
  follow by rule induction from the per-operation lemmas.
\<close>

section \<open>Steps\<close>

inductive store_step :: "turn_admission_limit_provider \<Rightarrow> inner \<Rightarrow> inner \<Rightarrow> bool" for L where
  begin_submit: "store_step L s (snd (submit_begin key s))"
| reject_lineage: "store_step L s (snd (submit_reject_lineage sub s))"
| admission_phase: "store_step L s (snd (submit_admission_phase key t adm s))"
| commit_submit: "store_step L s (snd (submit_commit env L sub res s))"
| child_template: "store_step L s (snd (submit_child_template chd s))"
| commit_child: "store_step L s (snd (submit_child_commit env L chd res s))"
| drop_in_flight: "store_step L s (leave_in_flight key s)"
| resume: "store_step L s (snd (resume_turn env rq s))"
| cancel_request: "store_step L s (snd (request_cancel env cq s))"
| claim_run: "store_step L s (snd (claim_next_run env clm s))"
| beat: "store_step L s (snd (heartbeat env lq s))"
| route: "store_step L s (snd (record_model_route_snapshot env mq s))"
| block_claimed: "store_step L s (snd (block_run env bq s))"
| complete_claimed: "store_step L s (snd (complete_run env lq s))"
| cancel_claimed: "store_step L s (snd (cancel_run env lq s))"
| fail_claimed: "store_step L s (snd (fail_run env fq s))"
| runner_failure: "store_step L s (snd (runner_failure_transition env fq s))"
| relinquish_claimed: "store_step L s (snd (relinquish_transition env lq s))"
| loop_exit: "store_step L s (snd (apply_validated_loop_exit_transition env aq s))"
| recover: "store_step L s (snd (recover_expired_leases env rec s))"
| reserve_tree: "store_step L s (snd (reserve_tree_descendants scope k delta dcap s))"
| release_tree: "store_step L s (snd (release_tree_descendants scope k delta s))"
| put_checkpoint: "store_step L s (snd (put_loop_checkpoint env pq s))"

inductive reach :: "store_limits \<Rightarrow> turn_admission_limit_provider \<Rightarrow> inner \<Rightarrow> bool" for limits L where
  reach_init: "reach limits L (with_limits limits)"
| reach_step: "reach limits L s \<Longrightarrow> store_step L s s' \<Longrightarrow> reach limits L s'"

section \<open>The invariant\<close>

lemma store_step_inv:
  assumes "store_step L s s'" "store_inv s"
  shows "store_inv s'"
  using assms
proof (cases rule: store_step.cases)
  case (put_checkpoint env pq)
  then show ?thesis using assms by (simp add: put_loop_checkpoint_def Let_def)
qed (simp_all add: submit_commit_inv submit_child_commit_inv resume_turn_inv request_cancel_inv
    claim_next_run_inv heartbeat_inv record_model_route_snapshot_inv block_run_inv complete_run_def
    terminal_transition_inv cancel_run_def cancel_completion_transition_inv fail_run_def
    runner_failure_transition_inv relinquish_transition_inv apply_validated_loop_exit_transition_inv
    recover_expired_leases_inv reserve_tree_descendants_inv release_tree_descendants_inv)

lemma reach_inv: "reach limits L s \<Longrightarrow> store_inv s"
  by (induction rule: reach.induct) (auto intro: store_inv_init store_step_inv)

section \<open>Runs evolve along the automaton\<close>

lemma evolves_or_new_same: "in_records s' = in_records s \<Longrightarrow> evolves_or_new s s'"
  by (intro evolves_new evolves_same) simp

lemma admits_evolves: "admits L s s' \<Longrightarrow> evolves_or_new s s'"
  by (auto simp: admits_def evolves_or_new_def split: if_splits) (use same_run_refl in blast)

lemma unchanged_regions [simp]:
  "in_records (snd (submit_begin key s)) = in_records s"
  "in_records (snd (submit_reject_lineage sub s)) = in_records s"
  "in_records (snd (submit_admission_phase key t adm s)) = in_records s"
  "in_records (snd (submit_child_template chd s)) = in_records s"
  "in_records (snd (put_loop_checkpoint env pq s)) = in_records s"
  by (simp_all add: submit_begin_def submit_reject_lineage_def submit_admission_phase_def split_beta
      submit_child_template_def put_loop_checkpoint_def Let_def split: option.split sum.split)

text \<open>Every step leaves the set of runs alone, evolves them, or admits one.\<close>

lemma store_step_runs:
  assumes "store_step L s s'" "store_inv s"
  shows "evolves s s' \<or> admits L s s'"
  using assms
proof (cases rule: store_step.cases)
  case (commit_submit env sub res)
  then show ?thesis using submit_commit_admits [of env L sub res s] evolves_same [of s' s] by auto
next
  case (commit_child env chd res)
  then show ?thesis using submit_child_commit_admits [of env L chd res s] evolves_same [of s' s] by auto
qed (use assms(2) in \<open>auto simp: resume_turn_evolves request_cancel_evolves claim_evolves heartbeat_evolves
    route_evolves block_run_evolves complete_run_def fail_run_def cancel_run_def terminal_transition_evolves
    cancel_completion_evolves runner_failure_evolves relinquish_evolves apply_exit_evolves recover_evolves
    tree_ops_evolve intro!: disjI1 evolves_same\<close>)

lemma store_step_evolves: "store_step L s s' \<Longrightarrow> store_inv s \<Longrightarrow> evolves_or_new s s'"
  using store_step_runs evolves_new admits_evolves by blast

section \<open>Replay caches and limits\<close>

text \<open>The part of the state only the remembering operations touch.\<close>

definition side :: "inner \<Rightarrow> _" where
  "side s = (submit_cache s, resume_cache s, cancel_cache s, in_limits s)"

lemma side_update [simp]:
  "side (s\<lparr>in_cursor := a\<rparr>) = side s" "side (s\<lparr>in_turns := b\<rparr>) = side s"
  "side (s\<lparr>in_records := c\<rparr>) = side s" "side (s\<lparr>in_queued_runs := d\<rparr>) = side s"
  "side (s\<lparr>in_terminal_runs := e\<rparr>) = side s" "side (s\<lparr>in_active_locks := f\<rparr>) = side s"
  "side (s\<lparr>in_checkpoints := g\<rparr>) = side s" "side (s\<lparr>in_loop_checkpoints := h\<rparr>) = side s"
  "side (s\<lparr>in_submit_in_flight := i\<rparr>) = side s" "side (s\<lparr>in_events := j\<rparr>) = side s"
  "side (s\<lparr>in_event_retention_floor := k\<rparr>) = side s"
  "side (s\<lparr>in_admission_reservations := l\<rparr>) = side s" "side (s\<lparr>in_tree_reservations := m\<rparr>) = side s"
  by (simp_all add: side_def cache_defs)

lemma side_helpers [simp]:
  "side (insert_record r s) = side s" "side (push_event env r kind d s) = side s"
  "side (update_active_lock r t s) = side s" "side (touch_active_lock r t s) = side s"
  "side (release_active_lock r s) = side s" "side (mark_terminal k s) = side s"
  "side (push_queued_run k s) = side s" "side (remove_queued_run k s) = side s"
  "side (prune_terminal_records s) = side s" "side (record_checkpoint r cid sref g t s) = side s"
  "side (leave_in_flight key s) = side s" "side (set_tree_count tk n s) = side s"
  "side (restore_tree_count tk n s) = side s" "side (snd (next_cursor s)) = side s"
  by (simp_all add: frame_simps record_checkpoint_def leave_in_flight_def prune_terminal_records_def
      set_tree_count_def restore_tree_count_def Let_def split_beta)

lemma side_record_ops:
  "terminalize env st f kind d r s = (r', s') \<Longrightarrow> side s' = side s"
  "block_record env cid sref reason r s = (r', s') \<Longrightarrow> side s' = side s"
  "take_record k s = Ok (r, s') \<Longrightarrow> side s' = side s"
  by (auto simp: terminalize_eq block_record_eq take_record_def Let_def split: option.splits)

lemma side_commit [simp]: "side (snd (commit_transition t s)) = side s"
  by (simp add: commit_transition_def Let_def split: applied_loop_transition.split)

lemma side_claimed_ops:
  "complete_claimed_record env r s = (t, s') \<Longrightarrow> side s' = side s"
  "cancel_claimed_record env r s = (t, s') \<Longrightarrow> side s' = side s"
  "fail_claimed_record env f r s = (t, s') \<Longrightarrow> side s' = side s"
  "block_claimed_record env cid sref reason r s = (t, s') \<Longrightarrow> side s' = side s"
  by (auto simp: complete_claimed_record_def cancel_claimed_record_def fail_claimed_record_def
      block_claimed_record_def split: if_splits prod.splits dest: side_record_ops)

lemma side_cancel_or_fail: "cancel_or_fail_claimed_record env f r s = (t, s') \<Longrightarrow> side s' = side s"
  by (auto simp: cancel_or_fail_claimed_record_def split: turn_status.splits dest: side_claimed_ops)

lemma side_runner_ops [simp]:
  "side (snd (heartbeat env lq s)) = side s"
  "side (snd (record_model_route_snapshot env mq s)) = side s"
  "side (snd (block_run env bq s)) = side s"
  "side (snd (cancel_completion_transition env lq s)) = side s"
  "side (snd (terminal_transition env k runner token st f kind s)) = side s"
  "side (snd (runner_failure_transition env fq s)) = side s"
  "side (snd (apply_validated_loop_exit_transition env aq s)) = side s"
  "side (snd (relinquish_transition env lq s)) = side s"
  "side (snd (resume_turn_once env rq s)) = side s"
  "side (snd (request_cancel_once env cq s)) = side s"
  subgoal by (auto simp: heartbeat_def next_cursor_def Let_def split: sum.splits dest!: side_record_ops)
  subgoal by (auto simp: record_model_route_snapshot_def Let_def split: sum.splits option.splits dest!: side_record_ops)
  subgoal by (auto simp: block_run_def Let_def split: sum.splits prod.splits dest!: side_record_ops)
  subgoal by (auto simp: cancel_completion_transition_def Let_def split: sum.splits prod.splits dest!: side_record_ops)
  subgoal by (auto simp: terminal_transition_def Let_def split: sum.splits prod.splits dest!: side_record_ops)
  subgoal by (auto simp: runner_failure_transition_def Let_def split: sum.splits prod.splits
        dest!: side_record_ops side_cancel_or_fail)
  subgoal by (auto simp: apply_validated_loop_exit_transition_def Let_def split: sum.splits prod.splits
        loop_exit_mapping.splits turn_runner_outcome.splits dest!: side_record_ops side_cancel_or_fail side_claimed_ops)
  subgoal by (auto simp: relinquish_transition_def next_cursor_def Let_def split: sum.splits prod.splits turn_status.splits
        dest!: side_record_ops)
  subgoal by (auto simp: resume_turn_once_def next_cursor_def Let_def split: sum.splits dest!: side_record_ops)
  subgoal by (auto simp: request_cancel_once_def next_cursor_def Let_def split: sum.splits option.splits dest!: side_record_ops)
  done

lemma side_claim [simp]: "side (snd (claim_next_run env clm s)) = side s"
  by (auto simp: claim_next_run_def pop_matching_queued_run_def next_cursor_def Let_def split_beta
      split: option.splits sum.splits dest!: side_record_ops)

lemma side_recover_loop: "side (snd (recover_loop env ks s)) = side s"
proof (induction ks arbitrary: s)
  case (Cons k ks)
  then show ?case by (auto simp: Let_def split: option.splits prod.splits dest!: side_record_ops) (metis side_update(3) snd_conv)
qed simp

lemma side_tree [simp]:
  "side (snd (reserve_tree_descendants scope k delta dcap s)) = side s"
  "side (snd (release_tree_descendants scope k delta s)) = side s"
  "side (snd (put_loop_checkpoint env pq s)) = side s"
  "side (snd (recover_expired_leases env rec s)) = side s"
  by (auto simp: reserve_tree_descendants_def release_tree_descendants_def retire_root_def put_loop_checkpoint_def
      recover_expired_leases_eq side_recover_loop Let_def split: sum.splits option.splits)

lemma side_accept [simp]: "side (snd (accept_run env a s)) = side s"
  by (simp add: accept_run_def next_cursor_def Let_def)

lemma side_reserve [simp]: "side (snd (reserve_admission L k cls scope actor s)) = side s"
  by (simp add: reserve_admission_def Let_def split: sum.split)

lemma idem_inv_side: "side s' = side s \<Longrightarrow> idem_inv s' = idem_inv s"
  by (simp add: side_def idem_inv_def)

lemma limits_side: "side s' = side s \<Longrightarrow> in_limits s' = in_limits s"
  by (simp add: side_def)

text \<open>A submission region keeps the caches or remembers one result, which is never the answer
  that the thread is busy.\<close>

definition busy_result :: "submit_turn_response turn_result \<Rightarrow> bool" where
  "busy_result r \<longleftrightarrow> (\<exists>b. r = Err (ThreadBusy b))"

definition remembers :: "inner \<Rightarrow> inner \<Rightarrow> bool" where
  "remembers s s' \<longleftrightarrow> side s' = side s
    \<or> (\<exists>k v t s0. side s0 = side s \<and> side s' = side (remember_submit_idempotency k v t s0) \<and> \<not> busy_result v)"

lemma remembers_same: "side s' = side s \<Longrightarrow> remembers s s'"
  by (simp add: remembers_def)

lemma remembers_finish: "side s0 = side s \<Longrightarrow> \<not> busy_result v \<Longrightarrow> remembers s (snd (finish_submit key v t s0))"
  by (auto simp: remembers_def finish_submit_def)

lemma not_busy [simp]:
  "\<not> busy_result (Ok resp)" "\<not> busy_result (Err (AdmissionRejected rej))" "\<not> busy_result (Err (InvalidRequest m))"
  "\<not> busy_result (Err (Conflict m))" "\<not> busy_result (Err (CapacityExceeded res n))"
  "\<not> busy_result (Err (profile_resolution_error_to_turn_error pe))"
  by (simp_all add: busy_result_def profile_resolution_error_to_turn_error_def)

lemma not_busy_check:
  "check_parent q s = Err e \<Longrightarrow> \<not> busy_result (Err e)" "check_root q parent s = Err e \<Longrightarrow> \<not> busy_result (Err e)"
  by (auto simp: check_parent_def check_root_def busy_result_def invalid_lineage_def split: option.splits if_splits)

lemma submit_begin_side [simp]: "side (snd (submit_begin key s)) = side s"
  by (simp add: submit_begin_def split: option.split)

lemma submit_regions_remember:
  "remembers s (snd (submit_reject_lineage sub s))"
  "remembers s (snd (submit_admission_phase key t adm s))"
  "remembers s (snd (submit_child_template chd s))"
  by (auto simp: submit_reject_lineage_def submit_admission_phase_def submit_child_template_def Let_def split_beta
      remembers_same remembers_finish dest!: not_busy_check split: option.splits sum.splits)

lemma submit_commit_remembers: "remembers s (snd (submit_commit env L sub res s))"
  by (simp add: submit_commit_def Let_def split_beta remembers_same remembers_finish
      split: option.split sum.split)

lemma submit_child_commit_remembers: "remembers s (snd (submit_child_commit env L chd res s))"
  by (auto simp: submit_child_commit_def Let_def split_beta remembers_same remembers_finish
      dest!: not_busy_check split: option.splits sum.splits)

definition retryable :: "inner \<Rightarrow> bool" where
  "retryable s \<longleftrightarrow> idem_inv s \<and> (\<forall>k v. hm_get (fst (submit_cache s)) k = Some v \<longrightarrow> \<not> busy_result v)"

lemma retryable_side: "side s' = side s \<Longrightarrow> retryable s' = retryable s"
  by (simp add: retryable_def side_def idem_inv_def)

lemma remembers_inv:
  assumes "remembers s s'" "retryable s"
  shows "retryable s'" "in_limits s' = in_limits s"
proof -
  have "retryable (remember_submit_idempotency k v t s0)" if "retryable s0" "\<not> busy_result v" for k v t s0
    using that idem_inv_remember(1) [of s0] cache_remember_only [of "submit_cache s0"]
    by (fastforce simp: retryable_def remember_caches idem_inv_def)
  then show "retryable s'"
    using assms retryable_side unfolding remembers_def by metis
  from assms(1) show "in_limits s' = in_limits s"
    unfolding remembers_def by (metis limits_side remember_limits(1))
qed

lemma replaying_ops:
  assumes "retryable s"
  shows "retryable (snd (resume_turn env rq s))" "in_limits (snd (resume_turn env rq s)) = in_limits s"
    "retryable (snd (request_cancel env cq s))" "in_limits (snd (request_cancel env cq s)) = in_limits s"
proof -
  have "retryable (remember_resume_idempotency k v t s0)" "retryable (remember_cancel_idempotency k' v' t s0)"
    if "retryable s0" for k v t k' v' s0
    using that idem_inv_remember(2,3) [of s0] by (simp_all add: retryable_def remember_caches)
  then show "retryable (snd (resume_turn env rq s))" "in_limits (snd (resume_turn env rq s)) = in_limits s"
    "retryable (snd (request_cancel env cq s))" "in_limits (snd (request_cancel env cq s)) = in_limits s"
    using assms retryable_side [OF side_runner_ops(9), of env rq s] retryable_side [OF side_runner_ops(10), of env cq s]
      limits_side [OF side_runner_ops(9), of env rq s] limits_side [OF side_runner_ops(10), of env cq s]
    by (auto simp: resume_turn_def request_cancel_def Let_def split_beta split: option.split)
qed

lemma store_step_side:
  assumes "store_step L s s'" "retryable s"
  shows "retryable s' \<and> in_limits s' = in_limits s"
proof -
  have keep: "side x = side s \<Longrightarrow> retryable x \<and> in_limits x = in_limits s" for x
    using assms(2) retryable_side limits_side by metis
  have rem: "remembers s x \<Longrightarrow> retryable x \<and> in_limits x = in_limits s" for x
    using assms(2) remembers_inv by blast
  from assms(1) show ?thesis
    by (cases rule: store_step.cases; hypsubst)
      (((rule rem, rule submit_regions_remember submit_commit_remembers submit_child_commit_remembers)
        | (rule conjI; rule replaying_ops [OF assms(2)])
        | (rule keep, simp add: complete_run_def fail_run_def cancel_run_def))+)
qed

lemma reach_retryable: "reach limits L s \<Longrightarrow> retryable s \<and> in_limits s = limits"
proof (induction rule: reach.induct)
  case reach_init
  then show ?case using idem_inv_init [of limits] by (simp add: retryable_def with_limits_def submit_cache_def)
qed (use store_step_side in blast)

lemma reach_side: "reach limits L s \<Longrightarrow> idem_inv s \<and> in_limits s = limits"
  using reach_retryable by (auto simp: retryable_def)

section \<open>Retention of terminal runs\<close>

lemma kept_helpers [simp]:
  "terminal_bound (insert_record r s) = terminal_bound s" "terminal_bound (push_event env r kind d s) = terminal_bound s"
  "terminal_bound (update_active_lock r t s) = terminal_bound s" "terminal_bound (touch_active_lock r t s) = terminal_bound s"
  "terminal_bound (push_queued_run k s) = terminal_bound s" "terminal_bound (leave_in_flight key s) = terminal_bound s"
  "terminal_bound (set_tree_count tk n s) = terminal_bound s" "terminal_bound (restore_tree_count tk n s) = terminal_bound s"
  "terminal_bound (s\<lparr>in_records := c\<rparr>) = terminal_bound s" "terminal_bound (s\<lparr>in_cursor := a\<rparr>) = terminal_bound s"
  "terminal_bound (s\<lparr>in_queued_runs := d'\<rparr>) = terminal_bound s" "terminal_bound (s\<lparr>in_turns := b\<rparr>) = terminal_bound s"
  "terminal_bound (s\<lparr>in_active_locks := e\<rparr>) = terminal_bound s"
  "terminal_bound (s\<lparr>in_tree_reservations := f\<rparr>) = terminal_bound s"
  "terminal_bound (s\<lparr>in_admission_reservations := g\<rparr>) = terminal_bound s"
  "terminal_bound (s\<lparr>in_submit_in_flight := h\<rparr>) = terminal_bound s"
  "terminal_bound (s\<lparr>in_loop_checkpoints := i\<rparr>) = terminal_bound s"
  by (simp_all add: terminal_bound_def frame_simps leave_in_flight_def set_tree_count_def restore_tree_count_def)

lemma kept_remember [simp]:
  "terminal_bound (remember_submit_idempotency k1 v1 t1 s) = terminal_bound s"
  "terminal_bound (remember_resume_idempotency k2 v2 t2 s) = terminal_bound s"
  "terminal_bound (remember_cancel_idempotency k3 v3 t3 s) = terminal_bound s"
  "terminal_bound (snd (finish_submit key v t s)) = terminal_bound s"
  by (simp_all add: terminal_bound_def remember_submit_frame remember_resume_frame remember_cancel_frame
      finish_submit_def leave_in_flight_def Let_def)

lemma bound_record_ops:
  "take_record k s = Ok (r, s') \<Longrightarrow> terminal_bound s' = terminal_bound s"
  "block_record env cid sref reason r s = (r', s') \<Longrightarrow> terminal_bound s' = terminal_bound s"
  by (auto simp: block_record_eq take_record_def terminal_bound_def Let_def split: option.splits)

lemma bound_commit: "terminal_bound s \<or> (\<exists>r st. t = Applied r st True) \<Longrightarrow> terminal_bound (snd (commit_transition t s))"
  by (auto simp: commit_transition_def Let_def split: applied_loop_transition.split)

lemma bound_claimed_ops:
  assumes "terminal_bound s"
  shows "complete_claimed_record env r s = (t, s') \<Longrightarrow> terminal_bound (snd (commit_transition t s'))"
    "cancel_or_fail_claimed_record env f r s = (t, s') \<Longrightarrow> terminal_bound (snd (commit_transition t s'))"
    "fail_claimed_record env f r s = (t, s') \<Longrightarrow> terminal_bound (snd (commit_transition t s'))"
    "block_claimed_record env cid sref reason r s = (t, s') \<Longrightarrow> terminal_bound (snd (commit_transition t s'))"
  using assms
  by (auto simp: complete_claimed_record_def cancel_or_fail_claimed_record_def cancel_claimed_record_def
      fail_claimed_record_def block_claimed_record_def intro!: bound_commit
      split: if_splits prod.splits turn_status.splits dest: bound_record_ops)

lemma bound_runner_ops:
  assumes "terminal_bound s"
  shows "terminal_bound (snd (heartbeat env lq s))"
  "terminal_bound (snd (record_model_route_snapshot env mq s))"
  "terminal_bound (snd (block_run env bq s))"
  "terminal_bound (snd (cancel_completion_transition env lq s))"
  "terminal_bound (snd (terminal_transition env k runner token st f kind s))"
  "terminal_bound (snd (runner_failure_transition env fq s))"
  "terminal_bound (snd (apply_validated_loop_exit_transition env aq s))"
  "terminal_bound (snd (relinquish_transition env lq s))"
  "terminal_bound (snd (resume_turn_once env rq s))"
  "terminal_bound (snd (request_cancel_once env cq s))"
  subgoal using assms by (auto simp: heartbeat_def next_cursor_def Let_def split: sum.splits dest!: bound_record_ops)
  subgoal using assms by (auto simp: record_model_route_snapshot_def Let_def split: sum.splits option.splits dest!: bound_record_ops)
  subgoal using assms by (auto simp: block_run_def Let_def split: sum.splits prod.splits dest!: bound_record_ops)
  subgoal using assms by (auto simp: cancel_completion_transition_def Let_def split: sum.splits prod.splits)
  subgoal using assms by (auto simp: terminal_transition_def Let_def split: sum.splits prod.splits)
  subgoal using assms by (auto simp: runner_failure_transition_def Let_def split: sum.splits prod.splits
        dest!: bound_record_ops dest: bound_claimed_ops intro: bound_commit)
  subgoal using assms by (auto simp: apply_validated_loop_exit_transition_def Let_def split: sum.splits prod.splits
        loop_exit_mapping.splits turn_runner_outcome.splits dest!: bound_record_ops dest: bound_claimed_ops intro: bound_commit)
  subgoal using assms by (auto simp: relinquish_transition_def next_cursor_def Let_def split: sum.splits prod.splits turn_status.splits
        dest!: bound_record_ops)
  subgoal using assms by (auto simp: resume_turn_once_def next_cursor_def Let_def split: sum.splits dest!: bound_record_ops)
  subgoal using assms by (auto simp: request_cancel_once_def Let_def split: sum.splits prod.splits)
  done

lemma bound_regions [simp]:
  "terminal_bound (snd (submit_begin key s)) = terminal_bound s"
  "terminal_bound (snd (submit_reject_lineage sub s)) = terminal_bound s"
  "terminal_bound (snd (submit_admission_phase key t adm s)) = terminal_bound s"
  "terminal_bound (snd (submit_child_template chd s)) = terminal_bound s"
  "terminal_bound (snd (put_loop_checkpoint env pq s)) = terminal_bound s"
  "terminal_bound (snd (accept_run env a s)) = terminal_bound s"
  "terminal_bound (snd (reserve_admission L k cls scope actor s)) = terminal_bound s"
  "terminal_bound (snd (reserve_tree_descendants scope k delta dcap s)) = terminal_bound s"
  by (simp_all add: submit_begin_def submit_reject_lineage_def submit_admission_phase_def split_beta
      submit_child_template_def put_loop_checkpoint_def accept_run_def next_cursor_def reserve_admission_def
      reserve_tree_descendants_def Let_def split: option.split sum.split)

lemma bound_commits [simp]:
  "terminal_bound (snd (submit_commit env L sub res s)) = terminal_bound s"
  "terminal_bound (snd (submit_child_commit env L chd res s)) = terminal_bound s"
  by (simp_all add: submit_commit_def submit_child_commit_def Let_def split_beta split: option.split sum.split)

lemma bound_more:
  assumes "terminal_bound s"
  shows "terminal_bound (snd (claim_next_run env clm s))"
    "terminal_bound (snd (recover_expired_leases env rec s))"
    "terminal_bound (snd (release_tree_descendants scope k delta s))"
    "terminal_bound (snd (resume_turn env rq s))"
    "terminal_bound (snd (request_cancel env cq s))"
  subgoal using assms by (auto simp: claim_next_run_def pop_matching_queued_run_def next_cursor_def Let_def split_beta
      split: option.splits sum.splits dest!: bound_record_ops)
  subgoal by (simp add: recover_expired_leases_eq Let_def)
  subgoal using assms by (auto simp: release_tree_descendants_def retire_root_def Let_def split: option.splits sum.splits)
  subgoal using assms bound_runner_ops(9) [OF assms] by (auto simp: resume_turn_def Let_def split_beta split: option.split)
  subgoal using assms bound_runner_ops(10) [OF assms] by (auto simp: request_cancel_def Let_def split_beta split: option.split)
  done

lemma store_step_bound: "store_step L s s' \<Longrightarrow> terminal_bound s \<Longrightarrow> terminal_bound s'"
  by (induction rule: store_step.induct)
    (simp_all add: bound_runner_ops bound_more complete_run_def fail_run_def cancel_run_def)

lemma reach_bound: "reach limits L s \<Longrightarrow> terminal_bound s"
  by (induction rule: reach.induct) (auto simp: terminal_bound_def with_limits_def intro: store_step_bound [unfolded terminal_bound_def])

section \<open>Admission limits\<close>

definition bucket_runs :: "turn_admission_bucket \<Rightarrow> inner \<Rightarrow> turn_run_id set" where
  "bucket_runs b s = {k. \<exists>r. hm_get (in_records s) k = Some r \<and> \<not> is_terminal (rr_status r)
     \<and> b \<in> set (admission_buckets (rr_scope r) (rr_actor r) (tp_admission_class (rr_profile r)))}"

lemma bucket_runs_finite [simp]: "finite (bucket_runs b s)"
proof -
  have "bucket_runs b s \<subseteq> dom (hm_get (in_records s))" by (auto simp: bucket_runs_def)
  then show ?thesis by (rule finite_subset) simp
qed

lemma admission_count_runs:
  assumes "store_inv s"
  shows "active_admission_count b s = of_nat (card (bucket_runs b s))"
proof -
  have adm: "hm_wf (in_admission_reservations s)"
      "\<And>k. hm_get (in_admission_reservations s) k = map_option reservation_of (hm_get (in_records s) k)"
    using assms by (auto simp: store_inv_def admission_ok_def)
  have "{k. \<exists>v. hm_get (in_admission_reservations s) k = Some v \<and> \<not> rsv_released v \<and> b \<in> set (rsv_buckets v)}
      = bucket_runs b s"
    by (auto simp: bucket_runs_def adm reservation_of_def)
  then show ?thesis
    unfolding active_admission_count_def hm_values_count [OF adm(1)] by simp
qed

lemma bucket_runs_evolve:
  assumes "evolves s s'"
  shows "bucket_runs b s' \<subseteq> bucket_runs b s"
proof
  fix k assume "k \<in> bucket_runs b s'"
  then obtain r' where r': "hm_get (in_records s') k = Some r'" "\<not> is_terminal (rr_status r')"
      "b \<in> set (admission_buckets (rr_scope r') (rr_actor r') (tp_admission_class (rr_profile r')))"
    by (auto simp: bucket_runs_def)
  obtain r where "hm_get (in_records s) k = Some r" "same_run r r'" "status_step (rr_status r) (rr_status r')"
    using assms r'(1) unfolding evolves_def by blast
  with r' status_step_terminal [of "rr_status r" "rr_status r'"] show "k \<in> bucket_runs b s"
    by (auto simp: bucket_runs_def same_run_def)
qed

text \<open>The buckets that were checked all had room.\<close>

lemma check_buckets_room:
  assumes "check_buckets L count bs = Ok u" "b \<in> set bs" "L b = Ok lim" "lim_max_active lim = Some n"
  shows "count b < n"
  using assms by (induction bs) (auto split: sum.splits option.splits if_splits)

definition within_limits :: "turn_admission_limit_provider \<Rightarrow> inner \<Rightarrow> bool" where
  "within_limits L s \<longleftrightarrow>
    (\<forall>b lim n. L b = Ok lim \<longrightarrow> lim_max_active lim = Some n \<longrightarrow> card (bucket_runs b s) \<le> unat n)"

lemma admits_within:
  assumes "admits L s s'" "store_inv s" "within_limits L s"
  shows "within_limits L s'"
  unfolding within_limits_def
proof (intro allI impI)
  fix b lim n assume L: "L b = Ok lim" "lim_max_active lim = Some n"
  obtain env a c where a: "hm_get (in_records s) (ar_run_id a) = None"
      "in_records s' = hm_insert (ar_run_id a) (queued_record env a c) (in_records s)"
      "check_buckets L (\<lambda>b. active_admission_count b s)
         (admission_buckets (ar_scope a) (ar_actor a) (tp_admission_class (ar_profile a))) = Ok ()"
    using assms(1) by (auto simp: admits_def)
  let ?bs = "admission_buckets (ar_scope a) (ar_actor a) (tp_admission_class (ar_profile a))"
  have old: "card (bucket_runs b s) \<le> unat n" using assms(3) L by (auto simp: within_limits_def)
  show "card (bucket_runs b s') \<le> unat n"
  proof (cases "b \<in> set ?bs")
    case True
    have "bucket_runs b s' = insert (ar_run_id a) (bucket_runs b s)"
      using a True by (auto simp: bucket_runs_def split: if_splits)
    moreover have "card (bucket_runs b s) < unat n"
      using check_buckets_room [OF a(3) True L] old
      by (auto simp: admission_count_runs [OF assms(2)] le_less)
    ultimately show ?thesis by (simp add: card_insert_if)
  next
    case False
    then have "bucket_runs b s' = bucket_runs b s"
      using a by (auto simp: bucket_runs_def split: if_splits)
    with old show ?thesis by simp
  qed
qed

lemma store_step_within:
  assumes "store_step L s s'" "store_inv s" "within_limits L s"
  shows "within_limits L s'"
  using store_step_runs [OF assms(1,2)]
proof
  assume "evolves s s'"
  then have "card (bucket_runs b s') \<le> card (bucket_runs b s)" for b
    by (intro card_mono bucket_runs_evolve) simp_all
  then show ?thesis using assms(3) unfolding within_limits_def by (meson order_trans)
qed (use admits_within assms in blast)

lemma reach_within: "reach limits L s \<Longrightarrow> within_limits L s"
proof (induction rule: reach.induct)
  case reach_init
  then show ?case by (simp add: within_limits_def bucket_runs_def with_limits_def)
next
  case (reach_step s s')
  then show ?case using store_step_within reach_inv by blast
qed

end
