(* ===== verification/Turn_Scenario.thy ===== *)
theory Turn_Scenario
  imports Turn_Machine
begin

text \<open>
  A concrete history of the store: a turn is submitted on one thread, claimed by a
  runner, blocked on an approval gate and resumed. The states are evaluated once
  here; the theorems about the store are instantiated at them.
\<close>

definition demo_env :: env where
  "demo_env = \<lparr>env_now = 100, env_event_now = (\<lambda>_. 100), env_remember_now = 100, env_turn_id = 10,
     env_run_id = 11, env_checkpoint_id = 12, env_checked_add_signed = (\<lambda>t d. Some (t + d))\<rparr>"

definition demo_scope :: turn_scope where
  "demo_scope = turn_scope_new ''t'' None None ''th''"

definition demo_actor :: turn_actor where
  "demo_actor = \<lparr>ac_user_id = ''u''\<rparr>"

definition demo_limits :: store_limits where
  "demo_limits = default_limits 60"

definition demo_L :: turn_admission_limit_provider where
  "demo_L = static_limit_for (with_total_limit AxisTenant 1 static_provider_default)"

definition demo_submit :: submit_turn_request where
  "demo_submit = \<lparr>sub_scope = demo_scope, sub_actor = demo_actor, sub_accepted_message_ref = ''m'',
     sub_source_binding_ref = ''src'', sub_reply_target_binding_ref = ''dst'',
     sub_requested_run_profile = None, sub_idempotency_key = ''k'', sub_received_at = 90,
     sub_requested_run_id = None, sub_parent_run_id = None, sub_subagent_depth = 0,
     sub_spawn_tree_root_run_id = None\<rparr>"

definition demo_profile :: resolved_run_profile where
  "demo_profile = legacy_compatibility interactive_default 1 True"

definition demo_claim :: claim_run_request where
  "demo_claim = \<lparr>clm_runner_id = 20, clm_lease_token = 21, clm_scope_filter = None\<rparr>"

definition demo_lease :: lease_request where
  "demo_lease = \<lparr>lr_run_id = 11, lr_runner_id = 20, lr_lease_token = 21\<rparr>"

definition demo_block :: block_run_request where
  "demo_block = \<lparr>lr_run_id = 11, lr_runner_id = 20, lr_lease_token = 21, blk_checkpoint_id = 30,
     blk_state_ref = ''st'', blk_reason = Approval ''gate:1''\<rparr>"

definition demo0 :: inner where "demo0 = with_limits demo_limits"

definition demo1 :: inner where
  "demo1 = snd (submit_commit demo_env demo_L demo_submit (Ok demo_profile) demo0)"

definition demo2 :: inner where
  "demo2 = snd (claim_next_run demo_env demo_claim demo1)"

definition demo3 :: inner where
  "demo3 = snd (block_run demo_env demo_block demo2)"


lemmas demo_defs = demo_env_def demo_scope_def demo_actor_def demo_limits_def demo_L_def demo_submit_def
  demo_claim_def demo_lease_def demo_block_def demo0_def with_limits_def default_limits_def turn_scope_new_def

lemmas admission_eval = reserve_admission_def admission_buckets_def total_and_class_def static_limit_for_def
  with_total_limit_def static_provider_default_def from_bucket_def max_active_def active_admission_count_def
  unlimited_def hm_values_def

definition demo_run1 :: run_record where
  "demo_run1 = queued_record demo_env
    \<lparr>ar_scope = demo_scope, ar_actor = demo_actor, ar_accepted_message_ref = ''m'',
     ar_source_binding_ref = ''src'', ar_reply_target_binding_ref = ''dst'', ar_received_at = 90,
     ar_profile = from_resolved demo_profile, ar_run_id = 11, ar_parent_run_id = None,
     ar_subagent_depth = 0, ar_spawn_tree_root_run_id = None\<rparr> 1"

lemma demo_reach:
  "reach demo_limits demo_L demo0" "reach demo_limits demo_L demo1" "reach demo_limits demo_L demo2"
  "reach demo_limits demo_L demo3"
proof -
  show r0: "reach demo_limits demo_L demo0" unfolding demo0_def by (rule reach_init)
  show r1: "reach demo_limits demo_L demo1" unfolding demo1_def by (rule reach_step [OF r0 commit_submit])
  show r2: "reach demo_limits demo_L demo2" unfolding demo2_def by (rule reach_step [OF r1 claim_run])
  show "reach demo_limits demo_L demo3" unfolding demo3_def by (rule reach_step [OF r2 block_claimed])
qed

lemmas submit_eval = submit_commit_def store_thread_busy_def admission_eval accept_run_def next_cursor_def
  push_event_def push_queued_run_def hm_contains_key_def finish_submit_def leave_in_flight_def
  remember_submit_frame saturating_add_def

lemma demo1_fields:
  "hm_get (in_records demo1) = [11 \<mapsto> demo_run1]" "in_queued_runs demo1 = [11]" "in_cursor demo1 = 1"
  "in_limits demo1 = demo_limits"
  by (simp_all add: demo1_def demo_run1_def demo_defs submit_eval fun_eq_iff Let_def)

definition demo_run2 :: run_record where
  "demo_run2 = claimed_record demo_env demo_claim demo1 demo_run1"

lemma demo2_fields:
  "hm_get (in_records demo2) = [11 \<mapsto> demo_run2]" "in_queued_runs demo2 = []" "in_cursor demo2 = 2"
  "in_limits demo2 = demo_limits"
  by (simp_all add: demo2_def demo_run2_def claimed_record_def claim_next_run_def pop_matching_queued_run_def
    take_record_def demo1_fields demo_run1_def next_cursor_def demo_claim_def demo_env_def frame_simps
    saturating_add_def fun_eq_iff Let_def)

lemma demo_run2_lease:
  "rr_status demo_run2 = Running" "rr_runner_id demo_run2 = Some 20" "rr_lease_token demo_run2 = Some 21"
  "rr_lease_expires_at demo_run2 = Some 160" "rr_scope demo_run2 = demo_scope" "rr_run_id demo_run2 = 11"
  "rr_event_cursor demo_run2 = 2" "rr_actor demo_run2 = demo_actor" "sub_scope demo_submit = demo_scope"
  by (simp_all add: saturating_add_def demo_submit_def demo_run2_def claimed_record_def demo_run1_def demo_claim_def next_lease_expiry_def demo_env_def
    demo1_fields demo_limits_def default_limits_def)

definition demo_response :: submit_turn_response where
  "demo_response = Accepted 10 11 Queued (tp_id (from_resolved demo_profile)) (tp_version (from_resolved demo_profile))
     1 ''m'' ''dst''"

lemma demo1_result:
  "fst (submit_commit demo_env demo_L demo_submit (Ok demo_profile) demo0) = Ok demo_response"
  by (simp add: demo_response_def demo_defs submit_eval Let_def)

lemma demo1_cache: "submit_cache demo1 = cache_remember 10000 (submit_key demo_submit) (Ok demo_response) ([], [])"
proof -
  have [simp]: "submit_cache (s\<lparr>in_submit_in_flight := x\<rparr>) = submit_cache s" for s x by (simp add: submit_cache_def)
  show ?thesis
    by (simp add: demo1_def demo_response_def demo_defs submit_commit_def store_thread_busy_def admission_eval
      accept_run_def next_cursor_def push_event_def push_queued_run_def hm_contains_key_def finish_submit_def
      leave_in_flight_def remember_caches Let_def saturating_add_def) (simp add: submit_cache_def)
qed

lemma demo_submits:
  "hm_get (in_submit_idempotency demo1) = [submit_key demo_submit \<mapsto> Ok demo_response]"
  "hm_get (in_submit_idempotency demo2) = [submit_key demo_submit \<mapsto> Ok demo_response]"
proof -
  have ok: "cache_ok ([], [])" by (simp add: cache_ok_def order_ok_def)
  have sub: "in_submit_idempotency s = fst (submit_cache s)" for s by (simp add: submit_cache_def)
  show d1: "hm_get (in_submit_idempotency demo1) = [submit_key demo_submit \<mapsto> Ok demo_response]"
    using cache_remember_below [OF ok, of 10000 "submit_key demo_submit" "Ok demo_response"]
    by (simp add: sub demo1_cache fun_eq_iff)
  have "submit_cache demo2 = submit_cache demo1"
    using side_claim [of demo_env demo_claim demo1] by (simp add: side_def demo2_def)
  with d1 show "hm_get (in_submit_idempotency demo2) = [submit_key demo_submit \<mapsto> Ok demo_response]"
    by (simp add: sub)
qed

definition demo_run3 :: run_record where
  "demo_run3 = blocked_record 30 (Approval ''gate:1'') 3 demo_run2"

lemma demo3_fields:
  "hm_get (in_records demo3) = [11 \<mapsto> demo_run3]" "in_cursor demo3 = 3" "in_limits demo3 = demo_limits"
  by (simp_all add: demo3_def block_run_def take_record_def demo2_fields demo_block_def ensure_active_lease_def
    demo_run2_lease demo_env_def block_record_eq insert_record_def demo_run3_def saturating_add_def fun_eq_iff Let_def)

lemma demo_run3_gate:
  "rr_status demo_run3 = BlockedApproval" "rr_gate_ref demo_run3 = Some ''gate:1''" "rr_run_id demo_run3 = 11"
  "rr_scope demo_run3 = demo_scope" "rr_actor demo_run3 = demo_actor" "rr_event_cursor demo_run3 = 3"
  by (simp_all add: demo_run3_def blocked_record_def demo_run2_lease reason_status_def reason_gate_ref_def)

definition demo_resume :: resume_turn_request where
  "demo_resume = \<lparr>res_scope = demo_scope, res_actor = demo_actor, res_run_id = 11,
     res_gate_resolution_ref = ''gate:1'', res_source_binding_ref = ''src'', res_reply_target_binding_ref = ''dst'',
     res_idempotency_key = ''r'', res_precondition = AnyBlockedGate\<rparr>"

definition demo_cancel :: cancel_run_request where
  "demo_cancel = \<lparr>cr_scope = demo_scope, cr_actor = demo_actor, cr_run_id = 11, cr_reason = UserRequested,
     cr_idempotency_key = ''c''\<rparr>"

lemma demo_caches_empty: "resume_cache demo3 = ([], [])" "cancel_cache demo2 = ([], [])"
proof -
  have rest: "resume_cache (snd (finish_submit k v t s)) = resume_cache s"
    "cancel_cache (snd (finish_submit k v t s)) = cancel_cache s" for k v t s
    using remember_caches(2,3) [of k v t s] by (simp_all add: finish_submit_def leave_in_flight_def cache_defs)
  have "resume_cache demo1 = ([], []) \<and> cancel_cache demo1 = ([], [])"
    by (simp add: demo1_def demo_defs submit_commit_def store_thread_busy_def admission_eval accept_run_def
      next_cursor_def push_event_def push_queued_run_def hm_contains_key_def rest Let_def) (simp add: cache_defs)
  moreover have "side demo2 = side demo1" "side demo3 = side demo2" by (simp_all add: demo2_def demo3_def)
  ultimately show "resume_cache demo3 = ([], [])" "cancel_cache demo2 = ([], [])" by (simp_all add: side_def)
qed

lemma demo_resume_result:
  "fst (resume_turn demo_env demo_resume demo3) = Ok \<lparr>rsm_run_id = 11, rsm_status = Queued, rsm_event_cursor = 4\<rparr>"
  using demo_caches_empty(1)
  by (simp add: resume_turn_def resume_cache_def resume_turn_once_def take_record_def demo3_fields demo_resume_def
    demo_run3_gate resumable_status_def required_status_def next_cursor_def saturating_add_def Let_def split_beta)

lemma demo_cancel_result:
  "fst (request_cancel demo_env demo_cancel demo2) = Ok \<lparr>can_run_id = 11, can_status = CancelRequested,
     can_event_cursor = 3, can_already_terminal = False, can_actor = Some demo_actor\<rparr>"
  using demo_caches_empty(2)
  by (simp add: request_cancel_def cancel_cache_def request_cancel_once_def take_record_def demo2_fields demo_cancel_def
    demo_run2_lease cancel_next_def cancel_response_def next_cursor_def saturating_add_def frame_simps Let_def split_beta)

end
