(* ===== verification/Turn_Guarantees.thy ===== *)
theory Turn_Guarantees
  imports Turn_Scenario
begin

text \<open>
  What the in-memory turn store guarantees to its callers: at most one live run per
  thread, leases, the queue, admission limits, spawn-tree capacity, retention and
  idempotent replay. Each statement is about every reachable state of the machine of
  \<^verbatim>\<open>Turn_Machine\<close>, or about one operation in such a state.
\<close>

section \<open>Threads\<close>

lemma live_run_lock:
  assumes "store_inv s" "hm_get (in_records s) k = Some r" "\<not> is_terminal (rr_status r)"
  shows "store_thread_busy (lock_key_from (rr_scope r)) s =
    Some \<lparr>tb_active_run_id = k, tb_status = rr_status r, tb_event_cursor = rr_event_cursor r\<rparr>"
proof -
  obtain l where "hm_get (in_active_locks s) (lock_key_from (rr_scope r)) = Some l" "al_run_id l = k"
    using assms unfolding store_inv_def locks_ok_def by blast
  with assms show ?thesis by (simp add: store_thread_busy_def keeps_active_lock_def)
qed

lemma lock_key_scope: "lock_key_from a = lock_key_from b \<longleftrightarrow> a = b"
  by (auto simp: lock_key_from_def)

text \<open>C1. In every reachable state two live runs never share a thread: a run that is queued,
  running, blocked or being cancelled is the only such run of its exact scope, however
  the lock regions of concurrent callers interleave.\<close>

theorem one_live_run_per_thread:
  assumes "reach limits L s"
    and "hm_get (in_records s) k = Some r" "\<not> is_terminal (rr_status r)"
    and "hm_get (in_records s) k' = Some r'" "\<not> is_terminal (rr_status r')"
    and "rr_scope r = rr_scope r'"
  shows "k = k'"
  using record_scope_unique [OF _ assms(2-6)] reach_inv [OF assms(1)] by (auto simp: store_inv_def)

theorem one_live_run_per_thread_witness:
  "{k. \<exists>r. hm_get (in_records demo2) k = Some r \<and> \<not> is_terminal (rr_status r) \<and> rr_scope r = demo_scope} = {11}"
proof -
  have run: "hm_get (in_records demo2) 11 = Some demo_run2" "\<not> is_terminal (rr_status demo_run2)"
    by (simp_all add: demo2_fields demo_run2_lease)
  have "k = 11" if "hm_get (in_records demo2) k = Some r" "\<not> is_terminal (rr_status r)" "rr_scope r = demo_scope" for k r
    using one_live_run_per_thread [OF demo_reach(3) that(1,2) run] that(3) by (simp add: demo_run2_lease)
  then show ?thesis using run demo_run2_lease(5) by blast
qed

text \<open>C2. A submission on a thread with a live run is refused as busy and names that run, its
  status and its cursor; nothing changes but the caller's in-flight key.\<close>

theorem busy_thread_refuses:
  assumes "reach limits L s"
    and "hm_get (in_records s) k = Some r" "\<not> is_terminal (rr_status r)"
    and "rr_scope r = sub_scope q"
    and "hm_get (in_submit_idempotency s) (submit_key q) = None"
  shows "submit_commit env L q (Ok profile) s =
    (Err (ThreadBusy \<lparr>tb_active_run_id = k, tb_status = rr_status r, tb_event_cursor = rr_event_cursor r\<rparr>),
     leave_in_flight (submit_key q) s)"
  using live_run_lock [OF reach_inv [OF assms(1)] assms(2,3)] assms(4,5)
  by (simp add: submit_commit_def Let_def)

theorem busy_thread_refuses_witness:
  "fst (submit_commit demo_env demo_L (demo_submit\<lparr>sub_idempotency_key := ''k2''\<rparr>) (Ok demo_profile) demo2)
    = Err (ThreadBusy \<lparr>tb_active_run_id = 11, tb_status = Running, tb_event_cursor = 2\<rparr>)"
proof -
  have "hm_get (in_submit_idempotency demo2) (submit_key (demo_submit\<lparr>sub_idempotency_key := ''k2''\<rparr>)) = None"
    by (simp add: demo_submits submit_key_def demo_submit_def)
  from busy_thread_refuses [OF demo_reach(3) _ _ _ this, of 11 demo_run2]
  show ?thesis by (simp add: demo2_fields demo_run2_lease)
qed

section \<open>The queue and leases\<close>

text \<open>The runs a claim may hand out.\<close>

definition claimable :: "claim_run_request \<Rightarrow> inner \<Rightarrow> turn_run_id \<Rightarrow> bool" where
  "claimable q s k \<longleftrightarrow> (\<exists>r. hm_get (in_records s) k = Some r \<and> rr_status r = Queued
     \<and> (clm_scope_filter q = None \<or> clm_scope_filter q = Some (rr_scope r)))"

lemma claimable_queue:
  assumes "store_inv s"
  shows "claimable q s k \<longleftrightarrow> k \<in> set (in_queued_runs s) \<and> queued_match (clm_scope_filter q) (in_records s) k"
  using assms by (auto simp: store_inv_def queue_ok_def claimable_def queued_match_def)

text \<open>C3. Claiming never misses work and never hands out a run twice: it answers nothing exactly
  when no queued run matches the scope filter (and then changes nothing); otherwise it hands
  out the first match in queue order, which becomes running under the caller's lease and
  leaves the queue.\<close>

theorem claim_returns_first_match:
  assumes "reach limits L s"
  shows "(claim_next_run env q s = (Ok None, s) \<and> (\<forall>k. \<not> claimable q s k))
    \<or> (\<exists>us k vs c r s'. claim_next_run env q s = (Ok (Some c), s') \<and> in_queued_runs s = us @ k # vs
        \<and> claimable q s k \<and> (\<forall>u \<in> set us. \<not> claimable q s u) \<and> rst_run_id (clr_state c) = k
        \<and> hm_get (in_records s') k = Some r \<and> rr_status r = Running
        \<and> rr_runner_id r = Some (clm_runner_id q) \<and> rr_lease_token r = Some (clm_lease_token q)
        \<and> set (in_queued_runs s') = set (in_queued_runs s) - {k})"
proof -
  note inv = reach_inv [OF assms]
  from inv show ?thesis
  proof (cases rule: claim_next_run_cases [where env = env and q = q])
    case idle
    then show ?thesis unfolding claimable_queue [OF inv] by blast
  next
    case (claimed k r us vs)
    have "distinct (us @ k # vs)" using inv claimed(1) by (simp add: store_inv_def queue_ok_def)
    moreover have "rr_run_id r = k" using store_inv_run_id [OF inv claimed(3)] .
    ultimately show ?thesis
      unfolding claimable_queue [OF inv]
      by (intro disjI2 exI [of _ us] exI [of _ k] exI [of _ vs] exI)
        (use claimed in \<open>auto simp: frame_simps run_state_def claimed_record_def\<close>)
  qed
qed

theorem claim_returns_first_match_witness:
  "\<exists>c s'. claim_next_run demo_env demo_claim demo1 = (Ok (Some c), s') \<and> rst_run_id (clr_state c) = 11"
  using claim_returns_first_match [OF demo_reach(2), where env = demo_env and q = demo_claim]
proof
  assume "claim_next_run demo_env demo_claim demo1 = (Ok None, demo1) \<and> (\<forall>k. \<not> claimable demo_claim demo1 k)"
  then have "\<not> claimable demo_claim demo1 11" by blast
  then show ?thesis by (simp add: claimable_def demo1_fields demo_run1_def demo_claim_def)
qed (auto simp: demo1_fields claimable_def split: if_splits)

text \<open>An operation that is refused: an error, and the store as it was (up to the order in which
  the map of runs lists its entries).\<close>

definition refused :: "turn_error \<Rightarrow> inner \<Rightarrow> 'a turn_result \<times> inner \<Rightarrow> bool" where
  "refused e s res \<longleftrightarrow> fst res = Err e \<and> store_equiv s (snd res)"

lemma prune_bounded:
  assumes "terminal_bound s"
  shows "prune_terminal_records s = s"
proof -
  have "prune_terminal_loop (max_terminal_records (in_limits s)) roots (in_terminal_runs s) recs adm
      = (in_terminal_runs s, recs, adm)" for roots recs adm
    using assms by (cases "in_terminal_runs s") (simp_all add: terminal_bound_def)
  then show ?thesis by (simp add: prune_terminal_records_def)
qed

lemma lease_refused:
  assumes "rr_runner_id r \<noteq> Some runner \<or> rr_lease_token r \<noteq> Some token
      \<or> (\<exists>t. rr_lease_expires_at r = Some t \<and> t \<le> now)"
  obtains e where "ensure_active_lease r runner token now = Err e"
    "e \<in> {LeaseMismatch, Conflict ''turn run lease expired''}"
proof (cases "ensure_active_lease r runner token now")
  case (Inl e)
  moreover have "e \<in> {LeaseMismatch, Conflict ''turn run lease expired''}"
    using Inl by (auto simp: ensure_active_lease_def split: if_splits)
  ultimately show thesis by (rule that)
next
  case (Inr u)
  then show thesis using assms by (auto simp: ensure_active_lease_Ok)
qed

text \<open>C4. A runner that does not hold the run's current, unexpired lease cannot touch it: every
  runner operation answers with a lease error and leaves the store as it was.\<close>

theorem foreign_lease_changes_nothing:
  assumes "reach limits L s" "hm_get (in_records s) (lr_run_id q) = Some r"
    and "rr_runner_id r \<noteq> Some (lr_runner_id q) \<or> rr_lease_token r \<noteq> Some (lr_lease_token q)
      \<or> (\<exists>t. rr_lease_expires_at r = Some t \<and> t \<le> env_now env)"
    and "lease_request.truncate bq = q" "lease_request.truncate fq = q" "lease_request.truncate mq = q"
      "lease_request.truncate aq = q"
  shows "\<exists>e. e \<in> {LeaseMismatch, Conflict ''turn run lease expired''}
    \<and> refused e s (heartbeat env q s) \<and> refused e s (record_model_route_snapshot env mq s)
    \<and> refused e s (block_run env bq s) \<and> refused e s (complete_run env q s)
    \<and> refused e s (cancel_run env q s) \<and> refused e s (fail_run env fq s)
    \<and> refused e s (runner_failure_transition env fq s) \<and> refused e s (relinquish_transition env q s)
    \<and> refused e s (apply_validated_loop_exit_transition env aq s)"
proof -
  note inv = reach_inv [OF assms(1)]
  obtain e where e: "ensure_active_lease r (lr_runner_id q) (lr_lease_token q) (env_now env) = Err e"
    "e \<in> {LeaseMismatch, Conflict ''turn run lease expired''}"
    using lease_refused [OF assms(3)] by blast
  let ?s0 = "s\<lparr>in_records := hm_remove (lr_run_id q) (in_records s)\<rparr>"
  have take: "take_record (lr_run_id q) s = Ok (r, ?s0)" using assms(2) by (simp add: take_record_def)
  have eqv: "store_equiv s (insert_record r ?s0)"
    by (rule reinsert_equiv [OF assms(2) store_inv_run_id [OF inv assms(2)]])
  have "prune_terminal_records (insert_record r ?s0) = insert_record r ?s0"
    using reach_bound [OF assms(1)] by (intro prune_bounded) simp
  moreover have "lr_run_id bq = lr_run_id q" "lr_runner_id bq = lr_runner_id q" "lr_lease_token bq = lr_lease_token q"
    "lr_run_id fq = lr_run_id q" "lr_runner_id fq = lr_runner_id q" "lr_lease_token fq = lr_lease_token q"
    "lr_run_id mq = lr_run_id q" "lr_runner_id mq = lr_runner_id q" "lr_lease_token mq = lr_lease_token q"
    "lr_run_id aq = lr_run_id q" "lr_runner_id aq = lr_runner_id q" "lr_lease_token aq = lr_lease_token q"
    using assms(4-7) by (auto simp: lease_request.defs)
  ultimately show ?thesis
    using e take eqv
    by (intro exI [of _ e]) (simp add: refused_def heartbeat_def record_model_route_snapshot_def block_run_def
        complete_run_def cancel_run_def fail_run_def terminal_transition_def cancel_completion_transition_def
        runner_failure_transition_def relinquish_transition_def apply_validated_loop_exit_transition_def
        commit_transition_def)
qed

theorem foreign_lease_changes_nothing_witness:
  "\<exists>e. refused e demo2 (complete_run demo_env \<lparr>lr_run_id = 11, lr_runner_id = 20, lr_lease_token = 99\<rparr> demo2)"
proof -
  let ?q = "\<lparr>lr_run_id = 11, lr_runner_id = 20, lr_lease_token = 99\<rparr>"
  let ?bq = "\<lparr>lr_run_id = 11, lr_runner_id = 20, lr_lease_token = 99, blk_checkpoint_id = 1,
    blk_state_ref = ''s'', blk_reason = Approval ''g''\<rparr>"
  let ?fq = "\<lparr>lr_run_id = 11, lr_runner_id = 20, lr_lease_token = 99, fl_failure = ''f''\<rparr>"
  let ?mq = "\<lparr>lr_run_id = 11, lr_runner_id = 20, lr_lease_token = 99, rmr_snapshot =
    \<lparr>mr_provider_id = ''p'', mr_model_id = ''m'', mr_config_version = ''1'', mr_auth_version = ''1''\<rparr>\<rparr>"
  let ?aq = "\<lparr>lr_run_id = 11, lr_runner_id = 20, lr_lease_token = 99, ale_mapping = RunnerOutcome OutCompleted\<rparr>"
  show ?thesis
    using foreign_lease_changes_nothing [OF demo_reach(3), of ?q demo_run2 demo_env ?bq ?fq ?mq ?aq]
    by (auto simp: demo2_fields demo_run2_lease lease_request.defs)
qed

section \<open>How runs evolve\<close>



text \<open>C6. A run holds a lease (runner, token and expiry) exactly while it is running or being
  cancelled, the queue lists exactly the queued runs without repetition, and every live run
  holds the lock of its thread, which mirrors its status.\<close>

theorem leases_queue_and_locks_agree:
  assumes "reach limits L s"
  shows "(\<forall>k r. hm_get (in_records s) k = Some r \<longrightarrow>
      ((rr_runner_id r \<noteq> None \<and> rr_lease_token r \<noteq> None \<and> rr_lease_expires_at r \<noteq> None)
        \<longleftrightarrow> rr_status r \<in> {Running, CancelRequested})
      \<and> (rr_status r = Queued \<longleftrightarrow> k \<in> set (in_queued_runs s))
      \<and> (\<not> is_terminal (rr_status r) \<longleftrightarrow>
          (\<exists>l. hm_get (in_active_locks s) (lock_key_from (rr_scope r)) = Some l \<and> al_run_id l = k \<and> al_status l = rr_status r)))
    \<and> distinct (in_queued_runs s)"
proof -
  note inv = reach_inv [OF assms, unfolded store_inv_def]
  show ?thesis
  proof (intro conjI allI impI)
    fix k r assume r: "hm_get (in_records s) k = Some r"
    show "(rr_runner_id r \<noteq> None \<and> rr_lease_token r \<noteq> None \<and> rr_lease_expires_at r \<noteq> None)
        \<longleftrightarrow> rr_status r \<in> {Running, CancelRequested}"
      using inv r by (auto simp: records_ok_def lease_shape_def)
    show "rr_status r = Queued \<longleftrightarrow> k \<in> set (in_queued_runs s)"
      using inv r by (auto simp: queue_ok_def)
    have "locks_ok (in_records s) (in_active_locks s)" using inv by blast
    with r show "\<not> is_terminal (rr_status r) \<longleftrightarrow>
        (\<exists>l. hm_get (in_active_locks s) (lock_key_from (rr_scope r)) = Some l \<and> al_run_id l = k \<and> al_status l = rr_status r)"
      unfolding locks_ok_def by (metis option.inject)
  next
    show "distinct (in_queued_runs s)" using inv by (simp add: queue_ok_def)
  qed
qed

theorem leases_queue_and_locks_agree_witness:
  "\<exists>l. hm_get (in_active_locks demo2) (lock_key_from demo_scope) = Some l \<and> al_run_id l = 11 \<and> al_status l = Running"
  using leases_queue_and_locks_agree [OF demo_reach(3), THEN conjunct1, rule_format, of 11 demo_run2]
  by (simp add: demo2_fields demo_run2_lease)

section \<open>Admission\<close>

text \<open>C7. Under a fixed limit provider no bucket (tenant, user, project or agent; in total or per
  class) ever holds more live runs than its limit, and the count the store compares with
  the limit is exactly the number of those runs.\<close>

theorem admission_limits_hold:
  assumes "reach limits L s" "L b = Ok lim" "lim_max_active lim = Some n"
  shows "active_admission_count b s \<le> n
    \<and> unat (active_admission_count b s) = card (bucket_runs b s)"
proof -
  have le: "card (bucket_runs b s) \<le> unat n"
    using reach_within [OF assms(1)] assms(2,3) by (auto simp: within_limits_def)
  moreover have eq: "active_admission_count b s = of_nat (card (bucket_runs b s))"
    by (rule admission_count_runs [OF reach_inv [OF assms(1)]])
  moreover have "unat (of_nat (card (bucket_runs b s)) :: u64) = card (bucket_runs b s)"
    using le unsigned_less [of n, where 'a = nat] by (simp add: unsigned_of_nat take_bit_nat_eq_self_iff)
  ultimately show ?thesis by (simp add: word_le_nat_alt)
qed

theorem admission_limits_hold_witness:
  "active_admission_count \<lparr>bk_axis_kind = AxisTenant, bk_bucket_kind = BucketTotal, bk_admission_class = None,
      bk_scope = BucketTenant ''t''\<rparr> demo2 \<le> 1"
  using admission_limits_hold [OF demo_reach(3), of
    "\<lparr>bk_axis_kind = AxisTenant, bk_bucket_kind = BucketTotal, bk_admission_class = None, bk_scope = BucketTenant ''t''\<rparr>"
    "max_active 1" 1]
  by (simp add: demo_L_def static_total_limit static_provider_default_def max_active_def)

text \<open>Reservations mirror the runs: every run has exactly one, for its own class and buckets,
  which is released exactly when the run is terminal.\<close>

theorem reservations_mirror_runs:
  assumes "reach limits L s"
  shows "hm_get (in_admission_reservations s) k = map_option (\<lambda>r.
    \<lparr>rsv_run_id = k, rsv_admission_class = tp_admission_class (rr_profile r),
     rsv_buckets = admission_buckets (rr_scope r) (rr_actor r) (tp_admission_class (rr_profile r)),
     rsv_released = is_terminal (rr_status r)\<rparr>) (hm_get (in_records s) k)"
proof -
  have "hm_get (in_admission_reservations s) k = map_option reservation_of (hm_get (in_records s) k)"
    using reach_inv [OF assms] by (simp add: store_inv_def admission_ok_def)
  then show ?thesis
    using store_inv_run_id [OF reach_inv [OF assms], of k]
    by (cases "hm_get (in_records s) k") (auto simp: reservation_of_def)
qed

theorem reservations_mirror_runs_witness:
  "map_option rsv_released (hm_get (in_admission_reservations demo2) 11) = Some False"
  using reservations_mirror_runs [OF demo_reach(3), of 11] by (simp add: demo2_fields demo_run2_lease)

section \<open>Events and retention\<close>

text \<open>The event log is bounded, lies between the retention floor and the store's cursor, and,
  until the 64-bit cursor saturates, is strictly increasing with every retained event above
  the floor; no run carries a cursor the store has not issued.\<close>

theorem event_log_well_formed:
  assumes "reach limits L s"
  shows "length (in_events s) \<le> max_events limits \<and> in_event_retention_floor s \<le> in_cursor s
    \<and> (\<forall>e \<in> set (in_events s). in_event_retention_floor s \<le> ev_cursor e \<and> ev_cursor e \<le> in_cursor s)
    \<and> (in_cursor s \<noteq> - 1 \<longrightarrow> sorted_wrt (<) (map ev_cursor (in_events s))
        \<and> (\<forall>e \<in> set (in_events s). in_event_retention_floor s < ev_cursor e))
    \<and> (\<forall>k r. hm_get (in_records s) k = Some r \<longrightarrow> rr_event_cursor r \<le> in_cursor s)"
  using reach_inv [OF assms] reach_side [OF assms]
  by (auto simp: store_inv_def event_log_ok_def cursors_ok_def)

theorem event_log_well_formed_witness:
  "sorted_wrt (<) (map ev_cursor (in_events demo2))"
  using event_log_well_formed [OF demo_reach(3)] by (simp add: demo2_fields)

text \<open>Terminal runs are retained within the configured bound: at most
  \<^verbatim>\<open>max_terminal_records\<close> of them, besides the roots of spawn trees that still hold
  reservations.\<close>

theorem terminal_retention_bounded:
  assumes "reach limits L s"
  shows "card {k. record_is_terminal (in_records s) k \<and> k \<notin> stk_root_run_id ` dom (hm_get (in_tree_reservations s))}
    \<le> max_terminal_records limits"
proof -
  have t: "terminal_ok (in_records s) (in_tree_reservations s) (in_terminal_runs s)"
    using reach_inv [OF assms] by (simp add: store_inv_def)
  have "card {k. record_is_terminal (in_records s) k \<and> k \<notin> stk_root_run_id ` dom (hm_get (in_tree_reservations s))}
      \<le> card (set (in_terminal_runs s))"
    using t unfolding terminal_ok_def by (intro card_mono subsetI) (simp, blast)
  also have "\<dots> \<le> length (in_terminal_runs s)" by (rule card_length)
  also have "\<dots> \<le> max_terminal_records limits"
    using reach_bound [OF assms] reach_side [OF assms] by (simp add: terminal_bound_def)
  finally show ?thesis .
qed

theorem terminal_retention_bounded_witness:
  "card {k. record_is_terminal (in_records demo2) k \<and> k \<notin> stk_root_run_id ` dom (hm_get (in_tree_reservations demo2))}
    \<le> 10000"
  using terminal_retention_bounded [OF demo_reach(3)] by (simp add: demo_limits_def default_limits_def)

section \<open>Idempotent requests\<close>

definition resume_key :: "resume_turn_request \<Rightarrow> run_idempotency_key" where
  "resume_key q = \<lparr>rik_scope = res_scope q, rik_run_id = res_run_id q, rik_key = res_idempotency_key q\<rparr>"

definition cancel_key :: "cancel_run_request \<Rightarrow> run_idempotency_key" where
  "cancel_key q = \<lparr>rik_scope = cr_scope q, rik_run_id = cr_run_id q, rik_key = cr_idempotency_key q\<rparr>"

lemma resume_turn_memo:
  "resume_turn env q s = memo (\<lambda>s. hm_get (fst (resume_cache s)))
    (\<lambda>v. remember_resume_idempotency (resume_key q) v (env_remember_now env)) (resume_key q) (resume_turn_once env q) s"
  by (simp add: resume_turn_def memo_def resume_key_def resume_cache_def Let_def)

lemma request_cancel_memo:
  "request_cancel env q s = memo (\<lambda>s. hm_get (fst (cancel_cache s)))
    (\<lambda>v. remember_cancel_idempotency (cancel_key q) v (env_remember_now env)) (cancel_key q) (request_cancel_once env q) s"
  by (simp add: request_cancel_def memo_def cancel_key_def cancel_cache_def Let_def)

lemma resume_once_keeps:
  "resume_turn_once env q s = (v, s') \<Longrightarrow> resume_cache s' = resume_cache s \<and> in_limits s' = in_limits s"
  using side_runner_ops(9) [of env q s] by (simp add: side_def)

lemma cancel_once_keeps:
  "request_cancel_once env q s = (v, s') \<Longrightarrow> cancel_cache s' = cancel_cache s \<and> in_limits s' = in_limits s"
  using side_runner_ops(10) [of env q s] by (simp add: side_def)

text \<open>Resuming is idempotent: a second resume under the same key on the same run, whatever else
  it says and whenever it comes next, gets the first answer, error or not, and changes nothing.\<close>

theorem resume_is_replayed:
  assumes "reach limits L s" "0 < max_idempotency_records limits"
    and "resume_turn env q s = (result, s')" "resume_key q' = resume_key q"
  shows "resume_turn env' q' s' = (result, s')"
proof -
  have ok: "cache_ok (resume_cache s)" "0 < max_idempotency_records (in_limits s)"
    using reach_side [OF assms(1)] assms(2) by (auto simp: idem_inv_def)
  show ?thesis
    unfolding resume_turn_memo [of env' q'] assms(4)
    by (rule resume_replays.memo_replay [OF ok _ assms(3) [unfolded resume_turn_memo]])
      (use ok in \<open>auto dest!: resume_once_keeps\<close>)
qed

theorem resume_is_replayed_witness:
  "\<exists>s'. resume_turn demo_env demo_resume demo3 = (Ok \<lparr>rsm_run_id = 11, rsm_status = Queued, rsm_event_cursor = 4\<rparr>, s')
    \<and> resume_turn demo_env (demo_resume\<lparr>res_gate_resolution_ref := ''gate:2''\<rparr>) s'
        = (Ok \<lparr>rsm_run_id = 11, rsm_status = Queued, rsm_event_cursor = 4\<rparr>, s')"
proof -
  obtain s' where s': "resume_turn demo_env demo_resume demo3
      = (Ok \<lparr>rsm_run_id = 11, rsm_status = Queued, rsm_event_cursor = 4\<rparr>, s')"
    using demo_resume_result by (metis prod.collapse)
  from resume_is_replayed [OF demo_reach(4) _ s', of "demo_resume\<lparr>res_gate_resolution_ref := ''gate:2''\<rparr>" demo_env] s'
  show ?thesis by (simp add: resume_key_def demo_limits_def default_limits_def)
qed

text \<open>Requesting cancellation is idempotent in the same way.\<close>

theorem cancel_is_replayed:
  assumes "reach limits L s" "0 < max_idempotency_records limits"
    and "request_cancel env q s = (result, s')" "cancel_key q' = cancel_key q"
  shows "request_cancel env' q' s' = (result, s')"
proof -
  have ok: "cache_ok (cancel_cache s)" "0 < max_idempotency_records (in_limits s)"
    using reach_side [OF assms(1)] assms(2) by (auto simp: idem_inv_def)
  show ?thesis
    unfolding request_cancel_memo [of env' q'] assms(4)
    by (rule cancel_replays.memo_replay [OF ok _ assms(3) [unfolded request_cancel_memo]])
      (use ok in \<open>auto dest!: cancel_once_keeps\<close>)
qed

theorem cancel_is_replayed_witness:
  "\<exists>r s'. request_cancel demo_env demo_cancel demo2 = (r, s') \<and> request_cancel demo_env demo_cancel s' = (r, s')
    \<and> is_ok r"
proof -
  obtain r s' where s': "request_cancel demo_env demo_cancel demo2 = (r, s')" by (metis surj_pair)
  from cancel_is_replayed [OF demo_reach(3) _ s' refl, of demo_env] s' demo_cancel_result
  show ?thesis by (auto simp: demo_limits_def default_limits_def is_ok_def)
qed

lemma finish_submit_remembers:
  assumes "side s0 = side s" "idem_inv s" "0 < max_idempotency_records (in_limits s)"
    and "hm_get (in_submit_idempotency s) key = None"
  shows "hm_get (in_submit_idempotency (snd (finish_submit key v t s0))) key = Some v"
proof -
  have "cache_ok (submit_cache s0)" "0 < max_idempotency_records (in_limits s0)"
      "hm_get (fst (submit_cache s0)) key = None"
    using assms by (auto simp: side_def idem_inv_def submit_cache_def)
  from submit_replays.remember_look [OF this(1,3,2), of v t] show ?thesis
    by (simp add: finish_submit_def leave_in_flight_def submit_cache_def)
qed

lemma finish_fst [simp]: "fst (finish_submit key v t s) = v"
  by (simp add: finish_submit_def)

lemma leave_in_flight_submits [simp]: "in_submit_idempotency (leave_in_flight key s) = in_submit_idempotency s"
  by (simp add: leave_in_flight_def)

lemma submit_commit_outcome:
  assumes "idem_inv s" "0 < max_idempotency_records (in_limits s)"
  shows "hm_get (in_submit_idempotency (snd (submit_commit env L q res s))) (submit_key q)
      = Some (fst (submit_commit env L q res s))
    \<or> busy_result (fst (submit_commit env L q res s))
       \<and> hm_get (in_submit_idempotency (snd (submit_commit env L q res s))) (submit_key q) = None"
  using assms
  by (auto simp: submit_commit_def busy_result_def Let_def split_beta finish_submit_remembers
      split: option.splits sum.splits)

lemma submit_phase_outcome:
  assumes "idem_inv s" "0 < max_idempotency_records (in_limits s)"
  shows "hm_get (in_submit_idempotency (snd (submit_reject_lineage q s))) (submit_key q)
      = Some (fst (submit_reject_lineage q s))"
    "submit_admission_phase key t adm s = (Some r, s') \<Longrightarrow> hm_get (in_submit_idempotency s') key = Some r"
    "submit_admission_phase key t adm s = (None, s') \<Longrightarrow> s' = s"
  using assms
  by (auto simp: submit_reject_lineage_def submit_admission_phase_def Let_def split_beta finish_submit_remembers
      split: option.splits sum.splits)

lemma submit_turn_outcome:
  assumes "idem_inv s" "0 < max_idempotency_records (in_limits s)"
    and "submit_turn env L policy resolver q s = (Some r, s')"
  shows "hm_get (in_submit_idempotency s') (submit_key q) = Some r
    \<or> busy_result r \<and> hm_get (in_submit_idempotency s') (submit_key q) = None"
proof (cases "submit_begin (submit_key q) s")
  case (Pair b s1)
  have s1: "idem_inv s1" "0 < max_idempotency_records (in_limits s1)"
    using submit_begin_side [of "submit_key q" s] Pair assms(1,2) by (auto simp: side_def idem_inv_def)
  show ?thesis
  proof (cases b)
    case (Replay v)
    with Pair assms(3) show ?thesis by (auto simp: submit_turn_def submit_begin_def split: option.splits if_splits)
  next
    case MustWait
    with Pair assms(3) show ?thesis by (simp add: submit_turn_def)
  next
    case Entered
    obtain p s2 where p: "submit_admission_phase (submit_key q) (sub_received_at q) (policy q) s1 = (p, s2)"
      by (metis surj_pair)
    have "p = None \<Longrightarrow> s2 = s1" "\<And>v. p = Some v \<Longrightarrow> hm_get (in_submit_idempotency s2) (submit_key q) = Some v"
      using p submit_phase_outcome(2,3) [OF s1] by blast+
    then show ?thesis
      using assms(3) Pair Entered p submit_phase_outcome(1) [OF s1, of q]
        submit_commit_outcome [OF s1, of env L q "resolver (profile_request (sub_requested_run_profile q))"]
      by (auto simp: submit_turn_def Let_def split_beta split: if_splits option.splits)
  qed
qed

lemma retryable_submit_turn:
  assumes "retryable s" "submit_turn env L policy resolver q s = (r, s')"
  shows "retryable s'"
proof -
  obtain b s1 where b: "submit_begin (submit_key q) s = (b, s1)" by (metis surj_pair)
  obtain p s2 where p: "submit_admission_phase (submit_key q) (sub_received_at q) (policy q) s1 = (p, s2)"
    by (metis surj_pair)
  have s1: "retryable s1" using assms(1) retryable_side [OF submit_begin_side [of "submit_key q" s]] b by simp
  have s2: "retryable s2" using remembers_inv(1) [OF submit_regions_remember(2) [of s1 "submit_key q" "sub_received_at q" "policy q"] s1] p by simp
  have commit: "retryable (snd (submit_commit env L q res s2))" for res
    by (rule remembers_inv(1) [OF submit_commit_remembers s2])
  have lineage: "retryable (snd (submit_reject_lineage q s1))"
    by (rule remembers_inv(1) [OF submit_regions_remember(1) s1])
  have "s' = snd (submit_turn env L policy resolver q s)" using assms(2) by simp
  then show ?thesis
    by (cases b; cases p; cases "submit_has_lineage q")
      (simp_all add: submit_turn_def b p Let_def split_beta s1 s2 commit lineage)
qed

text \<open>C8. Submitting is idempotent: once a submission has returned, a later submission under the same
  scope and key gets the same answer and changes nothing, except that the answer that the
  thread was busy is never remembered, so that the caller may try again.\<close>

theorem submit_is_replayed:
  assumes "reach limits L s" "0 < max_idempotency_records limits"
    and "submit_turn env L policy resolver q s = (Some result, s')" "submit_key q' = submit_key q"
  shows "if busy_result result then hm_get (in_submit_idempotency s') (submit_key q) = None
    else submit_turn env' L' policy' resolver' q' s' = (Some result, s')"
proof -
  have "idem_inv s" "0 < max_idempotency_records (in_limits s)"
    using reach_side [OF assms(1)] assms(2) by auto
  from submit_turn_outcome [OF this assms(3)] show ?thesis
    using retryable_submit_turn [OF _ assms(3)] reach_retryable [OF assms(1)]
    by (auto simp: submit_turn_def submit_begin_def assms(4) retryable_def submit_cache_def)
qed

theorem submit_is_replayed_witness:
  "\<exists>r s'. submit_turn demo_env demo_L allow_all_admission_policy (\<lambda>_. Ok demo_profile) demo_submit demo1 = (Some r, s')
    \<and> submit_turn demo_env demo_L allow_all_admission_policy (\<lambda>_. Ok demo_profile)
         (demo_submit\<lparr>sub_accepted_message_ref := ''other''\<rparr>) s' = (Some r, s')"
proof -
  have first: "submit_turn demo_env demo_L allow_all_admission_policy (\<lambda>_. Ok demo_profile) demo_submit demo1
      = (Some (Ok demo_response), demo1)"
    by (simp add: submit_turn_def submit_begin_def demo_submits)
  from submit_is_replayed [OF demo_reach(2) _ first, of "demo_submit\<lparr>sub_accepted_message_ref := ''other''\<rparr>"
      demo_env demo_L allow_all_admission_policy "\<lambda>_. Ok demo_profile"] first
  show ?thesis by (auto simp: busy_result_def demo_limits_def default_limits_def submit_key_def)
qed

end
