(* ===== verification/Turn_Operations.thy ===== *)
theory Turn_Operations
  imports Turn_Guarantees
begin

text \<open>
  The functional behaviour of single operations of the store, on every branch: recovery of
  expired leases, cancellation, resumption, terminal transitions, spawn trees and reads.
\<close>

section \<open>Recovery\<close>

lemma recovered_not_expired: "lease_expired_filter q r \<Longrightarrow> \<not> lease_expired_filter q' (recovered_record c r)"
  using recovered_edge(3) [of q r c] by (auto simp: lease_expired_filter_def)

lemma recover_runs:
  assumes "store_inv s" "recover_expired_leases env q s = (recovered, s')"
  shows "set (map rst_run_id recovered) = {k. \<exists>r. hm_get (in_records s) k = Some r \<and> lease_expired_filter q r}"
    and "distinct (map rst_run_id recovered)"
    and "hm_get (in_records s') k = Some r' \<Longrightarrow> \<exists>r. hm_get (in_records s) k = Some r
      \<and> (if lease_expired_filter q r then \<exists>c. r' = recovered_record c r else r' = r)"
    and "hm_get (in_records s) k = Some r \<Longrightarrow> \<not> is_terminal (rr_status r) \<Longrightarrow> \<not> lease_expired_filter q r \<Longrightarrow>
      hm_get (in_records s') k = Some r"
proof -
  note runs = recover_loop_runs [OF expired_runs(1,3) [OF assms(1)], of q env]
  have eq: "recovered = fst (recover_loop env (expired_runs q s) s)"
      "s' = prune_terminal_records (snd (recover_loop env (expired_runs q s) s))"
    using assms(2) by (simp_all add: recover_expired_leases_eq Let_def)
  show "set (map rst_run_id recovered) = {k. \<exists>r. hm_get (in_records s) k = Some r \<and> lease_expired_filter q r}"
    "distinct (map rst_run_id recovered)"
    using runs expired_runs(1,2) [OF assms(1)] by (auto simp: eq)
  show "\<exists>r. hm_get (in_records s) k = Some r
      \<and> (if lease_expired_filter q r then \<exists>c. r' = recovered_record c r else r' = r)"
    if "hm_get (in_records s') k = Some r'"
  proof (cases "k \<in> set (expired_runs q s)")
    case True
    then obtain r where "hm_get (in_records s) k = Some r" "lease_expired_filter q r"
      using expired_runs(2) [OF assms(1)] by blast
    with True runs prune_records [OF that [unfolded eq]] show ?thesis by (metis option.inject)
  next
    case False
    with runs prune_records [OF that [unfolded eq]] have "hm_get (in_records s) k = Some r'" by simp
    with False show ?thesis using expired_runs(2) [OF assms(1)] by auto
  qed
  show "hm_get (in_records s') k = Some r"
    if "hm_get (in_records s) k = Some r" "\<not> is_terminal (rr_status r)" "\<not> lease_expired_filter q r"
  proof -
    have "k \<notin> set (expired_runs q s)" using expired_runs(2) [OF assms(1)] that by auto
    then show ?thesis using runs that(1,2) prune_keeps unfolding eq by auto
  qed
qed



section \<open>Cancellation\<close>

lemma release_frees:
  assumes "store_inv s" "hm_get (in_records s) k = Some r" "\<not> is_terminal (rr_status r)"
    and "rr_scope r' = rr_scope r" "rr_run_id r' = k"
  shows "hm_get (locks_release r' (in_active_locks s)) (lock_key_from (rr_scope r)) = None"
proof -
  obtain l where "hm_get (in_active_locks s) (lock_key_from (rr_scope r)) = Some l" "al_run_id l = k"
    using assms(1-3) unfolding store_inv_def locks_ok_def by blast
  with assms(4,5) show ?thesis by (simp add: locks_release_def)
qed

lemma prune_frame [simp]:
  "in_active_locks (prune_terminal_records s) = in_active_locks s"
  "in_queued_runs (prune_terminal_records s) = in_queued_runs s"
  "in_events (prune_terminal_records s) = in_events s"
  "in_cursor (prune_terminal_records s) = in_cursor s"
  "in_tree_reservations (prune_terminal_records s) = in_tree_reservations s"
  by (simp_all add: prune_terminal_records_def split_beta)

lemma lock_free_not_busy: "hm_get (in_active_locks s) key = None \<Longrightarrow> store_thread_busy key s = None"
  by (simp add: store_thread_busy_def)

text \<open>A cancellation request is answered by the run's state: a foreign scope is not found, another
  actor is not authorised, a terminal run is reported as such, all three without effect; a
  queued or blocked run is cancelled at once, leaves the queue and frees its thread; a
  running run is only marked, keeps its lease and waits for its runner.\<close>

theorem cancel_request_outcomes:
  assumes "reach limits L s" "hm_get (in_records s) (cr_run_id q) = Some r"
    and "request_cancel_once env q s = (res, s')"
  shows "if rr_scope r \<noteq> cr_scope q then refused ScopeNotFound s (res, s')
    else if rr_actor r \<noteq> cr_actor q then refused Unauthorized s (res, s')
    else if is_terminal (rr_status r) then res = Ok (cancel_response r True) \<and> store_equiv s s'
    else if rr_status r \<in> {Running, CancelRequested}
    then res = Ok \<lparr>can_run_id = rr_run_id r, can_status = CancelRequested, can_event_cursor = in_cursor s',
           can_already_terminal = False, can_actor = Some (rr_actor r)\<rparr>
      \<and> hm_get (in_records s') (cr_run_id q) = Some (r\<lparr>rr_status := CancelRequested, rr_event_cursor := in_cursor s'\<rparr>)
    else res = Ok \<lparr>can_run_id = rr_run_id r, can_status = Cancelled, can_event_cursor = in_cursor s',
           can_already_terminal = False, can_actor = Some (rr_actor r)\<rparr>
      \<and> store_thread_busy (lock_key_from (rr_scope r)) s' = None \<and> cr_run_id q \<notin> set (in_queued_runs s')"
proof -
  note inv = reach_inv [OF assms(1)]
  let ?s0 = "s\<lparr>in_records := hm_remove (cr_run_id q) (in_records s)\<rparr>"
  have k: "rr_run_id r = cr_run_id q" using store_inv_run_id [OF inv assms(2)] .
  have take: "take_record (cr_run_id q) s = Ok (r, ?s0)" using assms(2) by (simp add: take_record_def)
  have eqv: "store_equiv s (insert_record r ?s0)" by (rule reinsert_equiv [OF assms(2) k])
  have same: "prune_terminal_records (insert_record r ?s0) = insert_record r ?s0"
    using reach_bound [OF assms(1)] by (intro prune_bounded) simp
  show ?thesis
  proof (cases "rr_scope r = cr_scope q \<and> rr_actor r = cr_actor q \<and> \<not> is_terminal (rr_status r)")
    case False
    then show ?thesis
      using assms(3) take eqv same by (auto simp: request_cancel_once_def refused_def Let_def split: if_splits)
  next
    case True
    have live: "\<not> is_terminal (rr_status r)" using True by blast
    have free: "hm_get (locks_release (r\<lparr>rr_status := Cancelled, rr_failure := None\<rparr>) (in_active_locks s))
        (lock_key_from (rr_scope r)) = None"
      by (rule release_frees [OF inv assms(2) live]) (simp_all add: k)
    from live show ?thesis
    proof (cases rule: cancel_next_cases)
      case terminal
      then show ?thesis
        using assms(3) True take free
        by (auto simp: request_cancel_once_def frame_simps cancel_response_def k Let_def intro!: lock_free_not_busy)
    next
      case cooperative
      then show ?thesis
        using assms(3) True take
        by (auto simp: request_cancel_once_def frame_simps cancel_response_def k Let_def intro!: prune_keeps)
    qed
  qed
qed

theorem cancel_request_outcomes_witness:
  "fst (request_cancel_once demo_env demo_cancel demo2) = Ok \<lparr>can_run_id = 11, can_status = CancelRequested,
     can_event_cursor = in_cursor (snd (request_cancel_once demo_env demo_cancel demo2)),
     can_already_terminal = False, can_actor = Some demo_actor\<rparr>"
  using cancel_request_outcomes [OF demo_reach(3) _ surjective_pairing, of demo_cancel demo_run2 demo_env]
  by (simp add: demo2_fields demo_run2_lease demo_cancel_def)

section \<open>Resumption\<close>

text \<open>C10. A blocked run is resumed only from its own scope, from a status the precondition admits, by
  its own actor and with the gate it waits on; then it is queued again with the gate
  cleared, its reply bindings replaced and everything else kept. In every other case the
  first failed check decides the error and nothing changes.\<close>

theorem resume_outcomes:
  assumes "reach limits L s" "hm_get (in_records s) (res_run_id q) = Some r"
    and "resume_turn_once env q s = (res, s')"
  shows "if rr_scope r \<noteq> res_scope q then refused ScopeNotFound s (res, s')
    else if \<not> resumable_status (res_precondition q) (rr_status r)
    then refused (InvalidTransition (rr_status r) Queued) s (res, s')
    else if rr_actor r \<noteq> res_actor q then refused Unauthorized s (res, s')
    else if rr_gate_ref r \<noteq> Some (res_gate_resolution_ref q)
    then refused (InvalidRequest ''gate resolution reference mismatch'') s (res, s')
    else res = Ok \<lparr>rsm_run_id = res_run_id q, rsm_status = Queued, rsm_event_cursor = in_cursor s'\<rparr>
      \<and> hm_get (in_records s') (res_run_id q) = Some (r\<lparr>rr_status := Queued, rr_gate_ref := None,
           rr_credential_requirements := [], rr_source_binding_ref := res_source_binding_ref q,
           rr_reply_target_binding_ref := res_reply_target_binding_ref q, rr_event_cursor := in_cursor s'\<rparr>)
      \<and> in_queued_runs s' = push_back (in_queued_runs s) (res_run_id q)
      \<and> is_terminal (rr_status r) = False"
proof -
  note inv = reach_inv [OF assms(1)]
  let ?s0 = "s\<lparr>in_records := hm_remove (res_run_id q) (in_records s)\<rparr>"
  have k: "rr_run_id r = res_run_id q" using store_inv_run_id [OF inv assms(2)] .
  have take: "take_record (res_run_id q) s = Ok (r, ?s0)" using assms(2) by (simp add: take_record_def)
  have eqv: "store_equiv s (insert_record r ?s0)" by (rule reinsert_equiv [OF assms(2) k])
  have live: "resumable_status (res_precondition q) (rr_status r) \<Longrightarrow> \<not> is_terminal (rr_status r)"
    using resumable_blocked [of "res_precondition q" "rr_status r"] by auto
  show ?thesis
    using assms(3) take eqv live
    by (auto simp: resume_turn_once_def refused_def frame_simps k Let_def split: if_splits)
qed

theorem resume_outcomes_witness:
  "fst (resume_turn_once demo_env demo_resume demo3) = Ok \<lparr>rsm_run_id = 11, rsm_status = Queued,
     rsm_event_cursor = in_cursor (snd (resume_turn_once demo_env demo_resume demo3))\<rparr>"
  using resume_outcomes [OF demo_reach(4) _ surjective_pairing, of demo_resume demo_run3 demo_env]
  by (simp add: demo3_fields demo_run3_gate demo_resume_def resumable_status_def required_status_def)

section \<open>Finishing a run\<close>

text \<open>What the end of a run leaves behind: its thread is free, it is not queued, its admission
  reservation is released, and the last event of the log announces the end.\<close>

definition finished :: "env \<Rightarrow> turn_run_id \<Rightarrow> turn_status \<Rightarrow> turn_event_kind \<Rightarrow> run_record \<Rightarrow> inner \<Rightarrow> bool" where
  "finished env k st kind r s \<longleftrightarrow>
    store_thread_busy (lock_key_from (rr_scope r)) s = None
    \<and> k \<notin> set (in_queued_runs s)
    \<and> (\<forall>r'. hm_get (in_records s) k = Some r' \<longrightarrow> rr_status r' = st \<and> rr_runner_id r' = None)
    \<and> (\<forall>v. hm_get (in_admission_reservations s) k = Some v \<longrightarrow> rsv_released v)
    \<and> (0 < max_events (in_limits s) \<longrightarrow> in_events s \<noteq> [] \<and> ev_run_id (last (in_events s)) = k
         \<and> ev_status (last (in_events s)) = st \<and> ev_kind (last (in_events s)) = kind
         \<and> ev_cursor (last (in_events s)) = in_cursor s)"

lemma prune_adm: "store_inv s \<Longrightarrow> hm_get (in_admission_reservations (prune_terminal_records s)) k = Some v \<Longrightarrow>
    hm_get (in_admission_reservations s) k = Some v"
  using store_inv_prune [of s] prune_records [of s k]
  by (auto simp: store_inv_def admission_ok_def)

lemma finished_prune:
  assumes inv: "store_inv s" and fin: "finished env k st kind r s"
  shows "finished env k st kind r (prune_terminal_records s)"
proof -
  have "store_thread_busy (lock_key_from (rr_scope r)) (prune_terminal_records s) = None"
    using fin thread_not_busy [OF inv] by (intro lock_free_not_busy) (simp add: finished_def)
  moreover have "in_limits (prune_terminal_records s) = in_limits s"
    by (simp add: prune_terminal_records_def split_beta)
  moreover have "\<forall>r'. hm_get (in_records (prune_terminal_records s)) k = Some r' \<longrightarrow> rr_status r' = st \<and> rr_runner_id r' = None"
    using fin prune_records [of s k] unfolding finished_def by blast
  moreover have "\<forall>v. hm_get (in_admission_reservations (prune_terminal_records s)) k = Some v \<longrightarrow> rsv_released v"
    using fin prune_adm [OF inv, of k] unfolding finished_def by blast
  ultimately show ?thesis
    using fin unfolding finished_def prune_frame by presburger
qed

lemma log_push_last:
  "0 < cap \<Longrightarrow> snd (log_push cap fl events e) \<noteq> [] \<and> last (snd (log_push cap fl events e)) = e"
  by (auto simp: log_push_def last_drop)

lemma adm_release_released: "hm_get (adm_release k adm) k = Some v \<Longrightarrow> rsv_released v"
  by (auto simp: adm_release_def split: option.splits)

lemma terminalize_finished:
  assumes "terminalize env st f kind d r (s\<lparr>in_records := hm_remove k (in_records s)\<rparr>) = (r', s')"
    and "store_inv s" "hm_get (in_records s) k = Some r" "\<not> is_terminal (rr_status r)"
  shows "finished env k st kind r (insert_record r' s')"
  unfolding finished_def
proof (intro conjI allI impI)
  have k: "rr_run_id r = k" using store_inv_run_id [OF assms(2,3)] .
  let ?c = "saturating_add (in_cursor s) 1"
  let ?e = "event_of_record env r' kind d"
  have r': "r' = terminal_record st f ?c r" using assms(1) by (simp add: terminalize_eq Let_def)
  have s': "in_active_locks (insert_record r' s') = locks_release r' (in_active_locks s)"
    "in_queued_runs (insert_record r' s') = filter (\<lambda>q. q \<noteq> k) (in_queued_runs s)"
    "in_admission_reservations (insert_record r' s') = adm_release k (in_admission_reservations s)"
    "in_records (insert_record r' s') = put_record r' (in_records s)"
    "in_limits (insert_record r' s') = in_limits s" "in_cursor (insert_record r' s') = ?c"
    "in_events (insert_record r' s') = snd (log_push (max_events (in_limits s)) (in_event_retention_floor s) (in_events s) ?e)"
    using assms(1) k by (auto simp: terminalize_eq insert_record_def put_record_def Let_def)
  have "hm_get (locks_release r' (in_active_locks s)) (lock_key_from (rr_scope r)) = None"
    by (rule release_frees [OF assms(2-4)]) (simp_all add: r' k)
  then show "store_thread_busy (lock_key_from (rr_scope r)) (insert_record r' s') = None"
    by (intro lock_free_not_busy) (simp add: s')
  show "k \<notin> set (in_queued_runs (insert_record r' s'))" by (simp add: s')
  show "rr_status x = st" "rr_runner_id x = None" if "hm_get (in_records (insert_record r' s')) k = Some x" for x
    using that k unfolding s' by (auto simp: r' terminal_record_def)
  show "rsv_released v" if "hm_get (in_admission_reservations (insert_record r' s')) k = Some v" for v
    using that adm_release_released by (simp add: s')
  assume "0 < max_events (in_limits (insert_record r' s'))"
  then show "in_events (insert_record r' s') \<noteq> []" "ev_run_id (last (in_events (insert_record r' s'))) = k"
    "ev_status (last (in_events (insert_record r' s'))) = st" "ev_kind (last (in_events (insert_record r' s'))) = kind"
    "ev_cursor (last (in_events (insert_record r' s'))) = in_cursor (insert_record r' s')"
    using k by (simp_all add: s' log_push_last) (simp_all add: event_of_record_def r')
qed

lemma terminal_transition_finished:
  assumes "store_inv s" "is_terminal st" "terminal_transition env k runner token st f kind s = (Ok st', s')"
  shows "\<exists>r. hm_get (in_records s) k = Some r \<and> rr_status r = Running \<and> finished env k st kind r s' \<and> rst_status st' = st"
  using assms(1)
proof (cases rule: take_record_cases [where k = k])
  case missing
  then show ?thesis using assms(3) by (simp add: terminal_transition_def)
next
  case (found r)
  obtain r' s1 where t: "terminalize env st f kind f r (s\<lparr>in_records := hm_remove k (in_records s)\<rparr>) = (r', s1)"
    by (metis surj_pair)
  obtain u where lease: "ensure_active_lease r runner token (env_now env) = Ok u" "\<not> is_terminal (rr_status r)"
      "rr_status r \<noteq> CancelRequested" "s' = prune_terminal_records (insert_record r' s1)" "st' = run_state r'"
    using assms(3) found t by (auto simp: terminal_transition_def Let_def split: sum.splits if_splits)
  have "rr_status r' = st" using t by (auto simp: terminalize_eq Let_def)
  then show ?thesis
    using found(1) lease lease_status [OF assms(1) found(1) lease(1)] assms(2)
      finished_prune [OF terminalize_invD [OF t assms(1) found(1)] terminalize_finished [OF t assms(1) found(1)]]
    by (auto simp: run_state_def)
qed

lemma cancel_completion_finished:
  assumes "store_inv s" "cancel_completion_transition env q s = (Ok st', s')"
  shows "\<exists>r. hm_get (in_records s) (lr_run_id q) = Some r \<and> rr_status r = CancelRequested
    \<and> finished env (lr_run_id q) Cancelled EvCancelled r s'"
  using assms(1)
proof (cases rule: take_record_cases [where k = "lr_run_id q"])
  case missing
  then show ?thesis using assms(2) by (simp add: cancel_completion_transition_def)
next
  case (found r)
  obtain r' s1 where t: "terminalize env Cancelled None EvCancelled None r
      (s\<lparr>in_records := hm_remove (lr_run_id q) (in_records s)\<rparr>) = (r', s1)"
    by (metis surj_pair)
  have "rr_status r = CancelRequested" "s' = prune_terminal_records (insert_record r' s1)"
    using assms(2) found t by (auto simp: cancel_completion_transition_def Let_def split: sum.splits if_splits)
  then show ?thesis
    using found(1) finished_prune [OF terminalize_invD [OF t assms(1) found(1)] terminalize_finished [OF t assms(1) found(1)]]
    by auto
qed

text \<open>When a runner completes, fails or cancels a run, the run was running (or, for the
  cancellation, was asked to stop), and afterwards its thread is free, it is not queued, its
  reservation is released, it holds no lease, and the log ends with the matching event.\<close>

theorem finishing_releases_everything:
  assumes "reach limits L s"
  shows "(\<forall>st s'. complete_run env q s = (Ok st, s') \<longrightarrow>
      (\<exists>r. hm_get (in_records s) (lr_run_id q) = Some r \<and> rr_status r = Running
        \<and> finished env (lr_run_id q) Completed EvCompleted r s' \<and> rst_status st = Completed))
    \<and> (\<forall>st s'. fail_run env fq s = (Ok st, s') \<longrightarrow>
      (\<exists>r. hm_get (in_records s) (lr_run_id fq) = Some r \<and> rr_status r = Running
        \<and> finished env (lr_run_id fq) Failed EvFailed r s' \<and> rst_status st = Failed))
    \<and> (\<forall>st s'. cancel_run env q s = (Ok st, s') \<longrightarrow>
      (\<exists>r. hm_get (in_records s) (lr_run_id q) = Some r \<and> rr_status r = CancelRequested
        \<and> finished env (lr_run_id q) Cancelled EvCancelled r s'))"
  unfolding complete_run_def fail_run_def cancel_run_def
  by (intro conjI allI impI)
    ((rule terminal_transition_finished [OF reach_inv [OF assms]], simp, assumption)+,
     rule cancel_completion_finished [OF reach_inv [OF assms]])

theorem finishing_releases_everything_witness:
  "\<exists>r. hm_get (in_records demo2) 11 = Some r \<and> finished demo_env 11 Completed EvCompleted r (snd (complete_run demo_env demo_lease demo2))"
proof -
  obtain st s1 where fin: "complete_run demo_env demo_lease demo2 = (Ok st, s1)"
    by (simp add: complete_run_def terminal_transition_def take_record_def demo_lease_def demo2_fields ensure_active_lease_def
      demo_run2_lease demo_env_def Let_def split_beta)
  from finishing_releases_everything [OF demo_reach(3), of demo_env demo_lease, THEN conjunct1, rule_format, OF fin] fin
  show ?thesis by (auto simp: demo_lease_def)
qed

section \<open>Spawn trees\<close>

lemma finish_submit_tree [simp]: "in_tree_reservations (snd (finish_submit key v t s)) = in_tree_reservations s"
  by (simp add: finish_submit_def leave_in_flight_def remember_submit_frame Let_def)

lemma accept_run_tree [simp]: "in_tree_reservations (snd (accept_run env a s)) = in_tree_reservations s"
  by (simp add: accept_run_def frame_simps Let_def)

lemma restore_tree_get:
  "hm_get (in_tree_reservations (restore_tree_count key (tree_count key s) (set_tree_count key n s)))
    = hm_get (in_tree_reservations s)" if "\<forall>m. hm_get (in_tree_reservations s) key = Some m \<longrightarrow> m \<noteq> 0"
  using that by (auto simp: restore_tree_count_def set_tree_count_def tree_count_def fun_eq_iff split: option.splits)

text \<open>The outcomes of committing a child run that matter to its spawn tree.\<close>

lemma submit_child_commit_cases:
  assumes inv: "store_inv s" and new: "hm_get (in_submit_idempotency s) (child_key q) = None"
  obtains (rejected) e where "fst (submit_child_commit env L q res s) = Err e"
      "hm_get (in_tree_reservations (snd (submit_child_commit env L q res s))) = hm_get (in_tree_reservations s)"
      "in_records (snd (submit_child_commit env L q res s)) = in_records s"
  | (accepted) parent root n k c resp a where "fst (submit_child_commit env L q res s) = Ok resp"
      "check_parent q s = Ok parent" "check_root q parent s = Ok root"
      "next_tree_count (tree_count (spawn_tree_key (chd_child_scope q) root) s) (chd_spawn_tree_descendant_cap q) = Some n"
      "in_tree_reservations (snd (submit_child_commit env L q res s))
        = hm_insert (spawn_tree_key (chd_child_scope q) root) n (in_tree_reservations s)"
      "in_records (snd (submit_child_commit env L q res s)) = hm_insert k (queued_record env a c) (in_records s)"
      "ar_parent_run_id a = Some (rr_run_id parent)" "ar_subagent_depth a = rr_subagent_depth parent + 1"
      "ar_spawn_tree_root_run_id a = Some root" "ar_scope a = chd_child_scope q"
      "ar_run_id a = k" "acc_run_id resp = k" "hm_get (in_records s) k = None"
proof -
  let ?k = "case chd_requested_run_id q of Some i \<Rightarrow> i | None \<Rightarrow> env_run_id env"
  let ?scope = "chd_child_scope q" and ?cap = "chd_spawn_tree_descendant_cap q"
  let ?out = "submit_child_commit env L q res s"
  have nz: "\<forall>m. hm_get (in_tree_reservations s) key = Some m \<longrightarrow> m \<noteq> 0" for key
    using inv unfolding store_inv_def tree_ok_def by (metis less_irrefl)
  have early: thesis if "\<exists>e. fst ?out = Err e" "in_tree_reservations (snd ?out) = in_tree_reservations s"
      "in_records (snd ?out) = in_records s"
    using that rejected by auto
  have stay: thesis
    if "(\<exists>e. res = Err e) \<or> (\<exists>e. check_parent q s = Err e)
      \<or> (\<exists>parent. check_parent q s = Ok parent \<and> ((\<exists>e. check_root q parent s = Err e)
          \<or> store_thread_busy (lock_key_from ?scope) s \<noteq> None \<or> hm_contains_key ?k (in_records s)
          \<or> (\<exists>root. check_root q parent s = Ok root \<and>
               next_tree_count (tree_count (spawn_tree_key ?scope root) s) ?cap = None)))"
    using that new
    by (intro early) (auto simp: submit_child_commit_def leave_in_flight_def Let_def split: option.splits sum.splits)
  show thesis
  proof (cases "\<exists>resolved parent root n. res = Ok resolved \<and> check_parent q s = Ok parent \<and> check_root q parent s = Ok root
      \<and> store_thread_busy (lock_key_from ?scope) s = None \<and> \<not> hm_contains_key ?k (in_records s)
      \<and> next_tree_count (tree_count (spawn_tree_key ?scope root) s) ?cap = Some n")
    case False
    then show thesis using stay by (metis option.exhaust sum.exhaust)
  next
    case True
    then obtain resolved parent root n where go: "res = Ok resolved" "check_parent q s = Ok parent"
      "check_root q parent s = Ok root" "store_thread_busy (lock_key_from ?scope) s = None"
      "\<not> hm_contains_key ?k (in_records s)"
      "next_tree_count (tree_count (spawn_tree_key ?scope root) s) ?cap = Some n" by blast
    define key where "key = spawn_tree_key ?scope root"
    define a where "a = \<lparr>ar_scope = ?scope, ar_actor = chd_actor q,
        ar_accepted_message_ref = chd_accepted_message_ref q,
        ar_source_binding_ref = chd_source_binding_ref q,
        ar_reply_target_binding_ref = chd_reply_target_binding_ref q,
        ar_received_at = chd_received_at q, ar_profile = from_resolved resolved, ar_run_id = ?k,
        ar_parent_run_id = Some (rr_run_id parent), ar_subagent_depth = rr_subagent_depth parent + 1,
        ar_spawn_tree_root_run_id = Some root\<rparr>"
    define s1 where "s1 = snd (reserve_admission L ?k (tp_admission_class (from_resolved resolved)) ?scope (chd_actor q)
          (set_tree_count key n s))"
    show thesis
    proof (cases rule: reserve_admission_cases [of L ?k "tp_admission_class (from_resolved resolved)" ?scope
          "chd_actor q" "set_tree_count key n s"])
      case (rejected rej)
      then have "?out = finish_submit (child_key q) (Err (AdmissionRejected rej)) (chd_received_at q)
          (restore_tree_count key (tree_count key s) (set_tree_count key n s))"
        using go new by (simp add: submit_child_commit_def key_def Let_def)
      then show thesis
        by (intro that(1)) (simp_all add: restore_tree_get nz)
    next
      case reserved
      have out: "?out = finish_submit (child_key q) (Ok (fst (accept_run env a s1))) (chd_received_at q)
          (snd (accept_run env a s1))"
        using go new reserved(1)
        by (simp add: submit_child_commit_def key_def a_def s1_def Let_def split_beta)
      have s1: "in_records s1 = in_records s" "in_tree_reservations s1 = hm_insert key n (in_tree_reservations s)"
        using reserved(1) by (simp_all add: s1_def set_tree_count_def)
      obtain c where c: "in_records (snd (accept_run env a s1)) = hm_insert ?k (queued_record env a c) (in_records s)"
        using accept_run_records [of env a s1] by (auto simp: s1 a_def)
      have resp: "acc_run_id (fst (accept_run env a s1)) = ?k" by (simp add: accept_run_def a_def Let_def split_beta)
      have "hm_get (in_records s) ?k = None" using go(5) by (auto simp: hm_contains_key_def)
      then show thesis
        using go(2,3,6) out c resp s1
        by (intro that(2) [of "fst (accept_run env a s1)" parent root n ?k a c]) (simp_all add: a_def key_def)
    qed
  qed
qed

lemma depth_successor: "d \<noteq> - 1 \<Longrightarrow> unat (d + 1 :: u32) = unat d + 1"
  using unatSuc [of d] by (metis Suc_eq_plus1 add.commute add.right_inverse add_left_cancel)

text \<open>C11. Spawning a child run either happens completely or not at all. When it is accepted, the child
  is queued one level below its parent in the same tree, inside the same tenant, agent and
  project, and the tree's count grows by exactly one without passing the cap; when it is
  refused for any reason, no run and no tree count has changed.\<close>

theorem child_spawn_is_atomic:
  assumes "reach limits L s" "hm_get (in_submit_idempotency s) (child_key q) = None"
    and "submit_child_commit env L q res s = (result, s')"
  shows "case result of
      Ok resp \<Rightarrow> (\<exists>parent child root n. hm_get (in_records s) (chd_parent_run_id q) = Some parent
        \<and> rr_scope parent = chd_parent_scope q \<and> same_scope_envelope (rr_scope parent) (chd_child_scope q)
        \<and> hm_get (in_records s') (acc_run_id resp) = Some child \<and> hm_get (in_records s) (acc_run_id resp) = None
        \<and> rr_status child = Queued \<and> rr_scope child = chd_child_scope q
        \<and> rr_parent_run_id child = Some (chd_parent_run_id q)
        \<and> unat (rr_subagent_depth child) = unat (rr_subagent_depth parent) + 1
        \<and> root = root_of parent \<and> rr_spawn_tree_root_run_id child = Some root
        \<and> hm_get (in_tree_reservations s') (spawn_tree_key (chd_child_scope q) root) = Some n
        \<and> unat n = unat (tree_count (spawn_tree_key (chd_child_scope q) root) s) + 1
        \<and> unat n \<le> unat (chd_spawn_tree_descendant_cap q))
    | Err e \<Rightarrow> in_records s' = in_records s \<and> hm_get (in_tree_reservations s') = hm_get (in_tree_reservations s)"
  using reach_inv [OF assms(1)] assms(2)
proof (cases rule: submit_child_commit_cases [where env = env and L = L and res = res])
  case (rejected e)
  then show ?thesis using assms(3) by simp
next
  case (accepted parent root n k c resp a)
  note parent = check_parent_Ok [OF reach_inv [OF assms(1)] accepted(2)]
  have root: "root = root_of parent"
    using accepted(3) by (auto simp: check_root_def split: option.splits if_splits)
  have cap: "unat n \<le> unat (chd_spawn_tree_descendant_cap q)"
    using next_tree_count_Some(3) [OF accepted(4)] by (simp add: word_le_nat_alt unat_ucast_u32)
  have s': "s' = snd (submit_child_commit env L q res s)" "result = Ok resp" using assms(3) accepted(1) by simp_all
  show ?thesis
    unfolding s' sum.case
    by (rule exI [of _ parent], rule exI [of _ "queued_record env a c"], rule exI [of _ root], rule exI [of _ n])
      (use accepted parent root cap next_tree_count_Some(4) [OF accepted(4)] depth_successor [OF parent(5)]
        in \<open>simp add: queued_record_def\<close>)
qed

section \<open>A scenario with a child\<close>

definition demo_free :: inner where
  "demo_free = snd (submit_commit demo_env allow_all_limit_for demo_submit (Ok demo_profile) demo0)"

definition demo_child :: submit_child_run_request where
  "demo_child = \<lparr>chd_parent_scope = demo_scope, chd_parent_run_id = 11, chd_child_scope = turn_scope_new ''t'' None None ''child'',
     chd_actor = demo_actor, chd_accepted_message_ref = ''m2'', chd_source_binding_ref = ''src'',
     chd_reply_target_binding_ref = ''dst'', chd_requested_run_profile = None, chd_idempotency_key = ''k'',
     chd_received_at = 95, chd_requested_run_id = Some 12, chd_spawn_tree_descendant_cap = 2\<rparr>"

lemma demo_free_reach: "reach demo_limits allow_all_limit_for demo_free"
  unfolding demo_free_def demo0_def by (rule reach_step [OF reach_init commit_submit])

lemma allow_all_checks [simp]: "check_buckets allow_all_limit_for count bs = Ok ()"
  by (induction bs) (simp_all add: allow_all_limit_for_def unlimited_def)

lemma demo_free_fields:
  "hm_get (in_records demo_free) = [11 \<mapsto> demo_run1]" "hm_get (in_tree_reservations demo_free) = Map.empty"
  by (simp_all add: demo_free_def demo_run1_def demo_defs submit_commit_def store_thread_busy_def reserve_admission_def
    accept_run_def next_cursor_def push_event_def push_queued_run_def hm_contains_key_def saturating_add_def fun_eq_iff Let_def)

lemma demo_free_cache: "\<exists>v. submit_cache demo_free = cache_remember 10000 (submit_key demo_submit) v ([], [])"
proof -
  have [simp]: "submit_cache (s\<lparr>in_submit_in_flight := x\<rparr>) = submit_cache s" for s x by (simp add: submit_cache_def)
  have [simp]: "submit_cache (snd (accept_run env a s)) = submit_cache s" for env a s
    using side_accept [of env a s] by (simp add: side_def)
  have [simp]: "in_limits (snd (accept_run env a s)) = in_limits s" for env a s
    using side_accept [of env a s] by (simp add: side_def)
  show ?thesis
    by (simp add: demo_free_def submit_commit_def store_thread_busy_def reserve_admission_def hm_contains_key_def
      finish_submit_def leave_in_flight_def remember_caches demo0_def with_limits_def demo_limits_def default_limits_def
      Let_def split_beta) (auto simp: submit_cache_def)
qed

lemma demo_child_accepted:
  "\<exists>resp. fst (submit_child_commit demo_env allow_all_limit_for demo_child (Ok demo_profile) demo_free) = Ok resp"
  "hm_get (in_submit_idempotency demo_free) (child_key demo_child) = None"
proof -
  have scope: "chd_child_scope demo_child \<noteq> demo_scope" by (simp add: demo_child_def demo_scope_def turn_scope_new_def)
  have ok: "cache_ok ([], [])" by (simp add: cache_ok_def order_ok_def)
  have "child_key demo_child \<noteq> submit_key demo_submit"
    using scope by (simp add: child_key_def submit_key_def demo_run2_lease)
  moreover obtain v where v: "submit_cache demo_free = cache_remember 10000 (submit_key demo_submit) v ([], [])"
    using demo_free_cache ..
  ultimately have "hm_get (fst (submit_cache demo_free)) (child_key demo_child) \<noteq> Some w" for w
    using cache_remember_only [OF ok, of 10000 "submit_key demo_submit" v "child_key demo_child" w] unfolding v by auto
  then have "hm_get (fst (submit_cache demo_free)) (child_key demo_child) = None" by blast
  then show new: "hm_get (in_submit_idempotency demo_free) (child_key demo_child) = None" by (simp add: submit_cache_def)
  have "locks_ok (in_records demo_free) (in_active_locks demo_free)"
    using reach_inv [OF demo_free_reach] by (simp add: store_inv_def)
  moreover have "hm_get (in_records demo_free) k = Some r \<Longrightarrow> rr_scope r = demo_scope" for k r
    by (auto simp: demo_free_fields demo_run1_def split: if_splits)
  ultimately have "hm_get (in_active_locks demo_free) (lock_key_from (chd_child_scope demo_child)) \<noteq> Some l" for l
    using scope unfolding locks_ok_def lock_key_scope [symmetric] by metis
  then have "hm_get (in_active_locks demo_free) (lock_key_from (chd_child_scope demo_child)) = None" by blast
  then have busy: "store_thread_busy (lock_key_from (chd_child_scope demo_child)) demo_free = None"
    by (rule lock_free_not_busy)
  show "\<exists>resp. fst (submit_child_commit demo_env allow_all_limit_for demo_child (Ok demo_profile) demo_free) = Ok resp"
    using new busy
    by (simp add: submit_child_commit_def check_parent_def visible_parent_def demo_free_fields demo_run1_def queued_record_def
      check_root_def root_of_def next_tree_count_def tree_count_def checked_add_def reserve_admission_def
      hm_contains_key_def Let_def split_beta demo_child_def demo_scope_def turn_scope_new_def same_scope_envelope_def)
qed

theorem child_spawn_is_atomic_witness:
  "\<exists>child resp s'. submit_child_commit demo_env allow_all_limit_for demo_child (Ok demo_profile) demo_free = (Ok resp, s')
    \<and> hm_get (in_records s') (acc_run_id resp) = Some child \<and> rr_parent_run_id child = Some 11
    \<and> rr_spawn_tree_root_run_id child = Some 11"
proof -
  obtain resp s' where out: "submit_child_commit demo_env allow_all_limit_for demo_child (Ok demo_profile) demo_free = (Ok resp, s')"
    using demo_child_accepted(1) by (metis prod.collapse)
  from child_spawn_is_atomic [OF demo_free_reach demo_child_accepted(2) out] out
  show ?thesis by (auto simp: demo_free_fields demo_run1_def queued_record_def root_of_def demo_child_def)
qed

end
