(* ===== verification/Turn_Reads.thy ===== *)
theory Turn_Reads
  imports Turn_Operations
begin

text \<open>
  Guarantees about spawn-tree capacity and about reading the store: reserving and
  releasing descendants are inverse, every count belongs to a retained root, and a
  reader of another scope cannot tell a hidden run from a missing one.
\<close>

section \<open>Tree capacity\<close>

lemma canonical_root_run:
  assumes "canonical_root scope k s = Ok root"
  obtains r where "hm_get (in_records s) k = Some r" "rr_run_id r = root" "root_of r = root"
    "same_scope_envelope (rr_scope r) scope"
  using assms by (auto simp: canonical_root_def split: option.splits if_splits)

lemma canonical_root_set_tree [simp]:
  "canonical_root scope k (s\<lparr>in_tree_reservations := t\<rparr>) = canonical_root scope k s"
  by (simp add: canonical_root_def)

lemma reserve_Ok:
  assumes "reserve_tree_descendants scope k d cap s = (Ok v, s')"
  shows "\<exists>root n. 0 < d \<and> canonical_root scope k s = Ok root \<and> n = tree_count (spawn_tree_key scope root) s + ucast d
    \<and> unat n = unat (tree_count (spawn_tree_key scope root) s) + unat d \<and> unat n \<le> unat cap
    \<and> v = \<lparr>stv_scope = scope, stv_root_run_id = root, stv_descendant_count = n\<rparr>
    \<and> s' = s\<lparr>in_tree_reservations := hm_insert (spawn_tree_key scope root) n (in_tree_reservations s)\<rparr>"
proof -
  obtain root n where root: "canonical_root scope k s = Ok root" "d \<noteq> 0" "\<not> ucast cap < n"
    and n: "checked_add (tree_count (spawn_tree_key scope root) s) (ucast d) = Some n"
    and out: "v = \<lparr>stv_scope = scope, stv_root_run_id = root, stv_descendant_count = n\<rparr>"
      "s' = set_tree_count (spawn_tree_key scope root) n s"
    using assms by (auto simp: reserve_tree_descendants_def Let_def split: sum.splits option.splits if_splits)
  have "unat n \<le> unat cap" using root(3) by (simp add: word_less_nat_alt not_less)
  then show ?thesis
    using root(1,2) out checked_add_unat [OF n] n
    by (auto simp: word_gt_0 set_tree_count_def checked_add_Some)
qed

text \<open>A root whose count drops to zero is retired; in a consistent store whose root is still
  listed as terminal, or still live, this changes nothing.\<close>

lemma retire_root_listed:
  assumes "record_is_terminal (in_records s) root \<Longrightarrow> root \<in> set (in_terminal_runs s)"
  shows "retire_root root s = s"
  using assms by (auto simp: retire_root_def)

lemma terminal_root_listed:
  assumes inv: "store_inv s" and root: "canonical_root scope k s = Ok root"
    and free: "hm_get (in_tree_reservations s) (spawn_tree_key scope root) = None"
    and "record_is_terminal (in_records s) root"
  shows "root \<in> set (in_terminal_runs s)"
proof (rule ccontr)
  assume "root \<notin> set (in_terminal_runs s)"
  then obtain key n where key: "hm_get (in_tree_reservations s) key = Some n" "stk_root_run_id key = root"
    using inv assms(4) unfolding store_inv_def terminal_ok_def by blast
  then obtain r where r: "hm_get (in_records s) root = Some r" "key = spawn_tree_key (rr_scope r) root"
    using inv unfolding store_inv_def tree_ok_def by metis
  obtain r' where r': "hm_get (in_records s) k = Some r'" "rr_run_id r' = root" "same_scope_envelope (rr_scope r') scope"
    using canonical_root_run [OF root] by metis
  then have "k = root" using inv by (auto simp: store_inv_def records_ok_def)
  then have "spawn_tree_key (rr_scope r) root = spawn_tree_key scope root"
    using r r' by (simp add: spawn_tree_key_def same_scope_envelope_def)
  then show False using key r free by simp
qed

text \<open>Releasing what was just reserved restores the store: the tree map answers every lookup as
  before and no other field differs. The reservation itself grows the count by exactly the
  requested number of descendants, without overflow and within the cap.\<close>

theorem reserve_then_release:
  assumes "reach limits L s" "reserve_tree_descendants scope k d cap s = (Ok v, s')"
  shows "\<exists>t. unat (stv_descendant_count v) = unat (tree_count (spawn_tree_key scope (stv_root_run_id v)) s) + unat d
    \<and> unat (stv_descendant_count v) \<le> unat cap
    \<and> release_tree_descendants scope k d s' = (Ok (), s\<lparr>in_tree_reservations := t\<rparr>)
    \<and> hm_get t = hm_get (in_tree_reservations s)"
proof -
  obtain root n where o: "0 < d" "canonical_root scope k s = Ok root"
    "n = tree_count (spawn_tree_key scope root) s + ucast d"
    "unat n = unat (tree_count (spawn_tree_key scope root) s) + unat d" "unat n \<le> unat cap"
    "v = \<lparr>stv_scope = scope, stv_root_run_id = root, stv_descendant_count = n\<rparr>"
    "s' = s\<lparr>in_tree_reservations := hm_insert (spawn_tree_key scope root) n (in_tree_reservations s)\<rparr>"
    using reserve_Ok [OF assms(2)] by blast
  let ?key = "spawn_tree_key scope root" let ?old = "tree_count ?key s"
  let ?t = "if ?old = 0 then hm_remove ?key (hm_insert ?key n (in_tree_reservations s))
    else hm_insert ?key ?old (hm_insert ?key n (in_tree_reservations s))"
  have inv: "store_inv s" using assms(1) by (rule reach_inv)
  have pos: "hm_get (in_tree_reservations s) ?key = Some m \<Longrightarrow> 0 < m" for m
    using inv unfolding store_inv_def tree_ok_def by blast
  have old: "n - ucast d = ?old" "\<not> n < ucast d" using o(3,4) by (simp_all add: word_less_nat_alt)
  have get: "hm_get ?t = hm_get (in_tree_reservations s)"
    using pos by (auto simp: fun_eq_iff tree_count_def split: option.splits)
  have retire: "retire_root root (s\<lparr>in_tree_reservations := t\<rparr>) = s\<lparr>in_tree_reservations := t\<rparr>" if "?old = 0" for t
  proof (rule retire_root_listed)
    have "hm_get (in_tree_reservations s) ?key = None"
      using that pos by (auto simp: tree_count_def split: option.splits)
    then show "record_is_terminal (in_records (s\<lparr>in_tree_reservations := t\<rparr>)) root
        \<Longrightarrow> root \<in> set (in_terminal_runs (s\<lparr>in_tree_reservations := t\<rparr>))"
      using terminal_root_listed [OF inv o(2)] by simp
  qed
  have "release_tree_descendants scope k d s' = (Ok (), s\<lparr>in_tree_reservations := ?t\<rparr>)"
    using old o(2) retire by (simp add: release_tree_descendants_def o(7) Let_def set_tree_count_def)
  then show ?thesis using get o(4-6) by auto
qed

lemma demo_reserve:
  "reserve_tree_descendants demo_scope 11 2 3 demo_free
    = (Ok \<lparr>stv_scope = demo_scope, stv_root_run_id = 11, stv_descendant_count = 2\<rparr>,
       set_tree_count (spawn_tree_key demo_scope 11) 2 demo_free)"
  by (simp add: reserve_tree_descendants_def canonical_root_def demo_free_fields demo_run1_def queued_record_def
    root_of_def same_scope_envelope_def tree_count_def checked_add_def)

theorem reserve_then_release_witness:
  "\<exists>t. release_tree_descendants demo_scope 11 2 (set_tree_count (spawn_tree_key demo_scope 11) 2 demo_free)
      = (Ok (), demo_free\<lparr>in_tree_reservations := t\<rparr>) \<and> hm_get t = Map.empty"
  using reserve_then_release [OF demo_free_reach demo_reserve] by (auto simp: demo_free_fields)

text \<open>A tree count is never zero, always belongs to a run the store still holds, and is filed
  under that run's own tenant, agent and project; the count the store reports for a tree is
  therefore the count of the tree's retained root. Releasing more than is reserved is refused
  and changes nothing.\<close>

theorem tree_counts_have_roots:
  assumes "reach limits L s" "hm_get (in_tree_reservations s) key = Some n"
  shows "0 < n \<and> (\<exists>root. hm_get (in_records s) (stk_root_run_id key) = Some root
      \<and> key = spawn_tree_key (rr_scope root) (stk_root_run_id key)
      \<and> (n < ucast d \<and> same_scope_envelope (rr_scope root) scope \<and> root_of root = rr_run_id root \<longrightarrow>
          release_tree_descendants scope (stk_root_run_id key) d s
            = (Err (InvalidRequest ''release delta exceeds current reservation count''), s)))"
proof -
  obtain r where r: "0 < n" "hm_get (in_records s) (stk_root_run_id key) = Some r"
      "key = spawn_tree_key (rr_scope r) (stk_root_run_id key)" "rr_run_id r = stk_root_run_id key"
    using reach_inv [OF assms(1)] assms(2) unfolding store_inv_def tree_ok_def records_ok_def by metis
  have "release_tree_descendants scope (stk_root_run_id key) d s
      = (Err (InvalidRequest ''release delta exceeds current reservation count''), s)"
    if over: "n < ucast d" "same_scope_envelope (rr_scope r) scope" "root_of r = rr_run_id r"
  proof -
    have "spawn_tree_key scope (stk_root_run_id key) = key"
      using over(2) by (subst (2) r(3)) (simp add: spawn_tree_key_def same_scope_envelope_def)
    then show ?thesis
      using over r assms(2) by (simp add: release_tree_descendants_def canonical_root_def Let_def)
  qed
  then show ?thesis using r by blast
qed

theorem tree_counts_have_roots_witness:
  "\<exists>s. reach demo_limits allow_all_limit_for s
    \<and> hm_get (in_tree_reservations s) (spawn_tree_key demo_scope 11) = Some 2
    \<and> release_tree_descendants demo_scope 11 3 s
        = (Err (InvalidRequest ''release delta exceeds current reservation count''), s)"
proof -
  let ?s = "set_tree_count (spawn_tree_key demo_scope 11) 2 demo_free"
  have reach: "reach demo_limits allow_all_limit_for ?s"
    using reach_step [OF demo_free_reach reserve_tree [where scope = demo_scope and k = 11 and delta = 2 and dcap = 3]]
    by (simp add: demo_reserve)
  have count: "hm_get (in_tree_reservations ?s) (spawn_tree_key demo_scope 11) = Some 2"
    by (simp add: set_tree_count_def)
  have root: "stk_root_run_id (spawn_tree_key demo_scope 11) = 11" "hm_get (in_records ?s) 11 = Some demo_run1"
    by (simp_all add: spawn_tree_key_def set_tree_count_def demo_free_fields)
  have run: "rr_scope demo_run1 = demo_scope" "root_of demo_run1 = rr_run_id demo_run1"
    by (simp_all add: demo_run1_def queued_record_def root_of_def)
  from tree_counts_have_roots [OF reach count, of 3 demo_scope] root run
  have "release_tree_descendants demo_scope 11 3 ?s
      = (Err (InvalidRequest ''release delta exceeds current reservation count''), ?s)"
    by (simp add: same_scope_envelope_def)
  with reach count show ?thesis by blast
qed

section \<open>Reading runs\<close>

text \<open>A run is visible only under exactly the scope it was accepted for. A reader holding any
  other scope gets the answer it would get for a run that does not exist, from the state, the
  record, the children and the reference lookup alike.\<close>

theorem reads_reveal_only_own_scope:
  assumes "\<forall>r. hm_get (in_records s) k = Some r \<longrightarrow> rr_scope r \<noteq> scope"
  shows "get_run_state s \<lparr>gs_scope = scope, gs_run_id = k\<rparr> = Err ScopeNotFound
    \<and> get_run_record scope k s = Ok None \<and> children_of scope k s = Ok []
    \<and> active_run_ref_state (get_run_state s) scope (Some k) = Ok RefMissing"
proof -
  have "get_run_state s \<lparr>gs_scope = scope, gs_run_id = k\<rparr> = Err ScopeNotFound"
    by (rule memory_runs.hidden) (use assms in \<open>auto simp: run_state_def\<close>)
  moreover have "active_run_ref_state (get_run_state s) scope (Some k) = Ok RefMissing"
    using assms by (auto simp: memory_runs.ref_state_missing_iff run_state_def)
  ultimately show ?thesis
    using assms by (auto simp: get_run_record_def children_of_def split: option.splits)
qed

theorem reads_reveal_only_own_scope_witness:
  "hm_get (in_records demo2) 11 = Some demo_run2
    \<and> get_run_state demo2 \<lparr>gs_scope = turn_scope_new ''t'' None None ''other'', gs_run_id = 11\<rparr> = Err ScopeNotFound"
  using reads_reveal_only_own_scope [of demo2 11 "turn_scope_new ''t'' None None ''other''"]
  by (simp add: demo2_fields demo_run2_lease demo_scope_def turn_scope_new_def)

end
