(* ===== verification/Turn_Projection.thy ===== *)
theory Turn_Projection
  imports Turn_Reads
begin

text \<open>
  The event feed of the store as its readers see it. The trait
  \<^verbatim>\<open>TurnEventProjectionSource\<close> is the locale \<^verbatim>\<open>event_projection_source\<close>: a source keeps, per
  reader, a feed in cursor order above a retention floor, and answers with pages of it or
  with a rebase. \<^const>\<open>projection_read\<close> is its client; the store's
  \<^const>\<open>read_turn_events_after\<close> is interpreted as a source.
\<close>

section \<open>The contract of a source\<close>

definition start_of :: "event_cursor option \<Rightarrow> event_cursor" where
  "start_of after = (case after of Some c \<Rightarrow> c | None \<Rightarrow> 0)"

definition newest :: "event_cursor \<Rightarrow> turn_lifecycle_event list \<Rightarrow> event_cursor" where
  "newest rfloor es = (if es = [] then rfloor else ev_cursor (last es))"

definition after_cursor :: "event_cursor \<Rightarrow> turn_lifecycle_event list \<Rightarrow> turn_lifecycle_event list" where
  "after_cursor c es = filter (\<lambda>e. c < ev_cursor e) es"

lemma start_of_simps [simp]: "start_of (Some c) = c" "start_of None = 0"
  by (simp_all add: start_of_def)

text \<open>A reader that follows the pages it is given, at most \<open>n\<close> of them.\<close>

fun follow :: "projection_source \<Rightarrow> turn_event_projection_request \<Rightarrow> nat
    \<Rightarrow> turn_event_projection_error + turn_lifecycle_event list" where
  "follow source q 0 = Ok []"
| "follow source q (Suc n) =
    (case projection_read source q of
       Err e \<Rightarrow> Err e
     | Ok snap \<Rightarrow>
        if ps_truncated snap
        then (case follow source (q\<lparr>pr_after := Some (ps_next_cursor snap)\<rparr>) n of
                Err e \<Rightarrow> Err e | Ok es \<Rightarrow> Ok (ps_entries snap @ es))
        else Ok (ps_entries snap))"

text \<open>A request a source answers with a page: a legal limit, a cursor of its own scope, and
  a start between the retention floor and the newest event.\<close>

definition in_window :: "event_cursor \<Rightarrow> turn_lifecycle_event list \<Rightarrow> turn_event_projection_request \<Rightarrow> bool" where
  "in_window low es q \<longleftrightarrow> 0 < pr_limit q \<and> pr_limit q \<le> MAX_TURN_EVENT_PROJECTION_LIMIT
    \<and> (\<forall>c. pr_after q = Some c \<longrightarrow> pc_scope c = pr_scope q)
    \<and> low \<le> start_of (map_option pc_event (pr_after q))
    \<and> start_of (map_option pc_event (pr_after q)) \<le> newest low es"

locale event_projection_source =
  fixes valid :: "'s \<Rightarrow> bool"
    and source :: "'s \<Rightarrow> projection_source"
    and feed :: "'s \<Rightarrow> turn_scope \<Rightarrow> user_id option \<Rightarrow> turn_lifecycle_event list"
    and rfloor :: "'s \<Rightarrow> event_cursor"
  assumes feed_sorted: "valid s \<Longrightarrow> sorted (map ev_cursor (feed s scope owner))"
    and feed_recent: "valid s \<Longrightarrow> e \<in> set (feed s scope owner) \<Longrightarrow> rfloor s \<le> ev_cursor e"
    and rebases: "valid s \<Longrightarrow> start_of after < rfloor s \<or> newest (rfloor s) (feed s scope owner) < start_of after \<Longrightarrow>
      source s scope owner after limit =
        (let c = (if start_of after < rfloor s then rfloor s else newest (rfloor s) (feed s scope owner)) in
         Ok \<lparr>pg_entries = [], pg_next_cursor = c, pg_truncated = False, pg_rebase_required = Some c\<rparr>)"
    and pages: "valid s \<Longrightarrow> rfloor s \<le> start_of after \<Longrightarrow> start_of after \<le> newest (rfloor s) (feed s scope owner) \<Longrightarrow>
      source s scope owner after limit =
        (let es = after_cursor (start_of after) (feed s scope owner) in
         Ok \<lparr>pg_entries = take limit es, pg_next_cursor = newest (start_of after) (take limit es),
             pg_truncated = (limit < length es), pg_rebase_required = None\<rparr>)"
begin

lemma newest_ge: "valid s \<Longrightarrow> rfloor s \<le> newest (rfloor s) (feed s scope owner)"
  using feed_recent [of s "last (feed s scope owner)" scope owner] by (auto simp: newest_def)

lemma newest_bound:
  assumes "valid s" "e \<in> set (feed s scope owner)"
  shows "ev_cursor e \<le> newest (rfloor s) (feed s scope owner)"
  using feed_sorted [OF assms(1), of scope owner] assms(2)
  by (auto simp: newest_def in_set_conv_nth last_conv_nth sorted_iff_nth_mono)

abbreviation window :: "'s \<Rightarrow> turn_event_projection_request \<Rightarrow> bool" where
  "window s q \<equiv> in_window (rfloor s) (feed s (pr_scope q) (pr_owner_user_id q)) q"

lemma read_window:
  assumes "valid s" "window s q"
  shows "projection_read (source s) q =
    (let a = start_of (map_option pc_event (pr_after q));
         es = after_cursor a (feed s (pr_scope q) (pr_owner_user_id q)) in
     Ok \<lparr>ps_entries = map into_public_projection_entry (take (pr_limit q) es),
         ps_next_cursor = cursor_for_scope (pr_scope q) (newest a (take (pr_limit q) es)),
         ps_truncated = (pr_limit q < length es)\<rparr>)"
  using assms pages [OF assms(1), of "map_option pc_event (pr_after q)" "pr_scope q" "pr_owner_user_id q" "pr_limit q"]
  by (cases "pr_after q") (auto simp: in_window_def projection_read_def Let_def)

lemma read_outside:
  assumes "valid s" "start_of (map_option pc_event (pr_after q)) < rfloor s
      \<or> newest (rfloor s) (feed s (pr_scope q) (pr_owner_user_id q)) < start_of (map_option pc_event (pr_after q))"
    and "0 < pr_limit q" "pr_limit q \<le> MAX_TURN_EVENT_PROJECTION_LIMIT"
    and "\<And>c. pr_after q = Some c \<Longrightarrow> pc_scope c = pr_scope q"
  shows "projection_read (source s) q = Err (RebaseRequired
    (case pr_after q of Some c \<Rightarrow> c | None \<Rightarrow> origin_for_scope (pr_scope q))
    (cursor_for_scope (pr_scope q) (if start_of (map_option pc_event (pr_after q)) < rfloor s then rfloor s
      else newest (rfloor s) (feed s (pr_scope q) (pr_owner_user_id q)))))"
  using assms rebases [OF assms(1,2), of "pr_limit q"]
  by (cases "pr_after q") (auto simp: projection_read_def Let_def)

lemma read_own_cases:
  assumes "valid s" "\<And>c. pr_after q = Some c \<Longrightarrow> pc_scope c = pr_scope q"
    and "0 < pr_limit q" "pr_limit q \<le> MAX_TURN_EVENT_PROJECTION_LIMIT"
  obtains "window s q"
    | c where "projection_read (source s) q = Err (RebaseRequired
        (case pr_after q of Some c \<Rightarrow> c | None \<Rightarrow> origin_for_scope (pr_scope q)) (cursor_for_scope (pr_scope q) c))"
      "c = rfloor s \<or> c = newest (rfloor s) (feed s (pr_scope q) (pr_owner_user_id q))"
      "window s (q\<lparr>pr_after := Some (cursor_for_scope (pr_scope q) c)\<rparr>)"
proof (cases "window s q")
  case False
  then have "start_of (map_option pc_event (pr_after q)) < rfloor s
      \<or> newest (rfloor s) (feed s (pr_scope q) (pr_owner_user_id q)) < start_of (map_option pc_event (pr_after q))"
    using assms by (auto simp: in_window_def not_le)
  from read_outside [OF assms(1) this assms(3,4,2)] show ?thesis
    by (rule that(2)) (use assms(3,4) newest_ge [OF assms(1)] in \<open>auto simp: in_window_def cursor_for_scope_def\<close>)
qed (rule that)

lemma read_Ok_window:
  assumes "valid s" "projection_read (source s) q = Ok snap"
  shows "window s q"
proof (rule read_own_cases [of s q])
  show "pc_scope c = pr_scope q" if "pr_after q = Some c" for c
    using assms(2) that by (auto simp: projection_read_def split: if_splits)
  show "0 < pr_limit q" "pr_limit q \<le> MAX_TURN_EVENT_PROJECTION_LIMIT"
    using assms(2) by (auto simp: projection_read_def split: if_splits)
qed (use assms in auto)

text \<open>Following the pages delivers what is after the start, each event once and in order.\<close>

lemma newest_page:
  assumes "valid s" "distinct (map ev_cursor (feed s scope owner))" "0 < limit"
    and "limit < length (after_cursor a (feed s scope owner))"
  shows "after_cursor (newest a (take limit (after_cursor a (feed s scope owner)))) (feed s scope owner)
    = drop limit (after_cursor a (feed s scope owner))" (is "after_cursor ?n ?f = drop limit ?es")
proof -
  have n: "?n = ev_cursor (?es ! (limit - 1))" using assms(3,4) by (auto simp: newest_def last_conv_nth)
  have sorted: "sorted (map ev_cursor ?es)" "distinct (map ev_cursor ?es)"
    using feed_sorted [OF assms(1), of scope owner] assms(2)
    by (simp_all add: after_cursor_def sorted_filter distinct_map_filter)
  have "?es ! (limit - 1) \<in> set ?es" using assms(4) by simp
  then have "a < ev_cursor (?es ! (limit - 1))" unfolding after_cursor_def by simp
  then have "a < ?n" unfolding n .
  then have "after_cursor ?n ?f = filter (\<lambda>e. ?n < ev_cursor e) ?es"
    by (auto simp: after_cursor_def intro!: filter_cong)
  also have "\<dots> = drop limit ?es"
    using sorted_take_drop_boundary [OF sorted, of limit] assms(3,4) by (simp add: n)
  finally show ?thesis .
qed

lemma follow_pages:
  assumes "valid s" "distinct (map ev_cursor (feed s (pr_scope q) (pr_owner_user_id q)))" "window s q"
    and "length (after_cursor (start_of (map_option pc_event (pr_after q))) (feed s (pr_scope q) (pr_owner_user_id q)))
      \<le> n * pr_limit q"
  shows "follow (source s) q n = Ok (map into_public_projection_entry
    (after_cursor (start_of (map_option pc_event (pr_after q))) (feed s (pr_scope q) (pr_owner_user_id q))))"
  using assms(2-)
proof (induction n arbitrary: q)
  case (Suc n)
  let ?f = "feed s (pr_scope q) (pr_owner_user_id q)"
  let ?a = "start_of (map_option pc_event (pr_after q))" let ?es = "after_cursor ?a ?f"
  note read = read_window [OF assms(1) Suc.prems(2)]
  show ?case
  proof (cases "pr_limit q < length ?es")
    case True
    define c where "c = newest ?a (take (pr_limit q) ?es)"
    let ?q = "q\<lparr>pr_after := Some (cursor_for_scope (pr_scope q) c)\<rparr>"
    have limit: "0 < pr_limit q" using Suc.prems(2) by (simp add: in_window_def)
    have rest: "after_cursor c ?f = drop (pr_limit q) ?es"
      unfolding c_def by (rule newest_page [OF assms(1) Suc.prems(1) limit True])
    have "last (take (pr_limit q) ?es) \<in> set (take (pr_limit q) ?es)" using limit True by (intro last_in_set) auto
    then have last: "last (take (pr_limit q) ?es) \<in> set ?f" by (auto simp: after_cursor_def dest: in_set_takeD)
    have "c = ev_cursor (last (take (pr_limit q) ?es))" using limit True by (auto simp: c_def newest_def)
    then have c: "rfloor s \<le> c" "c \<le> newest (rfloor s) ?f"
      using feed_recent [OF assms(1) last] newest_bound [OF assms(1) last] by simp_all
    have "window s ?q" using Suc.prems(2) c by (simp add: in_window_def cursor_for_scope_def)
    then have "follow (source s) ?q n = Ok (map into_public_projection_entry (after_cursor c ?f))"
      using Suc.IH [of ?q] Suc.prems(1,3) rest True by (simp add: cursor_for_scope_def)
    then show ?thesis
      using True by (simp add: read Let_def c_def [symmetric] rest flip: map_append)
  qed (simp add: read Let_def)
qed simp

end

section \<open>The store as a source\<close>

definition store_feed :: "inner \<Rightarrow> turn_scope \<Rightarrow> user_id option \<Rightarrow> turn_lifecycle_event list" where
  "store_feed s scope owner = filter (event_visible scope owner) (in_events s)"

lemma store_feed_sorted: "store_inv s \<Longrightarrow> sorted (map ev_cursor (store_feed s scope owner))"
  by (simp add: store_inv_def event_log_ok_def store_feed_def sorted_filter)

lemma store_feed_sort: "store_inv s \<Longrightarrow> sort_key ev_cursor (store_feed s scope owner) = store_feed s scope owner"
  by (simp add: store_feed_sorted sort_key_id_if_sorted)

lemma store_feed_distinct:
  assumes "store_inv s" "in_cursor s \<noteq> - 1"
  shows "distinct (map ev_cursor (store_feed s scope owner))"
proof -
  have "sorted_wrt (<) (map ev_cursor (in_events s))"
    using assms by (simp add: store_inv_def event_log_ok_def)
  then show ?thesis by (simp add: strict_sorted_iff store_feed_def distinct_map_filter)
qed

interpretation memory_events:
  event_projection_source store_inv read_turn_events_after store_feed in_event_retention_floor
proof unfold_locales
  fix s scope owner e
  assume inv: "store_inv s"
  then show "sorted (map ev_cursor (store_feed s scope owner))" by (rule store_feed_sorted)
  assume "e \<in> set (store_feed s scope owner)"
  then show "in_event_retention_floor s \<le> ev_cursor e"
    using inv by (auto simp: store_feed_def store_inv_def event_log_ok_def)
next
  fix s scope owner after limit
  let ?feed = "store_feed s scope owner" let ?low = "in_event_retention_floor s"
  assume inv: "store_inv s"
  have project: "project_turn_events (in_events s) scope owner after limit ?low =
    (if start_of after < ?low \<or> newest ?low ?feed < start_of after
     then (let c = (if start_of after < ?low then ?low else newest ?low ?feed) in
       \<lparr>pg_entries = [], pg_next_cursor = c, pg_truncated = False, pg_rebase_required = Some c\<rparr>)
     else (let es = after_cursor (start_of after) ?feed in
       \<lparr>pg_entries = take limit es, pg_next_cursor = newest (start_of after) (take limit es),
        pg_truncated = (limit < length es), pg_rebase_required = None\<rparr>))"
    unfolding project_turn_events_def store_feed_def [symmetric] store_feed_sort [OF inv] after_cursor_def [symmetric]
    by (auto simp: newest_def start_of_def Let_def word_gt_0 split: option.splits)
  show "start_of after < ?low \<or> newest ?low ?feed < start_of after \<Longrightarrow>
      read_turn_events_after s scope owner after limit =
        (let c = (if start_of after < ?low then ?low else newest ?low ?feed) in
         Ok \<lparr>pg_entries = [], pg_next_cursor = c, pg_truncated = False, pg_rebase_required = Some c\<rparr>)"
    by (simp add: read_turn_events_after_def project Let_def)
  show "?low \<le> start_of after \<Longrightarrow> start_of after \<le> newest ?low ?feed \<Longrightarrow>
      read_turn_events_after s scope owner after limit =
        (let es = after_cursor (start_of after) ?feed in
         Ok \<lparr>pg_entries = take limit es, pg_next_cursor = newest (start_of after) (take limit es),
             pg_truncated = (limit < length es), pg_rebase_required = None\<rparr>)"
    by (simp add: read_turn_events_after_def project Let_def not_less)
qed

section \<open>What readers are promised\<close>

lemma visible_after_feed:
  "store_inv s \<Longrightarrow> visible_after (in_events s) scope owner c = after_cursor c (store_feed s scope owner)"
  unfolding visible_after_def after_cursor_def store_feed_def [symmetric] by (simp only: store_feed_sort)

text \<open>C12. A reader that keeps following the pages it is given receives every event of its scope
  after its cursor, each exactly once and in cursor order, whatever the page size; as many pages
  suffice as the events fill.\<close>

theorem paging_delivers_everything:
  assumes "reach limits L s" "in_cursor s \<noteq> - 1"
    and "in_window (in_event_retention_floor s) (store_feed s (pr_scope q) (pr_owner_user_id q)) q"
    and "length (visible_after (in_events s) (pr_scope q) (pr_owner_user_id q)
      (start_of (map_option pc_event (pr_after q)))) \<le> n * pr_limit q"
  shows "follow (read_turn_events_after s) q n = Ok (map into_public_projection_entry
    (visible_after (in_events s) (pr_scope q) (pr_owner_user_id q) (start_of (map_option pc_event (pr_after q)))))"
proof -
  have inv: "store_inv s" using assms(1) by (rule reach_inv)
  show ?thesis
    using memory_events.follow_pages [OF inv store_feed_distinct [OF inv assms(2)] assms(3)] assms(4)
    by (simp only: visible_after_feed [OF inv])
qed

definition demo_read :: turn_event_projection_request where
  "demo_read = \<lparr>pr_scope = demo_scope, pr_owner_user_id = None, pr_after = None, pr_limit = 1\<rparr>"

lemma demo_events:
  "in_events demo1 = [event_of_record demo_env demo_run1 EvSubmitted None]"
  "in_event_retention_floor demo1 = 0"
  "in_events demo2 = [event_of_record demo_env demo_run1 EvSubmitted None, event_of_record demo_env demo_run2 EvRunnerClaimed None]"
  "in_event_retention_floor demo2 = 0"
proof -
  show e1: "in_events demo1 = [event_of_record demo_env demo_run1 EvSubmitted None]" "in_event_retention_floor demo1 = 0"
    by (simp_all add: demo1_def demo_run1_def demo_defs submit_eval Let_def)
  have limit: "max_events demo_limits = 10000" by (simp add: demo_limits_def default_limits_def)
  show "in_events demo2 = [event_of_record demo_env demo_run1 EvSubmitted None, event_of_record demo_env demo_run2 EvRunnerClaimed None]"
    "in_event_retention_floor demo2 = 0"
    by (simp_all add: demo2_def demo_run2_def claimed_record_def claim_next_run_def pop_matching_queued_run_def
      take_record_def demo1_fields demo_run1_def next_cursor_def demo_claim_def frame_simps log_push_def e1 limit Let_def)
qed

lemma demo_feed:
  "store_feed demo2 demo_scope None = in_events demo2" "map ev_cursor (in_events demo2) = [1, 2]"
  "visible_after (in_events demo2) demo_scope None 0 = in_events demo2"
proof -
  show feed: "store_feed demo2 demo_scope None = in_events demo2"
    by (simp add: store_feed_def demo_events event_visible_def event_of_record_def demo_run1_def queued_record_def demo_run2_lease)
  show "map ev_cursor (in_events demo2) = [1, 2]"
    by (simp add: demo_events event_of_record_def demo_run1_def queued_record_def demo_run2_lease)
  then show "visible_after (in_events demo2) demo_scope None 0 = in_events demo2"
    unfolding visible_after_feed [OF reach_inv [OF demo_reach(3)]] feed
    by (simp add: demo_events after_cursor_def)
qed

lemma demo_newest: "newest 0 (store_feed demo2 demo_scope None) = 2" "length (in_events demo2) = 2"
  using demo_feed(2) by (simp_all add: demo_feed(1)) (simp_all add: demo_events newest_def)

theorem paging_delivers_everything_witness:
  "follow (read_turn_events_after demo2) demo_read 2 = Ok (map into_public_projection_entry (in_events demo2))
    \<and> length (in_events demo2) = 2 \<and> pr_limit demo_read = 1"
  using paging_delivers_everything [OF demo_reach(3), of demo_read 2]
  by (simp add: demo_read_def demo_feed demo2_fields in_window_def demo_newest demo_events(4)
    MAX_TURN_EVENT_PROJECTION_LIMIT_def)

text \<open>A reader with a cursor of its own scope is either served at once or told to rebase, and the
  cursor it is told to rebase to is served at once: there is no rebase loop. A reader that fell
  behind retention is rebased to the retention floor and from there receives every event of its
  scope the store still holds.\<close>

theorem rebase_is_one_step:
  assumes "reach limits L s" "0 < pr_limit q" "pr_limit q \<le> MAX_TURN_EVENT_PROJECTION_LIMIT"
    and "\<forall>c. pr_after q = Some c \<longrightarrow> pc_scope c = pr_scope q"
  shows "(\<exists>snap. projection_read (read_turn_events_after s) q = Ok snap)
    \<or> (\<exists>c snap. projection_read (read_turn_events_after s) q = Err (RebaseRequired
          (case pr_after q of Some c \<Rightarrow> c | None \<Rightarrow> origin_for_scope (pr_scope q)) (cursor_for_scope (pr_scope q) c))
        \<and> projection_read (read_turn_events_after s) (q\<lparr>pr_after := Some (cursor_for_scope (pr_scope q) c)\<rparr>) = Ok snap
        \<and> ps_entries snap = map into_public_projection_entry
            (take (pr_limit q) (visible_after (in_events s) (pr_scope q) (pr_owner_user_id q) c))
        \<and> (start_of (map_option pc_event (pr_after q)) < in_event_retention_floor s \<and> in_cursor s \<noteq> - 1 \<longrightarrow>
            visible_after (in_events s) (pr_scope q) (pr_owner_user_id q) c
              = filter (event_visible (pr_scope q) (pr_owner_user_id q)) (in_events s)))"
proof -
  have inv: "store_inv s" using assms(1) by (rule reach_inv)
  let ?low = "in_event_retention_floor s" let ?a = "start_of (map_option pc_event (pr_after q))"
  let ?feed = "store_feed s (pr_scope q) (pr_owner_user_id q)"
  show ?thesis
  proof (cases "in_window ?low ?feed q")
    case True
    from memory_events.read_window [OF inv True] show ?thesis by (simp add: Let_def)
  next
    case False
    then have out: "?a < ?low \<or> newest ?low ?feed < ?a"
      using assms(2-4) by (auto simp: in_window_def not_le)
    define c where "c = (if ?a < ?low then ?low else newest ?low ?feed)"
    let ?q = "q\<lparr>pr_after := Some (cursor_for_scope (pr_scope q) c)\<rparr>"
    have win: "in_window ?low ?feed ?q"
      using assms(2,3) memory_events.newest_ge [OF inv, of "pr_scope q" "pr_owner_user_id q"]
      by (simp add: in_window_def c_def cursor_for_scope_def)
    have all: "visible_after (in_events s) (pr_scope q) (pr_owner_user_id q) c = ?feed" if "?a < ?low" "in_cursor s \<noteq> - 1"
    proof -
      have "\<forall>e \<in> set (in_events s). ?low < ev_cursor e"
        using inv that(2) by (simp add: store_inv_def event_log_ok_def)
      then show ?thesis using that(1)
        by (auto simp: visible_after_feed [OF inv] after_cursor_def c_def store_feed_def intro!: filter_cong)
    qed
    have read: "projection_read (read_turn_events_after s) q = Err (RebaseRequired
        (case pr_after q of Some c \<Rightarrow> c | None \<Rightarrow> origin_for_scope (pr_scope q)) (cursor_for_scope (pr_scope q) c))"
      unfolding c_def by (rule memory_events.read_outside [OF inv out assms(2,3)]) (use assms(4) in blast)
    have snap: "\<exists>snap. projection_read (read_turn_events_after s) ?q = Ok snap \<and> ps_entries snap = map into_public_projection_entry
        (take (pr_limit q) (visible_after (in_events s) (pr_scope q) (pr_owner_user_id q) c))"
      using memory_events.read_window [OF inv, of ?q] win
      by (simp add: Let_def visible_after_feed [OF inv] cursor_for_scope_def)
    show ?thesis using read snap all unfolding store_feed_def by blast
  qed
qed

theorem rebase_is_one_step_witness:
  "\<exists>c snap. projection_read (read_turn_events_after demo2)
      (demo_read\<lparr>pr_after := Some (cursor_for_scope demo_scope 9)\<rparr>)
        = Err (RebaseRequired (cursor_for_scope demo_scope 9) (cursor_for_scope demo_scope c))
    \<and> projection_read (read_turn_events_after demo2) (demo_read\<lparr>pr_after := Some (cursor_for_scope demo_scope c)\<rparr>) = Ok snap"
proof -
  let ?q = "demo_read\<lparr>pr_after := Some (cursor_for_scope demo_scope 9)\<rparr>"
  have "\<not> (\<exists>snap. projection_read (read_turn_events_after demo2) ?q = Ok snap)"
    using memory_events.read_Ok_window [OF reach_inv [OF demo_reach(3)], of ?q] demo_newest demo_events(4)
    by (auto simp: in_window_def demo_read_def cursor_for_scope_def)
  with rebase_is_one_step [OF demo_reach(3), of ?q] show ?thesis
    by (auto simp: demo_read_def cursor_for_scope_def MAX_TURN_EVENT_PROJECTION_LIMIT_def)
qed



end
