(* ===== verification/Loop_Exit.thy ===== *)
theory Loop_Exit
  imports Turn_Types
begin

text \<open>
  What a driver may end a run with: \<^verbatim>\<open>ironclaw_turns/src/loop_exit.rs\<close>. A driver hands the
  host a claim (\<^verbatim>\<open>LoopExit\<close>); \<^verbatim>\<open>LoopExitApplier\<close> asks the host's evidence port whether
  the claim is backed by durable evidence, validates it against the policy it
  derives, and applies the outcome through the transition port under the claimed
  lease. The evidence port is a trait with no implementation here: it is a parameter, a
  record of its six functions. The transition port is the locale
  \<^verbatim>\<open>exit_transition_port\<close>, interpreted on the store.
\<close>

section \<open>Claims\<close>

datatype loop_completion_kind = FinalReply | AskUserReply | NoReply | DelegatedResult | ResultOnly

record loop_completed =
  lcd_completion_kind :: loop_completion_kind
  lcd_reply_message_refs :: "loop_message_ref list"
  lcd_result_refs :: "loop_result_ref list"
  lcd_final_checkpoint_id :: "turn_checkpoint_id option"
  lcd_usage_summary_ref :: "loop_usage_summary_ref option"
  lcd_exit_id :: loop_exit_id

definition has_durable_completion_ref :: "loop_completed \<Rightarrow> bool" where
  "has_durable_completion_ref e = (lcd_reply_message_refs e \<noteq> [] \<or> lcd_result_refs e \<noteq> [])"

datatype loop_blocked_kind = KindApproval | KindAuth | KindResource | KindAwaitDependentRun

record loop_blocked =
  lbk_kind :: loop_blocked_kind
  lbk_gate_ref :: loop_gate_ref
  lbk_credential_requirements :: "runtime_credential_auth_requirement list"
  lbk_checkpoint_id :: turn_checkpoint_id
  lbk_state_ref :: loop_checkpoint_state_ref
  lbk_exit_id :: loop_exit_id

definition to_blocked_reason ::
    "loop_blocked_kind \<Rightarrow> loop_gate_ref \<Rightarrow> runtime_credential_auth_requirement list \<Rightarrow> unit + blocked_reason" where
  "to_blocked_reason kind gate creds =
    (case gate_ref_new gate of
       Err _ \<Rightarrow> Err ()
     | Ok g \<Rightarrow> Ok (case kind of
         KindApproval \<Rightarrow> Approval g
       | KindAuth \<Rightarrow> Auth g creds
       | KindResource \<Rightarrow> Resource g
       | KindAwaitDependentRun \<Rightarrow> AwaitDependentRun g))"

datatype loop_cancelled_reason_kind = HostCancellation | HostInterrupt

record loop_cancelled =
  lcn_reason_kind :: loop_cancelled_reason_kind
  lcn_checkpoint_id :: "turn_checkpoint_id option"
  lcn_interrupted_message_refs :: "loop_message_ref list"
  lcn_exit_id :: loop_exit_id

datatype loop_failure_kind =
    ModelError | ContextBuildFailed | CapabilityProtocolError | IterationLimit | InvalidModelOutput
  | CheckpointRejected | CheckpointUnavailable | TranscriptWriteFailed | DriverBug
  | InterruptedUnexpectedly | NoProgressDetected | PolicyDenied | CompactionUnavailable

definition failure_kind_as_str :: "loop_failure_kind \<Rightarrow> string" where
  "failure_kind_as_str k = (case k of
     ModelError \<Rightarrow> ''model_error''
   | ContextBuildFailed \<Rightarrow> ''context_build_failed''
   | CapabilityProtocolError \<Rightarrow> ''capability_protocol_error''
   | IterationLimit \<Rightarrow> ''iteration_limit''
   | InvalidModelOutput \<Rightarrow> ''invalid_model_output''
   | CheckpointRejected \<Rightarrow> ''checkpoint_rejected''
   | CheckpointUnavailable \<Rightarrow> ''checkpoint_unavailable''
   | TranscriptWriteFailed \<Rightarrow> ''transcript_write_failed''
   | DriverBug \<Rightarrow> ''driver_bug''
   | InterruptedUnexpectedly \<Rightarrow> ''interrupted_unexpectedly''
   | NoProgressDetected \<Rightarrow> ''no_progress_detected''
   | PolicyDenied \<Rightarrow> ''policy_denied''
   | CompactionUnavailable \<Rightarrow> ''compaction_unavailable'')"

definition to_sanitized_failure :: "loop_failure_kind \<Rightarrow> sanitized_failure" where
  "to_sanitized_failure k = failure_kind_as_str k"

record loop_failed =
  lfd_reason_kind :: loop_failure_kind
  lfd_checkpoint_id :: "turn_checkpoint_id option"
  lfd_usage_summary_ref :: "loop_usage_summary_ref option"
  lfd_diagnostic_ref :: "loop_diagnostic_ref option"
  lfd_exit_id :: loop_exit_id

datatype loop_exit =
    ExitCompleted loop_completed
  | ExitBlocked loop_blocked
  | ExitCancelled loop_cancelled
  | ExitFailed loop_failed

definition exit_id :: "loop_exit \<Rightarrow> loop_exit_id" where
  "exit_id e = (case e of
     ExitCompleted x \<Rightarrow> lcd_exit_id x
   | ExitBlocked x \<Rightarrow> lbk_exit_id x
   | ExitCancelled x \<Rightarrow> lcn_exit_id x
   | ExitFailed x \<Rightarrow> lfd_exit_id x)"

definition cancelled_for_observed_interrupt :: "loop_exit_id \<Rightarrow> loop_exit" where
  "cancelled_for_observed_interrupt i = ExitCancelled
    \<lparr>lcn_reason_kind = HostInterrupt, lcn_checkpoint_id = None, lcn_interrupted_message_refs = [],
     lcn_exit_id = i\<rparr>"

definition exit_failed :: "loop_failure_kind \<Rightarrow> loop_exit_id \<Rightarrow> loop_exit" where
  "exit_failed k i = ExitFailed
    \<lparr>lfd_reason_kind = k, lfd_checkpoint_id = None, lfd_usage_summary_ref = None,
     lfd_diagnostic_ref = None, lfd_exit_id = i\<rparr>"

definition MAX_LOOP_EXIT_REF_COUNT :: usize where
  "MAX_LOOP_EXIT_REF_COUNT = 64"

text \<open>The duplicate check walks the list with the set of values seen so far.\<close>

fun refs_unique :: "'a list \<Rightarrow> 'a list \<Rightarrow> bool" where
  "refs_unique seen [] = True"
| "refs_unique seen (v # vs) = (if v \<in> set seen then False else refs_unique (v # seen) vs)"

definition deserialize_bounded_unique_refs :: "'a list \<Rightarrow> string + 'a list" where
  "deserialize_bounded_unique_refs values =
    (if length values > MAX_LOOP_EXIT_REF_COUNT
     then Err ''loop exit ref list must contain at most 64 entries''
     else if \<not> refs_unique [] values then Err ''loop exit ref list must not contain duplicates''
     else Ok values)"

section \<open>Validation\<close>

record loop_exit_validation_policy =
  vp_require_final_checkpoint :: bool
  vp_allow_no_reply_completion :: bool
  vp_final_checkpoint_verified :: bool
  vp_host_cancellation_observed :: bool
  vp_completion_refs_verified :: bool
  vp_blocked_evidence_verified :: bool
  vp_failure_evidence_verified :: bool

definition policy_default :: loop_exit_validation_policy where
  "policy_default = \<lparr>vp_require_final_checkpoint = False, vp_allow_no_reply_completion = False,
     vp_final_checkpoint_verified = False, vp_host_cancellation_observed = False,
     vp_completion_refs_verified = False, vp_blocked_evidence_verified = False,
     vp_failure_evidence_verified = False\<rparr>"

definition with_final_checkpoint_required ::
    "bool \<Rightarrow> loop_exit_validation_policy \<Rightarrow> loop_exit_validation_policy" where
  "with_final_checkpoint_required b p = p\<lparr>vp_require_final_checkpoint := b\<rparr>"

definition policy_from_wire :: "loop_exit_validation_policy \<Rightarrow> string + loop_exit_validation_policy" where
  "policy_from_wire w =
    (if vp_allow_no_reply_completion w \<or> vp_final_checkpoint_verified w
        \<or> vp_host_cancellation_observed w \<or> vp_completion_refs_verified w
        \<or> vp_blocked_evidence_verified w \<or> vp_failure_evidence_verified w
     then Err ''loop exit validation policy wire payload cannot mint host-verified evidence or relaxed completion policy''
     else Ok (with_final_checkpoint_required (vp_require_final_checkpoint w) policy_default))"

datatype loop_exit_violation_kind =
    MissingCompletionReference | MismatchedCompletionReferenceKind | UnverifiedCompletionReference
  | MissingFinalCheckpoint | UnverifiedBlockedEvidence | UnverifiedFailureEvidence
  | CancellationNotObserved | NoReplyNotAllowed

definition violation_category :: "loop_exit_violation_kind \<Rightarrow> string" where
  "violation_category k = (case k of
     MissingCompletionReference \<Rightarrow> ''missing_completion_reference''
   | MismatchedCompletionReferenceKind \<Rightarrow> ''mismatched_completion_reference_kind''
   | UnverifiedCompletionReference \<Rightarrow> ''unverified_completion_reference''
   | MissingFinalCheckpoint \<Rightarrow> ''missing_final_checkpoint''
   | UnverifiedBlockedEvidence \<Rightarrow> ''unverified_blocked_evidence''
   | UnverifiedFailureEvidence \<Rightarrow> ''unverified_failure_evidence''
   | CancellationNotObserved \<Rightarrow> ''cancellation_not_observed''
   | NoReplyNotAllowed \<Rightarrow> ''no_reply_not_allowed'')"

definition failure_category :: "loop_exit_violation_kind \<Rightarrow> string" where
  "failure_category k = (case k of
     CancellationNotObserved \<Rightarrow> ''interrupted_unexpectedly''
   | _ \<Rightarrow> ''driver_protocol_violation'')"

record loop_exit_validation_decision =
  dec_exit_id :: loop_exit_id
  dec_mapping :: loop_exit_mapping
  dec_violation :: "loop_exit_violation_kind option"

definition trusted :: "loop_exit_id \<Rightarrow> turn_runner_outcome \<Rightarrow> loop_exit_validation_decision" where
  "trusted i out = \<lparr>dec_exit_id = i, dec_mapping = RunnerOutcome out, dec_violation = None\<rparr>"

definition invalid_exit_decision ::
    "loop_exit_id \<Rightarrow> loop_exit_violation_kind \<Rightarrow> loop_exit_validation_decision" where
  "invalid_exit_decision i k =
    \<lparr>dec_exit_id = i, dec_mapping = RunnerOutcome (OutFailed (failure_category k)), dec_violation = Some k\<rparr>"

definition completion_kind_ref_violation ::
    "loop_completed \<Rightarrow> loop_exit_validation_policy \<Rightarrow> loop_exit_violation_kind option" where
  "completion_kind_ref_violation e p =
    (if lcd_completion_kind e \<in> {FinalReply, AskUserReply}
     then if lcd_reply_message_refs e = [] then Some MissingCompletionReference else None
     else if lcd_completion_kind e \<in> {DelegatedResult, ResultOnly}
     then if lcd_result_refs e = [] then Some MissingCompletionReference
          else if lcd_reply_message_refs e \<noteq> [] then Some MismatchedCompletionReferenceKind
          else None
     else if has_durable_completion_ref e then Some MismatchedCompletionReferenceKind
     else if \<not> vp_allow_no_reply_completion p then Some NoReplyNotAllowed
     else None)"

definition validate_completed_exit ::
    "loop_exit_id \<Rightarrow> loop_completed \<Rightarrow> loop_exit_validation_policy \<Rightarrow> loop_exit_validation_decision" where
  "validate_completed_exit i e p =
    (case completion_kind_ref_violation e p of
       Some k \<Rightarrow> invalid_exit_decision i k
     | None \<Rightarrow>
        if has_durable_completion_ref e \<and> \<not> vp_completion_refs_verified p
        then invalid_exit_decision i UnverifiedCompletionReference
        else if vp_require_final_checkpoint p
          \<and> (lcd_final_checkpoint_id e = None \<or> \<not> vp_final_checkpoint_verified p)
        then invalid_exit_decision i MissingFinalCheckpoint
        else trusted i OutCompleted)"

definition validate_cancelled_exit ::
    "loop_exit_id \<Rightarrow> loop_cancelled \<Rightarrow> loop_exit_validation_policy \<Rightarrow> loop_exit_validation_decision" where
  "validate_cancelled_exit i e p =
    (if \<not> vp_host_cancellation_observed p then invalid_exit_decision i CancellationNotObserved
     else if vp_require_final_checkpoint p
       \<and> (lcn_checkpoint_id e = None \<or> \<not> vp_final_checkpoint_verified p)
     then invalid_exit_decision i MissingFinalCheckpoint
     else trusted i OutCancelled)"

definition validate_failed_exit ::
    "loop_exit_id \<Rightarrow> loop_failed \<Rightarrow> loop_exit_validation_policy \<Rightarrow> loop_exit_validation_decision" where
  "validate_failed_exit i e p =
    (if \<not> vp_failure_evidence_verified p then invalid_exit_decision i UnverifiedFailureEvidence
     else if vp_require_final_checkpoint p
       \<and> (lfd_checkpoint_id e = None \<or> \<not> vp_final_checkpoint_verified p)
     then invalid_exit_decision i MissingFinalCheckpoint
     else trusted i (OutFailed (to_sanitized_failure (lfd_reason_kind e))))"

definition validate :: "loop_exit \<Rightarrow> loop_exit_validation_policy \<Rightarrow> loop_exit_validation_decision" where
  "validate e p =
    (case e of
       ExitCompleted x \<Rightarrow> validate_completed_exit (exit_id e) x p
     | ExitBlocked x \<Rightarrow>
        if vp_blocked_evidence_verified p
        then (case to_blocked_reason (lbk_kind x) (lbk_gate_ref x) (lbk_credential_requirements x) of
                Ok reason \<Rightarrow> trusted (exit_id e) (OutBlocked (lbk_checkpoint_id x) (lbk_state_ref x) reason)
              | Err _ \<Rightarrow> invalid_exit_decision (exit_id e) UnverifiedBlockedEvidence)
        else invalid_exit_decision (exit_id e) UnverifiedBlockedEvidence
     | ExitCancelled x \<Rightarrow> validate_cancelled_exit (exit_id e) x p
     | ExitFailed x \<Rightarrow> validate_failed_exit (exit_id e) x p)"

section \<open>Deriving the policy from evidence\<close>

record evidence_port =
  ep_verify_completion_refs :: "turn_scope \<Rightarrow> turn_id \<Rightarrow> turn_run_id \<Rightarrow> loop_message_ref list
    \<Rightarrow> loop_result_ref list \<Rightarrow> bool turn_result"
  ep_verify_final_checkpoint :: "turn_scope \<Rightarrow> turn_id \<Rightarrow> turn_run_id \<Rightarrow> turn_checkpoint_id \<Rightarrow> bool turn_result"
  ep_verify_blocked_evidence :: "turn_scope \<Rightarrow> turn_id \<Rightarrow> turn_run_id \<Rightarrow> loop_blocked \<Rightarrow> bool turn_result"
  ep_verify_failure_evidence :: "turn_scope \<Rightarrow> turn_id \<Rightarrow> turn_run_id \<Rightarrow> loop_failed \<Rightarrow> bool turn_result"
  ep_is_cancellation_observed :: "turn_scope \<Rightarrow> turn_id \<Rightarrow> turn_run_id \<Rightarrow> bool turn_result"
  ep_latest_checkpoint_kind :: "turn_scope \<Rightarrow> turn_id \<Rightarrow> turn_run_id \<Rightarrow> loop_checkpoint_kind option turn_result"

definition verify_terminal_final_checkpoint ::
    "evidence_port \<Rightarrow> turn_scope \<Rightarrow> turn_id \<Rightarrow> turn_run_id \<Rightarrow> resolved_run_profile
      \<Rightarrow> turn_checkpoint_id option \<Rightarrow> bool turn_result" where
  "verify_terminal_final_checkpoint port scope turn run profile checkpoint =
    (if \<not> ck_require_final_checkpoint (rp_checkpoint_policy profile) then Ok True
     else case checkpoint of
       None \<Rightarrow> Ok False
     | Some c \<Rightarrow> ep_verify_final_checkpoint port scope turn run c)"

definition derive_policy ::
    "evidence_port \<Rightarrow> claimed_turn_run \<Rightarrow> loop_exit \<Rightarrow> loop_exit_validation_policy turn_result" where
  "derive_policy port claimed e =
    (let scope = rst_scope (clr_state claimed);
         turn = rst_turn_id (clr_state claimed);
         run = rst_run_id (clr_state claimed);
         profile = clr_resolved_run_profile claimed;
         p = policy_default\<lparr>
           vp_require_final_checkpoint := ck_require_final_checkpoint (rp_checkpoint_policy profile),
           vp_allow_no_reply_completion := ck_allow_no_reply_completion (rp_checkpoint_policy profile)\<rparr> in
     case e of
       ExitCompleted x \<Rightarrow>
        (case ep_verify_completion_refs port scope turn run (lcd_reply_message_refs x) (lcd_result_refs x) of
           Err er \<Rightarrow> Err er
         | Ok refs \<Rightarrow>
            (case verify_terminal_final_checkpoint port scope turn run profile (lcd_final_checkpoint_id x) of
               Err er \<Rightarrow> Err er
             | Ok final \<Rightarrow> Ok (p\<lparr>vp_completion_refs_verified := refs, vp_final_checkpoint_verified := final\<rparr>)))
     | ExitBlocked x \<Rightarrow>
        (case ep_verify_blocked_evidence port scope turn run x of
           Err er \<Rightarrow> Err er
         | Ok b \<Rightarrow> Ok (p\<lparr>vp_blocked_evidence_verified := b\<rparr>))
     | ExitCancelled x \<Rightarrow>
        (case ep_is_cancellation_observed port scope turn run of
           Err er \<Rightarrow> Err er
         | Ok b \<Rightarrow>
            (case verify_terminal_final_checkpoint port scope turn run profile (lcn_checkpoint_id x) of
               Err er \<Rightarrow> Err er
             | Ok final \<Rightarrow> Ok (p\<lparr>vp_host_cancellation_observed := b, vp_final_checkpoint_verified := final\<rparr>)))
     | ExitFailed x \<Rightarrow>
        (case ep_verify_failure_evidence port scope turn run x of
           Err er \<Rightarrow> Err er
         | Ok b \<Rightarrow>
            (case verify_terminal_final_checkpoint port scope turn run profile (lfd_checkpoint_id x) of
               Err er \<Rightarrow> Err er
             | Ok final \<Rightarrow> Ok (p\<lparr>vp_failure_evidence_verified := b, vp_final_checkpoint_verified := final\<rparr>))))"

text \<open>\<^verbatim>\<open>LoopExitApplier::apply\<close> over a transition port that acts on a state.\<close>

definition exit_request ::
    "claimed_turn_run \<Rightarrow> loop_exit_mapping \<Rightarrow> apply_validated_loop_exit_request" where
  "exit_request claimed m = \<lparr>lr_run_id = rst_run_id (clr_state claimed), lr_runner_id = clr_runner_id claimed,
     lr_lease_token = clr_lease_token claimed, ale_mapping = m\<rparr>"

definition apply_exit ::
    "(apply_validated_loop_exit_request \<Rightarrow> 's \<Rightarrow> turn_run_state turn_result \<times> 's)
      \<Rightarrow> evidence_port \<Rightarrow> claimed_turn_run \<Rightarrow> loop_exit \<Rightarrow> 's \<Rightarrow> turn_run_state turn_result \<times> 's" where
  "apply_exit transition port claimed e s =
    (case derive_policy port claimed e of
       Err er \<Rightarrow> (Err er, s)
     | Ok p \<Rightarrow> transition (exit_request claimed (dec_mapping (validate e p))) s)"

section \<open>Claims against evidence\<close>

text \<open>When the port answers, a claim is backed by evidence, or it is not. This is the
  specification the validation is compared with.\<close>

definition final_backed :: "evidence_port \<Rightarrow> claimed_turn_run \<Rightarrow> turn_checkpoint_id option \<Rightarrow> bool" where
  "final_backed port claimed checkpoint \<longleftrightarrow>
    (ck_require_final_checkpoint (rp_checkpoint_policy (clr_resolved_run_profile claimed)) \<longrightarrow>
      (\<exists>c. checkpoint = Some c \<and> ep_verify_final_checkpoint port (rst_scope (clr_state claimed))
        (rst_turn_id (clr_state claimed)) (rst_run_id (clr_state claimed)) c = Ok True))"

definition completion_shape :: "claimed_turn_run \<Rightarrow> loop_completed \<Rightarrow> bool" where
  "completion_shape claimed x \<longleftrightarrow>
    (lcd_completion_kind x \<in> {FinalReply, AskUserReply} \<and> lcd_reply_message_refs x \<noteq> [])
    \<or> (lcd_completion_kind x \<in> {DelegatedResult, ResultOnly} \<and> lcd_result_refs x \<noteq> [] \<and> lcd_reply_message_refs x = [])
    \<or> (lcd_completion_kind x = NoReply \<and> lcd_result_refs x = [] \<and> lcd_reply_message_refs x = []
        \<and> ck_allow_no_reply_completion (rp_checkpoint_policy (clr_resolved_run_profile claimed)))"

definition exit_supported :: "evidence_port \<Rightarrow> claimed_turn_run \<Rightarrow> loop_exit \<Rightarrow> bool" where
  "exit_supported port claimed e \<longleftrightarrow>
    (let scope = rst_scope (clr_state claimed); turn = rst_turn_id (clr_state claimed);
         run = rst_run_id (clr_state claimed) in
     case e of
       ExitCompleted x \<Rightarrow> completion_shape claimed x \<and> final_backed port claimed (lcd_final_checkpoint_id x)
         \<and> (lcd_completion_kind x \<noteq> NoReply \<longrightarrow>
              ep_verify_completion_refs port scope turn run (lcd_reply_message_refs x) (lcd_result_refs x) = Ok True)
     | ExitBlocked x \<Rightarrow> ep_verify_blocked_evidence port scope turn run x = Ok True
         \<and> validate_ref ''gate_ref'' (lbk_gate_ref x) = Ok ()
     | ExitCancelled x \<Rightarrow> ep_is_cancellation_observed port scope turn run = Ok True
         \<and> final_backed port claimed (lcn_checkpoint_id x)
     | ExitFailed x \<Rightarrow> ep_verify_failure_evidence port scope turn run x = Ok True
         \<and> final_backed port claimed (lfd_checkpoint_id x))"

definition claimed_outcome :: "loop_exit \<Rightarrow> turn_runner_outcome" where
  "claimed_outcome e = (case e of
     ExitCompleted x \<Rightarrow> OutCompleted
   | ExitBlocked x \<Rightarrow> OutBlocked (lbk_checkpoint_id x) (lbk_state_ref x) (case lbk_kind x of
         KindApproval \<Rightarrow> Approval (lbk_gate_ref x)
       | KindAuth \<Rightarrow> Auth (lbk_gate_ref x) (lbk_credential_requirements x)
       | KindResource \<Rightarrow> Resource (lbk_gate_ref x)
       | KindAwaitDependentRun \<Rightarrow> AwaitDependentRun (lbk_gate_ref x))
   | ExitCancelled x \<Rightarrow> OutCancelled
   | ExitFailed x \<Rightarrow> OutFailed (failure_kind_as_str (lfd_reason_kind x)))"

lemma final_checkpoint_policy:
  assumes "verify_terminal_final_checkpoint port (rst_scope (clr_state claimed)) (rst_turn_id (clr_state claimed))
    (rst_run_id (clr_state claimed)) (clr_resolved_run_profile claimed) cp = Ok final"
  shows "final_backed port claimed cp \<longleftrightarrow>
    (ck_require_final_checkpoint (rp_checkpoint_policy (clr_resolved_run_profile claimed)) \<longrightarrow> cp \<noteq> None \<and> final)"
  using assms by (auto simp: final_backed_def verify_terminal_final_checkpoint_def split: option.splits)

lemma completion_shape_iff:
  assumes "vp_allow_no_reply_completion p
    = ck_allow_no_reply_completion (rp_checkpoint_policy (clr_resolved_run_profile claimed))"
  shows "completion_kind_ref_violation x p = None \<longleftrightarrow> completion_shape claimed x"
    and "completion_shape claimed x \<Longrightarrow> has_durable_completion_ref x \<longleftrightarrow> lcd_completion_kind x \<noteq> NoReply"
    and "completion_kind_ref_violation x p \<noteq> Some CancellationNotObserved"
  using assms
  by (cases "lcd_completion_kind x";
    auto simp: completion_kind_ref_violation_def completion_shape_def has_durable_completion_ref_def)+

lemma to_blocked_reason_Ok:
  "validate_ref ''gate_ref'' g = Ok () \<Longrightarrow> to_blocked_reason kind g creds = Ok (case kind of
     KindApproval \<Rightarrow> Approval g | KindAuth \<Rightarrow> Auth g creds | KindResource \<Rightarrow> Resource g
   | KindAwaitDependentRun \<Rightarrow> AwaitDependentRun g)"
  "validate_ref ''gate_ref'' g \<noteq> Ok () \<Longrightarrow> to_blocked_reason kind g creds = Err ()"
  by (auto simp: to_blocked_reason_def gate_ref_new_def bounded_ref_new_def split: sum.splits)

text \<open>The decision, claim by claim.\<close>

definition decides :: "evidence_port \<Rightarrow> claimed_turn_run \<Rightarrow> loop_exit \<Rightarrow> loop_exit_validation_decision \<Rightarrow> bool" where
  "decides port claimed e d \<longleftrightarrow>
    (if exit_supported port claimed e then d = trusted (exit_id e) (claimed_outcome e)
     else \<exists>k. d = invalid_exit_decision (exit_id e) k
       \<and> (k = CancellationNotObserved \<longleftrightarrow> (\<exists>x. e = ExitCancelled x) \<and> ep_is_cancellation_observed port
            (rst_scope (clr_state claimed)) (rst_turn_id (clr_state claimed)) (rst_run_id (clr_state claimed)) = Ok False))"

lemma validate_completed_decides:
  assumes "derive_policy port claimed (ExitCompleted x) = Ok p"
  shows "decides port claimed (ExitCompleted x) (validate (ExitCompleted x) p)"
proof -
  let ?scope = "rst_scope (clr_state claimed)" and ?turn = "rst_turn_id (clr_state claimed)"
  let ?run = "rst_run_id (clr_state claimed)" and ?profile = "clr_resolved_run_profile claimed"
  obtain refs where r:
      "ep_verify_completion_refs port ?scope ?turn ?run (lcd_reply_message_refs x) (lcd_result_refs x) = Ok refs"
    using assms by (simp add: derive_policy_def Let_def split: sum.splits)
  then obtain final where f:
      "verify_terminal_final_checkpoint port ?scope ?turn ?run ?profile (lcd_final_checkpoint_id x) = Ok final"
    using assms by (simp add: derive_policy_def Let_def split: sum.splits)
  have "p = policy_default\<lparr>vp_require_final_checkpoint := ck_require_final_checkpoint (rp_checkpoint_policy ?profile),
      vp_allow_no_reply_completion := ck_allow_no_reply_completion (rp_checkpoint_policy ?profile),
      vp_completion_refs_verified := refs, vp_final_checkpoint_verified := final\<rparr>"
    using assms r f by (simp add: derive_policy_def Let_def)
  then have p: "vp_completion_refs_verified p = refs" "vp_final_checkpoint_verified p = final"
      "vp_require_final_checkpoint p = ck_require_final_checkpoint (rp_checkpoint_policy ?profile)"
      "vp_allow_no_reply_completion p = ck_allow_no_reply_completion (rp_checkpoint_policy ?profile)"
    by simp_all
  note shape = completion_shape_iff [OF p(4), of x]
  have decision: "validate (ExitCompleted x) p = validate_completed_exit (lcd_exit_id x) x p"
    by (simp add: validate_def exit_id_def)
  have supported: "exit_supported port claimed (ExitCompleted x) \<longleftrightarrow> completion_shape claimed x
      \<and> final_backed port claimed (lcd_final_checkpoint_id x) \<and> (lcd_completion_kind x \<noteq> NoReply \<longrightarrow> refs)"
    by (auto simp: exit_supported_def r)
  show ?thesis
  proof (cases "completion_shape claimed x")
    case True
    then have "completion_kind_ref_violation x p = None" "has_durable_completion_ref x \<longleftrightarrow> lcd_completion_kind x \<noteq> NoReply"
      using shape(1,2) by simp_all
    then show ?thesis
      unfolding decides_def supported decision final_checkpoint_policy [OF f]
      using True p(1-3) by (auto simp: validate_completed_exit_def claimed_outcome_def exit_id_def)
  next
    case False
    then obtain k where "completion_kind_ref_violation x p = Some k" "k \<noteq> CancellationNotObserved"
      using shape(1,3) by auto
    then show ?thesis
      unfolding decides_def supported decision
      using False by (auto simp: validate_completed_exit_def exit_id_def)
  qed
qed

lemma validate_decides:
  assumes "derive_policy port claimed e = Ok p"
  shows "decides port claimed e (validate e p)"
proof (cases e)
  case (ExitCompleted x)
  with assms show ?thesis by (simp add: validate_completed_decides)
next
  case (ExitBlocked x)
  then show ?thesis
    using assms to_blocked_reason_Ok [of "lbk_gate_ref x" "lbk_kind x" "lbk_credential_requirements x"]
    by (cases "validate_ref ''gate_ref'' (lbk_gate_ref x) = Ok ()")
      (auto simp: decides_def exit_supported_def validate_def derive_policy_def claimed_outcome_def exit_id_def Let_def
        split: sum.splits)
next
  case (ExitCancelled x)
  then show ?thesis
    using assms
    by (auto simp: decides_def exit_supported_def validate_def validate_cancelled_exit_def derive_policy_def
      claimed_outcome_def exit_id_def Let_def final_checkpoint_policy split: sum.splits)
next
  case (ExitFailed x)
  then show ?thesis
    using assms
    by (auto simp: decides_def exit_supported_def validate_def validate_failed_exit_def derive_policy_def
      claimed_outcome_def exit_id_def Let_def final_checkpoint_policy to_sanitized_failure_def split: sum.splits)
qed

lemma decides_completed:
  "decides port claimed e d \<Longrightarrow> dec_mapping d = RunnerOutcome OutCompleted \<longleftrightarrow>
    exit_supported port claimed e \<and> (\<exists>x. e = ExitCompleted x)"
  by (cases e) (auto simp: decides_def trusted_def invalid_exit_decision_def claimed_outcome_def split: if_splits)

lemma decides_blocked:
  "decides port claimed e d \<Longrightarrow> dec_mapping d = RunnerOutcome (OutBlocked c r reason) \<Longrightarrow>
    exit_supported port claimed e \<and> (\<exists>x. e = ExitBlocked x \<and> c = lbk_checkpoint_id x \<and> r = lbk_state_ref x
      \<and> reason_gate_ref reason = lbk_gate_ref x)"
  by (cases e) (auto simp: decides_def trusted_def invalid_exit_decision_def claimed_outcome_def reason_gate_ref_def
    split: if_splits loop_blocked_kind.splits)

lemma decides_outcome: "decides port claimed e d \<Longrightarrow> \<exists>out. dec_mapping d = RunnerOutcome out"
  by (auto simp: decides_def trusted_def invalid_exit_decision_def split: if_splits)

lemma refs_unique_iff: "refs_unique seen vs \<longleftrightarrow> distinct vs \<and> set seen \<inter> set vs = {}"
  by (induction seen vs rule: refs_unique.induct) auto

section \<open>The transition port\<close>

text \<open>What a validated exit may do to the status of its run.\<close>

definition exit_effect :: "loop_exit_mapping \<Rightarrow> turn_status \<Rightarrow> turn_status option" where
  "exit_effect m st = (case (m, st) of
     (RunnerOutcome OutCompleted, Running) \<Rightarrow> Some Completed
   | (RunnerOutcome (OutBlocked _ _ reason), Running) \<Rightarrow> Some (reason_status reason)
   | (RunnerOutcome (OutFailed _), Running) \<Rightarrow> Some Failed
   | (RunnerOutcome OutCancelled, Running) \<Rightarrow> Some Failed
   | (RunnerOutcome OutCancelled, CancelRequested) \<Rightarrow> Some Cancelled
   | (MapRecoveryRequired _, Running) \<Rightarrow> Some Failed
   | (MapRecoveryRequired _, CancelRequested) \<Rightarrow> Some Cancelled
   | _ \<Rightarrow> None)"

locale exit_transition_port =
  fixes valid :: "'s \<Rightarrow> bool"
    and transition :: "apply_validated_loop_exit_request \<Rightarrow> 's \<Rightarrow> turn_run_state turn_result \<times> 's"
    and status :: "'s \<Rightarrow> turn_run_id \<Rightarrow> turn_status option"
  assumes rejects: "valid s \<Longrightarrow> transition q s = (Err e, s') \<Longrightarrow> status s' = status s"
    and others: "valid s \<Longrightarrow> transition q s = (r, s') \<Longrightarrow> k \<noteq> lr_run_id q \<Longrightarrow> status s' k = Some now \<Longrightarrow> status s k = Some now"
    and applies: "valid s \<Longrightarrow> transition q s = (Ok st, s') \<Longrightarrow>
      (\<exists>old. status s (lr_run_id q) = Some old \<and> exit_effect (ale_mapping q) old = Some (rst_status st))
      \<and> (\<forall>new. status s' (lr_run_id q) = Some new \<longrightarrow> new = rst_status st)"
begin

lemma apply_exit_Ok:
  assumes "valid s" "apply_exit transition port claimed e s = (Ok st, s')"
  obtains d old where "decides port claimed e d" "status s (rst_run_id (clr_state claimed)) = Some old"
    "exit_effect (dec_mapping d) old = Some (rst_status st)"
  using assms applies [OF assms(1)] validate_decides
  by (fastforce simp: apply_exit_def exit_request_def split: sum.splits)

lemma completed_backed:
  assumes "valid s" "apply_exit transition port claimed e s = (Ok st, s')" "rst_status st = Completed"
  shows "exit_supported port claimed e \<and> (\<exists>x. e = ExitCompleted x)
    \<and> status s (rst_run_id (clr_state claimed)) = Some Running"
proof -
  from assms(1,2) obtain d old where d: "decides port claimed e d" "status s (rst_run_id (clr_state claimed)) = Some old"
    "exit_effect (dec_mapping d) old = Some Completed"
    using assms(3) by (metis apply_exit_Ok)
  then have "dec_mapping d = RunnerOutcome OutCompleted \<and> old = Running"
    by (auto simp: exit_effect_def reason_status_def
      split: loop_exit_mapping.splits turn_runner_outcome.splits turn_status.splits blocked_reason.splits)
  with d decides_completed show ?thesis by blast
qed

text \<open>A run becomes completed through this port only on a claim the evidence supports.\<close>

lemma newly_completed:
  assumes "valid s" "apply_exit transition port claimed e s = (r, s')"
    and "status s' k = Some Completed" "status s k \<noteq> Some Completed"
  shows "k = rst_run_id (clr_state claimed) \<and> exit_supported port claimed e \<and> (\<exists>x. e = ExitCompleted x)
    \<and> status s k = Some Running"
proof (cases "derive_policy port claimed e")
  case (Inl er)
  then show ?thesis using assms by (auto simp: apply_exit_def)
next
  case (Inr p)
  let ?q = "exit_request claimed (dec_mapping (validate e p))"
  have t: "transition ?q s = (r, s')" using assms(2) Inr by (simp add: apply_exit_def)
  have id: "lr_run_id ?q = rst_run_id (clr_state claimed)" by (simp add: exit_request_def)
  have k: "k = rst_run_id (clr_state claimed)" using others [OF assms(1) t, of k] assms(3,4) id by auto
  obtain st where st: "r = Ok st" using rejects [OF assms(1)] t assms(3,4) by (cases r) auto
  have "rst_status st = Completed" using applies [OF assms(1) t [unfolded st]] assms(3) k id by auto
  with completed_backed [OF assms(1) assms(2) [unfolded st]] k show ?thesis by blast
qed

end

end
