(* ===== verification/Loop_Exit_Safety.thy ===== *)
theory Loop_Exit_Safety
  imports Loop_Exit Turn_Projection
begin

text \<open>
  Loop exits against the store: \<^const>\<open>apply_validated_loop_exit_transition\<close> is interpreted as
  a transition port, and the guarantees of \<^const>\<open>apply_exit\<close> follow: a run completes only
  on evidence, an unsupported claim fails the run with a sanitized category, and a claim
  cannot reach the store past the lease.
\<close>

definition run_status :: "inner \<Rightarrow> turn_run_id \<Rightarrow> turn_status option" where
  "run_status s k = map_option rr_status (hm_get (in_records s) k)"

section \<open>The store as a transition port\<close>

text \<open>The part of the transition under the lease.\<close>

definition exit_step ::
    "env \<Rightarrow> loop_exit_mapping \<Rightarrow> run_record \<Rightarrow> inner \<Rightarrow> applied_loop_transition \<times> inner" where
  "exit_step env m r s =
    (case m of RunnerOutcome OutCompleted \<Rightarrow> complete_claimed_record env r s
       | RunnerOutcome OutCancelled \<Rightarrow> cancel_or_fail_claimed_record env ''interrupted_unexpectedly'' r s
       | RunnerOutcome (OutBlocked cid sref reason) \<Rightarrow> block_claimed_record env cid sref reason r s
       | RunnerOutcome (OutFailed failure) \<Rightarrow> fail_claimed_record env failure r s
       | MapRecoveryRequired failure \<Rightarrow> cancel_or_fail_claimed_record env failure r s)"

lemma apply_exit_found:
  assumes "take_record (lr_run_id q) s = Ok (r, s0)"
  shows "ensure_active_lease r (lr_runner_id q) (lr_lease_token q) (env_now env) = Err e \<Longrightarrow>
      apply_validated_loop_exit_transition env q s = (Err e, insert_record r s0)"
    and "ensure_active_lease r (lr_runner_id q) (lr_lease_token q) (env_now env) = Ok u \<Longrightarrow>
      apply_validated_loop_exit_transition env q s = (let (t, s1) = exit_step env (ale_mapping q) r s0 in commit_transition t s1)"
proof -
  assume "ensure_active_lease r (lr_runner_id q) (lr_lease_token q) (env_now env) = Err e"
  with assms show "apply_validated_loop_exit_transition env q s = (Err e, insert_record r s0)"
    by (simp add: apply_validated_loop_exit_transition_def commit_transition_def)
next
  assume "ensure_active_lease r (lr_runner_id q) (lr_lease_token q) (env_now env) = Ok u"
  with assms show "apply_validated_loop_exit_transition env q s
      = (let (t, s1) = exit_step env (ale_mapping q) r s0 in commit_transition t s1)"
    by (simp add: apply_validated_loop_exit_transition_def exit_step_def)
qed

lemma exit_step_effect:
  assumes "rr_run_id r = k" "rr_status r \<in> {Running, CancelRequested}" "exit_step env m r s0 = (t, s1)"
  shows "case exit_effect m (rr_status r) of
      None \<Rightarrow> (case t of Rejected r' e \<Rightarrow> r' = r \<and> s1 = s0 | Applied _ _ _ \<Rightarrow> False)
    | Some new \<Rightarrow> (case t of
          Applied r' st b \<Rightarrow> st = run_state r' \<and> rr_run_id r' = k \<and> rr_status r' = new
            \<and> in_records s1 = in_records s0 \<and> (\<forall>f. m = RunnerOutcome (OutFailed f) \<longrightarrow> rr_failure r' = Some f)
        | Rejected _ _ \<Rightarrow> False)"
proof (cases m)
  case (RunnerOutcome out)
  then show ?thesis
    using assms by (cases out) (auto simp: exit_step_def exit_effect_def complete_claimed_record_def cancel_claimed_record_def
      fail_claimed_record_def block_claimed_record_def cancel_or_fail_claimed_record_def terminalize_eq block_record_eq
      blocked_record_def Let_def)
next
  case (MapRecoveryRequired f)
  then show ?thesis
    using assms by (auto simp: exit_step_def exit_effect_def cancel_claimed_record_def fail_claimed_record_def
      cancel_or_fail_claimed_record_def terminalize_eq Let_def)
qed

lemma store_exit_cases:
  assumes "store_inv s" "apply_validated_loop_exit_transition env q s = (res, s')"
  obtains (missing) "hm_get (in_records s) (lr_run_id q) = None" "res = Err ScopeNotFound" "s' = s"
  | (rejected) r e where "hm_get (in_records s) (lr_run_id q) = Some r" "res = Err e"
      "hm_get (in_records s') = hm_get (in_records s)"
      "is_ok (ensure_active_lease r (lr_runner_id q) (lr_lease_token q) (env_now env)) \<Longrightarrow>
        exit_effect (ale_mapping q) (rr_status r) = None"
  | (applied) r r' where "hm_get (in_records s) (lr_run_id q) = Some r"
      "ensure_active_lease r (lr_runner_id q) (lr_lease_token q) (env_now env) = Ok ()"
      "exit_effect (ale_mapping q) (rr_status r) = Some (rr_status r')" "res = Ok (run_state r')"
      "rr_run_id r' = lr_run_id q"
      "\<And>k x. hm_get (in_records s') k = Some x \<Longrightarrow> hm_get (put_record r' (in_records s)) k = Some x"
      "\<And>f. ale_mapping q = RunnerOutcome (OutFailed f) \<Longrightarrow> rr_failure r' = Some f"
  using assms(1)
proof (cases rule: take_record_cases [where k = "lr_run_id q"])
  case missing
  then have "apply_validated_loop_exit_transition env q s = (Err ScopeNotFound, s)"
    by (simp add: apply_validated_loop_exit_transition_def)
  with assms(2) have "res = Err ScopeNotFound" "s' = s" by simp_all
  then show ?thesis by (rule that(1) [OF missing(1)])
next
  case (found r)
  let ?s0 = "s\<lparr>in_records := hm_remove (lr_run_id q) (in_records s)\<rparr>"
  have same: "hm_get (in_records (insert_record r ?s0)) = hm_get (in_records s)"
    using found(1,2) by (auto simp: insert_record_def fun_eq_iff)
  show ?thesis
  proof (cases "ensure_active_lease r (lr_runner_id q) (lr_lease_token q) (env_now env)")
    case (Inl e)
    then have "res = Err e" "s' = insert_record r ?s0"
      using assms(2) apply_exit_found(1) [OF found(4)] by simp_all
    then show ?thesis using that(2) [of r e] found(1) same Inl by simp
  next
    case (Inr u)
    obtain t s1 where ts: "exit_step env (ale_mapping q) r ?s0 = (t, s1)" by (metis surj_pair)
    have out: "(res, s') = commit_transition t s1"
      using assms(2) apply_exit_found(2) [OF found(4) Inr] ts by simp
    have st: "rr_status r \<in> {Running, CancelRequested}" using lease_status [OF assms(1) found(1) Inr] by blast
    note step = exit_step_effect [OF found(2) st ts]
    show ?thesis
    proof (cases "exit_effect (ale_mapping q) (rr_status r)")
      case None
      then obtain e where "t = Rejected r e" "s1 = ?s0" using step by (auto split: applied_loop_transition.splits)
      then have "res = Err e" "s' = insert_record r ?s0" using out by (simp_all add: commit_transition_def)
      then show ?thesis using that(2) [of r e] found(1) same None by simp
    next
      case (Some new)
      then obtain r' b where r': "t = Applied r' (run_state r') b" "rr_run_id r' = lr_run_id q" "rr_status r' = new"
        "in_records s1 = hm_remove (lr_run_id q) (in_records s)"
        "\<And>f. ale_mapping q = RunnerOutcome (OutFailed f) \<Longrightarrow> rr_failure r' = Some f"
        using step by (auto split: applied_loop_transition.splits)
      have recs: "in_records (insert_record r' s1) = put_record r' (in_records s)"
        using r'(2,4) by (simp add: insert_record_def put_record_def)
      have ok: "res = Ok (run_state r')" "s' = (if b then prune_terminal_records (insert_record r' s1) else insert_record r' s1)"
        using out r'(1) by (simp_all add: commit_transition_def Let_def)
      have kept: "hm_get (put_record r' (in_records s)) k = Some x" if "hm_get (in_records s') k = Some x" for k x
        using that prune_records [of "insert_record r' s1" k x] unfolding ok(2) recs [symmetric] by (simp split: if_splits)
      show ?thesis
        by (rule that(3) [OF found(1) _ _ ok(1) r'(2) kept]) (use Inr Some r'(3,5) in simp_all)
    qed
  qed
qed

interpretation store_exits: exit_transition_port store_inv "apply_validated_loop_exit_transition env" run_status for env
proof unfold_locales
  fix s :: inner and q :: apply_validated_loop_exit_request and s' e
  assume inv: "store_inv s"
  show "apply_validated_loop_exit_transition env q s = (Err e, s') \<Longrightarrow> run_status s' = run_status s"
    by (erule store_exit_cases [OF inv]) (auto simp: run_status_def fun_eq_iff)
next
  fix s :: inner and q :: apply_validated_loop_exit_request and res s' k now
  assume inv: "store_inv s" and k: "k \<noteq> lr_run_id q" "run_status s' k = Some now"
  show "apply_validated_loop_exit_transition env q s = (res, s') \<Longrightarrow> run_status s k = Some now"
    by (erule store_exit_cases [OF inv])
      (use k in \<open>fastforce simp: run_status_def split: if_splits\<close>)+
next
  fix s :: inner and q :: apply_validated_loop_exit_request and st s'
  assume inv: "store_inv s" and ok: "apply_validated_loop_exit_transition env q s = (Ok st, s')"
  from inv ok show "(\<exists>old. run_status s (lr_run_id q) = Some old \<and> exit_effect (ale_mapping q) old = Some (rst_status st))
      \<and> (\<forall>new. run_status s' (lr_run_id q) = Some new \<longrightarrow> new = rst_status st)"
  proof (cases rule: store_exit_cases)
    case (applied r r')
    have "hm_get (in_records s') (lr_run_id q) = Some x \<Longrightarrow> x = r'" for x
      using applied(6) [of "lr_run_id q" x] applied(5) by simp
    then show ?thesis using applied(1,3,4) by (auto simp: run_status_def run_state_def)
  qed simp_all
qed

section \<open>Guarantees\<close>


definition demo_port :: "bool \<Rightarrow> evidence_port" where
  "demo_port ok = \<lparr>ep_verify_completion_refs = (\<lambda>_ _ _ _ _. Ok ok), ep_verify_final_checkpoint = (\<lambda>_ _ _ _. Ok ok),
     ep_verify_blocked_evidence = (\<lambda>_ _ _ _. Ok ok), ep_verify_failure_evidence = (\<lambda>_ _ _ _. Ok ok),
     ep_is_cancellation_observed = (\<lambda>_ _ _. Ok ok), ep_latest_checkpoint_kind = (\<lambda>_ _ _. Ok None)\<rparr>"

definition demo_claimed :: claimed_turn_run where
  "demo_claimed = \<lparr>clr_state = run_state demo_run2, clr_resolved_run_profile = demo_profile,
     clr_runner_id = 20, clr_lease_token = 21\<rparr>"

definition demo_completed :: loop_completed where
  "demo_completed = \<lparr>lcd_completion_kind = FinalReply, lcd_reply_message_refs = [''msg:1''], lcd_result_refs = [],
     lcd_final_checkpoint_id = None, lcd_usage_summary_ref = None, lcd_exit_id = ''exit:1''\<rparr>"

lemma demo_exit_policy:
  "derive_policy (demo_port ok) demo_claimed (ExitCompleted demo_completed)
    = Ok (policy_default\<lparr>vp_completion_refs_verified := ok, vp_final_checkpoint_verified := True\<rparr>)"
  by (simp add: derive_policy_def demo_port_def demo_claimed_def demo_completed_def verify_terminal_final_checkpoint_def
    demo_profile_def legacy_compatibility_def policy_default_def Let_def)

lemma demo_exit_runs:
  "\<exists>s'. apply_exit (apply_validated_loop_exit_transition demo_env) (demo_port True) demo_claimed
      (ExitCompleted demo_completed) demo2 = (Ok (run_state (terminal_record Completed None 3 demo_run2)), s')
    \<and> run_status s' 11 = Some Completed"
proof -
  have "in_terminal_runs demo2 = []"
    using reach_inv [OF demo_reach(3)] demo2_fields(1) demo_run2_lease(1)
    by (auto simp: store_inv_def terminal_ok_def record_is_terminal_def split: if_splits)
  moreover have "max_terminal_records demo_limits = 10000" by (simp add: demo_limits_def default_limits_def)
  ultimately have prune: "prune_terminal_records (demo2\<lparr>in_cursor := c, in_active_locks := l, in_queued_runs := q,
      in_event_retention_floor := fl, in_events := es, in_admission_reservations := adm,
      in_terminal_runs := push_back (in_terminal_runs demo2) 11, in_records := recs\<rparr>)
    = demo2\<lparr>in_cursor := c, in_active_locks := l, in_queued_runs := q, in_event_retention_floor := fl, in_events := es,
      in_admission_reservations := adm, in_terminal_runs := push_back (in_terminal_runs demo2) 11, in_records := recs\<rparr>"
    for c l q fl es adm recs
    by (intro prune_bounded) (simp add: terminal_bound_def demo2_fields)
  have mapping: "dec_mapping (validate (ExitCompleted demo_completed)
      (policy_default\<lparr>vp_completion_refs_verified := True, vp_final_checkpoint_verified := True\<rparr>)) = RunnerOutcome OutCompleted"
    by (simp add: validate_def validate_completed_exit_def completion_kind_ref_violation_def demo_completed_def
      has_durable_completion_ref_def policy_default_def trusted_def)
  show ?thesis
    unfolding apply_exit_def demo_exit_policy
    by (simp add: mapping exit_request_def demo_claimed_def run_state_def demo_run2_lease
      apply_validated_loop_exit_transition_def take_record_def demo2_fields ensure_active_lease_def demo_env_def
      complete_claimed_record_def terminalize_eq commit_transition_def Let_def saturating_add_def run_status_def
      insert_record_def prune)
qed


text \<open>Validation is exactly the comparison of the claim with the evidence: a claim the evidence
  supports is passed on as claimed, every other claim becomes a failure of the run with the
  category for protocol violations, or the one for unexpected interruptions precisely when a
  cancellation was claimed that the host never observed.\<close>

theorem exit_decision_matches_evidence:
  assumes "derive_policy port claimed e = Ok p"
  shows "if exit_supported port claimed e
    then validate e p = \<lparr>dec_exit_id = exit_id e, dec_mapping = RunnerOutcome (claimed_outcome e), dec_violation = None\<rparr>
    else \<exists>k. validate e p = \<lparr>dec_exit_id = exit_id e, dec_mapping = RunnerOutcome (OutFailed
        (if (\<exists>x. e = ExitCancelled x) \<and> ep_is_cancellation_observed port (rst_scope (clr_state claimed))
            (rst_turn_id (clr_state claimed)) (rst_run_id (clr_state claimed)) = Ok False
         then ''interrupted_unexpectedly'' else ''driver_protocol_violation'')), dec_violation = Some k\<rparr>"
proof (cases "exit_supported port claimed e")
  case True
  then show ?thesis using validate_decides [OF assms] by (simp add: decides_def trusted_def)
next
  case False
  with validate_decides [OF assms] obtain k where k: "validate e p = invalid_exit_decision (exit_id e) k"
    "k = CancellationNotObserved \<longleftrightarrow> (\<exists>x. e = ExitCancelled x) \<and> ep_is_cancellation_observed port
      (rst_scope (clr_state claimed)) (rst_turn_id (clr_state claimed)) (rst_run_id (clr_state claimed)) = Ok False"
    by (auto simp: decides_def)
  have "failure_category k = (if k = CancellationNotObserved then ''interrupted_unexpectedly'' else ''driver_protocol_violation'')"
    by (cases k) (simp_all add: failure_category_def)
  then show ?thesis using False k by (simp add: invalid_exit_decision_def)
qed

theorem exit_decision_matches_evidence_witness:
  "\<exists>k. validate (ExitCompleted demo_completed) (policy_default\<lparr>vp_completion_refs_verified := False,
      vp_final_checkpoint_verified := True\<rparr>) = \<lparr>dec_exit_id = ''exit:1'',
      dec_mapping = RunnerOutcome (OutFailed ''driver_protocol_violation''), dec_violation = Some k\<rparr>"
proof -
  have "\<not> exit_supported (demo_port False) demo_claimed (ExitCompleted demo_completed)"
    by (simp add: exit_supported_def demo_port_def demo_completed_def Let_def)
  with exit_decision_matches_evidence [OF demo_exit_policy [of False]] show ?thesis
    by (auto simp: exit_id_def demo_completed_def)
qed

text \<open>Under a held lease, an exit always takes effect on a running run: a supported claim ends or
  blocks the run as claimed, an unsupported one ends it as failed with the violation's category.
  When a cancellation has been requested only a cancelled exit ends the run, as cancelled; every
  other exit is refused and no run changes status.\<close>

theorem loop_exit_outcomes:
  assumes "reach limits L s" "hm_get (in_records s) (rst_run_id (clr_state claimed)) = Some r"
    and "ensure_active_lease r (clr_runner_id claimed) (clr_lease_token claimed) (env_now env) = Ok ()"
    and "derive_policy port claimed e = Ok p"
  shows "\<exists>out result s'. apply_exit (apply_validated_loop_exit_transition env) port claimed e s = (result, s')
    \<and> (if exit_supported port claimed e then out = claimed_outcome e
       else out \<in> {OutFailed ''driver_protocol_violation'', OutFailed ''interrupted_unexpectedly''})
    \<and> (rr_status r = Running \<or> rr_status r = CancelRequested)
    \<and> (case exit_effect (RunnerOutcome out) (rr_status r) of
        Some new \<Rightarrow> (\<exists>st. result = Ok st \<and> rst_status st = new \<and> rst_run_id st = rst_run_id (clr_state claimed)
          \<and> (\<forall>f. out = OutFailed f \<longrightarrow> rst_failure st = Some f))
      | None \<Rightarrow> rr_status r = CancelRequested \<and> out \<noteq> OutCancelled \<and> \<not> is_ok result \<and> run_status s' = run_status s)"
proof -
  note inv = reach_inv [OF assms(1)]
  have d: "decides port claimed e (validate e p)" using assms(4) by (rule validate_decides)
  obtain out where out: "dec_mapping (validate e p) = RunnerOutcome out" using decides_outcome [OF d] by blast
  have shape: "if exit_supported port claimed e then out = claimed_outcome e
      else out \<in> {OutFailed ''driver_protocol_violation'', OutFailed ''interrupted_unexpectedly''}"
  proof (cases "exit_supported port claimed e")
    case False
    then obtain k where "validate e p = invalid_exit_decision (exit_id e) k" using d by (auto simp: decides_def)
    then have "out = OutFailed (failure_category k)" using out by (simp add: invalid_exit_decision_def)
    with False show ?thesis by (cases k) (simp_all add: failure_category_def)
  qed (use d out in \<open>simp add: decides_def trusted_def\<close>)
  let ?q = "exit_request claimed (RunnerOutcome out)"
  have q: "lr_run_id ?q = rst_run_id (clr_state claimed)" "lr_runner_id ?q = clr_runner_id claimed"
    "lr_lease_token ?q = clr_lease_token claimed" "ale_mapping ?q = RunnerOutcome out"
    by (simp_all add: exit_request_def)
  obtain result s' where t: "apply_validated_loop_exit_transition env ?q s = (result, s')" by (metis surj_pair)
  have live: "rr_status r = Running \<or> rr_status r = CancelRequested" using lease_status [OF inv assms(2,3)] .
  have "case exit_effect (RunnerOutcome out) (rr_status r) of
      Some new \<Rightarrow> (\<exists>st. result = Ok st \<and> rst_status st = new \<and> rst_run_id st = rst_run_id (clr_state claimed)
        \<and> (\<forall>f. out = OutFailed f \<longrightarrow> rst_failure st = Some f))
    | None \<Rightarrow> rr_status r = CancelRequested \<and> out \<noteq> OutCancelled \<and> \<not> is_ok result \<and> run_status s' = run_status s"
    using inv t
  proof (cases rule: store_exit_cases)
    case missing
    then show ?thesis using assms(2) q by simp
  next
    case (rejected r0 err)
    then have none: "exit_effect (RunnerOutcome out) (rr_status r) = None" using assms(2,3) q by simp
    then have "rr_status r = CancelRequested \<and> out \<noteq> OutCancelled"
      using live by (cases out) (auto simp: exit_effect_def)
    then show ?thesis using none rejected(2,3) by (simp add: run_status_def fun_eq_iff)
  next
    case (applied r0 r')
    then show ?thesis using assms(2) q by (simp add: run_state_def)
  qed
  moreover have "apply_exit (apply_validated_loop_exit_transition env) port claimed e s = (result, s')"
    using t out assms(4) by (simp add: apply_exit_def)
  ultimately show ?thesis using shape live by blast
qed

theorem loop_exit_outcomes_witness:
  "\<exists>st s'. apply_exit (apply_validated_loop_exit_transition demo_env) (demo_port False) demo_claimed
      (ExitCompleted demo_completed) demo2 = (Ok st, s') \<and> rst_status st = Failed"
proof -
  have run: "hm_get (in_records demo2) (rst_run_id (clr_state demo_claimed)) = Some demo_run2"
    by (simp add: demo_claimed_def run_state_def demo_run2_lease demo2_fields)
  have lease: "ensure_active_lease demo_run2 (clr_runner_id demo_claimed) (clr_lease_token demo_claimed) (env_now demo_env) = Ok ()"
    by (simp add: ensure_active_lease_def demo_claimed_def demo_run2_lease demo_env_def)
  have "\<not> exit_supported (demo_port False) demo_claimed (ExitCompleted demo_completed)"
    by (simp add: exit_supported_def demo_port_def demo_completed_def Let_def)
  with loop_exit_outcomes [OF demo_reach(3) run lease demo_exit_policy [of False]] demo_run2_lease(1) show ?thesis
    by (fastforce simp: exit_effect_def)
qed

text \<open>What arrives over the wire cannot vouch for itself: a deserialized policy rejects every exit
  whatever it claims, and a deserialized reference list is accepted exactly when it has at most
  64 entries and no duplicate, and then unchanged.\<close>

theorem wire_payloads_fail_closed:
  "(case policy_from_wire w of
      Ok p \<Rightarrow> (\<exists>k. validate e p = invalid_exit_decision (exit_id e) k)
    | Err _ \<Rightarrow> w \<noteq> policy_default)
   \<and> (deserialize_bounded_unique_refs vs = Ok vs \<longleftrightarrow> length vs \<le> 64 \<and> distinct vs)
   \<and> (is_ok (deserialize_bounded_unique_refs vs) \<longleftrightarrow> length vs \<le> 64 \<and> distinct vs)"
proof -
  have "\<exists>k. validate e p = invalid_exit_decision (exit_id e) k" if p: "policy_from_wire w = Ok p" for p
  proof -
    have p: "\<not> vp_allow_no_reply_completion p" "\<not> vp_host_cancellation_observed p" "\<not> vp_completion_refs_verified p"
      "\<not> vp_blocked_evidence_verified p" "\<not> vp_failure_evidence_verified p"
      using p by (auto simp: policy_from_wire_def with_final_checkpoint_required_def policy_default_def split: if_splits)
    then show ?thesis
    proof (cases e)
      case (ExitCompleted x)
      then show ?thesis using p
        by (cases "lcd_completion_kind x") (auto simp: validate_def validate_completed_exit_def
          completion_kind_ref_violation_def has_durable_completion_ref_def)
    qed (auto simp: validate_def validate_cancelled_exit_def validate_failed_exit_def)
  qed
  moreover have "policy_from_wire policy_default = Ok policy_default"
    by (simp add: policy_from_wire_def with_final_checkpoint_required_def policy_default_def)
  ultimately show ?thesis
    by (auto simp: deserialize_bounded_unique_refs_def refs_unique_iff MAX_LOOP_EXIT_REF_COUNT_def split: sum.splits)
qed

end
