(* ===== verification/Turn_Lifecycle.thy ===== *)
theory Turn_Lifecycle
  imports Turn_Tree
begin

text \<open>
  Publication of committed transitions: \<^verbatim>\<open>ironclaw_turns/src/lifecycle.rs\<close>. The bus calls
  every required observer, keeps the first error, and then every best-effort sink. The
  decorator wraps a store: after an operation has committed, it publishes the event or
  state once per cursor, remembering what was delivered and, for operations of the
  coordinator, deferring a publication error for the coordinator to pick up.

  Observers and sinks are arbitrary code: they act on a world of type \<open>'w\<close>, which stands for
  whatever they read and write. The mutexes of the source are never poisoned here,
  since no code that could panic runs while one is held.
\<close>

section \<open>The event bus\<close>

record 'w committed_event_observer =
  ob_observes_state :: "turn_run_state \<Rightarrow> bool"
  ob_observes_event :: "turn_lifecycle_event \<Rightarrow> bool"
  ob_observe_committed_state :: "turn_run_state \<Rightarrow> 'w \<Rightarrow> unit turn_result \<times> 'w"
  ob_observe_committed_event :: "turn_lifecycle_event \<Rightarrow> 'w \<Rightarrow> unit turn_result \<times> 'w"

type_synonym 'w event_sink = "turn_lifecycle_event \<Rightarrow> 'w \<Rightarrow> unit turn_result \<times> 'w"

record 'w lifecycle_event_subscribers =
  bus_required :: "'w committed_event_observer list"
  bus_best_effort :: "'w event_sink list"

definition subscribe_required ::
    "'w committed_event_observer \<Rightarrow> 'w lifecycle_event_subscribers \<Rightarrow> 'w lifecycle_event_subscribers" where
  "subscribe_required ob bus = bus\<lparr>bus_required := bus_required bus @ [ob]\<rparr>"

definition subscribe_best_effort ::
    "'w event_sink \<Rightarrow> 'w lifecycle_event_subscribers \<Rightarrow> 'w lifecycle_event_subscribers" where
  "subscribe_best_effort sink bus = bus\<lparr>bus_best_effort := bus_best_effort bus @ [sink]\<rparr>"

fun fanout_best_effort :: "'w event_sink list \<Rightarrow> turn_lifecycle_event \<Rightarrow> 'w \<Rightarrow> 'w" where
  "fanout_best_effort [] event w = w"
| "fanout_best_effort (sink # sinks) event w = fanout_best_effort sinks event (snd (sink event w))"

fun observe_event_loop ::
    "'w committed_event_observer list \<Rightarrow> turn_lifecycle_event \<Rightarrow> turn_error option \<Rightarrow> 'w
      \<Rightarrow> turn_error option \<times> 'w" where
  "observe_event_loop [] event first w = (first, w)"
| "observe_event_loop (ob # obs) event first w =
    (if \<not> ob_observes_event ob event then observe_event_loop obs event first w
     else case ob_observe_committed_event ob event w of
         (Ok _, w) \<Rightarrow> observe_event_loop obs event first w
       | (Err e, w) \<Rightarrow> observe_event_loop obs event (if first = None then Some e else first) w)"

fun observe_state_loop ::
    "'w committed_event_observer list \<Rightarrow> turn_run_state \<Rightarrow> turn_error option \<Rightarrow> 'w
      \<Rightarrow> turn_error option \<times> 'w" where
  "observe_state_loop [] st first w = (first, w)"
| "observe_state_loop (ob # obs) st first w =
    (if \<not> ob_observes_state ob st then observe_state_loop obs st first w
     else case ob_observe_committed_state ob st w of
         (Ok _, w) \<Rightarrow> observe_state_loop obs st first w
       | (Err e, w) \<Rightarrow> observe_state_loop obs st (if first = None then Some e else first) w)"

definition publish_event ::
    "'w lifecycle_event_subscribers \<Rightarrow> turn_lifecycle_event \<Rightarrow> 'w \<Rightarrow> unit turn_result \<times> 'w" where
  "publish_event bus event w =
    (let (first, w) = observe_event_loop (bus_required bus) event None w;
         w = fanout_best_effort (bus_best_effort bus) event w in
     (case first of Some e \<Rightarrow> Err e | None \<Rightarrow> Ok (), w))"

definition publish_state ::
    "'w lifecycle_event_subscribers \<Rightarrow> turn_run_state \<Rightarrow> turn_lifecycle_event \<Rightarrow> 'w
      \<Rightarrow> unit turn_result \<times> 'w" where
  "publish_state bus st event w =
    (let (first, w) = observe_state_loop (bus_required bus) st None w;
         w = fanout_best_effort (bus_best_effort bus) event w in
     (case first of Some e \<Rightarrow> Err e | None \<Rightarrow> Ok (), w))"

section \<open>The publishing decorator\<close>

definition MAX_DELIVERED_EVENT_CURSORS :: usize where
  "MAX_DELIVERED_EVENT_CURSORS = 4096"

text \<open>The decorator's own state, beside the store it wraps. The hash set of delivered
  cursors is a list without duplicates.\<close>

record ('s, 'w) lifecycle_publishing_store =
  lp_inner :: 's
  lp_delivered_event_cursors :: "event_cursor list"
  lp_deferred_publication_errors :: "(event_cursor, turn_error) hmap"
  lp_world :: 'w

definition try_begin_publish :: "event_cursor \<Rightarrow> ('s, 'w) lifecycle_publishing_store \<Rightarrow> bool" where
  "try_begin_publish cursor p = (cursor \<notin> set (lp_delivered_event_cursors p))"

definition mark_event_cursor_delivered ::
    "event_cursor \<Rightarrow> ('s, 'w) lifecycle_publishing_store \<Rightarrow> ('s, 'w) lifecycle_publishing_store" where
  "mark_event_cursor_delivered cursor p =
    (let delivered = (if length (lp_delivered_event_cursors p) \<ge> MAX_DELIVERED_EVENT_CURSORS then []
                      else lp_delivered_event_cursors p) in
     p\<lparr>lp_delivered_event_cursors := List.insert cursor delivered\<rparr>)"

definition publish_event_once_deferred ::
    "'w lifecycle_event_subscribers \<Rightarrow> turn_lifecycle_event \<Rightarrow> ('s, 'w) lifecycle_publishing_store
      \<Rightarrow> ('s, 'w) lifecycle_publishing_store" where
  "publish_event_once_deferred bus event p =
    (let cursor = ev_cursor event in
     if \<not> try_begin_publish cursor p then p
     else case publish_event bus event (lp_world p) of
         (Ok _, w) \<Rightarrow> mark_event_cursor_delivered cursor (p\<lparr>lp_world := w\<rparr>)
       | (Err e, w) \<Rightarrow> p\<lparr>lp_world := w, lp_deferred_publication_errors :=
           hm_insert cursor e (lp_deferred_publication_errors p)\<rparr>)"

definition publish_state_once ::
    "'w lifecycle_event_subscribers \<Rightarrow> turn_run_state \<Rightarrow> turn_lifecycle_event
      \<Rightarrow> ('s, 'w) lifecycle_publishing_store \<Rightarrow> unit turn_result \<times> ('s, 'w) lifecycle_publishing_store" where
  "publish_state_once bus st event p =
    (let cursor = ev_cursor event in
     if \<not> try_begin_publish cursor p then (Ok (), p)
     else case publish_state bus st event (lp_world p) of
         (Ok _, w) \<Rightarrow> (Ok (), mark_event_cursor_delivered cursor (p\<lparr>lp_world := w\<rparr>))
       | (Err e, w) \<Rightarrow> (Err e, p\<lparr>lp_world := w\<rparr>))"

definition publish_state_once_best_effort ::
    "'w lifecycle_event_subscribers \<Rightarrow> turn_run_state \<Rightarrow> turn_lifecycle_event
      \<Rightarrow> ('s, 'w) lifecycle_publishing_store \<Rightarrow> ('s, 'w) lifecycle_publishing_store" where
  "publish_state_once_best_effort bus st event p =
    (let cursor = ev_cursor event in
     if \<not> try_begin_publish cursor p then p
     else case publish_state bus st event (lp_world p) of
         (Ok _, w) \<Rightarrow> mark_event_cursor_delivered cursor (p\<lparr>lp_world := w\<rparr>)
       | (Err e, w) \<Rightarrow> p\<lparr>lp_world := w\<rparr>)"

definition take_lifecycle_publication_error ::
    "event_cursor \<Rightarrow> ('s, 'w) lifecycle_publishing_store
      \<Rightarrow> turn_error option \<times> ('s, 'w) lifecycle_publishing_store" where
  "take_lifecycle_publication_error cursor p =
    (hm_get (lp_deferred_publication_errors p) cursor,
     p\<lparr>lp_deferred_publication_errors := hm_remove cursor (lp_deferred_publication_errors p)\<rparr>)"

section \<open>Events of the coordinator's operations\<close>

definition submit_event :: "submit_turn_request \<Rightarrow> submit_turn_response \<Rightarrow> turn_lifecycle_event" where
  "submit_event q r =
    \<lparr>ev_cursor = acc_event_cursor r, ev_scope = sub_scope q, ev_occurred_at = Some (sub_received_at q),
     ev_owner_user_id = lifecycle_owner_user_id (sub_scope q) (Some (ac_user_id (sub_actor q))),
     ev_run_id = acc_run_id r, ev_status = acc_status r, ev_kind = EvSubmitted,
     ev_blocked_gate = None, ev_sanitized_reason = None\<rparr>"

definition child_submit_event ::
    "submit_child_run_request \<Rightarrow> submit_turn_response \<Rightarrow> turn_lifecycle_event" where
  "child_submit_event q r =
    \<lparr>ev_cursor = acc_event_cursor r, ev_scope = chd_child_scope q, ev_occurred_at = Some (chd_received_at q),
     ev_owner_user_id = lifecycle_owner_user_id (chd_child_scope q) (Some (ac_user_id (chd_actor q))),
     ev_run_id = acc_run_id r, ev_status = acc_status r, ev_kind = EvSubmitted,
     ev_blocked_gate = None, ev_sanitized_reason = None\<rparr>"

definition resume_event ::
    "timestamp \<Rightarrow> resume_turn_request \<Rightarrow> resume_turn_response \<Rightarrow> turn_lifecycle_event" where
  "resume_event now q r =
    \<lparr>ev_cursor = rsm_event_cursor r, ev_scope = res_scope q, ev_occurred_at = Some now,
     ev_owner_user_id = lifecycle_owner_user_id (res_scope q) (Some (ac_user_id (res_actor q))),
     ev_run_id = rsm_run_id r, ev_status = rsm_status r, ev_kind = EvResumed,
     ev_blocked_gate = None, ev_sanitized_reason = None\<rparr>"

definition cancel_event ::
    "timestamp \<Rightarrow> cancel_run_request \<Rightarrow> cancel_run_response \<Rightarrow> turn_lifecycle_event option" where
  "cancel_event now q r =
    (if can_already_terminal r then None
     else Some
      \<lparr>ev_cursor = can_event_cursor r, ev_scope = cr_scope q, ev_occurred_at = Some now,
       ev_owner_user_id = lifecycle_owner_user_id (cr_scope q) (map_option ac_user_id (can_actor r)),
       ev_run_id = can_run_id r, ev_status = can_status r,
       ev_kind = (if can_status r = CancelRequested then EvCancelRequested else EvCancelled),
       ev_blocked_gate = None, ev_sanitized_reason = Some (cancel_category (cr_reason q))\<rparr>)"

definition event_kind_for_state :: "turn_run_state \<Rightarrow> turn_event_kind" where
  "event_kind_for_state st = (case rst_status st of
     Running \<Rightarrow> EvRunnerClaimed
   | BlockedApproval \<Rightarrow> EvBlocked
   | BlockedAuth \<Rightarrow> EvBlocked
   | BlockedResource \<Rightarrow> EvBlocked
   | BlockedDependentRun \<Rightarrow> EvBlocked
   | Completed \<Rightarrow> EvCompleted
   | Cancelled \<Rightarrow> EvCancelled
   | Failed \<Rightarrow> EvFailed
   | RecoveryRequired \<Rightarrow> EvRecoveryRequired
   | Queued \<Rightarrow> EvRunnerHeartbeat
   | CancelRequested \<Rightarrow> EvRunnerHeartbeat)"

definition sanitized_reason_for_state :: "turn_run_state \<Rightarrow> string option" where
  "sanitized_reason_for_state st =
    (if rst_status st \<in> {Failed, RecoveryRequired} then rst_failure st else None)"

section \<open>The decorated operations\<close>

text \<open>An operation of the wrapped store, run inside the decorator.\<close>

definition on_inner ::
    "('s \<Rightarrow> 'a \<times> 's) \<Rightarrow> ('s, 'w) lifecycle_publishing_store \<Rightarrow> 'a \<times> ('s, 'w) lifecycle_publishing_store" where
  "on_inner f p = (let (r, s) = f (lp_inner p) in (r, p\<lparr>lp_inner := s\<rparr>))"

definition lp_submit_turn ::
    "'w lifecycle_event_subscribers \<Rightarrow> (submit_turn_request \<Rightarrow> 's \<Rightarrow> submit_turn_response turn_result option \<times> 's)
      \<Rightarrow> submit_turn_request \<Rightarrow> ('s, 'w) lifecycle_publishing_store
      \<Rightarrow> submit_turn_response turn_result option \<times> ('s, 'w) lifecycle_publishing_store" where
  "lp_submit_turn bus submit q p =
    (case on_inner (submit q) p of
       (Some (Ok response), p) \<Rightarrow>
         (Some (Ok response), publish_event_once_deferred bus (submit_event q response) p)
     | (r, p) \<Rightarrow> (r, p))"

definition lp_submit_child_turn ::
    "'w lifecycle_event_subscribers \<Rightarrow> (submit_child_run_request \<Rightarrow> 's \<Rightarrow> submit_turn_response turn_result option \<times> 's)
      \<Rightarrow> submit_child_run_request \<Rightarrow> ('s, 'w) lifecycle_publishing_store
      \<Rightarrow> submit_turn_response turn_result option \<times> ('s, 'w) lifecycle_publishing_store" where
  "lp_submit_child_turn bus submit q p =
    (case on_inner (submit q) p of
       (Some (Ok response), p) \<Rightarrow>
         (Some (Ok response), publish_event_once_deferred bus (child_submit_event q response) p)
     | (r, p) \<Rightarrow> (r, p))"

definition lp_resume_turn ::
    "'w lifecycle_event_subscribers \<Rightarrow> (resume_turn_request \<Rightarrow> 's \<Rightarrow> resume_turn_response turn_result \<times> 's)
      \<Rightarrow> timestamp \<Rightarrow> resume_turn_request \<Rightarrow> ('s, 'w) lifecycle_publishing_store
      \<Rightarrow> resume_turn_response turn_result \<times> ('s, 'w) lifecycle_publishing_store" where
  "lp_resume_turn bus resume_op now q p =
    (case on_inner (resume_op q) p of
       (Ok response, p) \<Rightarrow> (Ok response, publish_event_once_deferred bus (resume_event now q response) p)
     | (Err e, p) \<Rightarrow> (Err e, p))"

definition lp_request_cancel ::
    "'w lifecycle_event_subscribers \<Rightarrow> (cancel_run_request \<Rightarrow> 's \<Rightarrow> cancel_run_response turn_result \<times> 's)
      \<Rightarrow> timestamp \<Rightarrow> cancel_run_request \<Rightarrow> ('s, 'w) lifecycle_publishing_store
      \<Rightarrow> cancel_run_response turn_result \<times> ('s, 'w) lifecycle_publishing_store" where
  "lp_request_cancel bus cancel now q p =
    (case on_inner (cancel q) p of
       (Ok response, p) \<Rightarrow>
         (Ok response, case cancel_event now q response of
            Some event \<Rightarrow> publish_event_once_deferred bus event p
          | None \<Rightarrow> p)
     | (Err e, p) \<Rightarrow> (Err e, p))"

text \<open>The runner's transitions publish the state they committed and return the error of a
  required observer; \<^verbatim>\<open>block_run\<close>, \<^verbatim>\<open>complete_run\<close> and \<^verbatim>\<open>cancel_run\<close> name the kind of
  event, the others derive it from the state.\<close>

definition lp_transition ::
    "'w lifecycle_event_subscribers \<Rightarrow> ('s \<Rightarrow> turn_run_state turn_result \<times> 's)
      \<Rightarrow> (turn_run_state \<Rightarrow> turn_event_kind) \<Rightarrow> (turn_run_state \<Rightarrow> string option) \<Rightarrow> timestamp
      \<Rightarrow> ('s, 'w) lifecycle_publishing_store
      \<Rightarrow> turn_run_state turn_result \<times> ('s, 'w) lifecycle_publishing_store" where
  "lp_transition bus f kind reason now p =
    (case on_inner f p of
       (Err e, p) \<Rightarrow> (Err e, p)
     | (Ok st, p) \<Rightarrow>
        (case publish_state_once bus st (event_from_run_state now st (kind st) (reason st)) p of
           (Err e, p) \<Rightarrow> (Err e, p)
         | (Ok _, p) \<Rightarrow> (Ok st, p)))"

definition lp_block_run where
  "lp_block_run bus block now q = lp_transition bus (block q) (\<lambda>_. EvBlocked) (\<lambda>_. None) now"

definition lp_complete_run where
  "lp_complete_run bus complete now q = lp_transition bus (complete q) (\<lambda>_. EvCompleted) (\<lambda>_. None) now"

definition lp_cancel_run where
  "lp_cancel_run bus cancel now q = lp_transition bus (cancel q) (\<lambda>_. EvCancelled) (\<lambda>_. None) now"

definition lp_fail_run where
  "lp_fail_run bus fail now q = lp_transition bus (fail q) (\<lambda>_. EvFailed) sanitized_reason_for_state now"

definition lp_record_runner_failure where
  "lp_record_runner_failure bus fail now q =
    lp_transition bus (fail q) event_kind_for_state sanitized_reason_for_state now"

definition lp_relinquish_run where
  "lp_relinquish_run bus relinquish now q =
    lp_transition bus (relinquish q) event_kind_for_state sanitized_reason_for_state now"

definition lp_apply_validated_loop_exit where
  "lp_apply_validated_loop_exit bus exit now q =
    lp_transition bus (exit q) event_kind_for_state sanitized_reason_for_state now"

definition lp_claim_next_run ::
    "'w lifecycle_event_subscribers \<Rightarrow> (claim_run_request \<Rightarrow> 's \<Rightarrow> claimed_turn_run option turn_result \<times> 's)
      \<Rightarrow> timestamp \<Rightarrow> claim_run_request \<Rightarrow> ('s, 'w) lifecycle_publishing_store
      \<Rightarrow> claimed_turn_run option turn_result \<times> ('s, 'w) lifecycle_publishing_store" where
  "lp_claim_next_run bus claim now q p =
    (case on_inner (claim q) p of
       (Ok (Some claimed), p) \<Rightarrow>
         (Ok (Some claimed), publish_state_once_best_effort bus (clr_state claimed)
            (event_from_run_state now (clr_state claimed) EvRunnerClaimed None) p)
     | (r, p) \<Rightarrow> (r, p))"

fun publish_recovered ::
    "'w lifecycle_event_subscribers \<Rightarrow> timestamp \<Rightarrow> turn_run_state list
      \<Rightarrow> ('s, 'w) lifecycle_publishing_store \<Rightarrow> ('s, 'w) lifecycle_publishing_store" where
  "publish_recovered bus now [] p = p"
| "publish_recovered bus now (st # sts) p = publish_recovered bus now sts
    (publish_state_once_best_effort bus st
      (event_from_run_state now st (event_kind_for_state st) (sanitized_reason_for_state st)) p)"

definition lp_recover_expired_leases ::
    "'w lifecycle_event_subscribers
      \<Rightarrow> (recover_expired_leases_request \<Rightarrow> 's \<Rightarrow> turn_run_state list turn_result \<times> 's)
      \<Rightarrow> timestamp \<Rightarrow> recover_expired_leases_request \<Rightarrow> ('s, 'w) lifecycle_publishing_store
      \<Rightarrow> turn_run_state list turn_result \<times> ('s, 'w) lifecycle_publishing_store" where
  "lp_recover_expired_leases bus recover now q p =
    (case on_inner (recover q) p of
       (Ok recovered, p) \<Rightarrow> (Ok recovered, publish_recovered bus now recovered p)
     | (Err e, p) \<Rightarrow> (Err e, p))"

end
