(* ===== verification/Turn_Coordinator.thy ===== *)
theory Turn_Coordinator
  imports Turn_Lifecycle
begin

text \<open>
  The public entry point: \<^verbatim>\<open>DefaultTurnCoordinator\<close> of \<^verbatim>\<open>ironclaw_turns/src/coordinator.rs\<close>. It
  binds prepared run ids to the scope they were prepared for, calls the store, wakes the
  scheduler on a best-effort basis and surfaces a publication error the store deferred.
  It is generic in the store: the operations of the store and the error port are
  arguments, acting on a state of type \<open>'s\<close>. The notifier's result is ignored by the source;
  the model records the wakes it was given.
\<close>

definition MAX_PREPARED_RUN_IDS :: usize where
  "MAX_PREPARED_RUN_IDS = 4096"

record turn_run_wake =
  wk_scope :: turn_scope
  wk_run_id :: turn_run_id
  wk_status :: turn_status
  wk_event_cursor :: event_cursor

record 's default_turn_coordinator =
  co_store :: 's
  co_prepared_run_id_scopes :: "(turn_run_id, turn_scope) hmap"
  co_wakes :: "turn_run_wake list"

definition record_prepared_run_id ::
    "turn_run_id \<Rightarrow> turn_scope \<Rightarrow> 's default_turn_coordinator \<Rightarrow> unit turn_result \<times> 's default_turn_coordinator" where
  "record_prepared_run_id run_id scope c =
    (if length (co_prepared_run_id_scopes c) \<ge> MAX_PREPARED_RUN_IDS
     then (Err (CapacityExceeded SubmitTurn (of_nat MAX_PREPARED_RUN_IDS)), c)
     else (Ok (), c\<lparr>co_prepared_run_id_scopes := hm_insert run_id scope (co_prepared_run_id_scopes c)\<rparr>))"

definition consume_prepared_run_id ::
    "turn_run_id \<Rightarrow> 's default_turn_coordinator \<Rightarrow> turn_scope option \<times> 's default_turn_coordinator" where
  "consume_prepared_run_id run_id c =
    (hm_get (co_prepared_run_id_scopes c) run_id,
     c\<lparr>co_prepared_run_id_scopes := hm_remove run_id (co_prepared_run_id_scopes c)\<rparr>)"

definition submit_wake :: "turn_scope \<Rightarrow> submit_turn_response \<Rightarrow> turn_run_wake" where
  "submit_wake scope r = \<lparr>wk_scope = scope, wk_run_id = acc_run_id r, wk_status = acc_status r,
     wk_event_cursor = acc_event_cursor r\<rparr>"

definition submit_event_cursor :: "submit_turn_response \<Rightarrow> event_cursor" where
  "submit_event_cursor r = acc_event_cursor r"

definition resume_wake :: "turn_scope \<Rightarrow> resume_turn_response \<Rightarrow> turn_run_wake" where
  "resume_wake scope r = \<lparr>wk_scope = scope, wk_run_id = rsm_run_id r, wk_status = rsm_status r,
     wk_event_cursor = rsm_event_cursor r\<rparr>"

definition cancel_wake :: "turn_scope \<Rightarrow> cancel_run_response \<Rightarrow> turn_run_wake" where
  "cancel_wake scope r = \<lparr>wk_scope = scope, wk_run_id = can_run_id r, wk_status = can_status r,
     wk_event_cursor = can_event_cursor r\<rparr>"

definition notify_queued_run_best_effort ::
    "turn_run_wake \<Rightarrow> 's default_turn_coordinator \<Rightarrow> 's default_turn_coordinator" where
  "notify_queued_run_best_effort wake c = c\<lparr>co_wakes := co_wakes c @ [wake]\<rparr>"

type_synonym 's publication_error_port = "event_cursor \<Rightarrow> 's \<Rightarrow> turn_error option \<times> 's"

definition noop_publication_error_port :: "'s publication_error_port" where
  "noop_publication_error_port cursor s = (None, s)"

definition deferred_publication_error ::
    "'s publication_error_port \<Rightarrow> event_cursor \<Rightarrow> 's default_turn_coordinator
      \<Rightarrow> unit turn_result \<times> 's default_turn_coordinator" where
  "deferred_publication_error port cursor c =
    (case port cursor (co_store c) of
       (Some e, s) \<Rightarrow> (Err e, c\<lparr>co_store := s\<rparr>)
     | (None, s) \<Rightarrow> (Ok (), c\<lparr>co_store := s\<rparr>))"

definition on_store ::
    "('s \<Rightarrow> 'a \<times> 's) \<Rightarrow> 's default_turn_coordinator \<Rightarrow> 'a \<times> 's default_turn_coordinator" where
  "on_store f c = (let (r, s) = f (co_store c) in (r, c\<lparr>co_store := s\<rparr>))"

section \<open>Operations\<close>

definition prepare_turn ::
    "turn_run_id \<Rightarrow> turn_scope \<Rightarrow> 's default_turn_coordinator
      \<Rightarrow> turn_run_id turn_result \<times> 's default_turn_coordinator" where
  "prepare_turn fresh scope c =
    (case record_prepared_run_id fresh scope c of
       (Err e, c) \<Rightarrow> (Err e, c)
     | (Ok _, c) \<Rightarrow> (Ok fresh, c))"

definition abort_prepared_turn ::
    "turn_run_id \<Rightarrow> 's default_turn_coordinator \<Rightarrow> unit turn_result \<times> 's default_turn_coordinator" where
  "abort_prepared_turn run_id c = (Ok (), snd (consume_prepared_run_id run_id c))"

text \<open>What both submit operations do with the store's answer.\<close>

definition announce_submit ::
    "'s publication_error_port \<Rightarrow> turn_scope \<Rightarrow> submit_turn_response turn_result option
      \<Rightarrow> 's default_turn_coordinator
      \<Rightarrow> submit_turn_response turn_result option \<times> 's default_turn_coordinator" where
  "announce_submit port scope r c =
    (case r of
       Some (Ok response) \<Rightarrow>
         (case deferred_publication_error port (submit_event_cursor response)
                 (notify_queued_run_best_effort (submit_wake scope response) c) of
            (Err e, c) \<Rightarrow> (Some (Err e), c)
          | (Ok _, c) \<Rightarrow> (Some (Ok response), c))
     | _ \<Rightarrow> (r, c))"

definition check_prepared ::
    "submit_turn_request \<Rightarrow> 's default_turn_coordinator \<Rightarrow> bool \<times> 's default_turn_coordinator" where
  "check_prepared q c =
    (case sub_requested_run_id q of
       None \<Rightarrow> (True, c)
     | Some run_id \<Rightarrow>
        (case consume_prepared_run_id run_id c of
           (None, c) \<Rightarrow> (True, c)
         | (Some prepared_scope, c) \<Rightarrow>
            (\<not> (sub_parent_run_id q = None \<and> prepared_scope \<noteq> sub_scope q), c)))"

definition coordinator_submit_turn ::
    "'s publication_error_port
      \<Rightarrow> (submit_turn_request \<Rightarrow> 's \<Rightarrow> submit_turn_response turn_result option \<times> 's)
      \<Rightarrow> submit_turn_request \<Rightarrow> 's default_turn_coordinator
      \<Rightarrow> submit_turn_response turn_result option \<times> 's default_turn_coordinator" where
  "coordinator_submit_turn port submit q c =
    (case check_prepared q c of
       (False, c) \<Rightarrow> (Some (Err Unauthorized), c)
     | (True, c) \<Rightarrow> (let (r, c) = on_store (submit q) c in announce_submit port (sub_scope q) r c))"

definition coordinator_resume_turn ::
    "'s publication_error_port \<Rightarrow> (resume_turn_request \<Rightarrow> 's \<Rightarrow> resume_turn_response turn_result \<times> 's)
      \<Rightarrow> resume_turn_request \<Rightarrow> 's default_turn_coordinator
      \<Rightarrow> resume_turn_response turn_result \<times> 's default_turn_coordinator" where
  "coordinator_resume_turn port resume_op q c =
    (case on_store (resume_op q) c of
       (Err e, c) \<Rightarrow> (Err e, c)
     | (Ok response, c) \<Rightarrow>
        (case deferred_publication_error port (rsm_event_cursor response)
                (notify_queued_run_best_effort (resume_wake (res_scope q) response) c) of
           (Err e, c) \<Rightarrow> (Err e, c)
         | (Ok _, c) \<Rightarrow> (Ok response, c)))"

definition coordinator_cancel_run ::
    "'s publication_error_port \<Rightarrow> (cancel_run_request \<Rightarrow> 's \<Rightarrow> cancel_run_response turn_result \<times> 's)
      \<Rightarrow> cancel_run_request \<Rightarrow> 's default_turn_coordinator
      \<Rightarrow> cancel_run_response turn_result \<times> 's default_turn_coordinator" where
  "coordinator_cancel_run port cancel q c =
    (case on_store (cancel q) c of
       (Err e, c) \<Rightarrow> (Err e, c)
     | (Ok response, c) \<Rightarrow>
        (let c = (if can_status response = CancelRequested \<or> is_terminal (can_status response)
                  then notify_queued_run_best_effort (cancel_wake (cr_scope q) response) c else c) in
         if can_already_terminal response then (Ok response, c)
         else (case deferred_publication_error port (can_event_cursor response) c of
                 (Err e, c) \<Rightarrow> (Err e, c)
               | (Ok _, c) \<Rightarrow> (Ok response, c))))"

definition coordinator_submit_child_run ::
    "'s publication_error_port
      \<Rightarrow> (submit_child_run_request \<Rightarrow> 's \<Rightarrow> submit_turn_response turn_result option \<times> 's)
      \<Rightarrow> submit_child_run_request \<Rightarrow> 's default_turn_coordinator
      \<Rightarrow> submit_turn_response turn_result option \<times> 's default_turn_coordinator" where
  "coordinator_submit_child_run port submit q c =
    (let (r, c) = on_store (submit q) c in announce_submit port (chd_child_scope q) r c)"

end
