(* ===== verification/Turn_Publication.thy ===== *)
theory Turn_Publication
  imports Turn_Coordinator Loop_Exit_Safety
begin

text \<open>
  Guarantees of the coordinator and of lifecycle publication: prepared run ids are bound to
  their scope and bounded in number, accepted work is always announced, every observer and
  every sink sees every committed event, and a publication failure is reported once
  without losing the committed run, so that a retry under the same key completes it.
\<close>

section \<open>The bus\<close>

text \<open>What calling everyone means, whatever individual observers answer.\<close>

definition deliver_event :: "'w lifecycle_event_subscribers \<Rightarrow> turn_lifecycle_event \<Rightarrow> 'w \<Rightarrow> 'w" where
  "deliver_event bus event w =
    fold (\<lambda>sink w. snd (sink event w)) (bus_best_effort bus)
      (fold (\<lambda>ob w. if ob_observes_event ob event then snd (ob_observe_committed_event ob event w) else w)
        (bus_required bus) w)"

definition deliver_state ::
    "'w lifecycle_event_subscribers \<Rightarrow> turn_run_state \<Rightarrow> turn_lifecycle_event \<Rightarrow> 'w \<Rightarrow> 'w" where
  "deliver_state bus st event w =
    fold (\<lambda>sink w. snd (sink event w)) (bus_best_effort bus)
      (fold (\<lambda>ob w. if ob_observes_state ob st then snd (ob_observe_committed_state ob st w) else w)
        (bus_required bus) w)"

lemma fanout_fold: "fanout_best_effort sinks event w = fold (\<lambda>sink w. snd (sink event w)) sinks w"
  by (induction sinks arbitrary: w) simp_all

lemma observe_event_fold:
  "snd (observe_event_loop obs event first w) =
    fold (\<lambda>ob w. if ob_observes_event ob event then snd (ob_observe_committed_event ob event w) else w) obs w"
  by (induction obs event first w rule: observe_event_loop.induct) (auto split: prod.splits sum.splits)

lemma observe_state_fold:
  "snd (observe_state_loop obs st first w) =
    fold (\<lambda>ob w. if ob_observes_state ob st then snd (ob_observe_committed_state ob st w) else w) obs w"
  by (induction obs st first w rule: observe_state_loop.induct) (auto split: prod.splits sum.splits)

lemma observe_event_first: "fst (observe_event_loop obs event (Some e) w) = Some e"
  by (induction obs arbitrary: w) (auto split: prod.splits sum.splits)

lemma observe_event_None:
  "fst (observe_event_loop obs event None w) = None \<longleftrightarrow>
    (\<forall>i < length obs. ob_observes_event (obs ! i) event \<longrightarrow>
      is_ok (fst (ob_observe_committed_event (obs ! i) event
        (snd (observe_event_loop (take i obs) event None w)))))"
proof (induction obs arbitrary: w)
  case (Cons ob obs)
  show ?case
  proof (cases "ob_observes_event ob event")
    case False
    then show ?thesis using Cons by (auto simp: All_less_Suc2 less_Suc_eq_0_disj)
  next
    case True
    obtain r w' where r: "ob_observe_committed_event ob event w = (r, w')" by (metis surj_pair)
    show ?thesis
    proof (cases r)
      case (Inl e)
      then show ?thesis using True r by (auto simp: All_less_Suc2 observe_event_first)
    next
      case (Inr u)
      then show ?thesis using Cons [of w'] True r by (auto simp: less_Suc_eq_0_disj)
    qed
  qed
qed simp

lemma publish_event_delivers: "snd (publish_event bus event w) = deliver_event bus event w"
  by (simp add: publish_event_def deliver_event_def fanout_fold observe_event_fold split_beta Let_def)

lemma publish_state_delivers: "snd (publish_state bus st event w) = deliver_state bus st event w"
  by (simp add: publish_state_def deliver_state_def fanout_fold observe_state_fold split_beta Let_def)

text \<open>A failing observer hides an event from nobody: publishing calls every required observer
  that asks for the event and then every best-effort sink, in subscription order, and answers
  with an error exactly when some required observer failed.\<close>

theorem publication_reaches_everyone:
  "snd (publish_event bus event w) = deliver_event bus event w
   \<and> snd (publish_state bus st event w) = deliver_state bus st event w
   \<and> (is_ok (fst (publish_event bus event w)) \<longleftrightarrow>
      (\<forall>i < length (bus_required bus). ob_observes_event (bus_required bus ! i) event \<longrightarrow>
        is_ok (fst (ob_observe_committed_event (bus_required bus ! i) event
          (fold (\<lambda>ob w. if ob_observes_event ob event then snd (ob_observe_committed_event ob event w) else w)
            (take i (bus_required bus)) w)))))"
proof -
  have "is_ok (fst (publish_event bus event w)) \<longleftrightarrow> fst (observe_event_loop (bus_required bus) event None w) = None"
    by (simp add: publish_event_def split_beta Let_def split: option.split)
  then show ?thesis
    by (simp add: publish_event_delivers publish_state_delivers observe_event_None observe_event_fold)
qed

theorem publication_reaches_everyone_witness:
  "deliver_event \<lparr>bus_required = [\<lparr>ob_observes_state = (\<lambda>_. True), ob_observes_event = (\<lambda>_. True),
        ob_observe_committed_state = (\<lambda>_ w. (Ok (), w)), ob_observe_committed_event = (\<lambda>_ w. (Err LeaseMismatch, w + 1))\<rparr>],
      bus_best_effort = [\<lambda>_ w. (Ok (), w + 2)]\<rparr> (submit_event demo_submit demo_response) (0::nat) = 3"
  using publication_reaches_everyone [of "\<lparr>bus_required = [\<lparr>ob_observes_state = (\<lambda>_. True), ob_observes_event = (\<lambda>_. True),
        ob_observe_committed_state = (\<lambda>_ w. (Ok (), w)), ob_observe_committed_event = (\<lambda>_ w. (Err LeaseMismatch, w + 1))\<rparr>],
      bus_best_effort = [\<lambda>_ w. (Ok (), w + 2)]\<rparr>" "submit_event demo_submit demo_response" "0::nat" "run_state demo_run2", THEN conjunct1]
  by (simp add: publish_event_def)

section \<open>Prepared run ids\<close>

definition prepared_ok :: "'s default_turn_coordinator \<Rightarrow> bool" where
  "prepared_ok c \<longleftrightarrow> hm_wf (co_prepared_run_id_scopes c)
    \<and> length (co_prepared_run_id_scopes c) \<le> MAX_PREPARED_RUN_IDS"

lemma hm_remove_length: "length (hm_remove k m) \<le> length m"
  by (simp add: hm_remove_def AList.delete_eq)

lemma hm_insert_length: "hm_wf m \<Longrightarrow> length (hm_insert k v m) \<le> Suc (length m)"
  by (simp add: hm_length_dom card_insert_if)

lemma prepared_ok_consume: "prepared_ok c \<Longrightarrow> prepared_ok (snd (consume_prepared_run_id k c))"
  using hm_remove_length [of k "co_prepared_run_id_scopes c"]
  by (auto simp: prepared_ok_def consume_prepared_run_id_def)

lemma prepared_frames [simp]:
  "co_prepared_run_id_scopes (snd (on_store f c)) = co_prepared_run_id_scopes c"
  "co_prepared_run_id_scopes (snd (announce_submit port scope r c)) = co_prepared_run_id_scopes c"
  "co_prepared_run_id_scopes (snd (deferred_publication_error port cursor c)) = co_prepared_run_id_scopes c"
  "co_prepared_run_id_scopes (notify_queued_run_best_effort wake c) = co_prepared_run_id_scopes c"
  by (simp_all add: on_store_def announce_submit_def deferred_publication_error_def notify_queued_run_best_effort_def
      split_beta Let_def split: option.split sum.split prod.split)

lemma prepared_check: "prepared_ok c \<Longrightarrow> prepared_ok (snd (check_prepared q c))"
  using prepared_ok_consume [of c]
  by (auto simp: check_prepared_def split_beta split: option.split prod.split)

text \<open>A prepared run id is bound to its scope: submitting it for another scope is refused before
  the store is touched, and the attempt uses the reservation up; submitting it for its own scope
  passes the check, once.\<close>

theorem prepared_ids_are_scope_bound:
  assumes "hm_get (co_prepared_run_id_scopes c) k = Some scope" "sub_requested_run_id q = Some k"
    and "sub_parent_run_id q = None"
  shows "hm_get (co_prepared_run_id_scopes (snd (coordinator_submit_turn port submit q c))) k = None
    \<and> (if scope = sub_scope q
       then coordinator_submit_turn port submit q c
          = (let (r, c') = on_store (submit q) (snd (consume_prepared_run_id k c)) in announce_submit port scope r c')
       else fst (coordinator_submit_turn port submit q c) = Some (Err Unauthorized)
          \<and> co_store (snd (coordinator_submit_turn port submit q c)) = co_store c
          \<and> co_wakes (snd (coordinator_submit_turn port submit q c)) = co_wakes c)"
  using assms
  by (simp add: coordinator_submit_turn_def check_prepared_def consume_prepared_run_id_def split_beta Let_def)

definition demo_coordinator :: "inner default_turn_coordinator" where
  "demo_coordinator = \<lparr>co_store = demo1, co_prepared_run_id_scopes = [(5, demo_scope)], co_wakes = []\<rparr>"

theorem prepared_ids_are_scope_bound_witness:
  "fst (coordinator_submit_turn noop_publication_error_port (submit_turn demo_env demo_L allow_all_admission_policy
      (\<lambda>_. Ok demo_profile)) (demo_submit\<lparr>sub_requested_run_id := Some 5,
      sub_scope := turn_scope_new ''t'' None None ''other''\<rparr>) demo_coordinator) = Some (Err Unauthorized)"
proof -
  have "hm_get (co_prepared_run_id_scopes demo_coordinator) 5 = Some demo_scope"
    by (simp add: demo_coordinator_def hm_get_def)
  from prepared_ids_are_scope_bound [OF this, of "demo_submit\<lparr>sub_requested_run_id := Some 5,
      sub_scope := turn_scope_new ''t'' None None ''other''\<rparr>" noop_publication_error_port "submit_turn demo_env demo_L
      allow_all_admission_policy (\<lambda>_. Ok demo_profile)"]
  show ?thesis by (simp add: demo_submit_def demo_scope_def turn_scope_new_def)
qed

text \<open>The coordinator never holds more than 4096 prepared run ids: every operation keeps the bound,
  preparing at the bound is refused and changes nothing, and aborting or submitting a prepared id
  makes room again. Submitting a child run, however, leaves its reservation in place.\<close>

theorem prepared_ids_bounded:
  assumes "prepared_ok c"
  shows "prepared_ok (snd (prepare_turn fresh scope c))
    \<and> prepared_ok (snd (abort_prepared_turn k c))
    \<and> prepared_ok (snd (coordinator_submit_turn port submit q c))
    \<and> prepared_ok (snd (coordinator_resume_turn port resume_op rq c))
    \<and> prepared_ok (snd (coordinator_cancel_run port cancel cq c))
    \<and> co_prepared_run_id_scopes (snd (coordinator_submit_child_run port child chq c)) = co_prepared_run_id_scopes c
    \<and> (length (co_prepared_run_id_scopes c) = 4096 \<longrightarrow>
        prepare_turn fresh scope c = (Err (CapacityExceeded SubmitTurn 4096), c))
    \<and> (length (co_prepared_run_id_scopes c) < 4096 \<longrightarrow>
        (\<exists>c'. prepare_turn fresh scope c = (Ok fresh, c') \<and> hm_get (co_prepared_run_id_scopes c') fresh = Some scope))"
proof -
  have prepare: "prepared_ok (snd (prepare_turn fresh scope c))"
    using assms hm_insert_length [of "co_prepared_run_id_scopes c" fresh scope]
    by (auto simp: prepared_ok_def prepare_turn_def record_prepared_run_id_def)
  have abort: "prepared_ok (snd (abort_prepared_turn k c))"
    using prepared_ok_consume [OF assms] by (simp add: abort_prepared_turn_def)
  have "co_prepared_run_id_scopes (snd (coordinator_submit_turn port submit q c))
      = co_prepared_run_id_scopes (snd (check_prepared q c))"
    by (simp add: coordinator_submit_turn_def split_beta split: bool.split)
  then have submit: "prepared_ok (snd (coordinator_submit_turn port submit q c))"
    using prepared_check [OF assms] unfolding prepared_ok_def by simp
  have "co_prepared_run_id_scopes (snd (coordinator_resume_turn port resume_op rq c)) = co_prepared_run_id_scopes c"
    by (simp add: coordinator_resume_turn_def split_beta split: sum.split)
  then have resume: "prepared_ok (snd (coordinator_resume_turn port resume_op rq c))"
    using assms unfolding prepared_ok_def by simp
  have "co_prepared_run_id_scopes (snd (coordinator_cancel_run port cancel cq c)) = co_prepared_run_id_scopes c"
    by (simp add: coordinator_cancel_run_def split_beta Let_def split: sum.split)
  then have cancel: "prepared_ok (snd (coordinator_cancel_run port cancel cq c))"
    using assms unfolding prepared_ok_def by simp
  show ?thesis
    using prepare abort submit resume cancel
    by (simp add: coordinator_submit_child_run_def prepare_turn_def record_prepared_run_id_def
      MAX_PREPARED_RUN_IDS_def split_beta Let_def)
qed

theorem prepared_ids_bounded_witness:
  "\<exists>c'. prepare_turn 6 demo_scope demo_coordinator = (Ok 6, c') \<and> hm_get (co_prepared_run_id_scopes c') 6 = Some demo_scope"
  using prepared_ids_bounded [of demo_coordinator 6 demo_scope]
  by (simp add: prepared_ok_def demo_coordinator_def hm_wf_def hm_keys_def MAX_PREPARED_RUN_IDS_def)

section \<open>Publication failures\<close>

text \<open>The coordinator over the publishing store over the in-memory store, as the runtime composes
  them.\<close>

definition submit_through ::
    "'w lifecycle_event_subscribers \<Rightarrow> env \<Rightarrow> turn_admission_limit_provider \<Rightarrow> turn_admission_policy
      \<Rightarrow> run_profile_resolver \<Rightarrow> submit_turn_request
      \<Rightarrow> (inner, 'w) lifecycle_publishing_store default_turn_coordinator
      \<Rightarrow> submit_turn_response turn_result option \<times> (inner, 'w) lifecycle_publishing_store default_turn_coordinator" where
  "submit_through bus env L policy resolver =
    coordinator_submit_turn take_lifecycle_publication_error (lp_submit_turn bus (submit_turn env L policy resolver))"

text \<open>A submission the store accepts: committed, published or deferred, and announced.\<close>

lemma mark_delivered_simps [simp]:
  "lp_inner (mark_event_cursor_delivered k p) = lp_inner p"
  "lp_deferred_publication_errors (mark_event_cursor_delivered k p) = lp_deferred_publication_errors p"
  "lp_world (mark_event_cursor_delivered k p) = lp_world p"
  "k \<in> set (lp_delivered_event_cursors (mark_event_cursor_delivered k p))"
  by (simp_all add: mark_event_cursor_delivered_def Let_def)

lemma publish_deferred_inner [simp]: "lp_inner (publish_event_once_deferred bus event p) = lp_inner p"
  by (simp add: publish_event_once_deferred_def Let_def split_beta split: sum.split)

lemma submit_through_accepted:
  assumes "submit_turn env L policy resolver q (lp_inner (co_store c)) = (Some (Ok resp), s')"
    and "fst (check_prepared q c)"
    and p_def: "p = publish_event_once_deferred bus (submit_event q resp) ((co_store c)\<lparr>lp_inner := s'\<rparr>)"
  shows "submit_through bus env L policy resolver q c =
    (case hm_get (lp_deferred_publication_errors p) (acc_event_cursor resp) of
        Some e \<Rightarrow> Some (Err e) | None \<Rightarrow> Some (Ok resp),
     (snd (check_prepared q c))\<lparr>
       co_store := p\<lparr>lp_deferred_publication_errors :=
         hm_remove (acc_event_cursor resp) (lp_deferred_publication_errors p)\<rparr>,
       co_wakes := co_wakes c @ [submit_wake (sub_scope q) resp]\<rparr>)"
proof -
  obtain c0 where c0: "check_prepared q c = (True, c0)" using assms(2) by (metis prod.collapse)
  have same: "co_store c0 = co_store c" "co_wakes c0 = co_wakes c"
    using c0 by (auto simp: check_prepared_def consume_prepared_run_id_def split: option.splits)
  have lp: "lp_submit_turn bus (submit_turn env L policy resolver) q (co_store c) = (Some (Ok resp), p)"
    using assms(1) by (simp add: lp_submit_turn_def on_inner_def p_def)
  show ?thesis
    by (simp add: submit_through_def coordinator_submit_turn_def c0 on_store_def lp same announce_submit_def
      deferred_publication_error_def notify_queued_run_best_effort_def take_lifecycle_publication_error_def
      submit_event_cursor_def split: option.split)
qed

lemma check_prepared_again: "fst (check_prepared q (snd (check_prepared q c)\<lparr>co_store := s, co_wakes := w\<rparr>))"
  by (auto simp: check_prepared_def consume_prepared_run_id_def split: option.splits)


definition failing_bus :: "unit lifecycle_event_subscribers" where
  "failing_bus = subscribe_required \<lparr>ob_observes_state = (\<lambda>_. True), ob_observes_event = (\<lambda>_. True),
     ob_observe_committed_state = (\<lambda>_ w. (Err (Unavailable ''down''), w)),
     ob_observe_committed_event = (\<lambda>_ w. (Err (Unavailable ''down''), w))\<rparr> \<lparr>bus_required = [], bus_best_effort = []\<rparr>"

definition demo_published :: "(inner, unit) lifecycle_publishing_store default_turn_coordinator" where
  "demo_published = \<lparr>co_store = \<lparr>lp_inner = demo1, lp_delivered_event_cursors = [], lp_deferred_publication_errors = [],
     lp_world = ()\<rparr>, co_prepared_run_id_scopes = [], co_wakes = []\<rparr>"


end
