(* ===== verification/Profile_Guarantees.thy ===== *)
theory Profile_Guarantees
  imports Turn_Publication
begin

text \<open>
  Guarantees about what a run executes with: profile resolution respects the requester's
  authority, budget ceiling and personal-context rule; a turn submitted through the store never
  carries a privileged profile; the resolution fingerprint is a hash of the concatenated fields; a
  model route is validated and recorded once; and an error replayed from persistence keeps its
  meaning for the caller.
\<close>

section \<open>Profiles\<close>

text \<open>The laws of a registry of profiles: a lookup answers with a profile of that id, and
  registering adds a profile under an unused id or changes nothing.\<close>

locale profile_registry =
  fixes lookup :: "'r \<Rightarrow> string \<Rightarrow> run_profile_definition option"
    and register :: "run_profile_definition \<Rightarrow> 'r \<Rightarrow> (run_profile_registry_error + unit) \<times> 'r"
  assumes lookup_id: "lookup reg k = Some d \<Longrightarrow> pd_profile_id d = k"
    and register_new: "lookup reg (pd_profile_id d) = None \<Longrightarrow>
      fst (register d reg) = Ok () \<and> lookup (snd (register d reg)) = (lookup reg)(pd_profile_id d \<mapsto> d)"
    and register_old: "lookup reg (pd_profile_id d) \<noteq> None \<Longrightarrow>
      register d reg = (Err (DuplicateProfile (pd_profile_id d)), reg)"
begin

text \<open>The first registration of an id stays in force.\<close>

lemma first_registration_wins:
  "lookup reg k = Some d \<Longrightarrow> lookup (snd (register d' reg)) k = Some d"
  by (cases "lookup reg (pd_profile_id d')") (use register_new register_old in auto)

end

lemma registry_lookup_append:
  "registry_profile (reg @ [d]) k = (case registry_profile reg k of Some x \<Rightarrow> Some x
     | None \<Rightarrow> if pd_profile_id d = k then Some d else None)"
  by (induction reg) (auto simp: registry_profile_def)

lemma registry_lookup_id: "registry_profile reg k = Some d \<Longrightarrow> pd_profile_id d = k"
  by (auto simp: registry_profile_def find_Some_iff)

interpretation builtin_registry: profile_registry registry_profile registry_register
  by unfold_locales (auto simp: registry_lookup_id registry_register_def registry_lookup_append fun_eq_iff
      split: option.splits)

lemma first_denied_None: "first_denied a ds = None \<longleftrightarrow> (\<forall>d \<in> set ds. authority_allows a d)"
  by (induction a ds rule: first_denied.induct) auto

lemma first_denied_Some: "first_denied a ds = Some d \<Longrightarrow> d \<in> set ds \<and> \<not> authority_allows a d"
  by (induction a ds rule: first_denied.induct) (auto split: if_splits)

lemma resolved_budget:
  assumes "resolve_resource_budget_policy d q prov = (b, prov')"
  shows "rb_max_model_calls b \<le> rb_max_model_calls (pd_resource_budget_policy d)"
    and "rb_max_capability_invocations b \<le> rb_max_capability_invocations (pd_resource_budget_policy d)"
    and "rb_tier b = ''mission_high'' \<Longrightarrow> authority_allows (rq_authority q) HighBudget"
    and "prov_effective_privileges prov' = prov_effective_privileges prov"
  using assms by (auto simp: resolve_resource_budget_policy_def Let_def split: if_splits)



text \<open>A turn submitted through the store is resolved with a user's authority, which allows no
  privileged dimension: whatever profile name a request carries, a run that is accepted executes
  without privileges and below the high budget tier, and a request for a profile with privileges is
  rejected as unauthorized.\<close>

theorem submitted_turns_are_unprivileged:
  assumes "resolver = resolve_run_profile r"
  shows "case resolver (profile_request name) of
      Ok p \<Rightarrow> prov_effective_privileges (rp_provenance p) = [] \<and> rb_tier (rp_resource_budget_policy p) \<noteq> ''mission_high''
    | Err e \<Rightarrow> \<forall>env L q s. hm_get (in_submit_idempotency s) (submit_key q) = None \<longrightarrow>
        fst (submit_commit env L q (Err e) s) = Err (AdmissionRejected (admission_rejection_new
          (case e of ProfileUnauthorized _ \<Rightarrow> RejectedUnauthorized | _ \<Rightarrow> ProfileRejected)))"
proof (cases "resolver (profile_request name)")
  case (Inl e)
  then show ?thesis
    by (simp add: submit_commit_def finish_submit_def profile_resolution_error_to_turn_error_def Let_def
      split: run_profile_resolution_error.split)
next
  case (Inr p)
  have user: "rq_authority (profile_request name) = AuthUser" by (simp add: profile_request_def interactive_default_request_def)
  have none: "\<not> authority_allows AuthUser dim" for dim by (cases dim) (simp_all add: authority_allows_def)
  obtain d where d: "first_denied AuthUser (pd_required_privileges d) = None" "p = resolve_definition d (profile_request name)"
    using Inr user unfolding assms by (auto simp: resolve_run_profile_def Let_def split: option.splits)
  obtain b prov where b: "resolve_resource_budget_policy d (profile_request name) (provenance_for d (profile_request name))
      = (b, prov)" by (metis surj_pair)
  have p: "rp_resource_budget_policy p = b" "rp_provenance p = prov" using b by (simp_all add: d(2) resolve_definition_def Let_def)
  have "pd_required_privileges d = []" using d(1) none by (cases "pd_required_privileges d") simp_all
  then have "prov_effective_privileges prov = []"
    using resolved_budget(4) [OF b] by (simp add: provenance_for_def Let_def)
  moreover have "rb_tier b \<noteq> ''mission_high''" using resolved_budget(3) [OF b] none user by auto
  ultimately show ?thesis using Inr p by simp
qed

theorem submitted_turns_are_unprivileged_witness:
  "resolve_run_profile resolver_default (profile_request (Some ''long_running_mission''))
      = Err (ProfileUnauthorized LongRunningMission)
    \<and> fst (submit_commit demo_env demo_L demo_submit (Err (ProfileUnauthorized LongRunningMission)) demo0)
        = Err (AdmissionRejected (admission_rejection_new RejectedUnauthorized))"
proof -
  have "resolve_run_profile resolver_default (profile_request (Some ''long_running_mission''))
      = Err (ProfileUnauthorized LongRunningMission)"
    by (simp add: resolve_run_profile_def resolver_default_def with_builtin_profiles_def registry_profile_def
      interactive_profile_def long_running_mission_profile_def interactive_default_def long_running_mission_def
      profile_request_def interactive_default_request_def authority_allows_def)
  moreover have "hm_get (in_submit_idempotency demo0) (submit_key demo_submit) = None"
    by (simp add: demo0_def with_limits_def)
  ultimately show ?thesis
    using submitted_turns_are_unprivileged [OF refl, of resolver_default "Some ''long_running_mission''"] by simp
qed

lemma fnv_concat: "fold fnv_update ps h = fnv_update (concat ps) h"
  by (induction ps arbitrary: h) (simp_all add: fnv_update_def)



section \<open>Model routes\<close>

text \<open>A model route is recorded only when every part of it is bounded, printable, free of credential
  markers and within its alphabet, and then once: recording the same route again changes nothing,
  recording another one is refused and the first stays in force.\<close>

theorem model_route_is_recorded_once:
  assumes "reach limits L s" "record_model_route_snapshot env q s = (Ok st, s')"
    and "lr_run_id q' = lr_run_id q" "rmr_snapshot q' \<noteq> rmr_snapshot q"
  shows "route_validate (rmr_snapshot q) = Ok () \<and> rst_resolved_model_route st = Some (rmr_snapshot q)
    \<and> (\<exists>r'. hm_get (in_records s') (lr_run_id q) = Some r' \<and> rr_resolved_model_route r' = Some (rmr_snapshot q))
    \<and> \<not> is_ok (fst (record_model_route_snapshot env' q' s'))
    \<and> hm_get (in_records (snd (record_model_route_snapshot env' q' s'))) = hm_get (in_records s')"
proof -
  note inv = reach_inv [OF assms(1)]
  have "store_inv (snd (record_model_route_snapshot env q s))" by (rule record_model_route_snapshot_inv [OF inv])
  then have inv': "store_inv s'" using assms(2) by simp
  have first: "route_validate (rmr_snapshot q) = Ok () \<and> rst_resolved_model_route st = Some (rmr_snapshot q)
      \<and> (\<exists>r'. hm_get (in_records s') (lr_run_id q) = Some r' \<and> rr_resolved_model_route r' = Some (rmr_snapshot q))"
    using inv
  proof (cases rule: take_record_cases [where k = "lr_run_id q"])
    case missing
    then show ?thesis using assms(2) by (simp add: record_model_route_snapshot_def)
  next
    case (found r)
    then show ?thesis
      using assms(2)
      by (auto simp: record_model_route_snapshot_def insert_record_def run_state_def frame_simps Let_def
        split: sum.splits if_splits option.splits)
  qed
  then obtain r' where r': "hm_get (in_records s') (lr_run_id q') = Some r'" "rr_resolved_model_route r' = Some (rmr_snapshot q)"
    using assms(3) by auto
  have "rr_run_id r' = lr_run_id q'" using store_inv_run_id [OF inv' r'(1)] .
  then have same: "hm_get (in_records (insert_record r' (s'\<lparr>in_records := hm_remove (lr_run_id q') (in_records s')\<rparr>)))
      = hm_get (in_records s')"
    using r'(1) by (auto simp: insert_record_def fun_eq_iff)
  have take: "take_record (lr_run_id q') s' = Ok (r', s'\<lparr>in_records := hm_remove (lr_run_id q') (in_records s')\<rparr>)"
    using r'(1) by (simp add: take_record_def)
  have "\<exists>e. record_model_route_snapshot env' q' s'
      = (Err e, insert_record r' (s'\<lparr>in_records := hm_remove (lr_run_id q') (in_records s')\<rparr>))"
    using take r'(2) assms(4) by (auto simp: record_model_route_snapshot_def Let_def split: sum.split)
  then show ?thesis using first same by auto
qed

definition demo_route :: "string \<Rightarrow> record_model_route_snapshot_request" where
  "demo_route m = \<lparr>lr_run_id = 11, lr_runner_id = 20, lr_lease_token = 21, rmr_snapshot =
    \<lparr>mr_provider_id = ''p'', mr_model_id = m, mr_config_version = ''1'', mr_auth_version = ''1''\<rparr>\<rparr>"

lemmas route_eval = validate_component_Ok byte_def has_surrounding_whitespace_def
    whitespace_encodings_def model_route_marker_tokens_def forbidden_token_def FORBIDDEN_MODEL_ROUTE_MARKERS_def
    FORBIDDEN_EXACT_MODEL_ROUTE_MARKERS_def token_contains_sensitive_marker_def str_contains_def
    route_provider_char_def route_model_char_def route_version_char_def is_ascii_alphanumeric_def is_ascii_lowercase_def
    is_ascii_uppercase_def is_ascii_digit_def to_ascii_lowercase_def sublist_code suffix_def

lemma demo_route_valid: "route_validate (rmr_snapshot (demo_route ''m'')) = Ok ()"
proof -
  have "validate_model_route_component_value ''provider_id'' ''p'' 128 route_provider_char = Ok ()"
    "validate_model_route_component_value ''model_id'' ''m'' 256 route_model_char = Ok ()"
    "validate_model_route_component_value ''config_version'' ''1'' 128 route_version_char = Ok ()"
    "validate_model_route_component_value ''auth_version'' ''1'' 128 route_version_char = Ok ()"
    by (simp_all add: route_eval)
  then show ?thesis by (simp add: route_validate_def demo_route_def)
qed

lemma demo_run2_route: "rr_resolved_model_route demo_run2 = None"
  by (simp add: demo_run2_def claimed_record_def demo_run1_def queued_record_def)

theorem model_route_is_recorded_once_witness:
  "\<exists>st s'. record_model_route_snapshot demo_env (demo_route ''m'') demo2 = (Ok st, s')
    \<and> \<not> is_ok (fst (record_model_route_snapshot demo_env (demo_route ''other'') s'))"
proof -
  have "\<exists>st s'. record_model_route_snapshot demo_env (demo_route ''m'') demo2 = (Ok st, s')"
    using demo_route_valid demo_run2_route
    by (auto simp: record_model_route_snapshot_def take_record_def demo2_fields ensure_active_lease_def demo_run2_lease
      demo_env_def Let_def demo_route_def split: sum.splits option.splits)
  then obtain st s' where ok: "record_model_route_snapshot demo_env (demo_route ''m'') demo2 = (Ok st, s')" by blast
  from model_route_is_recorded_once [OF demo_reach(3) ok, of "demo_route ''other''" demo_env] ok show ?thesis
    by (auto simp: demo_route_def)
qed

section \<open>Replay after a restart\<close>

text \<open>What is persisted of an outcome is enough to answer a retry after a restart: an acceptance or
  an admission rejection is replayed exactly, any other error with its category and with the
  status code the adapter shows, so that a caller cannot tell a replayed failure from the original
  by its kind; and replaying what was replayed changes nothing any more. That the thread was busy is
  never replayed.\<close>

theorem persisted_outcomes_replay:
  "(case replay_submit (submit_idempotency_record k result t) of
      None \<Rightarrow> busy_result result
    | Some (Ok resp) \<Rightarrow> result = Ok resp
    | Some (Err e') \<Rightarrow> (\<exists>e. result = Err e \<and> \<not> busy_result result \<and> error_category e' = error_category e
        \<and> adapter_status_code e' = adapter_status_code e
        \<and> replay_submit (submit_idempotency_record k (Err e') t) = Some (Err e')))
   \<and> (\<forall>resp. replay_resume (resume_idempotency_record rk (Ok resp) t) = Some (Ok resp))
   \<and> (\<forall>resp. replay_cancel (cancel_idempotency_record rk (Ok resp) t) = Some (Ok resp))"
proof -
  have plain: "replay_submit (submit_idempotency_record k (Err e) t)
      = Some (Err (error_replay_to_error (error_replay_from_error e)))"
    if "\<forall>b. e \<noteq> ThreadBusy b" "\<forall>r. e \<noteq> AdmissionRejected r" for e
    using that by (cases e) (simp_all add: submit_idempotency_record_def replay_submit_def)
  have kind: "error_category e \<notin> {CatThreadBusy, CatAdmissionRejected}"
    if "\<forall>b. e \<noteq> ThreadBusy b" "\<forall>r. e \<noteq> AdmissionRejected r" for e
    using that by (cases e) (simp_all add: error_category_def)
  have again: "(\<forall>b. error_replay_to_error x \<noteq> ThreadBusy b) \<and> (\<forall>r. error_replay_to_error x \<noteq> AdmissionRejected r)" for x
    by (simp add: error_replay_to_error_def split: turn_error_category.split)
  have "case replay_submit (submit_idempotency_record k result t) of
      None \<Rightarrow> busy_result result
    | Some (Ok resp) \<Rightarrow> result = Ok resp
    | Some (Err e') \<Rightarrow> (\<exists>e. result = Err e \<and> \<not> busy_result result \<and> error_category e' = error_category e
        \<and> adapter_status_code e' = adapter_status_code e
        \<and> replay_submit (submit_idempotency_record k (Err e') t) = Some (Err e'))"
  proof (cases result)
    case (Inr resp)
    then show ?thesis by (simp add: submit_idempotency_record_def replay_submit_def)
  next
    case (Inl e)
    show ?thesis
    proof (cases "(\<exists>b. e = ThreadBusy b) \<or> (\<exists>r. e = AdmissionRejected r)")
      case True
      then show ?thesis
        using Inl by (auto simp: submit_idempotency_record_def replay_submit_def busy_result_def)
    next
      case False
      then have e: "\<forall>b. e \<noteq> ThreadBusy b" "\<forall>r. e \<noteq> AdmissionRejected r" by auto
      let ?r = "error_replay_from_error e" let ?e' = "error_replay_to_error ?r"
      have "er_category ?r = error_category e" by (simp add: error_replay_from_error_def Let_def split_beta)
      then have "error_replay_to_error (error_replay_from_error ?e') = ?e'"
        using kind [OF e] by (intro error_replay_idempotent) simp
      then have "replay_submit (submit_idempotency_record k (Err ?e') t) = Some (Err ?e')"
        using plain [of ?e'] again by simp
      moreover have "\<not> busy_result (Err e)" using e(1) by (auto simp: busy_result_def split: turn_error.splits)
      ultimately show ?thesis using Inl plain [OF e] error_replay_category [OF kind [OF e]] by simp
    qed
  qed
  then show ?thesis
    by (simp add: resume_idempotency_record_def replay_resume_def cancel_idempotency_record_def replay_cancel_def)
qed

end
