(* ===== verification/Turn_Snapshot.thy ===== *)
theory Turn_Snapshot
  imports Turn_Tree
begin

text \<open>
  Persistence of the store: \<^verbatim>\<open>Inner::persistence_snapshot\<close> and
  \<^verbatim>\<open>Inner::from_persistence_snapshot\<close> of \<^verbatim>\<open>ironclaw_turns/src/memory.rs\<close>. The snapshot lists what
  the maps hold in a stable order; restoring rebuilds the maps, the queue, the terminal list,
  the replay caches and the cursor from it, and recomputes the admission reservation of a live
  run whose persisted one is missing or out of date.

  \<^verbatim>\<open>Uuid::to_string\<close> writes a fixed number of lower-case hexadecimal digits, so that sorting by
  it is sorting by the identifier. A sort by two keys is a sort by the second followed by a
  stable sort by the first.
\<close>

section \<open>Taking a snapshot\<close>

definition tree_reservation_row ::
    "(turn_run_id, run_record) hmap \<Rightarrow> spawn_tree_reservation_key \<times> u64 \<Rightarrow> spawn_tree_reservation option" where
  "tree_reservation_row records e =
    map_option (\<lambda>root. \<lparr>stv_scope = rr_scope root, stv_root_run_id = stk_root_run_id (fst e),
        stv_descendant_count = snd e\<rparr>) (hm_get records (stk_root_run_id (fst e)))"

definition persistence_snapshot :: "inner \<Rightarrow> turn_persistence_snapshot" where
  "persistence_snapshot s =
    \<lparr>sn_turns = sort_key tr_created_at (hm_values (in_turns s)),
     sn_runs = sort_key trr_event_cursor (map persistence_record (hm_values (in_records s))),
     sn_active_locks = sort_key al_acquired_at (hm_values (in_active_locks s)),
     sn_checkpoints = sort_key cpr_created_at (sort_key cpr_sequence (in_checkpoints s)),
     sn_loop_checkpoints = sort_key lc_created_at (sort_key lc_checkpoint_id (hm_values (in_loop_checkpoints s))),
     sn_idempotency_records = sort_key ir_created_at (hm_values (in_idempotency_records s)),
     sn_events = in_events s,
     sn_event_retention_floor = in_event_retention_floor s,
     sn_admission_reservations = sort_key rsv_run_id (hm_values (in_admission_reservations s)),
     sn_spawn_tree_reservations = sort_key stv_root_run_id (List.map_filter
       (tree_reservation_row (in_records s)) (in_tree_reservations s))\<rparr>"

section \<open>Restoring\<close>

definition collect_by :: "('v \<Rightarrow> 'k) \<Rightarrow> 'v list \<Rightarrow> ('k, 'v) hmap" where
  "collect_by f vs = fold (\<lambda>v. hm_insert (f v) v) vs []"

definition restored_record :: "turn_actor \<Rightarrow> turn_run_record \<Rightarrow> run_record" where
  "restored_record actor run =
    \<lparr>rr_scope = trr_scope run, rr_actor = actor, rr_turn_id = trr_turn_id run, rr_run_id = trr_run_id run,
     rr_status = trr_status run, rr_profile = trr_profile run,
     rr_resolved_model_route = trr_resolved_model_route run,
     rr_accepted_message_ref = trr_accepted_message_ref run,
     rr_source_binding_ref = trr_source_binding_ref run,
     rr_reply_target_binding_ref = trr_reply_target_binding_ref run,
     rr_checkpoint_id = trr_checkpoint_id run, rr_gate_ref = trr_gate_ref run,
     rr_credential_requirements = trr_credential_requirements run, rr_failure = trr_failure run,
     rr_event_cursor = trr_event_cursor run, rr_runner_id = trr_runner_id run,
     rr_lease_token = trr_lease_token run, rr_lease_expires_at = trr_lease_expires_at run,
     rr_last_heartbeat_at = trr_last_heartbeat_at run, rr_claim_count = trr_claim_count run,
     rr_received_at = trr_received_at run, rr_parent_run_id = trr_parent_run_id run,
     rr_subagent_depth = trr_subagent_depth run,
     rr_spawn_tree_root_run_id = trr_spawn_tree_root_run_id run\<rparr>"

record restored_runs =
  rx_cursor :: u64
  rx_records :: "(turn_run_id, run_record) hmap"
  rx_queued :: "turn_run_id list"
  rx_terminal :: "turn_run_id list"

fun restore_runs ::
    "(turn_id, turn_record) hmap \<Rightarrow> turn_run_record list \<Rightarrow> restored_runs \<Rightarrow> restored_runs turn_result" where
  "restore_runs turns [] x = Ok x"
| "restore_runs turns (run # runs) x =
    (case hm_get turns (trr_turn_id run) of
       None \<Rightarrow> Err (Unavailable ''turn run references missing turn record'')
     | Some turn \<Rightarrow> restore_runs turns runs
         \<lparr>rx_cursor = max (rx_cursor x) (trr_event_cursor run),
          rx_records = hm_insert (trr_run_id run) (restored_record (tr_actor turn) run) (rx_records x),
          rx_queued = (if trr_status run = Queued then push_back (rx_queued x) (trr_run_id run) else rx_queued x),
          rx_terminal = (if is_terminal (trr_status run) then push_back (rx_terminal x) (trr_run_id run)
                         else rx_terminal x)\<rparr>)"

record restored_replays =
  ry_submit :: "(submit_idempotency_key, submit_turn_response turn_result) hmap"
  ry_resume :: "(run_idempotency_key, resume_turn_response turn_result) hmap"
  ry_cancel :: "(run_idempotency_key, cancel_run_response turn_result) hmap"
  ry_records :: "(persisted_idempotency_key, turn_idempotency_record) hmap"
  ry_submit_order :: "submit_idempotency_key list"
  ry_resume_order :: "run_idempotency_key list"
  ry_cancel_order :: "run_idempotency_key list"
  ry_record_order :: "persisted_idempotency_key list"

definition restore_replay :: "turn_idempotency_record \<Rightarrow> restored_replays \<Rightarrow> restored_replays" where
  "restore_replay r y =
    (let key = persisted_key_for_record r;
         y = y\<lparr>ry_record_order := push_back (ry_record_order y) key,
               ry_records := hm_insert key r (ry_records y)\<rparr> in
     case ir_operation r of
       OpSubmit \<Rightarrow>
        (case replay_submit r of
           None \<Rightarrow> y
         | Some replay \<Rightarrow>
            (let k = \<lparr>sik_scope = ir_scope r, sik_key = ir_key r\<rparr> in
             y\<lparr>ry_submit_order := push_back (ry_submit_order y) k,
               ry_submit := hm_insert k replay (ry_submit y)\<rparr>))
     | OpResume \<Rightarrow>
        (case (ir_run_id r, replay_resume r) of
           (Some run_id, Some replay) \<Rightarrow>
             (let k = \<lparr>rik_scope = ir_scope r, rik_run_id = run_id, rik_key = ir_key r\<rparr> in
              y\<lparr>ry_resume_order := push_back (ry_resume_order y) k,
                ry_resume := hm_insert k replay (ry_resume y)\<rparr>)
         | _ \<Rightarrow> y)
     | OpCancel \<Rightarrow>
        (case (ir_run_id r, replay_cancel r) of
           (Some run_id, Some replay) \<Rightarrow>
             (let k = \<lparr>rik_scope = ir_scope r, rik_run_id = run_id, rik_key = ir_key r\<rparr> in
              y\<lparr>ry_cancel_order := push_back (ry_cancel_order y) k,
                ry_cancel := hm_insert k replay (ry_cancel y)\<rparr>)
         | _ \<Rightarrow> y))"

definition restore_replays :: "turn_idempotency_record list \<Rightarrow> restored_replays" where
  "restore_replays rs = fold restore_replay (sort_key ir_created_at rs)
    \<lparr>ry_submit = [], ry_resume = [], ry_cancel = [], ry_records = [], ry_submit_order = [],
     ry_resume_order = [], ry_cancel_order = [], ry_record_order = []\<rparr>"

definition restore_reservation ::
    "(turn_run_id, run_record) hmap \<Rightarrow> turn_admission_reservation_record
      \<Rightarrow> (turn_run_id, turn_admission_reservation_record) hmap
      \<Rightarrow> (turn_run_id, turn_admission_reservation_record) hmap" where
  "restore_reservation records v adm =
    (case hm_get records (rsv_run_id v) of
       None \<Rightarrow> adm
     | Some r \<Rightarrow>
        hm_insert (rsv_run_id v) (if is_terminal (rr_status r) then v\<lparr>rsv_released := True\<rparr> else v) adm)"

definition canonical_reservation ::
    "run_record \<Rightarrow> (turn_run_id, turn_admission_reservation_record) hmap
      \<Rightarrow> (turn_run_id, turn_admission_reservation_record) hmap" where
  "canonical_reservation r adm =
    (if keeps_active_lock (rr_status r)
     then (let cls = tp_admission_class (rr_profile r);
               buckets = admission_buckets (rr_scope r) (rr_actor r) cls;
               needs = (case hm_get adm (rr_run_id r) of
                          None \<Rightarrow> True
                        | Some v \<Rightarrow> rsv_released v \<or> rsv_admission_class v \<noteq> cls \<or> rsv_buckets v \<noteq> buckets) in
           if needs
           then hm_insert (rr_run_id r) \<lparr>rsv_run_id = rr_run_id r, rsv_admission_class = cls,
                  rsv_buckets = buckets, rsv_released = False\<rparr> adm
           else adm)
     else adm)"

definition restore_reservations ::
    "(turn_run_id, run_record) hmap \<Rightarrow> turn_admission_reservation_record list
      \<Rightarrow> (turn_run_id, turn_admission_reservation_record) hmap" where
  "restore_reservations records vs =
    fold canonical_reservation (hm_values records) (fold (restore_reservation records) vs [])"

definition restore_trees :: "spawn_tree_reservation list \<Rightarrow> (spawn_tree_reservation_key, u64) hmap" where
  "restore_trees vs =
    fold (\<lambda>v. hm_insert (spawn_tree_key (stv_scope v) (stv_root_run_id v)) (stv_descendant_count v)) vs []"

definition from_persistence_snapshot ::
    "turn_persistence_snapshot \<Rightarrow> store_limits \<Rightarrow> inner turn_result" where
  "from_persistence_snapshot sn limits =
    (let turns = collect_by tr_turn_id (sn_turns sn) in
     case restore_runs turns (sn_runs sn)
            \<lparr>rx_cursor = 0, rx_records = [], rx_queued = [], rx_terminal = []\<rparr> of
       Err e \<Rightarrow> Err e
     | Ok x \<Rightarrow>
        (let y = restore_replays (sn_idempotency_records sn);
             cursor = max (rx_cursor x) (fold max (map ev_cursor (sn_events sn)) 0);
             cursor = max cursor (sn_event_retention_floor sn) in
         Ok \<lparr>in_cursor = cursor, in_turns = turns, in_records = rx_records x,
             in_queued_runs = rx_queued x, in_terminal_runs = rx_terminal x,
             in_active_locks = collect_by al_key (sn_active_locks sn),
             in_checkpoints = sn_checkpoints sn,
             in_loop_checkpoints = collect_by lc_checkpoint_id (sn_loop_checkpoints sn),
             in_submit_idempotency = ry_submit y, in_submit_in_flight = [],
             in_resume_idempotency = ry_resume y, in_cancel_idempotency = ry_cancel y,
             in_idempotency_records = ry_records y, in_submit_order = ry_submit_order y,
             in_resume_order = ry_resume_order y, in_cancel_order = ry_cancel_order y,
             in_record_order = ry_record_order y, in_events = sn_events sn,
             in_event_retention_floor = sn_event_retention_floor sn,
             in_admission_reservations = restore_reservations (rx_records x) (sn_admission_reservations sn),
             in_tree_reservations = restore_trees (sn_spawn_tree_reservations sn),
             in_limits = limits\<rparr>))"

end
