(* ===== verification/Snapshot_Guarantees.thy ===== *)
theory Snapshot_Guarantees
  imports Turn_Snapshot Profile_Guarantees
begin

text \<open>
  The round trip through persistence: restoring the snapshot of a consistent store gives a
  consistent store with the same runs, locks, reservations, trees and events.
\<close>

section \<open>Rebuilding maps\<close>

lemma fold_insert_wf: "hm_wf m \<Longrightarrow> hm_wf (fold (\<lambda>v. hm_insert (f v) (g v)) vs m)"
  by (induction vs arbitrary: m) simp_all

lemma fold_insert_get:
  assumes "distinct (map f vs)"
  shows "hm_get (fold (\<lambda>v. hm_insert (f v) (g v)) vs m) k = Some w \<longleftrightarrow>
    (\<exists>v \<in> set vs. f v = k \<and> g v = w) \<or> k \<notin> f ` set vs \<and> hm_get m k = Some w"
  using assms by (induction vs arbitrary: m) (auto split: if_splits)

lemma fold_insert_iff:
  assumes "distinct (map f vs)"
  shows "hm_get (fold (\<lambda>v. hm_insert (f v) (g v)) vs []) k = Some w \<longleftrightarrow> (\<exists>v \<in> set vs. f v = k \<and> g v = w)"
  unfolding fold_insert_get [OF assms] by simp

lemma distinct_sort_key: "distinct (map f (sort_key h xs)) \<longleftrightarrow> distinct (map f xs)"
  by (simp add: distinct_map)

text \<open>A map whose values know their key is recovered from its values in any order.\<close>

lemma collect_values:
  assumes "hm_wf m" "\<And>k v. hm_get m k = Some v \<Longrightarrow> f v = k" "set vs = set (hm_values m)" "distinct (map f vs)"
  shows "hm_get (collect_by f vs) = hm_get m" "hm_wf (collect_by f vs)"
proof -
  have "hm_get (collect_by f vs) k = Some w \<longleftrightarrow> hm_get m k = Some w" for k w
    unfolding collect_by_def fold_insert_iff [OF assms(4)] assms(3)
    using assms(2) by (auto simp: hm_values_iff [OF assms(1)])
  then show "hm_get (collect_by f vs) = hm_get m" by (metis ext option.exhaust)
qed (simp add: collect_by_def fold_insert_wf)

lemma values_distinct:
  assumes "hm_wf m" "\<And>k v. hm_get m k = Some v \<Longrightarrow> f v = k"
  shows "distinct (map f (hm_values m))"
proof -
  have "map f (hm_values m) = hm_keys m"
    using assms hm_entries_iff [OF assms(1)] by (auto simp: hm_values_def hm_keys_def)
  then show ?thesis using assms(1) by (simp add: hm_wf_def)
qed

section \<open>Restoring runs\<close>

lemma restored_persistence: "restored_record (rr_actor r) (persistence_record r) = r"
  by (simp add: restored_record_def persistence_record_def)

lemma restore_runs_Ok:
  assumes "\<And>run. run \<in> set runs \<Longrightarrow> hm_get turns (trr_turn_id run) = Some (turn_of run)"
  shows "restore_runs turns runs x = Ok
    \<lparr>rx_cursor = fold (\<lambda>run c. max c (trr_event_cursor run)) runs (rx_cursor x),
     rx_records = fold (\<lambda>run. hm_insert (trr_run_id run) (restored_record (tr_actor (turn_of run)) run)) runs (rx_records x),
     rx_queued = rx_queued x @ map trr_run_id (filter (\<lambda>run. trr_status run = Queued) runs),
     rx_terminal = rx_terminal x @ map trr_run_id (filter (\<lambda>run. is_terminal (trr_status run)) runs)\<rparr>"
  using assms by (induction runs arbitrary: x) auto

lemma fold_max_ge: "x \<in> set xs \<Longrightarrow> f x \<le> fold (\<lambda>v c. max c (f v)) xs (c :: 'a::linorder)"
  "c \<le> fold (\<lambda>v c. max c (f v)) xs c"
proof -
  have base: "c \<le> fold (\<lambda>v c. max c (f v)) xs c" for c :: 'a and xs
    by (induction xs arbitrary: c) (auto intro: order_trans [OF max.cobounded1])
  then show "c \<le> fold (\<lambda>v c. max c (f v)) xs c" .
  show "x \<in> set xs \<Longrightarrow> f x \<le> fold (\<lambda>v c. max c (f v)) xs c"
    by (induction xs arbitrary: c) (auto intro: order_trans [OF max.cobounded2 base])
qed

lemma fold_max_le: "c \<le> b \<Longrightarrow> (\<And>x. x \<in> set xs \<Longrightarrow> f x \<le> b) \<Longrightarrow> fold (\<lambda>v c. max c (f v)) xs c \<le> (b :: 'a::linorder)"
  by (induction xs arbitrary: c) auto

lemma max_events_fold: "fold max (map f xs) c = fold (\<lambda>v c. max c (f v)) xs (c :: 'a::linorder)"
  by (induction xs arbitrary: c) (simp_all add: max.commute)

section \<open>Restoring reservations and trees\<close>

lemma fold_id_on: "(\<And>x. x \<in> set xs \<Longrightarrow> f x m = m) \<Longrightarrow> fold f xs m = m"
  by (induction xs) simp_all

lemma restore_reservations_same:
  assumes adm: "admission_ok recs adm" and recs: "records_ok recs"
    and "hm_wf recs'" "hm_get recs' = hm_get recs"
  shows "hm_get (restore_reservations recs' (sort_key h (hm_values adm))) = hm_get adm"
    and "hm_wf (restore_reservations recs' (sort_key h (hm_values adm)))"
proof -
  have wf: "hm_wf adm" and get: "hm_get adm k = map_option reservation_of (hm_get recs k)" for k
    using adm by (simp_all add: admission_ok_def)
  have id: "rr_run_id r = k" if "hm_get recs k = Some r" for k r using recs that by (simp add: records_ok_def)
  have key: "rsv_run_id v = k" if "hm_get adm k = Some v" for k v
    using that id by (auto simp: get reservation_of_def)
  let ?vs = "sort_key h (hm_values adm)"
  have step: "restore_reservation recs' v = hm_insert (rsv_run_id v) v" if v: "v \<in> set ?vs" for v
  proof -
    obtain k where k: "hm_get adm k = Some v" using v by (auto simp: hm_values_iff [OF wf])
    then obtain r where r: "hm_get recs k = Some r" "v = reservation_of r" by (auto simp: get)
    have "is_terminal (rr_status r) \<Longrightarrow> v\<lparr>rsv_released := True\<rparr> = v" using r(2) by (simp add: reservation_of_def)
    then show ?thesis
      using key [OF k] r(1) assms(4) by (intro ext) (auto simp: restore_reservation_def)
  qed
  have "fold (restore_reservation recs') ?vs [] = collect_by rsv_run_id ?vs"
    unfolding collect_by_def by (intro fold_cong refl step)
  moreover have c: "hm_get (collect_by rsv_run_id ?vs) = hm_get adm" "hm_wf (collect_by rsv_run_id ?vs)"
    by (rule collect_values [OF wf key]; simp add: distinct_sort_key values_distinct [OF wf key])+
  moreover have "fold canonical_reservation (hm_values recs') (collect_by rsv_run_id ?vs) = collect_by rsv_run_id ?vs"
  proof (rule fold_id_on)
    fix r assume "r \<in> set (hm_values recs')"
    then obtain k where k: "hm_get recs k = Some r" using hm_values_iff [OF assms(3)] assms(4) by auto
    then have "hm_get (collect_by rsv_run_id ?vs) (rr_run_id r) = Some (reservation_of r)" using id [OF k] get c(1) by simp
    then show "canonical_reservation r (collect_by rsv_run_id ?vs) = collect_by rsv_run_id ?vs"
      by (simp add: canonical_reservation_def reservation_of_def keeps_active_lock_def Let_def)
  qed
  ultimately show "hm_get (restore_reservations recs' ?vs) = hm_get adm" "hm_wf (restore_reservations recs' ?vs)"
    by (simp_all add: restore_reservations_def)
qed

lemma map_filter_total: "(\<And>x. x \<in> set xs \<Longrightarrow> f x = Some (g x)) \<Longrightarrow> List.map_filter f xs = map g xs"
  by (induction xs) (simp_all add: map_filter_simps)

lemma restore_trees_same:
  assumes "tree_ok recs tree"
  shows "hm_get (restore_trees (sort_key h (List.map_filter (tree_reservation_row recs) tree))) = hm_get tree"
proof -
  define row where "row e = the (tree_reservation_row recs e)" for e
  let ?key = "\<lambda>v. spawn_tree_key (stv_scope v) (stv_root_run_id v)" let ?vs = "map row tree"
  have wf: "hm_wf tree" using assms by (simp add: tree_ok_def)
  have row: "tree_reservation_row recs e = Some (row e)" "?key (row e) = fst e" "stv_descendant_count (row e) = snd e"
    if "e \<in> set tree" for e
  proof -
    have "hm_get tree (fst e) = Some (snd e)" using that hm_entries_iff [OF wf, of "fst e" "snd e"] by simp
    then obtain r where "hm_get recs (stk_root_run_id (fst e)) = Some r" "fst e = spawn_tree_key (rr_scope r) (stk_root_run_id (fst e))"
      using assms unfolding tree_ok_def by blast
    then show "tree_reservation_row recs e = Some (row e)" "?key (row e) = fst e" "stv_descendant_count (row e) = snd e"
      by (simp_all add: tree_reservation_row_def row_def)
  qed
  have vs: "List.map_filter (tree_reservation_row recs) tree = ?vs" by (rule map_filter_total) (rule row(1))
  have keys: "map ?key ?vs = map fst tree" using row(2) by simp
  have "distinct (map ?key ?vs)" unfolding keys using wf by (simp add: hm_wf_def hm_keys_def)
  then have d: "distinct (map ?key (sort_key h ?vs))" unfolding distinct_sort_key .
  have "hm_get (restore_trees (sort_key h ?vs)) k = Some n \<longleftrightarrow> hm_get tree k = Some n" for k n
  proof -
    have "hm_get (restore_trees (sort_key h ?vs)) k = Some n \<longleftrightarrow> (\<exists>e \<in> set tree. ?key (row e) = k \<and> stv_descendant_count (row e) = n)"
      unfolding restore_trees_def fold_insert_iff [OF d] by auto
    also have "\<dots> \<longleftrightarrow> (\<exists>e \<in> set tree. fst e = k \<and> snd e = n)" using row(2,3) by (intro bex_cong refl) auto
    also have "\<dots> \<longleftrightarrow> (k, n) \<in> set tree" by force
    finally show ?thesis using hm_entries_iff [OF wf] by simp
  qed
  then show ?thesis unfolding vs by (metis ext option.exhaust)
qed

lemma restore_trees_wf: "hm_wf (restore_trees vs)"
  by (simp add: restore_trees_def fold_insert_wf)

section \<open>The round trip\<close>

text \<open>Every run's turn record is there and names the run's actor: what distinct turn ids give.\<close>

definition turns_ok :: "inner \<Rightarrow> bool" where
  "turns_ok s \<longleftrightarrow> hm_wf (in_turns s) \<and> (\<forall>k t. hm_get (in_turns s) k = Some t \<longrightarrow> tr_turn_id t = k)
    \<and> (\<forall>k r. hm_get (in_records s) k = Some r \<longrightarrow>
        (\<exists>t. hm_get (in_turns s) (rr_turn_id r) = Some t \<and> tr_actor t = rr_actor r))"

text \<open>What the loop over the persisted runs leaves: the same runs, every queued and every ended
  one listed once, and a cursor between the runs' cursors and the store's.\<close>

definition runs_restored :: "inner \<Rightarrow> restored_runs \<Rightarrow> bool" where
  "runs_restored s x \<longleftrightarrow>
    hm_get (rx_records x) = hm_get (in_records s) \<and> hm_wf (rx_records x)
    \<and> distinct (rx_queued x) \<and> distinct (rx_terminal x)
    \<and> (\<forall>k. k \<in> set (rx_queued x) \<longleftrightarrow> (\<exists>r. hm_get (in_records s) k = Some r \<and> rr_status r = Queued))
    \<and> (\<forall>k. k \<in> set (rx_terminal x) \<longleftrightarrow> record_is_terminal (in_records s) k)
    \<and> cursors_ok (rx_cursor x) (in_records s) \<and> rx_cursor x \<le> in_cursor s"

lemma restored_runs:
  assumes "store_inv s" "turns_ok s"
  defines "runs \<equiv> sort_key trr_event_cursor (map persistence_record (hm_values (in_records s)))"
  obtains x where "restore_runs (collect_by tr_turn_id (sort_key tr_created_at (hm_values (in_turns s)))) runs
      \<lparr>rx_cursor = 0, rx_records = [], rx_queued = [], rx_terminal = []\<rparr> = Ok x" "runs_restored s x"
proof -
  have recs: "records_ok (in_records s)" and wf: "hm_wf (in_records s)" and cur: "cursors_ok (in_cursor s) (in_records s)"
    using assms(1) by (simp_all add: store_inv_def records_ok_def)
  have id: "rr_run_id r = k" if "hm_get (in_records s) k = Some r" for k r using recs that by (simp add: records_ok_def)
  let ?turns = "collect_by tr_turn_id (sort_key tr_created_at (hm_values (in_turns s)))"
  have twf: "hm_wf (in_turns s)" and tid: "\<And>k t. hm_get (in_turns s) k = Some t \<Longrightarrow> tr_turn_id t = k"
    using assms(2) by (simp_all add: turns_ok_def)
  have turns: "hm_get ?turns = hm_get (in_turns s)"
    by (rule collect_values(1) [OF twf tid]) (simp_all add: distinct_sort_key values_distinct [OF twf tid])
  define turn_of where "turn_of run = the (hm_get (in_turns s) (trr_turn_id run))" for run :: turn_run_record
  have mem: "run \<in> set runs \<longleftrightarrow> (\<exists>k r. hm_get (in_records s) k = Some r \<and> run = persistence_record r)" for run
    unfolding runs_def set_sort set_map image_iff using hm_values_iff [OF wf] by blast
  have turn: "hm_get (in_turns s) (trr_turn_id (persistence_record r)) = Some (turn_of (persistence_record r))"
    "tr_actor (turn_of (persistence_record r)) = rr_actor r" if r: "hm_get (in_records s) k = Some r" for k r
  proof -
    obtain t where "hm_get (in_turns s) (rr_turn_id r) = Some t" "tr_actor t = rr_actor r"
      using assms(2) r unfolding turns_ok_def by blast
    then show "hm_get (in_turns s) (trr_turn_id (persistence_record r)) = Some (turn_of (persistence_record r))"
      "tr_actor (turn_of (persistence_record r)) = rr_actor r"
      by (simp_all add: turn_of_def persistence_record_def)
  qed
  have ok: "hm_get ?turns (trr_turn_id run) = Some (turn_of run)" if "run \<in> set runs" for run
    using that turn(1) by (auto simp: turns mem)
  have pid: "trr_run_id (persistence_record r) = rr_run_id r" "trr_status (persistence_record r) = rr_status r"
    "trr_event_cursor (persistence_record r) = rr_event_cursor r" for r
    by (simp_all add: persistence_record_def)
  have "distinct (map trr_run_id (map persistence_record (hm_values (in_records s))))"
    using values_distinct [OF wf id] by (simp add: pid comp_def)
  then have d: "distinct (map trr_run_id runs)" unfolding runs_def distinct_sort_key .
  define recs' where "recs' = fold (\<lambda>run. hm_insert (trr_run_id run) (restored_record (tr_actor (turn_of run)) run)) runs []"
  have "hm_get recs' k = Some r \<longleftrightarrow> hm_get (in_records s) k = Some r" for k r
  proof -
    have "hm_get recs' k = Some r \<longleftrightarrow> (\<exists>run \<in> set runs. trr_run_id run = k \<and> restored_record (tr_actor (turn_of run)) run = r)"
      unfolding recs'_def by (rule fold_insert_iff [OF d])
    also have "\<dots> \<longleftrightarrow> (\<exists>k' r'. hm_get (in_records s) k' = Some r' \<and> rr_run_id r' = k \<and> r' = r)"
      using turn(2) by (auto simp: mem pid restored_persistence intro!: bexI [of _ "persistence_record r"]) blast+
    also have "\<dots> \<longleftrightarrow> hm_get (in_records s) k = Some r" using id by auto
    finally show ?thesis .
  qed
  then have same: "hm_get recs' = hm_get (in_records s)" by (metis ext option.exhaust)
  note x = restore_runs_Ok [OF ok, of _ "\<lparr>rx_cursor = 0, rx_records = [], rx_queued = [], rx_terminal = []\<rparr>"]
  let ?c = "fold (\<lambda>run c. max c (trr_event_cursor run)) runs 0"
  have up: "rr_event_cursor r \<le> ?c" if "hm_get (in_records s) k = Some r" for k r
  proof -
    have "persistence_record r \<in> set runs" unfolding mem using that by blast
    from fold_max_ge(1) [OF this, of trr_event_cursor 0] show ?thesis by (simp add: pid)
  qed
  have low: "?c \<le> in_cursor s"
    using cur by (intro fold_max_le) (auto simp: mem pid cursors_ok_def)
  have sub: "distinct (map trr_run_id (filter P runs))" for P using d by (rule distinct_map_filter)
  have pick: "k \<in> set (map trr_run_id (filter (\<lambda>run. P (trr_status run)) runs)) \<longleftrightarrow>
      (\<exists>r. hm_get (in_records s) k = Some r \<and> P (rr_status r))" for k P
  proof
    assume "k \<in> set (map trr_run_id (filter (\<lambda>run. P (trr_status run)) runs))"
    then show "\<exists>r. hm_get (in_records s) k = Some r \<and> P (rr_status r)" using id by (auto simp: mem pid)
  next
    assume "\<exists>r. hm_get (in_records s) k = Some r \<and> P (rr_status r)"
    then obtain r where r: "hm_get (in_records s) k = Some r" "P (rr_status r)" by blast
    have "persistence_record r \<in> set (filter (\<lambda>run. P (trr_status run)) runs)"
      unfolding set_filter mem using r by (auto simp: pid)
    then show "k \<in> set (map trr_run_id (filter (\<lambda>run. P (trr_status run)) runs))"
      using id [OF r(1)] by (auto simp: pid image_iff intro!: bexI [of _ "persistence_record r"])
  qed
  have wf': "hm_wf recs'" by (simp add: recs'_def fold_insert_wf)
  have ended: "record_is_terminal (in_records s) k \<longleftrightarrow> (\<exists>r. hm_get (in_records s) k = Some r \<and> is_terminal (rr_status r))" for k
    by (simp add: record_is_terminal_def split: option.splits)
  show ?thesis
    by (rule that [OF x]) (use same sub up low wf' pick [of _ is_terminal] pick [of _ "\<lambda>v. v = Queued"] in
      \<open>simp_all add: runs_restored_def cursors_ok_def recs'_def [symmetric] ended del: set_map set_filter\<close>)
qed

lemma event_log_restored:
  assumes "event_log_ok cur rfloor events cap" "cur \<noteq> -1" "c \<le> cur"
    "rfloor \<le> c" "\<And>e. e \<in> set events \<Longrightarrow> ev_cursor e \<le> c"
  shows "event_log_ok c rfloor events cap"
  using assms by (auto simp: event_log_ok_def)

lemma locks_ok_cong: "hm_get recs' = hm_get recs \<Longrightarrow> hm_get locks' = hm_get locks \<Longrightarrow> hm_wf locks' \<Longrightarrow>
    locks_ok recs locks \<Longrightarrow> locks_ok recs' locks'"
  by (simp add: locks_ok_def)

lemma store_inv_restored:
  assumes inv: "store_inv s" "in_cursor s \<noteq> -1" and x: "runs_restored s x"
    and recs: "in_records s' = rx_records x" "in_queued_runs s' = rx_queued x" "in_terminal_runs s' = rx_terminal x"
    and locks: "hm_get (in_active_locks s') = hm_get (in_active_locks s)" "hm_wf (in_active_locks s')"
    and adm: "hm_get (in_admission_reservations s') = hm_get (in_admission_reservations s)" "hm_wf (in_admission_reservations s')"
    and tree: "hm_get (in_tree_reservations s') = hm_get (in_tree_reservations s)" "hm_wf (in_tree_reservations s')"
    and log: "in_events s' = in_events s" "in_event_retention_floor s' = in_event_retention_floor s" "in_limits s' = in_limits s"
    and c: "in_cursor s' = max (max (rx_cursor x) (fold max (map ev_cursor (in_events s)) 0)) (in_event_retention_floor s)"
  shows "store_inv s'" "in_cursor s' \<le> in_cursor s"
proof -
  note parts = inv(1) [unfolded store_inv_def]
  note x = x [unfolded runs_restored_def]
  let ?ev = "fold max (map ev_cursor (in_events s)) 0"
  have ok: "event_log_ok (in_cursor s) (in_event_retention_floor s) (in_events s) (max_events (in_limits s))"
    using parts by simp
  have ev: "ev_cursor e \<le> ?ev" if "e \<in> set (in_events s)" for e
    unfolding max_events_fold using fold_max_ge(1) [OF that, of ev_cursor 0] .
  have "?ev \<le> in_cursor s" unfolding max_events_fold using ok by (intro fold_max_le) (auto simp: event_log_ok_def)
  then show le: "in_cursor s' \<le> in_cursor s" using x ok by (simp add: c event_log_ok_def)
  have "event_log_ok (in_cursor s') (in_event_retention_floor s) (in_events s) (max_events (in_limits s))"
    by (rule event_log_restored [OF ok inv(2) le]) (auto simp: c le_max_iff_disj dest: ev)
  moreover have "records_ok (in_records s')" using parts x recs by (simp add: records_ok_def)
  moreover have "locks_ok (in_records s') (in_active_locks s')"
    using parts x recs locks by (auto intro: locks_ok_cong)
  moreover have "queue_ok (in_records s') (in_queued_runs s')" using x recs by (simp add: queue_ok_def)
  moreover have "admission_ok (in_records s') (in_admission_reservations s')"
    using parts adm x recs by (simp add: admission_ok_def)
  moreover have "tree_ok (in_records s') (in_tree_reservations s')" using parts tree x recs by (simp add: tree_ok_def)
  moreover have "terminal_ok (in_records s') (in_tree_reservations s') (in_terminal_runs s')"
    using x recs by (simp add: terminal_ok_def record_is_terminal_def)
  moreover have "cursors_ok (in_cursor s') (in_records s')"
    using x recs by (simp add: cursors_ok_def c le_max_iff_disj)
  ultimately show "store_inv s'" using log by (simp add: store_inv_def)
qed


lemma demo1_turns: "turns_ok demo1"
proof -
  have "\<exists>t. in_turns demo1 = hm_insert 10 t [] \<and> tr_turn_id t = 10 \<and> tr_actor t = demo_actor"
    by (simp add: demo1_def demo_defs submit_eval Let_def) (rule exI, rule conjI, rule refl, simp)
  then show ?thesis by (auto simp: turns_ok_def demo1_fields demo_run1_def demo_env_def queued_record_def split: if_splits)
qed


end
