(* ===== verification/Host_Authority.thy ===== *)
theory Host_Authority
  imports Host_Path
begin

text \<open>
  The authority vocabulary of the host: \<^verbatim>\<open>ironclaw_host_api/src/{ids,action,approval,capability,decision,
  resource,runtime,scope}.rs\<close> and the decision types of \<^verbatim>\<open>ironclaw_trust/src/decision.rs\<close>. Capabilities
  are described by descriptors and granted by grants with constraints; an execution context is
  the envelope of one invocation; a decision allows with obligations, denies, or asks for an
  approval.

  A \<^verbatim>\<open>Decimal\<close> of \<^verbatim>\<open>rust_decimal\<close> is a 96-bit integer with at most 28 decimal places; it is only
  compared here and is the integer of its units of the 28th place. The JSON values of descriptors
  are carried along without being inspected.
\<close>

section \<open>Identifiers (ids.rs)\<close>

type_synonym capability_id = string
type_synonym extension_id = string
type_synonym secret_handle = string
type_synonym provider_id = string
type_synonym invocation_id = uuid
type_synonym capability_grant_id = uuid
type_synonym approval_request_id = uuid
type_synonym invocation_fingerprint = string
type_synonym decimal = int

definition has_forbidden_control :: "string \<Rightarrow> bool" where
  "has_forbidden_control v = (CHR 0x00 \<in> set v \<or> contains_control v)"

definition validate_scope_id :: "string \<Rightarrow> string \<Rightarrow> host_api_error + unit" where
  "validate_scope_id kind v =
    (if v = [] then Err (InvalidId kind v ''must not be empty'')
     else if length v > 256 then Err (InvalidId kind v ''must be at most 256 bytes'')
     else if v = ''.'' \<or> v = ''..'' then Err (InvalidId kind v ''dot segments are not allowed'')
     else if CHR ''/'' \<in> set v \<or> CHR 0x5C \<in> set v then Err (InvalidId kind v ''path separators are not allowed'')
     else if has_forbidden_control v then Err (InvalidId kind v ''NUL/control characters are not allowed'')
     else Ok ())"

definition is_name_char :: "char \<Rightarrow> bool" where
  "is_name_char c = (is_ascii_lowercase c \<or> is_ascii_digit c \<or> c = CHR ''_'' \<or> c = CHR ''-'')"

definition validate_name_segment :: "string \<Rightarrow> string \<Rightarrow> host_api_error + unit" where
  "validate_name_segment kind v =
    (if v = [] then Err (InvalidId kind v ''must not be empty'')
     else if length v > 128 then Err (InvalidId kind v ''must be at most 128 bytes'')
     else if \<not> (is_ascii_lowercase (hd v) \<or> is_ascii_digit (hd v))
     then Err (InvalidId kind v ''must start with lowercase ASCII letter or digit'')
     else if v = ''.'' \<or> v = ''..'' \<or> str_contains ''..'' v
     then Err (InvalidId kind v ''dot-dot segments are not allowed'')
     else if list_ex (\<lambda>c. \<not> (is_name_char c \<or> c = CHR ''.'')) v
     then Err (InvalidId kind v ''only lowercase ASCII letters, digits, '_', '-', and '.' are allowed'')
     else if [] \<in> set (split_on (\<lambda>c. c = CHR ''.'') v)
     then Err (InvalidId kind v ''empty dot segments are not allowed'')
     else Ok ())"

section \<open>Resources (resource.rs)\<close>

record resource_scope =
  rsc_tenant_id :: string
  rsc_user_id :: string
  rsc_agent_id :: "string option"
  rsc_project_id :: "string option"
  rsc_mission_id :: "string option"
  rsc_thread_id :: "string option"
  rsc_invocation_id :: invocation_id

record resource_estimate =
  es_usd :: "decimal option"
  es_input_tokens :: "u64 option"
  es_output_tokens :: "u64 option"
  es_wall_clock_ms :: "u64 option"
  es_output_bytes :: "u64 option"
  es_network_egress_bytes :: "u64 option"
  es_process_count :: "u32 option"
  es_concurrency_slots :: "u32 option"

record sandbox_quota =
  sq_cpu_time_ms :: "u64 option"
  sq_memory_bytes :: "u64 option"
  sq_disk_bytes :: "u64 option"
  sq_network_egress_bytes :: "u64 option"
  sq_process_count :: "u32 option"

record resource_ceiling =
  ceil_max_usd :: "decimal option"
  ceil_max_input_tokens :: "u64 option"
  ceil_max_output_tokens :: "u64 option"
  ceil_max_wall_clock_ms :: "u64 option"
  ceil_max_output_bytes :: "u64 option"
  ceil_sandbox :: "sandbox_quota option"

record resource_profile =
  rpf_default_estimate :: resource_estimate
  rpf_hard_ceiling :: "resource_ceiling option"

section \<open>Runtimes, trust and principals (runtime.rs, scope.rs)\<close>

datatype runtime_kind = RtWasm | RtMcp | RtScript | RtFirstParty | RtSystem

datatype trust_class = TrSandbox | TrUserTrusted | TrFirstParty | TrSystem

datatype principal =
    PrTenant string | PrUser string | PrAgent string | PrProject string | PrMission string
  | PrThread string | PrExtension string | PrHostRuntime | PrSystem string

section \<open>Capabilities (capability.rs, action.rs, http.rs)\<close>

datatype effect_kind =
    ReadFilesystem | WriteFilesystem | DeleteFilesystem | EffNetwork | EffUseSecret | ExecuteCode
  | SpawnProcess | DispatchCapability | ModifyExtension | ModifyApproval | ModifyBudget
  | ExternalWrite | Financial

definition effect_is_write :: "effect_kind \<Rightarrow> bool" where
  "effect_is_write e =
    (case e of
       ReadFilesystem \<Rightarrow> False | EffNetwork \<Rightarrow> False | EffUseSecret \<Rightarrow> False | DispatchCapability \<Rightarrow> False
     | _ \<Rightarrow> True)"

datatype permission_mode = PermAllow | PermAsk | PermDeny

datatype network_scheme = SchemeHttp | SchemeHttps

datatype network_method = MGet | MPost | MPut | MPatch | MDelete | MHead

record network_target =
  nt_scheme :: network_scheme
  nt_host :: string
  nt_port :: "u16 option"

record network_target_pattern =
  ntp_scheme :: "network_scheme option"
  ntp_host_pattern :: string
  ntp_port :: "u16 option"

record network_policy =
  np_allowed_targets :: "network_target_pattern list"
  np_deny_private_ip_ranges :: bool
  np_max_egress_bytes :: "u64 option"

datatype runtime_credential_target =
    TargetHeader string "string option" | TargetQueryParam string | TargetPathPlaceholder string

datatype runtime_credential_account_setup = ManualToken | OAuth "string list"

datatype runtime_credential_requirement_source =
    SecretHandleSource
  | ProductAuthAccount provider_id runtime_credential_account_setup

record runtime_credential_requirement =
  rcr_handle :: secret_handle
  rcr_source :: runtime_credential_requirement_source
  rcr_provider_scopes :: "string list"
  rcr_audience :: network_target_pattern
  rcr_target :: runtime_credential_target
  rcr_required :: bool

datatype json =
    JNull | JBool bool | JNumber string | JString string | JArray "json list" | JObject "(string \<times> json) list"

record capability_descriptor =
  cd_id :: capability_id
  cd_provider :: extension_id
  cd_runtime :: runtime_kind
  cd_trust_ceiling :: trust_class
  cd_description :: string
  cd_parameters_schema :: json
  cd_effects :: "effect_kind list"
  cd_default_permission :: permission_mode
  cd_runtime_credentials :: "runtime_credential_requirement list"
  cd_resource_profile :: "resource_profile option"

record grant_constraints =
  gc_allowed_effects :: "effect_kind list"
  gc_mounts :: mount_view
  gc_network :: network_policy
  gc_secrets :: "secret_handle list"
  gc_resource_ceiling :: "resource_ceiling option"
  gc_expires_at :: "timestamp option"
  gc_max_invocations :: "u64 option"

record capability_grant =
  cg_id :: capability_grant_id
  cg_capability :: capability_id
  cg_grantee :: principal
  cg_issued_by :: principal
  cg_constraints :: grant_constraints

section \<open>Actions and approval requests (action.rs, approval.rs)\<close>

datatype secret_use_mode = InjectIntoRequest | InjectIntoEnvironment | ReadRaw

datatype extension_lifecycle_operation = OpInstall | OpUpdate | OpRemove | OpEnable | OpDisable

datatype file_action_kind = FileRead | FileList | FileWrite | FileDelete

datatype action =
    ActReadFile scoped_path
  | ActListDir scoped_path
  | ActWriteFile scoped_path "u64 option"
  | ActDeleteFile scoped_path
  | ActDispatch capability_id resource_estimate
  | ActSpawnCapability capability_id resource_estimate
  | ActUseSecret secret_handle secret_use_mode
  | ActNetwork network_target network_method "u64 option"
  | ActReserveResources resource_estimate
  | ActApprove approval_request
  | ActExtensionLifecycle extension_id extension_lifecycle_operation
  | ActEmitExternalEffect effect_kind
and approval_request =
    ApprovalRequest (apr_id: approval_request_id) (apr_correlation_id: uuid) (apr_requested_by: principal)
      (apr_action: action) (apr_invocation_fingerprint: "invocation_fingerprint option")
      (apr_reason: string) (apr_reusable_scope: "approval_scope option")
and approval_scope = ApprovalScope principal action_pattern "timestamp option"
and action_pattern =
    ExactAction action | CapabilityPattern capability_id
  | PathPrefixPattern file_action_kind scoped_path | NetworkTargetPattern network_target_pattern

section \<open>Execution contexts (scope.rs)\<close>

record execution_context =
  xc_invocation_id :: invocation_id
  xc_correlation_id :: uuid
  xc_process_id :: "uuid option"
  xc_parent_process_id :: "uuid option"
  xc_tenant_id :: string
  xc_user_id :: string
  xc_agent_id :: "string option"
  xc_project_id :: "string option"
  xc_mission_id :: "string option"
  xc_thread_id :: "string option"
  xc_extension_id :: extension_id
  xc_runtime :: runtime_kind
  xc_trust :: trust_class
  xc_grants :: "capability_grant list"
  xc_mounts :: mount_view
  xc_resource_scope :: resource_scope

definition context_validate :: "execution_context \<Rightarrow> host_api_error + unit" where
  "context_validate c =
    (let r = xc_resource_scope c in
     if rsc_invocation_id r \<noteq> xc_invocation_id c
     then Err (InvariantViolation ''resource_scope.invocation_id must match execution context invocation_id'')
     else if rsc_tenant_id r \<noteq> xc_tenant_id c
     then Err (InvariantViolation ''resource_scope.tenant_id must match execution context tenant_id'')
     else if rsc_user_id r \<noteq> xc_user_id c
     then Err (InvariantViolation ''resource_scope.user_id must match execution context user_id'')
     else if rsc_agent_id r \<noteq> xc_agent_id c
     then Err (InvariantViolation ''resource_scope.agent_id must match execution context agent_id'')
     else if rsc_project_id r \<noteq> xc_project_id c
     then Err (InvariantViolation ''resource_scope.project_id must match execution context project_id'')
     else if rsc_mission_id r \<noteq> xc_mission_id c
     then Err (InvariantViolation ''resource_scope.mission_id must match execution context mission_id'')
     else if rsc_thread_id r \<noteq> xc_thread_id c
     then Err (InvariantViolation ''resource_scope.thread_id must match execution context thread_id'')
     else mount_view_validate (xc_mounts c))"

section \<open>Decisions and obligations (decision.rs)\<close>

datatype deny_reason =
    MissingGrant | DenyInvalidPath | PathOutsideMount | UnknownCapability | UnknownSecret | NetworkDenied
  | BudgetDenied | ApprovalDenied | PolicyDenied | ResourceLimitExceeded | InternalInvariantViolation

datatype obligation =
    AuditBefore | AuditAfter | RedactOutput
  | ReserveResources uuid
  | UseScopedMounts mount_view
  | InjectSecretOnce secret_handle
  | InjectCredentialAccountOnce secret_handle provider_id "string list" extension_id
  | FirstPartyCredentialStagedViaHostPort capability_id
  | ApplyNetworkPolicy network_policy
  | EnforceResourceCeiling resource_ceiling
  | EnforceOutputLimit u64

datatype obligation_kind =
    KReserveResources | KUseScopedMounts | KApplyNetworkPolicy | KInjectSecretOnce
  | KInjectCredentialAccountOnce | KFirstPartyCredential | KAuditBefore | KRedactOutput
  | KEnforceResourceCeiling | KEnforceOutputLimit | KAuditAfter

definition OBLIGATION_EVALUATION_ORDER :: "obligation_kind list" where
  "OBLIGATION_EVALUATION_ORDER =
    [KReserveResources, KUseScopedMounts, KApplyNetworkPolicy, KInjectSecretOnce,
     KInjectCredentialAccountOnce, KFirstPartyCredential, KAuditBefore, KRedactOutput,
     KEnforceResourceCeiling, KEnforceOutputLimit, KAuditAfter]"

text \<open>Kinds are ordered by their place in the evaluation order.\<close>

fun kind_rank :: "obligation_kind \<Rightarrow> nat" where
  "kind_rank KReserveResources = 0"
| "kind_rank KUseScopedMounts = 1"
| "kind_rank KApplyNetworkPolicy = 2"
| "kind_rank KInjectSecretOnce = 3"
| "kind_rank KInjectCredentialAccountOnce = 4"
| "kind_rank KFirstPartyCredential = 5"
| "kind_rank KAuditBefore = 6"
| "kind_rank KRedactOutput = 7"
| "kind_rank KEnforceResourceCeiling = 8"
| "kind_rank KEnforceOutputLimit = 9"
| "kind_rank KAuditAfter = 10"

instantiation obligation_kind :: linorder
begin

definition less_eq_obligation_kind :: "obligation_kind \<Rightarrow> obligation_kind \<Rightarrow> bool" where
  "less_eq_obligation_kind a b = (kind_rank a \<le> kind_rank b)"

definition less_obligation_kind :: "obligation_kind \<Rightarrow> obligation_kind \<Rightarrow> bool" where
  "less_obligation_kind a b = (kind_rank a < kind_rank b)"

instance
proof
  fix a b :: obligation_kind
  show "a \<le> b \<Longrightarrow> b \<le> a \<Longrightarrow> a = b"
    by (cases a; cases b) (simp_all add: less_eq_obligation_kind_def)
qed (auto simp: less_eq_obligation_kind_def less_obligation_kind_def)

end

fun obligation_kind_of :: "obligation \<Rightarrow> obligation_kind" where
  "obligation_kind_of AuditBefore = KAuditBefore"
| "obligation_kind_of AuditAfter = KAuditAfter"
| "obligation_kind_of RedactOutput = KRedactOutput"
| "obligation_kind_of (ReserveResources _) = KReserveResources"
| "obligation_kind_of (UseScopedMounts _) = KUseScopedMounts"
| "obligation_kind_of (InjectSecretOnce _) = KInjectSecretOnce"
| "obligation_kind_of (InjectCredentialAccountOnce _ _ _ _) = KInjectCredentialAccountOnce"
| "obligation_kind_of (FirstPartyCredentialStagedViaHostPort _) = KFirstPartyCredential"
| "obligation_kind_of (ApplyNetworkPolicy _) = KApplyNetworkPolicy"
| "obligation_kind_of (EnforceResourceCeiling _) = KEnforceResourceCeiling"
| "obligation_kind_of (EnforceOutputLimit _) = KEnforceOutputLimit"

text \<open>The derived \<^verbatim>\<open>Debug\<close> names, which the error messages contain.\<close>

definition obligation_kind_debug :: "obligation_kind \<Rightarrow> string" where
  "obligation_kind_debug k =
    (case k of
       KReserveResources \<Rightarrow> ''ReserveResources'' | KUseScopedMounts \<Rightarrow> ''UseScopedMounts''
     | KApplyNetworkPolicy \<Rightarrow> ''ApplyNetworkPolicy'' | KInjectSecretOnce \<Rightarrow> ''InjectSecretOnce''
     | KInjectCredentialAccountOnce \<Rightarrow> ''InjectCredentialAccountOnce''
     | KFirstPartyCredential \<Rightarrow> ''FirstPartyCredentialStagedViaHostPort'' | KAuditBefore \<Rightarrow> ''AuditBefore''
     | KRedactOutput \<Rightarrow> ''RedactOutput'' | KEnforceResourceCeiling \<Rightarrow> ''EnforceResourceCeiling''
     | KEnforceOutputLimit \<Rightarrow> ''EnforceOutputLimit'' | KAuditAfter \<Rightarrow> ''AuditAfter'')"

text \<open>The source panics on other obligations; it is only called on the two injecting kinds.\<close>

fun extract_inject_handle :: "obligation \<Rightarrow> secret_handle option" where
  "extract_inject_handle (InjectSecretOnce h) = Some h"
| "extract_inject_handle (InjectCredentialAccountOnce h _ _ _) = Some h"
| "extract_inject_handle _ = None"

text \<open>The loop of \<^verbatim>\<open>normalize_multi_inject\<close>: the handles of one kind must differ.\<close>

fun normalize_multi_inject ::
    "obligation_kind \<Rightarrow> secret_handle option list \<Rightarrow> obligation list \<Rightarrow> host_api_error + unit" where
  "normalize_multi_inject kind seen [] = Ok ()"
| "normalize_multi_inject kind seen (ob # obs) =
    (if extract_inject_handle ob \<in> set seen
     then Err (InvariantViolation (''duplicate '' @ obligation_kind_debug kind
       @ '' obligations for the same handle are not allowed''))
     else normalize_multi_inject kind (extract_inject_handle ob # seen) obs)"

fun normalize_kinds :: "obligation list \<Rightarrow> obligation_kind list \<Rightarrow> obligation list \<Rightarrow> host_api_error + obligation list" where
  "normalize_kinds obs [] acc = Ok acc"
| "normalize_kinds obs (k # ks) acc =
    (case filter (\<lambda>ob. obligation_kind_of ob = k) obs of
       [] \<Rightarrow> normalize_kinds obs ks acc
     | ob # rest \<Rightarrow>
        if k = KInjectSecretOnce \<or> k = KInjectCredentialAccountOnce
        then (case normalize_multi_inject k [extract_inject_handle ob] rest of
                Err e \<Rightarrow> Err e
              | Ok _ \<Rightarrow> normalize_kinds obs ks (acc @ ob # rest))
        else if rest \<noteq> []
        then Err (InvariantViolation (''duplicate or conflicting '' @ obligation_kind_debug k @ '' obligations are not allowed''))
        else normalize_kinds obs ks (acc @ [ob]))"

definition obligations_new :: "obligation list \<Rightarrow> host_api_error + obligation list" where
  "obligations_new obs =
    (case find (\<lambda>ob. obligation_kind_of ob \<notin> set OBLIGATION_EVALUATION_ORDER) obs of
       Some ob \<Rightarrow> Err (InvariantViolation (obligation_kind_debug (obligation_kind_of ob)
         @ '' is missing from OBLIGATION_EVALUATION_ORDER''))
     | None \<Rightarrow> normalize_kinds obs OBLIGATION_EVALUATION_ORDER [])"

datatype decision =
    Allow "obligation list" | Deny deny_reason | RequireApproval approval_request

section \<open>Trust decisions (ironclaw\_trust/src/decision.rs)\<close>

record authority_ceiling =
  auc_allowed_effects :: "effect_kind list"
  auc_max_resource_ceiling :: "resource_ceiling option"

definition ceiling_empty :: authority_ceiling where
  "ceiling_empty = \<lparr>auc_allowed_effects = [], auc_max_resource_ceiling = None\<rparr>"

definition allows_effect :: "authority_ceiling \<Rightarrow> effect_kind \<Rightarrow> bool" where
  "allows_effect c e = (e \<in> set (auc_allowed_effects c))"

definition limit_reduced :: "'a::linorder option \<Rightarrow> 'a option \<Rightarrow> bool" where
  "limit_reduced previous current =
    (case (previous, current) of
       (None, Some _) \<Rightarrow> True
     | (Some p, Some c) \<Rightarrow> c < p
     | (_, None) \<Rightarrow> False)"

definition sandbox_quota_reduced :: "sandbox_quota option \<Rightarrow> sandbox_quota option \<Rightarrow> bool" where
  "sandbox_quota_reduced previous current =
    (case (previous, current) of
       (None, Some _) \<Rightarrow> True
     | (_, None) \<Rightarrow> False
     | (Some p, Some c) \<Rightarrow>
         limit_reduced (sq_cpu_time_ms p) (sq_cpu_time_ms c)
         \<or> limit_reduced (sq_memory_bytes p) (sq_memory_bytes c)
         \<or> limit_reduced (sq_disk_bytes p) (sq_disk_bytes c)
         \<or> limit_reduced (sq_network_egress_bytes p) (sq_network_egress_bytes c)
         \<or> limit_reduced (sq_process_count p) (sq_process_count c))"

definition resource_ceiling_reduced :: "resource_ceiling option \<Rightarrow> resource_ceiling option \<Rightarrow> bool" where
  "resource_ceiling_reduced previous current =
    (case (previous, current) of
       (None, Some _) \<Rightarrow> True
     | (_, None) \<Rightarrow> False
     | (Some p, Some c) \<Rightarrow>
         limit_reduced (ceil_max_usd p) (ceil_max_usd c)
         \<or> limit_reduced (ceil_max_input_tokens p) (ceil_max_input_tokens c)
         \<or> limit_reduced (ceil_max_output_tokens p) (ceil_max_output_tokens c)
         \<or> limit_reduced (ceil_max_wall_clock_ms p) (ceil_max_wall_clock_ms c)
         \<or> limit_reduced (ceil_max_output_bytes p) (ceil_max_output_bytes c)
         \<or> sandbox_quota_reduced (ceil_sandbox p) (ceil_sandbox c))"

definition is_reduction_from :: "authority_ceiling \<Rightarrow> authority_ceiling \<Rightarrow> bool" where
  "is_reduction_from current previous =
    (list_ex (\<lambda>e. e \<notin> set (auc_allowed_effects current)) (auc_allowed_effects previous)
     \<or> resource_ceiling_reduced (auc_max_resource_ceiling previous) (auc_max_resource_ceiling current))"

datatype trust_provenance =
    ProvDefault | ProvBundled | ProvAdminConfig | ProvSignedRegistry string | ProvLocalManifest

definition trust_is_privileged :: "trust_class \<Rightarrow> bool" where
  "trust_is_privileged t = (t = TrFirstParty \<or> t = TrSystem)"

definition authority_level :: "trust_class \<Rightarrow> nat" where
  "authority_level t = (case t of TrSandbox \<Rightarrow> 0 | TrUserTrusted \<Rightarrow> 1 | TrFirstParty \<Rightarrow> 2 | TrSystem \<Rightarrow> 2)"

record trust_decision =
  td_effective_trust :: trust_class
  td_authority_ceiling :: authority_ceiling
  td_provenance :: trust_provenance
  td_evaluated_at :: timestamp

end
