(* ===== verification/Capability_Lease.thy ===== *)
theory Capability_Lease
  imports Host_Authority
begin

text \<open>
  Capability authorization: \<^verbatim>\<open>ironclaw_authorization/src/lib.rs\<close>. Grants come with the execution
  context or from active leases; the authorizer allows a dispatch on the first active matching
  grant that covers the descriptor's effects and the estimate, below the ceiling of the trust
  decision, and attaches the obligations of that grant. Leases live in a store keyed by scope and
  id; a lease with a fingerprint is claimed for one invocation and consumed once.

  The clock is an argument: \<^verbatim>\<open>Utc::now()\<close> is read once per check in the source, and every check of
  one call reads the argument \<open>now\<close> here.
\<close>

section \<open>Limits\<close>

definition stricter_limit :: "'a::linorder option \<Rightarrow> 'a option \<Rightarrow> 'a option" where
  "stricter_limit l r =
    (case (l, r) of
       (Some a, Some b) \<Rightarrow> if b < a then Some b else Some a
     | (Some a, None) \<Rightarrow> Some a
     | (None, r) \<Rightarrow> r)"

definition limit_exceeds :: "'a::linorder option \<Rightarrow> 'a option \<Rightarrow> bool" where
  "limit_exceeds grant authority =
    (case (grant, authority) of
       (Some g, Some a) \<Rightarrow> g > a
     | (None, Some _) \<Rightarrow> True
     | (_, None) \<Rightarrow> False)"

definition options_within_ceiling :: "'a::linorder option \<Rightarrow> 'a option \<Rightarrow> bool" where
  "options_within_ceiling estimate maximum =
    (case (estimate, maximum) of
       (Some e, Some m) \<Rightarrow> e \<le> m
     | (None, Some _) \<Rightarrow> False
     | (_, None) \<Rightarrow> True)"

definition intersect_sandbox_quotas :: "sandbox_quota option \<Rightarrow> sandbox_quota option \<Rightarrow> sandbox_quota option" where
  "intersect_sandbox_quotas grant authority =
    (case (grant, authority) of
       (None, None) \<Rightarrow> None
     | (Some q, None) \<Rightarrow> Some q
     | (None, Some q) \<Rightarrow> Some q
     | (Some g, Some a) \<Rightarrow> Some
         \<lparr>sq_cpu_time_ms = stricter_limit (sq_cpu_time_ms g) (sq_cpu_time_ms a),
          sq_memory_bytes = stricter_limit (sq_memory_bytes g) (sq_memory_bytes a),
          sq_disk_bytes = stricter_limit (sq_disk_bytes g) (sq_disk_bytes a),
          sq_network_egress_bytes = stricter_limit (sq_network_egress_bytes g) (sq_network_egress_bytes a),
          sq_process_count = stricter_limit (sq_process_count g) (sq_process_count a)\<rparr>)"

definition intersect_resource_ceilings ::
    "resource_ceiling option \<Rightarrow> resource_ceiling option \<Rightarrow> resource_ceiling option" where
  "intersect_resource_ceilings grant authority =
    (case (grant, authority) of
       (None, None) \<Rightarrow> None
     | (Some c, None) \<Rightarrow> Some c
     | (None, Some c) \<Rightarrow> Some c
     | (Some g, Some a) \<Rightarrow> Some
         \<lparr>ceil_max_usd = stricter_limit (ceil_max_usd g) (ceil_max_usd a),
          ceil_max_input_tokens = stricter_limit (ceil_max_input_tokens g) (ceil_max_input_tokens a),
          ceil_max_output_tokens = stricter_limit (ceil_max_output_tokens g) (ceil_max_output_tokens a),
          ceil_max_wall_clock_ms = stricter_limit (ceil_max_wall_clock_ms g) (ceil_max_wall_clock_ms a),
          ceil_max_output_bytes = stricter_limit (ceil_max_output_bytes g) (ceil_max_output_bytes a),
          ceil_sandbox = intersect_sandbox_quotas (ceil_sandbox g) (ceil_sandbox a)\<rparr>)"

definition sandbox_quota_exceeds_authority :: "sandbox_quota option \<Rightarrow> sandbox_quota option \<Rightarrow> bool" where
  "sandbox_quota_exceeds_authority grant authority =
    (case (grant, authority) of
       (None, Some _) \<Rightarrow> True
     | (_, None) \<Rightarrow> False
     | (Some g, Some a) \<Rightarrow>
         limit_exceeds (sq_cpu_time_ms g) (sq_cpu_time_ms a)
         \<or> limit_exceeds (sq_memory_bytes g) (sq_memory_bytes a)
         \<or> limit_exceeds (sq_disk_bytes g) (sq_disk_bytes a)
         \<or> limit_exceeds (sq_network_egress_bytes g) (sq_network_egress_bytes a)
         \<or> limit_exceeds (sq_process_count g) (sq_process_count a))"

definition resource_ceiling_exceeds_authority ::
    "resource_ceiling option \<Rightarrow> resource_ceiling option \<Rightarrow> bool" where
  "resource_ceiling_exceeds_authority grant authority =
    (case (grant, authority) of
       (None, Some _) \<Rightarrow> True
     | (_, None) \<Rightarrow> False
     | (Some g, Some a) \<Rightarrow>
         limit_exceeds (ceil_max_usd g) (ceil_max_usd a)
         \<or> limit_exceeds (ceil_max_input_tokens g) (ceil_max_input_tokens a)
         \<or> limit_exceeds (ceil_max_output_tokens g) (ceil_max_output_tokens a)
         \<or> limit_exceeds (ceil_max_wall_clock_ms g) (ceil_max_wall_clock_ms a)
         \<or> limit_exceeds (ceil_max_output_bytes g) (ceil_max_output_bytes a)
         \<or> sandbox_quota_exceeds_authority (ceil_sandbox g) (ceil_sandbox a))"

definition resource_estimate_is_covered :: "resource_estimate \<Rightarrow> resource_ceiling option \<Rightarrow> bool" where
  "resource_estimate_is_covered e ceiling =
    (case ceiling of
       None \<Rightarrow> True
     | Some c \<Rightarrow>
         options_within_ceiling (es_usd e) (ceil_max_usd c)
         \<and> options_within_ceiling (es_input_tokens e) (ceil_max_input_tokens c)
         \<and> options_within_ceiling (es_output_tokens e) (ceil_max_output_tokens c)
         \<and> options_within_ceiling (es_wall_clock_ms e) (ceil_max_wall_clock_ms c)
         \<and> options_within_ceiling (es_output_bytes e) (ceil_max_output_bytes c)
         \<and> (case ceil_sandbox c of
              Some q \<Rightarrow> options_within_ceiling (es_network_egress_bytes e) (sq_network_egress_bytes q)
                \<and> options_within_ceiling (es_process_count e) (sq_process_count q)
            | None \<Rightarrow> True))"

section \<open>Matching grants\<close>

definition effects_are_covered :: "effect_kind list \<Rightarrow> effect_kind list \<Rightarrow> bool" where
  "effects_are_covered required allowed = list_all (\<lambda>e. e \<in> set allowed) required"

definition grant_exceeds_authority_ceiling :: "capability_grant \<Rightarrow> authority_ceiling \<Rightarrow> bool" where
  "grant_exceeds_authority_ceiling g c =
    (\<not> effects_are_covered (gc_allowed_effects (cg_constraints g)) (auc_allowed_effects c)
     \<or> resource_ceiling_exceeds_authority (gc_resource_ceiling (cg_constraints g)) (auc_max_resource_ceiling c))"

definition principal_matches_context :: "principal \<Rightarrow> execution_context \<Rightarrow> bool" where
  "principal_matches_context p c =
    (case p of
       PrTenant i \<Rightarrow> i = xc_tenant_id c
     | PrUser i \<Rightarrow> i = xc_user_id c
     | PrAgent i \<Rightarrow> xc_agent_id c = Some i
     | PrProject i \<Rightarrow> xc_project_id c = Some i
     | PrMission i \<Rightarrow> xc_mission_id c = Some i
     | PrThread i \<Rightarrow> xc_thread_id c = Some i
     | PrExtension i \<Rightarrow> i = xc_extension_id c
     | PrHostRuntime \<Rightarrow> False
     | PrSystem _ \<Rightarrow> False)"

definition grant_is_active :: "timestamp \<Rightarrow> capability_grant \<Rightarrow> bool" where
  "grant_is_active now g =
    ((case gc_expires_at (cg_constraints g) of Some t \<Rightarrow> t > now | None \<Rightarrow> True)
     \<and> gc_max_invocations (cg_constraints g) \<noteq> Some 0)"

definition descriptor_requires_mount_policy :: "capability_descriptor \<Rightarrow> bool" where
  "descriptor_requires_mount_policy d =
    list_ex (\<lambda>e. e = ReadFilesystem \<or> e = WriteFilesystem \<or> e = DeleteFilesystem \<or> e = ExecuteCode) (cd_effects d)"

definition network_policy_is_constrained :: "network_policy \<Rightarrow> bool" where
  "network_policy_is_constrained p =
    (np_allowed_targets p \<noteq> [] \<or> np_deny_private_ip_ranges p \<or> np_max_egress_bytes p \<noteq> None)"

definition spawn_descriptor :: "capability_descriptor \<Rightarrow> capability_descriptor" where
  "spawn_descriptor d =
    (if SpawnProcess \<in> set (cd_effects d) then d else d\<lparr>cd_effects := cd_effects d @ [SpawnProcess]\<rparr>)"

section \<open>Obligations\<close>

text \<open>The loop over the descriptor's credentials; None is the early return.\<close>

fun credential_obligations ::
    "capability_descriptor \<Rightarrow> capability_grant \<Rightarrow> runtime_credential_requirement list \<Rightarrow> obligation list option" where
  "credential_obligations d g [] = Some []"
| "credential_obligations d g (c # cs) =
    (case rcr_source c of
       SecretHandleSource \<Rightarrow>
         if rcr_handle c \<in> set (gc_secrets (cg_constraints g))
         then map_option (Cons (InjectSecretOnce (rcr_handle c))) (credential_obligations d g cs)
         else if rcr_required c then None
         else credential_obligations d g cs
     | ProductAuthAccount provider _ \<Rightarrow>
         if rcr_required c
         then map_option (Cons (InjectCredentialAccountOnce (rcr_handle c) provider (rcr_provider_scopes c) (cd_provider d)))
                (credential_obligations d g cs)
         else credential_obligations d g cs)"

definition secret_obligations :: "capability_descriptor \<Rightarrow> capability_grant \<Rightarrow> obligation list option" where
  "secret_obligations d g =
    (if cd_runtime_credentials d \<noteq> []
     then if EffUseSecret \<notin> set (cd_effects d) then None
          else credential_obligations d g (cd_runtime_credentials d)
     else if EffUseSecret \<in> set (cd_effects d)
     then if cd_runtime d = RtFirstParty \<and> gc_secrets (cg_constraints g) = []
          then Some [FirstPartyCredentialStagedViaHostPort (cd_id d)]
          else (case gc_secrets (cg_constraints g) of [h] \<Rightarrow> Some [InjectSecretOnce h] | _ \<Rightarrow> None)
     else Some [])"

definition ceiling_obligations :: "resource_ceiling option \<Rightarrow> obligation list" where
  "ceiling_obligations ceiling =
    (case ceiling of
       None \<Rightarrow> []
     | Some c \<Rightarrow> EnforceResourceCeiling c
         # (case ceil_max_output_bytes c of Some b \<Rightarrow> [EnforceOutputLimit b] | None \<Rightarrow> []))"

definition obligations_for_grant ::
    "capability_descriptor \<Rightarrow> capability_grant \<Rightarrow> resource_ceiling option \<Rightarrow> obligation list option" where
  "obligations_for_grant d g ceiling =
    (let mounts = (if descriptor_requires_mount_policy d
                   then [UseScopedMounts (gc_mounts (cg_constraints g))] else []);
         network = (if EffNetwork \<in> set (cd_effects d) \<or> network_policy_is_constrained (gc_network (cg_constraints g))
                    then [ApplyNetworkPolicy (gc_network (cg_constraints g))] else []) in
     case secret_obligations d g of
       None \<Rightarrow> None
     | Some secrets \<Rightarrow>
        (case obligations_new (mounts @ network @ secrets @ ceiling_obligations ceiling) of
           Ok obs \<Rightarrow> Some obs
         | Err _ \<Rightarrow> None))"

section \<open>Authorization\<close>

fun first_allowing ::
    "execution_context \<Rightarrow> capability_descriptor \<Rightarrow> resource_estimate \<Rightarrow> authority_ceiling option
      \<Rightarrow> capability_grant list \<Rightarrow> obligation list option" where
  "first_allowing c d e ceiling [] = None"
| "first_allowing c d e ceiling (g # gs) =
    (let effective = intersect_resource_ceilings (gc_resource_ceiling (cg_constraints g))
           (case ceiling of Some a \<Rightarrow> auc_max_resource_ceiling a | None \<Rightarrow> None);
         effects_ok = (case ceiling of Some a \<Rightarrow> effects_are_covered (cd_effects d) (auc_allowed_effects a) | None \<Rightarrow> True) in
     if effects_are_covered (cd_effects d) (gc_allowed_effects (cg_constraints g)) \<and> effects_ok
        \<and> resource_estimate_is_covered e effective
     then (case obligations_for_grant d g effective of
             Some obs \<Rightarrow> Some obs
           | None \<Rightarrow> first_allowing c d e ceiling gs)
     else first_allowing c d e ceiling gs)"

definition authorize_from_grants_with_authority_ceiling ::
    "timestamp \<Rightarrow> execution_context \<Rightarrow> capability_descriptor \<Rightarrow> resource_estimate \<Rightarrow> capability_grant list
      \<Rightarrow> authority_ceiling option \<Rightarrow> decision" where
  "authorize_from_grants_with_authority_ceiling now c d e grants ceiling =
    (if \<not> is_ok (context_validate c) then Deny InternalInvariantViolation
     else let matching = filter (\<lambda>g. cg_capability g = cd_id d \<and> principal_matches_context (cg_grantee g) c
                                   \<and> grant_is_active now g) grants in
       case first_allowing c d e ceiling matching of
         Some obs \<Rightarrow> Allow obs
       | None \<Rightarrow> if matching \<noteq> [] then Deny PolicyDenied else Deny MissingGrant)"

definition authorize_from_grants ::
    "timestamp \<Rightarrow> execution_context \<Rightarrow> capability_descriptor \<Rightarrow> resource_estimate \<Rightarrow> capability_grant list \<Rightarrow> decision" where
  "authorize_from_grants now c d e grants = authorize_from_grants_with_authority_ceiling now c d e grants None"

definition authorize_from_grants_with_trust ::
    "timestamp \<Rightarrow> execution_context \<Rightarrow> capability_descriptor \<Rightarrow> resource_estimate \<Rightarrow> capability_grant list
      \<Rightarrow> trust_decision \<Rightarrow> decision" where
  "authorize_from_grants_with_trust now c d e grants trust =
    (if \<not> is_ok (context_validate c) then Deny InternalInvariantViolation
     else if xc_trust c \<noteq> td_effective_trust trust then Deny PolicyDenied
     else authorize_from_grants_with_authority_ceiling now c d e grants (Some (td_authority_ceiling trust)))"

section \<open>Leases\<close>

datatype capability_lease_status = LeaseActive | LeaseClaimed | LeaseConsumed | LeaseRevoked

record capability_lease =
  cl_scope :: resource_scope
  cl_grant :: capability_grant
  cl_invocation_fingerprint :: "invocation_fingerprint option"
  cl_status :: capability_lease_status

definition capability_lease_new :: "resource_scope \<Rightarrow> capability_grant \<Rightarrow> capability_lease" where
  "capability_lease_new scope grant =
    \<lparr>cl_scope = scope, cl_grant = grant, cl_invocation_fingerprint = None, cl_status = LeaseActive\<rparr>"

datatype capability_lease_error =
    UnknownLease capability_grant_id
  | ExpiredLease capability_grant_id
  | ExhaustedLease capability_grant_id
  | UnclaimedFingerprintLease capability_grant_id
  | FingerprintMismatch capability_grant_id
  | InactiveLease capability_grant_id capability_lease_status
  | LeasePersistence string
  | LeaseVersionMismatch
  | LeaseCasExhausted

text \<open>\<^verbatim>\<open>CapabilityLeaseKey\<close>: the seven fields of the scope and the lease's id.\<close>

type_synonym capability_lease_key = "resource_scope \<times> capability_grant_id"

type_synonym lease_store = "(capability_lease_key, capability_lease) hmap"

definition same_scope_owner :: "resource_scope \<Rightarrow> resource_scope \<Rightarrow> bool" where
  "same_scope_owner l r \<longleftrightarrow>
    rsc_tenant_id l = rsc_tenant_id r \<and> rsc_user_id l = rsc_user_id r \<and> rsc_agent_id l = rsc_agent_id r
    \<and> rsc_project_id l = rsc_project_id r \<and> rsc_mission_id l = rsc_mission_id r \<and> rsc_thread_id l = rsc_thread_id r"

definition lease_is_expired :: "timestamp \<Rightarrow> capability_lease \<Rightarrow> bool" where
  "lease_is_expired now l = (case gc_expires_at (cg_constraints (cl_grant l)) of Some t \<Rightarrow> t \<le> now | None \<Rightarrow> False)"

definition ensure_not_expired_or_exhausted :: "timestamp \<Rightarrow> capability_lease \<Rightarrow> capability_lease_error + unit" where
  "ensure_not_expired_or_exhausted now l =
    (if lease_is_expired now l then Err (ExpiredLease (cg_id (cl_grant l)))
     else if gc_max_invocations (cg_constraints (cl_grant l)) = Some 0 then Err (ExhaustedLease (cg_id (cl_grant l)))
     else Ok ())"

definition ensure_claimable ::
    "timestamp \<Rightarrow> capability_lease \<Rightarrow> invocation_fingerprint \<Rightarrow> capability_lease_error + unit" where
  "ensure_claimable now l fp =
    (if cl_status l \<noteq> LeaseActive then Err (InactiveLease (cg_id (cl_grant l)) (cl_status l))
     else if cl_invocation_fingerprint l \<noteq> Some fp then Err (FingerprintMismatch (cg_id (cl_grant l)))
     else ensure_not_expired_or_exhausted now l)"

definition ensure_consumable :: "timestamp \<Rightarrow> capability_lease \<Rightarrow> capability_lease_error + unit" where
  "ensure_consumable now l =
    (case cl_status l of
       LeaseConsumed \<Rightarrow> Err (ExhaustedLease (cg_id (cl_grant l)))
     | LeaseRevoked \<Rightarrow> Err (InactiveLease (cg_id (cl_grant l)) (cl_status l))
     | _ \<Rightarrow>
        if cl_invocation_fingerprint l \<noteq> None \<and> cl_status l \<noteq> LeaseClaimed
        then Err (UnclaimedFingerprintLease (cg_id (cl_grant l)))
        else ensure_not_expired_or_exhausted now l)"

definition lease_is_authorizing :: "timestamp \<Rightarrow> capability_lease \<Rightarrow> execution_context \<Rightarrow> bool" where
  "lease_is_authorizing now l c =
    (cl_status l = LeaseActive \<and> rsc_invocation_id (cl_scope l) = xc_invocation_id c
     \<and> \<not> lease_is_expired now l \<and> gc_max_invocations (cg_constraints (cl_grant l)) \<noteq> Some 0)"

definition set_remaining :: "u64 \<Rightarrow> capability_lease \<Rightarrow> capability_lease" where
  "set_remaining n l = l\<lparr>cl_grant := (cl_grant l)\<lparr>cg_constraints :=
     (cg_constraints (cl_grant l))\<lparr>gc_max_invocations := Some n\<rparr>\<rparr>\<rparr>"

text \<open>The body of \<^verbatim>\<open>consume\<close> after the checks.\<close>

definition consumed_lease :: "capability_lease \<Rightarrow> capability_lease" where
  "consumed_lease l =
    (let was_claimed = (cl_status l = LeaseClaimed) in
     if cl_invocation_fingerprint l \<noteq> None
     then (case gc_max_invocations (cg_constraints (cl_grant l)) of
             Some _ \<Rightarrow> set_remaining 0 l | None \<Rightarrow> l)\<lparr>cl_status := LeaseConsumed\<rparr>
     else case gc_max_invocations (cg_constraints (cl_grant l)) of
         Some remaining \<Rightarrow>
          (let l = set_remaining (remaining - 1) l in
           if remaining - 1 = 0 then l\<lparr>cl_status := LeaseConsumed\<rparr>
           else if was_claimed then l\<lparr>cl_status := LeaseActive\<rparr> else l)
       | None \<Rightarrow> if was_claimed then l\<lparr>cl_status := LeaseActive\<rparr> else l)"

section \<open>The in-memory lease store\<close>

definition lease_issue :: "capability_lease \<Rightarrow> lease_store \<Rightarrow> (capability_lease_error + capability_lease) \<times> lease_store" where
  "lease_issue l m = (Ok l, hm_insert (cl_scope l, cg_id (cl_grant l)) l m)"

definition lease_update ::
    "(capability_lease \<Rightarrow> capability_lease_error + capability_lease) \<Rightarrow> resource_scope \<Rightarrow> capability_grant_id
      \<Rightarrow> lease_store \<Rightarrow> (capability_lease_error + capability_lease) \<times> lease_store" where
  "lease_update f scope i m =
    (case hm_get m (scope, i) of
       None \<Rightarrow> (Err (UnknownLease i), m)
     | Some l \<Rightarrow>
        (case f l of
           Err e \<Rightarrow> (Err e, m)
         | Ok l' \<Rightarrow> (Ok l', hm_insert (scope, i) l' m)))"

definition lease_revoke ::
    "resource_scope \<Rightarrow> capability_grant_id \<Rightarrow> lease_store \<Rightarrow> (capability_lease_error + capability_lease) \<times> lease_store" where
  "lease_revoke = lease_update (\<lambda>l. Ok (l\<lparr>cl_status := LeaseRevoked\<rparr>))"

definition lease_get :: "resource_scope \<Rightarrow> capability_grant_id \<Rightarrow> lease_store \<Rightarrow> capability_lease option" where
  "lease_get scope i m = hm_get m (scope, i)"

definition lease_claim ::
    "timestamp \<Rightarrow> resource_scope \<Rightarrow> capability_grant_id \<Rightarrow> invocation_fingerprint \<Rightarrow> lease_store
      \<Rightarrow> (capability_lease_error + capability_lease) \<times> lease_store" where
  "lease_claim now scope i fp = lease_update (\<lambda>l.
    case ensure_claimable now l fp of Err e \<Rightarrow> Err e | Ok _ \<Rightarrow> Ok (l\<lparr>cl_status := LeaseClaimed\<rparr>)) scope i"

definition lease_consume ::
    "timestamp \<Rightarrow> resource_scope \<Rightarrow> capability_grant_id \<Rightarrow> lease_store
      \<Rightarrow> (capability_lease_error + capability_lease) \<times> lease_store" where
  "lease_consume now scope i = lease_update (\<lambda>l.
    case ensure_consumable now l of Err e \<Rightarrow> Err e | Ok _ \<Rightarrow> Ok (consumed_lease l)) scope i"

definition leases_for_scope :: "resource_scope \<Rightarrow> lease_store \<Rightarrow> capability_lease list" where
  "leases_for_scope scope m =
    sort_key (\<lambda>l. cg_id (cl_grant l)) (filter (\<lambda>l. same_scope_owner (cl_scope l) scope) (hm_values m))"

definition active_leases_for_context :: "timestamp \<Rightarrow> execution_context \<Rightarrow> lease_store \<Rightarrow> capability_lease list" where
  "active_leases_for_context now c m =
    filter (\<lambda>l. lease_is_authorizing now l c) (leases_for_scope (xc_resource_scope c) m)"

definition active_grants_for_context :: "timestamp \<Rightarrow> execution_context \<Rightarrow> lease_store \<Rightarrow> capability_grant list" where
  "active_grants_for_context now c m =
    map cl_grant (filter (\<lambda>l. cl_invocation_fingerprint l = None) (active_leases_for_context now c m))"

section \<open>The lease-backed authorizer\<close>

definition authorize_dispatch_with_trust ::
    "timestamp \<Rightarrow> lease_store \<Rightarrow> execution_context \<Rightarrow> capability_descriptor \<Rightarrow> resource_estimate \<Rightarrow> trust_decision \<Rightarrow> decision" where
  "authorize_dispatch_with_trust now m c d e trust =
    (if \<not> is_ok (context_validate c) then Deny InternalInvariantViolation
     else authorize_from_grants_with_trust now c d e (xc_grants c @ active_grants_for_context now c m) trust)"

definition authorize_spawn_with_trust ::
    "timestamp \<Rightarrow> lease_store \<Rightarrow> execution_context \<Rightarrow> capability_descriptor \<Rightarrow> resource_estimate \<Rightarrow> trust_decision \<Rightarrow> decision" where
  "authorize_spawn_with_trust now m c d e trust =
    (if \<not> is_ok (context_validate c) then Deny InternalInvariantViolation
     else authorize_from_grants_with_trust now c (spawn_descriptor d) e
            (xc_grants c @ active_grants_for_context now c m) trust)"

definition authorize_dispatch ::
    "timestamp \<Rightarrow> lease_store \<Rightarrow> execution_context \<Rightarrow> capability_descriptor \<Rightarrow> resource_estimate \<Rightarrow> decision" where
  "authorize_dispatch now m c d e =
    (if \<not> is_ok (context_validate c) then Deny InternalInvariantViolation
     else authorize_from_grants now c d e (xc_grants c @ active_grants_for_context now c m))"

definition authorize_spawn ::
    "timestamp \<Rightarrow> lease_store \<Rightarrow> execution_context \<Rightarrow> capability_descriptor \<Rightarrow> resource_estimate \<Rightarrow> decision" where
  "authorize_spawn now m c d e =
    (if \<not> is_ok (context_validate c) then Deny InternalInvariantViolation
     else authorize_from_grants now c (spawn_descriptor d) e (xc_grants c @ active_grants_for_context now c m))"

section \<open>The grant authorizer\<close>

text \<open>\<^verbatim>\<open>GrantAuthorizer\<close> uses the grants of the context only.\<close>

definition grant_authorize_dispatch ::
    "timestamp \<Rightarrow> execution_context \<Rightarrow> capability_descriptor \<Rightarrow> resource_estimate \<Rightarrow> decision" where
  "grant_authorize_dispatch now c d e = authorize_from_grants now c d e (xc_grants c)"

definition grant_authorize_spawn ::
    "timestamp \<Rightarrow> execution_context \<Rightarrow> capability_descriptor \<Rightarrow> resource_estimate \<Rightarrow> decision" where
  "grant_authorize_spawn now c d e = authorize_from_grants now c (spawn_descriptor d) e (xc_grants c)"

definition grant_authorize_dispatch_with_trust ::
    "timestamp \<Rightarrow> execution_context \<Rightarrow> capability_descriptor \<Rightarrow> resource_estimate \<Rightarrow> trust_decision \<Rightarrow> decision" where
  "grant_authorize_dispatch_with_trust now c d e trust = authorize_from_grants_with_trust now c d e (xc_grants c) trust"

definition grant_authorize_spawn_with_trust ::
    "timestamp \<Rightarrow> execution_context \<Rightarrow> capability_descriptor \<Rightarrow> resource_estimate \<Rightarrow> trust_decision \<Rightarrow> decision" where
  "grant_authorize_spawn_with_trust now c d e trust =
    authorize_from_grants_with_trust now c (spawn_descriptor d) e (xc_grants c) trust"

end
