(* ===== verification/Invocation_State.thy ===== *)
theory Invocation_State
  imports Host_Authority
begin

text \<open>
  Invocation state and approval requests: \<^verbatim>\<open>ironclaw_run_state/src/lib.rs\<close>, with its in-memory
  stores. A run record says what an invocation is waiting on; an approval record holds a request
  and whether it has been decided. Both are keyed by the owner fields of a scope and an id.
\<close>

datatype run_status = StRunning | StBlockedApproval | StBlockedAuth | StCompleted | StFailed

record run_record_entry =
  rre_invocation_id :: invocation_id
  rre_capability_id :: capability_id
  rre_scope :: resource_scope
  rre_status :: run_status
  rre_approval_request_id :: "approval_request_id option"
  rre_error_kind :: "string option"

record run_start =
  rst_start_invocation_id :: invocation_id
  rst_start_capability_id :: capability_id
  rst_start_scope :: resource_scope

datatype approval_status = ApPending | ApApproved | ApDenied | ApExpired

record approval_record =
  apc_scope :: resource_scope
  apc_request :: approval_request
  apc_status :: approval_status

record scope_owner =
  so_tenant_id :: string
  so_user_id :: string
  so_agent_id :: "string option"
  so_project_id :: "string option"
  so_mission_id :: "string option"
  so_thread_id :: "string option"

definition owner_of :: "resource_scope \<Rightarrow> scope_owner" where
  "owner_of s = \<lparr>so_tenant_id = rsc_tenant_id s, so_user_id = rsc_user_id s, so_agent_id = rsc_agent_id s,
     so_project_id = rsc_project_id s, so_mission_id = rsc_mission_id s, so_thread_id = rsc_thread_id s\<rparr>"

text \<open>\<^verbatim>\<open>RunStateKey\<close> and \<^verbatim>\<open>ApprovalKey\<close> hold the owner fields and an id.\<close>

type_synonym run_state_key = "scope_owner \<times> invocation_id"
type_synonym approval_key = "scope_owner \<times> approval_request_id"

datatype run_state_error =
    UnknownInvocation invocation_id
  | InvocationAlreadyExists invocation_id
  | UnknownApprovalRequest approval_request_id
  | ApprovalRequestAlreadyExists approval_request_id
  | ApprovalNotPending approval_request_id approval_status
  | RsInvalidPath string
  | RsFilesystem string
  | RsSerialization string
  | RsDeserialization string
  | RsBackend string

section \<open>The in-memory run-state store\<close>

type_synonym run_state_store = "(run_state_key, run_record_entry) hmap"

definition run_start_op ::
    "run_start \<Rightarrow> run_state_store \<Rightarrow> (run_state_error + run_record_entry) \<times> run_state_store" where
  "run_start_op s m =
    (let r = \<lparr>rre_invocation_id = rst_start_invocation_id s, rre_capability_id = rst_start_capability_id s,
              rre_scope = rst_start_scope s, rre_status = StRunning, rre_approval_request_id = None,
              rre_error_kind = None\<rparr>;
         key = (owner_of (rre_scope r), rre_invocation_id r) in
     if hm_contains_key key m then (Err (InvocationAlreadyExists (rre_invocation_id r)), m)
     else (Ok r, hm_insert key r m))"

definition run_update ::
    "(run_record_entry \<Rightarrow> run_record_entry) \<Rightarrow> resource_scope \<Rightarrow> invocation_id \<Rightarrow> run_state_store
      \<Rightarrow> (run_state_error + run_record_entry) \<times> run_state_store" where
  "run_update f scope i m =
    (case hm_get m (owner_of scope, i) of
       None \<Rightarrow> (Err (UnknownInvocation i), m)
     | Some r \<Rightarrow> (Ok (f r), hm_insert (owner_of scope, i) (f r) m))"

definition run_block_approval ::
    "resource_scope \<Rightarrow> invocation_id \<Rightarrow> approval_request \<Rightarrow> run_state_store
      \<Rightarrow> (run_state_error + run_record_entry) \<times> run_state_store" where
  "run_block_approval scope i q = run_update (\<lambda>r. r\<lparr>rre_status := StBlockedApproval,
     rre_approval_request_id := Some (apr_id q), rre_error_kind := None\<rparr>) scope i"

definition run_block_auth ::
    "resource_scope \<Rightarrow> invocation_id \<Rightarrow> string \<Rightarrow> run_state_store
      \<Rightarrow> (run_state_error + run_record_entry) \<times> run_state_store" where
  "run_block_auth scope i err = run_update (\<lambda>r. r\<lparr>rre_status := StBlockedAuth,
     rre_approval_request_id := None, rre_error_kind := Some err\<rparr>) scope i"

definition run_complete ::
    "resource_scope \<Rightarrow> invocation_id \<Rightarrow> run_state_store \<Rightarrow> (run_state_error + run_record_entry) \<times> run_state_store" where
  "run_complete scope i = run_update (\<lambda>r. r\<lparr>rre_status := StCompleted,
     rre_approval_request_id := None, rre_error_kind := None\<rparr>) scope i"

definition run_fail ::
    "resource_scope \<Rightarrow> invocation_id \<Rightarrow> string \<Rightarrow> run_state_store
      \<Rightarrow> (run_state_error + run_record_entry) \<times> run_state_store" where
  "run_fail scope i err = run_update (\<lambda>r. r\<lparr>rre_status := StFailed,
     rre_approval_request_id := None, rre_error_kind := Some err\<rparr>) scope i"

definition run_get :: "resource_scope \<Rightarrow> invocation_id \<Rightarrow> run_state_store \<Rightarrow> run_state_error + run_record_entry option" where
  "run_get scope i m = Ok (hm_get m (owner_of scope, i))"

definition run_records_for_scope :: "resource_scope \<Rightarrow> run_state_store \<Rightarrow> run_record_entry list" where
  "run_records_for_scope scope m =
    sort_key rre_invocation_id (filter (\<lambda>r. owner_of (rre_scope r) = owner_of scope) (hm_values m))"

section \<open>The in-memory approval request store\<close>

type_synonym approval_store = "(approval_key, approval_record) hmap"

definition approval_save_pending ::
    "resource_scope \<Rightarrow> approval_request \<Rightarrow> approval_store \<Rightarrow> (run_state_error + approval_record) \<times> approval_store" where
  "approval_save_pending scope q m =
    (let r = \<lparr>apc_scope = scope, apc_request = q, apc_status = ApPending\<rparr>;
         key = (owner_of scope, apr_id q) in
     if hm_contains_key key m then (Err (ApprovalRequestAlreadyExists (apr_id q)), m)
     else (Ok r, hm_insert key r m))"

definition approval_get ::
    "resource_scope \<Rightarrow> approval_request_id \<Rightarrow> approval_store \<Rightarrow> run_state_error + approval_record option" where
  "approval_get scope i m = Ok (hm_get m (owner_of scope, i))"

definition update_status ::
    "approval_status \<Rightarrow> resource_scope \<Rightarrow> approval_request_id \<Rightarrow> approval_store
      \<Rightarrow> (run_state_error + approval_record) \<times> approval_store" where
  "update_status st scope i m =
    (case hm_get m (owner_of scope, i) of
       None \<Rightarrow> (Err (UnknownApprovalRequest i), m)
     | Some r \<Rightarrow>
        if apc_status r \<noteq> ApPending then (Err (ApprovalNotPending i (apc_status r)), m)
        else (Ok (r\<lparr>apc_status := st\<rparr>), hm_insert (owner_of scope, i) (r\<lparr>apc_status := st\<rparr>) m))"

definition approval_approve ::
    "resource_scope \<Rightarrow> approval_request_id \<Rightarrow> approval_store \<Rightarrow> (run_state_error + approval_record) \<times> approval_store" where
  "approval_approve = update_status ApApproved"

definition approval_deny ::
    "resource_scope \<Rightarrow> approval_request_id \<Rightarrow> approval_store \<Rightarrow> (run_state_error + approval_record) \<times> approval_store" where
  "approval_deny = update_status ApDenied"

definition approval_discard_pending ::
    "resource_scope \<Rightarrow> approval_request_id \<Rightarrow> approval_store \<Rightarrow> (run_state_error + approval_record) \<times> approval_store" where
  "approval_discard_pending scope i m =
    (case hm_get m (owner_of scope, i) of
       None \<Rightarrow> (Err (UnknownApprovalRequest i), m)
     | Some r \<Rightarrow>
        if apc_status r \<noteq> ApPending then (Err (ApprovalNotPending i (apc_status r)), m)
        else (Ok r, hm_remove (owner_of scope, i) m))"

definition approval_records_for_scope :: "resource_scope \<Rightarrow> approval_store \<Rightarrow> approval_record list" where
  "approval_records_for_scope scope m =
    sort_key (\<lambda>r. apr_id (apc_request r))
      (filter (\<lambda>r. owner_of (apc_scope r) = owner_of scope) (hm_values m))"

end
