(* ===== verification/Host_Audit.thy ===== *)
theory Host_Audit
  imports Host_Authority
begin

text \<open>
  Audit envelopes: \<^verbatim>\<open>ironclaw_host_api/src/audit.rs\<close>. An envelope carries the scope, a summary of the
  action and of the decision. A fresh event id, the clock and the text form of a UUID (from the
  \<^verbatim>\<open>uuid\<close> crate) are read from an environment record.
\<close>

record audit_env =
  aue_event_id :: uuid
  aue_now :: timestamp
  aue_uuid_str :: "uuid \<Rightarrow> string"

datatype audit_stage =
    StageBefore | StageAfter | StageDenied | StageApprovalRequested | StageApprovalResolved
  | StageResourceReserved | StageResourceReconciled | StageResourceReleased

datatype approval_decision_kind = DecisionApproved | DecisionDenied

definition as_wire_str :: "approval_decision_kind \<Rightarrow> string" where
  "as_wire_str k = (case k of DecisionApproved \<Rightarrow> ''approved'' | DecisionDenied \<Rightarrow> ''denied'')"

record action_summary =
  asm_kind :: string
  asm_target :: "string option"
  asm_effects :: "effect_kind list"

definition secret_use_mode_str :: "secret_use_mode \<Rightarrow> string" where
  "secret_use_mode_str m =
    (case m of
       InjectIntoRequest \<Rightarrow> ''inject_into_request''
     | InjectIntoEnvironment \<Rightarrow> ''inject_into_environment''
     | ReadRaw \<Rightarrow> ''read_raw'')"

definition network_method_str :: "network_method \<Rightarrow> string" where
  "network_method_str m =
    (case m of
       MGet \<Rightarrow> ''get'' | MPost \<Rightarrow> ''post'' | MPut \<Rightarrow> ''put'' | MPatch \<Rightarrow> ''patch'' | MDelete \<Rightarrow> ''delete''
     | MHead \<Rightarrow> ''head'')"

definition lifecycle_operation_str :: "extension_lifecycle_operation \<Rightarrow> string" where
  "lifecycle_operation_str m =
    (case m of
       OpInstall \<Rightarrow> ''install'' | OpUpdate \<Rightarrow> ''update'' | OpRemove \<Rightarrow> ''remove'' | OpEnable \<Rightarrow> ''enable''
     | OpDisable \<Rightarrow> ''disable'')"

definition network_target_str :: "network_method \<Rightarrow> string \<Rightarrow> u16 option \<Rightarrow> string" where
  "network_target_str m host port =
    (case port of
       Some p \<Rightarrow> network_method_str m @ '':'' @ host @ '':'' @ show_nat (unat p)
     | None \<Rightarrow> network_method_str m @ '':'' @ host)"

definition secret_target :: "string \<Rightarrow> secret_use_mode \<Rightarrow> string" where
  "secret_target handle m = handle @ '':'' @ secret_use_mode_str m"

definition action_summary_new :: "string \<Rightarrow> string option \<Rightarrow> effect_kind list \<Rightarrow> action_summary" where
  "action_summary_new kind target effs = \<lparr>asm_kind = kind, asm_target = target, asm_effects = effs\<rparr>"

fun from_action :: "(uuid \<Rightarrow> string) \<Rightarrow> action \<Rightarrow> action_summary" where
  "from_action ustr (ActReadFile path) = action_summary_new ''read_file'' (Some path) [ReadFilesystem]"
| "from_action ustr (ActListDir path) = action_summary_new ''list_dir'' (Some path) [ReadFilesystem]"
| "from_action ustr (ActWriteFile path _) = action_summary_new ''write_file'' (Some path) [WriteFilesystem]"
| "from_action ustr (ActDeleteFile path) = action_summary_new ''delete_file'' (Some path) [DeleteFilesystem]"
| "from_action ustr (ActDispatch c _) = action_summary_new ''dispatch'' (Some c) [DispatchCapability]"
| "from_action ustr (ActSpawnCapability c _) =
    action_summary_new ''spawn_capability'' (Some c) [DispatchCapability, SpawnProcess]"
| "from_action ustr (ActUseSecret handle m) = action_summary_new ''use_secret'' (Some (secret_target handle m)) [EffUseSecret]"
| "from_action ustr (ActNetwork target m _) =
    action_summary_new ''network'' (Some (network_target_str m (nt_host target) (nt_port target))) [EffNetwork]"
| "from_action ustr (ActReserveResources _) = action_summary_new ''reserve_resources'' None [ModifyBudget]"
| "from_action ustr (ActApprove q) = action_summary_new ''approve'' (Some (ustr (apr_id q))) [ModifyApproval]"
| "from_action ustr (ActExtensionLifecycle e operation) =
    action_summary_new ''extension_lifecycle'' (Some (e @ '':'' @ lifecycle_operation_str operation)) [ModifyExtension]"
| "from_action ustr (ActEmitExternalEffect e) = action_summary_new ''emit_external_effect'' None [e]"

record decision_summary =
  dsm_kind :: string
  dsm_reason :: "deny_reason option"
  dsm_actor :: "principal option"

record action_result_summary =
  ars_success :: bool
  ars_status :: "string option"
  ars_output_bytes :: "u64 option"

record audit_envelope =
  aud_event_id :: uuid
  aud_correlation_id :: uuid
  aud_stage :: audit_stage
  aud_timestamp :: timestamp
  aud_tenant_id :: string
  aud_user_id :: string
  aud_agent_id :: "string option"
  aud_project_id :: "string option"
  aud_mission_id :: "string option"
  aud_thread_id :: "string option"
  aud_invocation_id :: invocation_id
  aud_process_id :: "uuid option"
  aud_approval_request_id :: "approval_request_id option"
  aud_extension_id :: "extension_id option"
  aud_action :: action_summary
  aud_decision :: decision_summary
  aud_result :: "action_result_summary option"

definition extension_from_principal :: "principal \<Rightarrow> extension_id option" where
  "extension_from_principal p = (case p of PrExtension e \<Rightarrow> Some e | _ \<Rightarrow> None)"

definition denied_envelope ::
    "audit_env \<Rightarrow> execution_context \<Rightarrow> audit_stage \<Rightarrow> action_summary \<Rightarrow> deny_reason \<Rightarrow> audit_envelope" where
  "denied_envelope ae c stage act reason =
    \<lparr>aud_event_id = aue_event_id ae, aud_correlation_id = xc_correlation_id c, aud_stage = stage,
     aud_timestamp = aue_now ae, aud_tenant_id = xc_tenant_id c, aud_user_id = xc_user_id c,
     aud_agent_id = xc_agent_id c, aud_project_id = xc_project_id c, aud_mission_id = xc_mission_id c,
     aud_thread_id = xc_thread_id c, aud_invocation_id = xc_invocation_id c, aud_process_id = xc_process_id c,
     aud_approval_request_id = None, aud_extension_id = Some (xc_extension_id c), aud_action = act,
     aud_decision = \<lparr>dsm_kind = ''deny'', dsm_reason = Some reason, dsm_actor = None\<rparr>, aud_result = None\<rparr>"

definition approval_resolved ::
    "audit_env \<Rightarrow> resource_scope \<Rightarrow> approval_request \<Rightarrow> principal \<Rightarrow> approval_decision_kind \<Rightarrow> audit_envelope" where
  "approval_resolved ae scope q resolved_by dec =
    \<lparr>aud_event_id = aue_event_id ae, aud_correlation_id = apr_correlation_id q, aud_stage = StageApprovalResolved,
     aud_timestamp = aue_now ae, aud_tenant_id = rsc_tenant_id scope, aud_user_id = rsc_user_id scope,
     aud_agent_id = rsc_agent_id scope, aud_project_id = rsc_project_id scope, aud_mission_id = rsc_mission_id scope,
     aud_thread_id = rsc_thread_id scope, aud_invocation_id = rsc_invocation_id scope, aud_process_id = None,
     aud_approval_request_id = Some (apr_id q), aud_extension_id = extension_from_principal (apr_requested_by q),
     aud_action = from_action (aue_uuid_str ae) (apr_action q),
     aud_decision = \<lparr>dsm_kind = as_wire_str dec, dsm_reason = None, dsm_actor = Some resolved_by\<rparr>, aud_result = None\<rparr>"

end
