(* ===== verification/Approval_Resolver.thy ===== *)
theory Approval_Resolver
  imports Capability_Lease Invocation_State Host_Audit
begin

text \<open>
  Resolving approvals: \<^verbatim>\<open>ironclaw_approvals/src/lib.rs\<close>. The resolver is generic in its two stores: the
  operations it calls are records of functions on states of type \<open>'a\<close> and \<open>'l\<close>. A fresh grant id is an
  argument. The audit sink is optional and its answer is ignored by the source; the model keeps
  the list of the envelopes it was given.
\<close>

datatype approved_capability_action = ApproveDispatch | ApproveSpawn

definition capability_for_action :: "action \<Rightarrow> approved_capability_action \<Rightarrow> capability_id option" where
  "capability_for_action act expected =
    (case (expected, act) of
       (ApproveDispatch, ActDispatch c _) \<Rightarrow> Some c
     | (ApproveSpawn, ActSpawnCapability c _) \<Rightarrow> Some c
     | _ \<Rightarrow> None)"

record lease_approval =
  la_issued_by :: principal
  la_allowed_effects :: "effect_kind list"
  la_mounts :: mount_view
  la_network :: network_policy
  la_secrets :: "secret_handle list"
  la_resource_ceiling :: "resource_ceiling option"
  la_expires_at :: "timestamp option"
  la_max_invocations :: "u64 option"

datatype approval_resolution_error =
    ResRunState run_state_error
  | NotPending approval_status
  | NotApproved approval_status
  | MissingInvocationFingerprint
  | UnsupportedAction
  | ResLease capability_lease_error

section \<open>The stores the resolver calls\<close>

record 'a approval_ops =
  ao_get :: "resource_scope \<Rightarrow> approval_request_id \<Rightarrow> 'a \<Rightarrow> run_state_error + approval_record option"
  ao_approve :: "resource_scope \<Rightarrow> approval_request_id \<Rightarrow> 'a \<Rightarrow> (run_state_error + approval_record) \<times> 'a"
  ao_deny :: "resource_scope \<Rightarrow> approval_request_id \<Rightarrow> 'a \<Rightarrow> (run_state_error + approval_record) \<times> 'a"

type_synonym 'l issue_op = "capability_lease \<Rightarrow> 'l \<Rightarrow> (capability_lease_error + capability_lease) \<times> 'l"

record ('a, 'l) resolver_state =
  res_approvals :: 'a
  res_leases :: 'l
  res_audit :: "audit_envelope list option"

definition emit_audit_best_effort :: "audit_envelope \<Rightarrow> ('a, 'l) resolver_state \<Rightarrow> ('a, 'l) resolver_state" where
  "emit_audit_best_effort e s = s\<lparr>res_audit := map_option (\<lambda>es. es @ [e]) (res_audit s)\<rparr>"

definition emit_approval_resolved ::
    "audit_env \<Rightarrow> resource_scope \<Rightarrow> approval_request \<Rightarrow> principal \<Rightarrow> approval_decision_kind
      \<Rightarrow> ('a, 'l) resolver_state \<Rightarrow> ('a, 'l) resolver_state" where
  "emit_approval_resolved ae scope q resolved_by dec = emit_audit_best_effort (approval_resolved ae scope q resolved_by dec)"

section \<open>Operations\<close>

definition approved_grant ::
    "capability_grant_id \<Rightarrow> approval_record \<Rightarrow> capability_id \<Rightarrow> lease_approval \<Rightarrow> capability_grant" where
  "approved_grant fresh r capability a =
    \<lparr>cg_id = fresh, cg_capability = capability, cg_grantee = apr_requested_by (apc_request r),
     cg_issued_by = la_issued_by a,
     cg_constraints = \<lparr>gc_allowed_effects = la_allowed_effects a, gc_mounts = la_mounts a, gc_network = la_network a,
       gc_secrets = la_secrets a, gc_resource_ceiling = la_resource_ceiling a, gc_expires_at = la_expires_at a,
       gc_max_invocations = la_max_invocations a\<rparr>\<rparr>"

definition issue_lease_for_approved ::
    "audit_env \<Rightarrow> 'l issue_op \<Rightarrow> capability_grant_id \<Rightarrow> approval_record \<Rightarrow> capability_id \<Rightarrow> lease_approval \<Rightarrow> invocation_fingerprint
      \<Rightarrow> ('a, 'l) resolver_state \<Rightarrow> (approval_resolution_error + capability_lease) \<times> ('a, 'l) resolver_state" where
  "issue_lease_for_approved ae issue fresh r capability a fp s =
    (let lease = (capability_lease_new (apc_scope r) (approved_grant fresh r capability a))
           \<lparr>cl_invocation_fingerprint := Some fp\<rparr> in
     case issue lease (res_leases s) of
       (Err e, l) \<Rightarrow> (Err (ResLease e), s\<lparr>res_leases := l\<rparr>)
     | (Ok lease, l) \<Rightarrow> (Ok lease, emit_approval_resolved ae (apc_scope r) (apc_request r) (la_issued_by a)
         DecisionApproved (s\<lparr>res_leases := l\<rparr>)))"

text \<open>The checks both entry points make on the request's action.\<close>

definition approvable ::
    "approval_record \<Rightarrow> approved_capability_action \<Rightarrow> approval_resolution_error + capability_id \<times> invocation_fingerprint" where
  "approvable r expected =
    (case capability_for_action (apr_action (apc_request r)) expected of
       None \<Rightarrow> Err UnsupportedAction
     | Some capability \<Rightarrow>
        (case apr_invocation_fingerprint (apc_request r) of
           None \<Rightarrow> Err MissingInvocationFingerprint
         | Some fp \<Rightarrow> Ok (capability, fp)))"

definition approve_capability_action ::
    "audit_env \<Rightarrow> 'a approval_ops \<Rightarrow> 'l issue_op \<Rightarrow> capability_grant_id \<Rightarrow> resource_scope \<Rightarrow> approval_request_id \<Rightarrow> lease_approval
      \<Rightarrow> approved_capability_action \<Rightarrow> ('a, 'l) resolver_state
      \<Rightarrow> (approval_resolution_error + capability_lease) \<times> ('a, 'l) resolver_state" where
  "approve_capability_action ae ops issue fresh scope i a expected s =
    (case ao_get ops scope i (res_approvals s) of
       Err e \<Rightarrow> (Err (ResRunState e), s)
     | Ok None \<Rightarrow> (Err (ResRunState (UnknownApprovalRequest i)), s)
     | Ok (Some r) \<Rightarrow>
        if apc_status r \<noteq> ApPending then (Err (NotPending (apc_status r)), s)
        else case approvable r expected of
            Err e \<Rightarrow> (Err e, s)
          | Ok (capability, fp) \<Rightarrow>
             (case ao_approve ops scope i (res_approvals s) of
                (Err (ApprovalNotPending _ st), ap) \<Rightarrow> (Err (NotPending st), s\<lparr>res_approvals := ap\<rparr>)
              | (Err e, ap) \<Rightarrow> (Err (ResRunState e), s\<lparr>res_approvals := ap\<rparr>)
              | (Ok approved, ap) \<Rightarrow>
                  issue_lease_for_approved ae issue fresh approved capability a fp (s\<lparr>res_approvals := ap\<rparr>)))"

definition retry_lease_issue_for_action ::
    "audit_env \<Rightarrow> 'a approval_ops \<Rightarrow> 'l issue_op \<Rightarrow> capability_grant_id \<Rightarrow> resource_scope \<Rightarrow> approval_request_id \<Rightarrow> lease_approval
      \<Rightarrow> approved_capability_action \<Rightarrow> ('a, 'l) resolver_state
      \<Rightarrow> (approval_resolution_error + capability_lease) \<times> ('a, 'l) resolver_state" where
  "retry_lease_issue_for_action ae ops issue fresh scope i a expected s =
    (case ao_get ops scope i (res_approvals s) of
       Err e \<Rightarrow> (Err (ResRunState e), s)
     | Ok None \<Rightarrow> (Err (ResRunState (UnknownApprovalRequest i)), s)
     | Ok (Some r) \<Rightarrow>
        if apc_status r \<noteq> ApApproved then (Err (NotApproved (apc_status r)), s)
        else case approvable r expected of
            Err e \<Rightarrow> (Err e, s)
          | Ok (capability, fp) \<Rightarrow> issue_lease_for_approved ae issue fresh r capability a fp s)"

definition approve_dispatch ::
    "audit_env \<Rightarrow> 'a approval_ops \<Rightarrow> 'l issue_op \<Rightarrow> capability_grant_id \<Rightarrow> resource_scope \<Rightarrow> approval_request_id
      \<Rightarrow> lease_approval \<Rightarrow> ('a, 'l) resolver_state
      \<Rightarrow> (approval_resolution_error + capability_lease) \<times> ('a, 'l) resolver_state" where
  "approve_dispatch ae ops issue fresh scope i a = approve_capability_action ae ops issue fresh scope i a ApproveDispatch"

definition approve_spawn ::
    "audit_env \<Rightarrow> 'a approval_ops \<Rightarrow> 'l issue_op \<Rightarrow> capability_grant_id \<Rightarrow> resource_scope \<Rightarrow> approval_request_id
      \<Rightarrow> lease_approval \<Rightarrow> ('a, 'l) resolver_state
      \<Rightarrow> (approval_resolution_error + capability_lease) \<times> ('a, 'l) resolver_state" where
  "approve_spawn ae ops issue fresh scope i a = approve_capability_action ae ops issue fresh scope i a ApproveSpawn"

definition retry_lease_issue_for_dispatch ::
    "audit_env \<Rightarrow> 'a approval_ops \<Rightarrow> 'l issue_op \<Rightarrow> capability_grant_id \<Rightarrow> resource_scope \<Rightarrow> approval_request_id
      \<Rightarrow> lease_approval \<Rightarrow> ('a, 'l) resolver_state
      \<Rightarrow> (approval_resolution_error + capability_lease) \<times> ('a, 'l) resolver_state" where
  "retry_lease_issue_for_dispatch ae ops issue fresh scope i a =
    retry_lease_issue_for_action ae ops issue fresh scope i a ApproveDispatch"

definition retry_lease_issue_for_spawn ::
    "audit_env \<Rightarrow> 'a approval_ops \<Rightarrow> 'l issue_op \<Rightarrow> capability_grant_id \<Rightarrow> resource_scope \<Rightarrow> approval_request_id
      \<Rightarrow> lease_approval \<Rightarrow> ('a, 'l) resolver_state
      \<Rightarrow> (approval_resolution_error + capability_lease) \<times> ('a, 'l) resolver_state" where
  "retry_lease_issue_for_spawn ae ops issue fresh scope i a =
    retry_lease_issue_for_action ae ops issue fresh scope i a ApproveSpawn"

definition resolver_deny ::
    "audit_env \<Rightarrow> 'a approval_ops \<Rightarrow> resource_scope \<Rightarrow> approval_request_id \<Rightarrow> principal \<Rightarrow> ('a, 'l) resolver_state
      \<Rightarrow> (approval_resolution_error + approval_record) \<times> ('a, 'l) resolver_state" where
  "resolver_deny ae ops scope i denied_by s =
    (case ao_get ops scope i (res_approvals s) of
       Err e \<Rightarrow> (Err (ResRunState e), s)
     | Ok None \<Rightarrow> (Err (ResRunState (UnknownApprovalRequest i)), s)
     | Ok (Some r) \<Rightarrow>
        if apc_status r \<noteq> ApPending then (Err (NotPending (apc_status r)), s)
        else (case ao_deny ops scope i (res_approvals s) of
                (Err (ApprovalNotPending _ st), ap) \<Rightarrow> (Err (NotPending st), s\<lparr>res_approvals := ap\<rparr>)
              | (Err e, ap) \<Rightarrow> (Err (ResRunState e), s\<lparr>res_approvals := ap\<rparr>)
              | (Ok denied, ap) \<Rightarrow> (Ok denied, emit_approval_resolved ae (apc_scope denied) (apc_request denied)
                  denied_by DecisionDenied (s\<lparr>res_approvals := ap\<rparr>))))"

definition memory_approvals :: "approval_store approval_ops" where
  "memory_approvals = \<lparr>ao_get = approval_get, ao_approve = approval_approve, ao_deny = approval_deny\<rparr>"

end
