(* ===== verification/Host_Path_Safety.thy ===== *)
theory Host_Path_Safety
  imports Host_Path
begin

text \<open>
  Paths are canonical and resolution is contained: what the constructors of the three path types
  accept is a slash followed by segments that are neither empty nor dots, and joining the part of
  such a path below an alias to the mount's target never leaves the target.
\<close>

section \<open>Splitting and joining\<close>

lemma slash_is_slash [simp]: "is_slash CHR ''/''"
  by (simp add: is_slash_def)

lemma split_not_Nil [simp]: "split_on sep s \<noteq> []"
  by (cases s) (auto split: list.splits)

lemma split_no_sep: "t \<in> set (split_on sep s) \<Longrightarrow> c \<in> set t \<Longrightarrow> \<not> sep c"
  by (induction s arbitrary: t) (fastforce split: if_splits list.splits)+

lemma split_append_sep: "(\<And>c. c \<in> set x \<Longrightarrow> \<not> sep c) \<Longrightarrow> sep d \<Longrightarrow>
    split_on sep (x @ d # y) = x # split_on sep y"
  by (induction x) auto

lemma split_single: "(\<And>c. c \<in> set x \<Longrightarrow> \<not> sep c) \<Longrightarrow> split_on sep x = [x]"
  by (induction x) auto

lemma join_Cons: "ps \<noteq> [] \<Longrightarrow> join_slash (p # ps) = p @ ''/'' @ join_slash ps"
  by (cases ps) auto

lemma join_split: "join_slash (split_on is_slash s) = s"
proof (induction s)
  case (Cons c s)
  show ?case
  proof (cases "is_slash c")
    case True
    then show ?thesis using Cons by (simp add: join_Cons is_slash_def)
  next
    case False
    obtain t ts where "split_on is_slash s = t # ts" by (cases "split_on is_slash s") simp_all
    then show ?thesis using Cons False by (cases ts) simp_all
  qed
qed simp

definition slash_free :: "string \<Rightarrow> bool" where
  "slash_free t \<longleftrightarrow> CHR ''/'' \<notin> set t"

lemma split_slash_free: "t \<in> set (split_on is_slash s) \<Longrightarrow> slash_free t"
  using split_no_sep [of t is_slash s] by (auto simp: slash_free_def is_slash_def)

lemma split_join: "ps \<noteq> [] \<Longrightarrow> \<forall>t \<in> set ps. slash_free t \<Longrightarrow> split_on is_slash (join_slash ps) = ps"
proof (induction ps)
  case (Cons p ps)
  have p: "\<And>c. c \<in> set p \<Longrightarrow> \<not> is_slash c" using Cons.prems by (auto simp: slash_free_def is_slash_def)
  show ?case
  proof (cases "ps = []")
    case True
    then show ?thesis using split_single [OF p] by simp
  next
    case False
    then show ?thesis
      using Cons split_append_sep [where x = p and sep = is_slash and d = "CHR ''/''" and y = "join_slash ps"] p by (simp add: join_Cons)
  qed
qed simp

lemma control_append_slash: "contains_control (x @ CHR ''/'' # y) \<longleftrightarrow> contains_control x \<or> contains_control y"
  by (induction x) (auto simp: byte_def split: list.splits)

lemma control_join: "contains_control (join_slash ps) \<longleftrightarrow> (\<exists>p \<in> set ps. contains_control p)"
proof (induction ps)
  case (Cons p ps)
  then show ?case by (cases "ps = []") (simp_all add: join_Cons control_append_slash)
qed simp

lemma set_join: "c \<noteq> CHR ''/'' \<Longrightarrow> c \<in> set (join_slash ps) \<longleftrightarrow> (\<exists>p \<in> set ps. c \<in> set p)"
proof (induction ps)
  case (Cons p ps)
  then show ?case by (cases "ps = []") (simp_all add: join_Cons)
qed simp

section \<open>Canonical paths\<close>

definition segment_ok :: "string \<Rightarrow> bool" where
  "segment_ok t \<longleftrightarrow> slash_free t \<and> t \<notin> {[], ''.'', ''..''} \<and> \<not> contains_control t
    \<and> CHR 0x5C \<notin> set t \<and> CHR 0x00 \<notin> set t"

definition canonical :: "string \<Rightarrow> string list \<Rightarrow> bool" where
  "canonical p parts \<longleftrightarrow> parts \<noteq> [] \<and> (\<forall>t \<in> set parts. segment_ok t) \<and> p = ''/'' @ join_slash parts"

lemma collect_parts_Some:
  "collect_parts ts = Some parts \<longleftrightarrow> ''..'' \<notin> set ts \<and> parts = filter (\<lambda>t. t \<noteq> [] \<and> t \<noteq> ''.'') ts"
  by (induction ts arbitrary: parts) auto

lemma normalize_canonical:
  assumes "normalize_absolute_path raw kind = Ok p"
  shows "\<exists>parts. canonical p parts"
proof -
  let ?ts = "split_on is_slash raw"
  obtain parts where parts: "collect_parts ?ts = Some parts" "parts \<noteq> []" "p = ''/'' @ join_slash parts"
    and raw: "\<not> contains_control raw" "CHR 0x5C \<notin> set raw" "CHR 0x00 \<notin> set raw"
    using assms by (auto simp: normalize_absolute_path_def Let_def split: if_splits option.splits list.splits)
  have "segment_ok t" if "t \<in> set parts" for t
  proof -
    have t: "t \<in> set ?ts" "t \<notin> {[], ''.'', ''..''}" using that parts(1) by (auto simp: collect_parts_Some)
    have "\<not> contains_control t" using raw(1) t(1) control_join [of ?ts] unfolding join_split by blast
    moreover have "CHR 0x5C \<notin> set t" "CHR 0x00 \<notin> set t"
      using raw t(1) set_join [of "CHR 0x5C" ?ts] set_join [of "CHR 0x00" ?ts] unfolding join_split by auto
    ultimately show ?thesis using t split_slash_free by (auto simp: segment_ok_def)
  qed
  then show ?thesis using parts by (auto simp: canonical_def)
qed

lemma canonical_split:
  assumes "canonical p parts"
  shows "split_on is_slash p = [] # parts"
proof -
  have "split_on is_slash (join_slash parts) = parts"
    using assms by (intro split_join) (auto simp: canonical_def segment_ok_def)
  then show ?thesis using assms by (simp add: canonical_def)
qed

lemma last_join: "ps \<noteq> [] \<Longrightarrow> last ps \<noteq> [] \<Longrightarrow> join_slash ps \<noteq> [] \<and> last (join_slash ps) = last (last ps)"
proof (induction ps)
  case (Cons p ps)
  then show ?case by (cases "ps = []") (simp_all add: join_Cons)
qed simp

lemma canonical_last:
  assumes "canonical p parts"
  shows "p \<noteq> [] \<and> last p \<noteq> CHR ''/''"
proof -
  have ne: "parts \<noteq> []" and ok: "segment_ok (last parts)" and p: "p = ''/'' @ join_slash parts"
    using assms by (auto simp: canonical_def)
  then have l: "last parts \<noteq> []" "CHR ''/'' \<notin> set (last parts)" by (simp_all add: segment_ok_def slash_free_def)
  have "last (last parts) \<noteq> CHR ''/''" using l last_in_set [OF l(1)] by metis
  then show ?thesis using last_join [OF ne l(1)] by (simp add: p)
qed

lemma canonical_no_trailing: "canonical p parts \<Longrightarrow> \<not> suffix ''/'' p"
  using canonical_last [of p parts] by (auto simp: suffix_def)

lemma normalize_id:
  assumes "canonical p parts"
  shows "normalize_absolute_path p kind = Ok p"
proof -
  have collect: "collect_parts (split_on is_slash p) = Some parts"
    unfolding canonical_split [OF assms] collect_parts_Some
    using assms by (auto simp: canonical_def segment_ok_def filter_id_conv)
  have p: "p = ''/'' @ join_slash parts" and ok: "\<forall>t \<in> set parts. segment_ok t" and ne: "parts \<noteq> []"
    using assms by (auto simp: canonical_def)
  have "\<not> contains_control p" using ok control_append_slash [of "[]" "join_slash parts"]
    by (auto simp: p control_join segment_ok_def)
  moreover have "CHR 0x5C \<notin> set p" "CHR 0x00 \<notin> set p"
    using ok set_join [of "CHR 0x5C" parts] set_join [of "CHR 0x00" parts] by (auto simp: p segment_ok_def)
  moreover obtain t ts where "parts = t # ts" using ne by (cases parts) auto
  ultimately show ?thesis
    using collect canonical_no_trailing [OF assms]
    by (simp add: normalize_absolute_path_def Let_def p)
qed

section \<open>Aliases\<close>

lemma join_append: "ps \<noteq> [] \<Longrightarrow> qs \<noteq> [] \<Longrightarrow> join_slash (ps @ qs) = join_slash ps @ ''/'' @ join_slash qs"
proof (induction ps)
  case (Cons p ps)
  then show ?case by (cases "ps = []") (simp_all add: join_Cons)
qed simp

lemma canonical_extend:
  assumes "canonical t ts" "\<forall>x \<in> set rest. segment_ok x" "rest \<noteq> []"
  shows "canonical (t @ ''/'' @ join_slash rest) (ts @ rest)"
  using assms by (auto simp: canonical_def join_append)

lemma canonical_unique: "canonical p ps \<Longrightarrow> canonical p qs \<Longrightarrow> ps = qs"
  using canonical_split [of p ps] canonical_split [of p qs] by simp

text \<open>An alias matches a path exactly when its segments are the first segments of the path.\<close>

lemma alias_segments:
  assumes a: "canonical a as" and p: "canonical p ps" and m: "path_matches_alias a p"
  obtains rest where "ps = as @ rest" "p = a @ (if rest = [] then [] else ''/'' @ join_slash rest)"
    "\<forall>x \<in> set rest. segment_ok x"
proof (cases "p = a")
  case True
  then have "ps = as" using a p canonical_unique by blast
  then show ?thesis using that [of "[]"] True by simp
next
  case False
  then obtain y where y: "p = a @ CHR ''/'' # y" using m by (auto simp: path_matches_alias_def prefix_def)
  have as: "as \<noteq> []" "\<forall>t \<in> set as. slash_free t" "a = ''/'' @ join_slash as"
    using a by (auto simp: canonical_def segment_ok_def)
  let ?rest = "split_on is_slash y"
  have free: "\<forall>t \<in> set (as @ ?rest). slash_free t" using as(2) split_slash_free by auto
  have "join_slash (as @ ?rest) = join_slash as @ ''/'' @ y" using as(1) by (simp add: join_append join_split)
  then have eq: "p = ''/'' @ join_slash (as @ ?rest)" using y as(3) by simp
  have "split_on is_slash (join_slash (as @ ?rest)) = as @ ?rest" using split_join [OF _ free] as(1) by simp
  then have "split_on is_slash p = [] # as @ ?rest" unfolding eq by simp
  then have ps: "ps = as @ ?rest" using canonical_split [OF p] by simp
  moreover have "\<forall>x \<in> set ?rest. segment_ok x" using p unfolding ps by (simp add: canonical_def)
  ultimately show ?thesis using that [of ?rest] y by (simp add: join_split)
qed

lemma drop_slash_join:
  assumes "\<forall>x \<in> set rest. segment_ok x" "rest \<noteq> []"
  shows "dropWhile is_slash (join_slash rest) = join_slash rest" "join_slash rest \<noteq> []"
proof -
  obtain x xs where r: "rest = x # xs" using assms(2) by (cases rest) auto
  then have "x \<noteq> []" "CHR ''/'' \<notin> set x" using assms(1) by (auto simp: segment_ok_def slash_free_def)
  then obtain c y where x: "x = c # y" "c \<noteq> CHR ''/''" by (cases x) auto
  have "\<exists>z. join_slash rest = c # z" unfolding r x(1) by (cases xs) simp_all
  then show "dropWhile is_slash (join_slash rest) = join_slash rest" "join_slash rest \<noteq> []"
    using x(2) by (auto simp: is_slash_def)
qed

lemma trim_canonical:
  assumes "canonical p ps"
  shows "trim_end_slashes p = p"
proof -
  obtain c q where "rev p = c # q" "c \<noteq> CHR ''/''"
    using canonical_last [OF assms] by (cases p rule: rev_cases) auto
  then have "dropWhile is_slash (rev p) = rev p" by (simp add: is_slash_def)
  then show ?thesis by (simp add: trim_end_slashes_def)
qed

section \<open>Values of the path types\<close>

text \<open>What the constructors return. The types' fields are private, so that every value is of
  this form.\<close>

definition is_virtual_path :: "string \<Rightarrow> bool" where
  "is_virtual_path p \<longleftrightarrow> (\<exists>raw. virtual_path_new raw = Ok p)"

definition is_mount_alias :: "string \<Rightarrow> bool" where
  "is_mount_alias p \<longleftrightarrow> (\<exists>raw. mount_alias_new raw = Ok p)"

definition below_root :: "string \<Rightarrow> bool" where
  "below_root p \<longleftrightarrow> (\<exists>root \<in> set VIRTUAL_ROOTS. p = root \<or> prefix (root @ ''/'') p)"

lemma virtual_new_Ok:
  "virtual_path_new raw = Ok p \<longleftrightarrow> normalize_absolute_path raw VirtualKind = Ok p \<and> below_root p"
  by (cases "normalize_absolute_path raw VirtualKind") (auto simp: virtual_path_new_def below_root_def list_ex_iff)

lemma virtual_canonical: "is_virtual_path p \<Longrightarrow> \<exists>ps. canonical p ps"
  using normalize_canonical by (auto simp: is_virtual_path_def virtual_new_Ok)

lemma alias_canonical: "is_mount_alias p \<Longrightarrow> \<exists>ps. canonical p ps"
  using normalize_canonical by (auto simp: is_mount_alias_def mount_alias_new_def)

lemma scoped_canonical: "new_with_allowed_raw_host_aliases raw aliases = Ok p \<Longrightarrow> \<exists>ps. canonical p ps"
  using normalize_canonical by (auto simp: new_with_allowed_raw_host_aliases_def split: if_splits)

lemma below_root_append: "below_root p \<Longrightarrow> below_root (p @ ''/'' @ q)"
proof -
  assume "below_root p"
  then obtain root where r: "root \<in> set VIRTUAL_ROOTS" "p = root \<or> prefix (root @ ''/'') p" by (auto simp: below_root_def)
  then have "prefix (root @ ''/'') (p @ ''/'' @ q)" by (auto simp: prefix_def)
  then show ?thesis using r(1) by (auto simp: below_root_def)
qed

text \<open>Joining the rest of a path to a target succeeds and appends it.\<close>

lemma join_tail_below:
  assumes t: "is_virtual_path t" and rest: "\<forall>x \<in> set rest. segment_ok x" "rest \<noteq> []"
  shows "join_tail t (join_slash rest) = Ok (t @ ''/'' @ join_slash rest)"
proof -
  obtain ts where c: "canonical t ts" using virtual_canonical [OF t] by blast
  let ?p = "t @ ''/'' @ join_slash rest"
  have norm: "normalize_absolute_path ?p VirtualKind = Ok ?p"
    by (rule normalize_id [OF canonical_extend [OF c rest]])
  have "below_root ?p" using t below_root_append [of t "join_slash rest"] by (auto simp: is_virtual_path_def virtual_new_Ok)
  then show ?thesis
    using norm drop_slash_join(2) [OF rest] by (simp add: join_tail_def trim_canonical [OF c] virtual_new_Ok)
qed

section \<open>Resolution\<close>

lemma longest_alias_None [simp]: "longest_alias ms = None \<longleftrightarrow> ms = []"
  by (cases ms) (auto split: option.splits)

lemma longest_alias_Some:
  assumes "longest_alias ms = Some m"
  shows "m \<in> set ms" "\<And>m'. m' \<in> set ms \<Longrightarrow> length (mg_alias m') \<le> length (mg_alias m)"
proof -
  have "m \<in> set ms \<and> (\<forall>m' \<in> set ms. length (mg_alias m') \<le> length (mg_alias m))"
    using assms by (induction ms arbitrary: m) (fastforce split: option.splits if_splits)+
  then show "m \<in> set ms" "\<And>m'. m' \<in> set ms \<Longrightarrow> length (mg_alias m') \<le> length (mg_alias m)" by auto
qed

lemma resolve_match:
  assumes "\<forall>m \<in> set view. is_mount_alias (mg_alias m) \<and> is_virtual_path (mg_target m)" "canonical p ps"
    and "longest_alias (filter (\<lambda>m. path_matches_alias (mg_alias m) p) view) = Some m"
  obtains rest where "p = mg_alias m @ rest" "rest = [] \<or> prefix ''/'' rest"
    "resolve_with_grant view p = Ok (mg_target m @ rest, m)"
    "''..'' \<notin> set (split_on is_slash (mg_target m @ rest))"
proof -
  have m: "m \<in> set view" "path_matches_alias (mg_alias m) p" using longest_alias_Some(1) [OF assms(3)] by auto
  obtain as where a: "canonical (mg_alias m) as" using assms(1) m(1) alias_canonical by blast
  have t: "is_virtual_path (mg_target m)" using assms(1) m(1) by blast
  then obtain ts where ts: "canonical (mg_target m) ts" using virtual_canonical by blast
  obtain rest where rest: "p = mg_alias m @ (if rest = [] then [] else ''/'' @ join_slash rest)" "\<forall>x \<in> set rest. segment_ok x"
    by (rule alias_segments [OF a assms(2) m(2)]) blast
  show ?thesis
  proof (cases "rest = []")
    case True
    then have "resolve_with_grant view p = Ok (mg_target m, m)"
      using rest assms(3) by (simp add: resolve_with_grant_def strip_prefix_def join_tail_def)
    then show ?thesis
      using that [of "[]"] True rest ts canonical_split [OF ts] by (auto simp: canonical_def segment_ok_def)
  next
    case False
    have c: "canonical (mg_target m @ ''/'' @ join_slash rest) (ts @ rest)" by (rule canonical_extend [OF ts rest(2) False])
    have "resolve_with_grant view p = Ok (mg_target m @ ''/'' @ join_slash rest, m)"
      using rest False assms(3) drop_slash_join(1) [OF rest(2) False] join_tail_below [OF t rest(2) False]
      by (simp add: resolve_with_grant_def strip_prefix_def)
    then show ?thesis
      using that [of "''/'' @ join_slash rest"] False rest canonical_split [OF c] c by (auto simp: canonical_def segment_ok_def)
  qed
qed

text \<open>C39. Resolving a path of an extension stays inside the mount. In a view whose aliases and targets are
  values of their types, a path that was parsed against the view resolves exactly when some alias
  is the path or a directory above it; then the mount with the longest such alias is used, and the
  result is its target with the rest of the path appended, free of dot-dot segments. Resolution
  has no other way to fail.\<close>

theorem resolution_stays_in_mount:
  assumes "\<forall>m \<in> set view. is_mount_alias (mg_alias m) \<and> is_virtual_path (mg_target m)"
    and "mount_scoped_path view raw = Ok p"
  shows "case resolve_with_grant view p of
      Ok (q, m) \<Rightarrow> m \<in> set view \<and> path_matches_alias (mg_alias m) p
        \<and> (\<forall>m' \<in> set view. path_matches_alias (mg_alias m') p \<longrightarrow> length (mg_alias m') \<le> length (mg_alias m))
        \<and> (\<exists>rest. p = mg_alias m @ rest \<and> q = mg_target m @ rest \<and> (rest = [] \<or> prefix ''/'' rest))
        \<and> ''..'' \<notin> set (split_on is_slash q)
    | Err e \<Rightarrow> \<forall>m \<in> set view. \<not> path_matches_alias (mg_alias m) p"
proof (cases "longest_alias (filter (\<lambda>m. path_matches_alias (mg_alias m) p) view)")
  case None
  then show ?thesis by (auto simp: resolve_with_grant_def filter_empty_conv)
next
  case (Some m)
  obtain ps where "canonical p ps" using scoped_canonical [OF assms(2) [unfolded mount_scoped_path_def]] by blast
  from resolve_match [OF assms(1) this Some] obtain rest where "p = mg_alias m @ rest" "rest = [] \<or> prefix ''/'' rest"
    "resolve_with_grant view p = Ok (mg_target m @ rest, m)" "''..'' \<notin> set (split_on is_slash (mg_target m @ rest))" .
  then show ?thesis using longest_alias_Some [OF Some] by auto
qed

theorem resolution_stays_in_mount_witness:
  "\<exists>view raw p. mount_scoped_path view raw = Ok p \<and> raw = ''/workspace/./src//a.rs''
    \<and> resolve_with_grant view p = Ok (''/projects/p1/src/a.rs'', hd view)"
proof -
  let ?m = "\<lparr>mg_alias = ''/workspace'', mg_target = ''/projects/p1'', mg_permissions = permissions_read_only\<rparr>"
  have "is_mount_alias ''/workspace''" "is_virtual_path ''/projects/p1''"
    unfolding is_mount_alias_def is_virtual_path_def by (rule exI [of _ "''/workspace''"], code_simp, rule exI [of _ "''/projects/p1''"], code_simp)
  moreover have p: "mount_scoped_path [?m] ''/workspace/./src//a.rs'' = Ok ''/workspace/src/a.rs''" by code_simp
  ultimately have "case resolve_with_grant [?m] ''/workspace/src/a.rs'' of
      Ok (q, m) \<Rightarrow> m = ?m \<and> (\<exists>rest. ''/workspace/src/a.rs'' = mg_alias m @ rest \<and> q = mg_target m @ rest)
    | Err e \<Rightarrow> \<not> path_matches_alias (mg_alias ?m) ''/workspace/src/a.rs''"
    using resolution_stays_in_mount [of "[?m]" "''/workspace/./src//a.rs''"] by (auto split: sum.splits prod.splits)
  moreover have "path_matches_alias (mg_alias ?m) ''/workspace/src/a.rs''" by code_simp
  ultimately have "resolve_with_grant [?m] ''/workspace/src/a.rs'' = Ok (''/projects/p1/src/a.rs'', ?m)"
    by (auto split: sum.splits prod.splits)
  then show ?thesis using p by (intro exI [of _ "[?m]"] exI [of _ "''/workspace/./src//a.rs''"] exI [of _ "''/workspace/src/a.rs''"]) simp
qed

section \<open>Reading a path back\<close>

lemma split_append: "sep d \<Longrightarrow> split_on sep (x @ d # y) = split_on sep x @ split_on sep y"
  by (induction x) (auto split: list.splits)

lemma canonical_no_url:
  assumes "canonical p ps"
  shows "\<not> looks_like_url p"
proof
  assume "looks_like_url p"
  then obtain x y where "p = x @ ''://'' @ y" by (auto simp: looks_like_url_def str_contains_def sublist_def)
  then have "split_on is_slash p = split_on is_slash (x @ '':'') @ [] # split_on is_slash y"
    using split_append [of is_slash "CHR ''/''" "x @ '':''" "''/'' @ y"] by simp
  then have "[] # ps = split_on is_slash (x @ '':'') @ [] # split_on is_slash y" using canonical_split [OF assms] by simp
  then have "[] \<in> set ps" by (cases "split_on is_slash (x @ '':'')") auto
  then show False using assms by (auto simp: canonical_def segment_ok_def)
qed

lemma scoped_again:
  assumes "canonical p ps"
  shows "scoped_path_new p = Ok p \<longleftrightarrow> \<not> looks_like_windows_path p \<and> \<not> list_ex (\<lambda>r. prefix r p) RAW_HOST_PREFIXES"
  using canonical_no_url [OF assms] normalize_id [OF assms]
  by (simp add: scoped_path_new_def new_with_allowed_raw_host_aliases_def)

text \<open>C40. Every accepted path is absolute and made of proper segments: none of them is empty, a dot, a
  dot-dot, or holds a separator, and a virtual path lies under a known root. A virtual path or an
  alias read back from its text is accepted unchanged. A scoped path is, unless normalization has
  produced a host path or a drive-like prefix: the checks for those look at the text before
  normalization only.\<close>

theorem path_values_are_canonical:
  assumes "virtual_path_new rv = Ok v" "mount_alias_new ra = Ok a" "scoped_path_new rs = Ok p"
  shows "below_root v \<and> virtual_path_new v = Ok v \<and> mount_alias_new a = Ok a
    \<and> (scoped_path_new p = Ok p \<longleftrightarrow> \<not> looks_like_windows_path p \<and> \<not> list_ex (\<lambda>r. prefix r p) RAW_HOST_PREFIXES)
    \<and> (\<forall>q \<in> {v, a, p}. \<exists>ps. ps \<noteq> [] \<and> split_on is_slash q = [] # ps
        \<and> set ps \<inter> {[], ''.'', ''..''} = {} \<and> \<not> contains_control q)"
proof -
  obtain vs as ps where c: "canonical v vs" "canonical a as" "canonical p ps"
    using assms normalize_canonical scoped_canonical unfolding virtual_new_Ok mount_alias_new_def scoped_path_new_def by meson
  have shape: "\<exists>ps. ps \<noteq> [] \<and> split_on is_slash q = [] # ps \<and> set ps \<inter> {[], ''.'', ''..''} = {} \<and> \<not> contains_control q"
    if q: "canonical q qs" for q qs
    using canonical_split [OF q] q control_append_slash [of "[]" "join_slash qs"]
    by (intro exI [of _ qs]) (auto simp: canonical_def segment_ok_def control_join)
  have "virtual_path_new v = Ok v" "below_root v" "mount_alias_new a = Ok a"
    using assms(1) normalize_id [OF c(1)] normalize_id [OF c(2)] by (simp_all add: virtual_new_Ok mount_alias_new_def)
  then show ?thesis using shape [OF c(1)] shape [OF c(2)] shape [OF c(3)] scoped_again [OF c(3)] by blast
qed

theorem path_values_are_canonical_witness:
  "scoped_path_new ''/./etc/passwd'' = Ok ''/etc/passwd'' \<and> scoped_path_new ''/etc/passwd'' \<noteq> Ok ''/etc/passwd''
    \<and> virtual_path_new ''/users//u1/'' = Ok ''/users/u1'' \<and> virtual_path_new ''/users/u1'' = Ok ''/users/u1''
    \<and> mount_alias_new ''/workspace/'' = Ok ''/workspace'' \<and> mount_alias_new ''/workspace'' = Ok ''/workspace''"
proof -
  have e: "virtual_path_new ''/users//u1/'' = Ok ''/users/u1''" "mount_alias_new ''/workspace/'' = Ok ''/workspace''"
    "scoped_path_new ''/./etc/passwd'' = Ok ''/etc/passwd''" by code_simp+
  have "list_ex (\<lambda>r. prefix r ''/etc/passwd'') RAW_HOST_PREFIXES" by code_simp
  then show ?thesis using path_values_are_canonical [OF e] e by blast
qed

end
