(* ===== verification/Authority_Guarantees.thy ===== *)
theory Authority_Guarantees
  imports Approval_Resolver Host_Path_Safety
begin

text \<open>
  Guarantees of authorization and approvals: a dispatch is allowed only by a grant that covers it
  and only below the ceiling of the trust decision; ceilings compose; a lease is used no more
  often than it allows; an approval is decided once and yields a lease for exactly the invocation
  that was approved.
\<close>

section \<open>Ceilings\<close>

lemma within_stricter:
  "options_within_ceiling e (stricter_limit a b) \<longleftrightarrow> options_within_ceiling e a \<and> options_within_ceiling e b"
  by (cases e; cases a; cases b) (auto simp: options_within_ceiling_def stricter_limit_def)

lemma stricter_within: "\<not> limit_exceeds a b \<Longrightarrow> stricter_limit a b = a"
  by (cases a; cases b) (auto simp: limit_exceeds_def stricter_limit_def)

lemma exceeds_trans: "\<not> limit_exceeds a b \<Longrightarrow> \<not> limit_reduced b c \<Longrightarrow> \<not> limit_exceeds a c"
  by (cases a; cases b; cases c) (auto simp: limit_exceeds_def limit_reduced_def)

lemma sandbox_trans:
  "\<not> sandbox_quota_exceeds_authority a b \<Longrightarrow> \<not> sandbox_quota_reduced b c \<Longrightarrow> \<not> sandbox_quota_exceeds_authority a c"
  by (cases a; cases b; cases c)
    (simp_all add: sandbox_quota_exceeds_authority_def sandbox_quota_reduced_def, meson exceeds_trans)

lemma resource_trans:
  "\<not> resource_ceiling_exceeds_authority a b \<Longrightarrow> \<not> resource_ceiling_reduced b c \<Longrightarrow> \<not> resource_ceiling_exceeds_authority a c"
  by (cases a; cases b; cases c)
    (simp_all add: resource_ceiling_exceeds_authority_def resource_ceiling_reduced_def, meson exceeds_trans sandbox_trans)

lemma sandbox_within: "\<not> sandbox_quota_exceeds_authority a b \<Longrightarrow> intersect_sandbox_quotas a b = a"
  by (cases a; cases b) (auto simp: sandbox_quota_exceeds_authority_def intersect_sandbox_quotas_def stricter_within)

lemma ceiling_within: "\<not> resource_ceiling_exceeds_authority a b \<Longrightarrow> intersect_resource_ceilings a b = a"
  by (cases a; cases b) (auto simp: resource_ceiling_exceeds_authority_def intersect_resource_ceilings_def
    stricter_within sandbox_within)

lemma covered_intersect:
  "resource_estimate_is_covered e (intersect_resource_ceilings a b) \<longleftrightarrow>
    resource_estimate_is_covered e a \<and> resource_estimate_is_covered e b"
proof (cases a; cases b)
  fix x y assume "a = Some x" "b = Some y"
  then show ?thesis
    by (cases "ceil_sandbox x"; cases "ceil_sandbox y")
      (auto simp: resource_estimate_is_covered_def intersect_resource_ceilings_def intersect_sandbox_quotas_def within_stricter)
qed (simp_all add: resource_estimate_is_covered_def intersect_resource_ceilings_def)

text \<open>Ceilings compose: an estimate fits the intersection of a grant's ceiling with the authority's exactly
  when it fits both; a grant that does not exceed the authority keeps its own ceiling; and a
  trust change that is not a reduction leaves every grant that was within the old ceiling within
  the new one, so that revoking on reductions only misses none.\<close>

theorem ceilings_compose:
  "(resource_estimate_is_covered e (intersect_resource_ceilings a b) \<longleftrightarrow>
      resource_estimate_is_covered e a \<and> resource_estimate_is_covered e b)
   \<and> (\<not> resource_ceiling_exceeds_authority a b \<longrightarrow> intersect_resource_ceilings a b = a)
   \<and> (\<not> grant_exceeds_authority_ceiling g previous \<and> \<not> is_reduction_from current previous \<longrightarrow>
      \<not> grant_exceeds_authority_ceiling g current)"
proof -
  have "\<not> grant_exceeds_authority_ceiling g current"
    if "\<not> grant_exceeds_authority_ceiling g previous" "\<not> is_reduction_from current previous"
    using that resource_trans [of "gc_resource_ceiling (cg_constraints g)" "auc_max_resource_ceiling previous"
        "auc_max_resource_ceiling current"]
    by (auto simp: grant_exceeds_authority_ceiling_def is_reduction_from_def effects_are_covered_def list_all_iff list_ex_iff)
  then show ?thesis using covered_intersect ceiling_within by blast
qed

theorem ceilings_compose_witness:
  "\<exists>g previous current. \<not> grant_exceeds_authority_ceiling g previous \<and> \<not> is_reduction_from current previous
    \<and> \<not> grant_exceeds_authority_ceiling g current"
proof -
  let ?g = "\<lparr>cg_id = 1, cg_capability = ''fs.read'', cg_grantee = PrUser ''u'', cg_issued_by = PrUser ''u'',
    cg_constraints = \<lparr>gc_allowed_effects = [ReadFilesystem], gc_mounts = [],
      gc_network = \<lparr>np_allowed_targets = [], np_deny_private_ip_ranges = True, np_max_egress_bytes = None\<rparr>,
      gc_secrets = [], gc_resource_ceiling = None, gc_expires_at = None, gc_max_invocations = None\<rparr>\<rparr>"
  let ?old = "\<lparr>auc_allowed_effects = [ReadFilesystem], auc_max_resource_ceiling = None\<rparr>"
  let ?new = "\<lparr>auc_allowed_effects = [ReadFilesystem, WriteFilesystem], auc_max_resource_ceiling = None\<rparr>"
  have "\<not> grant_exceeds_authority_ceiling ?g ?old" "\<not> is_reduction_from ?new ?old"
    by (simp_all add: grant_exceeds_authority_ceiling_def effects_are_covered_def resource_ceiling_exceeds_authority_def
      is_reduction_from_def resource_ceiling_reduced_def)
  then show ?thesis using ceilings_compose [of undefined None None ?g ?old ?new] by blast
qed

section \<open>Obligations\<close>

lemma normalize_kinds_set:
  "normalize_kinds obs ks acc = Ok r \<Longrightarrow> set r = set acc \<union> {ob \<in> set obs. obligation_kind_of ob \<in> set ks}"
proof (induction ks arbitrary: acc)
  case (Cons k ks)
  show ?case
  proof (cases "filter (\<lambda>ob. obligation_kind_of ob = k) obs")
    case Nil
    then have "\<forall>ob \<in> set obs. obligation_kind_of ob \<noteq> k" by (simp add: filter_empty_conv)
    then show ?thesis using Cons Nil by auto
  next
    case (Cons ob rest)
    then have f: "set (ob # rest) = {ob \<in> set obs. obligation_kind_of ob = k}" by (metis set_filter)
    have "normalize_kinds obs ks (acc @ ob # rest) = Ok r"
      using Cons.prems Cons by (auto split: if_splits sum.splits)
    from Cons.IH [OF this] show ?thesis using f by auto
  qed
qed simp

lemma evaluation_order_complete: "k \<in> set OBLIGATION_EVALUATION_ORDER"
  by (cases k) (simp_all add: OBLIGATION_EVALUATION_ORDER_def)

lemma obligations_new_set: "obligations_new obs = Ok r \<Longrightarrow> set r = set obs"
  using normalize_kinds_set [of obs OBLIGATION_EVALUATION_ORDER "[]" r] evaluation_order_complete
  by (auto simp: obligations_new_def split: option.splits)

lemma sorted_const: "\<forall>x \<in> set xs. f x = k \<Longrightarrow> sorted (map f xs)"
  by (induction xs) auto

lemma normalize_kinds_sorted:
  "normalize_kinds obs ks acc = Ok r \<Longrightarrow> sorted (map obligation_kind_of acc) \<Longrightarrow> sorted ks
    \<Longrightarrow> (\<forall>ob \<in> set acc. \<forall>k \<in> set ks. obligation_kind_of ob \<le> k) \<Longrightarrow> sorted (map obligation_kind_of r)"
proof (induction ks arbitrary: acc)
  case (Cons k ks)
  show ?case
  proof (cases "filter (\<lambda>ob. obligation_kind_of ob = k) obs")
    case Nil
    then show ?thesis using Cons.IH [of acc] Cons.prems by simp
  next
    case (Cons ob rest)
    then have same: "\<forall>x \<in> set (ob # rest). obligation_kind_of x = k" by (metis (mono_tags, lifting) mem_Collect_eq set_filter)
    then have block: "sorted (map obligation_kind_of (ob # rest))" by (rule sorted_const)
    have "normalize_kinds obs ks (acc @ ob # rest) = Ok r"
      using Cons.prems(1) Cons by (auto split: if_splits sum.splits)
    moreover have "sorted (map obligation_kind_of (acc @ ob # rest))"
      using Cons.prems same block by (auto simp: sorted_append)
    moreover have "\<forall>x \<in> set (acc @ ob # rest). \<forall>k' \<in> set ks. obligation_kind_of x \<le> k'"
      using Cons.prems(3,4) same by auto
    ultimately show ?thesis using Cons.IH [of "acc @ ob # rest"] Cons.prems(3) by simp
  qed
qed simp

lemma evaluation_order_sorted: "sorted OBLIGATION_EVALUATION_ORDER"
  by (simp add: OBLIGATION_EVALUATION_ORDER_def less_eq_obligation_kind_def)

lemma obligations_new_sorted: "obligations_new obs = Ok r \<Longrightarrow> sorted (map obligation_kind_of r)"
  using normalize_kinds_sorted [of obs OBLIGATION_EVALUATION_ORDER "[]" r] evaluation_order_sorted
  by (auto simp: obligations_new_def split: option.splits)

lemma credential_obligations_secrets:
  "credential_obligations d g cs = Some obs \<Longrightarrow> InjectSecretOnce h \<in> set obs \<Longrightarrow> h \<in> set (gc_secrets (cg_constraints g))"
  by (induction cs arbitrary: obs) (auto split: runtime_credential_requirement_source.splits if_splits)

lemma secret_obligations_secrets:
  assumes "secret_obligations d g = Some obs" "InjectSecretOnce h \<in> set obs"
  shows "h \<in> set (gc_secrets (cg_constraints g))"
  using assms credential_obligations_secrets
  by (auto simp: secret_obligations_def split: if_splits list.splits)

text \<open>What the obligations of an allowing grant contain.\<close>

definition obligations_bind :: "capability_descriptor \<Rightarrow> capability_grant \<Rightarrow> resource_ceiling option \<Rightarrow> obligation list \<Rightarrow> bool" where
  "obligations_bind d g ceiling obs \<longleftrightarrow> sorted (map obligation_kind_of obs)
    \<and> (descriptor_requires_mount_policy d \<longrightarrow> UseScopedMounts (gc_mounts (cg_constraints g)) \<in> set obs)
    \<and> (EffNetwork \<in> set (cd_effects d) \<longrightarrow> ApplyNetworkPolicy (gc_network (cg_constraints g)) \<in> set obs)
    \<and> (\<forall>c. ceiling = Some c \<longrightarrow> EnforceResourceCeiling c \<in> set obs)
    \<and> (\<forall>h. InjectSecretOnce h \<in> set obs \<longrightarrow> h \<in> set (gc_secrets (cg_constraints g)))"

lemma obligations_for_grant_bind:
  assumes "obligations_for_grant d g ceiling = Some obs"
  shows "obligations_bind d g ceiling obs"
proof -
  obtain secrets where s: "secret_obligations d g = Some secrets"
    using assms by (auto simp: obligations_for_grant_def Let_def split: option.splits)
  then have "set obs = set ((if descriptor_requires_mount_policy d then [UseScopedMounts (gc_mounts (cg_constraints g))] else [])
      @ (if EffNetwork \<in> set (cd_effects d) \<or> network_policy_is_constrained (gc_network (cg_constraints g))
         then [ApplyNetworkPolicy (gc_network (cg_constraints g))] else []) @ secrets @ ceiling_obligations ceiling)"
    using assms by (intro obligations_new_set) (simp add: obligations_for_grant_def Let_def split: sum.splits split del: if_split)
  moreover have "sorted (map obligation_kind_of obs)"
    using assms s obligations_new_sorted by (auto simp: obligations_for_grant_def Let_def split: sum.splits)
  ultimately show ?thesis
    using secret_obligations_secrets [OF s]
    by (auto simp: obligations_bind_def ceiling_obligations_def split: option.splits if_splits)
qed

section \<open>Histories of the lease store\<close>

datatype lease_op =
    OpIssueLease capability_lease
  | OpRevokeLease resource_scope capability_grant_id
  | OpClaimLease timestamp resource_scope capability_grant_id invocation_fingerprint
  | OpConsumeLease timestamp resource_scope capability_grant_id

fun lease_step :: "lease_op \<Rightarrow> lease_store \<Rightarrow> (capability_lease_error + capability_lease) \<times> lease_store" where
  "lease_step (OpIssueLease l) m = lease_issue l m"
| "lease_step (OpRevokeLease scope i) m = lease_revoke scope i m"
| "lease_step (OpClaimLease now scope i fp) m = lease_claim now scope i fp m"
| "lease_step (OpConsumeLease now scope i) m = lease_consume now scope i m"

definition run_leases :: "lease_op list \<Rightarrow> lease_store" where
  "run_leases ops = fold (\<lambda>op m. snd (lease_step op m)) ops []"

text \<open>The store's keys are the scopes and ids of its leases, whatever the history.\<close>

definition lease_store_ok :: "lease_store \<Rightarrow> bool" where
  "lease_store_ok m \<longleftrightarrow> hm_wf m \<and> (\<forall>k l. hm_get m k = Some l \<longrightarrow> k = (cl_scope l, cg_id (cl_grant l)))"

lemma consumed_fields [simp]:
  "cl_invocation_fingerprint (consumed_lease l) = cl_invocation_fingerprint l"
  "cl_scope (consumed_lease l) = cl_scope l" "cg_id (cl_grant (consumed_lease l)) = cg_id (cl_grant l)"
  by (simp_all add: consumed_lease_def set_remaining_def Let_def split: option.splits)

lemma lease_update_ok:
  assumes "lease_store_ok m" "\<And>l l'. f l = Ok l' \<Longrightarrow> cl_scope l' = cl_scope l \<and> cg_id (cl_grant l') = cg_id (cl_grant l)"
  shows "lease_store_ok (snd (lease_update f scope i m))"
  using assms by (auto simp: lease_update_def lease_store_ok_def split: option.splits sum.splits)

lemma lease_step_ok: "lease_store_ok m \<Longrightarrow> lease_store_ok (snd (lease_step op m))"
  by (cases op) (auto simp: lease_issue_def lease_revoke_def lease_claim_def lease_consume_def
    intro!: lease_update_ok split: sum.splits, auto simp: lease_store_ok_def)

lemma run_leases_ok: "lease_store_ok (run_leases ops)"
proof -
  have "lease_store_ok (fold (\<lambda>op m. snd (lease_step op m)) ops m)" if "lease_store_ok m" for m
    using that by (induction ops arbitrary: m) (simp_all add: lease_step_ok)
  moreover have "lease_store_ok []" by (simp add: lease_store_ok_def)
  ultimately show ?thesis by (simp add: run_leases_def)
qed

section \<open>Authorization\<close>

lemma first_allowing_Some:
  assumes "first_allowing c d e ceiling gs = Some obs"
  obtains g where "g \<in> set gs" "effects_are_covered (cd_effects d) (gc_allowed_effects (cg_constraints g))"
    "\<And>a. ceiling = Some a \<Longrightarrow> effects_are_covered (cd_effects d) (auc_allowed_effects a)"
    "resource_estimate_is_covered e (intersect_resource_ceilings (gc_resource_ceiling (cg_constraints g))
       (Option.bind ceiling auc_max_resource_ceiling))"
    "obligations_bind d g (intersect_resource_ceilings (gc_resource_ceiling (cg_constraints g))
       (Option.bind ceiling auc_max_resource_ceiling)) obs"
  using assms
proof (induction gs arbitrary: thesis)
  case (Cons g gs)
  let ?c = "intersect_resource_ceilings (gc_resource_ceiling (cg_constraints g)) (Option.bind ceiling auc_max_resource_ceiling)"
  have bind: "(case ceiling of Some a \<Rightarrow> auc_max_resource_ceiling a | None \<Rightarrow> None) = Option.bind ceiling auc_max_resource_ceiling"
    by (cases ceiling) simp_all
  show ?case
  proof (cases "first_allowing c d e ceiling gs = Some obs")
    case True
    show ?thesis by (rule Cons.IH [OF Cons.prems(1) True]) auto
  next
    case False
    then have "obligations_for_grant d g ?c = Some obs" and "effects_are_covered (cd_effects d) (gc_allowed_effects (cg_constraints g))"
      "resource_estimate_is_covered e ?c" "\<And>a. ceiling = Some a \<Longrightarrow> effects_are_covered (cd_effects d) (auc_allowed_effects a)"
      using Cons.prems(2) by (auto simp: bind Let_def split: if_splits option.splits)
    then show ?thesis using Cons.prems(1) [of g] obligations_for_grant_bind by simp
  qed
qed simp

lemma scope_eqI: "same_scope_owner l r \<Longrightarrow> rsc_invocation_id l = rsc_invocation_id r \<Longrightarrow> l = (r :: resource_scope)"
  by (simp add: same_scope_owner_def)

lemma context_scope: "is_ok (context_validate c) \<Longrightarrow> rsc_invocation_id (xc_resource_scope c) = xc_invocation_id c"
  by (auto simp: context_validate_def Let_def split: if_splits)

lemma active_grant_lease:
  assumes "lease_store_ok m" "is_ok (context_validate c)" "g \<in> set (active_grants_for_context now c m)"
  shows "\<exists>l. lease_get (xc_resource_scope c) (cg_id g) m = Some l \<and> cl_grant l = g \<and> cl_status l = LeaseActive
    \<and> cl_invocation_fingerprint l = None \<and> \<not> lease_is_expired now l"
proof -
  have wf: "hm_wf m" using assms(1) by (simp add: lease_store_ok_def)
  obtain l where l: "l \<in> set (hm_values m)" "same_scope_owner (cl_scope l) (xc_resource_scope c)" "lease_is_authorizing now l c"
    "cl_invocation_fingerprint l = None" "g = cl_grant l"
    using assms(3) by (auto simp: active_grants_for_context_def active_leases_for_context_def leases_for_scope_def)
  then obtain k where k: "hm_get m k = Some l" using hm_values_iff [OF wf] by blast
  have "cl_scope l = xc_resource_scope c"
    using scope_eqI [OF l(2)] l(3) context_scope [OF assms(2)] by (simp add: lease_is_authorizing_def)
  then have "k = (xc_resource_scope c, cg_id g)" using k l(5) assms(1) unfolding lease_store_ok_def by metis
  then show ?thesis using k l by (auto simp: lease_get_def lease_is_authorizing_def)
qed

lemma authorize_Allow:
  assumes "authorize_from_grants_with_trust now c d e gs t = Allow obs"
  obtains g where "g \<in> set gs" "cg_capability g = cd_id d" "principal_matches_context (cg_grantee g) c" "grant_is_active now g"
    "effects_are_covered (cd_effects d) (gc_allowed_effects (cg_constraints g))"
    "effects_are_covered (cd_effects d) (auc_allowed_effects (td_authority_ceiling t))"
    "resource_estimate_is_covered e (gc_resource_ceiling (cg_constraints g))"
    "resource_estimate_is_covered e (auc_max_resource_ceiling (td_authority_ceiling t))"
    "obligations_bind d g (intersect_resource_ceilings (gc_resource_ceiling (cg_constraints g))
       (auc_max_resource_ceiling (td_authority_ceiling t))) obs"
    "is_ok (context_validate c)" "xc_trust c = td_effective_trust t"
proof -
  let ?ms = "filter (\<lambda>g. cg_capability g = cd_id d \<and> principal_matches_context (cg_grantee g) c \<and> grant_is_active now g) gs"
  have f: "first_allowing c d e (Some (td_authority_ceiling t)) ?ms = Some obs"
    and ctx: "is_ok (context_validate c)" "xc_trust c = td_effective_trust t"
    using assms by (auto simp: authorize_from_grants_with_trust_def authorize_from_grants_with_authority_ceiling_def Let_def
      split: if_splits option.splits)
  show ?thesis
    by (rule first_allowing_Some [OF f]) (use that ctx in \<open>auto simp: covered_intersect\<close>)
qed

text \<open>C19. A dispatch is allowed only on authority: the trust class of the context is the one policy derived,
  and there is a grant, carried by the context or held in an active lease of exactly its scope and
  not bound to a fingerprint, for this capability and a principal of the context, neither expired
  nor used up, whose effects and those of the trust ceiling include all the capability declares
  and whose resource ceiling and that of the trust decision hold the estimate. The decision
  obliges the runtime, in the fixed order of evaluation, to the mounts, the network policy and the
  joint ceiling, and injects no secret outside the grant. A spawn needs the effect to spawn besides.\<close>

theorem allowed_only_by_authority:
  assumes "m = run_leases ops" "authorize_dispatch_with_trust now m c d e t = Allow obs"
  shows "xc_trust c = td_effective_trust t \<and> (\<exists>g.
    (g \<in> set (xc_grants c) \<or> (\<exists>l. lease_get (xc_resource_scope c) (cg_id g) m = Some l \<and> cl_grant l = g
        \<and> cl_status l = LeaseActive \<and> cl_invocation_fingerprint l = None \<and> \<not> lease_is_expired now l))
    \<and> cg_capability g = cd_id d \<and> principal_matches_context (cg_grantee g) c \<and> grant_is_active now g
    \<and> set (cd_effects d) \<subseteq> set (gc_allowed_effects (cg_constraints g)) \<inter> set (auc_allowed_effects (td_authority_ceiling t))
    \<and> resource_estimate_is_covered e (gc_resource_ceiling (cg_constraints g))
    \<and> resource_estimate_is_covered e (auc_max_resource_ceiling (td_authority_ceiling t))
    \<and> obligations_bind d g (intersect_resource_ceilings (gc_resource_ceiling (cg_constraints g))
         (auc_max_resource_ceiling (td_authority_ceiling t))) obs
    \<and> (\<forall>d0. d = spawn_descriptor d0 \<longrightarrow> SpawnProcess \<in> set (gc_allowed_effects (cg_constraints g))
         \<and> authorize_spawn_with_trust now m c d0 e t = Allow obs))"
proof -
  have ok: "lease_store_ok m" using run_leases_ok assms(1) by simp
  have "authorize_from_grants_with_trust now c d e (xc_grants c @ active_grants_for_context now c m) t = Allow obs"
    using assms(2) by (simp add: authorize_dispatch_with_trust_def split: if_splits)
  then obtain g where g: "g \<in> set (xc_grants c @ active_grants_for_context now c m)" "cg_capability g = cd_id d"
    "principal_matches_context (cg_grantee g) c" "grant_is_active now g"
    "effects_are_covered (cd_effects d) (gc_allowed_effects (cg_constraints g))"
    "effects_are_covered (cd_effects d) (auc_allowed_effects (td_authority_ceiling t))"
    "resource_estimate_is_covered e (gc_resource_ceiling (cg_constraints g))"
    "resource_estimate_is_covered e (auc_max_resource_ceiling (td_authority_ceiling t))"
    "obligations_bind d g (intersect_resource_ceilings (gc_resource_ceiling (cg_constraints g))
       (auc_max_resource_ceiling (td_authority_ceiling t))) obs"
    and c: "is_ok (context_validate c)" "xc_trust c = td_effective_trust t"
    by (rule authorize_Allow)
  have "SpawnProcess \<in> set (cd_effects (spawn_descriptor d0))" for d0 by (simp add: spawn_descriptor_def)
  moreover have "authorize_spawn_with_trust now m c d0 e t = authorize_dispatch_with_trust now m c (spawn_descriptor d0) e t" for d0
    by (simp add: authorize_spawn_with_trust_def authorize_dispatch_with_trust_def)
  moreover have "set (cd_effects d) \<subseteq> set (gc_allowed_effects (cg_constraints g)) \<inter> set (auc_allowed_effects (td_authority_ceiling t))"
    using g(5,6) by (auto simp: effects_are_covered_def list_all_iff)
  ultimately show ?thesis
    using g(1-4,7-) c active_grant_lease [OF ok c(1), of g] assms(2) by (intro conjI exI [of _ g]) auto
qed

definition sample_scope :: resource_scope where
  "sample_scope = \<lparr>rsc_tenant_id = ''t'', rsc_user_id = ''u'', rsc_agent_id = None, rsc_project_id = None,
    rsc_mission_id = None, rsc_thread_id = None, rsc_invocation_id = 7\<rparr>"

definition sample_grant :: capability_grant where
  "sample_grant = \<lparr>cg_id = 1, cg_capability = ''clock.read'', cg_grantee = PrUser ''u'', cg_issued_by = PrUser ''u'',
    cg_constraints = \<lparr>gc_allowed_effects = [DispatchCapability], gc_mounts = [],
      gc_network = \<lparr>np_allowed_targets = [], np_deny_private_ip_ranges = False, np_max_egress_bytes = None\<rparr>,
      gc_secrets = [], gc_resource_ceiling = None, gc_expires_at = Some 100, gc_max_invocations = Some 2\<rparr>\<rparr>"

definition sample_context :: execution_context where
  "sample_context = \<lparr>xc_invocation_id = 7, xc_correlation_id = 8, xc_process_id = None, xc_parent_process_id = None,
    xc_tenant_id = ''t'', xc_user_id = ''u'', xc_agent_id = None, xc_project_id = None, xc_mission_id = None,
    xc_thread_id = None, xc_extension_id = ''clock'', xc_runtime = RtWasm, xc_trust = TrSandbox, xc_grants = [],
    xc_mounts = [], xc_resource_scope = sample_scope\<rparr>"

definition sample_descriptor :: capability_descriptor where
  "sample_descriptor = \<lparr>cd_id = ''clock.read'', cd_provider = ''clock'', cd_runtime = RtWasm, cd_trust_ceiling = TrSandbox,
    cd_description = ''the time'', cd_parameters_schema = JNull, cd_effects = [DispatchCapability],
    cd_default_permission = PermAllow, cd_runtime_credentials = [], cd_resource_profile = None\<rparr>"

definition sample_estimate :: resource_estimate where
  "sample_estimate = \<lparr>es_usd = None, es_input_tokens = None, es_output_tokens = None, es_wall_clock_ms = None,
    es_output_bytes = None, es_network_egress_bytes = None, es_process_count = None, es_concurrency_slots = None\<rparr>"

definition sample_trust :: trust_decision where
  "sample_trust = \<lparr>td_effective_trust = TrSandbox, td_authority_ceiling =
     \<lparr>auc_allowed_effects = [DispatchCapability], auc_max_resource_ceiling = None\<rparr>,
     td_provenance = ProvDefault, td_evaluated_at = 0\<rparr>"

theorem allowed_only_by_authority_witness:
  "\<exists>g. authorize_dispatch_with_trust 5 (run_leases [OpIssueLease (capability_lease_new sample_scope sample_grant)])
      sample_context sample_descriptor sample_estimate sample_trust = Allow [] \<and> cg_capability g = ''clock.read''
    \<and> principal_matches_context (cg_grantee g) sample_context \<and> grant_is_active 5 g"
proof -
  let ?ops = "[OpIssueLease (capability_lease_new sample_scope sample_grant)]"
  have "authorize_dispatch_with_trust 5 (run_leases ?ops) sample_context sample_descriptor sample_estimate sample_trust = Allow []"
    by code_simp
  from allowed_only_by_authority [OF refl this] this show ?thesis by (auto simp: sample_descriptor_def)
qed

section \<open>Using leases\<close>

text \<open>How often a history of operations consumes a given lease. A history issues no lease under the
  key in question: ids are fresh.\<close>

fun issues :: "capability_lease_key \<Rightarrow> lease_op \<Rightarrow> bool" where
  "issues k (OpIssueLease l) = ((cl_scope l, cg_id (cl_grant l)) = k)"
| "issues k _ = False"

fun consumes :: "capability_lease_key \<Rightarrow> lease_op \<Rightarrow> bool" where
  "consumes k (OpConsumeLease _ scope i) = ((scope, i) = k)"
| "consumes k _ = False"

fun claims :: "capability_lease_key \<Rightarrow> invocation_fingerprint \<Rightarrow> lease_op \<Rightarrow> bool" where
  "claims k fp (OpClaimLease _ scope i fp') = ((scope, i) = k \<and> fp' = fp)"
| "claims k fp _ = False"

text \<open>How many operations of a kind succeed.\<close>

fun successes :: "(lease_op \<Rightarrow> bool) \<Rightarrow> lease_op list \<Rightarrow> lease_store \<Rightarrow> nat" where
  "successes P [] m = 0"
| "successes P (op # ops) m =
    (let (r, m') = lease_step op m in (if P op \<and> is_ok r then 1 else 0) + successes P ops m')"

text \<open>How often a lease may still be consumed; None is without bound.\<close>

definition uses_left :: "capability_lease \<Rightarrow> nat option" where
  "uses_left l =
    (case cl_status l of
       LeaseConsumed \<Rightarrow> Some 0
     | LeaseRevoked \<Rightarrow> Some 0
     | _ \<Rightarrow> if cl_invocation_fingerprint l \<noteq> None then Some 1
         else map_option unat (gc_max_invocations (cg_constraints (cl_grant l))))"

lemma ensure_consumable_Ok:
  "ensure_consumable now l = Ok u \<longleftrightarrow> cl_status l \<in> {LeaseActive, LeaseClaimed}
    \<and> (cl_invocation_fingerprint l \<noteq> None \<longrightarrow> cl_status l = LeaseClaimed)
    \<and> \<not> lease_is_expired now l \<and> gc_max_invocations (cg_constraints (cl_grant l)) \<noteq> Some 0"
  by (cases "cl_status l") (auto simp: ensure_consumable_def ensure_not_expired_or_exhausted_def)

lemma unat_pred: "n \<noteq> 0 \<Longrightarrow> unat (n - 1 :: u64) = unat n - 1"
  by (simp add: unat_minus_one)

lemma consume_uses:
  assumes "ensure_consumable now l = Ok u" "uses_left l = Some n"
  shows "\<exists>k. n = Suc k \<and> uses_left (consumed_lease l) = Some k"
proof (cases "cl_invocation_fingerprint l")
  case (Some fp)
  then show ?thesis
    using assms by (auto simp: ensure_consumable_Ok uses_left_def consumed_lease_def Let_def set_remaining_def split: option.splits)
next
  case None
  then obtain w where w: "gc_max_invocations (cg_constraints (cl_grant l)) = Some w" "unat w = n" "w \<noteq> 0"
    using assms by (auto simp: ensure_consumable_Ok uses_left_def split: capability_lease_status.splits)
  have "unat (w - 1) = n - 1" "0 < n" using w unat_pred [OF w(3)] unat_gt_0 [of w] by simp_all
  then show ?thesis
    using None w assms(1)
    by (auto simp: ensure_consumable_Ok uses_left_def consumed_lease_def Let_def set_remaining_def unat_eq_0
      intro!: exI [of _ "n - 1"] split: capability_lease_status.splits)
qed

text \<open>What one operation does to the lease under a key it does not issue.\<close>

lemma lease_step_cases:
  assumes "hm_get m k = Some l" "\<not> issues k op" "lease_step op m = (r, m')"
  obtains (kept) "hm_get m' k = Some l" "\<not> (consumes k op \<and> is_ok r)"
  | (revoked) "hm_get m' k = Some (l\<lparr>cl_status := LeaseRevoked\<rparr>)" "\<not> consumes k op"
  | (claimed) fp where "hm_get m' k = Some (l\<lparr>cl_status := LeaseClaimed\<rparr>)" "cl_status l = LeaseActive"
      "cl_invocation_fingerprint l = Some fp" "claims k fp op" "is_ok r" "\<not> consumes k op"
  | (consumed) now where "hm_get m' k = Some (consumed_lease l)" "ensure_consumable now l = Ok ()" "consumes k op" "is_ok r"
proof (cases op)
  case (OpIssueLease x)
  then show ?thesis using assms kept by (auto simp: lease_issue_def)
next
  case (OpRevokeLease scope i)
  then show ?thesis
    using assms kept revoked by (cases "(scope, i) = k") (auto simp: lease_revoke_def lease_update_def split: option.splits)
next
  case (OpClaimLease now scope i fp)
  show ?thesis
  proof (cases "(scope, i) = k \<and> is_ok r")
    case True
    then have "ensure_claimable now l fp = Ok ()" "hm_get m' k = Some (l\<lparr>cl_status := LeaseClaimed\<rparr>)"
      using assms OpClaimLease by (auto simp: lease_claim_def lease_update_def split: sum.splits)
    then show ?thesis
      using claimed [of fp] True OpClaimLease by (auto simp: ensure_claimable_def split: if_splits)
  next
    case False
    then have "hm_get m' k = Some l"
      using assms OpClaimLease by (auto simp: lease_claim_def lease_update_def split: option.splits sum.splits)
    then show ?thesis using kept OpClaimLease by simp
  qed
next
  case (OpConsumeLease now scope i)
  show ?thesis
  proof (cases "(scope, i) = k \<and> is_ok r")
    case True
    then show ?thesis
      using assms OpConsumeLease consumed [of now] by (auto simp: lease_consume_def lease_update_def split: sum.splits)
  next
    case False
    then have "hm_get m' k = Some l"
      using assms OpConsumeLease by (auto simp: lease_consume_def lease_update_def split: option.splits sum.splits)
    then show ?thesis using kept False OpConsumeLease by simp
  qed
qed

lemma successes_bounded:
  assumes "hm_get m k = Some l" "\<forall>op \<in> set ops. \<not> issues k op" "uses_left l = Some n"
  shows "successes (consumes k) ops m \<le> n"
  using assms
proof (induction ops arbitrary: m l n)
  case (Cons op ops)
  obtain r m' where st: "lease_step op m = (r, m')" by (cases "lease_step op m")
  have fresh: "\<not> issues k op" using Cons.prems(2) by simp
  from Cons.prems(1) fresh st show ?case
  proof (cases rule: lease_step_cases)
    case kept
    then show ?thesis using Cons.IH [OF kept(1) _ Cons.prems(3)] Cons.prems(2) st by auto
  next
    case revoked
    then show ?thesis using Cons.IH [OF revoked(1), of 0] Cons.prems(2) st by (simp add: uses_left_def)
  next
    case claimed
    then have "uses_left (l\<lparr>cl_status := LeaseClaimed\<rparr>) = Some n" using Cons.prems(3) by (simp add: uses_left_def)
    then show ?thesis using Cons.IH [OF claimed(1)] claimed Cons.prems(2) st by simp
  next
    case (consumed now)
    then obtain j where "n = Suc j" "uses_left (consumed_lease l) = Some j" using consume_uses [OF consumed(2) Cons.prems(3)] by blast
    then show ?thesis using Cons.IH [OF consumed(1)] consumed Cons.prems(2) st by simp
  qed
qed simp

lemma consumes_need_claims:
  assumes "hm_get m k = Some l" "\<forall>op \<in> set ops. \<not> issues k op" "cl_invocation_fingerprint l = Some fp"
  shows "successes (consumes k) ops m \<le> successes (claims k fp) ops m + (if cl_status l = LeaseClaimed then 1 else 0)"
  using assms
proof (induction ops arbitrary: m l)
  case (Cons op ops)
  obtain r m' where st: "lease_step op m = (r, m')" by (cases "lease_step op m")
  have fresh: "\<not> issues k op" using Cons.prems(2) by simp
  from Cons.prems(1) fresh st show ?case
  proof (cases rule: lease_step_cases)
    case kept
    then show ?thesis using Cons.IH [OF kept(1) _ Cons.prems(3)] Cons.prems(2) st by auto
  next
    case revoked
    then show ?thesis using Cons.IH [OF revoked(1)] Cons.prems(2,3) st by auto
  next
    case claimed
    then show ?thesis using Cons.IH [OF claimed(1)] Cons.prems(2,3) st by auto
  next
    case (consumed now)
    then have "cl_status l = LeaseClaimed" "cl_status (consumed_lease l) = LeaseConsumed" "\<not> claims k fp op"
      using Cons.prems(3) by (cases op; auto simp: ensure_consumable_Ok consumed_lease_def Let_def)+
    then show ?thesis using Cons.IH [OF consumed(1)] consumed Cons.prems(2,3) st by auto
  qed
qed simp

text \<open>C20. A lease is not used more often than it allows: in any history of operations on the store, with any
  clocks, the lease under a key is consumed at most as often as its remaining count, a revoked or
  consumed lease never again, and a lease bound to a fingerprint at most once and only after a
  claim that presented exactly this fingerprint.\<close>

theorem lease_uses_are_bounded:
  assumes "hm_get m k = Some l" "\<forall>op \<in> set ops. \<not> issues k op"
  shows "(\<forall>n. uses_left l = Some n \<longrightarrow> successes (consumes k) ops m \<le> n)
    \<and> (\<forall>fp. cl_invocation_fingerprint l = Some fp \<and> cl_status l = LeaseActive \<longrightarrow>
         successes (consumes k) ops m \<le> min 1 (successes (claims k fp) ops m))"
proof (intro conjI allI impI)
  fix n assume "uses_left l = Some n"
  then show "successes (consumes k) ops m \<le> n" by (rule successes_bounded [OF assms])
next
  fix fp assume fp: "cl_invocation_fingerprint l = Some fp \<and> cl_status l = LeaseActive"
  then have "uses_left l = Some 1" by (simp add: uses_left_def)
  then show "successes (consumes k) ops m \<le> min 1 (successes (claims k fp) ops m)"
    using successes_bounded [OF assms] consumes_need_claims [OF assms, of fp] fp by auto
qed

theorem lease_uses_are_bounded_witness:
  "successes (consumes (sample_scope, 1))
     [OpConsumeLease 5 sample_scope 1, OpConsumeLease 6 sample_scope 1, OpConsumeLease 7 sample_scope 1]
     (run_leases [OpIssueLease (capability_lease_new sample_scope sample_grant)]) \<le> 2
   \<and> successes (consumes (sample_scope, 1))
     [OpConsumeLease 5 sample_scope 1, OpClaimLease 6 sample_scope 1 ''f'', OpConsumeLease 7 sample_scope 1]
     (run_leases [OpIssueLease ((capability_lease_new sample_scope sample_grant)\<lparr>cl_invocation_fingerprint := Some ''f''\<rparr>)]) \<le> 1"
proof (rule conjI, goal_cases)
  case 1
  show ?case
    by (rule lease_uses_are_bounded [where l = "capability_lease_new sample_scope sample_grant", THEN conjunct1, rule_format])
      (auto simp: run_leases_def lease_issue_def uses_left_def capability_lease_new_def sample_grant_def)
next
  case 2
  let ?l = "(capability_lease_new sample_scope sample_grant)\<lparr>cl_invocation_fingerprint := Some ''f''\<rparr>"
  show ?case
    by (rule lease_uses_are_bounded [where l = ?l, THEN conjunct1, rule_format])
      (auto simp: run_leases_def lease_issue_def uses_left_def capability_lease_new_def sample_grant_def)
qed

end
