(* ===== verification/Approval_Guarantees.thy ===== *)
theory Approval_Guarantees
  imports Authority_Guarantees
begin

text \<open>
  Guarantees of the approval resolver: what it relies on in the store of approval requests is a
  locale, interpreted on the in-memory store; a request is decided once and for good; approving
  issues a lease for exactly the invocation that was asked about; a failed issue can be retried;
  and what was approved is run at most once per lease.
\<close>

section \<open>What the resolver relies on\<close>

text \<open>A decision succeeds on a pending record only, records the decision, and otherwise changes
  nothing.\<close>

definition settles ::
    "(resource_scope \<Rightarrow> approval_request_id \<Rightarrow> 'a \<Rightarrow> run_state_error + approval_record option)
      \<Rightarrow> (resource_scope \<Rightarrow> approval_request_id \<Rightarrow> 'a \<Rightarrow> (run_state_error + approval_record) \<times> 'a)
      \<Rightarrow> approval_status \<Rightarrow> bool" where
  "settles get dec st \<longleftrightarrow> (\<forall>scope i s.
    case dec scope i s of
      (Ok r', s') \<Rightarrow> (\<exists>r. get scope i s = Ok (Some r) \<and> apc_status r = ApPending \<and> r' = r\<lparr>apc_status := st\<rparr>
        \<and> get scope i s' = Ok (Some r'))
    | (Err _, s') \<Rightarrow> s' = s)"

lemma settlesE:
  assumes "settles get dec st" "dec scope i s = (res, s')"
  obtains (failed) e where "res = Err e" "s' = s"
  | (decided) r where "get scope i s = Ok (Some r)" "apc_status r = ApPending" "res = Ok (r\<lparr>apc_status := st\<rparr>)"
      "get scope i s' = Ok (Some (r\<lparr>apc_status := st\<rparr>))"
proof -
  have "case dec scope i s of
      (Ok r', s') \<Rightarrow> (\<exists>r. get scope i s = Ok (Some r) \<and> apc_status r = ApPending \<and> r' = r\<lparr>apc_status := st\<rparr>
        \<and> get scope i s' = Ok (Some r'))
    | (Err _, s') \<Rightarrow> s' = s"
    using assms(1) by (simp add: settles_def)
  then show ?thesis using assms(2) failed decided by (cases res) auto
qed

locale approval_request_store =
  fixes ops :: "'a approval_ops" and inv :: "'a \<Rightarrow> bool"
  assumes get_owned: "inv s \<Longrightarrow> ao_get ops scope i s = Ok (Some r) \<Longrightarrow>
      owner_of (apc_scope r) = owner_of scope \<and> apr_id (apc_request r) = i"
    and approve_settles: "settles (ao_get ops) (ao_approve ops) ApApproved"
    and deny_settles: "settles (ao_get ops) (ao_deny ops) ApDenied"
begin

lemma approve_outcome:
  assumes "approve_capability_action ae ops issue fresh scope i a expected s = (res, s')"
  obtains (refused) e where "res = Err e" "s' = s"
  | (decided) r capability fp ap where "ao_get ops scope i (res_approvals s) = Ok (Some r)" "apc_status r = ApPending"
      "approvable r expected = Ok (capability, fp)" "ao_get ops scope i ap = Ok (Some (r\<lparr>apc_status := ApApproved\<rparr>))"
      "issue_lease_for_approved ae issue fresh (r\<lparr>apc_status := ApApproved\<rparr>) capability a fp (s\<lparr>res_approvals := ap\<rparr>) = (res, s')"
proof (cases "\<exists>e. res = Err e \<and> s' = s")
  case True
  then show ?thesis using refused by blast
next
  case False
  obtain r where r: "ao_get ops scope i (res_approvals s) = Ok (Some r)" "apc_status r = ApPending"
    using assms False by (auto simp: approve_capability_action_def split: sum.splits option.splits if_splits)
  obtain capability fp where c: "approvable r expected = Ok (capability, fp)"
    using assms False r by (auto simp: approve_capability_action_def split: sum.splits)
  obtain res' ap where d: "ao_approve ops scope i (res_approvals s) = (res', ap)"
    by (cases "ao_approve ops scope i (res_approvals s)")
  from approve_settles d show ?thesis
  proof (cases rule: settlesE)
    case (failed e)
    then have False using assms False r c d by (auto simp: approve_capability_action_def split: run_state_error.splits)
    then show ?thesis ..
  next
    case (decided r')
    then show ?thesis
      using assms r c d decided that(2) [of r capability fp ap] by (auto simp: approve_capability_action_def)
  qed
qed

lemma deny_outcome:
  assumes "resolver_deny ae ops scope i by s = (res, s')"
  obtains (refused) e where "res = Err e" "s' = s"
  | (decided) r where "ao_get ops scope i (res_approvals s) = Ok (Some r)" "apc_status r = ApPending"
      "res = Ok (r\<lparr>apc_status := ApDenied\<rparr>)" "ao_get ops scope i (res_approvals s') = Ok (Some (r\<lparr>apc_status := ApDenied\<rparr>))"
      "res_leases s' = res_leases s"
proof (cases "\<exists>e. res = Err e \<and> s' = s")
  case True
  then show ?thesis using refused by blast
next
  case False
  obtain r where r: "ao_get ops scope i (res_approvals s) = Ok (Some r)" "apc_status r = ApPending"
    using assms False by (auto simp: resolver_deny_def split: sum.splits option.splits if_splits)
  obtain res' ap where d: "ao_deny ops scope i (res_approvals s) = (res', ap)"
    by (cases "ao_deny ops scope i (res_approvals s)")
  from deny_settles d show ?thesis
  proof (cases rule: settlesE)
    case (failed e)
    then have False using assms False r d by (auto simp: resolver_deny_def split: run_state_error.splits)
    then show ?thesis ..
  next
    case (decided r')
    then show ?thesis
      using assms r d decided that(2) [of r] by (auto simp: resolver_deny_def emit_approval_resolved_def emit_audit_best_effort_def)
  qed
qed

lemma decided_is_refused:
  assumes "ao_get ops scope i (res_approvals s) = Ok (Some r)" "apc_status r \<noteq> ApPending"
  shows "approve_capability_action ae ops issue fresh scope i a expected s = (Err (NotPending (apc_status r)), s)"
    and "resolver_deny ae ops scope i by s = (Err (NotPending (apc_status r)), s)"
  using assms by (simp_all add: approve_capability_action_def resolver_deny_def)

lemma retry_recovers:
  assumes "ao_get ops scope i (res_approvals s) = Ok (Some r)" "apc_status r = ApApproved"
    "approvable r expected = Ok (capability, fp)"
  shows "retry_lease_issue_for_action ae ops issue fresh scope i a expected s
    = issue_lease_for_approved ae issue fresh r capability a fp s"
  using assms by (simp add: retry_lease_issue_for_action_def)

end

section \<open>The in-memory store\<close>

definition approval_store_ok :: "approval_store \<Rightarrow> bool" where
  "approval_store_ok m \<longleftrightarrow> (\<forall>k r. hm_get m k = Some r \<longrightarrow> k = (owner_of (apc_scope r), apr_id (apc_request r)))"

lemma update_status_settles: "settles approval_get (update_status st) st"
  by (auto simp: settles_def update_status_def approval_get_def split: option.splits)

interpretation mem: approval_request_store memory_approvals approval_store_ok
  by unfold_locales
    (auto simp: memory_approvals_def approval_get_def approval_approve_def approval_deny_def approval_store_ok_def
      intro: update_status_settles)

lemma memory_get [simp]: "ao_get memory_approvals scope i m = Ok (hm_get m (owner_of scope, i))"
  by (simp add: memory_approvals_def approval_get_def)

lemma approvable_status [simp]: "approvable (r\<lparr>apc_status := st\<rparr>) expected = approvable r expected"
  by (simp add: approvable_def split: option.splits)

text \<open>The lease an approval issues.\<close>

definition approved_lease ::
    "capability_grant_id \<Rightarrow> approval_record \<Rightarrow> capability_id \<Rightarrow> lease_approval \<Rightarrow> invocation_fingerprint \<Rightarrow> capability_lease" where
  "approved_lease fresh r capability a fp =
    \<lparr>cl_scope = apc_scope r, cl_grant = approved_grant fresh r capability a,
     cl_invocation_fingerprint = Some fp, cl_status = LeaseActive\<rparr>"

lemma approved_lease_status [simp]:
  "approved_lease fresh (r\<lparr>apc_status := st\<rparr>) capability a fp = approved_lease fresh r capability a fp"
  by (simp add: approved_lease_def approved_grant_def)

lemma approved_lease_fields [simp]:
  "cl_scope (approved_lease fresh r capability a fp) = apc_scope r"
  "cg_id (cl_grant (approved_lease fresh r capability a fp)) = fresh"
  "cl_invocation_fingerprint (approved_lease fresh r capability a fp) = Some fp"
  "cl_status (approved_lease fresh r capability a fp) = LeaseActive"
  by (simp_all add: approved_lease_def approved_grant_def)

lemma issue_memory:
  "issue_lease_for_approved ae lease_issue fresh r capability a fp s =
    (let l = approved_lease fresh r capability a fp in
     (Ok l, emit_approval_resolved ae (apc_scope r) (apc_request r) (la_issued_by a) DecisionApproved
       (s\<lparr>res_leases := hm_insert (apc_scope r, fresh) l (res_leases s)\<rparr>)))"
  by (simp add: issue_lease_for_approved_def lease_issue_def capability_lease_new_def approved_lease_def approved_grant_def Let_def)

lemma issue_approvals:
  "issue_lease_for_approved ae issue fresh r capability a fp s = (res, s') \<Longrightarrow> res_approvals s' = res_approvals s"
  by (auto simp: issue_lease_for_approved_def Let_def emit_approval_resolved_def emit_audit_best_effort_def split: prod.splits sum.splits)

text \<open>C21. Approving a request with any lease store that may fail: either nothing happens and an error says why, or
  the request was pending under the caller's owner and id, asked for the kind of action that is
  being approved and carried a fingerprint; it is then approved before the lease is issued, so that
  a failed issue leaves an approved request, from which the retry issues, for exactly this
  capability, requester, scope and fingerprint and the terms given, an active lease. The audit sink
  is told once of an approval that issued, and never of one that did not.\<close>

theorem approval_decides_then_issues:
  assumes "approval_store_ok (res_approvals s)"
    "approve_capability_action ae memory_approvals issue fresh scope i a expected s = (res, s')"
  shows "(\<exists>e. res = Err e \<and> s' = s) \<or> (\<exists>r capability fp.
    hm_get (res_approvals s) (owner_of scope, i) = Some r \<and> apc_status r = ApPending
    \<and> owner_of (apc_scope r) = owner_of scope \<and> apr_id (apc_request r) = i
    \<and> capability_for_action (apr_action (apc_request r)) expected = Some capability
    \<and> apr_invocation_fingerprint (apc_request r) = Some fp
    \<and> hm_get (res_approvals s') (owner_of scope, i) = Some (r\<lparr>apc_status := ApApproved\<rparr>)
    \<and> (case issue (approved_lease fresh r capability a fp) (res_leases s) of
         (Err e, ls) \<Rightarrow> res = Err (ResLease e) \<and> res_leases s' = ls \<and> res_audit s' = res_audit s
       | (Ok l, ls) \<Rightarrow> res = Ok l \<and> res_leases s' = ls \<and> res_audit s' = map_option (\<lambda>es. es @
           [approval_resolved ae (apc_scope r) (apc_request r) (la_issued_by a) DecisionApproved]) (res_audit s))
    \<and> (\<exists>t. retry_lease_issue_for_action ae memory_approvals lease_issue fresh' scope i a expected (s'\<lparr>res_leases := ls\<rparr>)
        = (Ok (approved_lease fresh' r capability a fp), t)
        \<and> lease_get (apc_scope r) fresh' (res_leases t) = Some (approved_lease fresh' r capability a fp)))"
  using assms(2)
proof (cases rule: mem.approve_outcome)
  case (decided r capability fp ap)
  let ?r = "r\<lparr>apc_status := ApApproved\<rparr>"
  have ap: "res_approvals s' = ap" using issue_approvals [OF decided(5)] by simp
  have issued: "case issue (approved_lease fresh r capability a fp) (res_leases s) of
         (Err e, ls) \<Rightarrow> res = Err (ResLease e) \<and> res_leases s' = ls \<and> res_audit s' = res_audit s
       | (Ok l, ls) \<Rightarrow> res = Ok l \<and> res_leases s' = ls \<and> res_audit s' = map_option (\<lambda>es. es @
           [approval_resolved ae (apc_scope r) (apc_request r) (la_issued_by a) DecisionApproved]) (res_audit s)"
    using decided(5) by (auto simp: issue_lease_for_approved_def capability_lease_new_def approved_lease_def approved_grant_def
      Let_def emit_approval_resolved_def emit_audit_best_effort_def split: prod.splits sum.splits)
  have "\<exists>t. retry_lease_issue_for_action ae memory_approvals lease_issue fresh' scope i a expected (s'\<lparr>res_leases := ls\<rparr>)
        = (Ok (approved_lease fresh' r capability a fp), t)
      \<and> lease_get (apc_scope r) fresh' (res_leases t) = Some (approved_lease fresh' r capability a fp)"
    using mem.retry_recovers [of scope i "s'\<lparr>res_leases := ls\<rparr>" ?r expected capability fp] decided(3,4) ap
    by (simp add: issue_memory Let_def lease_get_def emit_approval_resolved_def emit_audit_best_effort_def)
  moreover have "capability_for_action (apr_action (apc_request r)) expected = Some capability"
    "apr_invocation_fingerprint (apc_request r) = Some fp"
    using decided(3) by (auto simp: approvable_def split: option.splits)
  ultimately show ?thesis
    using mem.get_owned [OF assms(1) decided(1)] decided(1,2,4) ap issued by (intro disjI2 exI [of _ r] exI [of _ capability] exI [of _ fp] conjI) simp_all
qed blast

definition sample_env :: audit_env where
  "sample_env = \<lparr>aue_event_id = 1, aue_now = 5, aue_uuid_str = (\<lambda>_. ''id'')\<rparr>"

definition sample_request :: approval_request where
  "sample_request = ApprovalRequest 9 8 (PrUser ''u'') (ActDispatch ''clock.read'' sample_estimate) (Some ''f'') ''why'' None"

definition sample_resolver :: "(approval_store, lease_store) resolver_state" where
  "sample_resolver = \<lparr>res_approvals = snd (approval_save_pending sample_scope sample_request []), res_leases = [], res_audit = Some []\<rparr>"

definition sample_terms :: lease_approval where
  "sample_terms = \<lparr>la_issued_by = PrUser ''u'', la_allowed_effects = [DispatchCapability], la_mounts = [],
    la_network = \<lparr>np_allowed_targets = [], np_deny_private_ip_ranges = False, np_max_egress_bytes = None\<rparr>,
    la_secrets = [], la_resource_ceiling = None, la_expires_at = Some 100, la_max_invocations = Some 5\<rparr>"

theorem approval_decides_then_issues_witness:
  "\<exists>r. hm_get (res_approvals (snd (approve_capability_action sample_env memory_approvals lease_issue 4 sample_scope 9
      sample_terms ApproveDispatch sample_resolver))) (owner_of sample_scope, 9) = Some r \<and> apc_status r = ApApproved"
proof -
  let ?x = "approve_capability_action sample_env memory_approvals lease_issue 4 sample_scope 9 sample_terms ApproveDispatch sample_resolver"
  have "approval_store_ok (res_approvals sample_resolver)"
    by (auto simp: sample_resolver_def approval_save_pending_def approval_store_ok_def hm_contains_key_def
      sample_request_def Let_def split: if_splits)
  from approval_decides_then_issues [OF this, of sample_env lease_issue 4 sample_scope 9 sample_terms ApproveDispatch "fst ?x" "snd ?x"]
  consider (err) "\<not> is_ok (fst ?x)" | (ok) r where "hm_get (res_approvals (snd ?x)) (owner_of sample_scope, 9) = Some (r\<lparr>apc_status := ApApproved\<rparr>)"
    by fastforce
  then show ?thesis
  proof cases
    case err
    moreover have "is_ok (fst ?x)" by code_simp
    ultimately show ?thesis by simp
  qed auto
qed

section \<open>Decisions are final\<close>

text \<open>The operations on approvals and what they return of a lease.\<close>

datatype approval_op =
    OpSavePending resource_scope approval_request
  | OpDiscardPending resource_scope approval_request_id
  | OpApprove capability_grant_id resource_scope approval_request_id lease_approval approved_capability_action
  | OpRetry capability_grant_id resource_scope approval_request_id lease_approval approved_capability_action
  | OpDeny resource_scope approval_request_id principal

type_synonym memory_resolver = "(approval_store, lease_store) resolver_state"

fun ok_part :: "'e + 'a \<Rightarrow> 'a option" where
  "ok_part (Ok x) = Some x"
| "ok_part (Err e) = None"

fun approval_step :: "audit_env \<Rightarrow> lease_store issue_op \<Rightarrow> approval_op \<Rightarrow> memory_resolver \<Rightarrow> capability_lease option \<times> memory_resolver" where
  "approval_step ae issue (OpSavePending scope q) s =
    (None, s\<lparr>res_approvals := snd (approval_save_pending scope q (res_approvals s))\<rparr>)"
| "approval_step ae issue (OpDiscardPending scope i) s =
    (None, s\<lparr>res_approvals := snd (approval_discard_pending scope i (res_approvals s))\<rparr>)"
| "approval_step ae issue (OpApprove fresh scope i a expected) s =
    apfst ok_part (approve_capability_action ae memory_approvals issue fresh scope i a expected s)"
| "approval_step ae issue (OpRetry fresh scope i a expected) s =
    apfst ok_part (retry_lease_issue_for_action ae memory_approvals issue fresh scope i a expected s)"
| "approval_step ae issue (OpDeny scope i by) s = (None, snd (resolver_deny ae memory_approvals scope i by s))"

fun approval_op_key :: "approval_op \<Rightarrow> approval_key" where
  "approval_op_key (OpSavePending scope q) = (owner_of scope, apr_id q)"
| "approval_op_key (OpDiscardPending scope i) = (owner_of scope, i)"
| "approval_op_key (OpApprove _ scope i _ _) = (owner_of scope, i)"
| "approval_op_key (OpRetry _ scope i _ _) = (owner_of scope, i)"
| "approval_op_key (OpDeny scope i _) = (owner_of scope, i)"

lemma issue_approvals_snd [simp]:
  "res_approvals (snd (issue_lease_for_approved ae issue fresh r capability a fp s)) = res_approvals s"
  using issue_approvals [OF surjective_pairing] .

lemma update_status_other:
  "k \<noteq> (owner_of scope, i) \<Longrightarrow> hm_get (snd (update_status st scope i m)) k = hm_get m k"
  by (simp add: update_status_def split: option.splits)

lemma update_status_decided:
  "hm_get m (owner_of scope, i) = Some r \<Longrightarrow> apc_status r \<noteq> ApPending \<Longrightarrow> snd (update_status st scope i m) = m"
  by (simp add: update_status_def)

lemma update_status_keeps:
  "hm_get m k = Some r \<Longrightarrow> apc_status r \<noteq> ApPending \<Longrightarrow> hm_get (snd (update_status st scope i m)) k = Some r"
  by (cases "k = (owner_of scope, i)") (simp_all add: update_status_other update_status_decided)

lemma approve_approvals:
  "res_approvals (snd (approve_capability_action ae memory_approvals issue fresh scope i a expected s))
    \<in> {res_approvals s, snd (update_status ApApproved scope i (res_approvals s))}"
proof -
  obtain res ap where d: "update_status ApApproved scope i (res_approvals s) = (res, ap)"
    by (cases "update_status ApApproved scope i (res_approvals s)")
  have "ao_approve memory_approvals = update_status ApApproved" by (simp add: memory_approvals_def approval_approve_def)
  then show ?thesis
    using d by (auto simp: approve_capability_action_def split: option.splits sum.splits run_state_error.splits prod.splits)
qed

lemma deny_approvals:
  "res_approvals (snd (resolver_deny ae memory_approvals scope i by s))
    \<in> {res_approvals s, snd (update_status ApDenied scope i (res_approvals s))}"
proof -
  obtain res ap where d: "update_status ApDenied scope i (res_approvals s) = (res, ap)"
    by (cases "update_status ApDenied scope i (res_approvals s)")
  have "ao_deny memory_approvals = update_status ApDenied" by (simp add: memory_approvals_def approval_deny_def)
  then show ?thesis
    using d by (auto simp: resolver_deny_def emit_approval_resolved_def emit_audit_best_effort_def split: option.splits sum.splits run_state_error.splits)
qed

lemma retry_approvals:
  "res_approvals (snd (retry_lease_issue_for_action ae memory_approvals issue fresh scope i a expected s)) = res_approvals s"
  by (auto simp: retry_lease_issue_for_action_def split: option.splits sum.splits)

text \<open>Every operation keeps the records under their own keys.\<close>

lemma update_status_ok: "approval_store_ok m \<Longrightarrow> approval_store_ok (snd (update_status st scope i m))"
  by (auto simp: approval_store_ok_def update_status_def split: option.splits if_splits)

lemma approval_step_ok:
  assumes "approval_store_ok (res_approvals s)"
  shows "approval_store_ok (res_approvals (snd (approval_step ae issue op s)))"
proof (cases op)
  case (OpSavePending scope q)
  then show ?thesis using assms by (auto simp: approval_save_pending_def approval_store_ok_def Let_def)
next
  case (OpDiscardPending scope i)
  then show ?thesis using assms by (auto simp: approval_discard_pending_def approval_store_ok_def split: option.splits if_splits)
next
  case (OpApprove fresh scope i a expected)
  then show ?thesis
    using assms approve_approvals [of ae issue fresh scope i a expected s] update_status_ok [OF assms] by auto
next
  case (OpRetry fresh scope i a expected)
  then show ?thesis using assms by (simp add: retry_approvals)
next
  case (OpDeny scope i "by")
  then show ?thesis using assms deny_approvals [of ae scope i "by" s] update_status_ok [OF assms] by auto
qed

lemma approval_step_keeps:
  assumes "hm_get (res_approvals s) k = Some r" "apc_status r \<noteq> ApPending"
  shows "hm_get (res_approvals (snd (approval_step ae issue op s))) k = Some r"
proof (cases op)
  case (OpSavePending scope q)
  then show ?thesis using assms by (auto simp: approval_save_pending_def Let_def hm_contains_key_def)
next
  case (OpDiscardPending scope i)
  then show ?thesis using assms by (auto simp: approval_discard_pending_def split: option.splits)
next
  case (OpApprove fresh scope i a expected)
  then show ?thesis
    using assms approve_approvals [of ae issue fresh scope i a expected s] update_status_keeps [OF assms] by auto
next
  case (OpRetry fresh scope i a expected)
  then show ?thesis using assms by (simp add: retry_approvals)
next
  case (OpDeny scope i "by")
  then show ?thesis using assms deny_approvals [of ae scope i "by" s] update_status_keeps [OF assms] by auto
qed

lemma denied_step_no_lease:
  assumes "hm_get (res_approvals s) k = Some r" "apc_status r = ApDenied" "approval_op_key op = k"
  shows "fst (approval_step ae issue op s) = None"
  using assms by (cases op) (auto simp: approve_capability_action_def retry_lease_issue_for_action_def)

text \<open>C22. A decision is final: once a request is approved, denied or expired, its record is the same
  after any history of requests, discards, approvals, retries and denials, with any lease store;
  and no operation on a denied request returns a lease, at whatever point of the history.\<close>

theorem decisions_are_final:
  assumes "hm_get (res_approvals s) k = Some r" "apc_status r \<noteq> ApPending"
  shows "hm_get (res_approvals (fold (\<lambda>op s. snd (approval_step ae issue op s)) ops s)) k = Some r
    \<and> (apc_status r = ApDenied \<and> approval_op_key op = k \<longrightarrow>
        fst (approval_step ae issue op (fold (\<lambda>op s. snd (approval_step ae issue op s)) ops s)) = None)"
proof -
  have "hm_get (res_approvals (fold (\<lambda>op s. snd (approval_step ae issue op s)) ops s)) k = Some r"
    using assms by (induction ops arbitrary: s) (simp_all add: approval_step_keeps)
  then show ?thesis using denied_step_no_lease by blast
qed

theorem decisions_are_final_witness:
  "fst (approval_step sample_env lease_issue (OpRetry 4 sample_scope 9 sample_terms ApproveDispatch)
    (snd (approval_step sample_env lease_issue (OpApprove 3 sample_scope 9 sample_terms ApproveDispatch)
      (snd (resolver_deny sample_env memory_approvals sample_scope 9 (PrUser ''u'') sample_resolver))))) = None"
proof -
  let ?s = "snd (resolver_deny sample_env memory_approvals sample_scope 9 (PrUser ''u'') sample_resolver)"
  let ?r = "\<lparr>apc_scope = sample_scope, apc_request = sample_request, apc_status = ApDenied\<rparr>"
  have "hm_get (res_approvals ?s) (owner_of sample_scope, 9) = Some ?r" by code_simp
  from decisions_are_final [OF this, where ops = "[OpApprove 3 sample_scope 9 sample_terms ApproveDispatch]"
      and op = "OpRetry 4 sample_scope 9 sample_terms ApproveDispatch"]
  show ?thesis by simp
qed

section \<open>From approval to use\<close>

lemma lease_step_fingerprint:
  assumes "hm_get m k = Some l" "\<not> issues k op"
  shows "\<exists>l'. hm_get (snd (lease_step op m)) k = Some l' \<and> cl_invocation_fingerprint l' = cl_invocation_fingerprint l"
proof -
  obtain r m' where st: "lease_step op m = (r, m')" by (cases "lease_step op m")
  from assms st show ?thesis by (cases rule: lease_step_cases) (auto simp: st)
qed

lemma lease_steps_fingerprint:
  assumes "hm_get m k = Some l" "\<forall>op \<in> set ops. \<not> issues k op"
  shows "\<exists>l'. hm_get (fold (\<lambda>op m. snd (lease_step op m)) ops m) k = Some l'
    \<and> cl_invocation_fingerprint l' = cl_invocation_fingerprint l"
  using assms
proof (induction ops arbitrary: m l)
  case (Cons op ops)
  obtain l' where "hm_get (snd (lease_step op m)) k = Some l'" "cl_invocation_fingerprint l' = cl_invocation_fingerprint l"
    using lease_step_fingerprint [OF Cons.prems(1)] Cons.prems(2) by auto
  then show ?case using Cons.IH Cons.prems(2) by fastforce
qed simp

lemma lease_steps_ok: "lease_store_ok m \<Longrightarrow> lease_store_ok (fold (\<lambda>op m. snd (lease_step op m)) ops m)"
  by (induction ops arbitrary: m) (simp_all add: lease_step_ok)

text \<open>C23. What was approved is run at most once per lease: after a successful approval, in any history of the
  lease store that issues no lease under the fresh id, the lease is consumed at most once, and
  only when it was claimed with the fingerprint of the very request that was approved; and the
  lease never counts as a grant of a context, so it cannot authorize another dispatch.\<close>

theorem approved_invocation_runs_at_most_once:
  assumes "lease_store_ok (res_leases s)"
    "approve_capability_action ae memory_approvals lease_issue fresh scope i a expected s = (Ok l, s')"
    "\<forall>op \<in> set ops. \<not> issues (cl_scope l, fresh) op"
    "m = fold (\<lambda>op m. snd (lease_step op m)) ops (res_leases s')"
  shows "\<exists>r fp. hm_get (res_approvals s) (owner_of scope, i) = Some r \<and> cl_scope l = apc_scope r
    \<and> apr_invocation_fingerprint (apc_request r) = Some fp
    \<and> successes (consumes (cl_scope l, fresh)) ops (res_leases s')
        \<le> min 1 (successes (claims (cl_scope l, fresh) fp) ops (res_leases s'))
    \<and> (\<forall>now c g. is_ok (context_validate c) \<and> xc_resource_scope c = cl_scope l \<and> cg_id g = fresh \<longrightarrow>
        g \<notin> set (active_grants_for_context now c m))"
  using assms(2)
proof (cases rule: mem.approve_outcome)
  case (decided r capability fp ap)
  let ?l = "approved_lease fresh r capability a fp" and ?k = "(apc_scope r, fresh)"
  have l: "l = ?l" "res_leases s' = hm_insert ?k ?l (res_leases s)"
    using decided(5) by (auto simp: issue_memory Let_def emit_approval_resolved_def emit_audit_best_effort_def)
  then have k: "cl_scope l = apc_scope r" "hm_get (res_leases s') ?k = Some ?l" by simp_all
  have fresh: "\<forall>op \<in> set ops. \<not> issues ?k op" using assms(3) k by simp
  have "uses_left ?l = Some 1" by (simp add: uses_left_def)
  then have uses: "successes (consumes ?k) ops (res_leases s') \<le> min 1 (successes (claims ?k fp) ops (res_leases s'))"
    using successes_bounded [OF k(2) fresh] consumes_need_claims [OF k(2) fresh, of fp] by simp
  have "lease_store_ok (res_leases s')" using assms(1) l(2) by (auto simp: lease_store_ok_def)
  then have ok: "lease_store_ok m" using lease_steps_ok assms(4) by simp
  obtain l' where l': "hm_get m ?k = Some l'" "cl_invocation_fingerprint l' = Some fp"
    using lease_steps_fingerprint [OF k(2) fresh] assms(4) by auto
  have "g \<notin> set (active_grants_for_context now c m)"
    if "is_ok (context_validate c)" "xc_resource_scope c = apc_scope r" "cg_id g = fresh" for now c g
    using active_grant_lease [OF ok that(1), of g now] l' that(2,3) by (auto simp: lease_get_def)
  moreover have "apr_invocation_fingerprint (apc_request r) = Some fp"
    using decided(3) by (auto simp: approvable_def split: option.splits)
  ultimately show ?thesis using decided(1) k(1) uses by auto
qed simp

theorem approved_invocation_runs_at_most_once_witness:
  "let s' = snd (approve_capability_action sample_env memory_approvals lease_issue 4 sample_scope 9 sample_terms ApproveDispatch sample_resolver)
   in successes (consumes (sample_scope, 4)) [OpClaimLease 5 sample_scope 4 ''f'', OpConsumeLease 6 sample_scope 4,
        OpClaimLease 7 sample_scope 4 ''f'', OpConsumeLease 8 sample_scope 4] (res_leases s') \<le> 1"
proof -
  let ?x = "approve_capability_action sample_env memory_approvals lease_issue 4 sample_scope 9 sample_terms ApproveDispatch sample_resolver"
  let ?r = "\<lparr>apc_scope = sample_scope, apc_request = sample_request, apc_status = ApPending\<rparr>"
  let ?l = "approved_lease 4 ?r ''clock.read'' sample_terms ''f''"
  have "lease_store_ok (res_leases sample_resolver)" by (simp add: sample_resolver_def lease_store_ok_def)
  moreover have "fst ?x = Ok ?l" by code_simp
  then have "?x = (Ok ?l, snd ?x)" by (metis prod.collapse)
  ultimately show ?thesis
    using approved_invocation_runs_at_most_once [of sample_resolver sample_env 4 sample_scope 9 sample_terms ApproveDispatch ?l "snd ?x"
      "[OpClaimLease 5 sample_scope 4 ''f'', OpConsumeLease 6 sample_scope 4,
        OpClaimLease 7 sample_scope 4 ''f'', OpConsumeLease 8 sample_scope 4]", OF _ _ _ refl]
    by (auto simp: Let_def)
qed

end
