(* ===== verification/Float64.thy ===== *)
theory Float64
  imports Prelude Complex_Main "HOL-Library.Log_Nat"
begin

text \<open>
  Rust's \<^verbatim>\<open>f64\<close>: the values of IEEE binary64 as rationals, infinities and NaN, with rounding to
  nearest, ties to even. The sign of zero is dropped, which no operation used here can observe:
  comparisons ignore it, and every divisor the sources use is positive or the literal 0.0.
\<close>

datatype f64 = F64 rat | F64Inf bool | F64NaN

text \<open>The exponent of a positive rational: the largest \<open>e\<close> with \<open>2 powi e \<le> x\<close>.\<close>

definition floor_log2 :: "rat \<Rightarrow> int" where
  "floor_log2 x =
    (let (p, q) = quotient_of x; e = bitlen p - bitlen q in if 2 powi e \<le> x then e else e - 1)"

definition round_half_even :: "rat \<Rightarrow> int" where
  "round_half_even y =
    (let n = \<lfloor>y\<rfloor>; r = y - of_int n in
     if r < 1 / 2 then n else if r > 1 / 2 then n + 1 else if even n then n else n + 1)"

definition f64_round :: "rat \<Rightarrow> f64" where
  "f64_round x =
    (if x = 0 then F64 0
     else let u = 2 powi (max (floor_log2 \<bar>x\<bar> - 52) (- 1074));
              v = of_int (round_half_even (x / u)) * u in
       if \<bar>v\<bar> \<ge> 2 ^ 1024 then F64Inf (x > 0) else F64 v)"

fun f64_le :: "f64 \<Rightarrow> f64 \<Rightarrow> bool" where
  "f64_le F64NaN _ = False"
| "f64_le _ F64NaN = False"
| "f64_le (F64 a) (F64 b) = (a \<le> b)"
| "f64_le (F64Inf p) (F64Inf q) = (p \<longrightarrow> q)"
| "f64_le (F64Inf p) (F64 _) = (\<not> p)"
| "f64_le (F64 _) (F64Inf q) = q"

fun f64_lt :: "f64 \<Rightarrow> f64 \<Rightarrow> bool" where
  "f64_lt F64NaN _ = False"
| "f64_lt _ F64NaN = False"
| "f64_lt (F64 a) (F64 b) = (a < b)"
| "f64_lt (F64Inf p) (F64Inf q) = (\<not> p \<and> q)"
| "f64_lt (F64Inf p) (F64 _) = (\<not> p)"
| "f64_lt (F64 _) (F64Inf q) = q"

text \<open>Division; a zero divisor is positive zero.\<close>

fun f64_div :: "f64 \<Rightarrow> f64 \<Rightarrow> f64" where
  "f64_div F64NaN _ = F64NaN"
| "f64_div _ F64NaN = F64NaN"
| "f64_div (F64Inf _) (F64Inf _) = F64NaN"
| "f64_div (F64Inf p) (F64 b) = F64Inf (if b < 0 then \<not> p else p)"
| "f64_div (F64 _) (F64Inf _) = F64 0"
| "f64_div (F64 a) (F64 b) = (if b = 0 then if a = 0 then F64NaN else F64Inf (a > 0) else f64_round (a / b))"

definition f64_of_u64 :: "u64 \<Rightarrow> f64" where
  "f64_of_u64 n = f64_round (of_int (uint n))"

definition f64_is_finite :: "f64 \<Rightarrow> bool" where
  "f64_is_finite x = (case x of F64 _ \<Rightarrow> True | _ \<Rightarrow> False)"

lemma f64_le_cases: "x \<noteq> F64NaN \<Longrightarrow> y \<noteq> F64NaN \<Longrightarrow> f64_le x y \<longleftrightarrow> \<not> f64_lt y x"
  by (cases x; cases y) auto

lemma f64_le_trans: "f64_le x y \<Longrightarrow> f64_le y z \<Longrightarrow> f64_le x z"
  by (cases x; cases y; cases z) auto

end
