(* ===== verification/Resource_Accounts.thy ===== *)
theory Resource_Accounts
  imports Host_Authority Float64
begin

text \<open>
  The data of the resource governor: \<^verbatim>\<open>ironclaw_resources/src/period.rs\<close> and the first half of \<^verbatim>\<open>lib.rs\<close>.
  Accounts form a cascade from the tenant down to the thread; limits hold per account and period;
  tallies add up with saturation.

  Third-party code is read from the environment record: the calendar and time zones of \<^verbatim>\<open>chrono\<close> and
  \<^verbatim>\<open>chrono_tz\<close>, and the arithmetic of \<^verbatim>\<open>rust_decimal\<close>. A local date is a day number.
\<close>

type_synonym tz = string

record governor_env =
  gv_max_utc :: timestamp
  gv_hour :: duration
  gv_local_date :: "tz \<Rightarrow> timestamp \<Rightarrow> int"
  gv_weekday :: "int \<Rightarrow> nat"
  gv_year :: "int \<Rightarrow> int"
  gv_month :: "int \<Rightarrow> int"
  gv_from_ymd :: "int \<Rightarrow> int \<Rightarrow> int \<Rightarrow> int option"
  gv_local_midnight :: "tz \<Rightarrow> int \<Rightarrow> timestamp option"
  gv_checked_add :: "decimal \<Rightarrow> decimal \<Rightarrow> decimal option"
  gv_checked_sub :: "decimal \<Rightarrow> decimal \<Rightarrow> decimal option"
  gv_decimal_max :: decimal
  gv_to_f64 :: "decimal \<Rightarrow> f64 option"

section \<open>Periods and thresholds (period.rs)\<close>

datatype period_unit = PeriodDay | PeriodWeek | PeriodMonth

datatype budget_period = PerInvocation | Rolling24h | Calendar tz period_unit

record budget_thresholds =
  bt_warn_at :: f64
  bt_pause_at :: f64

definition thresholds_disabled :: budget_thresholds where
  "thresholds_disabled = \<lparr>bt_warn_at = F64 1, bt_pause_at = F64 1\<rparr>"

definition thresholds_recommended :: budget_thresholds where
  "thresholds_recommended = \<lparr>bt_warn_at = f64_round (75 / 100), bt_pause_at = f64_round (90 / 100)\<rparr>"

datatype budget_thresholds_error = NotFinite | Negative | PauseBelowWarn

definition thresholds_validate :: "budget_thresholds \<Rightarrow> budget_thresholds_error + unit" where
  "thresholds_validate t =
    (if \<not> f64_is_finite (bt_warn_at t) \<or> \<not> f64_is_finite (bt_pause_at t) then Err NotFinite
     else if f64_lt (bt_warn_at t) (F64 0) \<or> f64_lt (bt_pause_at t) (F64 0) then Err Negative
     else if f64_lt (bt_pause_at t) (bt_warn_at t) then Err PauseBelowWarn
     else Ok ())"

definition calendar_dates :: "governor_env \<Rightarrow> period_unit \<Rightarrow> int \<Rightarrow> int \<times> int" where
  "calendar_dates g unit d =
    (case unit of
       PeriodDay \<Rightarrow> (d, d + 1)
     | PeriodWeek \<Rightarrow> (let start = d - int (gv_weekday g d) in (start, start + 7))
     | PeriodMonth \<Rightarrow>
        (let start = (case gv_from_ymd g (gv_year g d) (gv_month g d) 1 of Some s \<Rightarrow> s | None \<Rightarrow> d);
             nxt = (if gv_month g d = 12 then gv_from_ymd g (gv_year g d + 1) 1 1
                    else gv_from_ymd g (gv_year g d) (gv_month g d + 1) 1) in
         (start, case nxt of Some n \<Rightarrow> n | None \<Rightarrow> start)))"

definition calendar_bounds :: "governor_env \<Rightarrow> tz \<Rightarrow> period_unit \<Rightarrow> timestamp \<Rightarrow> timestamp \<times> timestamp" where
  "calendar_bounds g tz unit now =
    (let (start_date, end_date) = calendar_dates g unit (gv_local_date g tz now) in
     (case gv_local_midnight g tz start_date of Some t \<Rightarrow> t | None \<Rightarrow> now,
      case gv_local_midnight g tz end_date of Some t \<Rightarrow> t | None \<Rightarrow> now + 24 * gv_hour g))"

definition period_bounds :: "governor_env \<Rightarrow> budget_period \<Rightarrow> timestamp \<Rightarrow> timestamp \<times> timestamp" where
  "period_bounds g period now =
    (case period of
       PerInvocation \<Rightarrow> (now, gv_max_utc g)
     | Rolling24h \<Rightarrow> (now, now + 24 * gv_hour g)
     | Calendar tz unit \<Rightarrow> calendar_bounds g tz unit now)"

definition period_has_rolled_over :: "timestamp \<Rightarrow> timestamp \<Rightarrow> bool" where
  "period_has_rolled_over current_end now = (now \<ge> current_end)"

section \<open>Accounts (lib.rs)\<close>

datatype resource_account =
    AccTenant string
  | AccUser string string
  | AccProject string string string
  | AccAgent string string "string option" string
  | AccMission string string "string option" string
  | AccThread string string "string option" "string option" string

definition cascade :: "resource_scope \<Rightarrow> resource_account list" where
  "cascade s =
    [AccTenant (rsc_tenant_id s), AccUser (rsc_tenant_id s) (rsc_user_id s)]
    @ (case rsc_project_id s of Some p \<Rightarrow> [AccProject (rsc_tenant_id s) (rsc_user_id s) p] | None \<Rightarrow> [])
    @ (case rsc_agent_id s of
         Some a \<Rightarrow> [AccAgent (rsc_tenant_id s) (rsc_user_id s) (rsc_project_id s) a] | None \<Rightarrow> [])
    @ (case rsc_mission_id s of
         Some m \<Rightarrow> [AccMission (rsc_tenant_id s) (rsc_user_id s) (rsc_project_id s) m] | None \<Rightarrow> [])
    @ (case rsc_thread_id s of
         Some t \<Rightarrow> [AccThread (rsc_tenant_id s) (rsc_user_id s) (rsc_project_id s) (rsc_mission_id s) t] | None \<Rightarrow> [])"

definition most_specific_account :: "resource_scope \<Rightarrow> resource_account" where
  "most_specific_account s = (if cascade s = [] then AccTenant (rsc_tenant_id s) else last (cascade s))"

text \<open>The label of an account, with an underscore for a missing segment.\<close>

definition slot :: "string option \<Rightarrow> string" where
  "slot x = (case x of Some v \<Rightarrow> v | None \<Rightarrow> ''_'')"

fun account_label :: "resource_account \<Rightarrow> string" where
  "account_label (AccTenant t) = ''tenant/'' @ t"
| "account_label (AccUser t u) = ''tenant/'' @ t @ ''/user/'' @ u"
| "account_label (AccProject t u p) = ''tenant/'' @ t @ ''/user/'' @ u @ ''/project/'' @ p"
| "account_label (AccAgent t u p a) = ''tenant/'' @ t @ ''/user/'' @ u @ ''/project/'' @ slot p @ ''/agent/'' @ a"
| "account_label (AccMission t u p m) = ''tenant/'' @ t @ ''/user/'' @ u @ ''/project/'' @ slot p @ ''/mission/'' @ m"
| "account_label (AccThread t u p m th) =
    ''tenant/'' @ t @ ''/user/'' @ u @ ''/project/'' @ slot p @ ''/mission/'' @ slot m @ ''/thread/'' @ th"

section \<open>Limits and tallies\<close>

record resource_limits =
  rl_max_usd :: "decimal option"
  rl_max_input_tokens :: "u64 option"
  rl_max_output_tokens :: "u64 option"
  rl_max_wall_clock_ms :: "u64 option"
  rl_max_output_bytes :: "u64 option"
  rl_max_network_egress_bytes :: "u64 option"
  rl_max_process_count :: "u32 option"
  rl_max_concurrency_slots :: "u32 option"
  rl_period :: budget_period
  rl_thresholds :: budget_thresholds

definition is_decimal_unlimited :: "decimal option \<Rightarrow> bool" where
  "is_decimal_unlimited v = (case v of None \<Rightarrow> True | Some v \<Rightarrow> v \<le> 0)"

definition is_integer_unlimited :: "u64 option \<Rightarrow> bool" where
  "is_integer_unlimited v = (v = None \<or> v = Some 0)"

definition widen :: "u32 option \<Rightarrow> u64 option" where
  "widen v = map_option ucast v"

definition is_unlimited :: "resource_limits \<Rightarrow> bool" where
  "is_unlimited l =
    (is_decimal_unlimited (rl_max_usd l) \<and> is_integer_unlimited (rl_max_input_tokens l)
     \<and> is_integer_unlimited (rl_max_output_tokens l) \<and> is_integer_unlimited (rl_max_wall_clock_ms l)
     \<and> is_integer_unlimited (rl_max_output_bytes l) \<and> is_integer_unlimited (rl_max_network_egress_bytes l)
     \<and> is_integer_unlimited (widen (rl_max_process_count l))
     \<and> is_integer_unlimited (widen (rl_max_concurrency_slots l)))"

datatype resource_dimension =
    DimUsd | DimInputTokens | DimOutputTokens | DimWallClockMs | DimOutputBytes | DimNetworkEgressBytes
  | DimProcessCount | DimConcurrencySlots

definition dimension_str :: "resource_dimension \<Rightarrow> string" where
  "dimension_str d =
    (case d of
       DimUsd \<Rightarrow> ''usd'' | DimInputTokens \<Rightarrow> ''input_tokens'' | DimOutputTokens \<Rightarrow> ''output_tokens''
     | DimWallClockMs \<Rightarrow> ''wall_clock_ms'' | DimOutputBytes \<Rightarrow> ''output_bytes''
     | DimNetworkEgressBytes \<Rightarrow> ''network_egress_bytes'' | DimProcessCount \<Rightarrow> ''process_count''
     | DimConcurrencySlots \<Rightarrow> ''concurrency_slots'')"

datatype resource_value = DecimalValue decimal | IntegerValue u64

record resource_denial =
  rd_account :: resource_account
  rd_dimension :: resource_dimension
  rd_limit :: resource_value
  rd_current_usage :: resource_value
  rd_active_reserved :: resource_value
  rd_requested :: resource_value

record resource_approval_needed =
  an_account :: resource_account
  an_dimension :: resource_dimension
  an_limit :: resource_value
  an_current_usage :: resource_value
  an_active_reserved :: resource_value
  an_requested :: resource_value
  an_utilization :: f64
  an_period_end :: "timestamp option"

record budget_warning =
  bw_account :: resource_account
  bw_dimension :: resource_dimension
  bw_utilization :: f64
  bw_limit :: resource_value
  bw_period_end :: "timestamp option"

record resource_usage =
  us_usd :: decimal
  us_input_tokens :: u64
  us_output_tokens :: u64
  us_wall_clock_ms :: u64
  us_output_bytes :: u64
  us_network_egress_bytes :: u64
  us_process_count :: u32

type_synonym resource_reservation_id = uuid

record resource_reservation =
  rv_id :: resource_reservation_id
  rv_scope :: resource_scope
  rv_estimate :: resource_estimate

datatype reservation_status = RvActive | RvReconciled | RvReleased

record resource_receipt =
  rc_id :: resource_reservation_id
  rc_scope :: resource_scope
  rc_status :: reservation_status
  rc_estimate :: resource_estimate
  rc_actual :: "resource_usage option"

datatype resource_error =
    LimitExceeded resource_denial "budget_warning list"
  | RequiresBudgetApproval resource_approval_needed "budget_warning list"
  | ReservationAlreadyExists resource_reservation_id
  | InvalidEstimate resource_dimension string
  | ReservationMismatch resource_reservation_id
  | UnknownReservation resource_reservation_id
  | ReservationClosed resource_reservation_id reservation_status
  | GovernorStorage string

record resource_tally =
  ta_usd :: decimal
  ta_input_tokens :: u64
  ta_output_tokens :: u64
  ta_wall_clock_ms :: u64
  ta_output_bytes :: u64
  ta_network_egress_bytes :: u64
  ta_process_count :: u32
  ta_concurrency_slots :: u32

definition tally_default :: resource_tally where
  "tally_default = \<lparr>ta_usd = 0, ta_input_tokens = 0, ta_output_tokens = 0, ta_wall_clock_ms = 0, ta_output_bytes = 0,
     ta_network_egress_bytes = 0, ta_process_count = 0, ta_concurrency_slots = 0\<rparr>"

definition unwrap_or_default :: "'a::zero option \<Rightarrow> 'a" where
  "unwrap_or_default v = (case v of Some x \<Rightarrow> x | None \<Rightarrow> 0)"

definition from_estimate :: "resource_estimate \<Rightarrow> resource_tally" where
  "from_estimate e = \<lparr>ta_usd = unwrap_or_default (es_usd e), ta_input_tokens = unwrap_or_default (es_input_tokens e),
     ta_output_tokens = unwrap_or_default (es_output_tokens e), ta_wall_clock_ms = unwrap_or_default (es_wall_clock_ms e),
     ta_output_bytes = unwrap_or_default (es_output_bytes e),
     ta_network_egress_bytes = unwrap_or_default (es_network_egress_bytes e),
     ta_process_count = unwrap_or_default (es_process_count e),
     ta_concurrency_slots = unwrap_or_default (es_concurrency_slots e)\<rparr>"

definition from_usage :: "resource_usage \<Rightarrow> resource_tally" where
  "from_usage u = \<lparr>ta_usd = us_usd u, ta_input_tokens = us_input_tokens u, ta_output_tokens = us_output_tokens u,
     ta_wall_clock_ms = us_wall_clock_ms u, ta_output_bytes = us_output_bytes u,
     ta_network_egress_bytes = us_network_egress_bytes u, ta_process_count = us_process_count u,
     ta_concurrency_slots = 0\<rparr>"

definition saturating_sub :: "'a::len word \<Rightarrow> 'a word \<Rightarrow> 'a word" where
  "saturating_sub a b = (if b \<le> a then a - b else 0)"

definition tally_add :: "governor_env \<Rightarrow> resource_tally \<Rightarrow> resource_tally \<Rightarrow> resource_tally" where
  "tally_add g a b =
    \<lparr>ta_usd = (case gv_checked_add g (ta_usd a) (ta_usd b) of Some v \<Rightarrow> v | None \<Rightarrow> gv_decimal_max g),
     ta_input_tokens = saturating_add (ta_input_tokens a) (ta_input_tokens b),
     ta_output_tokens = saturating_add (ta_output_tokens a) (ta_output_tokens b),
     ta_wall_clock_ms = saturating_add (ta_wall_clock_ms a) (ta_wall_clock_ms b),
     ta_output_bytes = saturating_add (ta_output_bytes a) (ta_output_bytes b),
     ta_network_egress_bytes = saturating_add (ta_network_egress_bytes a) (ta_network_egress_bytes b),
     ta_process_count = saturating_add (ta_process_count a) (ta_process_count b),
     ta_concurrency_slots = saturating_add (ta_concurrency_slots a) (ta_concurrency_slots b)\<rparr>"

definition tally_sub :: "governor_env \<Rightarrow> resource_tally \<Rightarrow> resource_tally \<Rightarrow> resource_tally" where
  "tally_sub g a b =
    \<lparr>ta_usd = (case gv_checked_sub g (ta_usd a) (ta_usd b) of Some v \<Rightarrow> max v 0 | None \<Rightarrow> 0),
     ta_input_tokens = saturating_sub (ta_input_tokens a) (ta_input_tokens b),
     ta_output_tokens = saturating_sub (ta_output_tokens a) (ta_output_tokens b),
     ta_wall_clock_ms = saturating_sub (ta_wall_clock_ms a) (ta_wall_clock_ms b),
     ta_output_bytes = saturating_sub (ta_output_bytes a) (ta_output_bytes b),
     ta_network_egress_bytes = saturating_sub (ta_network_egress_bytes a) (ta_network_egress_bytes b),
     ta_process_count = saturating_sub (ta_process_count a) (ta_process_count b),
     ta_concurrency_slots = saturating_sub (ta_concurrency_slots a) (ta_concurrency_slots b)\<rparr>"

end
