(* ===== verification/Resource_Governor.thy ===== *)
theory Resource_Governor
  imports Resource_Accounts
begin

text \<open>
  The transitions of the resource governor: the second half of \<^verbatim>\<open>ironclaw_resources/src/lib.rs\<close>. Every
  invocation reserves its estimate on each account of its scope before it runs, and is
  reconciled with what it used or released afterwards. Thresholds below the limit warn or ask for
  an approval.
\<close>

section \<open>Checks\<close>

definition or_else :: "'a option \<Rightarrow> 'a option \<Rightarrow> 'a option" where
  "or_else a b = (case a of Some x \<Rightarrow> Some x | None \<Rightarrow> b)"

definition check_decimal ::
    "governor_env \<Rightarrow> resource_account \<Rightarrow> resource_dimension \<Rightarrow> decimal option \<Rightarrow> decimal \<Rightarrow> decimal \<Rightarrow> decimal
      \<Rightarrow> resource_denial option" where
  "check_decimal g account dimension limit usage reserved requested =
    (case limit of
       None \<Rightarrow> None
     | Some limit \<Rightarrow>
        if \<not> limit > 0 then None
        else let exceeds = (case Option.bind (gv_checked_add g usage reserved) (\<lambda>subtotal. gv_checked_add g subtotal requested) of
                 Some amount \<Rightarrow> amount > limit | None \<Rightarrow> True) in
          if exceeds
          then Some \<lparr>rd_account = account, rd_dimension = dimension, rd_limit = DecimalValue limit,
                 rd_current_usage = DecimalValue usage, rd_active_reserved = DecimalValue reserved,
                 rd_requested = DecimalValue requested\<rparr>
          else None)"

definition check_integer ::
    "resource_account \<Rightarrow> resource_dimension \<Rightarrow> u64 option \<Rightarrow> u64 \<Rightarrow> u64 \<Rightarrow> u64 \<Rightarrow> resource_denial option" where
  "check_integer account dimension limit usage reserved requested =
    (case limit of
       None \<Rightarrow> None
     | Some limit \<Rightarrow>
        if \<not> limit > 0 then None
        else if saturating_add (saturating_add usage reserved) requested > limit
          then Some \<lparr>rd_account = account, rd_dimension = dimension, rd_limit = IntegerValue limit,
                 rd_current_usage = IntegerValue usage, rd_active_reserved = IntegerValue reserved,
                 rd_requested = IntegerValue requested\<rparr>
          else None)"

definition check_limits_first_denial ::
    "governor_env \<Rightarrow> resource_account \<Rightarrow> resource_limits \<Rightarrow> resource_tally \<Rightarrow> resource_tally \<Rightarrow> resource_tally
      \<Rightarrow> resource_denial option" where
  "check_limits_first_denial g account l usage reserved requested =
    or_else (check_decimal g account DimUsd (rl_max_usd l) (ta_usd usage) (ta_usd reserved) (ta_usd requested))
    (or_else (check_integer account DimInputTokens (rl_max_input_tokens l)
       (ta_input_tokens usage) (ta_input_tokens reserved) (ta_input_tokens requested))
    (or_else (check_integer account DimOutputTokens (rl_max_output_tokens l)
       (ta_output_tokens usage) (ta_output_tokens reserved) (ta_output_tokens requested))
    (or_else (check_integer account DimWallClockMs (rl_max_wall_clock_ms l)
       (ta_wall_clock_ms usage) (ta_wall_clock_ms reserved) (ta_wall_clock_ms requested))
    (or_else (check_integer account DimOutputBytes (rl_max_output_bytes l)
       (ta_output_bytes usage) (ta_output_bytes reserved) (ta_output_bytes requested))
    (or_else (check_integer account DimNetworkEgressBytes (rl_max_network_egress_bytes l)
       (ta_network_egress_bytes usage) (ta_network_egress_bytes reserved) (ta_network_egress_bytes requested))
    (or_else (check_integer account DimProcessCount (widen (rl_max_process_count l))
       (ucast (ta_process_count usage)) (ucast (ta_process_count reserved)) (ucast (ta_process_count requested)))
    (check_integer account DimConcurrencySlots (widen (rl_max_concurrency_slots l))
       (ucast (ta_concurrency_slots usage)) (ucast (ta_concurrency_slots reserved))
       (ucast (ta_concurrency_slots requested)))))))))"

datatype threshold_intervention =
    WarningIntervention budget_warning
  | ApprovalIntervention resource_approval_needed

record 'v threshold_inputs =
  ti_account :: resource_account
  ti_dimension :: resource_dimension
  ti_limit :: "'v option"
  ti_usage :: 'v
  ti_reserved :: 'v
  ti_requested :: 'v
  ti_thresholds :: budget_thresholds
  ti_period_end :: "timestamp option"

text \<open>The end both threshold functions share: what a utilization leads to.\<close>

definition intervention ::
    "('v \<Rightarrow> resource_value) \<Rightarrow> 'v threshold_inputs \<Rightarrow> 'v \<Rightarrow> f64 \<Rightarrow> threshold_intervention option" where
  "intervention val i limit utilization =
    (if f64_lt (bt_pause_at (ti_thresholds i)) (F64 1) \<and> f64_le (bt_pause_at (ti_thresholds i)) utilization
     then Some (ApprovalIntervention
       \<lparr>an_account = ti_account i, an_dimension = ti_dimension i, an_limit = val limit,
        an_current_usage = val (ti_usage i), an_active_reserved = val (ti_reserved i),
        an_requested = val (ti_requested i), an_utilization = utilization, an_period_end = ti_period_end i\<rparr>)
     else if f64_lt (bt_warn_at (ti_thresholds i)) (F64 1) \<and> f64_le (bt_warn_at (ti_thresholds i)) utilization
     then Some (WarningIntervention
       \<lparr>bw_account = ti_account i, bw_dimension = ti_dimension i, bw_utilization = utilization, bw_limit = val limit,
        bw_period_end = ti_period_end i\<rparr>)
     else None)"

definition decimal_to_f64 :: "governor_env \<Rightarrow> decimal \<Rightarrow> f64" where
  "decimal_to_f64 g d = (case gv_to_f64 g d of Some x \<Rightarrow> x | None \<Rightarrow> F64 0)"

definition threshold_decimal :: "governor_env \<Rightarrow> decimal threshold_inputs \<Rightarrow> threshold_intervention option" where
  "threshold_decimal g i =
    (case ti_limit i of
       None \<Rightarrow> None
     | Some limit \<Rightarrow>
        if \<not> limit > 0 then None
        else case Option.bind (gv_checked_add g (ti_usage i) (ti_reserved i)) (\<lambda>t. gv_checked_add g t (ti_requested i)) of
            None \<Rightarrow> None
          | Some amount \<Rightarrow>
              intervention DecimalValue i limit (f64_div (decimal_to_f64 g amount) (decimal_to_f64 g limit)))"

definition threshold_integer :: "u64 threshold_inputs \<Rightarrow> threshold_intervention option" where
  "threshold_integer i =
    (case ti_limit i of
       None \<Rightarrow> None
     | Some limit \<Rightarrow>
        if \<not> limit > 0 then None
        else intervention IntegerValue i limit
          (f64_div (f64_of_u64 (saturating_add (saturating_add (ti_usage i) (ti_reserved i)) (ti_requested i)))
             (f64_of_u64 limit)))"

text \<open>The closure \<^verbatim>\<open>absorb\<close>: a pause is recorded as a warning too, and the first one is kept.\<close>

definition absorb ::
    "threshold_intervention option \<Rightarrow> budget_warning list \<times> resource_approval_needed option
      \<Rightarrow> budget_warning list \<times> resource_approval_needed option" where
  "absorb i acc =
    (case acc of (warnings, approval) \<Rightarrow>
     case i of
       None \<Rightarrow> acc
     | Some (WarningIntervention w) \<Rightarrow> (warnings @ [w], approval)
     | Some (ApprovalIntervention n) \<Rightarrow>
        (warnings @ [\<lparr>bw_account = an_account n, bw_dimension = an_dimension n, bw_utilization = an_utilization n,
           bw_limit = an_limit n, bw_period_end = an_period_end n\<rparr>],
         if approval = None then Some n else approval))"

definition integer_inputs ::
    "resource_limits \<Rightarrow> resource_tally \<Rightarrow> resource_tally \<Rightarrow> resource_tally
      \<Rightarrow> (resource_dimension \<times> u64 option \<times> u64 \<times> u64 \<times> u64) list" where
  "integer_inputs l usage reserved requested =
    [(DimInputTokens, rl_max_input_tokens l, ta_input_tokens usage, ta_input_tokens reserved, ta_input_tokens requested),
     (DimOutputTokens, rl_max_output_tokens l, ta_output_tokens usage, ta_output_tokens reserved, ta_output_tokens requested),
     (DimWallClockMs, rl_max_wall_clock_ms l, ta_wall_clock_ms usage, ta_wall_clock_ms reserved, ta_wall_clock_ms requested),
     (DimOutputBytes, rl_max_output_bytes l, ta_output_bytes usage, ta_output_bytes reserved, ta_output_bytes requested),
     (DimNetworkEgressBytes, rl_max_network_egress_bytes l, ta_network_egress_bytes usage,
        ta_network_egress_bytes reserved, ta_network_egress_bytes requested),
     (DimProcessCount, widen (rl_max_process_count l), ucast (ta_process_count usage),
        ucast (ta_process_count reserved), ucast (ta_process_count requested)),
     (DimConcurrencySlots, widen (rl_max_concurrency_slots l), ucast (ta_concurrency_slots usage),
        ucast (ta_concurrency_slots reserved), ucast (ta_concurrency_slots requested))]"

definition check_thresholds_all_interventions ::
    "governor_env \<Rightarrow> resource_account \<Rightarrow> resource_limits \<Rightarrow> resource_tally \<Rightarrow> resource_tally \<Rightarrow> resource_tally
      \<Rightarrow> timestamp option \<Rightarrow> budget_warning list \<times> resource_approval_needed option" where
  "check_thresholds_all_interventions g account l usage reserved requested period_end =
    (if f64_le (F64 1) (bt_pause_at (rl_thresholds l)) \<and> f64_le (F64 1) (bt_warn_at (rl_thresholds l)) then ([], None)
     else
       fold (\<lambda>(dimension, limit, usage_v, reserved_v, requested_v). absorb (threshold_integer
           \<lparr>ti_account = account, ti_dimension = dimension, ti_limit = limit, ti_usage = usage_v,
            ti_reserved = reserved_v, ti_requested = requested_v, ti_thresholds = rl_thresholds l,
            ti_period_end = period_end\<rparr>))
         (integer_inputs l usage reserved requested)
         (absorb (threshold_decimal g
             \<lparr>ti_account = account, ti_dimension = DimUsd, ti_limit = rl_max_usd l, ti_usage = ta_usd usage,
              ti_reserved = ta_usd reserved, ti_requested = ta_usd requested, ti_thresholds = rl_thresholds l,
              ti_period_end = period_end\<rparr>) ([], None)))"

datatype cascade_outcome =
    CascadeAllow "budget_warning list"
  | CascadeRequiresApproval "budget_warning list" resource_approval_needed
  | CascadeDeny "budget_warning list" resource_denial

definition evaluate_cascade_for_account ::
    "governor_env \<Rightarrow> resource_account \<Rightarrow> resource_limits \<Rightarrow> resource_tally \<Rightarrow> resource_tally \<Rightarrow> resource_tally
      \<Rightarrow> timestamp option \<Rightarrow> cascade_outcome" where
  "evaluate_cascade_for_account g account l usage reserved requested period_end =
    (let (warnings, approval) = check_thresholds_all_interventions g account l usage reserved requested period_end in
     case check_limits_first_denial g account l usage reserved requested of
       Some denial \<Rightarrow> CascadeDeny warnings denial
     | None \<Rightarrow>
        (case approval of
           Some needed \<Rightarrow> CascadeRequiresApproval warnings needed
         | None \<Rightarrow> CascadeAllow warnings))"

section \<open>State\<close>

record reservation_record =
  rrec_reservation :: resource_reservation
  rrec_accounts :: "resource_account list"
  rrec_tally :: resource_tally
  rrec_status :: reservation_status
  rrec_actual :: "resource_usage option"

record resource_state =
  gs_limits :: "(resource_account, resource_limits) hmap"
  gs_reserved_by_account :: "(resource_account, resource_tally) hmap"
  gs_usage_by_account :: "(resource_account, resource_tally) hmap"
  gs_reservations :: "(resource_reservation_id, reservation_record) hmap"
  gs_period_anchors :: "(resource_account, timestamp) hmap"

definition resource_state_default :: resource_state where
  "resource_state_default = \<lparr>gs_limits = [], gs_reserved_by_account = [], gs_usage_by_account = [], gs_reservations = [],
     gs_period_anchors = []\<rparr>"

text \<open>\<^verbatim>\<open>get(account).cloned().unwrap_or_default()\<close>.\<close>

definition tally_of :: "resource_account \<Rightarrow> (resource_account, resource_tally) hmap \<Rightarrow> resource_tally" where
  "tally_of account m = (case hm_get m account of Some t \<Rightarrow> t | None \<Rightarrow> tally_default)"

definition set_limit_in_state ::
    "governor_env \<Rightarrow> resource_account \<Rightarrow> resource_limits \<Rightarrow> timestamp \<Rightarrow> resource_state \<Rightarrow> resource_state" where
  "set_limit_in_state g account limits now s =
    (let s = (if map_option rl_period (hm_get (gs_limits s) account) \<noteq> Some (rl_period limits)
              then s\<lparr>gs_usage_by_account := hm_remove account (gs_usage_by_account s),
                     gs_period_anchors := hm_remove account (gs_period_anchors s)\<rparr>
              else s) in
     s\<lparr>gs_limits := hm_insert account limits (gs_limits s),
       gs_period_anchors := hm_insert account (snd (period_bounds g (rl_period limits) now)) (gs_period_anchors s)\<rparr>)"

definition advance_period_if_rolled_over ::
    "governor_env \<Rightarrow> resource_account \<Rightarrow> timestamp \<Rightarrow> resource_state \<Rightarrow> resource_state" where
  "advance_period_if_rolled_over g account now s =
    (case hm_get (gs_limits s) account of
       None \<Rightarrow> s
     | Some limits \<Rightarrow>
        if rl_period limits = PerInvocation then s
        else let needs_advance = (case hm_get (gs_period_anchors s) account of
                 Some anchor \<Rightarrow> period_has_rolled_over anchor now | None \<Rightarrow> True) in
          if needs_advance
          then s\<lparr>gs_usage_by_account := hm_remove account (gs_usage_by_account s),
                 gs_period_anchors := hm_insert account (snd (period_bounds g (rl_period limits) now)) (gs_period_anchors s)\<rparr>
          else s)"

definition validate_estimate :: "resource_estimate \<Rightarrow> resource_error + unit" where
  "validate_estimate e =
    (case es_usd e of
       Some usd \<Rightarrow> if usd < 0 then Err (InvalidEstimate DimUsd ''must be non-negative'') else Ok ()
     | None \<Rightarrow> Ok ())"

definition validate_usage :: "resource_usage \<Rightarrow> resource_error + unit" where
  "validate_usage u = (if us_usd u < 0 then Err (InvalidEstimate DimUsd ''must be non-negative'') else Ok ())"

record reservation_outcome =
  ro_reservation :: resource_reservation
  ro_warnings :: "budget_warning list"

text \<open>The loop over the accounts of the cascade.\<close>

fun evaluate_accounts ::
    "governor_env \<Rightarrow> resource_state \<Rightarrow> resource_tally \<Rightarrow> resource_account list \<Rightarrow> budget_warning list
      \<Rightarrow> resource_error + budget_warning list" where
  "evaluate_accounts g s requested [] warnings = Ok warnings"
| "evaluate_accounts g s requested (account # accounts) warnings =
    (case hm_get (gs_limits s) account of
       None \<Rightarrow> evaluate_accounts g s requested accounts warnings
     | Some limits \<Rightarrow>
        (case evaluate_cascade_for_account g account limits (tally_of account (gs_usage_by_account s))
            (tally_of account (gs_reserved_by_account s)) requested (hm_get (gs_period_anchors s) account) of
           CascadeAllow ws \<Rightarrow> evaluate_accounts g s requested accounts (warnings @ ws)
         | CascadeRequiresApproval ws needed \<Rightarrow> Err (RequiresBudgetApproval needed (warnings @ ws))
         | CascadeDeny ws denial \<Rightarrow> Err (LimitExceeded denial (warnings @ ws))))"

definition hold :: "governor_env \<Rightarrow> resource_tally \<Rightarrow> resource_account \<Rightarrow> resource_state \<Rightarrow> resource_state" where
  "hold g requested account s = s\<lparr>gs_reserved_by_account :=
     hm_insert account (tally_add g (tally_of account (gs_reserved_by_account s)) requested) (gs_reserved_by_account s)\<rparr>"

definition reserve_with_outcome_in_state ::
    "governor_env \<Rightarrow> resource_scope \<Rightarrow> resource_estimate \<Rightarrow> resource_reservation_id \<Rightarrow> timestamp \<Rightarrow> resource_state
      \<Rightarrow> (resource_error + reservation_outcome) \<times> resource_state" where
  "reserve_with_outcome_in_state g scope e i now s =
    (case validate_estimate e of
       Err err \<Rightarrow> (Err err, s)
     | Ok _ \<Rightarrow>
        if hm_contains_key i (gs_reservations s) then (Err (ReservationAlreadyExists i), s)
        else let accounts = cascade scope;
                 requested = from_estimate e;
                 s = fold (\<lambda>a. advance_period_if_rolled_over g a now) accounts s in
          (case evaluate_accounts g s requested accounts [] of
             Err err \<Rightarrow> (Err err, s)
           | Ok warnings \<Rightarrow>
              let reservation = \<lparr>rv_id = i, rv_scope = scope, rv_estimate = e\<rparr>;
                  s = fold (hold g requested) accounts s in
              (Ok \<lparr>ro_reservation = reservation, ro_warnings = warnings\<rparr>,
               s\<lparr>gs_reservations := hm_insert i \<lparr>rrec_reservation = reservation, rrec_accounts = accounts,
                   rrec_tally = requested, rrec_status = RvActive, rrec_actual = None\<rparr> (gs_reservations s)\<rparr>)))"

definition unhold :: "governor_env \<Rightarrow> resource_tally \<Rightarrow> resource_account \<Rightarrow> resource_state \<Rightarrow> resource_state" where
  "unhold g tally account s = s\<lparr>gs_reserved_by_account :=
     hm_insert account (tally_sub g (tally_of account (gs_reserved_by_account s)) tally) (gs_reserved_by_account s)\<rparr>"

definition charge :: "governor_env \<Rightarrow> resource_tally \<Rightarrow> resource_account \<Rightarrow> resource_state \<Rightarrow> resource_state" where
  "charge g used account s = s\<lparr>gs_usage_by_account :=
     hm_insert account (tally_add g (tally_of account (gs_usage_by_account s)) used) (gs_usage_by_account s)\<rparr>"

definition reconcile_in_state ::
    "governor_env \<Rightarrow> resource_reservation_id \<Rightarrow> resource_usage \<Rightarrow> timestamp \<Rightarrow> resource_state
      \<Rightarrow> (resource_error + resource_receipt) \<times> resource_state" where
  "reconcile_in_state g i actual now s =
    (case hm_get (gs_reservations s) i of
       None \<Rightarrow> (Err (UnknownReservation i), s\<lparr>gs_reservations := hm_remove i (gs_reservations s)\<rparr>)
     | Some r \<Rightarrow>
        let s = s\<lparr>gs_reservations := hm_remove i (gs_reservations s)\<rparr> in
        if rrec_status r \<noteq> RvActive
        then (Err (ReservationClosed i (rrec_status r)), s\<lparr>gs_reservations := hm_insert i r (gs_reservations s)\<rparr>)
        else case validate_usage actual of
            Err err \<Rightarrow> (Err err, s\<lparr>gs_reservations := hm_insert i r (gs_reservations s)\<rparr>)
          | Ok _ \<Rightarrow>
             let s = fold (\<lambda>a s. charge g (from_usage actual) a (unhold g (rrec_tally r) a
                       (advance_period_if_rolled_over g a now s))) (rrec_accounts r) s;
                 r = r\<lparr>rrec_status := RvReconciled, rrec_actual := Some actual\<rparr> in
             (Ok \<lparr>rc_id = i, rc_scope = rv_scope (rrec_reservation r), rc_status = RvReconciled,
                rc_estimate = rv_estimate (rrec_reservation r), rc_actual = Some actual\<rparr>,
              s\<lparr>gs_reservations := hm_insert i r (gs_reservations s)\<rparr>))"

definition release_in_state ::
    "governor_env \<Rightarrow> resource_reservation_id \<Rightarrow> timestamp \<Rightarrow> resource_state
      \<Rightarrow> (resource_error + resource_receipt) \<times> resource_state" where
  "release_in_state g i now s =
    (case hm_get (gs_reservations s) i of
       None \<Rightarrow> (Err (UnknownReservation i), s\<lparr>gs_reservations := hm_remove i (gs_reservations s)\<rparr>)
     | Some r \<Rightarrow>
        let s = s\<lparr>gs_reservations := hm_remove i (gs_reservations s)\<rparr> in
        if rrec_status r \<noteq> RvActive
        then (Err (ReservationClosed i (rrec_status r)), s\<lparr>gs_reservations := hm_insert i r (gs_reservations s)\<rparr>)
        else
          let s = fold (\<lambda>a s. unhold g (rrec_tally r) a (advance_period_if_rolled_over g a now s)) (rrec_accounts r) s;
              r = r\<lparr>rrec_status := RvReleased\<rparr> in
          (Ok \<lparr>rc_id = i, rc_scope = rv_scope (rrec_reservation r), rc_status = RvReleased,
             rc_estimate = rv_estimate (rrec_reservation r), rc_actual = None\<rparr>,
           s\<lparr>gs_reservations := hm_insert i r (gs_reservations s)\<rparr>))"

record period_ledger =
  pl_period_start :: timestamp
  pl_period_end :: timestamp
  pl_spent :: resource_tally
  pl_reserved :: resource_tally

record account_snapshot =
  as_account :: resource_account
  as_limits :: "resource_limits option"
  as_ledger :: period_ledger

definition account_snapshot_in_state ::
    "governor_env \<Rightarrow> resource_account \<Rightarrow> timestamp \<Rightarrow> resource_state \<Rightarrow> account_snapshot option \<times> resource_state" where
  "account_snapshot_in_state g account now s =
    (let s = advance_period_if_rolled_over g account now s;
         limits = hm_get (gs_limits s) account;
         reserved = tally_of account (gs_reserved_by_account s);
         spent = tally_of account (gs_usage_by_account s) in
     if limits = None \<and> reserved = tally_default \<and> spent = tally_default then (None, s)
     else let period = (case limits of Some l \<Rightarrow> rl_period l | None \<Rightarrow> PerInvocation);
              (period_start, period_end) = (case (hm_get (gs_period_anchors s) account, period) of
                  (Some e, Rolling24h) \<Rightarrow> (e - 24 * gv_hour g, e)
                | _ \<Rightarrow> period_bounds g period now) in
       (Some \<lparr>as_account = account, as_limits = limits, as_ledger = \<lparr>pl_period_start = period_start,
          pl_period_end = period_end, pl_spent = spent, pl_reserved = reserved\<rparr>\<rparr>, s))"

end
