(* ===== verification/Budget_Gate.thy ===== *)
theory Budget_Gate
  imports Resource_Governor
begin

text \<open>
  Budget approval gates, budget events and the in-memory governor:
  \<^verbatim>\<open>ironclaw_resources/src/{gate,event}.rs\<close> and \<^verbatim>\<open>InMemoryResourceGovernor\<close> of \<^verbatim>\<open>lib.rs\<close>. The event sink is a
  trait whose answer is not used; the model keeps the events it was given.
\<close>

section \<open>Gates (gate.rs)\<close>

type_synonym budget_gate_id = uuid

datatype budget_gate_status =
    GatePending
  | GateApproved resource_limits string timestamp
  | GateCancelled string timestamp
  | GateExpired timestamp

definition gate_is_terminal :: "budget_gate_status \<Rightarrow> bool" where
  "gate_is_terminal st = (st \<noteq> GatePending)"

record budget_approval_gate =
  bg_id :: budget_gate_id
  bg_needed :: resource_approval_needed
  bg_opened_at :: timestamp
  bg_expires_at :: timestamp
  bg_status :: budget_gate_status

datatype budget_gate_outcome = OutcomeApprove resource_limits string | OutcomeCancel string

datatype budget_gate_error =
    GateUnknown budget_gate_id
  | GateAlreadyResolved budget_gate_id
  | GateStorage string

type_synonym gate_store = "(budget_gate_id, budget_approval_gate) hmap"

definition gate_open :: "budget_approval_gate \<Rightarrow> gate_store \<Rightarrow> gate_store" where
  "gate_open b m = hm_insert (bg_id b) b m"

definition gate_resolve ::
    "budget_gate_id \<Rightarrow> budget_gate_outcome \<Rightarrow> timestamp \<Rightarrow> gate_store
      \<Rightarrow> (budget_gate_error + budget_approval_gate) \<times> gate_store" where
  "gate_resolve i out now m =
    (case hm_get m i of
       None \<Rightarrow> (Err (GateUnknown i), m)
     | Some b \<Rightarrow>
        if gate_is_terminal (bg_status b) then (Err (GateAlreadyResolved i), m)
        else let b = b\<lparr>bg_status := (case out of
                 OutcomeApprove limits by \<Rightarrow> GateApproved limits by now
               | OutcomeCancel by \<Rightarrow> GateCancelled by now)\<rparr> in
          (Ok b, hm_insert i b m))"

definition gate_expires :: "timestamp \<Rightarrow> budget_approval_gate \<Rightarrow> bool" where
  "gate_expires cutoff b = (bg_status b = GatePending \<and> bg_expires_at b \<le> cutoff)"

definition expire_pending_older_than ::
    "timestamp \<Rightarrow> gate_store \<Rightarrow> budget_approval_gate list \<times> gate_store" where
  "expire_pending_older_than cutoff m =
    (map (\<lambda>b. b\<lparr>bg_status := GateExpired cutoff\<rparr>) (filter (gate_expires cutoff) (hm_values m)),
     map (\<lambda>(i, b). (i, if gate_expires cutoff b then b\<lparr>bg_status := GateExpired cutoff\<rparr> else b)) m)"

definition gate_get :: "budget_gate_id \<Rightarrow> gate_store \<Rightarrow> budget_approval_gate option" where
  "gate_get i m = hm_get m i"

definition list_pending :: "gate_store \<Rightarrow> budget_approval_gate list" where
  "list_pending m = filter (\<lambda>b. bg_status b = GatePending) (hm_values m)"

section \<open>Events (event.rs)\<close>

datatype budget_event =
    EvReserved resource_account resource_reservation "budget_warning list" timestamp
  | EvReconciled resource_account resource_receipt timestamp
  | EvReleased resource_account resource_receipt timestamp
  | EvWarned budget_warning timestamp
  | EvDenied resource_denial timestamp
  | EvApprovalRequested resource_approval_needed timestamp
  | EvGateOpened budget_gate_id resource_approval_needed timestamp
  | EvApprovalResolved budget_approval_gate budget_gate_outcome timestamp
  | EvLimitChanged resource_account timestamp

section \<open>The in-memory governor (lib.rs)\<close>

record governor =
  gov_state :: resource_state
  gov_events :: "budget_event list"

definition emit :: "budget_event list \<Rightarrow> governor \<Rightarrow> governor" where
  "emit es v = v\<lparr>gov_events := gov_events v @ es\<rparr>"

definition reserve_events :: "resource_error + reservation_outcome \<Rightarrow> timestamp \<Rightarrow> budget_event list" where
  "reserve_events result now =
    (case result of
       Ok outcome \<Rightarrow> map (\<lambda>w. EvWarned w now) (ro_warnings outcome)
         @ [EvReserved (most_specific_account (rv_scope (ro_reservation outcome))) (ro_reservation outcome)
              (ro_warnings outcome) now]
     | Err (RequiresBudgetApproval needed warnings) \<Rightarrow>
         map (\<lambda>w. EvWarned w now) warnings @ [EvApprovalRequested needed now]
     | Err (LimitExceeded denial warnings) \<Rightarrow> map (\<lambda>w. EvWarned w now) warnings @ [EvDenied denial now]
     | Err _ \<Rightarrow> [])"

definition governor_set_limit ::
    "governor_env \<Rightarrow> timestamp \<Rightarrow> resource_account \<Rightarrow> resource_limits \<Rightarrow> governor \<Rightarrow> (resource_error + unit) \<times> governor" where
  "governor_set_limit g now account limits v =
    (Ok (), emit [EvLimitChanged account now] (v\<lparr>gov_state := set_limit_in_state g account limits now (gov_state v)\<rparr>))"

definition reserve_with_id_and_outcome ::
    "governor_env \<Rightarrow> timestamp \<Rightarrow> resource_scope \<Rightarrow> resource_estimate \<Rightarrow> resource_reservation_id \<Rightarrow> governor
      \<Rightarrow> (resource_error + reservation_outcome) \<times> governor" where
  "reserve_with_id_and_outcome g now scope e i v =
    (let (result, s) = reserve_with_outcome_in_state g scope e i now (gov_state v) in
     (result, emit (reserve_events result now) (v\<lparr>gov_state := s\<rparr>)))"

definition governor_reconcile ::
    "governor_env \<Rightarrow> timestamp \<Rightarrow> resource_reservation_id \<Rightarrow> resource_usage \<Rightarrow> governor
      \<Rightarrow> (resource_error + resource_receipt) \<times> governor" where
  "governor_reconcile g now i actual v =
    (let (result, s) = reconcile_in_state g i actual now (gov_state v) in
     (result, emit (case result of
         Ok receipt \<Rightarrow> [EvReconciled (most_specific_account (rc_scope receipt)) receipt now] | Err _ \<Rightarrow> [])
       (v\<lparr>gov_state := s\<rparr>)))"

definition governor_release ::
    "governor_env \<Rightarrow> timestamp \<Rightarrow> resource_reservation_id \<Rightarrow> governor
      \<Rightarrow> (resource_error + resource_receipt) \<times> governor" where
  "governor_release g now i v =
    (let (result, s) = release_in_state g i now (gov_state v) in
     (result, emit (case result of
         Ok receipt \<Rightarrow> [EvReleased (most_specific_account (rc_scope receipt)) receipt now] | Err _ \<Rightarrow> [])
       (v\<lparr>gov_state := s\<rparr>)))"

definition governor_account_snapshot ::
    "governor_env \<Rightarrow> timestamp \<Rightarrow> resource_account \<Rightarrow> governor \<Rightarrow> account_snapshot option \<times> governor" where
  "governor_account_snapshot g now account v =
    (let (snap, s) = account_snapshot_in_state g account now (gov_state v) in (snap, v\<lparr>gov_state := s\<rparr>))"

definition reserved_for :: "governor_env \<Rightarrow> timestamp \<Rightarrow> resource_account \<Rightarrow> governor \<Rightarrow> resource_tally \<times> governor" where
  "reserved_for g now account v =
    (let s = advance_period_if_rolled_over g account now (gov_state v) in
     (tally_of account (gs_reserved_by_account s), v\<lparr>gov_state := s\<rparr>))"

definition usage_for :: "governor_env \<Rightarrow> timestamp \<Rightarrow> resource_account \<Rightarrow> governor \<Rightarrow> resource_tally \<times> governor" where
  "usage_for g now account v =
    (let s = advance_period_if_rolled_over g account now (gov_state v) in
     (tally_of account (gs_usage_by_account s), v\<lparr>gov_state := s\<rparr>))"

end
