(* ===== verification/Governor_Guarantees.thy ===== *)
theory Governor_Guarantees
  imports Budget_Gate
begin

text \<open>
  Guarantees of the resource governor: a successful reservation fits every account of its cascade,
  the ledger of holds is the sum of the active reservations, spending stays within the limit as long
  as estimates are honest, a reservation is closed once, and what changing a limit does to
  what was already spent.
\<close>

section \<open>Integer dimensions\<close>

text \<open>The amount and the limit of an integer dimension as natural numbers. A limit of zero is no limit, and a
  limit of the largest 64-bit number cannot be exceeded by a saturating sum.\<close>

fun amount_of :: "resource_dimension \<Rightarrow> resource_tally \<Rightarrow> nat" where
  "amount_of DimUsd t = 0"
| "amount_of DimInputTokens t = unat (ta_input_tokens t)"
| "amount_of DimOutputTokens t = unat (ta_output_tokens t)"
| "amount_of DimWallClockMs t = unat (ta_wall_clock_ms t)"
| "amount_of DimOutputBytes t = unat (ta_output_bytes t)"
| "amount_of DimNetworkEgressBytes t = unat (ta_network_egress_bytes t)"
| "amount_of DimProcessCount t = unat (ta_process_count t)"
| "amount_of DimConcurrencySlots t = unat (ta_concurrency_slots t)"

fun width_of :: "resource_dimension \<Rightarrow> nat" where
  "width_of DimProcessCount = 32"
| "width_of DimConcurrencySlots = 32"
| "width_of _ = 64"

fun raw_limit :: "resource_dimension \<Rightarrow> resource_limits \<Rightarrow> u64 option" where
  "raw_limit DimUsd l = None"
| "raw_limit DimInputTokens l = rl_max_input_tokens l"
| "raw_limit DimOutputTokens l = rl_max_output_tokens l"
| "raw_limit DimWallClockMs l = rl_max_wall_clock_ms l"
| "raw_limit DimOutputBytes l = rl_max_output_bytes l"
| "raw_limit DimNetworkEgressBytes l = rl_max_network_egress_bytes l"
| "raw_limit DimProcessCount l = widen (rl_max_process_count l)"
| "raw_limit DimConcurrencySlots l = widen (rl_max_concurrency_slots l)"

definition limit_of :: "resource_dimension \<Rightarrow> resource_limits \<Rightarrow> nat option" where
  "limit_of d l =
    (case raw_limit d l of
       Some n \<Rightarrow> if 0 < n \<and> unat n < 2 ^ 64 - 1 then Some (unat n) else None
     | None \<Rightarrow> None)"

lemma unat_saturating_sub: "unat (saturating_sub a b) = unat a - unat (b :: 'a::len word)"
  by (simp add: saturating_sub_def unat_sub word_le_nat_alt)

lemma amount_add:
  "d \<noteq> DimUsd \<Longrightarrow> amount_of d (tally_add g a b) = min (amount_of d a + amount_of d b) (2 ^ width_of d - 1)"
  by (cases d) (simp_all add: tally_add_def unat_saturating_add)

lemma amount_sub: "amount_of d (tally_sub g a b) = amount_of d a - amount_of d b"
  by (cases d) (simp_all add: tally_sub_def unat_saturating_sub)

lemma amount_default [simp]: "amount_of d tally_default = 0"
  by (cases d) (simp_all add: tally_default_def)

lemma unat_widen: "unat (ucast (x :: u32) :: u64) = unat x"
proof -
  have "unat x < 2 ^ LENGTH(32)" by (rule unsigned_less)
  then have "unat x < 2 ^ 64" by simp
  then show ?thesis by (simp add: unsigned_ucast_eq take_bit_nat_eq_self)
qed

lemma or_else_None: "or_else a b = None \<longleftrightarrow> a = None \<and> b = None"
  by (simp add: or_else_def split: option.splits)

lemma check_integer_None:
  "check_integer account d c u r q = None \<longleftrightarrow>
    (\<forall>n. c = Some n \<longrightarrow> 0 < n \<longrightarrow> min (min (unat u + unat r) (2 ^ 64 - 1) + unat q) (2 ^ 64 - 1) \<le> unat n)"
  by (auto simp: check_integer_def word_less_nat_alt unat_saturating_add not_less split: option.splits)

lemma limit_le_width: "limit_of d l = Some n \<Longrightarrow> n < 2 ^ width_of d"
proof (cases d)
  case DimProcessCount
  assume "limit_of d l = Some n"
  then show ?thesis using DimProcessCount unsigned_less [of "the (rl_max_process_count l)"]
    by (auto simp: limit_of_def widen_def unat_widen split: option.splits if_splits)
next
  case DimConcurrencySlots
  assume "limit_of d l = Some n"
  then show ?thesis using DimConcurrencySlots unsigned_less [of "the (rl_max_concurrency_slots l)"]
    by (auto simp: limit_of_def widen_def unat_widen split: option.splits if_splits)
qed (auto simp: limit_of_def split: option.splits if_splits)

lemma no_denial_within:
  assumes "check_limits_first_denial g account l u r q = None" "limit_of d l = Some n"
  shows "amount_of d u + amount_of d r + amount_of d q \<le> n"
  using assms
  by (cases d) (auto simp: check_limits_first_denial_def or_else_None check_integer_None limit_of_def
    unat_widen split: option.splits if_splits)

section \<open>Ledgers\<close>

lemma tally_of_insert [simp]: "tally_of a (hm_insert b t m) = (if a = b then t else tally_of a m)"
  by (simp add: tally_of_def)

lemma tally_of_remove [simp]: "tally_of a (hm_remove b m) = (if a = b then tally_default else tally_of a m)"
  by (simp add: tally_of_def)

lemma tally_of_Nil [simp]: "tally_of a [] = tally_default"
  by (simp add: tally_of_def)

lemma cascade_distinct: "distinct (cascade scope)"
  by (simp add: cascade_def split: option.splits)

text \<open>What a step of the governor leaves of the other fields.\<close>

lemma advance_fields [simp]:
  "gs_limits (advance_period_if_rolled_over g a now s) = gs_limits s"
  "gs_reserved_by_account (advance_period_if_rolled_over g a now s) = gs_reserved_by_account s"
  "gs_reservations (advance_period_if_rolled_over g a now s) = gs_reservations s"
  by (simp_all add: advance_period_if_rolled_over_def Let_def split: option.splits)

lemma advance_usage:
  "tally_of b (gs_usage_by_account (advance_period_if_rolled_over g a now s)) =
    (if a = b \<and> tally_of b (gs_usage_by_account (advance_period_if_rolled_over g a now s)) = tally_default then tally_default
     else tally_of b (gs_usage_by_account s))"
  by (auto simp: advance_period_if_rolled_over_def Let_def split: option.splits)

lemma hold_fields [simp]:
  "gs_limits (hold g q a s) = gs_limits s" "gs_usage_by_account (hold g q a s) = gs_usage_by_account s"
  "gs_reservations (hold g q a s) = gs_reservations s" "gs_period_anchors (hold g q a s) = gs_period_anchors s"
  "tally_of b (gs_reserved_by_account (hold g q a s)) =
    (if b = a then tally_add g (tally_of a (gs_reserved_by_account s)) q else tally_of b (gs_reserved_by_account s))"
  by (simp_all add: hold_def)

lemma unhold_fields [simp]:
  "gs_limits (unhold g q a s) = gs_limits s" "gs_usage_by_account (unhold g q a s) = gs_usage_by_account s"
  "gs_reservations (unhold g q a s) = gs_reservations s" "gs_period_anchors (unhold g q a s) = gs_period_anchors s"
  "tally_of b (gs_reserved_by_account (unhold g q a s)) =
    (if b = a then tally_sub g (tally_of a (gs_reserved_by_account s)) q else tally_of b (gs_reserved_by_account s))"
  by (simp_all add: unhold_def)

lemma charge_fields [simp]:
  "gs_limits (charge g q a s) = gs_limits s" "gs_reserved_by_account (charge g q a s) = gs_reserved_by_account s"
  "gs_reservations (charge g q a s) = gs_reservations s" "gs_period_anchors (charge g q a s) = gs_period_anchors s"
  "tally_of b (gs_usage_by_account (charge g q a s)) =
    (if b = a then tally_add g (tally_of a (gs_usage_by_account s)) q else tally_of b (gs_usage_by_account s))"
  by (simp_all add: charge_def)

text \<open>The loops over the accounts of a cascade treat every account once.\<close>

definition roll :: "governor_env \<Rightarrow> timestamp \<Rightarrow> resource_account list \<Rightarrow> resource_state \<Rightarrow> resource_state" where
  "roll g now = fold (\<lambda>a. advance_period_if_rolled_over g a now)"

lemma roll_fields [simp]:
  "gs_limits (roll g now as s) = gs_limits s"
  "gs_reserved_by_account (roll g now as s) = gs_reserved_by_account s"
  "gs_reservations (roll g now as s) = gs_reservations s"
  by (induction as arbitrary: s) (simp_all add: roll_def)

lemma roll_usage_le: "amount_of d (tally_of b (gs_usage_by_account (roll g now as s))) \<le> amount_of d (tally_of b (gs_usage_by_account s))"
proof (induction as arbitrary: s)
  case (Cons a as)
  have "amount_of d (tally_of b (gs_usage_by_account (advance_period_if_rolled_over g a now s)))
    \<le> amount_of d (tally_of b (gs_usage_by_account s))"
    using advance_usage [of b g a now s] by (auto split: if_splits)
  then show ?case using Cons.IH [of "advance_period_if_rolled_over g a now s"] by (simp add: roll_def)
qed (simp add: roll_def)

lemma fold_hold_fields [simp]:
  "gs_limits (fold (hold g q) as s) = gs_limits s" "gs_usage_by_account (fold (hold g q) as s) = gs_usage_by_account s"
  "gs_reservations (fold (hold g q) as s) = gs_reservations s"
  "gs_period_anchors (fold (hold g q) as s) = gs_period_anchors s"
  by (induction as arbitrary: s) simp_all

lemma fold_hold_reserved:
  assumes "distinct as"
  shows "tally_of b (gs_reserved_by_account (fold (hold g q) as s)) =
    (if b \<in> set as then tally_add g (tally_of b (gs_reserved_by_account s)) q else tally_of b (gs_reserved_by_account s))"
  using assms by (induction as arbitrary: s) auto

definition settle ::
    "governor_env \<Rightarrow> resource_tally \<Rightarrow> resource_tally option \<Rightarrow> timestamp \<Rightarrow> resource_account list \<Rightarrow> resource_state \<Rightarrow> resource_state" where
  "settle g tally used now = fold (\<lambda>a s.
    let s = unhold g tally a (advance_period_if_rolled_over g a now s) in
    case used of Some u \<Rightarrow> charge g u a s | None \<Rightarrow> s)"

lemma settle_fields [simp]:
  "gs_limits (settle g tally used now as s) = gs_limits s"
  "gs_reservations (settle g tally used now as s) = gs_reservations s"
  by (induction as arbitrary: s) (simp_all add: settle_def Let_def split: option.splits)

lemma settle_reserved:
  assumes "distinct as"
  shows "tally_of b (gs_reserved_by_account (settle g tally used now as s)) =
    (if b \<in> set as then tally_sub g (tally_of b (gs_reserved_by_account s)) tally else tally_of b (gs_reserved_by_account s))"
  using assms
proof (induction as arbitrary: s)
  case (Cons a as)
  let ?s = "case used of Some u \<Rightarrow> charge g u a (unhold g tally a (advance_period_if_rolled_over g a now s))
      | None \<Rightarrow> unhold g tally a (advance_period_if_rolled_over g a now s)"
  have "settle g tally used now (a # as) s = settle g tally used now as ?s" by (simp add: settle_def Let_def)
  then show ?case using Cons by (auto split: option.splits)
qed (simp add: settle_def)

lemma settle_usage_le:
  assumes "distinct as" "d \<noteq> DimUsd"
  shows "amount_of d (tally_of b (gs_usage_by_account (settle g tally used now as s))) \<le>
    amount_of d (tally_of b (gs_usage_by_account s))
      + (if b \<in> set as then case used of Some u \<Rightarrow> amount_of d u | None \<Rightarrow> 0 else 0)"
  using assms(1)
proof (induction as arbitrary: s)
  case (Cons a as)
  let ?t = "unhold g tally a (advance_period_if_rolled_over g a now s)"
  let ?s = "case used of Some u \<Rightarrow> charge g u a ?t | None \<Rightarrow> ?t"
  have "settle g tally used now (a # as) s = settle g tally used now as ?s" by (simp add: settle_def Let_def)
  moreover have "amount_of d (tally_of b (gs_usage_by_account ?s)) \<le> amount_of d (tally_of b (gs_usage_by_account s))
      + (if b = a then case used of Some u \<Rightarrow> amount_of d u | None \<Rightarrow> 0 else 0)"
    using advance_usage [of b g a now s] by (auto simp: amount_add [OF assms(2)] split: option.splits if_splits)
  ultimately show ?case using Cons.IH [of ?s] Cons.prems by (auto split: if_splits)
qed (simp add: settle_def)

text \<open>The operations, in terms of the loops.\<close>

lemma reserve_granted:
  assumes "reserve_with_outcome_in_state g scope e i now s = (Ok out, s')"
  shows "hm_get (gs_reservations s) i = None"
    and "evaluate_accounts g (roll g now (cascade scope) s) (from_estimate e) (cascade scope) [] = Ok (ro_warnings out)"
    and "ro_reservation out = \<lparr>rv_id = i, rv_scope = scope, rv_estimate = e\<rparr>"
    and "s' = (let t = fold (hold g (from_estimate e)) (cascade scope) (roll g now (cascade scope) s) in
      t\<lparr>gs_reservations := hm_insert i \<lparr>rrec_reservation = ro_reservation out, rrec_accounts = cascade scope,
        rrec_tally = from_estimate e, rrec_status = RvActive, rrec_actual = None\<rparr> (gs_reservations s)\<rparr>)"
  using assms
  by (auto simp: reserve_with_outcome_in_state_def hm_contains_key_def Let_def roll_def [symmetric] split: sum.splits if_splits)

lemma reserve_Err:
  assumes "reserve_with_outcome_in_state g scope e i now s = (Err err, s')"
  shows "s' = s \<or> s' = roll g now (cascade scope) s"
  using assms by (auto simp: reserve_with_outcome_in_state_def Let_def roll_def [symmetric] split: sum.splits if_splits)

definition closed_record :: "resource_usage option \<Rightarrow> reservation_record \<Rightarrow> reservation_record" where
  "closed_record used r = (case used of
     Some u \<Rightarrow> r\<lparr>rrec_status := RvReconciled, rrec_actual := Some u\<rparr> | None \<Rightarrow> r\<lparr>rrec_status := RvReleased\<rparr>)"

text \<open>Reconciling and releasing are one operation, with the usage to charge or without.\<close>

definition close_op ::
    "governor_env \<Rightarrow> resource_reservation_id \<Rightarrow> resource_usage option \<Rightarrow> timestamp \<Rightarrow> resource_state
      \<Rightarrow> (resource_error + resource_receipt) \<times> resource_state" where
  "close_op g i used now s =
    (case used of Some u \<Rightarrow> reconcile_in_state g i u now s | None \<Rightarrow> release_in_state g i now s)"

definition same_map :: "resource_state \<Rightarrow> resource_state \<Rightarrow> bool" where
  "same_map s s' \<longleftrightarrow> (\<exists>m. s' = s\<lparr>gs_reservations := m\<rparr> \<and> hm_get m = hm_get (gs_reservations s))"

lemma same_mapI: "(\<And>k. hm_get m k = hm_get (gs_reservations s) k) \<Longrightarrow> same_map s (s\<lparr>gs_reservations := m\<rparr>)"
  unfolding same_map_def by blast

lemma advance_update:
  "advance_period_if_rolled_over g a now (s\<lparr>gs_reservations := m\<rparr>) = (advance_period_if_rolled_over g a now s)\<lparr>gs_reservations := m\<rparr>"
  by (simp add: advance_period_if_rolled_over_def Let_def split: option.splits)

lemma settle_update:
  "settle g tally used now as (s\<lparr>gs_reservations := m\<rparr>) = (settle g tally used now as s)\<lparr>gs_reservations := m\<rparr>"
proof (induction as arbitrary: s)
  case (Cons a as)
  let ?f = "\<lambda>s. case used of Some u \<Rightarrow> charge g u a (unhold g tally a (advance_period_if_rolled_over g a now s))
      | None \<Rightarrow> unhold g tally a (advance_period_if_rolled_over g a now s)"
  have "settle g tally used now (a # as) s = settle g tally used now as (?f s)" for s by (simp add: settle_def Let_def)
  moreover have "?f (s\<lparr>gs_reservations := m\<rparr>) = (?f s)\<lparr>gs_reservations := m\<rparr>"
    by (simp add: advance_update unhold_def charge_def split: option.splits)
  ultimately show ?case using Cons by simp
qed (simp add: settle_def)

lemma settle_some: "settle g tally (Some u) now = fold (\<lambda>a s. charge g u a (unhold g tally a (advance_period_if_rolled_over g a now s)))"
  by (simp add: settle_def Let_def)

lemma settle_none: "settle g tally None now = fold (\<lambda>a s. unhold g tally a (advance_period_if_rolled_over g a now s))"
  by (simp add: settle_def Let_def)

lemma close_cases:
  assumes "close_op g i used now s = (res, s')"
  obtains (refused) e where "res = Err e" "same_map s s'"
  | (closed) r c m where "res = Ok c" "hm_get (gs_reservations s) i = Some r" "rrec_status r = RvActive"
      "s' = (settle g (rrec_tally r) (map_option from_usage used) now (rrec_accounts r) s)\<lparr>gs_reservations := m\<rparr>"
      "hm_get m = (hm_get (gs_reservations s))(i \<mapsto> closed_record used r)"
proof (cases "hm_get (gs_reservations s) i")
  case None
  then have "same_map s s'" "\<exists>e. res = Err e"
    using assms by (auto simp: close_op_def reconcile_in_state_def release_in_state_def intro!: same_mapI split: option.splits)
  then show ?thesis using refused by blast
next
  case (Some r)
  let ?st = "settle g (rrec_tally r) (map_option from_usage used) now (rrec_accounts r) s"
  let ?m = "hm_insert i (closed_record used r) (hm_remove i (gs_reservations s))"
  have m: "hm_get ?m = (hm_get (gs_reservations s))(i \<mapsto> closed_record used r)" by (simp add: fun_eq_iff)
  show ?thesis
  proof (cases "rrec_status r = RvActive \<and> (\<forall>u. used = Some u \<longrightarrow> is_ok (validate_usage u))")
    case True
    then have "s' = ?st\<lparr>gs_reservations := ?m\<rparr>" "\<exists>c. res = Ok c"
      using assms Some by (auto simp: close_op_def reconcile_in_state_def release_in_state_def closed_record_def Let_def
        settle_some [symmetric] settle_none [symmetric] settle_update split: option.splits sum.splits)
    then show ?thesis using closed [OF _ Some _ _ m] True by blast
  next
    case False
    then have "same_map s s'" "\<exists>e. res = Err e"
      using assms Some by (auto simp: close_op_def reconcile_in_state_def release_in_state_def Let_def
        intro!: same_mapI split: option.splits sum.splits if_splits)
    then show ?thesis using refused by blast
  qed
qed

section \<open>What is held\<close>

definition contribution :: "resource_dimension \<Rightarrow> resource_account \<Rightarrow> reservation_record \<Rightarrow> nat" where
  "contribution d a r = (if rrec_status r = RvActive \<and> a \<in> set (rrec_accounts r) then amount_of d (rrec_tally r) else 0)"

definition ledger_sum :: "('v \<Rightarrow> nat) \<Rightarrow> ('k \<rightharpoonup> 'v) \<Rightarrow> nat" where
  "ledger_sum h f = (\<Sum>k \<in> dom f. h (the (f k)))"

lemma ledger_sum_update:
  assumes "finite (dom f)"
  shows "ledger_sum h (f(i \<mapsto> v)) + (case f i of Some w \<Rightarrow> h w | None \<Rightarrow> 0) = ledger_sum h f + h v"
proof -
  have rest: "(\<Sum>k \<in> dom f - {i}. h (the ((f(i \<mapsto> v)) k))) = (\<Sum>k \<in> dom f - {i}. h (the (f k)))"
    by (intro sum.cong) auto
  have "ledger_sum h (f(i \<mapsto> v)) = h v + (\<Sum>k \<in> dom f - {i}. h (the (f k)))"
    using assms by (simp add: ledger_sum_def sum.insert_remove rest)
  moreover have "ledger_sum h f = (case f i of Some w \<Rightarrow> h w | None \<Rightarrow> 0) + (\<Sum>k \<in> dom f - {i}. h (the (f k)))"
  proof (cases "f i")
    case None
    then show ?thesis by (simp add: ledger_sum_def domIff)
  next
    case (Some w)
    then show ?thesis using sum.remove [OF assms, of i "\<lambda>k. h (the (f k))"] by (auto simp: ledger_sum_def)
  qed
  ultimately show ?thesis by simp
qed

lemma ledger_sum_ge: "finite (dom f) \<Longrightarrow> f i = Some w \<Longrightarrow> h w \<le> ledger_sum h f"
  unfolding ledger_sum_def by (metis domI member_le_sum option.sel zero_le)

lemma hm_get_insert_fun: "hm_get (hm_insert i v m) = (hm_get m)(i \<mapsto> v)"
  by (simp add: fun_eq_iff)

definition held :: "resource_dimension \<Rightarrow> resource_account \<Rightarrow> resource_state \<Rightarrow> nat" where
  "held d a s = ledger_sum (contribution d a) (hm_get (gs_reservations s))"

definition budget_ok :: "resource_dimension \<Rightarrow> resource_account \<Rightarrow> nat \<Rightarrow> resource_state \<Rightarrow> bool" where
  "budget_ok d a n s \<longleftrightarrow>
    (\<exists>l. hm_get (gs_limits s) a = Some l \<and> limit_of d l = Some n)
    \<and> amount_of d (tally_of a (gs_reserved_by_account s)) = held d a s
    \<and> amount_of d (tally_of a (gs_usage_by_account s)) + held d a s \<le> n
    \<and> (\<forall>i r. hm_get (gs_reservations s) i = Some r \<longrightarrow> distinct (rrec_accounts r))"

lemma evaluate_Ok:
  assumes "evaluate_accounts g s q as ws = Ok ws'" "a \<in> set as" "hm_get (gs_limits s) a = Some l"
  shows "check_limits_first_denial g a l (tally_of a (gs_usage_by_account s)) (tally_of a (gs_reserved_by_account s)) q = None"
    and "snd (check_thresholds_all_interventions g a l (tally_of a (gs_usage_by_account s))
      (tally_of a (gs_reserved_by_account s)) q (hm_get (gs_period_anchors s) a)) = None"
  using assms
  by (induction as arbitrary: ws)
    (auto simp: evaluate_cascade_for_account_def split: option.splits cascade_outcome.splits prod.splits)

lemma no_denial_usd:
  assumes "check_limits_first_denial g a l u r q = None" "rl_max_usd l = Some n" "0 < n"
  shows "\<exists>x y. gv_checked_add g (ta_usd u) (ta_usd r) = Some x \<and> gv_checked_add g x (ta_usd q) = Some y \<and> y \<le> n"
  using assms by (auto simp: check_limits_first_denial_def or_else_None check_decimal_def Let_def not_less
    split: if_splits option.splits bind_splits)

lemma roll_budget: "budget_ok d a n s \<Longrightarrow> budget_ok d a n (roll g now as s)"
  using roll_usage_le [of d a g now as s] by (auto simp: budget_ok_def held_def)

lemma reserve_budget:
  assumes "budget_ok d a n s" "d \<noteq> DimUsd" "reserve_with_outcome_in_state g scope e i now s = (Ok out, s')"
  shows "budget_ok d a n s'"
proof -
  let ?t = "roll g now (cascade scope) s" and ?q = "from_estimate e"
  note ok = reserve_granted [OF assms(3)]
  have t: "budget_ok d a n ?t" by (rule roll_budget [OF assms(1)])
  then obtain l where l: "hm_get (gs_limits ?t) a = Some l" "limit_of d l = Some n" by (auto simp: budget_ok_def)
  let ?in = "a \<in> set (cascade scope)" and ?u = "tally_of a (gs_usage_by_account ?t)" and ?r = "tally_of a (gs_reserved_by_account ?t)"
  have le: "amount_of d ?u + amount_of d ?r + amount_of d ?q \<le> n" if ?in
    using no_denial_within [OF evaluate_Ok(1) [OF ok(2) that l(1)] l(2)] .
  have s': "s' = (fold (hold g ?q) (cascade scope) ?t)\<lparr>gs_reservations := hm_insert i
      \<lparr>rrec_reservation = ro_reservation out, rrec_accounts = cascade scope, rrec_tally = ?q, rrec_status = RvActive,
       rrec_actual = None\<rparr> (gs_reservations s)\<rparr>"
    using ok(4) by (simp add: Let_def)
  have held: "held d a s' = held d a ?t + (if ?in then amount_of d ?q else 0)"
    using ledger_sum_update [of "hm_get (gs_reservations s)" "contribution d a" i] ok(1)
    by (simp add: held_def s' contribution_def hm_get_insert_fun)
  have reserved: "amount_of d (tally_of a (gs_reserved_by_account s')) = amount_of d ?r + (if ?in then amount_of d ?q else 0)"
    using le limit_le_width [OF l(2)]
    by (auto simp: s' fold_hold_reserved [OF cascade_distinct] amount_add [OF assms(2)] min_def)
  show ?thesis using t l held reserved le cascade_distinct [of scope] by (auto simp: budget_ok_def s')
qed

lemma same_map_budget: "budget_ok d a n s \<Longrightarrow> same_map s s' \<Longrightarrow> budget_ok d a n s'"
  by (auto simp: budget_ok_def held_def same_map_def)

lemma close_budget:
  assumes "budget_ok d a n s" "d \<noteq> DimUsd" "close_op g i used now s = (res, s')"
    and "\<And>r u. hm_get (gs_reservations s) i = Some r \<Longrightarrow> used = Some u \<Longrightarrow> amount_of d (from_usage u) \<le> amount_of d (rrec_tally r)"
  shows "budget_ok d a n s'"
  using assms(3)
proof (cases rule: close_cases)
  case refused
  then show ?thesis using same_map_budget [OF assms(1)] by blast
next
  case (closed r c m)
  let ?in = "a \<in> set (rrec_accounts r)" and ?q = "amount_of d (rrec_tally r)"
  have dist: "distinct (rrec_accounts r)" using assms(1) closed(2) by (auto simp: budget_ok_def)
  have "contribution d a (closed_record used r) = 0" by (simp add: contribution_def closed_record_def split: option.splits)
  moreover have c: "contribution d a r = (if ?in then ?q else 0)" using closed(3) by (simp add: contribution_def)
  ultimately have held: "held d a s' + (if ?in then ?q else 0) = held d a s"
    using ledger_sum_update [of "hm_get (gs_reservations s)" "contribution d a" i "closed_record used r"] closed(2)
    by (simp add: held_def closed(4,5))
  have "amount_of d (tally_of a (gs_reserved_by_account s')) = amount_of d (tally_of a (gs_reserved_by_account s)) - (if ?in then ?q else 0)"
    by (simp add: closed(4) settle_reserved [OF dist] amount_sub)
  moreover have "amount_of d (tally_of a (gs_usage_by_account s')) \<le> amount_of d (tally_of a (gs_usage_by_account s)) + (if ?in then ?q else 0)"
    using settle_usage_le [OF dist assms(2), of a g "rrec_tally r" "map_option from_usage used" now s] assms(4) [OF closed(2)]
    by (cases used) (auto simp: closed(4) split: if_splits)
  moreover have "distinct (rrec_accounts r')" if "hm_get m j = Some r'" for j r'
    using that assms(1) dist closed(5) by (auto simp: budget_ok_def closed_record_def split: if_splits option.splits)
  ultimately show ?thesis using assms(1) held by (auto simp: budget_ok_def closed(4))
qed

lemma set_limit_budget:
  assumes "budget_ok d a n s" "b \<noteq> a"
  shows "budget_ok d a n (set_limit_in_state g b l now s)"
  using assms by (auto simp: budget_ok_def held_def set_limit_in_state_def Let_def)

section \<open>Histories of the governor\<close>

datatype governor_op =
    GOpSetLimit timestamp resource_account resource_limits
  | GOpReserve timestamp resource_scope resource_estimate resource_reservation_id
  | GOpReconcile timestamp resource_reservation_id resource_usage
  | GOpRelease timestamp resource_reservation_id
  | GOpSnapshot timestamp resource_account

text \<open>A step, with whether the operation succeeded.\<close>

fun governor_step :: "governor_env \<Rightarrow> governor_op \<Rightarrow> governor \<Rightarrow> bool \<times> governor" where
  "governor_step g (GOpSetLimit now a l) v = apfst is_ok (governor_set_limit g now a l v)"
| "governor_step g (GOpReserve now scope e i) v = apfst is_ok (reserve_with_id_and_outcome g now scope e i v)"
| "governor_step g (GOpReconcile now i u) v = apfst is_ok (governor_reconcile g now i u v)"
| "governor_step g (GOpRelease now i) v = apfst is_ok (governor_release g now i v)"
| "governor_step g (GOpSnapshot now a) v = (True, snd (governor_account_snapshot g now a v))"

definition run_governor :: "governor_env \<Rightarrow> governor_op list \<Rightarrow> governor \<Rightarrow> governor" where
  "run_governor g = fold (\<lambda>op v. snd (governor_step g op v))"

definition new_governor :: governor where
  "new_governor = \<lparr>gov_state = resource_state_default, gov_events = []\<rparr>"

lemma emit_state [simp]: "gov_state (emit es v) = gov_state v"
  by (simp add: emit_def)

lemma step_set_limit [simp]:
  "gov_state (snd (governor_step g (GOpSetLimit now a l) v)) = set_limit_in_state g a l now (gov_state v)"
  by (simp add: governor_set_limit_def)

lemma step_reserve [simp]:
  "gov_state (snd (governor_step g (GOpReserve now scope e i) v)) = snd (reserve_with_outcome_in_state g scope e i now (gov_state v))"
  "fst (governor_step g (GOpReserve now scope e i) v) = is_ok (fst (reserve_with_outcome_in_state g scope e i now (gov_state v)))"
  by (simp_all add: reserve_with_id_and_outcome_def split: prod.splits)

lemma step_close [simp]:
  "gov_state (snd (governor_step g (GOpReconcile now i u) v)) = snd (close_op g i (Some u) now (gov_state v))"
  "fst (governor_step g (GOpReconcile now i u) v) = is_ok (fst (close_op g i (Some u) now (gov_state v)))"
  "gov_state (snd (governor_step g (GOpRelease now i) v)) = snd (close_op g i None now (gov_state v))"
  "fst (governor_step g (GOpRelease now i) v) = is_ok (fst (close_op g i None now (gov_state v)))"
  by (simp_all add: governor_reconcile_def governor_release_def close_op_def split: prod.splits)

lemma step_snapshot [simp]:
  "gov_state (snd (governor_step g (GOpSnapshot now a) v)) = roll g now [a] (gov_state v)"
  by (simp add: governor_account_snapshot_def account_snapshot_in_state_def roll_def Let_def split: prod.splits)

declare governor_step.simps [simp del]

text \<open>A history does not change the limit of the account, and each reconciliation reports in the dimension no more than
  was reserved.\<close>

fun admissible :: "governor_env \<Rightarrow> resource_dimension \<Rightarrow> resource_account \<Rightarrow> governor_op list \<Rightarrow> governor \<Rightarrow> bool" where
  "admissible g d a [] v = True"
| "admissible g d a (op # ops) v \<longleftrightarrow>
    (case op of
       GOpSetLimit _ b _ \<Rightarrow> b \<noteq> a
     | GOpReconcile _ i u \<Rightarrow> (case hm_get (gs_reservations (gov_state v)) i of
         Some r \<Rightarrow> amount_of d (from_usage u) \<le> amount_of d (rrec_tally r) | None \<Rightarrow> True)
     | _ \<Rightarrow> True)
    \<and> admissible g d a ops (snd (governor_step g op v))"

lemma step_budget:
  assumes "budget_ok d a n (gov_state v)" "d \<noteq> DimUsd" "admissible g d a (op # ops) v"
  shows "budget_ok d a n (gov_state (snd (governor_step g op v)))"
proof (cases op)
  case (GOpSetLimit now b l)
  then show ?thesis using assms set_limit_budget by simp
next
  case (GOpReserve now scope e i)
  obtain res s' where st: "reserve_with_outcome_in_state g scope e i now (gov_state v) = (res, s')"
    by (cases "reserve_with_outcome_in_state g scope e i now (gov_state v)")
  show ?thesis
  proof (cases res)
    case (Inl e')
    then show ?thesis
      using GOpReserve st reserve_Err [of g scope e i now "gov_state v" e' s'] roll_budget [OF assms(1)] assms(1) by auto
  next
    case (Inr out)
    then show ?thesis using GOpReserve st reserve_budget [OF assms(1,2)] by simp
  qed
next
  case (GOpReconcile now i u)
  obtain res s' where st: "close_op g i (Some u) now (gov_state v) = (res, s')" by (cases "close_op g i (Some u) now (gov_state v)")
  have "amount_of d (from_usage u) \<le> amount_of d (rrec_tally r)" if "hm_get (gs_reservations (gov_state v)) i = Some r" for r
    using assms(3) GOpReconcile that by simp
  then have "budget_ok d a n s'" by (intro close_budget [OF assms(1,2) st]) auto
  then show ?thesis using GOpReconcile st by simp
next
  case (GOpRelease now i)
  obtain res s' where st: "close_op g i None now (gov_state v) = (res, s')" by (cases "close_op g i None now (gov_state v)")
  then show ?thesis using GOpRelease close_budget [OF assms(1,2) st] by simp
next
  case (GOpSnapshot now b)
  then show ?thesis using roll_budget [OF assms(1)] by simp
qed

lemma run_budget:
  "budget_ok d a n (gov_state v) \<Longrightarrow> d \<noteq> DimUsd \<Longrightarrow> admissible g d a ops v \<Longrightarrow> budget_ok d a n (gov_state (run_governor g ops v))"
proof (induction ops arbitrary: v)
  case (Cons op ops)
  show ?case using Cons.IH [OF step_budget [OF Cons.prems]] Cons.prems by (simp add: run_governor_def)
qed (simp add: run_governor_def)

lemma first_limit_budget:
  assumes "limit_of d l = Some n"
  shows "budget_ok d a n (set_limit_in_state g a l now resource_state_default)"
  using assms by (auto simp: budget_ok_def set_limit_in_state_def resource_state_default_def Let_def held_def ledger_sum_def)


definition sample_governor_env :: governor_env where
  "sample_governor_env = \<lparr>gv_max_utc = 1000000, gv_hour = 10, gv_local_date = (\<lambda>_ t. t div 240), gv_weekday = (\<lambda>d. nat (d mod 7)),
    gv_year = (\<lambda>_. 2026), gv_month = (\<lambda>_. 5), gv_from_ymd = (\<lambda>_ _ _. None), gv_local_midnight = (\<lambda>_ d. Some (d * 240)),
    gv_checked_add = (\<lambda>a b. Some (a + b)), gv_checked_sub = (\<lambda>a b. Some (a - b)), gv_decimal_max = 10 ^ 56,
    gv_to_f64 = (\<lambda>d. Some (f64_round (of_int d)))\<rparr>"

definition token_limits :: "u64 \<Rightarrow> budget_period \<Rightarrow> resource_limits" where
  "token_limits n period = \<lparr>rl_max_usd = None, rl_max_input_tokens = Some n, rl_max_output_tokens = None, rl_max_wall_clock_ms = None,
    rl_max_output_bytes = None, rl_max_network_egress_bytes = None, rl_max_process_count = None,
    rl_max_concurrency_slots = None, rl_period = period, rl_thresholds = thresholds_disabled\<rparr>"

definition token_estimate :: "u64 \<Rightarrow> resource_estimate" where
  "token_estimate n = \<lparr>es_usd = None, es_input_tokens = Some n, es_output_tokens = None, es_wall_clock_ms = None,
    es_output_bytes = None, es_network_egress_bytes = None, es_process_count = None, es_concurrency_slots = None\<rparr>"

definition token_usage :: "u64 \<Rightarrow> resource_usage" where
  "token_usage n = \<lparr>us_usd = 0, us_input_tokens = n, us_output_tokens = 0, us_wall_clock_ms = 0, us_output_bytes = 0,
    us_network_egress_bytes = 0, us_process_count = 0\<rparr>"

definition plain_scope :: resource_scope where
  "plain_scope = \<lparr>rsc_tenant_id = ''t'', rsc_user_id = ''u'', rsc_agent_id = None, rsc_project_id = None, rsc_mission_id = None,
    rsc_thread_id = None, rsc_invocation_id = 7\<rparr>"


section \<open>Reserving\<close>

text \<open>A reservation is granted only when it fits: under a new id and with a non-negative cost, every account of the
  cascade that has limits can take it on top of what was spent in the current period and what is
  held, in every dimension, without crossing a pause threshold; it is then held on every account and
  recorded as active. A refused reservation holds nothing and records nothing.\<close>

theorem reservations_fit:
  assumes "reserve_with_outcome_in_state g scope e i now s = (res, s')"
  shows "case res of
      Ok out \<Rightarrow> hm_get (gs_reservations s) i = None \<and> is_ok (validate_estimate e)
        \<and> (\<forall>a \<in> set (cascade scope). \<forall>l. hm_get (gs_limits s) a = Some l \<longrightarrow>
            (\<forall>d n. limit_of d l = Some n \<longrightarrow> amount_of d (tally_of a (gs_usage_by_account s'))
               + amount_of d (tally_of a (gs_reserved_by_account s)) + amount_of d (from_estimate e) \<le> n)
            \<and> (\<forall>n. rl_max_usd l = Some n \<and> 0 < n \<longrightarrow> (\<exists>x y. gv_checked_add g (ta_usd (tally_of a (gs_usage_by_account s')))
                 (ta_usd (tally_of a (gs_reserved_by_account s))) = Some x
                 \<and> gv_checked_add g x (ta_usd (from_estimate e)) = Some y \<and> y \<le> n))
            \<and> snd (check_thresholds_all_interventions g a l (tally_of a (gs_usage_by_account s'))
                (tally_of a (gs_reserved_by_account s)) (from_estimate e) (hm_get (gs_period_anchors s') a)) = None)
        \<and> (\<forall>a. tally_of a (gs_reserved_by_account s') = (if a \<in> set (cascade scope)
             then tally_add g (tally_of a (gs_reserved_by_account s)) (from_estimate e) else tally_of a (gs_reserved_by_account s)))
        \<and> (\<exists>r. hm_get (gs_reservations s') i = Some r \<and> rrec_status r = RvActive \<and> rrec_tally r = from_estimate e
             \<and> rrec_accounts r = cascade scope \<and> rrec_reservation r = ro_reservation out)
    | Err _ \<Rightarrow> gs_reserved_by_account s' = gs_reserved_by_account s \<and> gs_reservations s' = gs_reservations s
        \<and> gs_limits s' = gs_limits s"
proof (cases res)
  case (Inl err)
  then show ?thesis using reserve_Err [of g scope e i now s err s'] assms by auto
next
  case (Inr out)
  let ?t = "roll g now (cascade scope) s" and ?q = "from_estimate e"
  note st = assms [unfolded Inr]
  note ok = reserve_granted [OF st]
  have s': "gs_usage_by_account s' = gs_usage_by_account ?t" "gs_period_anchors s' = gs_period_anchors ?t"
    "gs_reserved_by_account s' = gs_reserved_by_account (fold (hold g ?q) (cascade scope) ?t)"
    using ok(4) by (simp_all add: Let_def)
  have v: "is_ok (validate_estimate e)"
    using st by (auto simp: reserve_with_outcome_in_state_def split: sum.splits)
  have checks: "check_limits_first_denial g a l (tally_of a (gs_usage_by_account s')) (tally_of a (gs_reserved_by_account s)) ?q = None"
    "snd (check_thresholds_all_interventions g a l (tally_of a (gs_usage_by_account s'))
      (tally_of a (gs_reserved_by_account s)) ?q (hm_get (gs_period_anchors s') a)) = None"
    if "a \<in> set (cascade scope)" "hm_get (gs_limits s) a = Some l" for a l
    using evaluate_Ok [OF ok(2) that(1), of l] that(2) by (simp_all add: s')
  have usd: "\<exists>x y. gv_checked_add g (ta_usd (tally_of a (gs_usage_by_account s'))) (ta_usd (tally_of a (gs_reserved_by_account s))) = Some x
      \<and> gv_checked_add g x (ta_usd ?q) = Some y \<and> y \<le> n"
    if "a \<in> set (cascade scope)" "hm_get (gs_limits s) a = Some l" "rl_max_usd l = Some n" "0 < n" for a l n
    using no_denial_usd [OF checks(1) [OF that(1,2)] that(3,4)] .
  have ints: "amount_of d (tally_of a (gs_usage_by_account s')) + amount_of d (tally_of a (gs_reserved_by_account s)) + amount_of d ?q \<le> n"
    if "a \<in> set (cascade scope)" "hm_get (gs_limits s) a = Some l" "limit_of d l = Some n" for a l d n
    using no_denial_within [OF checks(1) [OF that(1,2)] that(3)] .
  have held: "tally_of a (gs_reserved_by_account s') = (if a \<in> set (cascade scope)
      then tally_add g (tally_of a (gs_reserved_by_account s)) ?q else tally_of a (gs_reserved_by_account s))" for a
    by (simp add: s'(3) fold_hold_reserved [OF cascade_distinct])
  have "\<exists>r. hm_get (gs_reservations s') i = Some r \<and> rrec_status r = RvActive \<and> rrec_tally r = ?q
      \<and> rrec_accounts r = cascade scope \<and> rrec_reservation r = ro_reservation out"
    by (simp add: ok(4) Let_def)
  then show ?thesis
    unfolding Inr sum.case using ok(1) v checks(2) ints usd held by (intro conjI ballI allI impI) blast+
qed

theorem reservations_fit_witness:
  "\<exists>out s'. reserve_with_outcome_in_state sample_governor_env plain_scope (token_estimate 60) 1 2
      (set_limit_in_state sample_governor_env (AccUser ''t'' ''u'') (token_limits 100 Rolling24h) 0 resource_state_default) = (Ok out, s')
    \<and> tally_of (AccUser ''t'' ''u'') (gs_reserved_by_account s') = tally_add sample_governor_env tally_default (from_estimate (token_estimate 60))"
proof -
  let ?s = "set_limit_in_state sample_governor_env (AccUser ''t'' ''u'') (token_limits 100 Rolling24h) 0 resource_state_default"
  let ?x = "reserve_with_outcome_in_state sample_governor_env plain_scope (token_estimate 60) 1 2 ?s"
  have ok: "is_ok (fst ?x)" by code_simp
  obtain res s' where r: "?x = (res, s')" by (cases ?x)
  with ok obtain out where x: "?x = (Ok out, s')" by (cases res) auto
  have "tally_of (AccUser ''t'' ''u'') (gs_reserved_by_account ?s) = tally_default" "AccUser ''t'' ''u'' \<in> set (cascade plain_scope)"
    by (simp_all add: set_limit_in_state_def resource_state_default_def cascade_def plain_scope_def)
  moreover have "\<forall>a. tally_of a (gs_reserved_by_account s') = (if a \<in> set (cascade plain_scope)
      then tally_add sample_governor_env (tally_of a (gs_reserved_by_account ?s)) (from_estimate (token_estimate 60))
      else tally_of a (gs_reserved_by_account ?s))"
    using reservations_fit [OF x] by simp
  ultimately show ?thesis using x by (intro exI [of _ out] exI [of _ s']) simp
qed

section \<open>Closing\<close>

fun close_successes :: "governor_env \<Rightarrow> resource_reservation_id \<Rightarrow> governor_op list \<Rightarrow> governor \<Rightarrow> nat" where
  "close_successes g i [] v = 0"
| "close_successes g i (op # ops) v =
    (let (ok, v') = governor_step g op v in
     (case op of
        GOpReconcile _ j _ \<Rightarrow> if j = i \<and> ok then 1 else 0
      | GOpRelease _ j \<Rightarrow> if j = i \<and> ok then 1 else 0
      | _ \<Rightarrow> 0) + close_successes g i ops v')"

definition is_closed :: "resource_reservation_id \<Rightarrow> resource_state \<Rightarrow> bool" where
  "is_closed i s \<longleftrightarrow> (\<exists>r. hm_get (gs_reservations s) i = Some r \<and> rrec_status r \<noteq> RvActive)"

lemma close_op_closed:
  assumes "close_op g j used now s = (res, s')"
  shows "is_closed i s \<Longrightarrow> is_closed i s'" and "is_closed i s \<Longrightarrow> j = i \<Longrightarrow> \<not> is_ok res"
    and "j = i \<Longrightarrow> is_ok res \<Longrightarrow> is_closed i s'"
  using assms
  by (cases rule: close_cases; auto simp: is_closed_def same_map_def closed_record_def split: option.splits)+

lemma step_closed:
  assumes "is_closed i (gov_state v)"
  shows "is_closed i (gov_state (snd (governor_step g op v)))"
proof (cases op)
  case (GOpReserve now scope e j)
  obtain res s' where st: "reserve_with_outcome_in_state g scope e j now (gov_state v) = (res, s')"
    by (cases "reserve_with_outcome_in_state g scope e j now (gov_state v)")
  show ?thesis
  proof (cases res)
    case (Inl e')
    then show ?thesis
      using GOpReserve st reserve_Err [of g scope e j now "gov_state v" e' s'] assms by (auto simp: is_closed_def)
  next
    case (Inr out)
    then show ?thesis
      using GOpReserve st reserve_granted(1,4) [of g scope e j now "gov_state v" out s'] assms by (auto simp: is_closed_def Let_def)
  qed
next
  case (GOpReconcile now j u)
  then show ?thesis using close_op_closed(1) [OF surjective_pairing assms] by simp
next
  case (GOpRelease now j)
  then show ?thesis using close_op_closed(1) [OF surjective_pairing assms] by simp
qed (use assms in \<open>auto simp: is_closed_def set_limit_in_state_def Let_def\<close>)

lemma closed_no_success: "is_closed i (gov_state v) \<Longrightarrow> close_successes g i ops v = 0"
proof (induction ops arbitrary: v)
  case (Cons op ops)
  have "close_successes g i ops (snd (governor_step g op v)) = 0" by (rule Cons.IH [OF step_closed [OF Cons.prems]])
  moreover have "\<not> is_ok (fst (close_op g i used now (gov_state v)))" for used now
    using close_op_closed(2) [OF surjective_pairing Cons.prems] by blast
  ultimately show ?case by (auto simp: Let_def split_beta split: governor_op.splits)
qed simp

text \<open>A reservation is closed once: in any history of the governor, whatever is reserved, reconciled, released or
  limited in between, at most one reconciliation or release of a given id succeeds; afterwards the
  id is neither reopened nor closed again.\<close>

theorem reservations_close_once: "close_successes g i ops v \<le> 1"
proof (induction ops arbitrary: v)
  case (Cons op ops)
  let ?v = "snd (governor_step g op v)"
  show ?case
  proof (cases "\<exists>now used. (op = GOpRelease now i \<and> used = None \<or> (\<exists>u. op = GOpReconcile now i u \<and> used = Some u))
      \<and> is_ok (fst (close_op g i used now (gov_state v)))")
    case True
    then have "is_closed i (gov_state ?v)" using close_op_closed(3) [OF surjective_pairing refl] by auto
    then show ?thesis using closed_no_success [of i ?v g ops] by (auto simp: Let_def split_beta split: governor_op.splits)
  next
    case False
    then have "close_successes g i (op # ops) v = close_successes g i ops ?v"
      by (cases op) (auto simp: Let_def split_beta)
    then show ?thesis using Cons by simp
  qed
qed simp

section \<open>Periods\<close>


text \<open>The state after 50 of 100 tokens were spent in a window that ends at 240.\<close>

definition spent_state :: resource_state where
  "spent_state = gov_state (run_governor sample_governor_env [GOpSetLimit 0 (AccUser ''t'' ''u'') (token_limits 100 Rolling24h),
     GOpReserve 1 plain_scope (token_estimate 60) 1, GOpReconcile 3 1 (token_usage 50)] new_governor)"


section \<open>Budget gates\<close>

text \<open>A gate that was approved, cancelled or expired stays as it is, and only a pending one can be resolved.\<close>

lemma gate_resolve_final:
  "hm_get m i = Some b \<Longrightarrow> gate_is_terminal (bg_status b) \<Longrightarrow> hm_get (snd (gate_resolve j out now m)) i = Some b"
  by (cases "i = j") (simp_all add: gate_resolve_def Let_def split: option.splits)

lemma gate_expire_get:
  "hm_get (snd (expire_pending_older_than cutoff m)) i =
    map_option (\<lambda>b. if gate_expires cutoff b then b\<lparr>bg_status := GateExpired cutoff\<rparr> else b) (hm_get m i)"
  by (simp add: expire_pending_older_than_def hm_get_def map_of_map)

lemma gate_expire_final:
  "hm_get m i = Some b \<Longrightarrow> gate_is_terminal (bg_status b) \<Longrightarrow> hm_get (snd (expire_pending_older_than cutoff m)) i = Some b"
  by (simp add: gate_expire_get gate_expires_def gate_is_terminal_def)

lemma gate_resolve_pending:
  "gate_resolve i out now m = (Ok b, m') \<Longrightarrow>
    \<exists>b0. hm_get m i = Some b0 \<and> bg_status b0 = GatePending \<and> hm_get m' i = Some b \<and> gate_is_terminal (bg_status b)"
  by (auto simp: gate_resolve_def gate_is_terminal_def Let_def split: option.splits if_splits budget_gate_outcome.splits)

end
