(* ===== verification/Trust_Policy.thy ===== *)
theory Trust_Policy
  imports Host_Authority
begin

text \<open>
  The trust policy engine: package identities of \<^verbatim>\<open>ironclaw_host_api/src/trust.rs\<close> and, of the crate
  \<^verbatim>\<open>ironclaw_trust\<close>, \<^verbatim>\<open>error.rs\<close>, \<^verbatim>\<open>sources.rs\<close>, \<^verbatim>\<open>invalidation.rs\<close> and the evaluation in \<^verbatim>\<open>policy.rs\<close>. A chain of
  policy sources turns the identity of a package into a trust decision; a change of the decision
  is announced to the listeners of a bus. A listener acts on a world of its own and may panic,
  which is the value None. The clock is read once per evaluation; its reading is an argument.
\<close>

section \<open>Packages (trust.rs)\<close>

type_synonym package_id = string

datatype requested_trust_class = Untrusted | ThirdParty | FirstPartyRequested | SystemRequested

datatype package_source = FromBundle | FromLocalManifest string | FromRegistry string | FromAdmin

record package_identity =
  pk_package_id :: package_id
  pk_source :: package_source
  pk_digest :: "string option"
  pk_signer :: "string option"

datatype trust_error = TrustInvariantViolation string

record trust_policy_input =
  tpi_identity :: package_identity
  tpi_requested_trust :: requested_trust_class
  tpi_requested_authority :: "capability_id set"

record source_match =
  sm_effective_trust :: trust_class
  sm_provenance :: trust_provenance
  sm_allowed_effects :: "effect_kind list"
  sm_max_resource_ceiling :: "resource_ceiling option"

section \<open>Entries (sources.rs)\<close>

text \<open>\<^verbatim>\<open>HostTrustAssignment\<close> and \<^verbatim>\<open>EffectiveTrustClass\<close> wrap a trust class; what distinguishes them is
  which crate may construct them.\<close>

type_synonym host_trust_assignment = trust_class

definition into_effective :: "host_trust_assignment \<Rightarrow> trust_class" where
  "into_effective t = t"

record bundled_entry =
  be_package_id :: package_id
  be_digest :: "string option"
  be_effective_trust :: trust_class
  be_allowed_effects :: "effect_kind list"
  be_max_resource_ceiling :: "resource_ceiling option"

definition bundled_entry_new ::
    "package_id \<Rightarrow> string option \<Rightarrow> host_trust_assignment \<Rightarrow> effect_kind list \<Rightarrow> resource_ceiling option \<Rightarrow> bundled_entry" where
  "bundled_entry_new i digest trust effects ceiling =
    \<lparr>be_package_id = i, be_digest = digest, be_effective_trust = into_effective trust,
     be_allowed_effects = effects, be_max_resource_ceiling = ceiling\<rparr>"

record admin_entry =
  ae_package_id :: package_id
  ae_source :: package_source
  ae_digest :: "string option"
  ae_effective_trust :: trust_class
  ae_allowed_effects :: "effect_kind list"
  ae_max_resource_ceiling :: "resource_ceiling option"

definition for_bundled ::
    "package_id \<Rightarrow> string option \<Rightarrow> host_trust_assignment \<Rightarrow> effect_kind list \<Rightarrow> resource_ceiling option \<Rightarrow> admin_entry" where
  "for_bundled i digest trust effects ceiling =
    \<lparr>ae_package_id = i, ae_source = FromBundle, ae_digest = digest, ae_effective_trust = into_effective trust,
     ae_allowed_effects = effects, ae_max_resource_ceiling = ceiling\<rparr>"

definition for_registry ::
    "package_id \<Rightarrow> string \<Rightarrow> string option \<Rightarrow> host_trust_assignment \<Rightarrow> effect_kind list \<Rightarrow> resource_ceiling option \<Rightarrow> admin_entry" where
  "for_registry i registry_url digest trust effects ceiling =
    \<lparr>ae_package_id = i, ae_source = FromRegistry registry_url, ae_digest = digest,
     ae_effective_trust = into_effective trust, ae_allowed_effects = effects, ae_max_resource_ceiling = ceiling\<rparr>"

definition for_admin ::
    "package_id \<Rightarrow> host_trust_assignment \<Rightarrow> effect_kind list \<Rightarrow> resource_ceiling option \<Rightarrow> admin_entry" where
  "for_admin i trust effects ceiling =
    \<lparr>ae_package_id = i, ae_source = FromAdmin, ae_digest = None, ae_effective_trust = into_effective trust,
     ae_allowed_effects = effects, ae_max_resource_ceiling = ceiling\<rparr>"

definition for_local_manifest ::
    "package_id \<Rightarrow> string \<Rightarrow> string option \<Rightarrow> host_trust_assignment \<Rightarrow> effect_kind list \<Rightarrow> resource_ceiling option \<Rightarrow> admin_entry" where
  "for_local_manifest i manifest_path digest trust effects ceiling =
    \<lparr>ae_package_id = i, ae_source = FromLocalManifest manifest_path, ae_digest = digest,
     ae_effective_trust = into_effective trust, ae_allowed_effects = effects, ae_max_resource_ceiling = ceiling\<rparr>"

type_synonym admin_subject = "package_id \<times> package_source"

definition subject_from_entry :: "admin_entry \<Rightarrow> admin_subject" where
  "subject_from_entry e = (ae_package_id e, ae_source e)"

record signer_entry =
  sge_signer :: string
  sge_label :: "string option"
  sge_effective_trust :: trust_class
  sge_allowed_effects :: "effect_kind list"
  sge_max_resource_ceiling :: "resource_ceiling option"

section \<open>Sources (sources.rs)\<close>

text \<open>The trait can only be implemented inside its crate, since \<^verbatim>\<open>SourceMatch\<close> is not exported: these
  four are all the sources there are.\<close>

datatype policy_source =
    BundledRegistry "(package_id, bundled_entry) hmap"
  | AdminConfig "(admin_subject, admin_entry) hmap"
  | SignedRegistry "(string, signer_entry) hmap"
  | LocalDevOverride "(package_id, admin_entry) hmap" bool

definition bundled_with_entries :: "bundled_entry list \<Rightarrow> policy_source" where
  "bundled_with_entries es = BundledRegistry (fold (\<lambda>e. hm_insert (be_package_id e) e) es [])"

definition admin_with_entries :: "admin_entry list \<Rightarrow> policy_source" where
  "admin_with_entries es = AdminConfig (fold (\<lambda>e. hm_insert (subject_from_entry e) e) es [])"

definition signed_with_signers :: "signer_entry list \<Rightarrow> policy_source" where
  "signed_with_signers es = SignedRegistry (fold (\<lambda>e. hm_insert (sge_signer e) e) es [])"

definition local_dev_inert :: policy_source where
  "local_dev_inert = LocalDevOverride [] False"

fun source_name :: "policy_source \<Rightarrow> string" where
  "source_name (BundledRegistry _) = ''bundled''"
| "source_name (AdminConfig _) = ''admin_config''"
| "source_name (SignedRegistry _) = ''signed_registry''"
| "source_name (LocalDevOverride _ _) = ''local_dev_override''"

text \<open>The digest pin of an entry: without a pin every digest passes, with one only that digest.\<close>

definition digest_pin_holds :: "string option \<Rightarrow> string option \<Rightarrow> bool" where
  "digest_pin_holds pin actual = (case pin of None \<Rightarrow> True | Some pinned \<Rightarrow> actual = Some pinned)"

definition bundled_evaluate ::
    "(package_id, bundled_entry) hmap \<Rightarrow> trust_policy_input \<Rightarrow> trust_error + source_match option" where
  "bundled_evaluate entries input =
    (let pk = tpi_identity input in
     if pk_source pk \<noteq> FromBundle then Ok None
     else case hm_get entries (pk_package_id pk) of
       None \<Rightarrow> Ok None
     | Some e \<Rightarrow>
         if \<not> digest_pin_holds (be_digest e) (pk_digest pk) then Ok None
         else Ok (Some \<lparr>sm_effective_trust = be_effective_trust e, sm_provenance = ProvBundled,
                sm_allowed_effects = be_allowed_effects e, sm_max_resource_ceiling = be_max_resource_ceiling e\<rparr>))"

definition admin_evaluate ::
    "(admin_subject, admin_entry) hmap \<Rightarrow> trust_policy_input \<Rightarrow> trust_error + source_match option" where
  "admin_evaluate entries input =
    (let pk = tpi_identity input in
     case hm_get entries (pk_package_id pk, pk_source pk) of
       None \<Rightarrow> Ok None
     | Some e \<Rightarrow>
         if \<not> digest_pin_holds (ae_digest e) (pk_digest pk) then Ok None
         else Ok (Some \<lparr>sm_effective_trust = ae_effective_trust e, sm_provenance = ProvAdminConfig,
                sm_allowed_effects = ae_allowed_effects e, sm_max_resource_ceiling = ae_max_resource_ceiling e\<rparr>))"

fun source_evaluate :: "policy_source \<Rightarrow> trust_policy_input \<Rightarrow> trust_error + source_match option" where
  "source_evaluate (BundledRegistry entries) input = bundled_evaluate entries input"
| "source_evaluate (AdminConfig entries) input = admin_evaluate entries input"
| "source_evaluate (SignedRegistry _) input = Ok None"
| "source_evaluate (LocalDevOverride _ enabled) input = (if \<not> enabled then Ok None else Ok None)"

section \<open>The chain (policy.rs)\<close>

text \<open>\<^verbatim>\<open>TypeId\<close> and \<^verbatim>\<open>type_name\<close> of a source.\<close>

datatype source_type = TyBundledRegistry | TyAdminConfig | TySignedRegistry | TyLocalDevOverride

fun type_id :: "policy_source \<Rightarrow> source_type" where
  "type_id (BundledRegistry _) = TyBundledRegistry"
| "type_id (AdminConfig _) = TyAdminConfig"
| "type_id (SignedRegistry _) = TySignedRegistry"
| "type_id (LocalDevOverride _ _) = TyLocalDevOverride"

definition type_name :: "source_type \<Rightarrow> string" where
  "type_name t = ''ironclaw_trust::sources::'' @
    (case t of TyBundledRegistry \<Rightarrow> ''BundledRegistry'' | TyAdminConfig \<Rightarrow> ''AdminConfig''
     | TySignedRegistry \<Rightarrow> ''SignedRegistry'' | TyLocalDevOverride \<Rightarrow> ''LocalDevOverride'')"

text \<open>The loop of \<^verbatim>\<open>ensure_unique_source_types\<close>, with the set of the types seen.\<close>

fun unique_types_loop :: "source_type list \<Rightarrow> policy_source list \<Rightarrow> trust_error + unit" where
  "unique_types_loop seen [] = Ok ()"
| "unique_types_loop seen (s # ss) =
    (if type_id s \<in> set seen
     then Err (TrustInvariantViolation (''policy chain contains duplicate source type `'' @ source_name s @ ''`''))
     else unique_types_loop (type_id s # seen) ss)"

definition ensure_unique_source_types :: "policy_source list \<Rightarrow> trust_error + unit" where
  "ensure_unique_source_types ss = unique_types_loop [] ss"

definition ensure_source_type_absent :: "policy_source list \<Rightarrow> policy_source \<Rightarrow> trust_error + unit" where
  "ensure_source_type_absent ss s =
    (if list_ex (\<lambda>t. type_id t = type_id s) ss
     then Err (TrustInvariantViolation (''policy chain already contains source type `'' @ source_name s @ ''`''))
     else Ok ())"

text \<open>The policy is its chain of sources; clock and lock are outside.\<close>

type_synonym host_trust_policy = "policy_source list"

definition policy_with_clock :: "policy_source list \<Rightarrow> trust_error + host_trust_policy" where
  "policy_with_clock ss = (case ensure_unique_source_types ss of Err e \<Rightarrow> Err e | Ok _ \<Rightarrow> Ok ss)"

definition policy_fail_closed :: host_trust_policy where
  "policy_fail_closed = []"

definition has_sources :: "host_trust_policy \<Rightarrow> bool" where
  "has_sources p = (p \<noteq> [])"

definition add_source :: "policy_source \<Rightarrow> host_trust_policy \<Rightarrow> (trust_error + unit) \<times> host_trust_policy" where
  "add_source s p =
    (case ensure_source_type_absent p s of Err e \<Rightarrow> (Err e, p) | Ok _ \<Rightarrow> (Ok (), push_back p s))"

definition default_decision :: "trust_policy_input \<Rightarrow> timestamp \<Rightarrow> trust_decision" where
  "default_decision input evaluated_at =
    \<lparr>td_effective_trust = TrSandbox, td_authority_ceiling = ceiling_empty, td_provenance = ProvDefault,
     td_evaluated_at = evaluated_at\<rparr>"

text \<open>The loop of \<^verbatim>\<open>evaluate_unlocked\<close> over the sources behind the trait, whose method is the
  first argument.\<close>

fun evaluate_sources ::
    "('s \<Rightarrow> trust_policy_input \<Rightarrow> trust_error + source_match option) \<Rightarrow> timestamp \<Rightarrow> trust_policy_input \<Rightarrow> 's list
      \<Rightarrow> trust_error + trust_decision" where
  "evaluate_sources eval evaluated_at input [] = Ok (default_decision input evaluated_at)"
| "evaluate_sources eval evaluated_at input (s # ss) =
    (case eval s input of
       Err e \<Rightarrow> Err e
     | Ok (Some m) \<Rightarrow> Ok \<lparr>td_effective_trust = sm_effective_trust m, td_authority_ceiling =
          \<lparr>auc_allowed_effects = sm_allowed_effects m, auc_max_resource_ceiling = sm_max_resource_ceiling m\<rparr>,
          td_provenance = sm_provenance m, td_evaluated_at = evaluated_at\<rparr>
     | Ok None \<Rightarrow> evaluate_sources eval evaluated_at input ss)"

definition evaluate_unlocked :: "timestamp \<Rightarrow> trust_policy_input \<Rightarrow> host_trust_policy \<Rightarrow> trust_error + trust_decision" where
  "evaluate_unlocked now input p = evaluate_sources source_evaluate now input p"

section \<open>Changes and the bus (invalidation.rs)\<close>

record trust_change =
  tc_identity :: package_identity
  tc_previous :: trust_class
  tc_current :: trust_class
  tc_previous_authority_ceiling :: authority_ceiling
  tc_current_authority_ceiling :: authority_ceiling
  tc_effective_at :: timestamp

definition trust_change_new :: "package_identity \<Rightarrow> trust_decision \<Rightarrow> trust_decision \<Rightarrow> trust_change option" where
  "trust_change_new identity previous current =
    (if td_effective_trust previous = td_effective_trust current
        \<and> \<not> is_reduction_from (td_authority_ceiling current) (td_authority_ceiling previous) then None
     else Some \<lparr>tc_identity = identity, tc_previous = td_effective_trust previous,
       tc_current = td_effective_trust current, tc_previous_authority_ceiling = td_authority_ceiling previous,
       tc_current_authority_ceiling = td_authority_ceiling current, tc_effective_at = td_evaluated_at current\<rparr>)"

definition is_downgrade :: "trust_change \<Rightarrow> bool" where
  "is_downgrade c = (authority_level (tc_current c) < authority_level (tc_previous c))"

definition is_upgrade :: "trust_change \<Rightarrow> bool" where
  "is_upgrade c = (authority_level (tc_current c) > authority_level (tc_previous c))"

definition is_kind_change :: "trust_change \<Rightarrow> bool" where
  "is_kind_change c =
    (tc_previous c \<noteq> tc_current c \<and> authority_level (tc_current c) = authority_level (tc_previous c))"

definition authority_ceiling_reduced :: "trust_change \<Rightarrow> bool" where
  "authority_ceiling_reduced c = is_reduction_from (tc_current_authority_ceiling c) (tc_previous_authority_ceiling c)"

type_synonym 'w trust_change_listener = "trust_change \<Rightarrow> 'w \<Rightarrow> 'w option"

type_synonym 'w invalidation_bus = "'w trust_change_listener list"

definition bus_register :: "'w trust_change_listener \<Rightarrow> 'w invalidation_bus \<Rightarrow> 'w invalidation_bus" where
  "bus_register l b = push_back b l"

text \<open>The listeners run in order until one panics; the world is what they made of it until then, and
  the flag tells whether all of them returned.\<close>

fun notify_listeners :: "trust_change \<Rightarrow> 'w invalidation_bus \<Rightarrow> 'w \<Rightarrow> bool \<times> 'w" where
  "notify_listeners c [] w = (True, w)"
| "notify_listeners c (l # ls) w = (case l c w of None \<Rightarrow> (False, w) | Some w' \<Rightarrow> notify_listeners c ls w')"

text \<open>In a debug build the first branch of \<^verbatim>\<open>publish\<close> is an assertion; this is the release build.\<close>

definition bus_publish :: "trust_change \<Rightarrow> 'w invalidation_bus \<Rightarrow> 'w \<Rightarrow> bool \<times> 'w" where
  "bus_publish c b w =
    (if tc_previous c = tc_current c \<and> \<not> authority_ceiling_reduced c then (True, w)
     else notify_listeners c b w)"

definition listener_count :: "'w invalidation_bus \<Rightarrow> nat" where
  "listener_count b = length b"

definition identity_changed :: "package_identity \<Rightarrow> package_identity \<Rightarrow> bool" where
  "identity_changed previous current =
    (pk_package_id previous \<noteq> pk_package_id current \<or> pk_source previous \<noteq> pk_source current
     \<or> pk_digest previous \<noteq> pk_digest current \<or> pk_signer previous \<noteq> pk_signer current)"

definition authority_changed :: "capability_id set \<Rightarrow> capability_id set \<Rightarrow> bool" where
  "authority_changed previous current = (previous \<noteq> current)"

definition grant_retention_eligible ::
    "package_identity \<Rightarrow> package_identity \<Rightarrow> trust_class \<Rightarrow> trust_class \<Rightarrow> capability_id set \<Rightarrow> capability_id set \<Rightarrow> bool" where
  "grant_retention_eligible prev_identity curr_identity prev_trust curr_trust prev_authority curr_authority =
    (\<not> identity_changed prev_identity curr_identity \<and> prev_trust = curr_trust
     \<and> \<not> authority_changed prev_authority curr_authority)"

end
