(* ===== verification/Trust_Mutation.thy ===== *)
theory Trust_Mutation
  imports Trust_Policy
begin

text \<open>
  Changing the trust policy, the second half of \<^verbatim>\<open>ironclaw_trust/src/policy.rs\<close>: \<^verbatim>\<open>mutate_with\<close> runs a closure
  over mutator handles, which stage mutations, commits them and announces a loss of trust. A
  closure is a finite tree of calls: each node is a call of a handle and continues with the answer of
  that call. The last section is the lock of the policy: which thread may evaluate while another
  mutates.
\<close>

section \<open>Mutations (policy.rs)\<close>

datatype source_mutation =
    BundledUpsert bundled_entry
  | BundledRemove package_id
  | AdminUpsert admin_entry
  | AdminRemove package_id package_source
  | SignedUpsert signer_entry
  | SignedRemove string

text \<open>\<^verbatim>\<open>find::<T>\<close>: the one source of a type.\<close>

definition find_source :: "source_type \<Rightarrow> host_trust_policy \<Rightarrow> trust_error + policy_source" where
  "find_source t p =
    (case filter (\<lambda>s. type_id s = t) p of
       [] \<Rightarrow> Err (TrustInvariantViolation (''policy chain does not contain a source of type `'' @ type_name t @ ''`''))
     | [s] \<Rightarrow> Ok s
     | _ \<Rightarrow> Err (TrustInvariantViolation (''policy chain contains duplicate source type `'' @ type_name t @ ''`'')))"

fun bundled_get :: "package_id \<Rightarrow> policy_source \<Rightarrow> bundled_entry option" where
  "bundled_get i (BundledRegistry m) = hm_get m i"
| "bundled_get i _ = None"

fun admin_get :: "package_id \<Rightarrow> package_source \<Rightarrow> policy_source \<Rightarrow> admin_entry option" where
  "admin_get i src (AdminConfig m) = hm_get m (i, src)"
| "admin_get i src _ = None"

fun signed_get :: "string \<Rightarrow> policy_source \<Rightarrow> signer_entry option" where
  "signed_get s (SignedRegistry m) = hm_get m s"
| "signed_get s _ = None"

text \<open>The handles: each answers its caller and returns what is staged.\<close>

type_synonym staged = "source_mutation list"

definition stage_upsert ::
    "source_type \<Rightarrow> source_mutation \<Rightarrow> host_trust_policy \<Rightarrow> staged \<Rightarrow> (trust_error + unit) \<times> staged" where
  "stage_upsert t m p staged = (case find_source t p of Err e \<Rightarrow> (Err e, staged) | Ok _ \<Rightarrow> (Ok (), push_back staged m))"

definition bundled_upsert :: "bundled_entry \<Rightarrow> host_trust_policy \<Rightarrow> staged \<Rightarrow> (trust_error + unit) \<times> staged" where
  "bundled_upsert e = stage_upsert TyBundledRegistry (BundledUpsert e)"

definition bundled_remove ::
    "package_id \<Rightarrow> host_trust_policy \<Rightarrow> staged \<Rightarrow> (trust_error + bundled_entry option) \<times> staged" where
  "bundled_remove i p staged =
    (case find_source TyBundledRegistry p of
       Err e \<Rightarrow> (Err e, staged)
     | Ok s \<Rightarrow> (Ok (bundled_get i s), push_back staged (BundledRemove i)))"

definition admin_upsert :: "admin_entry \<Rightarrow> host_trust_policy \<Rightarrow> staged \<Rightarrow> (trust_error + unit) \<times> staged" where
  "admin_upsert e = stage_upsert TyAdminConfig (AdminUpsert e)"

definition admin_remove ::
    "package_id \<Rightarrow> package_source \<Rightarrow> host_trust_policy \<Rightarrow> staged \<Rightarrow> (trust_error + admin_entry option) \<times> staged" where
  "admin_remove i src p staged =
    (case find_source TyAdminConfig p of
       Err e \<Rightarrow> (Err e, staged)
     | Ok s \<Rightarrow> (Ok (admin_get i src s), push_back staged (AdminRemove i src)))"

definition signed_upsert :: "signer_entry \<Rightarrow> host_trust_policy \<Rightarrow> staged \<Rightarrow> (trust_error + unit) \<times> staged" where
  "signed_upsert e = stage_upsert TySignedRegistry (SignedUpsert e)"

definition signed_remove ::
    "string \<Rightarrow> host_trust_policy \<Rightarrow> staged \<Rightarrow> (trust_error + signer_entry option) \<times> staged" where
  "signed_remove signer p staged =
    (case find_source TySignedRegistry p of
       Err e \<Rightarrow> (Err e, staged)
     | Ok s \<Rightarrow> (Ok (signed_get signer s), push_back staged (SignedRemove signer)))"

text \<open>The closure handed to \<^verbatim>\<open>mutate_with\<close>.\<close>

datatype 'r mutation_closure =
    Return "trust_error + 'r"
  | CallBundledUpsert bundled_entry "trust_error + unit \<Rightarrow> 'r mutation_closure"
  | CallBundledRemove package_id "trust_error + bundled_entry option \<Rightarrow> 'r mutation_closure"
  | CallAdminUpsert admin_entry "trust_error + unit \<Rightarrow> 'r mutation_closure"
  | CallAdminRemove package_id package_source "trust_error + admin_entry option \<Rightarrow> 'r mutation_closure"
  | CallSignedUpsert signer_entry "trust_error + unit \<Rightarrow> 'r mutation_closure"
  | CallSignedRemove string "trust_error + signer_entry option \<Rightarrow> 'r mutation_closure"

primrec run_closure :: "'r mutation_closure \<Rightarrow> host_trust_policy \<Rightarrow> staged \<Rightarrow> (trust_error + 'r) \<times> staged" where
  "run_closure (Return r) p st = (r, st)"
| "run_closure (CallBundledUpsert e k) p st = (case bundled_upsert e p st of (a, st') \<Rightarrow> run_closure (k a) p st')"
| "run_closure (CallBundledRemove i k) p st = (case bundled_remove i p st of (a, st') \<Rightarrow> run_closure (k a) p st')"
| "run_closure (CallAdminUpsert e k) p st = (case admin_upsert e p st of (a, st') \<Rightarrow> run_closure (k a) p st')"
| "run_closure (CallAdminRemove i src k) p st = (case admin_remove i src p st of (a, st') \<Rightarrow> run_closure (k a) p st')"
| "run_closure (CallSignedUpsert e k) p st = (case signed_upsert e p st of (a, st') \<Rightarrow> run_closure (k a) p st')"
| "run_closure (CallSignedRemove s k) p st = (case signed_remove s p st of (a, st') \<Rightarrow> run_closure (k a) p st')"

text \<open>What a mutation does to the source it finds: the crate-private \<^verbatim>\<open>upsert\<close> and \<^verbatim>\<open>remove\<close> of the
  three registries.\<close>

fun mutation_target :: "source_mutation \<Rightarrow> source_type" where
  "mutation_target (BundledUpsert _) = TyBundledRegistry"
| "mutation_target (BundledRemove _) = TyBundledRegistry"
| "mutation_target (AdminUpsert _) = TyAdminConfig"
| "mutation_target (AdminRemove _ _) = TyAdminConfig"
| "mutation_target (SignedUpsert _) = TySignedRegistry"
| "mutation_target (SignedRemove _) = TySignedRegistry"

fun mutate_source :: "source_mutation \<Rightarrow> policy_source \<Rightarrow> policy_source" where
  "mutate_source (BundledUpsert e) (BundledRegistry m) = BundledRegistry (hm_insert (be_package_id e) e m)"
| "mutate_source (BundledRemove i) (BundledRegistry m) = BundledRegistry (hm_remove i m)"
| "mutate_source (AdminUpsert e) (AdminConfig m) = AdminConfig (hm_insert (subject_from_entry e) e m)"
| "mutate_source (AdminRemove i src) (AdminConfig m) = AdminConfig (hm_remove (i, src) m)"
| "mutate_source (SignedUpsert e) (SignedRegistry m) = SignedRegistry (hm_insert (sge_signer e) e m)"
| "mutate_source (SignedRemove s) (SignedRegistry m) = SignedRegistry (hm_remove s m)"
| "mutate_source _ s = s"

text \<open>The loop of \<^verbatim>\<open>commit\<close>: an error stops it after what was already committed.\<close>

fun commit_staged :: "staged \<Rightarrow> host_trust_policy \<Rightarrow> (trust_error + unit) \<times> host_trust_policy" where
  "commit_staged [] p = (Ok (), p)"
| "commit_staged (m # ms) p =
    (case find_source (mutation_target m) p of
       Err e \<Rightarrow> (Err e, p)
     | Ok _ \<Rightarrow> commit_staged ms (map (\<lambda>s. if type_id s = mutation_target m then mutate_source m s else s) p))"

text \<open>\<^verbatim>\<open>mutate_with\<close> up to the publication: the answer, the chain and the change to publish. The
  two clock readings are those of the evaluations before and after.\<close>

definition mutate_sources ::
    "timestamp \<Rightarrow> timestamp \<Rightarrow> package_identity \<Rightarrow> capability_id set \<Rightarrow> requested_trust_class \<Rightarrow> 'r mutation_closure
      \<Rightarrow> host_trust_policy \<Rightarrow> (trust_error + 'r) \<times> host_trust_policy \<times> trust_change option" where
  "mutate_sources now1 now2 identity authority requested f p =
    (let probe = \<lparr>tpi_identity = identity, tpi_requested_trust = requested, tpi_requested_authority = authority\<rparr> in
     case evaluate_unlocked now1 probe p of
       Err e \<Rightarrow> (Err e, p, None)
     | Ok previous \<Rightarrow>
        (case run_closure f p [] of
           (Err e, _) \<Rightarrow> (Err e, p, None)
         | (Ok r, staged) \<Rightarrow>
            (case commit_staged staged p of
               (Err e, p') \<Rightarrow> (Err e, p', None)
             | (Ok _, p') \<Rightarrow>
                (case evaluate_unlocked now2 probe p' of
                   Err e \<Rightarrow> (Err e, p', None)
                 | Ok current \<Rightarrow> (Ok r, p', trust_change_new identity previous current)))))"

text \<open>The whole of \<^verbatim>\<open>mutate_with\<close>; a panic of a listener leaves it without an answer.\<close>

definition mutate_with ::
    "timestamp \<Rightarrow> timestamp \<Rightarrow> package_identity \<Rightarrow> capability_id set \<Rightarrow> requested_trust_class \<Rightarrow> 'r mutation_closure
      \<Rightarrow> 'w invalidation_bus \<Rightarrow> host_trust_policy \<Rightarrow> 'w \<Rightarrow> (trust_error + 'r) option \<times> host_trust_policy \<times> 'w" where
  "mutate_with now1 now2 identity authority requested f bus p w =
    (case mutate_sources now1 now2 identity authority requested f p of
       (r, p', None) \<Rightarrow> (Some r, p', w)
     | (r, p', Some c) \<Rightarrow>
        (case bus_publish c bus w of
           (True, w') \<Rightarrow> (Some r, p', w')
         | (False, w') \<Rightarrow> (None, p', w')))"

section \<open>The mutation gate (policy.rs)\<close>

text \<open>
  Threads meet at the gate, a read-write lock. \<^verbatim>\<open>evaluate\<close> reads under it, except on a thread that is
  publishing for this policy, which \<^verbatim>\<open>PUBLISHING_POLICIES\<close> tells by its stack of keys. \<^verbatim>\<open>mutate_with\<close>
  holds it for writing from its first evaluation until the listeners have run; the part before the
  publication is one step, since no other thread can observe it, and each listener is one step. A
  panic unwinds through both guards; the poisoned lock is taken again by whoever comes next. A listener
  is registered only while none is being notified. What a closure returns goes to its caller only and
  is the unit here. The log records what threads did.
\<close>

datatype ('t, 'l) gate = GateFree | GateHeld 't trust_change "'l list"

datatype ('t, 'l) trust_event =
    EvSilent 't
  | EvChanged 't trust_change "'l list"
  | EvNotified 'l trust_change
  | EvPanicked 'l trust_change
  | EvReleased 't
  | EvEvaluated 't trust_policy_input "trust_error + trust_decision"

record ('t, 'l) trust_machine =
  tm_policy :: host_trust_policy
  tm_listeners :: "'l list"
  tm_gate :: "('t, 'l) gate"
  tm_log :: "('t, 'l) trust_event list"

fun is_publish_reentrant :: "'t \<Rightarrow> ('t, 'l) gate \<Rightarrow> bool" where
  "is_publish_reentrant t (GateHeld t' _ _) = (t = t')"
| "is_publish_reentrant t GateFree = False"

definition may_evaluate :: "'t \<Rightarrow> ('t, 'l) gate \<Rightarrow> bool" where
  "may_evaluate t g = (is_publish_reentrant t g \<or> g = GateFree)"

inductive trust_step :: "('t, 'l) trust_machine \<Rightarrow> ('t, 'l) trust_machine \<Rightarrow> bool" where
  silent: "tm_gate s = GateFree \<Longrightarrow> mutate_sources now1 now2 identity authority requested (f :: unit mutation_closure) (tm_policy s) = (r, p', None)
    \<Longrightarrow> trust_step s (s\<lparr>tm_policy := p', tm_log := push_back (tm_log s) (EvSilent t)\<rparr>)"
| changed: "tm_gate s = GateFree \<Longrightarrow> mutate_sources now1 now2 identity authority requested (f :: unit mutation_closure) (tm_policy s) = (r, p', Some c)
    \<Longrightarrow> trust_step s (s\<lparr>tm_policy := p', tm_gate := GateHeld t c (tm_listeners s),
          tm_log := push_back (tm_log s) (EvChanged t c (tm_listeners s))\<rparr>)"
| notified: "tm_gate s = GateHeld t c (l # ls)
    \<Longrightarrow> trust_step s (s\<lparr>tm_gate := GateHeld t c ls, tm_log := push_back (tm_log s) (EvNotified l c)\<rparr>)"
| panicked: "tm_gate s = GateHeld t c (l # ls)
    \<Longrightarrow> trust_step s (s\<lparr>tm_gate := GateFree, tm_log := push_back (tm_log s) (EvPanicked l c)\<rparr>)"
| released: "tm_gate s = GateHeld t c []
    \<Longrightarrow> trust_step s (s\<lparr>tm_gate := GateFree, tm_log := push_back (tm_log s) (EvReleased t)\<rparr>)"
| evaluated: "may_evaluate t (tm_gate s)
    \<Longrightarrow> trust_step s (s\<lparr>tm_log := push_back (tm_log s) (EvEvaluated t input (evaluate_unlocked now input (tm_policy s)))\<rparr>)"
| registered: "tm_gate s = GateFree \<Longrightarrow> trust_step s (s\<lparr>tm_listeners := push_back (tm_listeners s) l\<rparr>)"

end
