(* ===== verification/Trust_Guarantees.thy ===== *)
theory Trust_Guarantees
  imports Authority_Guarantees Trust_Mutation
begin

text \<open>
  Guarantees of the trust policy: trust comes from an entry of a registry for exactly the package and
  never from what the package asks for; a mutation happens completely or not at all, and when it
  takes authority from the package it names, the loss is announced; no other thread evaluates
  between the loss and the last listener.
\<close>

section \<open>What a policy source promises\<close>

text \<open>A source answers every question, and its answer depends on the identity alone.\<close>

locale trust_source =
  fixes eval :: "'s \<Rightarrow> trust_policy_input \<Rightarrow> trust_error + source_match option"
    and vouches :: "'s \<Rightarrow> package_identity \<Rightarrow> source_match \<Rightarrow> bool"
  assumes eval_total: "\<exists>m. eval s i = Ok m"
    and eval_match: "eval s i = Ok (Some m) \<longleftrightarrow> vouches s (tpi_identity i) m"
begin

lemma eval_identity:
  assumes "tpi_identity i = tpi_identity j"
  shows "eval s i = eval s j"
proof -
  obtain m n where ok: "eval s i = Ok m" "eval s j = Ok n" using eval_total by meson
  have "eval s i = Ok (Some x) \<longleftrightarrow> eval s j = Ok (Some x)" for x by (simp add: eval_match assms)
  then have "m = Some x \<longleftrightarrow> n = Some x" for x using ok by simp
  then have "m = n" by (metis option.exhaust)
  then show ?thesis using ok by simp
qed

lemma evaluate_total: "\<exists>d. evaluate_sources eval now i ss = Ok d"
proof (induction ss)
  case (Cons s ss)
  obtain m where "eval s i = Ok m" using eval_total by meson
  with Cons show ?case by (cases m) auto
qed simp

lemma evaluate_identity:
  "tpi_identity i = tpi_identity j \<Longrightarrow> evaluate_sources eval now i ss = evaluate_sources eval now j ss"
  by (induction ss) (auto simp: default_decision_def eval_identity [of i j] split: sum.split option.split)

lemma evaluate_cases:
  assumes "evaluate_sources eval now i ss = Ok d"
  obtains (vouched) s m where "s \<in> set ss" "vouches s (tpi_identity i) m" "td_effective_trust d = sm_effective_trust m"
      "td_authority_ceiling d = \<lparr>auc_allowed_effects = sm_allowed_effects m, auc_max_resource_ceiling = sm_max_resource_ceiling m\<rparr>"
      "td_provenance d = sm_provenance m"
    | (unknown) "d = default_decision i now" "\<forall>s \<in> set ss. \<forall>m. \<not> vouches s (tpi_identity i) m"
  using assms
proof (induction ss arbitrary: thesis)
  case (Cons s ss)
  obtain m where m: "eval s i = Ok m" using eval_total by meson
  show ?case
  proof (cases m)
    case None
    then have "\<forall>m. \<not> vouches s (tpi_identity i) m" using m eval_match [of s i] by auto
    moreover have "evaluate_sources eval now i ss = Ok d" using None m Cons.prems(3) by simp
    ultimately show ?thesis using Cons.IH Cons.prems(1,2) by (metis list.set_intros(2) set_ConsD)
  next
    case (Some a)
    then have "vouches s (tpi_identity i) a" using m eval_match by simp
    then show ?thesis using Cons.prems(1) [of s a] Cons.prems(3) Some m by auto
  qed
qed simp

text \<open>Evaluations at two times differ in the time only.\<close>

lemma evaluate_time:
  "evaluate_sources eval now i ss = Ok d \<Longrightarrow> evaluate_sources eval now' i ss = Ok (d\<lparr>td_evaluated_at := now'\<rparr>)"
  by (induction ss) (auto simp: default_decision_def split: sum.splits option.splits)

end

fun source_vouches :: "policy_source \<Rightarrow> package_identity \<Rightarrow> source_match \<Rightarrow> bool" where
  "source_vouches (BundledRegistry es) pk m \<longleftrightarrow> pk_source pk = FromBundle
    \<and> (\<exists>e. hm_get es (pk_package_id pk) = Some e \<and> digest_pin_holds (be_digest e) (pk_digest pk)
        \<and> m = \<lparr>sm_effective_trust = be_effective_trust e, sm_provenance = ProvBundled,
              sm_allowed_effects = be_allowed_effects e, sm_max_resource_ceiling = be_max_resource_ceiling e\<rparr>)"
| "source_vouches (AdminConfig es) pk m \<longleftrightarrow>
    (\<exists>e. hm_get es (pk_package_id pk, pk_source pk) = Some e \<and> digest_pin_holds (ae_digest e) (pk_digest pk)
        \<and> m = \<lparr>sm_effective_trust = ae_effective_trust e, sm_provenance = ProvAdminConfig,
              sm_allowed_effects = ae_allowed_effects e, sm_max_resource_ceiling = ae_max_resource_ceiling e\<rparr>)"
| "source_vouches _ pk m = False"

interpretation chain: trust_source source_evaluate source_vouches
proof
  show "\<exists>m. source_evaluate s i = Ok m" for s i
    by (cases s) (auto simp: bundled_evaluate_def admin_evaluate_def Let_def split: option.split)
  show "source_evaluate s i = Ok (Some m) \<longleftrightarrow> source_vouches s (tpi_identity i) m" for s i m
    by (cases s) (auto simp: bundled_evaluate_def admin_evaluate_def Let_def split: option.splits)
qed

lemma source_evaluate_keys:
  assumes "pk_package_id (tpi_identity i) = pk_package_id (tpi_identity j)"
    "pk_source (tpi_identity i) = pk_source (tpi_identity j)" "pk_digest (tpi_identity i) = pk_digest (tpi_identity j)"
  shows "evaluate_unlocked now i p = evaluate_unlocked now j p"
proof -
  have "source_evaluate s i = source_evaluate s j" for s
    using assms by (cases s) (simp_all add: bundled_evaluate_def admin_evaluate_def Let_def split: option.split)
  then show ?thesis unfolding evaluate_unlocked_def
    by (induction p) (auto simp: default_decision_def split: sum.split option.split)
qed

section \<open>Reachable policies\<close>

definition seeded :: "policy_source \<Rightarrow> bool" where
  "seeded s \<longleftrightarrow> (\<exists>es. s = bundled_with_entries es) \<or> (\<exists>es. s = admin_with_entries es)
    \<or> (\<exists>es. s = signed_with_signers es) \<or> s = local_dev_inert"

inductive trust_reachable :: "host_trust_policy \<Rightarrow> bool" where
  fail_closed: "trust_reachable policy_fail_closed"
| new: "policy_with_clock ss = Ok p \<Longrightarrow> \<forall>s \<in> set ss. seeded s \<Longrightarrow> trust_reachable p"
| add: "trust_reachable p \<Longrightarrow> seeded s \<Longrightarrow> add_source s p = (r, p') \<Longrightarrow> trust_reachable p'"
| mutate: "trust_reachable p \<Longrightarrow> mutate_sources now1 now2 identity authority requested (f :: unit mutation_closure) p = (r, p', change)
    \<Longrightarrow> trust_reachable p'"

definition keyed_by :: "('v \<Rightarrow> 'k) \<Rightarrow> ('k, 'v) hmap \<Rightarrow> bool" where
  "keyed_by key m \<longleftrightarrow> (\<forall>k e. hm_get m k = Some e \<longrightarrow> key e = k)"

lemma keyed_by_insert: "keyed_by key m \<Longrightarrow> keyed_by key (hm_insert (key e) e m)"
  by (simp add: keyed_by_def)

lemma keyed_by_remove: "keyed_by key m \<Longrightarrow> keyed_by key (hm_remove k m)"
  by (simp add: keyed_by_def)

lemma keyed_by_fold: "keyed_by key m \<Longrightarrow> keyed_by key (fold (\<lambda>e. hm_insert (key e) e) es m)"
  by (induction es arbitrary: m) (simp_all add: keyed_by_insert)

lemma keyed_by_Nil: "keyed_by key []"
  by (simp add: keyed_by_def)

text \<open>The types of the sources differ, and every entry stands under its own key.\<close>

fun source_ok :: "policy_source \<Rightarrow> bool" where
  "source_ok (BundledRegistry es) = keyed_by be_package_id es"
| "source_ok (AdminConfig es) = keyed_by subject_from_entry es"
| "source_ok (SignedRegistry es) = keyed_by sge_signer es"
| "source_ok (LocalDevOverride es enabled) \<longleftrightarrow> es = [] \<and> \<not> enabled"

definition policy_ok :: "host_trust_policy \<Rightarrow> bool" where
  "policy_ok p \<longleftrightarrow> distinct (map type_id p) \<and> (\<forall>s \<in> set p. source_ok s)"

lemma seeded_ok: "seeded s \<Longrightarrow> source_ok s"
  by (auto simp: seeded_def bundled_with_entries_def admin_with_entries_def signed_with_signers_def local_dev_inert_def
    keyed_by_fold keyed_by_Nil)

lemma unique_types_iff:
  "unique_types_loop seen ss = Ok u \<longleftrightarrow> distinct (map type_id ss) \<and> set (map type_id ss) \<inter> set seen = {}"
  by (induction seen ss rule: unique_types_loop.induct) auto

lemma type_id_mutate [simp]: "type_id (mutate_source m s) = type_id s"
  by (cases "(m, s)" rule: mutate_source.cases) simp_all

lemma source_ok_mutate: "source_ok s \<Longrightarrow> source_ok (mutate_source m s)"
  by (cases "(m, s)" rule: mutate_source.cases) (simp_all add: keyed_by_insert keyed_by_remove)

lemma map_type_id [simp]:
  "map type_id (map (\<lambda>s. if type_id s = t then mutate_source m s else s) p) = map type_id p"
  by (induction p) simp_all

lemma commit_keeps_types: "commit_staged ms p = (r, p') \<Longrightarrow> map type_id p' = map type_id p"
  by (induction ms p rule: commit_staged.induct) (auto simp del: map_map split: sum.splits)

lemma commit_keeps_ok: "commit_staged ms p = (r, p') \<Longrightarrow> \<forall>s \<in> set p. source_ok s \<Longrightarrow> \<forall>s \<in> set p'. source_ok s"
proof (induction ms p rule: commit_staged.induct)
  case (2 m ms p)
  let ?q = "map (\<lambda>s. if type_id s = mutation_target m then mutate_source m s else s) p"
  have "\<forall>s \<in> set ?q. source_ok s" using 2(3) source_ok_mutate by auto
  then show ?case using 2 by (cases "find_source (mutation_target m) p") (simp_all del: set_map)
qed simp

lemma commit_policy_ok: "commit_staged ms p = (r, p') \<Longrightarrow> policy_ok p \<Longrightarrow> policy_ok p'"
  using commit_keeps_types commit_keeps_ok by (simp add: policy_ok_def)

lemma mutate_policy_ok:
  assumes "mutate_sources now1 now2 identity authority requested f p = (r, p', change)" "policy_ok p"
  shows "policy_ok p'"
  using assms commit_policy_ok
  by (auto simp: mutate_sources_def Let_def split: sum.splits prod.splits)

lemma reachable_policy_ok: "trust_reachable p \<Longrightarrow> policy_ok p"
proof (induction rule: trust_reachable.induct)
  case fail_closed
  show ?case by (simp add: policy_ok_def policy_fail_closed_def)
next
  case (new ss p)
  then show ?case
    by (auto simp: policy_with_clock_def ensure_unique_source_types_def unique_types_iff policy_ok_def seeded_ok split: sum.splits)
next
  case (add p s r p')
  then show ?case
    by (auto simp: add_source_def ensure_source_type_absent_def policy_ok_def seeded_ok list_ex_iff split: sum.splits if_splits) metis
next
  case (mutate p)
  then show ?case using mutate_policy_ok by blast
qed

section \<open>Staging and committing\<close>

text \<open>Whatever is staged has its source in the chain.\<close>

definition stageable :: "host_trust_policy \<Rightarrow> staged \<Rightarrow> bool" where
  "stageable p ms \<longleftrightarrow> (\<forall>m \<in> set ms. mutation_target m \<in> set (map type_id p))"

lemma find_source_Ok: "find_source t p = Ok s \<Longrightarrow> t \<in> set (map type_id p)"
proof -
  assume "find_source t p = Ok s"
  then have "filter (\<lambda>s. type_id s = t) p = [s]" by (auto simp: find_source_def split: list.splits)
  then have "s \<in> set (filter (\<lambda>s. type_id s = t) p)" by simp
  then show ?thesis by auto
qed

lemma find_source_present:
  assumes "distinct (map type_id p)" "t \<in> set (map type_id p)"
  shows "\<exists>s. find_source t p = Ok s"
proof -
  have "length (filter (\<lambda>s. type_id s = t) p) = 1"
    using assms by (induction p) (auto simp: filter_empty_conv image_iff)
  then show ?thesis by (auto simp: find_source_def length_Suc_conv)
qed

lemma handles_stageable:
  "bundled_upsert be p st = (a, st') \<Longrightarrow> stageable p st \<Longrightarrow> stageable p st'"
  "bundled_remove i p st = (b, st') \<Longrightarrow> stageable p st \<Longrightarrow> stageable p st'"
  "admin_upsert ae p st = (a, st') \<Longrightarrow> stageable p st \<Longrightarrow> stageable p st'"
  "admin_remove i src p st = (c, st') \<Longrightarrow> stageable p st \<Longrightarrow> stageable p st'"
  "signed_upsert se p st = (a, st') \<Longrightarrow> stageable p st \<Longrightarrow> stageable p st'"
  "signed_remove i p st = (d, st') \<Longrightarrow> stageable p st \<Longrightarrow> stageable p st'"
  by (auto simp: bundled_upsert_def admin_upsert_def signed_upsert_def stage_upsert_def bundled_remove_def
    admin_remove_def signed_remove_def stageable_def dest!: find_source_Ok split: sum.splits)

lemma run_closure_stageable: "run_closure f p st = (r, st') \<Longrightarrow> stageable p st \<Longrightarrow> stageable p st'"
  by (induction f arbitrary: st) (auto dest: handles_stageable split: prod.splits)

lemma commit_succeeds:
  "distinct (map type_id p) \<Longrightarrow> stageable p ms \<Longrightarrow> \<exists>p'. commit_staged ms p = (Ok (), p')"
proof (induction ms arbitrary: p)
  case (Cons m ms)
  let ?q = "map (\<lambda>s. if type_id s = mutation_target m then mutate_source m s else s) p"
  obtain s where "find_source (mutation_target m) p = Ok s"
    using find_source_present [OF Cons.prems(1)] Cons.prems(2) by (auto simp: stageable_def)
  moreover have "\<exists>p'. commit_staged ms ?q = (Ok (), p')"
    using Cons.IH [of ?q] Cons.prems by (simp add: stageable_def del: map_map set_map)
  ultimately show ?case by simp
qed simp

lemma policy_answers: "\<exists>d. evaluate_unlocked now i p = Ok d"
  unfolding evaluate_unlocked_def by (rule chain.evaluate_total)

text \<open>The two ways a mutation of a consistent policy can end.\<close>

lemma mutate_sources_cases:
  assumes "policy_ok p" "mutate_sources now1 now2 identity authority requested f p = (r, p', change)"
  obtains (failed) e where "r = Err e" "p' = p" "change = None" "fst (run_closure f p []) = Err e"
    | (committed) x staged previous current where "r = Ok x" "run_closure f p [] = (Ok x, staged)"
      "commit_staged staged p = (Ok (), p')" "change = trust_change_new identity previous current"
      "evaluate_unlocked now1 \<lparr>tpi_identity = identity, tpi_requested_trust = requested, tpi_requested_authority = authority\<rparr> p
         = Ok previous"
      "evaluate_unlocked now2 \<lparr>tpi_identity = identity, tpi_requested_trust = requested, tpi_requested_authority = authority\<rparr> p'
         = Ok current"
proof -
  let ?probe = "\<lparr>tpi_identity = identity, tpi_requested_trust = requested, tpi_requested_authority = authority\<rparr>"
  obtain previous where prev: "evaluate_unlocked now1 ?probe p = Ok previous" using policy_answers by blast
  obtain x staged where run: "run_closure f p [] = (x, staged)" by fastforce
  then obtain q where q: "commit_staged staged p = (Ok (), q)"
    using commit_succeeds [of p staged] run_closure_stageable [OF run] assms(1) by (auto simp: policy_ok_def stageable_def)
  obtain current where cur: "evaluate_unlocked now2 ?probe q = Ok current" using policy_answers by blast
  show ?thesis
  proof (cases x)
    case (Inl e)
    then have "r = Err e \<and> p' = p \<and> change = None"
      using assms(2) prev run by (simp add: mutate_sources_def Let_def)
    then show ?thesis using failed [of e] run Inl by simp
  next
    case (Inr y)
    then have "r = Ok y \<and> p' = q \<and> change = trust_change_new identity previous current"
      using assms(2) prev run q cur by (simp add: mutate_sources_def Let_def)
    then show ?thesis using committed [of y staged previous current] run q prev cur Inr by simp
  qed
qed

section \<open>Where trust comes from\<close>

text \<open>A decision that an entry for this name, origin and digest assigned.\<close>

definition assigned_by_entry :: "host_trust_policy \<Rightarrow> package_identity \<Rightarrow> trust_decision \<Rightarrow> bool" where
  "assigned_by_entry p pk d \<longleftrightarrow>
    (\<exists>es e. BundledRegistry es \<in> set p \<and> hm_get es (pk_package_id pk) = Some e \<and> pk_source pk = FromBundle
       \<and> digest_pin_holds (be_digest e) (pk_digest pk) \<and> td_provenance d = ProvBundled
       \<and> td_effective_trust d = be_effective_trust e \<and> td_authority_ceiling d =
           \<lparr>auc_allowed_effects = be_allowed_effects e, auc_max_resource_ceiling = be_max_resource_ceiling e\<rparr>)
    \<or> (\<exists>es e. AdminConfig es \<in> set p \<and> hm_get es (pk_package_id pk, pk_source pk) = Some e
       \<and> digest_pin_holds (ae_digest e) (pk_digest pk) \<and> td_provenance d = ProvAdminConfig
       \<and> td_effective_trust d = ae_effective_trust e \<and> td_authority_ceiling d =
           \<lparr>auc_allowed_effects = ae_allowed_effects e, auc_max_resource_ceiling = ae_max_resource_ceiling e\<rparr>)"

lemma evaluate_assigned:
  assumes "evaluate_unlocked now input p = Ok d"
  shows "assigned_by_entry p (tpi_identity input) d \<or> d = default_decision input now"
proof -
  have "evaluate_sources source_evaluate now input p = Ok d" using assms by (simp add: evaluate_unlocked_def)
  then show ?thesis
  proof (cases rule: chain.evaluate_cases)
    case (vouched s m)
    then have "assigned_by_entry p (tpi_identity input) d"
      by (cases s rule: policy_source.exhaust) (auto simp: assigned_by_entry_def)
    then show ?thesis ..
  qed simp
qed

lemma default_allows_nothing:
  assumes "cd_effects cd \<noteq> []"
  shows "authorize_dispatch_with_trust t m c cd e (default_decision input now) \<noteq> Allow obs"
proof
  assume "authorize_dispatch_with_trust t m c cd e (default_decision input now) = Allow obs"
  then have "authorize_from_grants_with_trust t c cd e (xc_grants c @ active_grants_for_context t c m)
      (default_decision input now) = Allow obs"
    by (simp add: authorize_dispatch_with_trust_def split: if_splits)
  then have "effects_are_covered (cd_effects cd) (auc_allowed_effects (td_authority_ceiling (default_decision input now)))"
    by (rule authorize_Allow)
  then show False using assms by (cases "cd_effects cd") (simp_all add: default_decision_def ceiling_empty_def effects_are_covered_def)
qed

text \<open>C24. Evaluation answers for every package, and the answer depends on the package's name, origin and digest
  alone: what trust and authority it requests and what signer it names changes nothing. Unless the
  answer is the default, an entry of the bundled registry or of the administrator's configuration
  for this name and exactly this origin, whose pinned digest if any is the package's, assigned the
  class and the ceiling. The default is the sandbox with the empty ceiling, under which no
  capability with an effect is dispatched, whatever grants there are.\<close>

theorem trust_comes_only_from_policy:
  "\<exists>d. evaluate_unlocked now input p = Ok d
    \<and> (\<forall>input'. pk_package_id (tpi_identity input') = pk_package_id (tpi_identity input)
         \<and> pk_source (tpi_identity input') = pk_source (tpi_identity input)
         \<and> pk_digest (tpi_identity input') = pk_digest (tpi_identity input) \<longrightarrow> evaluate_unlocked now input' p = Ok d)
    \<and> (assigned_by_entry p (tpi_identity input) d
       \<or> (td_provenance d = ProvDefault \<and> td_effective_trust d = TrSandbox \<and> td_authority_ceiling d = ceiling_empty
          \<and> (\<forall>t m c cd e obs. cd_effects cd \<noteq> [] \<longrightarrow> authorize_dispatch_with_trust t m c cd e d \<noteq> Allow obs)))"
proof -
  obtain d where d: "evaluate_unlocked now input p = Ok d" using policy_answers by blast
  moreover have "evaluate_unlocked now input' p = Ok d"
    if "pk_package_id (tpi_identity input') = pk_package_id (tpi_identity input)
         \<and> pk_source (tpi_identity input') = pk_source (tpi_identity input)
         \<and> pk_digest (tpi_identity input') = pk_digest (tpi_identity input)" for input'
    using source_evaluate_keys [of input' input] that d by simp
  moreover have "td_provenance d = ProvDefault \<and> td_effective_trust d = TrSandbox \<and> td_authority_ceiling d = ceiling_empty"
    if "d = default_decision input now" using that by (simp add: default_decision_def)
  ultimately show ?thesis using evaluate_assigned [OF d] default_allows_nothing by blast
qed

section \<open>Changes that take nothing away\<close>

lemma within_not_reduced: "options_within_ceiling e a \<Longrightarrow> \<not> limit_reduced a b \<Longrightarrow> options_within_ceiling e b"
  by (cases e; cases a; cases b) (auto simp: options_within_ceiling_def limit_reduced_def)

lemma estimate_not_reduced:
  assumes "resource_estimate_is_covered e a" "\<not> resource_ceiling_reduced a b"
  shows "resource_estimate_is_covered e b"
proof (cases b)
  case (Some y)
  then obtain x where "a = Some x" using assms(2) by (cases a) (auto simp: resource_ceiling_reduced_def)
  with assms Some show ?thesis
    by (cases "ceil_sandbox x"; cases "ceil_sandbox y")
      (auto simp: resource_estimate_is_covered_def resource_ceiling_reduced_def sandbox_quota_reduced_def
        intro: within_not_reduced)
qed (simp add: resource_estimate_is_covered_def)

text \<open>Normalization succeeds or fails on each kind of obligation separately.\<close>

definition kind_normal :: "obligation list \<Rightarrow> obligation_kind \<Rightarrow> bool" where
  "kind_normal obs k =
    (case filter (\<lambda>ob. obligation_kind_of ob = k) obs of
       [] \<Rightarrow> True
     | ob # rest \<Rightarrow> if k = KInjectSecretOnce \<or> k = KInjectCredentialAccountOnce
         then is_ok (normalize_multi_inject k [extract_inject_handle ob] rest) else rest = [])"

lemma normalize_kinds_ok: "is_ok (normalize_kinds obs ks acc) \<longleftrightarrow> (\<forall>k \<in> set ks. kind_normal obs k)"
  by (induction ks arbitrary: acc) (auto simp: kind_normal_def split: list.splits sum.splits)

lemma obligations_new_ok: "is_ok (obligations_new obs) \<longleftrightarrow> (\<forall>k. kind_normal obs k)"
  using evaluation_order_complete by (auto simp: obligations_new_def normalize_kinds_ok find_None_iff split: option.splits)
    (metis find_Some_iff option.distinct(1))+

lemma ceiling_obligations_filter:
  "filter (\<lambda>ob. obligation_kind_of ob = k) (ceiling_obligations ceiling) =
    (case ceiling of None \<Rightarrow> [] | Some c \<Rightarrow>
       (if k = KEnforceResourceCeiling then [EnforceResourceCeiling c] else [])
       @ (case ceil_max_output_bytes c of Some b \<Rightarrow> if k = KEnforceOutputLimit then [EnforceOutputLimit b] else [] | None \<Rightarrow> []))"
  by (auto simp: ceiling_obligations_def split: option.split)

lemma kind_normal_ceiling:
  assumes "\<And>ob. ob \<in> set obs \<Longrightarrow> obligation_kind_of ob \<notin> {KEnforceResourceCeiling, KEnforceOutputLimit}"
    and "kind_normal (obs @ ceiling_obligations c) k"
  shows "kind_normal (obs @ ceiling_obligations c') k"
proof (cases "k = KEnforceResourceCeiling \<or> k = KEnforceOutputLimit")
  case True
  then have "filter (\<lambda>ob. obligation_kind_of ob = k) obs = []" using assms(1) by (auto simp: filter_empty_conv)
  then show ?thesis using True by (auto simp: kind_normal_def ceiling_obligations_filter split: option.split)
next
  case False
  then have "filter (\<lambda>ob. obligation_kind_of ob = k) (ceiling_obligations x) = []" for x
    by (auto simp: ceiling_obligations_filter split: option.split)
  then show ?thesis using assms(2) by (simp add: kind_normal_def)
qed

lemma credential_obligations_kinds:
  "credential_obligations d g cs = Some obs \<Longrightarrow> ob \<in> set obs
    \<Longrightarrow> obligation_kind_of ob \<notin> {KEnforceResourceCeiling, KEnforceOutputLimit}"
  by (induction cs arbitrary: obs) (auto split: runtime_credential_requirement_source.splits if_splits)

lemma secret_obligations_kinds:
  "secret_obligations d g = Some obs \<Longrightarrow> ob \<in> set obs
    \<Longrightarrow> obligation_kind_of ob \<notin> {KEnforceResourceCeiling, KEnforceOutputLimit}"
  using credential_obligations_kinds [of d g _ obs ob]
  by (auto simp: secret_obligations_def split: if_splits list.splits)

lemma obligations_for_grant_shape:
  assumes "obligations_for_grant d g c = Some obs"
  obtains pre where "\<And>ob. ob \<in> set pre \<Longrightarrow> obligation_kind_of ob \<notin> {KEnforceResourceCeiling, KEnforceOutputLimit}"
    "\<And>c. obligations_for_grant d g c = (case obligations_new (pre @ ceiling_obligations c) of Ok obs \<Rightarrow> Some obs | Err _ \<Rightarrow> None)"
proof -
  obtain secrets where s: "secret_obligations d g = Some secrets"
    using assms by (auto simp: obligations_for_grant_def Let_def split: option.splits)
  show ?thesis
    by (rule that [of "(if descriptor_requires_mount_policy d then [UseScopedMounts (gc_mounts (cg_constraints g))] else [])
        @ (if EffNetwork \<in> set (cd_effects d) \<or> network_policy_is_constrained (gc_network (cg_constraints g))
           then [ApplyNetworkPolicy (gc_network (cg_constraints g))] else []) @ secrets"])
      (use secret_obligations_kinds [OF s] s in \<open>auto simp: obligations_for_grant_def Let_def split: if_splits\<close>)
qed

text \<open>Whether a grant can be turned into obligations does not depend on the ceiling.\<close>

lemma obligations_for_grant_ceiling:
  assumes "obligations_for_grant d g c = Some obs"
  shows "\<exists>obs'. obligations_for_grant d g c' = Some obs'"
proof (rule obligations_for_grant_shape [OF assms])
  fix pre
  assume kinds: "\<And>ob. ob \<in> set pre \<Longrightarrow> obligation_kind_of ob \<notin> {KEnforceResourceCeiling, KEnforceOutputLimit}"
    and eq: "\<And>c. obligations_for_grant d g c = (case obligations_new (pre @ ceiling_obligations c) of Ok obs \<Rightarrow> Some obs | Err _ \<Rightarrow> None)"
  have some: "(\<exists>obs. obligations_for_grant d g c = Some obs) \<longleftrightarrow> is_ok (obligations_new (pre @ ceiling_obligations c))" for c
    by (simp add: eq is_ok_def split: sum.split)
  have "\<forall>k. kind_normal (pre @ ceiling_obligations c) k" using assms some obligations_new_ok by blast
  then have "\<forall>k. kind_normal (pre @ ceiling_obligations c') k" using kind_normal_ceiling [OF kinds] by blast
  then show ?thesis using some obligations_new_ok by blast
qed

lemma first_allowing_not_reduced:
  assumes "first_allowing c d e (Some a) gs = Some obs" "\<not> is_reduction_from b a"
  shows "\<exists>obs'. first_allowing c d e (Some b) gs = Some obs'"
  using assms(1)
proof (induction gs arbitrary: obs)
  case (Cons g gs)
  let ?eff = "\<lambda>x. intersect_resource_ceilings (gc_resource_ceiling (cg_constraints g)) (auc_max_resource_ceiling x)"
  let ?ok = "\<lambda>x. effects_are_covered (cd_effects d) (gc_allowed_effects (cg_constraints g))
      \<and> effects_are_covered (cd_effects d) (auc_allowed_effects x) \<and> resource_estimate_is_covered e (?eff x)"
  have step: "first_allowing c d e (Some x) (g # gs) = (if ?ok x then case obligations_for_grant d g (?eff x) of
      Some obs \<Rightarrow> Some obs | None \<Rightarrow> first_allowing c d e (Some x) gs else first_allowing c d e (Some x) gs)" for x
    by (simp add: Let_def)
  have effects: "set (auc_allowed_effects a) \<subseteq> set (auc_allowed_effects b)"
    and ceiling: "\<not> resource_ceiling_reduced (auc_max_resource_ceiling a) (auc_max_resource_ceiling b)"
    using assms(2) by (auto simp: is_reduction_from_def list_ex_iff)
  have ok: "?ok a \<Longrightarrow> ?ok b"
    using effects estimate_not_reduced [OF _ ceiling] by (auto simp: effects_are_covered_def list_all_iff covered_intersect)
  show ?case
  proof (cases "first_allowing c d e (Some a) gs")
    case None
    then have "?ok a" "\<exists>obs'. obligations_for_grant d g (?eff a) = Some obs'"
      using Cons.prems unfolding step by (auto split: if_splits option.splits)
    then obtain obs' where "obligations_for_grant d g (?eff b) = Some obs'" using obligations_for_grant_ceiling by blast
    then show ?thesis using ok [OF \<open>?ok a\<close>] unfolding step by simp
  next
    case (Some obs')
    then show ?thesis using Cons.IH unfolding step by (auto split: option.split)
  qed
qed simp

lemma dispatch_not_reduced:
  assumes "authorize_dispatch_with_trust t m c cd e d = Allow obs"
    and "td_effective_trust d' = td_effective_trust d" "\<not> is_reduction_from (td_authority_ceiling d') (td_authority_ceiling d)"
  shows "\<exists>obs'. authorize_dispatch_with_trust t m c cd e d' = Allow obs'"
  using assms first_allowing_not_reduced [OF _ assms(3), of c cd e]
  by (auto simp: authorize_dispatch_with_trust_def authorize_from_grants_with_trust_def
    authorize_from_grants_with_authority_ceiling_def Let_def split: if_splits option.splits)

section \<open>Mutations\<close>

lemma evaluate_at:
  assumes "evaluate_unlocked now i p = Ok d" "tpi_identity j = tpi_identity i" "evaluate_unlocked now' j p = Ok d'"
  shows "td_effective_trust d' = td_effective_trust d" "td_authority_ceiling d' = td_authority_ceiling d"
proof -
  have "evaluate_unlocked now' j p = Ok (d\<lparr>td_evaluated_at := now'\<rparr>)"
    using chain.evaluate_time [of now i p d now'] chain.evaluate_identity [of j i now' p] assms(1,2)
    by (simp add: evaluate_unlocked_def)
  then show "td_effective_trust d' = td_effective_trust d" "td_authority_ceiling d' = td_authority_ceiling d"
    using assms(3) by auto
qed

text \<open>C25. A mutation of the policy is all or nothing: it fails exactly when its closure fails, and then the
  chain is as before and nothing is announced; otherwise everything staged is committed in order. If it
  announces nothing, then every dispatch that the package it names was allowed before is allowed
  after it, whatever the requests, the grants and the leases; what it announces is a change of
  class or a reduction of the ceiling of that package, with the decisions before and after.\<close>

theorem lost_authority_is_announced:
  assumes "trust_reachable p" "mutate_sources now1 now2 identity authority requested f p = (r, p', change)"
    and "tpi_identity i = identity" "evaluate_unlocked t1 i p = Ok before" "evaluate_unlocked t2 i p' = Ok after"
  shows "(\<forall>e. r = Err e \<longrightarrow> fst (run_closure f p []) = Err e \<and> p' = p \<and> change = None)
    \<and> (\<forall>x. r = Ok x \<longrightarrow> (\<exists>staged. run_closure f p [] = (Ok x, staged) \<and> commit_staged staged p = (Ok (), p')))
    \<and> (change = None \<longrightarrow> (\<forall>t m c cd e obs. authorize_dispatch_with_trust t m c cd e before = Allow obs \<longrightarrow>
         (\<exists>obs'. authorize_dispatch_with_trust t m c cd e after = Allow obs')))
    \<and> (\<forall>c. change = Some c \<longrightarrow> tc_identity c = identity
         \<and> tc_previous c = td_effective_trust before \<and> tc_previous_authority_ceiling c = td_authority_ceiling before
         \<and> tc_current c = td_effective_trust after \<and> tc_current_authority_ceiling c = td_authority_ceiling after
         \<and> (tc_previous c \<noteq> tc_current c \<or> authority_ceiling_reduced c))"
  using reachable_policy_ok [OF assms(1)] assms(2)
proof (cases rule: mutate_sources_cases)
  case (failed e)
  have "td_effective_trust after = td_effective_trust before" "td_authority_ceiling after = td_authority_ceiling before"
    using evaluate_at [OF assms(4) refl, of t2 after] assms(5) failed(2) by simp_all
  then have "\<forall>t m c cd e. authorize_dispatch_with_trust t m c cd e after = authorize_dispatch_with_trust t m c cd e before"
    by (simp add: authorize_dispatch_with_trust_def authorize_from_grants_with_trust_def)
  then show ?thesis using failed by auto
next
  case (committed x staged previous current)
  have eq: "td_effective_trust before = td_effective_trust previous" "td_authority_ceiling before = td_authority_ceiling previous"
    "td_effective_trust after = td_effective_trust current" "td_authority_ceiling after = td_authority_ceiling current"
    using evaluate_at [OF committed(5), of i t1 before] evaluate_at [OF committed(6), of i t2 after] assms(3-5) by simp_all
  then have "\<exists>obs'. authorize_dispatch_with_trust t m c cd e after = Allow obs'"
    if "change = None" "authorize_dispatch_with_trust t m c cd e before = Allow obs" for t m c cd e obs
    using that committed(4) dispatch_not_reduced [OF that(2), of after] by (simp add: trust_change_new_def split: if_splits)
  then show ?thesis using committed(1-3,4) eq
    by (auto simp: trust_change_new_def authority_ceiling_reduced_def split: if_splits)
qed

text \<open>An administrator trusts the package \<^verbatim>\<open>clock\<close>, then withdraws the trust.\<close>

definition clock_package :: package_identity where
  "clock_package = \<lparr>pk_package_id = ''clock'', pk_source = FromAdmin, pk_digest = None, pk_signer = None\<rparr>"

definition other_package :: package_identity where
  "other_package = clock_package\<lparr>pk_package_id := ''other''\<rparr>"

definition clock_policy :: host_trust_policy where
  "clock_policy = [bundled_with_entries [], admin_with_entries [for_admin ''clock'' TrFirstParty [DispatchCapability] None]]"

definition clock_input :: trust_policy_input where
  "clock_input = \<lparr>tpi_identity = clock_package, tpi_requested_trust = Untrusted, tpi_requested_authority = {}\<rparr>"

definition withdraw :: "unit mutation_closure" where
  "withdraw = CallAdminRemove ''clock'' FromAdmin (\<lambda>_. Return (Ok ()))"

definition first_party_decision :: trust_decision where
  "first_party_decision = \<lparr>td_effective_trust = TrFirstParty, td_authority_ceiling =
     \<lparr>auc_allowed_effects = [DispatchCapability], auc_max_resource_ceiling = None\<rparr>,
     td_provenance = ProvAdminConfig, td_evaluated_at = 1\<rparr>"

definition withdrawn_decision :: trust_decision where
  "withdrawn_decision = default_decision clock_input 2"

lemma clock_policy_reachable: "trust_reachable clock_policy"
proof (rule trust_reachable.new)
  show "policy_with_clock clock_policy = Ok clock_policy" by code_simp
  show "\<forall>s \<in> set clock_policy. seeded s" by (auto simp: clock_policy_def seeded_def)
qed

lemma clock_before: "evaluate_unlocked 1 clock_input clock_policy = Ok first_party_decision"
  by code_simp

lemma clock_withdrawn:
  "mutate_sources 1 2 clock_package {} Untrusted withdraw clock_policy =
    (Ok (), [bundled_with_entries [], admin_with_entries []], trust_change_new clock_package first_party_decision withdrawn_decision)"
  by code_simp

lemma clock_after: "evaluate_unlocked 2 clock_input [bundled_with_entries [], admin_with_entries []] = Ok withdrawn_decision"
  by code_simp

theorem lost_authority_is_announced_witness:
  "\<exists>p' c. mutate_sources 1 2 clock_package {} Untrusted withdraw clock_policy = (Ok (), p', Some c)
    \<and> tc_identity c = clock_package \<and> tc_previous c = TrFirstParty \<and> tc_current c = TrSandbox"
proof -
  obtain c where c: "trust_change_new clock_package first_party_decision withdrawn_decision = Some c"
    by (auto simp: trust_change_new_def first_party_decision_def withdrawn_decision_def default_decision_def)
  have "tpi_identity clock_input = clock_package" by (simp add: clock_input_def)
  from lost_authority_is_announced [OF clock_policy_reachable clock_withdrawn this clock_before clock_after] c clock_withdrawn
  show ?thesis by (auto simp: first_party_decision_def withdrawn_decision_def default_decision_def)
qed

theorem trust_comes_only_from_policy_witness:
  "evaluate_unlocked 1 \<lparr>tpi_identity = clock_package\<lparr>pk_signer := Some ''anyone''\<rparr>, tpi_requested_trust = SystemRequested,
      tpi_requested_authority = {''fs.write''}\<rparr> clock_policy = Ok first_party_decision
    \<and> assigned_by_entry clock_policy clock_package first_party_decision"
  using trust_comes_only_from_policy [of 1 clock_input clock_policy] clock_before
  by (auto simp: clock_input_def first_party_decision_def)

section \<open>What is announced, and about whom\<close>

lemma not_reduced_refl: "\<not> is_reduction_from c c"
  by (auto simp: is_reduction_from_def list_ex_iff resource_ceiling_reduced_def sandbox_quota_reduced_def limit_reduced_def
    split: option.split)

lemma evaluate_sources_map:
  "(\<And>s. s \<in> set ss \<Longrightarrow> source_evaluate (g s) i = source_evaluate s i)
    \<Longrightarrow> evaluate_unlocked now i (map g ss) = evaluate_unlocked now i ss"
  unfolding evaluate_unlocked_def by (induction ss) (auto split: sum.split option.split)

lemma admin_remove_elsewhere:
  assumes "(i, src) \<noteq> (pk_package_id (tpi_identity j), pk_source (tpi_identity j))"
  shows "source_evaluate (if type_id s = TyAdminConfig then mutate_source (AdminRemove i src) s else s) j = source_evaluate s j"
  using assms by (cases s) (auto simp: admin_evaluate_def)

text \<open>C27. Only the package that a mutation names is watched. Removing the administrator's entry of another
  package, or of another origin of the same package, takes that package's trust away and
  announces nothing: no listener learns of it.\<close>

theorem other_packages_lose_trust_silently:
  assumes "trust_reachable p" "AdminConfig es \<in> set p"
    and "(i, src) \<noteq> (pk_package_id identity, pk_source identity)"
    and "mutate_sources now1 now2 identity authority requested (CallAdminRemove i src (\<lambda>_. Return (Ok ()))) p = (r, p', change)"
    and "pk_package_id (tpi_identity j) = i" "pk_source (tpi_identity j) = src" "evaluate_unlocked now3 j p' = Ok d"
  shows "r = Ok () \<and> change = None \<and> td_provenance d \<noteq> ProvAdminConfig"
proof -
  let ?g = "\<lambda>s. if type_id s = TyAdminConfig then mutate_source (AdminRemove i src) s else s"
  have ok: "policy_ok p" using reachable_policy_ok assms(1) .
  have "TyAdminConfig \<in> set (map type_id p)" using assms(2) by force
  then obtain s where find: "find_source TyAdminConfig p = Ok s"
    using find_source_present [of p TyAdminConfig] ok by (auto simp: policy_ok_def simp del: set_map)
  from ok assms(4) show ?thesis
  proof (cases rule: mutate_sources_cases)
    case (failed e)
    then show ?thesis using find by (simp add: admin_remove_def)
  next
    case (committed x staged previous current)
    then have p': "p' = map ?g p" and x: "x = ()" using find by (auto simp: admin_remove_def)
    have "evaluate_unlocked now2 \<lparr>tpi_identity = identity, tpi_requested_trust = requested, tpi_requested_authority = authority\<rparr> p
        = Ok current"
      using committed(6) evaluate_sources_map [of p ?g] admin_remove_elsewhere assms(3) unfolding p' by simp
    then have "change = None"
      using evaluate_at [OF committed(5) refl] committed(4) not_reduced_refl by (simp add: trust_change_new_def)
    moreover have "hm_get es' (i, src) = None" if es': "AdminConfig es' \<in> set p'" for es'
    proof -
      obtain s where "AdminConfig es' = ?g s" using es' unfolding p' set_map by (rule imageE)
      then show ?thesis by (cases s) auto
    qed
    then have "td_provenance d \<noteq> ProvAdminConfig"
      using evaluate_assigned [OF assms(7)] assms(5,6) by (auto simp: assigned_by_entry_def default_decision_def)
    ultimately show ?thesis using committed(1) x by simp
  qed
qed

theorem other_packages_lose_trust_silently_witness:
  "evaluate_unlocked 1 clock_input clock_policy = Ok first_party_decision
    \<and> (\<exists>p'. mutate_sources 1 2 other_package {} Untrusted withdraw clock_policy = (Ok (), p', None)
         \<and> evaluate_unlocked 2 clock_input p' = Ok withdrawn_decision)"
proof -
  obtain r p' change where m: "mutate_sources 1 2 other_package {} Untrusted withdraw clock_policy = (r, p', change)"
    by (metis prod_cases3)
  have "fst (snd (mutate_sources 1 2 other_package {} Untrusted withdraw clock_policy)) = [bundled_with_entries [], admin_with_entries []]"
    by code_simp
  with m have p': "p' = [bundled_with_entries [], admin_with_entries []]" by simp
  have "r = Ok () \<and> change = None \<and> td_provenance withdrawn_decision \<noteq> ProvAdminConfig"
  proof (rule other_packages_lose_trust_silently [OF clock_policy_reachable])
    show "mutate_sources 1 2 other_package {} Untrusted (CallAdminRemove ''clock'' FromAdmin (\<lambda>_. Return (Ok ()))) clock_policy
        = (r, p', change)" using m by (simp add: withdraw_def)
    show "evaluate_unlocked 2 clock_input p' = Ok withdrawn_decision" using clock_after p' by simp
    show "AdminConfig (fold (\<lambda>e. hm_insert (subject_from_entry e) e) [for_admin ''clock'' TrFirstParty [DispatchCapability] None] [])
        \<in> set clock_policy"
      by (simp add: clock_policy_def admin_with_entries_def)
  qed (simp_all add: other_package_def clock_package_def clock_input_def)
  then show ?thesis using m p' clock_before clock_after by simp
qed

section \<open>The gate\<close>

text \<open>The gate after the events of a log, and None for a log that no run produces.\<close>

fun gate_after :: "('t, 'l) gate \<Rightarrow> ('t, 'l) trust_event \<Rightarrow> ('t, 'l) gate option" where
  "gate_after GateFree (EvSilent _) = Some GateFree"
| "gate_after GateFree (EvChanged t c ls) = Some (GateHeld t c ls)"
| "gate_after (GateHeld t c (l # ls)) (EvNotified l' c') = (if l' = l \<and> c' = c then Some (GateHeld t c ls) else None)"
| "gate_after (GateHeld t c (l # ls)) (EvPanicked l' c') = (if l' = l \<and> c' = c then Some GateFree else None)"
| "gate_after (GateHeld t c []) (EvReleased t') = (if t' = t then Some GateFree else None)"
| "gate_after g (EvEvaluated t i d) = (if may_evaluate t g then Some g else None)"
| "gate_after _ _ = None"

fun replay :: "('t, 'l) gate \<Rightarrow> ('t, 'l) trust_event list \<Rightarrow> ('t, 'l) gate option" where
  "replay g [] = Some g"
| "replay g (e # es) = (case gate_after g e of None \<Rightarrow> None | Some g' \<Rightarrow> replay g' es)"

lemma replay_append: "replay g (xs @ ys) = (case replay g xs of None \<Rightarrow> None | Some g' \<Rightarrow> replay g' ys)"
  by (induction xs arbitrary: g) (auto split: option.split)

definition trust_initial :: "('t, 'l) trust_machine \<Rightarrow> bool" where
  "trust_initial s \<longleftrightarrow> trust_reachable (tm_policy s) \<and> tm_gate s = GateFree \<and> tm_log s = []"

text \<open>While a change is being published, the chain already decides as the change says.\<close>

definition decides_current :: "('t, 'l) trust_machine \<Rightarrow> bool" where
  "decides_current s \<longleftrightarrow> (\<forall>t c ls now i d. tm_gate s = GateHeld t c ls \<and> tpi_identity i = tc_identity c
     \<and> evaluate_unlocked now i (tm_policy s) = Ok d
     \<longrightarrow> td_effective_trust d = tc_current c \<and> td_authority_ceiling d = tc_current_authority_ceiling c)"

definition machine_ok :: "('t, 'l) trust_machine \<Rightarrow> bool" where
  "machine_ok s \<longleftrightarrow> policy_ok (tm_policy s) \<and> replay GateFree (tm_log s) = Some (tm_gate s) \<and> decides_current s"

lemma changed_decides:
  assumes "policy_ok p" "mutate_sources now1 now2 identity authority requested f p = (r, p', Some c)"
    and "tpi_identity i = tc_identity c" "evaluate_unlocked now i p' = Ok d"
  shows "td_effective_trust d = tc_current c \<and> td_authority_ceiling d = tc_current_authority_ceiling c"
  using assms(1,2)
proof (cases rule: mutate_sources_cases)
  case (committed x staged previous current)
  then have "tc_identity c = identity" "tc_current c = td_effective_trust current"
    "tc_current_authority_ceiling c = td_authority_ceiling current"
    by (auto simp: trust_change_new_def split: if_splits)
  then show ?thesis using evaluate_at [OF committed(6), of i now d] assms(3,4) by simp
qed simp

lemma step_machine_ok: "trust_step s s' \<Longrightarrow> machine_ok s \<Longrightarrow> machine_ok s'"
proof (induction rule: trust_step.induct)
  case (silent s)
  then show ?case using mutate_policy_ok by (auto simp: machine_ok_def decides_current_def replay_append)
next
  case (changed s now1 now2 identity authority requested f r p' c t)
  then have "policy_ok (tm_policy s)" by (simp add: machine_ok_def)
  with changed show ?case using mutate_policy_ok changed_decides
    by (fastforce simp: machine_ok_def decides_current_def replay_append)
qed (auto simp: machine_ok_def decides_current_def replay_append split: option.split)

lemma runs_machine_ok: "trust_step\<^sup>*\<^sup>* s0 s \<Longrightarrow> trust_initial s0 \<Longrightarrow> machine_ok s"
proof (induction rule: rtranclp_induct)
  case base
  then show ?case using reachable_policy_ok by (auto simp: trust_initial_def machine_ok_def decides_current_def)
next
  case (step s s')
  then show ?case using step_machine_ok by blast
qed

lemma replay_held:
  assumes "replay (GateHeld t c ls) (mid @ EvEvaluated t' i d # post) \<noteq> None" "t' \<noteq> t"
  shows "(\<forall>l \<in> set ls. EvNotified l c \<in> set mid) \<or> (\<exists>l \<in> set ls. EvPanicked l c \<in> set mid)"
  using assms(1)
proof (induction mid arbitrary: ls)
  case Nil
  then show ?case using assms(2) by (simp add: may_evaluate_def)
next
  case (Cons e mid)
  obtain g where g: "gate_after (GateHeld t c ls) e = Some g" "replay g (mid @ EvEvaluated t' i d # post) \<noteq> None"
    using Cons.prems by (auto split: option.splits)
  show ?case
  proof (cases "(GateHeld t c ls, e)" rule: gate_after.cases)
    case (3 t0 c0 l ls0 l' c')
    then show ?thesis using g Cons.IH [of ls0] by (auto split: if_splits)
  next
    case (4 t0 c0 l ls0 l' c')
    then show ?thesis using g by (auto split: if_splits)
  next
    case (6 g0 t0 i0 d0)
    then show ?thesis using g Cons.IH [of ls] by (auto split: if_splits)
  qed (use g in \<open>auto split: if_splits\<close>)
qed

text \<open>C26. No thread sees a loss of trust before the listeners did. In any interleaving of evaluations,
  mutations, notifications and registrations, between a change that a thread publishes and the next
  evaluation by another thread, every listener registered at the change was notified of it,
  unless one of them panicked. A listener that evaluates the package on the publishing thread
  meanwhile is not blocked and sees the decision the change announces.\<close>

theorem announced_before_observed:
  assumes "trust_initial s0" "trust_step\<^sup>*\<^sup>* s0 s"
  shows "(tm_log s = pre @ EvChanged t c ls # mid @ EvEvaluated t' i d # post \<and> t' \<noteq> t \<longrightarrow>
      (\<forall>l \<in> set ls. EvNotified l c \<in> set mid) \<or> (\<exists>l \<in> set ls. EvPanicked l c \<in> set mid))
    \<and> (tm_gate s = GateHeld u c ls \<longrightarrow> may_evaluate u (tm_gate s) \<and> (\<forall>v. v \<noteq> u \<longrightarrow> \<not> may_evaluate v (tm_gate s))
      \<and> (tpi_identity i = tc_identity c \<longrightarrow> (\<exists>d. evaluate_unlocked now i (tm_policy s) = Ok d
           \<and> td_effective_trust d = tc_current c \<and> td_authority_ceiling d = tc_current_authority_ceiling c)))"
proof -
  have ok: "machine_ok s" using runs_machine_ok assms by blast
  have "(\<forall>l \<in> set ls. EvNotified l c \<in> set mid) \<or> (\<exists>l \<in> set ls. EvPanicked l c \<in> set mid)"
    if log: "tm_log s = pre @ EvChanged t c ls # mid @ EvEvaluated t' i d # post" and other: "t' \<noteq> t"
  proof -
    have "replay GateFree (pre @ EvChanged t c ls # mid @ EvEvaluated t' i d # post) \<noteq> None"
      using ok log by (simp add: machine_ok_def)
    then obtain g where "replay g (EvChanged t c ls # mid @ EvEvaluated t' i d # post) \<noteq> None"
      unfolding replay_append [of GateFree pre] by (auto simp del: replay.simps split: option.splits)
    then have "replay (GateHeld t c ls) (mid @ EvEvaluated t' i d # post) \<noteq> None"
      by (cases "(g, EvChanged t c ls)" rule: gate_after.cases) (auto split: option.splits)
    then show ?thesis using replay_held other by metis
  qed
  moreover have "may_evaluate u (tm_gate s)" "\<forall>v. v \<noteq> u \<longrightarrow> \<not> may_evaluate v (tm_gate s)" if "tm_gate s = GateHeld u c ls"
    using that by (simp_all add: may_evaluate_def)
  moreover obtain d where "evaluate_unlocked now i (tm_policy s) = Ok d" using policy_answers by blast
  ultimately show ?thesis using ok unfolding machine_ok_def decides_current_def by blast
qed

text \<open>The thread 1 withdraws the trust of \<^verbatim>\<open>clock\<close> with one listener, and the thread 2 evaluates.\<close>

definition gate_start :: "(nat, string) trust_machine" where
  "gate_start = \<lparr>tm_policy = clock_policy, tm_listeners = [''leases''], tm_gate = GateFree, tm_log = []\<rparr>"

theorem announced_before_observed_witness:
  "\<exists>s c. trust_step\<^sup>*\<^sup>* gate_start s \<and> tm_log s = [EvChanged 1 c [''leases''], EvNotified ''leases'' c, EvReleased 1,
      EvEvaluated 2 clock_input (Ok withdrawn_decision)] \<and> EvNotified ''leases'' c \<in> set [EvNotified ''leases'' c, EvReleased (1::nat)]"
proof -
  let ?p = "[bundled_with_entries [], admin_with_entries []]"
  obtain c where c: "trust_change_new clock_package first_party_decision withdrawn_decision = Some c"
    by (auto simp: trust_change_new_def first_party_decision_def withdrawn_decision_def default_decision_def)
  let ?s1 = "gate_start\<lparr>tm_policy := ?p, tm_gate := GateHeld 1 c [''leases''], tm_log := [EvChanged 1 c [''leases'']]\<rparr>"
  let ?s2 = "?s1\<lparr>tm_gate := GateHeld 1 c [], tm_log := tm_log ?s1 @ [EvNotified ''leases'' c]\<rparr>"
  let ?s3 = "?s2\<lparr>tm_gate := GateFree, tm_log := tm_log ?s2 @ [EvReleased 1]\<rparr>"
  let ?s4 = "?s3\<lparr>tm_log := tm_log ?s3 @ [EvEvaluated 2 clock_input (Ok withdrawn_decision)]\<rparr>"
  have "trust_step gate_start ?s1"
    using trust_step.changed [of gate_start 1 2 clock_package "{}" Untrusted withdraw "Ok ()" ?p c 1] clock_withdrawn c
    by (simp add: gate_start_def)
  moreover have "trust_step ?s1 ?s2" using trust_step.notified [of ?s1 1 c "''leases''" "[]"] by simp
  moreover have "trust_step ?s2 ?s3" using trust_step.released [of ?s2 1 c] by simp
  moreover have "trust_step ?s3 ?s4" using trust_step.evaluated [of 2 ?s3 clock_input 2] clock_after
    by (simp add: may_evaluate_def)
  ultimately have run: "trust_step\<^sup>*\<^sup>* gate_start ?s4"
    by (blast intro: converse_rtranclp_into_rtranclp)
  have "trust_initial gate_start" using clock_policy_reachable by (simp add: trust_initial_def gate_start_def)
  from announced_before_observed [OF this run, of "[]" 1 c "[''leases'']" "[EvNotified ''leases'' c, EvReleased 1]" 2] run
  show ?thesis by (intro exI [of _ ?s4] exI [of _ c]) (simp add: gate_start_def)
qed

end
