(* ===== verification/Ip_Addr.thy ===== *)
theory Ip_Addr
  imports Text
begin

text \<open>
  What the network boundary uses of Rust's \<^verbatim>\<open>std::net\<close>: addresses, the parser behind
  \<^verbatim>\<open>str::parse::<IpAddr>\<close>, and the predicates that classify addresses. Each reader of the parser takes
  the text and answers what it read and the rest, or None and then consumes nothing.
\<close>

unbundle bit_operations_syntax

section \<open>Addresses\<close>

type_synonym u8 = "8 word"

datatype ipv4_addr = Ipv4Addr u8 u8 u8 u8

datatype ipv6_addr = Ipv6Addr (segments: "u16 list")

datatype ip_addr = IpV4 ipv4_addr | IpV6 ipv6_addr

section \<open>Parsing\<close>

definition to_digit :: "nat \<Rightarrow> char \<Rightarrow> nat option" where
  "to_digit radix c =
    (let d = (if is_ascii_digit c then byte c - 48
              else if 97 \<le> byte c \<and> byte c \<le> 102 then byte c - 87
              else if 65 \<le> byte c \<and> byte c \<le> 70 then byte c - 55 else radix) in
     if d < radix then Some d else None)"

text \<open>\<^verbatim>\<open>read_number\<close>: the digits at the front, at most as many as allowed, without a superfluous zero
  unless those are allowed, and no larger than the type holds.\<close>

definition read_number :: "nat \<Rightarrow> nat \<Rightarrow> bool \<Rightarrow> nat \<Rightarrow> string \<Rightarrow> (nat \<times> string) option" where
  "read_number radix max_digits allow_zero_prefix bound s =
    (let ds = takeWhile (\<lambda>c. to_digit radix c \<noteq> None) s;
         v = foldl (\<lambda>a c. a * radix + the (to_digit radix c)) 0 ds in
     if ds = [] \<or> length ds > max_digits then None
     else if \<not> allow_zero_prefix \<and> hd ds = CHR ''0'' \<and> length ds > 1 then None
     else if v > bound then None
     else Some (v, drop (length ds) s))"

definition read_given_char :: "char \<Rightarrow> string \<Rightarrow> string option" where
  "read_given_char c s = (case s of [] \<Rightarrow> None | d # r \<Rightarrow> if d = c then Some r else None)"

definition read_separator :: "char \<Rightarrow> nat \<Rightarrow> (string \<Rightarrow> ('a \<times> string) option) \<Rightarrow> string \<Rightarrow> ('a \<times> string) option" where
  "read_separator sep i inner s = (if i > 0 then Option.bind (read_given_char sep s) inner else inner s)"

definition read_octet :: "nat \<Rightarrow> string \<Rightarrow> (nat \<times> string) option" where
  "read_octet i = read_separator (CHR ''.'') i (read_number 10 3 False 255)"

definition read_ipv4_addr :: "string \<Rightarrow> (ipv4_addr \<times> string) option" where
  "read_ipv4_addr s =
    (case read_octet 0 s of None \<Rightarrow> None | Some (a, s) \<Rightarrow>
    (case read_octet 1 s of None \<Rightarrow> None | Some (b, s) \<Rightarrow>
    (case read_octet 2 s of None \<Rightarrow> None | Some (c, s) \<Rightarrow>
    (case read_octet 3 s of None \<Rightarrow> None | Some (d, s) \<Rightarrow>
       Some (Ipv4Addr (of_nat a) (of_nat b) (of_nat c) (of_nat d), s)))))"

definition from_be_bytes :: "u8 \<Rightarrow> u8 \<Rightarrow> u16" where
  "from_be_bytes a b = push_bit 8 (ucast a) OR ucast b"

text \<open>\<^verbatim>\<open>read_groups\<close>: the groups from the i-th up to the limit, and whether they end in an embedded IPv4
  address.\<close>

function read_groups :: "nat \<Rightarrow> nat \<Rightarrow> string \<Rightarrow> u16 list \<times> bool \<times> string" where
  "read_groups i limit s =
    (if limit \<le> i then ([], False, s)
     else case (if i < limit - 1 then read_separator (CHR '':'') i read_ipv4_addr s else None) of
       Some (Ipv4Addr a b c d, r) \<Rightarrow> ([from_be_bytes a b, from_be_bytes c d], True, r)
     | None \<Rightarrow>
        (case read_separator (CHR '':'') i (read_number 16 4 True 65535) s of
           Some (g, r) \<Rightarrow> (case read_groups (Suc i) limit r of (gs, v4, r') \<Rightarrow> (of_nat g # gs, v4, r'))
         | None \<Rightarrow> ([], False, s)))"
  by pat_completeness auto
termination by (relation "measure (\<lambda>(i, limit, _). limit - i)") auto

declare read_groups.simps [simp del]

definition read_ipv6_addr :: "string \<Rightarrow> (ipv6_addr \<times> string) option" where
  "read_ipv6_addr s =
    (case read_groups 0 8 s of (head, head_ipv4, r) \<Rightarrow>
       if length head = 8 then Some (Ipv6Addr head, r)
       else if head_ipv4 then None
       else case Option.bind (read_given_char (CHR '':'') r) (read_given_char (CHR '':'')) of
          None \<Rightarrow> None
        | Some r' \<Rightarrow>
            (case read_groups 0 (8 - (length head + 1)) r' of (tail, _, r'') \<Rightarrow>
               Some (Ipv6Addr (head @ replicate (8 - length head - length tail) 0 @ tail), r'')))"

definition read_ip_addr :: "string \<Rightarrow> (ip_addr \<times> string) option" where
  "read_ip_addr s =
    (case read_ipv4_addr s of
       Some (a, r) \<Rightarrow> Some (IpV4 a, r)
     | None \<Rightarrow> map_option (\<lambda>(a, r). (IpV6 a, r)) (read_ipv6_addr s))"

definition parse_ip :: "string \<Rightarrow> ip_addr option" where
  "parse_ip s = (case read_ip_addr s of Some (a, []) \<Rightarrow> Some a | _ \<Rightarrow> None)"

section \<open>Classification\<close>

fun v4_is_private :: "ipv4_addr \<Rightarrow> bool" where
  "v4_is_private (Ipv4Addr a b c d) \<longleftrightarrow> a = 10 \<or> (a = 172 \<and> 16 \<le> b \<and> b \<le> 31) \<or> (a = 192 \<and> b = 168)"

fun v4_is_loopback :: "ipv4_addr \<Rightarrow> bool" where
  "v4_is_loopback (Ipv4Addr a b c d) \<longleftrightarrow> a = 127"

fun v4_is_link_local :: "ipv4_addr \<Rightarrow> bool" where
  "v4_is_link_local (Ipv4Addr a b c d) \<longleftrightarrow> a = 169 \<and> b = 254"

fun v4_is_broadcast :: "ipv4_addr \<Rightarrow> bool" where
  "v4_is_broadcast (Ipv4Addr a b c d) \<longleftrightarrow> a = 255 \<and> b = 255 \<and> c = 255 \<and> d = 255"

fun v4_is_documentation :: "ipv4_addr \<Rightarrow> bool" where
  "v4_is_documentation (Ipv4Addr a b c d) \<longleftrightarrow>
    (a = 192 \<and> b = 0 \<and> c = 2) \<or> (a = 198 \<and> b = 51 \<and> c = 100) \<or> (a = 203 \<and> b = 0 \<and> c = 113)"

fun v4_is_multicast :: "ipv4_addr \<Rightarrow> bool" where
  "v4_is_multicast (Ipv4Addr a b c d) \<longleftrightarrow> 224 \<le> a \<and> a \<le> 239"

definition v6_is_loopback :: "ipv6_addr \<Rightarrow> bool" where
  "v6_is_loopback ip = (segments ip = [0, 0, 0, 0, 0, 0, 0, 1])"

definition v6_is_unspecified :: "ipv6_addr \<Rightarrow> bool" where
  "v6_is_unspecified ip = (segments ip = [0, 0, 0, 0, 0, 0, 0, 0])"

definition v6_is_unique_local :: "ipv6_addr \<Rightarrow> bool" where
  "v6_is_unique_local ip = (segments ip ! 0 AND 0xfe00 = 0xfc00)"

definition v6_is_unicast_link_local :: "ipv6_addr \<Rightarrow> bool" where
  "v6_is_unicast_link_local ip = (segments ip ! 0 AND 0xffc0 = 0xfe80)"

definition v6_is_multicast :: "ipv6_addr \<Rightarrow> bool" where
  "v6_is_multicast ip = (segments ip ! 0 AND 0xff00 = 0xff00)"

definition to_ipv4_mapped :: "ipv6_addr \<Rightarrow> ipv4_addr option" where
  "to_ipv4_mapped ip =
    (let g = segments ip in
     if take 6 g = [0, 0, 0, 0, 0, 0xffff]
     then Some (Ipv4Addr (ucast (drop_bit 8 (g ! 6))) (ucast (g ! 6)) (ucast (drop_bit 8 (g ! 7))) (ucast (g ! 7)))
     else None)"

section \<open>Facts about parsing\<close>

lemma read_groups_length: "read_groups i limit s = (gs, v4, r) \<Longrightarrow> length gs \<le> limit - i"
proof (induction i limit s arbitrary: gs v4 r rule: read_groups.induct)
  case (1 i limit s)
  show ?case using 1(2)
    by (subst (asm) read_groups.simps)
      (auto split: if_splits option.splits prod.splits ipv4_addr.splits dest!: "1.IH" [rotated -1])
qed

end
