(* ===== verification/Network_Egress.thy ===== *)
theory Network_Egress
  imports Host_Authority Ip_Addr
begin

text \<open>
  The network boundary, \<^verbatim>\<open>ironclaw_network/src/{types,error,policy,url_target,resolver,egress,transport}.rs\<close>:
  whether a policy lets a target through, how a host becomes addresses, and the path of one HTTP
  request from a runtime to the transport and of the response back.

  The URL parser (\<^verbatim>\<open>url::Url\<close>), name resolution of the operating system, the client library
  (\<^verbatim>\<open>reqwest\<close>) and failures of blocking workers are arguments. Scrubbing of buffers on drop is not
  visible in the model. A duration is a number of nanoseconds.
\<close>

section \<open>Text functions\<close>

text \<open>\<^verbatim>\<open>str::trim\<close> on UTF-8 text.\<close>

lemma whitespace_nonempty: "w \<in> set whitespace_encodings \<Longrightarrow> w \<noteq> []"
  by (auto simp: whitespace_encodings_def)

function trim_start :: "string \<Rightarrow> string" where
  "trim_start s =
    (case find (\<lambda>w. prefix w (map byte s)) whitespace_encodings of
       None \<Rightarrow> s | Some w \<Rightarrow> trim_start (drop (length w) s))"
  by pat_completeness auto
termination
proof (relation "measure length")
  fix s :: string and w
  assume "find (\<lambda>w. prefix w (map byte s)) whitespace_encodings = Some w"
  then have "w \<in> set whitespace_encodings" "prefix w (map byte s)" by (auto simp: find_Some_iff)
  then have "w \<noteq> []" "length w \<le> length s" using whitespace_nonempty by (auto dest: prefix_length_le)
  then show "(drop (length w) s, s) \<in> measure length" by (cases w) auto
qed simp

function trim_end :: "string \<Rightarrow> string" where
  "trim_end s =
    (case find (\<lambda>w. suffix w (map byte s)) whitespace_encodings of
       None \<Rightarrow> s | Some w \<Rightarrow> trim_end (take (length s - length w) s))"
  by pat_completeness auto
termination
proof (relation "measure length")
  fix s :: string and w
  assume "find (\<lambda>w. suffix w (map byte s)) whitespace_encodings = Some w"
  then have "w \<in> set whitespace_encodings" "suffix w (map byte s)" by (auto simp: find_Some_iff)
  then have "w \<noteq> []" "length w \<le> length s" using whitespace_nonempty by (auto dest: suffix_length_le)
  then show "(take (length s - length w) s, s) \<in> measure length" by (cases w) auto
qed simp

declare trim_start.simps [simp del] trim_end.simps [simp del]

definition trim :: "string \<Rightarrow> string" where
  "trim s = trim_end (trim_start s)"

definition ascii_lowercase :: "string \<Rightarrow> string" where
  "ascii_lowercase s = map to_ascii_lowercase s"

definition eq_ignore_ascii_case :: "string \<Rightarrow> string \<Rightarrow> bool" where
  "eq_ignore_ascii_case a b = (ascii_lowercase a = ascii_lowercase b)"

definition strip_suffix :: "string \<Rightarrow> string \<Rightarrow> string option" where
  "strip_suffix p s = (if suffix p s then Some (take (length s - length p) s) else None)"

section \<open>Requests and responses (types.rs, error.rs)\<close>

definition DEFAULT_RESPONSE_BODY_LIMIT :: u64 where
  "DEFAULT_RESPONSE_BODY_LIMIT = 10 * 1024 * 1024"

definition MAX_RESPONSE_BODY_LIMIT :: u64 where
  "MAX_RESPONSE_BODY_LIMIT = DEFAULT_RESPONSE_BODY_LIMIT"

record network_request =
  nr_scope :: resource_scope
  nr_target :: network_target
  nr_method :: network_method
  nr_estimated_bytes :: "u64 option"

record network_permit =
  npm_scope :: resource_scope
  npm_target :: network_target
  npm_method :: network_method
  npm_estimated_bytes :: "u64 option"

record network_http_request =
  nhr_scope :: resource_scope
  nhr_method :: network_method
  nhr_url :: string
  nhr_headers :: "(string \<times> string) list"
  nhr_body :: "u8 list"
  nhr_policy :: network_policy
  nhr_response_body_limit :: "u64 option"
  nhr_timeout_ms :: "u32 option"

record network_transport_request =
  ntr_method :: network_method
  ntr_url :: string
  ntr_headers :: "(string \<times> string) list"
  ntr_body :: "u8 list"
  ntr_resolved_ips :: "ip_addr list"
  ntr_response_body_limit :: "u64 option"
  ntr_timeout_ms :: "u32 option"

record network_usage =
  nu_request_bytes :: u64
  nu_response_bytes :: u64
  nu_resolved_ip :: "ip_addr option"

record network_http_response =
  nrs_status :: u16
  nrs_headers :: "(string \<times> string) list"
  nrs_body :: "u8 list"
  nrs_usage :: network_usage

datatype network_http_error_kind =
    KInvalidUrl | KPolicyDenied | KDnsFailed | KTransportFailed | KResponseBodyLimitExceeded

definition http_error_kind_as_str :: "network_http_error_kind \<Rightarrow> string" where
  "http_error_kind_as_str k =
    (case k of KInvalidUrl \<Rightarrow> ''invalid_url'' | KPolicyDenied \<Rightarrow> ''policy_denied'' | KDnsFailed \<Rightarrow> ''dns_failed''
     | KTransportFailed \<Rightarrow> ''transport_failed'' | KResponseBodyLimitExceeded \<Rightarrow> ''response_body_limit_exceeded'')"

text \<open>Reason, request bytes and response bytes; of a limit, the limit first and the partial response last.\<close>

datatype network_http_error =
    HttpInvalidUrl string u64 u64
  | HttpPolicyDenied string u64 u64
  | HttpDns string u64 u64
  | HttpTransport string u64 u64
  | HttpResponseBodyLimit u64 u64 u64 "network_http_response option"

fun http_error_kind :: "network_http_error \<Rightarrow> network_http_error_kind" where
  "http_error_kind (HttpInvalidUrl _ _ _) = KInvalidUrl"
| "http_error_kind (HttpPolicyDenied _ _ _) = KPolicyDenied"
| "http_error_kind (HttpDns _ _ _) = KDnsFailed"
| "http_error_kind (HttpTransport _ _ _) = KTransportFailed"
| "http_error_kind (HttpResponseBodyLimit _ _ _ _) = KResponseBodyLimitExceeded"

fun http_error_request_bytes :: "network_http_error \<Rightarrow> u64" where
  "http_error_request_bytes (HttpInvalidUrl _ q _) = q"
| "http_error_request_bytes (HttpPolicyDenied _ q _) = q"
| "http_error_request_bytes (HttpDns _ q _) = q"
| "http_error_request_bytes (HttpTransport _ q _) = q"
| "http_error_request_bytes (HttpResponseBodyLimit _ q _ _) = q"

fun http_error_response_bytes :: "network_http_error \<Rightarrow> u64" where
  "http_error_response_bytes (HttpInvalidUrl _ _ b) = b"
| "http_error_response_bytes (HttpPolicyDenied _ _ b) = b"
| "http_error_response_bytes (HttpDns _ _ b) = b"
| "http_error_response_bytes (HttpTransport _ _ b) = b"
| "http_error_response_bytes (HttpResponseBodyLimit _ _ b _) = b"

fun into_partial_response :: "network_http_error \<Rightarrow> network_http_response option" where
  "into_partial_response (HttpResponseBodyLimit _ _ _ p) = p"
| "into_partial_response _ = None"

fun http_error_to_string :: "network_http_error \<Rightarrow> string" where
  "http_error_to_string (HttpInvalidUrl reason _ _) = ''invalid network URL: '' @ reason"
| "http_error_to_string (HttpPolicyDenied reason _ _) = ''network policy denied request: '' @ reason"
| "http_error_to_string (HttpDns reason _ _) = ''network DNS resolution failed: '' @ reason"
| "http_error_to_string (HttpTransport reason _ _) = ''network transport failed: '' @ reason"
| "http_error_to_string (HttpResponseBodyLimit limit _ _ _) = ''network response body exceeded limit '' @ show_nat (unat limit)"

section \<open>Policy (policy.rs)\<close>

datatype network_policy_error =
    TargetDenied resource_scope network_target
  | PrivateTargetDenied resource_scope network_target
  | EgressEstimateRequired resource_scope u64
  | EgressLimitExceeded resource_scope u64 u64

fun policy_error_to_string :: "network_policy_error \<Rightarrow> string" where
  "policy_error_to_string (TargetDenied _ _) = ''network target is not allowed by policy''"
| "policy_error_to_string (PrivateTargetDenied _ _) =
    ''network target is private, loopback, link-local, documentation, or otherwise host-local''"
| "policy_error_to_string (EgressEstimateRequired _ limit) =
    ''network egress estimate is required when limit '' @ show_nat (unat limit) @ '' is configured''"
| "policy_error_to_string (EgressLimitExceeded _ estimated limit) =
    ''network egress estimate '' @ show_nat (unat estimated) @ '' exceeds limit '' @ show_nat (unat limit)"

fun is_carrier_grade_nat_v4 :: "ipv4_addr \<Rightarrow> bool" where
  "is_carrier_grade_nat_v4 (Ipv4Addr a b c d) \<longleftrightarrow> a = 100 \<and> 64 \<le> b \<and> b \<le> 127"

definition is_documentation_v6 :: "ipv6_addr \<Rightarrow> bool" where
  "is_documentation_v6 ip = (segments ip ! 0 = 0x2001 \<and> segments ip ! 1 = 0x0db8)"

fun first_octet :: "ipv4_addr \<Rightarrow> u8" where
  "first_octet (Ipv4Addr a b c d) = a"

definition is_private_or_loopback_v4 :: "ipv4_addr \<Rightarrow> bool" where
  "is_private_or_loopback_v4 ip =
    (v4_is_private ip \<or> v4_is_loopback ip \<or> v4_is_link_local ip \<or> v4_is_broadcast ip \<or> v4_is_documentation ip
     \<or> v4_is_multicast ip \<or> first_octet ip = 0 \<or> is_carrier_grade_nat_v4 ip)"

fun is_private_or_loopback_ip :: "ip_addr \<Rightarrow> bool" where
  "is_private_or_loopback_ip (IpV4 ip) = is_private_or_loopback_v4 ip"
| "is_private_or_loopback_ip (IpV6 ip) =
    (case to_ipv4_mapped ip of
       Some mapped \<Rightarrow> is_private_or_loopback_v4 mapped
     | None \<Rightarrow> v6_is_loopback ip \<or> v6_is_unspecified ip \<or> v6_is_unique_local ip \<or> v6_is_unicast_link_local ip
         \<or> v6_is_multicast ip \<or> is_documentation_v6 ip)"

definition host_matches_pattern :: "string \<Rightarrow> string \<Rightarrow> bool" where
  "host_matches_pattern host pattern =
    (let host = ascii_lowercase host; pattern = ascii_lowercase pattern in
     if pattern = ''*'' then True
     else case strip_prefix ''*.'' pattern of
         Some sfx \<Rightarrow>
          (case strip_suffix (''.'' @ sfx) host of
             None \<Rightarrow> False
           | Some pre \<Rightarrow> pre \<noteq> [] \<and> CHR ''.'' \<notin> set pre)
       | None \<Rightarrow> host = pattern)"

definition target_matches_pattern :: "network_target \<Rightarrow> network_target_pattern \<Rightarrow> bool" where
  "target_matches_pattern t p =
    (if (case ntp_scheme p of Some s \<Rightarrow> s \<noteq> nt_scheme t | None \<Rightarrow> False) then False
     else if (case ntp_port p of Some q \<Rightarrow> Some q \<noteq> nt_port t | None \<Rightarrow> False) then False
     else host_matches_pattern (nt_host t) (ntp_host_pattern p))"

definition private_literal :: "network_policy \<Rightarrow> network_target \<Rightarrow> bool" where
  "private_literal p t =
    (np_deny_private_ip_ranges p
     \<and> (case parse_ip (nt_host t) of Some ip \<Rightarrow> is_private_or_loopback_ip ip | None \<Rightarrow> False))"

definition network_policy_allows :: "network_policy \<Rightarrow> network_target \<Rightarrow> bool" where
  "network_policy_allows p t =
    (if np_allowed_targets p = [] then False
     else if private_literal p t then False
     else list_ex (target_matches_pattern t) (np_allowed_targets p))"

definition check_egress_limit :: "network_policy \<Rightarrow> network_request \<Rightarrow> network_policy_error + unit" where
  "check_egress_limit p q =
    (case np_max_egress_bytes p of
       None \<Rightarrow> Ok ()
     | Some limit \<Rightarrow>
        (case nr_estimated_bytes q of
           None \<Rightarrow> Err (EgressEstimateRequired (nr_scope q) limit)
         | Some estimated \<Rightarrow>
            if estimated > limit then Err (EgressLimitExceeded (nr_scope q) estimated limit) else Ok ()))"

definition authorize_static_policy :: "network_policy \<Rightarrow> network_request \<Rightarrow> network_policy_error + network_permit" where
  "authorize_static_policy p q =
    (case check_egress_limit p q of
       Err e \<Rightarrow> Err e
     | Ok _ \<Rightarrow>
        if private_literal p (nr_target q) then Err (PrivateTargetDenied (nr_scope q) (nr_target q))
        else if \<not> network_policy_allows p (nr_target q) then Err (TargetDenied (nr_scope q) (nr_target q))
        else Ok \<lparr>npm_scope = nr_scope q, npm_target = nr_target q, npm_method = nr_method q,
                 npm_estimated_bytes = nr_estimated_bytes q\<rparr>)"

section \<open>Targets of URLs (url\_target.rs)\<close>

text \<open>What is asked of a parsed URL.\<close>

record parsed_url =
  pu_username :: string
  pu_password :: "string option"
  pu_scheme :: string
  pu_host_str :: "string option"
  pu_port_or_known_default :: "u16 option"

type_synonym url_parser = "string \<Rightarrow> string + parsed_url"

datatype network_target_url_error =
    UrlParse string | UserinfoDenied | UnsupportedScheme string | MissingHost

fun url_error_to_string :: "network_target_url_error \<Rightarrow> string" where
  "url_error_to_string (UrlParse e) = ''invalid URL: '' @ e"
| "url_error_to_string UserinfoDenied = ''URL userinfo is not allowed''"
| "url_error_to_string (UnsupportedScheme s) = ''unsupported URL scheme '' @ s"
| "url_error_to_string MissingHost = ''URL host is required''"

definition network_target_for_url :: "url_parser \<Rightarrow> string \<Rightarrow> network_target_url_error + network_target" where
  "network_target_for_url parse_url raw =
    (case parse_url raw of
       Err e \<Rightarrow> Err (UrlParse e)
     | Ok u \<Rightarrow>
        if pu_username u \<noteq> [] \<or> pu_password u \<noteq> None then Err UserinfoDenied
        else if pu_scheme u \<noteq> ''http'' \<and> pu_scheme u \<noteq> ''https'' then Err (UnsupportedScheme (pu_scheme u))
        else (case pu_host_str u of
            None \<Rightarrow> Err MissingHost
          | Some h \<Rightarrow>
              if trim h = [] then Err MissingHost
              else Ok \<lparr>nt_scheme = (if pu_scheme u = ''http'' then SchemeHttp else SchemeHttps),
                       nt_host = ascii_lowercase h, nt_port = pu_port_or_known_default u\<rparr>))"

definition network_target_for_http_url :: "url_parser \<Rightarrow> string \<Rightarrow> u64 \<Rightarrow> network_http_error + network_target" where
  "network_target_for_http_url parse_url raw request_bytes =
    (case network_target_for_url parse_url raw of
       Err e \<Rightarrow> Err (HttpInvalidUrl (url_error_to_string e) request_bytes 0)
     | Ok t \<Rightarrow> Ok t)"

definition default_port :: "network_scheme \<Rightarrow> u16" where
  "default_port s = (case s of SchemeHttp \<Rightarrow> 80 | SchemeHttps \<Rightarrow> 443)"

definition is_rfc3986_unreserved_segment :: "string \<Rightarrow> bool" where
  "is_rfc3986_unreserved_segment s =
    (s \<noteq> [] \<and> s \<noteq> ''.'' \<and> s \<noteq> ''..''
     \<and> list_all (\<lambda>c. is_ascii_alphanumeric c \<or> c \<in> set ''-._~'') s)"

section \<open>Resolution (resolver.rs)\<close>

type_synonym network_resolver = "string \<Rightarrow> u16 \<Rightarrow> network_http_error + ip_addr list"

text \<open>The resolver of the system; the lookup of the operating system is the first argument.\<close>

definition system_resolve_ips :: "(string \<Rightarrow> u16 \<Rightarrow> string + ip_addr list) \<Rightarrow> network_resolver" where
  "system_resolve_ips lookup host port =
    (case parse_ip host of
       Some ip \<Rightarrow> Ok [ip]
     | None \<Rightarrow> (case lookup host port of Err e \<Rightarrow> Err (HttpDns e 0 0) | Ok ips \<Rightarrow> Ok ips))"

definition resolve_public_ips ::
    "network_target \<Rightarrow> network_policy \<Rightarrow> network_resolver \<Rightarrow> u64 \<Rightarrow> network_http_error + ip_addr list" where
  "resolve_public_ips t p resolve request_bytes =
    (let resolved = (case parse_ip (nt_host t) of
           Some ip \<Rightarrow> Ok [ip]
         | None \<Rightarrow>
            (case resolve (nt_host t) (case nt_port t of Some q \<Rightarrow> q | None \<Rightarrow> default_port (nt_scheme t)) of
               Err e \<Rightarrow> Err (HttpDns (http_error_to_string e) request_bytes (http_error_response_bytes e))
             | Ok ips \<Rightarrow> Ok ips)) in
     case resolved of
       Err e \<Rightarrow> Err e
     | Ok ips \<Rightarrow>
        if ips = [] then Err (HttpDns ''network target did not resolve to any IP addresses'' request_bytes 0)
        else if np_deny_private_ip_ranges p \<and> list_ex is_private_or_loopback_ip ips
        then Err (HttpPolicyDenied ''network target resolves to a private or host-local IP'' request_bytes 0)
        else Ok ips)"

section \<open>Egress (egress.rs)\<close>

definition method_label :: "network_method \<Rightarrow> string" where
  "method_label m =
    (case m of MGet \<Rightarrow> ''GET'' | MPost \<Rightarrow> ''POST'' | MPut \<Rightarrow> ''PUT'' | MPatch \<Rightarrow> ''PATCH'' | MDelete \<Rightarrow> ''DELETE''
     | MHead \<Rightarrow> ''HEAD'')"

definition add_len :: "nat \<Rightarrow> u64 \<Rightarrow> u64" where
  "add_len n acc = saturating_add acc (if n < 2 ^ 64 then of_nat n else - 1)"

definition crlf_len :: nat where "crlf_len = 2"

definition estimate_http_request_bytes ::
    "network_method \<Rightarrow> string \<Rightarrow> (string \<times> string) list \<Rightarrow> u8 list \<Rightarrow> u64" where
  "estimate_http_request_bytes m url headers body =
    (let t = add_len (length '' HTTP/1.1'' + crlf_len) (add_len (length url) (add_len 1 (add_len (length (method_label m)) 0)));
         t = fold (\<lambda>(name, value) t. add_len crlf_len (add_len (length value) (add_len 2 (add_len (length name) t)))) headers t in
     add_len (length body) (add_len crlf_len t))"

definition reject_caller_host_header :: "(string \<times> string) list \<Rightarrow> network_http_error + unit" where
  "reject_caller_host_header headers =
    (if list_ex (\<lambda>(name, _). eq_ignore_ascii_case (trim name) ''host'') headers
     then Err (HttpPolicyDenied ''caller-provided Host header is not allowed'' 0 0)
     else Ok ())"

text \<open>\<^verbatim>\<open>execute\<close> up to the transport. The argument \<^verbatim>\<open>worker\<close> is the failure of the resolver's worker, if any.\<close>

definition egress_prepare ::
    "url_parser \<Rightarrow> network_resolver \<Rightarrow> string option \<Rightarrow> network_http_request
      \<Rightarrow> network_http_error + network_transport_request" where
  "egress_prepare parse_url resolve worker q =
    (let estimated = estimate_http_request_bytes (nhr_method q) (nhr_url q) (nhr_headers q) (nhr_body q) in
     case reject_caller_host_header (nhr_headers q) of
       Err e \<Rightarrow> Err e
     | Ok _ \<Rightarrow>
    (case network_target_for_http_url parse_url (nhr_url q) estimated of
       Err e \<Rightarrow> Err e
     | Ok target \<Rightarrow>
    (case authorize_static_policy (nhr_policy q) \<lparr>nr_scope = nhr_scope q, nr_target = target, nr_method = nhr_method q,
           nr_estimated_bytes = Some estimated\<rparr> of
       Err e \<Rightarrow> Err (HttpPolicyDenied (policy_error_to_string e) estimated 0)
     | Ok permit \<Rightarrow>
    (case worker of
       Some e \<Rightarrow> Err (HttpTransport (''network resolver worker failed: '' @ e) estimated 0)
     | None \<Rightarrow>
    (case resolve_public_ips target (nhr_policy q) resolve estimated of
       Err e \<Rightarrow> Err e
     | Ok ips \<Rightarrow>
       Ok \<lparr>ntr_method = npm_method permit, ntr_url = nhr_url q, ntr_headers = nhr_headers q, ntr_body = nhr_body q,
           ntr_resolved_ips = ips, ntr_response_body_limit = nhr_response_body_limit q,
           ntr_timeout_ms = nhr_timeout_ms q\<rparr>)))))"

definition egress_execute ::
    "url_parser \<Rightarrow> network_resolver \<Rightarrow> string option
      \<Rightarrow> (network_transport_request \<Rightarrow> 'w \<Rightarrow> (network_http_error + network_http_response) \<times> 'w)
      \<Rightarrow> network_http_request \<Rightarrow> 'w \<Rightarrow> (network_http_error + network_http_response) \<times> 'w" where
  "egress_execute parse_url resolve worker transport q w =
    (case egress_prepare parse_url resolve worker q of Err e \<Rightarrow> (Err e, w) | Ok t \<Rightarrow> transport t w)"

section \<open>Transport (transport.rs)\<close>

definition MAX_REQWEST_CLIENT_CACHE_ENTRIES :: usize where
  "MAX_REQWEST_CLIENT_CACHE_ENTRIES = 128"

record reqwest_client_key =
  rck_host :: string
  rck_port :: u16
  rck_resolved_addrs :: "(ip_addr \<times> u16) list"
  rck_timeout :: nat

type_synonym 'c client_cache = "(reqwest_client_key, 'c) hmap"

text \<open>The mutex of the cache is never poisoned: no code that can panic runs under it.\<close>

definition client_for ::
    "(reqwest_client_key \<Rightarrow> string + 'c) \<Rightarrow> reqwest_client_key \<Rightarrow> u64 \<Rightarrow> 'c client_cache
      \<Rightarrow> (network_http_error + 'c) \<times> 'c client_cache" where
  "client_for build key request_bytes cache =
    (case hm_get cache key of
       Some client \<Rightarrow> (Ok client, cache)
     | None \<Rightarrow>
        (case build key of
           Err e \<Rightarrow> (Err (HttpTransport e request_bytes 0), cache)
         | Ok client \<Rightarrow>
            (let cache = (if length cache \<ge> MAX_REQWEST_CLIENT_CACHE_ENTRIES then [] else cache) in
             case hm_get cache key of
               Some other \<Rightarrow> (Ok other, cache)
             | None \<Rightarrow> (Ok client, hm_insert key client cache))))"

definition effective_response_body_limit :: "u64 option \<Rightarrow> u64" where
  "effective_response_body_limit requested =
    min (case requested of Some n \<Rightarrow> n | None \<Rightarrow> DEFAULT_RESPONSE_BODY_LIMIT) MAX_RESPONSE_BODY_LIMIT"

definition effective_request_timeout :: "u32 option \<Rightarrow> nat \<Rightarrow> nat" where
  "effective_request_timeout requested_ms fallback =
    (case requested_ms of Some ms \<Rightarrow> min (unat (max ms 1) * 1000000) fallback | None \<Rightarrow> fallback)"

text \<open>What the client library answers: status, headers (None for a value that is not text) and the
  chunks of the body, each of which may fail.\<close>

record sent_response =
  sr_status :: u16
  sr_headers :: "(string \<times> string option) list"
  sr_chunks :: "(string + u8 list) list"

fun read_body ::
    "u64 \<Rightarrow> (u8 list \<Rightarrow> u64 \<Rightarrow> network_http_response) \<Rightarrow> u64 \<Rightarrow> u8 list \<Rightarrow> (string + u8 list) list
      \<Rightarrow> network_http_error + u8 list" where
  "read_body limit response request_bytes body [] = Ok body"
| "read_body limit response request_bytes body (Err e # cs) = Err (HttpTransport e request_bytes (of_nat (length body)))"
| "read_body limit response request_bytes body (Ok chunk # cs) =
    (let remaining = unat limit - length body in
     if length chunk > remaining
     then Err (HttpResponseBodyLimit limit request_bytes (saturating_add limit 1)
            (Some (response (body @ take (min remaining (length chunk)) chunk) (saturating_add limit 1))))
     else let body = body @ chunk in
       if length body > unat limit
       then Err (HttpResponseBodyLimit limit request_bytes (of_nat (length body))
              (Some (response (take (unat limit) body) (of_nat (length body)))))
       else read_body limit response request_bytes body cs)"

definition transport_execute ::
    "url_parser \<Rightarrow> (reqwest_client_key \<Rightarrow> string + 'c)
      \<Rightarrow> ('c \<Rightarrow> network_transport_request \<Rightarrow> string + sent_response) \<Rightarrow> nat
      \<Rightarrow> network_transport_request \<Rightarrow> 'c client_cache
      \<Rightarrow> (network_http_error + network_http_response) \<times> 'c client_cache" where
  "transport_execute parse_url build send timeout q cache =
    (let request_bytes = of_nat (length (ntr_body q)) in
     case reject_caller_host_header (ntr_headers q) of
       Err e \<Rightarrow> (Err e, cache)
     | Ok _ \<Rightarrow>
    (case parse_url (ntr_url q) of
       Err _ \<Rightarrow> (Err (HttpInvalidUrl ''URL parse error: invalid format'' request_bytes 0), cache)
     | Ok u \<Rightarrow>
    (case pu_host_str u of
       None \<Rightarrow> (Err (HttpInvalidUrl ''URL host is required'' request_bytes 0), cache)
     | Some host \<Rightarrow>
    (case pu_port_or_known_default u of
       None \<Rightarrow> (Err (HttpInvalidUrl ''URL port is required'' request_bytes 0), cache)
     | Some port \<Rightarrow>
    (case client_for build \<lparr>rck_host = host, rck_port = port,
            rck_resolved_addrs = map (\<lambda>ip. (ip, port)) (ntr_resolved_ips q),
            rck_timeout = effective_request_timeout (ntr_timeout_ms q) timeout\<rparr> request_bytes cache of
       (Err e, cache) \<Rightarrow> (Err e, cache)
     | (Ok client, cache) \<Rightarrow>
    (case send client q of
       Err e \<Rightarrow> (Err (HttpTransport e request_bytes 0), cache)
     | Ok r \<Rightarrow>
       (let headers = List.map_filter (\<lambda>(n, v). map_option (Pair n) v) (sr_headers r);
            ip = (case ntr_resolved_ips q of [] \<Rightarrow> None | i # _ \<Rightarrow> Some i);
            response = (\<lambda>body n. \<lparr>nrs_status = sr_status r, nrs_headers = headers, nrs_body = body,
               nrs_usage = \<lparr>nu_request_bytes = request_bytes, nu_response_bytes = n, nu_resolved_ip = ip\<rparr>\<rparr>) in
        case read_body (effective_response_body_limit (ntr_response_body_limit q)) response request_bytes [] (sr_chunks r) of
          Err e \<Rightarrow> (Err e, cache)
        | Ok body \<Rightarrow> (Ok (response body (of_nat (length body))), cache))))))))"

end
