(* ===== verification/Network_Guarantees.thy ===== *)
theory Network_Guarantees
  imports Network_Egress
begin

text \<open>
  Guarantees of the network boundary: a request reaches the transport only for a target the policy
  lists, within the egress limit, and with addresses outside the private ranges where those are
  denied; the private ranges are the blocks of a table; responses are bounded and travel over
  clients pinned to the checked addresses.
\<close>

section \<open>The private ranges\<close>

fun v4_value :: "ipv4_addr \<Rightarrow> nat" where
  "v4_value (Ipv4Addr a b c d) = ((unat a * 256 + unat b) * 256 + unat c) * 256 + unat d"

definition in_block :: "nat \<Rightarrow> ipv4_addr \<times> nat \<Rightarrow> bool" where
  "in_block v = (\<lambda>(net, len). v div 2 ^ (32 - len) = v4_value net div 2 ^ (32 - len))"

text \<open>This host, private use, shared address space, loopback, link local, documentation, multicast and
  limited broadcast.\<close>

definition denied_blocks :: "(ipv4_addr \<times> nat) list" where
  "denied_blocks =
    [(Ipv4Addr 0 0 0 0, 8), (Ipv4Addr 10 0 0 0, 8), (Ipv4Addr 100 64 0 0, 10), (Ipv4Addr 127 0 0 0, 8),
     (Ipv4Addr 169 254 0 0, 16), (Ipv4Addr 172 16 0 0, 12), (Ipv4Addr 192 0 2 0, 24), (Ipv4Addr 192 168 0 0, 16),
     (Ipv4Addr 198 51 100 0, 24), (Ipv4Addr 203 0 113 0, 24), (Ipv4Addr 224 0 0 0, 4), (Ipv4Addr 255 255 255 255, 32)]"

lemma octet_bound: "unat (a :: u8) < 256"
  using unsigned_less [of a, where 'a = nat] by simp

lemma octet_eq: "(a :: u8) = b \<longleftrightarrow> unat a = unat b"
  by (simp add: word_unat_eq_iff)

lemma value_div:
  "v4_value (Ipv4Addr a b c d) div 2 ^ 28 = unat a div 16"
  "v4_value (Ipv4Addr a b c d) div 2 ^ 24 = unat a"
  "v4_value (Ipv4Addr a b c d) div 2 ^ 22 = unat a * 4 + unat b div 64"
  "v4_value (Ipv4Addr a b c d) div 2 ^ 20 = unat a * 16 + unat b div 16"
  "v4_value (Ipv4Addr a b c d) div 2 ^ 16 = unat a * 256 + unat b"
  "v4_value (Ipv4Addr a b c d) div 2 ^ 8 = (unat a * 256 + unat b) * 256 + unat c"
  using octet_bound [of a] octet_bound [of b] octet_bound [of c] octet_bound [of d] by simp_all

lemma digit_pair:
  assumes "b < k" "y < (k :: nat)"
  shows "(a * k + b = x * k + y) = (a = x \<and> b = y)"
proof -
  have "(a * k + b) div k = a" "(a * k + b) mod k = b" "(x * k + y) div k = x" "(x * k + y) mod k = y"
    using assms by simp_all
  then show ?thesis by metis
qed

text \<open>Membership in each block, on the octets.\<close>

lemma block_octets:
  "in_block (v4_value (Ipv4Addr a b c d)) (Ipv4Addr n 0 0 0, 8) = (a = n)"
  "in_block (v4_value (Ipv4Addr a b c d)) (Ipv4Addr n m 0 0, 16) = (a = n \<and> b = m)"
  "in_block (v4_value (Ipv4Addr a b c d)) (Ipv4Addr n m l 0, 24) = (a = n \<and> b = m \<and> c = l)"
  "in_block (v4_value (Ipv4Addr a b c d)) (Ipv4Addr n m l k, 32) = (a = n \<and> b = m \<and> c = l \<and> d = k)"
proof -
  have e: "32 - 8 = (24 :: nat)" "32 - 16 = (16 :: nat)" "32 - 24 = (8 :: nat)" "32 - 32 = (0 :: nat)" by simp_all
  show "in_block (v4_value (Ipv4Addr a b c d)) (Ipv4Addr n 0 0 0, 8) = (a = n)"
    "in_block (v4_value (Ipv4Addr a b c d)) (Ipv4Addr n m 0 0, 16) = (a = n \<and> b = m)"
    "in_block (v4_value (Ipv4Addr a b c d)) (Ipv4Addr n m l 0, 24) = (a = n \<and> b = m \<and> c = l)"
    by (simp_all only: in_block_def prod.case e value_div octet_eq digit_pair octet_bound conj_assoc)
  show "in_block (v4_value (Ipv4Addr a b c d)) (Ipv4Addr n m l k, 32) = (a = n \<and> b = m \<and> c = l \<and> d = k)"
    by (simp only: in_block_def prod.case e v4_value.simps octet_eq digit_pair octet_bound conj_assoc power_0 div_by_1)
qed

lemma quarter_block:
  assumes "(b :: nat) < 256"
  shows "(a * 4 + b div 64 = 401) = (a = 100 \<and> 64 \<le> b \<and> b \<le> 127)"
proof -
  have "(a * 4 + b div 64 = 100 * 4 + 1) = (a = 100 \<and> b div 64 = 1)" by (rule digit_pair) (use assms in auto)
  moreover have "(b div 64 = 1) = (64 \<le> b \<and> b \<le> 127)" by auto
  ultimately show ?thesis by simp
qed

lemma sixteenth_block:
  assumes "(b :: nat) < 256"
  shows "(a * 16 + b div 16 = 2753) = (a = 172 \<and> 16 \<le> b \<and> b \<le> 31)"
proof -
  have "(a * 16 + b div 16 = 172 * 16 + 1) = (a = 172 \<and> b div 16 = 1)" by (rule digit_pair) (use assms in auto)
  moreover have "(b div 16 = 1) = (16 \<le> b \<and> b \<le> 31)" by auto
  ultimately show ?thesis by simp
qed

lemma multicast_block: "(a div 16 = 14) = (224 \<le> a \<and> a \<le> (239 :: nat))"
  by auto

lemma block_special:
  "in_block (v4_value (Ipv4Addr a b c d)) (Ipv4Addr 100 64 0 0, 10) = (a = 100 \<and> 64 \<le> b \<and> b \<le> 127)"
  "in_block (v4_value (Ipv4Addr a b c d)) (Ipv4Addr 172 16 0 0, 12) = (a = 172 \<and> 16 \<le> b \<and> b \<le> 31)"
  "in_block (v4_value (Ipv4Addr a b c d)) (Ipv4Addr 224 0 0 0, 4) = (224 \<le> a \<and> a \<le> 239)"
  using quarter_block [OF octet_bound [of b], of "unat a"] sixteenth_block [OF octet_bound [of b], of "unat a"]
    multicast_block [of "unat a"]
  by (simp_all add: in_block_def value_div octet_eq word_le_nat_alt del: v4_value.simps power_numeral)



section \<open>Matching hosts\<close>

text \<open>What a pattern means: everything, one more label before a suffix, or the host itself.\<close>

definition pattern_admits :: "string \<Rightarrow> string \<Rightarrow> bool" where
  "pattern_admits pattern host \<longleftrightarrow> pattern = ''*''
    \<or> (\<exists>domain label. pattern = ''*.'' @ domain \<and> host = label @ ''.'' @ domain \<and> label \<noteq> [] \<and> CHR ''.'' \<notin> set label)
    \<or> ((\<forall>domain. pattern \<noteq> ''*.'' @ domain) \<and> host = pattern)"

lemma host_matches_iff: "host_matches_pattern h p = pattern_admits (ascii_lowercase p) (ascii_lowercase h)"
proof (cases "strip_prefix ''*.'' (ascii_lowercase p)")
  case None
  then show ?thesis
    by (auto simp: host_matches_pattern_def pattern_admits_def strip_prefix_def prefix_def split: if_splits)
next
  case (Some domain)
  then have p: "ascii_lowercase p = ''*.'' @ domain" by (auto simp: strip_prefix_def prefix_def split: if_splits)
  show ?thesis
  proof (cases "suffix (''.'' @ domain) (ascii_lowercase h)")
    case True
    then obtain label where "ascii_lowercase h = label @ ''.'' @ domain" by (auto simp: suffix_def)
    then show ?thesis using Some p by (auto simp: host_matches_pattern_def pattern_admits_def strip_suffix_def Let_def suffix_def)
  next
    case False
    then show ?thesis using Some p
      by (auto simp: host_matches_pattern_def pattern_admits_def strip_suffix_def Let_def suffix_def)
  qed
qed

lemma target_matches_iff:
  "target_matches_pattern t p \<longleftrightarrow> (\<forall>s. ntp_scheme p = Some s \<longrightarrow> s = nt_scheme t) \<and> (\<forall>q. ntp_port p = Some q \<longrightarrow> nt_port t = Some q)
    \<and> pattern_admits (ascii_lowercase (ntp_host_pattern p)) (ascii_lowercase (nt_host t))"
  by (auto simp: target_matches_pattern_def host_matches_iff split: option.split)

section \<open>The size of a request\<close>

definition http_request_head :: "network_method \<Rightarrow> string \<Rightarrow> (string \<times> string) list \<Rightarrow> string" where
  "http_request_head m url headers =
    method_label m @ '' '' @ url @ '' HTTP/1.1'' @ [CHR 0x0D, CHR 0x0A]
    @ concat (map (\<lambda>(n, v). n @ '': '' @ v @ [CHR 0x0D, CHR 0x0A]) headers) @ [CHR 0x0D, CHR 0x0A]"

lemma min_add_sat [simp]: "min (min a usize_max + b) usize_max = min (a + b) usize_max"
  by (simp add: min_def)

lemma unat_le_usize_max: "unat (x :: u64) \<le> usize_max"
  using unsigned_less [of x, where 'a = nat] by (simp add: usize_max_def)

lemma unat_add_len: "unat (add_len n acc) = min (unat acc + n) usize_max"
proof (cases "n < 2 ^ 64")
  case True
  then have "unat (of_nat n :: u64) = n" by (simp add: unat_of_nat take_bit_nat_eq_self)
  then show ?thesis using True by (simp add: add_len_def unat_saturating_add usize_max_def)
next
  case False
  have "unat (- 1 :: u64) = 2 ^ 64 - 1" by (simp add: unsigned_minus_1_eq_mask mask_eq_exp_minus_1)
  then show ?thesis using False by (simp add: add_len_def unat_saturating_add usize_max_def)
qed

lemma unat_header_fold:
  "unat (fold (\<lambda>(name, value) t. add_len crlf_len (add_len (length value) (add_len 2 (add_len (length name) t)))) hs t) =
    min (unat t + length (concat (map (\<lambda>(n, v). n @ '': '' @ v @ [CHR 0x0D, CHR 0x0A]) hs))) usize_max"
proof (induction hs arbitrary: t)
  case Nil
  show ?case using unat_le_usize_max [of t] by simp
next
  case (Cons h hs)
  obtain n v where "h = (n, v)" by fastforce
  then show ?case using Cons [of "add_len crlf_len (add_len (length v) (add_len 2 (add_len (length n) t)))"]
    by (simp add: unat_add_len crlf_len_def add.assoc)
qed

lemma estimate_is_size:
  "unat (estimate_http_request_bytes m url headers body) = min (length (http_request_head m url headers) + length body) usize_max"
proof -
  have "length (http_request_head m url headers) = length (method_label m) + (1 + (length url + (length '' HTTP/1.1'' + crlf_len
      + (length (concat (map (\<lambda>(n, v). n @ '': '' @ v @ [CHR 0x0D, CHR 0x0A]) headers)) + crlf_len))))"
    by (simp add: http_request_head_def crlf_len_def)
  then show ?thesis
    unfolding estimate_http_request_bytes_def Let_def unat_add_len unat_header_fold min_add_sat
    by (simp add: add.assoc)
qed

section \<open>Egress\<close>

text \<open>What holds of a request handed to the transport.\<close>

definition target_listed :: "network_policy \<Rightarrow> network_target \<Rightarrow> bool" where
  "target_listed p t \<longleftrightarrow> (\<exists>x \<in> set (np_allowed_targets p). (\<forall>s. ntp_scheme x = Some s \<longrightarrow> s = nt_scheme t)
     \<and> (\<forall>q. ntp_port x = Some q \<longrightarrow> nt_port t = Some q)
     \<and> pattern_admits (ascii_lowercase (ntp_host_pattern x)) (ascii_lowercase (nt_host t)))"

definition addresses_checked :: "network_resolver \<Rightarrow> network_policy \<Rightarrow> network_target \<Rightarrow> ip_addr list \<Rightarrow> bool" where
  "addresses_checked resolve p t ips \<longleftrightarrow> ips \<noteq> []
    \<and> (np_deny_private_ip_ranges p \<longrightarrow> (\<forall>ip \<in> set ips. \<not> is_private_or_loopback_ip ip))
    \<and> (case parse_ip (nt_host t) of
         Some ip \<Rightarrow> ips = [ip]
       | None \<Rightarrow> resolve (nt_host t) (case nt_port t of Some q \<Rightarrow> q | None \<Rightarrow> default_port (nt_scheme t)) = Ok ips)"

lemma target_for_url:
  assumes "network_target_for_http_url parse_url raw n = Ok t"
  obtains u h where "parse_url raw = Ok u" "pu_username u = []" "pu_password u = None" "pu_host_str u = Some h"
    "nt_host t = ascii_lowercase h" "nt_port t = pu_port_or_known_default u"
    "pu_scheme u = (case nt_scheme t of SchemeHttp \<Rightarrow> ''http'' | SchemeHttps \<Rightarrow> ''https'')"
  using assms by (auto simp: network_target_for_http_url_def network_target_for_url_def split: sum.splits if_splits option.splits)

lemma authorized_policy:
  assumes "authorize_static_policy p q = Ok permit"
  shows "target_listed p (nr_target q)" "npm_method permit = nr_method q"
    "\<And>limit n. np_max_egress_bytes p = Some limit \<Longrightarrow> nr_estimated_bytes q = Some n \<Longrightarrow> n \<le> limit"
  using assms by (auto simp: authorize_static_policy_def check_egress_limit_def network_policy_allows_def target_listed_def
    target_matches_iff list_ex_iff split: sum.splits if_splits option.splits)

lemma resolved_checked:
  assumes "resolve_public_ips t p resolve n = Ok ips"
  shows "addresses_checked resolve p t ips"
  using assms by (auto simp: resolve_public_ips_def addresses_checked_def Let_def list_ex_iff split: sum.splits if_splits option.splits)

lemma egress_prepare_Ok:
  assumes "egress_prepare parse_url resolve worker q = Ok t"
  obtains target permit where "reject_caller_host_header (nhr_headers q) = Ok ()"
    "network_target_for_http_url parse_url (nhr_url q)
       (estimate_http_request_bytes (nhr_method q) (nhr_url q) (nhr_headers q) (nhr_body q)) = Ok target"
    "authorize_static_policy (nhr_policy q) \<lparr>nr_scope = nhr_scope q, nr_target = target, nr_method = nhr_method q,
       nr_estimated_bytes = Some (estimate_http_request_bytes (nhr_method q) (nhr_url q) (nhr_headers q) (nhr_body q))\<rparr> = Ok permit"
    "resolve_public_ips target (nhr_policy q) resolve
       (estimate_http_request_bytes (nhr_method q) (nhr_url q) (nhr_headers q) (nhr_body q)) = Ok (ntr_resolved_ips t)"
    "t = \<lparr>ntr_method = npm_method permit, ntr_url = nhr_url q, ntr_headers = nhr_headers q, ntr_body = nhr_body q,
       ntr_resolved_ips = ntr_resolved_ips t, ntr_response_body_limit = nhr_response_body_limit q, ntr_timeout_ms = nhr_timeout_ms q\<rparr>"
  using assms by (auto simp: egress_prepare_def Let_def split: sum.splits option.splits)

text \<open>C28. A request of a runtime either fails before anything is sent, and then the transport is not touched, or
  is handed to the transport unchanged. In that case its URL has no user information, an HTTP scheme
  and a host; scheme, port and host match an entry of the policy's list, where a wildcard stands
  for exactly one label; the size of the request as HTTP writes it is within the egress limit;
  there is no Host header; and the addresses to connect to are the literal address or what the
  resolver answered for that host, none of them private if the policy denies those.\<close>

theorem egress_reaches_only_allowed_targets:
  assumes "egress_execute parse_url resolve worker transport q w = (r, w')"
  shows "(\<exists>e. r = Err e \<and> w' = w \<and> egress_prepare parse_url resolve worker q = Err e)
    \<or> (\<exists>t u h target. transport t w = (r, w') \<and> ntr_url t = nhr_url q \<and> ntr_headers t = nhr_headers q
        \<and> ntr_body t = nhr_body q \<and> ntr_method t = nhr_method q
        \<and> parse_url (nhr_url q) = Ok u \<and> pu_username u = [] \<and> pu_password u = None \<and> pu_host_str u = Some h
        \<and> pu_scheme u = (case nt_scheme target of SchemeHttp \<Rightarrow> ''http'' | SchemeHttps \<Rightarrow> ''https'')
        \<and> nt_host target = ascii_lowercase h \<and> nt_port target = pu_port_or_known_default u
        \<and> target_listed (nhr_policy q) target
        \<and> (\<forall>limit. np_max_egress_bytes (nhr_policy q) = Some limit \<longrightarrow>
             min (length (http_request_head (nhr_method q) (nhr_url q) (nhr_headers q)) + length (nhr_body q)) usize_max \<le> unat limit)
        \<and> (\<forall>(name, _) \<in> set (nhr_headers q). \<not> eq_ignore_ascii_case (trim name) ''host'')
        \<and> addresses_checked resolve (nhr_policy q) target (ntr_resolved_ips t))"
proof (cases "egress_prepare parse_url resolve worker q")
  case (Inl e)
  then show ?thesis using assms by (auto simp: egress_execute_def)
next
  case (Inr t)
  let ?n = "estimate_http_request_bytes (nhr_method q) (nhr_url q) (nhr_headers q) (nhr_body q)"
  from Inr obtain target permit where host: "reject_caller_host_header (nhr_headers q) = Ok ()"
    and url: "network_target_for_http_url parse_url (nhr_url q) ?n = Ok target"
    and auth: "authorize_static_policy (nhr_policy q) \<lparr>nr_scope = nhr_scope q, nr_target = target, nr_method = nhr_method q,
       nr_estimated_bytes = Some ?n\<rparr> = Ok permit"
    and ips: "resolve_public_ips target (nhr_policy q) resolve ?n = Ok (ntr_resolved_ips t)"
    and t: "t = \<lparr>ntr_method = npm_method permit, ntr_url = nhr_url q, ntr_headers = nhr_headers q, ntr_body = nhr_body q,
       ntr_resolved_ips = ntr_resolved_ips t, ntr_response_body_limit = nhr_response_body_limit q, ntr_timeout_ms = nhr_timeout_ms q\<rparr>"
    by (rule egress_prepare_Ok)
  from url obtain u h where u: "parse_url (nhr_url q) = Ok u" "pu_username u = []" "pu_password u = None" "pu_host_str u = Some h"
    "nt_host target = ascii_lowercase h" "nt_port target = pu_port_or_known_default u"
    "pu_scheme u = (case nt_scheme target of SchemeHttp \<Rightarrow> ''http'' | SchemeHttps \<Rightarrow> ''https'')"
    by (rule target_for_url)
  have carried: "ntr_url t = nhr_url q" "ntr_headers t = nhr_headers q" "ntr_body t = nhr_body q" "ntr_method t = nhr_method q"
    by (subst t, use authorized_policy(2) [OF auth] in simp)+
  have "\<forall>(name, _) \<in> set (nhr_headers q). \<not> eq_ignore_ascii_case (trim name) ''host''"
    using host by (auto simp: reject_caller_host_header_def list_ex_iff split: if_splits)
  moreover have "min (length (http_request_head (nhr_method q) (nhr_url q) (nhr_headers q)) + length (nhr_body q)) usize_max \<le> unat limit"
    if "np_max_egress_bytes (nhr_policy q) = Some limit" for limit
    using authorized_policy(3) [OF auth that] by (simp add: word_le_nat_alt estimate_is_size)
  moreover have "transport t w = (r, w')" using assms Inr by (simp add: egress_execute_def)
  ultimately show ?thesis
    using u carried authorized_policy(1) [OF auth] resolved_checked [OF ips] by (intro disjI2) auto
qed

text \<open>A request for one label under a listed domain.\<close>

definition sample_policy :: network_policy where
  "sample_policy = \<lparr>np_allowed_targets = [\<lparr>ntp_scheme = Some SchemeHttps, ntp_host_pattern = ''*.example.com'', ntp_port = None\<rparr>],
     np_deny_private_ip_ranges = True, np_max_egress_bytes = Some 1000\<rparr>"

definition sample_request :: network_http_request where
  "sample_request = \<lparr>nhr_scope = \<lparr>rsc_tenant_id = ''t'', rsc_user_id = ''u'', rsc_agent_id = None, rsc_project_id = None,
       rsc_mission_id = None, rsc_thread_id = None, rsc_invocation_id = 1\<rparr>,
     nhr_method = MGet, nhr_url = ''https://Api.example.com/v1'', nhr_headers = [(''accept'', ''*/*'')], nhr_body = [],
     nhr_policy = sample_policy, nhr_response_body_limit = Some 3, nhr_timeout_ms = None\<rparr>"

definition sample_url :: url_parser where
  "sample_url s = (if s = nhr_url sample_request
     then Ok \<lparr>pu_username = [], pu_password = None, pu_scheme = ''https'', pu_host_str = Some ''api.example.com'',
       pu_port_or_known_default = Some 443\<rparr> else Err ''relative URL without a base'')"

definition sample_resolver :: network_resolver where
  "sample_resolver host port = (if host = ''api.example.com'' \<and> port = 443 then Ok [IpV4 (Ipv4Addr 93 184 216 34)]
     else Err (HttpDns ''no such host'' 0 0))"

definition sample_transport_request :: network_transport_request where
  "sample_transport_request = \<lparr>ntr_method = MGet, ntr_url = ''https://Api.example.com/v1'', ntr_headers = [(''accept'', ''*/*'')],
     ntr_body = [], ntr_resolved_ips = [IpV4 (Ipv4Addr 93 184 216 34)], ntr_response_body_limit = Some 3, ntr_timeout_ms = None\<rparr>"

lemma sample_headers: "reject_caller_host_header (nhr_headers sample_request) = Ok ()"
  by code_simp

lemma sample_not_literal: "parse_ip ''api.example.com'' = None"
  by (simp add: parse_ip_def read_ip_addr_def read_ipv4_addr_def read_ipv6_addr_def read_octet_def read_separator_def read_number_def Let_def to_digit_def byte_def
    read_groups.simps [of 0] read_groups.simps [of "Suc 0"] read_given_char_def)

lemma sample_estimate: "estimate_http_request_bytes MGet ''https://Api.example.com/v1'' [(''accept'', ''*/*'')] [] = 56"
  by (simp add: word_unat_eq_iff estimate_is_size http_request_head_def method_label_def usize_max_def)

lemma sample_public: "is_private_or_loopback_ip (IpV4 (Ipv4Addr 93 184 216 34)) = False"
  by code_simp

lemma sample_host_matches: "host_matches_pattern ''api.example.com'' ''*.example.com''"
  by code_simp

lemma sample_target: "network_target_for_url sample_url ''https://Api.example.com/v1'' = Ok \<lparr>nt_scheme = SchemeHttps, nt_host = ''api.example.com'', nt_port = Some 443\<rparr>"
  by code_simp

lemma sample_prepared: "egress_prepare sample_url sample_resolver None sample_request = Ok sample_transport_request"
proof -
  have "target_matches_pattern \<lparr>nt_scheme = SchemeHttps, nt_host = ''api.example.com'', nt_port = Some 443\<rparr>
      \<lparr>ntp_scheme = Some SchemeHttps, ntp_host_pattern = ''*.example.com'', ntp_port = None\<rparr>"
    using sample_host_matches by (simp add: target_matches_pattern_def)
  then show ?thesis using sample_headers sample_public
    by (simp add: egress_prepare_def sample_request_def sample_estimate network_target_for_http_url_def sample_target
      authorize_static_policy_def check_egress_limit_def sample_policy_def private_literal_def sample_not_literal network_policy_allows_def
      resolve_public_ips_def sample_resolver_def sample_transport_request_def word_less_nat_alt)
qed

theorem egress_reaches_only_allowed_targets_witness:
  "egress_execute sample_url sample_resolver None (\<lambda>t w. (Err (HttpTransport ''refused'' 0 0), w + 1)) sample_request (0 :: nat)
      = (Err (HttpTransport ''refused'' 0 0), 1)
    \<and> (\<exists>target ips. target_listed sample_policy target \<and> addresses_checked sample_resolver sample_policy target ips)"
proof -
  let ?send = "\<lambda>t w. (Err (HttpTransport ''refused'' 0 0), w + 1 :: nat)"
  have run: "egress_execute sample_url sample_resolver None ?send sample_request 0 = (Err (HttpTransport ''refused'' 0 0), 1)"
    by (simp add: egress_execute_def sample_prepared)
  have "nhr_policy sample_request = sample_policy" by (simp add: sample_request_def)
  with egress_reaches_only_allowed_targets [OF run] sample_prepared
  obtain target ips where "target_listed sample_policy target" "addresses_checked sample_resolver sample_policy target ips"
    by auto
  with run show ?thesis by blast
qed

section \<open>Responses\<close>

text \<open>The response a caller sees: the answer, or the part of it that comes with an exceeded limit.\<close>

definition delivered :: "network_http_error + network_http_response \<Rightarrow> network_http_response option" where
  "delivered r = (case r of Ok x \<Rightarrow> Some x | Err e \<Rightarrow> into_partial_response e)"

text \<open>What a runtime relies on in a transport, with a state that keeps an invariant.\<close>

locale http_transport =
  fixes transport :: "network_transport_request \<Rightarrow> 'w \<Rightarrow> (network_http_error + network_http_response) \<times> 'w"
    and inv :: "'w \<Rightarrow> bool"
  assumes transport_keeps: "inv w \<Longrightarrow> transport t w = (r, w') \<Longrightarrow> inv w'"
    and transport_bounded: "inv w \<Longrightarrow> transport t w = (r, w') \<Longrightarrow> delivered r = Some x
      \<Longrightarrow> length (nrs_body x) \<le> unat (effective_response_body_limit (ntr_response_body_limit t))"
begin

lemma egress_keeps:
  "inv w \<Longrightarrow> egress_execute parse_url resolve worker transport q w = (r, w') \<Longrightarrow> inv w'"
  by (auto simp: egress_execute_def split: sum.splits intro: transport_keeps)

lemma prepare_error_empty: "egress_prepare parse_url resolve worker q = Err e \<Longrightarrow> into_partial_response e = None"
  by (auto simp: egress_prepare_def reject_caller_host_header_def network_target_for_http_url_def resolve_public_ips_def
    Let_def split: sum.splits option.splits if_splits)

lemma egress_bounded:
  assumes "inv w" "egress_execute parse_url resolve worker transport q w = (r, w')" "delivered r = Some x"
  shows "length (nrs_body x) \<le> unat (effective_response_body_limit (nhr_response_body_limit q))"
proof (cases "egress_prepare parse_url resolve worker q")
  case (Inl e)
  then show ?thesis using assms prepare_error_empty [OF Inl] by (auto simp: egress_execute_def delivered_def)
next
  case (Inr t)
  then have "transport t w = (r, w')" using assms by (simp add: egress_execute_def)
  moreover have "ntr_response_body_limit t = nhr_response_body_limit q" using Inr by (rule egress_prepare_Ok) (metis network_transport_request.select_convs(6))
  ultimately show ?thesis using transport_bounded [OF assms(1)] assms(3) by fastforce
qed

end

text \<open>The cache is small and every client in it was built for its key.\<close>

definition cache_ok :: "(reqwest_client_key \<Rightarrow> string + 'c) \<Rightarrow> 'c client_cache \<Rightarrow> bool" where
  "cache_ok build cache \<longleftrightarrow> length cache \<le> MAX_REQWEST_CLIENT_CACHE_ENTRIES \<and> (\<forall>k c. hm_get cache k = Some c \<longrightarrow> build k = Ok c)"

lemma length_hm_insert: "length (hm_insert k v m) \<le> Suc (length m)"
  unfolding hm_insert_def by (induction m) auto

lemma client_for_ok:
  assumes "cache_ok build cache" "client_for build key n cache = (r, cache')"
  shows "cache_ok build cache'" "\<And>c. r = Ok c \<Longrightarrow> build key = Ok c"
proof -
  have "length (hm_insert key c cache) \<le> MAX_REQWEST_CLIENT_CACHE_ENTRIES" if "\<not> MAX_REQWEST_CLIENT_CACHE_ENTRIES \<le> length cache" for c
    using that length_hm_insert [of key c cache] by linarith
  moreover have "length (hm_insert key c []) \<le> MAX_REQWEST_CLIENT_CACHE_ENTRIES" for c :: 'a
    by (simp add: hm_insert_def MAX_REQWEST_CLIENT_CACHE_ENTRIES_def)
  ultimately show "cache_ok build cache'" "\<And>c. r = Ok c \<Longrightarrow> build key = Ok c"
    using assms unfolding client_for_def cache_ok_def Let_def
    by (auto split: option.splits sum.splits if_splits)
qed

text \<open>Reading a body: the chunks in order, or their first bytes up to the limit.\<close>

lemma read_body_bounded:
  assumes "length body \<le> unat limit"
  shows "read_body limit response n body cs = Ok b \<Longrightarrow> length b \<le> unat limit"
    and "read_body limit response n body cs = Err e \<Longrightarrow> into_partial_response e = Some x
      \<Longrightarrow> \<exists>b k. x = response b k \<and> length b = unat limit"
  using assms by (induction limit response n body cs rule: read_body.induct)
    (auto simp: Let_def split: if_splits, intro exI conjI, rule refl, simp)

lemma transport_delivered:
  assumes "transport_execute parse_url build send timeout t cache = (r, cache')" "delivered r = Some x"
  shows "length (nrs_body x) \<le> unat (effective_response_body_limit (ntr_response_body_limit t))"
  using assms read_body_bounded(1) [where body = "[]" and limit = "effective_response_body_limit (ntr_response_body_limit t)"]
    read_body_bounded(2) [where body = "[]" and limit = "effective_response_body_limit (ntr_response_body_limit t)"]
  by (fastforce simp: transport_execute_def delivered_def reject_caller_host_header_def client_for_def Let_def
      split: sum.splits option.splits prod.splits if_splits)

lemma transport_cache:
  assumes "cache_ok build cache" "transport_execute parse_url build send timeout t cache = (r, cache')"
  shows "cache_ok build cache'"
  using assms client_for_ok(1) [OF assms(1)]
  by (fastforce simp: transport_execute_def Let_def split: sum.splits option.splits prod.splits)

interpretation reqwest: http_transport "transport_execute parse_url build send timeout" "cache_ok build"
  for parse_url build send timeout
  by unfold_locales (use transport_cache transport_delivered in blast)+

text \<open>A client that may carry a request: built for the host and port of a listed target and for nothing but
  the addresses that were checked for it.\<close>

definition pinned_client ::
    "(reqwest_client_key \<Rightarrow> string + 'c) \<Rightarrow> network_resolver \<Rightarrow> network_policy \<Rightarrow> 'c \<Rightarrow> network_transport_request \<Rightarrow> bool" where
  "pinned_client build resolve p c t \<longleftrightarrow> (\<exists>k target. build k = Ok c \<and> target_listed p target
     \<and> ascii_lowercase (rck_host k) = nt_host target \<and> nt_port target = Some (rck_port k)
     \<and> rck_resolved_addrs k = map (\<lambda>ip. (ip, rck_port k)) (ntr_resolved_ips t)
     \<and> addresses_checked resolve p target (ntr_resolved_ips t))"

lemma transport_sends_over:
  assumes "cache_ok build cache"
    and "\<And>u h port k c. parse_url (ntr_url t) = Ok u \<Longrightarrow> pu_host_str u = Some h \<Longrightarrow> pu_port_or_known_default u = Some port
      \<Longrightarrow> rck_host k = h \<Longrightarrow> rck_port k = port \<Longrightarrow> rck_resolved_addrs k = map (\<lambda>ip. (ip, port)) (ntr_resolved_ips t)
      \<Longrightarrow> build k = Ok c \<Longrightarrow> send' c t = send c t"
  shows "transport_execute parse_url build send' timeout t cache = transport_execute parse_url build send timeout t cache"
proof -
  let ?key = "\<lambda>h port d. \<lparr>rck_host = h, rck_port = port, rck_resolved_addrs = map (\<lambda>ip. (ip, port)) (ntr_resolved_ips t), rck_timeout = d\<rparr>"
  have "send' c t = send c t"
    if "client_for build (?key h port d) n cache = (Ok c, cache')" "parse_url (ntr_url t) = Ok u" "pu_host_str u = Some h" "pu_port_or_known_default u = Some port"
    for u h port d n c cache'
    using client_for_ok(2) [OF assms(1) that(1)] assms(2) [OF that(2-4), of "?key h port d"] by simp
  then show ?thesis
    unfolding transport_execute_def Let_def
    by (auto split: sum.split option.split prod.split)
qed

text \<open>C29. Whatever a server answers and in whatever pieces, a caller sees at most the requested number of body bytes
  and never more than 10 MiB, in a success and in the partial response of an exceeded limit alike.
  The cache of clients stays within its size. And a request is only ever sent over a client that was
  built for the host, the port and the checked addresses of a listed target: how any other client
  behaves, cached ones included, makes no difference to the outcome.\<close>

theorem responses_are_bounded_and_pinned:
  assumes "cache_ok build cache"
    and "egress_execute parse_url resolve worker (transport_execute parse_url build send timeout) q cache = (r, cache')"
  shows "cache_ok build cache'
    \<and> (\<forall>x. delivered r = Some x \<longrightarrow> length (nrs_body x) \<le> 10 * 1024 * 1024
         \<and> (\<forall>n. nhr_response_body_limit q = Some n \<longrightarrow> length (nrs_body x) \<le> unat n))
    \<and> (\<forall>send'. (\<forall>c t. pinned_client build resolve (nhr_policy q) c t \<longrightarrow> send' c t = send c t) \<longrightarrow>
         egress_execute parse_url resolve worker (transport_execute parse_url build send' timeout) q cache = (r, cache'))"
proof (intro conjI allI impI)
  show "cache_ok build cache'" using assms by (rule reqwest.egress_keeps)
next
  fix x assume "delivered r = Some x"
  with assms have b: "length (nrs_body x) \<le> unat (effective_response_body_limit (nhr_response_body_limit q))"
    by (rule reqwest.egress_bounded)
  then show "length (nrs_body x) \<le> 10 * 1024 * 1024"
    by (rule order_trans)
      (simp add: effective_response_body_limit_def MAX_RESPONSE_BODY_LIMIT_def DEFAULT_RESPONSE_BODY_LIMIT_def
        min_def word_le_nat_alt split: option.split)
  show "length (nrs_body x) \<le> unat n" if "nhr_response_body_limit q = Some n" for n
    using b that by (auto simp: effective_response_body_limit_def min_def word_le_nat_alt split: if_splits)
next
  fix send' assume same: "\<forall>c t. pinned_client build resolve (nhr_policy q) c t \<longrightarrow> send' c t = send c t"
  show "egress_execute parse_url resolve worker (transport_execute parse_url build send' timeout) q cache = (r, cache')"
  proof (cases "egress_prepare parse_url resolve worker q")
    case (Inl e)
    then show ?thesis using assms(2) by (simp add: egress_execute_def)
  next
    case (Inr t)
    then obtain target permit n where
      url: "network_target_for_http_url parse_url (nhr_url q) n = Ok target"
      and auth: "authorize_static_policy (nhr_policy q) \<lparr>nr_scope = nhr_scope q, nr_target = target, nr_method = nhr_method q,
        nr_estimated_bytes = Some n\<rparr> = Ok permit"
      and ips: "resolve_public_ips target (nhr_policy q) resolve n = Ok (ntr_resolved_ips t)" and t: "ntr_url t = nhr_url q"
      by (rule egress_prepare_Ok) (metis network_transport_request.select_convs(2))
    have "transport_execute parse_url build send' timeout t cache = transport_execute parse_url build send timeout t cache"
    proof (rule transport_sends_over [OF assms(1)])
      fix u h port k c
      assume "parse_url (ntr_url t) = Ok u" "pu_host_str u = Some h" "pu_port_or_known_default u = Some port"
        "rck_host k = h" "rck_port k = port" "rck_resolved_addrs k = map (\<lambda>ip. (ip, port)) (ntr_resolved_ips t)" "build k = Ok c"
      with url have "pinned_client build resolve (nhr_policy q) c t"
        using authorized_policy(1) [OF auth] resolved_checked [OF ips] unfolding pinned_client_def t
        by (elim target_for_url) (intro exI [of _ k] exI [of _ target], simp)
      with same show "send' c t = send c t" by blast
    qed
    then show ?thesis using Inr assms(2) by (simp add: egress_execute_def)
  qed
qed

text \<open>A server that sends five bytes in two pieces to a caller that asked for three.\<close>

definition sample_build :: "reqwest_client_key \<Rightarrow> string + nat" where
  "sample_build k = Ok (length (rck_resolved_addrs k))"

definition sample_send :: "nat \<Rightarrow> network_transport_request \<Rightarrow> string + sent_response" where
  "sample_send c t = Ok \<lparr>sr_status = 200, sr_headers = [], sr_chunks = [Ok [1, 2], Ok [3, 4, 5]]\<rparr>"

theorem responses_are_bounded_and_pinned_witness:
  "\<exists>e x cache'. egress_execute sample_url sample_resolver None
        (transport_execute sample_url sample_build sample_send 1000) sample_request [] = (Err e, cache')
    \<and> http_error_kind e = KResponseBodyLimitExceeded \<and> into_partial_response e = Some x \<and> nrs_body x = [1, 2, 3]
    \<and> cache_ok sample_build cache'"
proof -
  let ?run = "egress_execute sample_url sample_resolver None (transport_execute sample_url sample_build sample_send 1000) sample_request []"
  have empty: "cache_ok sample_build []" by (simp add: cache_ok_def)
  have "case ?run of (Err e, _) \<Rightarrow> http_error_kind e = KResponseBodyLimitExceeded
      \<and> map_option nrs_body (into_partial_response e) = Some [1, 2, 3] | _ \<Rightarrow> False"
    unfolding egress_execute_def sample_prepared sum.case by code_simp
  then obtain e x cache' where run: "?run = (Err e, cache')" "http_error_kind e = KResponseBodyLimitExceeded"
      "into_partial_response e = Some x" "nrs_body x = [1, 2, 3]"
    by (auto split: prod.splits sum.splits)
  with responses_are_bounded_and_pinned [OF empty run(1)] show ?thesis by blast
qed

end
