(* ===== verification/Process_Store.thy ===== *)
theory Process_Store
  imports Budget_Gate
begin

text \<open>
  Processes, \<^verbatim>\<open>ironclaw_processes/src/{types,memory_store,wrappers}.rs\<close> and the process events of
  \<^verbatim>\<open>ironclaw_events/src/runtime_event.rs\<close>: lifecycle records and results, their in-memory stores, and the two
  decorators of a process store, one that emits events and one that holds a resource
  reservation while a process runs.

  The traits \<^verbatim>\<open>ProcessStore\<close>, \<^verbatim>\<open>ProcessResultStore\<close> and \<^verbatim>\<open>ResourceGovernor\<close> are records of operations on the state of
  an implementation, so that decorators compose as in the source. Locks are never poisoned for their
  readers (\<^verbatim>\<open>into_inner\<close>). The guard that releases a reservation when the inner store panics has no
  counterpart: operations of the model do not panic.
\<close>

section \<open>Error kinds (runtime\_event.rs)\<close>

definition UNCLASSIFIED_ERROR_KIND :: string where
  "UNCLASSIFIED_ERROR_KIND = ''Unclassified''"

definition MAX_ERROR_KIND_LEN :: nat where "MAX_ERROR_KIND_LEN = 64"

definition MAX_ERROR_KIND_SEGMENT_LEN :: nat where "MAX_ERROR_KIND_SEGMENT_LEN = 24"

definition is_error_kind_char :: "char \<Rightarrow> bool" where
  "is_error_kind_char c = (is_ascii_lowercase c \<or> is_ascii_digit c \<or> c = CHR ''_'')"

definition is_error_kind_separator :: "char \<Rightarrow> bool" where
  "is_error_kind_separator c = (c = CHR ''.'' \<or> c = CHR '':'')"

definition is_safe_error_kind :: "string \<Rightarrow> bool" where
  "is_safe_error_kind v =
    (if v = [] \<or> length v > MAX_ERROR_KIND_LEN then False
     else if \<not> is_ascii_lowercase (hd v) then False
     else if list_ex (\<lambda>c. \<not> is_error_kind_char c \<and> \<not> is_error_kind_separator c) v then False
     else list_all (\<lambda>segment. segment \<noteq> [] \<and> length segment \<le> MAX_ERROR_KIND_SEGMENT_LEN \<and> is_ascii_lowercase (hd segment))
       (split_on is_error_kind_separator v))"

definition sanitize_error_kind :: "string \<Rightarrow> string" where
  "sanitize_error_kind v = (if is_safe_error_kind v then v else UNCLASSIFIED_ERROR_KIND)"

section \<open>Records and errors (types.rs)\<close>

type_synonym process_id = uuid

datatype process_status = PsRunning | PsCompleted | PsFailed | PsKilled

definition process_is_terminal :: "process_status \<Rightarrow> bool" where
  "process_is_terminal s = (s \<noteq> PsRunning)"

record process_record =
  pr_process_id :: process_id
  pr_parent_process_id :: "process_id option"
  pr_invocation_id :: invocation_id
  pr_scope :: resource_scope
  pr_extension_id :: extension_id
  pr_capability_id :: capability_id
  pr_runtime :: runtime_kind
  pr_status :: process_status
  pr_grants :: "capability_grant list"
  pr_mounts :: mount_view
  pr_estimated_resources :: resource_estimate
  pr_resource_reservation_id :: "resource_reservation_id option"
  pr_error_kind :: "string option"

record process_start =
  pst_process_id :: process_id
  pst_parent_process_id :: "process_id option"
  pst_invocation_id :: invocation_id
  pst_scope :: resource_scope
  pst_extension_id :: extension_id
  pst_capability_id :: capability_id
  pst_runtime :: runtime_kind
  pst_grants :: "capability_grant list"
  pst_mounts :: mount_view
  pst_estimated_resources :: resource_estimate
  pst_resource_reservation_id :: "resource_reservation_id option"
  pst_input :: json

record process_exit =
  px_process_id :: process_id
  px_scope :: resource_scope
  px_extension_id :: extension_id
  px_capability_id :: capability_id
  px_runtime :: runtime_kind
  px_status :: process_status
  px_error_kind :: "string option"

record process_result_record =
  prr_process_id :: process_id
  prr_scope :: resource_scope
  prr_status :: process_status
  prr_output :: "json option"
  prr_output_ref :: "string option"
  prr_error_kind :: "string option"

definition from_terminal :: "process_record \<Rightarrow> process_exit" where
  "from_terminal r = \<lparr>px_process_id = pr_process_id r, px_scope = pr_scope r, px_extension_id = pr_extension_id r,
     px_capability_id = pr_capability_id r, px_runtime = pr_runtime r, px_status = pr_status r,
     px_error_kind = pr_error_kind r\<rparr>"

datatype process_error =
    UnknownProcess process_id
  | ProcessAlreadyExists process_id
  | ProcessInvalidTransition process_id process_status process_status
  | ResourceReservationMismatch process_id resource_reservation_id "resource_reservation_id option"
  | ResourceReservationAlreadyAssigned process_id resource_reservation_id
  | ResourceReservationNotOwned process_id "resource_reservation_id option"
  | ProcessResource resource_error
  | ResourceCleanupFailed process_error resource_error
  | ProcessResultStoreUnavailable
  | ProcessResultUnavailable process_id
  | InvalidStoredRecord string
  | ProcessInvalidPath string
  | ProcessFilesystem bool string
  | ProcessSerialization string
  | ProcessDeserialization string

text \<open>Of a file system error, whether it is \<^verbatim>\<open>NotFound\<close>, and its text.\<close>

fun is_filesystem_not_found :: "process_error \<Rightarrow> bool" where
  "is_filesystem_not_found (ProcessFilesystem not_found _) = not_found"
| "is_filesystem_not_found (ResourceCleanupFailed original _) = is_filesystem_not_found original"
| "is_filesystem_not_found _ = False"

record process_key =
  pk_tenant_id :: string
  pk_user_id :: string
  pk_agent_id :: "string option"
  pk_project_id :: "string option"
  pk_mission_id :: "string option"
  pk_thread_id :: "string option"
  pk_process_id :: process_id

definition process_key_new :: "resource_scope \<Rightarrow> process_id \<Rightarrow> process_key" where
  "process_key_new scope i = \<lparr>pk_tenant_id = rsc_tenant_id scope, pk_user_id = rsc_user_id scope, pk_agent_id = rsc_agent_id scope,
     pk_project_id = rsc_project_id scope, pk_mission_id = rsc_mission_id scope, pk_thread_id = rsc_thread_id scope,
     pk_process_id = i\<rparr>"

definition ensure_status_transition :: "process_id \<Rightarrow> process_status \<Rightarrow> process_status \<Rightarrow> process_error + unit" where
  "ensure_status_transition i from to = (if from \<noteq> PsRunning then Err (ProcessInvalidTransition i from to) else Ok ())"

definition process_scope_owner :: "resource_scope \<Rightarrow> resource_scope \<Rightarrow> bool" where
  "process_scope_owner l r \<longleftrightarrow> rsc_tenant_id l = rsc_tenant_id r \<and> rsc_user_id l = rsc_user_id r \<and> rsc_agent_id l = rsc_agent_id r
     \<and> rsc_project_id l = rsc_project_id r \<and> rsc_mission_id l = rsc_mission_id r \<and> rsc_thread_id l = rsc_thread_id r"

text \<open>The traits \<^verbatim>\<open>ProcessStore\<close> and \<^verbatim>\<open>ProcessResultStore\<close>, on the state of an implementation.\<close>

record 'w process_store =
  ps_start :: "process_start \<Rightarrow> 'w \<Rightarrow> (process_error + process_record) \<times> 'w"
  ps_complete :: "resource_scope \<Rightarrow> process_id \<Rightarrow> 'w \<Rightarrow> (process_error + process_record) \<times> 'w"
  ps_fail :: "resource_scope \<Rightarrow> process_id \<Rightarrow> string \<Rightarrow> 'w \<Rightarrow> (process_error + process_record) \<times> 'w"
  ps_kill :: "resource_scope \<Rightarrow> process_id \<Rightarrow> 'w \<Rightarrow> (process_error + process_record) \<times> 'w"
  ps_get :: "resource_scope \<Rightarrow> process_id \<Rightarrow> 'w \<Rightarrow> (process_error + process_record option) \<times> 'w"
  ps_records_for_scope :: "resource_scope \<Rightarrow> 'w \<Rightarrow> (process_error + process_record list) \<times> 'w"

record 'r process_result_store =
  prs_complete :: "resource_scope \<Rightarrow> process_id \<Rightarrow> json \<Rightarrow> 'r \<Rightarrow> (process_error + process_result_record) \<times> 'r"
  prs_fail :: "resource_scope \<Rightarrow> process_id \<Rightarrow> string \<Rightarrow> 'r \<Rightarrow> (process_error + process_result_record) \<times> 'r"
  prs_kill :: "resource_scope \<Rightarrow> process_id \<Rightarrow> 'r \<Rightarrow> (process_error + process_result_record) \<times> 'r"
  prs_get :: "resource_scope \<Rightarrow> process_id \<Rightarrow> 'r \<Rightarrow> (process_error + process_result_record option) \<times> 'r"

definition result_store_output ::
    "'r process_result_store \<Rightarrow> resource_scope \<Rightarrow> process_id \<Rightarrow> 'r \<Rightarrow> (process_error + json option) \<times> 'r" where
  "result_store_output R scope i w =
    (case prs_get R scope i w of
       (Err e, w) \<Rightarrow> (Err e, w)
     | (Ok found, w) \<Rightarrow> (Ok (Option.bind found prr_output), w))"

section \<open>In-memory stores (memory\_store.rs)\<close>

type_synonym process_map = "(process_key, process_record) hmap"
type_synonym result_map = "(process_key, process_result_record) hmap"

definition process_update_status ::
    "resource_scope \<Rightarrow> process_id \<Rightarrow> process_status \<Rightarrow> string option \<Rightarrow> process_map
      \<Rightarrow> (process_error + process_record) \<times> process_map" where
  "process_update_status scope i to error_kind m =
    (let key = process_key_new scope i in
     case hm_get m key of
       None \<Rightarrow> (Err (UnknownProcess i), m)
     | Some r \<Rightarrow>
        (case ensure_status_transition i (pr_status r) to of
           Err e \<Rightarrow> (Err e, m)
         | Ok _ \<Rightarrow> let r = r\<lparr>pr_status := to, pr_error_kind := error_kind\<rparr> in (Ok r, hm_insert key r m)))"

definition process_record_of :: "process_start \<Rightarrow> process_record" where
  "process_record_of s = \<lparr>pr_process_id = pst_process_id s, pr_parent_process_id = pst_parent_process_id s,
     pr_invocation_id = pst_invocation_id s, pr_scope = pst_scope s, pr_extension_id = pst_extension_id s,
     pr_capability_id = pst_capability_id s, pr_runtime = pst_runtime s, pr_status = PsRunning, pr_grants = pst_grants s,
     pr_mounts = pst_mounts s, pr_estimated_resources = pst_estimated_resources s,
     pr_resource_reservation_id = pst_resource_reservation_id s, pr_error_kind = None\<rparr>"

definition memory_process_start :: "process_start \<Rightarrow> process_map \<Rightarrow> (process_error + process_record) \<times> process_map" where
  "memory_process_start s m =
    (let r = process_record_of s; key = process_key_new (pr_scope r) (pr_process_id r) in
     if hm_contains_key key m then (Err (ProcessAlreadyExists (pr_process_id r)), m)
     else (Ok r, hm_insert key r m))"

definition memory_records_for_scope :: "resource_scope \<Rightarrow> process_map \<Rightarrow> process_record list" where
  "memory_records_for_scope scope m =
    sort_key pr_process_id (filter (\<lambda>r. process_scope_owner (pr_scope r) scope) (hm_values m))"

definition memory_process_store :: "process_map process_store" where
  "memory_process_store = \<lparr>
     ps_start = memory_process_start,
     ps_complete = (\<lambda>scope i. process_update_status scope i PsCompleted None),
     ps_fail = (\<lambda>scope i kind. process_update_status scope i PsFailed (Some (sanitize_error_kind kind))),
     ps_kill = (\<lambda>scope i. process_update_status scope i PsKilled None),
     ps_get = (\<lambda>scope i m. (Ok (hm_get m (process_key_new scope i)), m)),
     ps_records_for_scope = (\<lambda>scope m. (Ok (memory_records_for_scope scope m), m))\<rparr>"

definition store_result ::
    "resource_scope \<Rightarrow> process_id \<Rightarrow> process_status \<Rightarrow> json option \<Rightarrow> string option \<Rightarrow> result_map
      \<Rightarrow> process_result_record \<times> result_map" where
  "store_result scope i status out error_kind m =
    (let r = \<lparr>prr_process_id = i, prr_scope = scope, prr_status = status, prr_output = out, prr_output_ref = None,
           prr_error_kind = error_kind\<rparr> in
     (r, hm_insert (process_key_new scope i) r m))"

definition memory_result_store :: "result_map process_result_store" where
  "memory_result_store = \<lparr>
     prs_complete = (\<lambda>scope i out m. apfst Ok (store_result scope i PsCompleted (Some out) None m)),
     prs_fail = (\<lambda>scope i kind m. apfst Ok (store_result scope i PsFailed None (Some (sanitize_error_kind kind)) m)),
     prs_kill = (\<lambda>scope i m. apfst Ok (store_result scope i PsKilled None None m)),
     prs_get = (\<lambda>scope i m. (Ok (hm_get m (process_key_new scope i)), m))\<rparr>"

section \<open>Process events (runtime\_event.rs)\<close>

datatype runtime_event_kind =
    DispatchRequested | RuntimeSelected | DispatchSucceeded | DispatchFailed | CapabilityActivityRequested
  | CapabilityActivitySucceeded | CapabilityActivityFailed | ModelStarted | ModelCompleted | ModelFailed
  | AssistantReplyFinalized | LoopCompleted | LoopCancelled | LoopFailed | ProcessStarted | ProcessCompleted
  | ProcessFailed | ProcessKilled | HookDispatched | HookDecisionEmitted | HookFailed

record runtime_event_payload =
  rep_kind :: runtime_event_kind
  rep_scope :: resource_scope
  rep_capability_id :: capability_id
  rep_provider :: "extension_id option"
  rep_runtime :: "runtime_kind option"
  rep_process_id :: "process_id option"
  rep_output_bytes :: "u64 option"
  rep_error_kind :: "string option"
  rep_hook_id :: "string option"
  rep_hook_point :: "string option"
  rep_hook_trust_class :: "string option"
  rep_hook_decision :: "string option"
  rep_hook_failure_category :: "string option"
  rep_hook_failure_disposition :: "string option"

record runtime_event = runtime_event_payload +
  rev_event_id :: uuid
  rev_timestamp :: timestamp
  rev_parent_invocation_id :: "invocation_id option"

definition runtime_event_new :: "uuid \<Rightarrow> timestamp \<Rightarrow> runtime_event_payload \<Rightarrow> runtime_event" where
  "runtime_event_new i now payload = runtime_event_payload.extend payload (runtime_event.fields i now None)"

definition process_payload :: "runtime_event_kind \<Rightarrow> process_record \<Rightarrow> string option \<Rightarrow> runtime_event_payload" where
  "process_payload kind r error_kind =
    \<lparr>rep_kind = kind, rep_scope = pr_scope r, rep_capability_id = pr_capability_id r, rep_provider = Some (pr_extension_id r),
     rep_runtime = Some (pr_runtime r), rep_process_id = Some (pr_process_id r), rep_output_bytes = None,
     rep_error_kind = error_kind, rep_hook_id = None, rep_hook_point = None, rep_hook_trust_class = None,
     rep_hook_decision = None, rep_hook_failure_category = None, rep_hook_failure_disposition = None\<rparr>"

definition process_started :: "process_record \<Rightarrow> runtime_event_payload" where
  "process_started r = process_payload ProcessStarted r None"

definition process_completed :: "process_record \<Rightarrow> runtime_event_payload" where
  "process_completed r = process_payload ProcessCompleted r None"

definition process_failed :: "process_record \<Rightarrow> string \<Rightarrow> runtime_event_payload" where
  "process_failed r error_kind = process_payload ProcessFailed r (Some (sanitize_error_kind error_kind))"

definition process_killed :: "process_record \<Rightarrow> runtime_event_payload" where
  "process_killed r = process_payload ProcessKilled r None"

section \<open>The eventing store (wrappers.rs)\<close>

text \<open>A sink receives an event and may fail, which is ignored. Event id and clock are arguments.\<close>

type_synonym 'e event_sink = "runtime_event \<Rightarrow> 'e \<Rightarrow> (string + unit) \<times> 'e"

definition emit_best_effort :: "'e event_sink \<Rightarrow> runtime_event \<Rightarrow> 'e \<Rightarrow> 'e" where
  "emit_best_effort sink event e = snd (sink event e)"

definition emitting ::
    "'e event_sink \<Rightarrow> uuid \<Rightarrow> timestamp \<Rightarrow> (process_record \<Rightarrow> runtime_event_payload)
      \<Rightarrow> ('w \<Rightarrow> (process_error + process_record) \<times> 'w) \<Rightarrow> 'w \<times> 'e \<Rightarrow> (process_error + process_record) \<times> 'w \<times> 'e" where
  "emitting sink event_id now payload op = (\<lambda>(w, e).
     case op w of
       (Err err, w) \<Rightarrow> (Err err, w, e)
     | (Ok r, w) \<Rightarrow> (Ok r, w, emit_best_effort sink (runtime_event_new event_id now (payload r)) e))"

definition eventing_process_store ::
    "'e event_sink \<Rightarrow> uuid \<Rightarrow> timestamp \<Rightarrow> 'w process_store \<Rightarrow> ('w \<times> 'e) process_store" where
  "eventing_process_store sink event_id now S = \<lparr>
     ps_start = (\<lambda>start. emitting sink event_id now process_started (ps_start S start)),
     ps_complete = (\<lambda>scope i. emitting sink event_id now process_completed (ps_complete S scope i)),
     ps_fail = (\<lambda>scope i kind. emitting sink event_id now
        (\<lambda>r. process_failed r (case pr_error_kind r of Some k \<Rightarrow> k | None \<Rightarrow> ''Unknown'')) (ps_fail S scope i kind)),
     ps_kill = (\<lambda>scope i. emitting sink event_id now process_killed (ps_kill S scope i)),
     ps_get = (\<lambda>scope i (w, e). case ps_get S scope i w of (x, w) \<Rightarrow> (x, w, e)),
     ps_records_for_scope = (\<lambda>scope (w, e). case ps_records_for_scope S scope w of (x, w) \<Rightarrow> (x, w, e))\<rparr>"

section \<open>The resource-managed store (wrappers.rs)\<close>

text \<open>What the store calls of a \<^verbatim>\<open>ResourceGovernor\<close>.\<close>

record 'g resource_governor =
  rg_reserve :: "resource_scope \<Rightarrow> resource_estimate \<Rightarrow> 'g \<Rightarrow> (resource_error + resource_reservation) \<times> 'g"
  rg_reconcile :: "resource_reservation_id \<Rightarrow> resource_usage \<Rightarrow> 'g \<Rightarrow> (resource_error + resource_receipt) \<times> 'g"
  rg_release :: "resource_reservation_id \<Rightarrow> 'g \<Rightarrow> (resource_error + resource_receipt) \<times> 'g"

text \<open>The in-memory governor at one moment, with the id it generates.\<close>

definition memory_governor :: "governor_env \<Rightarrow> timestamp \<Rightarrow> resource_reservation_id \<Rightarrow> governor resource_governor" where
  "memory_governor g now fresh = \<lparr>
     rg_reserve = (\<lambda>scope e v. case reserve_with_id_and_outcome g now scope e fresh v of
        (Err err, v) \<Rightarrow> (Err err, v) | (Ok out, v) \<Rightarrow> (Ok (ro_reservation out), v)),
     rg_reconcile = governor_reconcile g now,
     rg_release = governor_release g now\<rparr>"

record ('w, 'g) managed_processes =
  mp_inner :: 'w
  mp_governor :: 'g
  mp_owned_reservations :: "(process_key, resource_reservation_id) hmap"

definition record_owned_reservation ::
    "resource_scope \<Rightarrow> process_id \<Rightarrow> resource_reservation_id \<Rightarrow> (process_key, resource_reservation_id) hmap
      \<Rightarrow> (process_key, resource_reservation_id) hmap" where
  "record_owned_reservation scope i reservation owned = hm_insert (process_key_new scope i) reservation owned"

definition take_owned_reservation ::
    "resource_scope \<Rightarrow> process_id \<Rightarrow> resource_reservation_id option \<Rightarrow> (process_key, resource_reservation_id) hmap
      \<Rightarrow> (process_error + resource_reservation_id) \<times> (process_key, resource_reservation_id) hmap" where
  "take_owned_reservation scope i of_record owned =
    (let key = process_key_new scope i in
     case hm_get owned key of
       None \<Rightarrow> (Err (ResourceReservationNotOwned i of_record), owned)
     | Some reservation \<Rightarrow>
        (let owned = hm_remove key owned in
         if Some reservation \<noteq> of_record
         then (Err (ResourceReservationMismatch i reservation of_record), hm_insert key reservation owned)
         else (Ok reservation, owned)))"

definition release_reservation :: "'g resource_governor \<Rightarrow> resource_reservation_id \<Rightarrow> 'g \<Rightarrow> (resource_error + unit) \<times> 'g" where
  "release_reservation G i g = (case rg_release G i g of (Err e, g) \<Rightarrow> (Err e, g) | (Ok _, g) \<Rightarrow> (Ok (), g))"

definition reconcile_reservation ::
    "'g resource_governor \<Rightarrow> resource_usage \<Rightarrow> resource_reservation_id \<Rightarrow> 'g \<Rightarrow> (resource_error + unit) \<times> 'g" where
  "reconcile_reservation G usage i g = (case rg_reconcile G i usage g of (Err e, g) \<Rightarrow> (Err e, g) | (Ok _, g) \<Rightarrow> (Ok (), g))"

text \<open>\<^verbatim>\<open>release_reservation_after_error\<close> and \<^verbatim>\<open>reconcile_reservation_after_error\<close>.\<close>

definition settle_after_error :: "('g \<Rightarrow> (resource_error + unit) \<times> 'g) \<Rightarrow> process_error \<Rightarrow> 'g \<Rightarrow> process_error \<times> 'g" where
  "settle_after_error settle original g =
    (case settle g of (Ok _, g) \<Rightarrow> (original, g) | (Err cleanup, g) \<Rightarrow> (ResourceCleanupFailed original cleanup, g))"

definition managed_start ::
    "'w process_store \<Rightarrow> 'g resource_governor \<Rightarrow> process_start \<Rightarrow> ('w, 'g) managed_processes
      \<Rightarrow> (process_error + process_record) \<times> ('w, 'g) managed_processes" where
  "managed_start S G start m =
    (case pst_resource_reservation_id start of
       Some reservation \<Rightarrow> (Err (ResourceReservationAlreadyAssigned (pst_process_id start) reservation), m)
     | None \<Rightarrow>
    (case rg_reserve G (pst_scope start) (pst_estimated_resources start) (mp_governor m) of
       (Err e, g) \<Rightarrow> (Err (ProcessResource e), m\<lparr>mp_governor := g\<rparr>)
     | (Ok reservation, g) \<Rightarrow>
        (let m = m\<lparr>mp_governor := g\<rparr>; start = start\<lparr>pst_resource_reservation_id := Some (rv_id reservation)\<rparr> in
         case ps_start S start (mp_inner m) of
           (Ok r, w) \<Rightarrow>
             (let m = m\<lparr>mp_inner := w\<rparr> in
              if pr_resource_reservation_id r = Some (rv_id reservation)
              then (Ok r, m\<lparr>mp_owned_reservations :=
                record_owned_reservation (pr_scope r) (pr_process_id r) (rv_id reservation) (mp_owned_reservations m)\<rparr>)
              else let (e, g) = settle_after_error (release_reservation G (rv_id reservation))
                     (ResourceReservationMismatch (pr_process_id r) (rv_id reservation) (pr_resource_reservation_id r)) (mp_governor m) in
                (Err e, m\<lparr>mp_governor := g\<rparr>))
         | (Err e, w) \<Rightarrow>
             (let m = m\<lparr>mp_inner := w\<rparr>; (e, g) = settle_after_error (release_reservation G (rv_id reservation)) e (mp_governor m) in
              (Err e, m\<lparr>mp_governor := g\<rparr>)))))"

text \<open>The common shape of \<^verbatim>\<open>complete\<close>, \<^verbatim>\<open>fail\<close> and \<^verbatim>\<open>kill\<close>: the transition of the inner store and what becomes of the
  reservation are arguments.\<close>

definition managed_finish ::
    "'w process_store \<Rightarrow> (resource_reservation_id \<Rightarrow> 'g \<Rightarrow> (resource_error + unit) \<times> 'g)
      \<Rightarrow> ('w \<Rightarrow> (process_error + process_record) \<times> 'w) \<Rightarrow> resource_scope \<Rightarrow> process_id \<Rightarrow> ('w, 'g) managed_processes
      \<Rightarrow> (process_error + process_record) \<times> ('w, 'g) managed_processes" where
  "managed_finish S settle transition scope i m =
    (case ps_get S scope i (mp_inner m) of
       (Err e, w) \<Rightarrow> (Err e, m\<lparr>mp_inner := w\<rparr>)
     | (Ok None, w) \<Rightarrow> (Err (UnknownProcess i), m\<lparr>mp_inner := w\<rparr>)
     | (Ok (Some cur), w) \<Rightarrow>
    (case take_owned_reservation scope i (pr_resource_reservation_id cur) (mp_owned_reservations m) of
       (Err e, owned) \<Rightarrow> (Err e, m\<lparr>mp_inner := w, mp_owned_reservations := owned\<rparr>)
     | (Ok reservation, owned) \<Rightarrow>
    (case transition w of
       (Err e, w) \<Rightarrow> (Err e, m\<lparr>mp_inner := w, mp_owned_reservations := record_owned_reservation scope i reservation owned\<rparr>)
     | (Ok r, w) \<Rightarrow>
        (let m = m\<lparr>mp_inner := w, mp_owned_reservations := owned\<rparr> in
         if pr_resource_reservation_id r \<noteq> Some reservation
         then let (e, g) = settle_after_error (settle reservation)
                (ResourceReservationMismatch (pr_process_id r) reservation (pr_resource_reservation_id r)) (mp_governor m) in
           (Err e, m\<lparr>mp_governor := g\<rparr>)
         else (case settle reservation (mp_governor m) of
             (Err e, g) \<Rightarrow> (Err (ProcessResource e), m\<lparr>mp_governor := g\<rparr>)
           | (Ok _, g) \<Rightarrow> (Ok r, m\<lparr>mp_governor := g\<rparr>))))))"

definition managed_process_store ::
    "'w process_store \<Rightarrow> 'g resource_governor \<Rightarrow> resource_usage \<Rightarrow> ('w, 'g) managed_processes process_store" where
  "managed_process_store S G completion_usage = \<lparr>
     ps_start = managed_start S G,
     ps_complete = (\<lambda>scope i. managed_finish S (reconcile_reservation G completion_usage) (ps_complete S scope i) scope i),
     ps_fail = (\<lambda>scope i kind. managed_finish S (release_reservation G) (ps_fail S scope i kind) scope i),
     ps_kill = (\<lambda>scope i. managed_finish S (release_reservation G) (ps_kill S scope i) scope i),
     ps_get = (\<lambda>scope i m. case ps_get S scope i (mp_inner m) of (x, w) \<Rightarrow> (x, m\<lparr>mp_inner := w\<rparr>)),
     ps_records_for_scope = (\<lambda>scope m. case ps_records_for_scope S scope (mp_inner m) of (x, w) \<Rightarrow> (x, m\<lparr>mp_inner := w\<rparr>))\<rparr>"

end
