(* ===== verification/Process_Host.thy ===== *)
theory Process_Host
  imports Process_Store
begin

text \<open>
  Running and watching processes, \<^verbatim>\<open>ironclaw_processes/src/{cancellation,host,services}.rs\<close>: cancellation tokens and
  their registry, the host that reads, kills, awaits and subscribes, and the manager that starts a
  process and records how its executor ended. The executor, which runs the process, is not code of
  this crate: its outcome is an argument. The wake-up of tasks that wait on a token is left to the
  runtime library; a waiter is released once its flag is set.
\<close>

section \<open>Cancellation (cancellation.rs)\<close>

text \<open>A token is a shared flag, named by a number; clones share the flag.\<close>

type_synonym cancellation_token = nat

record cancellation_registry =
  cr_tokens :: "(process_key, cancellation_token) hmap"
  cr_cancelled :: "cancellation_token list"
  cr_next_token :: cancellation_token

definition cancellation_registry_new :: cancellation_registry where
  "cancellation_registry_new = \<lparr>cr_tokens = [], cr_cancelled = [], cr_next_token = 0\<rparr>"

definition token_new :: "cancellation_registry \<Rightarrow> cancellation_token \<times> cancellation_registry" where
  "token_new c = (cr_next_token c, c\<lparr>cr_next_token := Suc (cr_next_token c)\<rparr>)"

definition token_is_cancelled :: "cancellation_token \<Rightarrow> cancellation_registry \<Rightarrow> bool" where
  "token_is_cancelled t c = (t \<in> set (cr_cancelled c))"

definition token_cancel :: "cancellation_token \<Rightarrow> cancellation_registry \<Rightarrow> cancellation_registry" where
  "token_cancel t c = (if token_is_cancelled t c then c else c\<lparr>cr_cancelled := t # cr_cancelled c\<rparr>)"

definition cancellation_register ::
    "resource_scope \<Rightarrow> process_id \<Rightarrow> cancellation_registry \<Rightarrow> cancellation_token \<times> cancellation_registry" where
  "cancellation_register scope i c =
    (let (t, c) = token_new c in (t, c\<lparr>cr_tokens := hm_insert (process_key_new scope i) t (cr_tokens c)\<rparr>))"

definition registry_cancel :: "resource_scope \<Rightarrow> process_id \<Rightarrow> cancellation_registry \<Rightarrow> bool \<times> cancellation_registry" where
  "registry_cancel scope i c =
    (let key = process_key_new scope i; token = hm_get (cr_tokens c) key;
         c = c\<lparr>cr_tokens := hm_remove key (cr_tokens c)\<rparr> in
     case token of Some t \<Rightarrow> (True, token_cancel t c) | None \<Rightarrow> (False, c))"

definition registry_unregister :: "resource_scope \<Rightarrow> process_id \<Rightarrow> cancellation_registry \<Rightarrow> cancellation_registry" where
  "registry_unregister scope i c = c\<lparr>cr_tokens := hm_remove (process_key_new scope i) (cr_tokens c)\<rparr>"

section \<open>The host (host.rs)\<close>

text \<open>The state a host works on: of the process store, of the result store and of the registry. The two latter are
  optional parts of a host.\<close>

record ('w, 'r) process_world =
  pw_store :: 'w
  pw_results :: 'r
  pw_registry :: cancellation_registry

record ('w, 'r) process_host =
  ph_store :: "'w process_store"
  ph_with_cancellation_registry :: bool
  ph_result_store :: "'r process_result_store option"

definition host_status ::
    "('w, 'r) process_host \<Rightarrow> resource_scope \<Rightarrow> process_id \<Rightarrow> ('w, 'r) process_world
      \<Rightarrow> (process_error + process_record option) \<times> ('w, 'r) process_world" where
  "host_status h scope i w = (case ps_get (ph_store h) scope i (pw_store w) of (x, s) \<Rightarrow> (x, w\<lparr>pw_store := s\<rparr>))"

definition record_kill_side_effects ::
    "('w, 'r) process_host \<Rightarrow> process_record \<Rightarrow> ('w, 'r) process_world \<Rightarrow> (process_error + unit) \<times> ('w, 'r) process_world" where
  "record_kill_side_effects h r w =
    (let w = (if ph_with_cancellation_registry h
              then w\<lparr>pw_registry := snd (registry_cancel (pr_scope r) (pr_process_id r) (pw_registry w))\<rparr> else w) in
     case ph_result_store h of
       None \<Rightarrow> (Ok (), w)
     | Some R \<Rightarrow>
        (case prs_kill R (pr_scope r) (pr_process_id r) (pw_results w) of
           (Err e, rs) \<Rightarrow> (Err e, w\<lparr>pw_results := rs\<rparr>)
         | (Ok _, rs) \<Rightarrow> (Ok (), w\<lparr>pw_results := rs\<rparr>)))"

definition host_kill ::
    "('w, 'r) process_host \<Rightarrow> resource_scope \<Rightarrow> process_id \<Rightarrow> ('w, 'r) process_world
      \<Rightarrow> (process_error + process_record) \<times> ('w, 'r) process_world" where
  "host_kill h scope i w =
    (case ps_kill (ph_store h) scope i (pw_store w) of
       (Ok r, s) \<Rightarrow>
         (case record_kill_side_effects h r (w\<lparr>pw_store := s\<rparr>) of (Err e, w) \<Rightarrow> (Err e, w) | (Ok _, w) \<Rightarrow> (Ok r, w))
     | (Err error, s) \<Rightarrow>
         (case ps_get (ph_store h) scope i s of
            (Ok (Some r), s) \<Rightarrow>
              if pr_status r = PsKilled
              then (case record_kill_side_effects h r (w\<lparr>pw_store := s\<rparr>) of
                      (Err e, w) \<Rightarrow> (Err e, w)
                    | (Ok _, w) \<Rightarrow>
                        (case error of ProcessInvalidTransition _ _ _ \<Rightarrow> (Ok r, w) | _ \<Rightarrow> (Err error, w)))
              else (Err error, w\<lparr>pw_store := s\<rparr>)
          | (_, s) \<Rightarrow> (Err error, w\<lparr>pw_store := s\<rparr>)))"

definition host_result ::
    "('w, 'r) process_host \<Rightarrow> resource_scope \<Rightarrow> process_id \<Rightarrow> ('w, 'r) process_world
      \<Rightarrow> (process_error + process_result_record option) \<times> ('w, 'r) process_world" where
  "host_result h scope i w =
    (case ph_result_store h of
       None \<Rightarrow> (Err ProcessResultStoreUnavailable, w)
     | Some R \<Rightarrow> (case prs_get R scope i (pw_results w) of (x, rs) \<Rightarrow> (x, w\<lparr>pw_results := rs\<rparr>)))"

definition host_output ::
    "('w, 'r) process_host \<Rightarrow> resource_scope \<Rightarrow> process_id \<Rightarrow> ('w, 'r) process_world
      \<Rightarrow> (process_error + json option) \<times> ('w, 'r) process_world" where
  "host_output h scope i w =
    (case ph_result_store h of
       None \<Rightarrow> (Err ProcessResultStoreUnavailable, w)
     | Some R \<Rightarrow> (case result_store_output R scope i (pw_results w) of (x, rs) \<Rightarrow> (x, w\<lparr>pw_results := rs\<rparr>)))"

text \<open>Polling loops. Between two polls the world moves on: a poll sees the state of its moment, first the one
  for the result and then the one for the record. None means that the loop never returns.\<close>

partial_function (option) await_result ::
    "('w, 'r) process_host \<Rightarrow> resource_scope \<Rightarrow> process_id \<Rightarrow> (nat \<Rightarrow> ('w, 'r) process_world \<times> ('w, 'r) process_world) \<Rightarrow> bool \<Rightarrow> nat
      \<Rightarrow> (process_error + process_result_record) option" where
  "await_result h scope i moment terminal_without_result_seen poll =
    (case fst (host_result h scope i (fst (moment poll))) of
       Err e \<Rightarrow> Some (Err e)
     | Ok (Some result) \<Rightarrow> Some (Ok result)
     | Ok None \<Rightarrow>
    (case fst (host_status h scope i (snd (moment poll))) of
       Err e \<Rightarrow> Some (Err e)
     | Ok None \<Rightarrow> Some (Err (UnknownProcess i))
     | Ok (Some r) \<Rightarrow>
        if process_is_terminal (pr_status r)
        then (if ph_result_store h = None \<or> terminal_without_result_seen then Some (Err (ProcessResultUnavailable i))
              else await_result h scope i moment True (Suc poll))
        else await_result h scope i moment False (Suc poll)))"

partial_function (option) await_process ::
    "('w, 'r) process_host \<Rightarrow> resource_scope \<Rightarrow> process_id \<Rightarrow> (nat \<Rightarrow> ('w, 'r) process_world) \<Rightarrow> nat
      \<Rightarrow> (process_error + process_exit) option" where
  "await_process h scope i moment poll =
    (case fst (host_status h scope i (moment poll)) of
       Err e \<Rightarrow> Some (Err e)
     | Ok None \<Rightarrow> Some (Err (UnknownProcess i))
     | Ok (Some r) \<Rightarrow>
        if process_is_terminal (pr_status r) then Some (Ok (from_terminal r))
        else await_process h scope i moment (Suc poll))"

record process_subscription =
  psb_scope :: resource_scope
  psb_process_id :: process_id
  psb_last_status :: "process_status option"
  psb_pending_initial :: "process_record option"
  psb_finished :: bool

definition host_subscribe ::
    "('w, 'r) process_host \<Rightarrow> resource_scope \<Rightarrow> process_id \<Rightarrow> ('w, 'r) process_world \<Rightarrow> process_error + process_subscription" where
  "host_subscribe h scope i w =
    (case fst (host_status h scope i w) of
       Err e \<Rightarrow> Err e
     | Ok None \<Rightarrow> Err (UnknownProcess i)
     | Ok (Some r) \<Rightarrow> Ok \<lparr>psb_scope = scope, psb_process_id = i, psb_last_status = Some (pr_status r),
         psb_pending_initial = Some r, psb_finished = False\<rparr>)"

partial_function (option) next_change ::
    "('w, 'r) process_host \<Rightarrow> process_subscription \<Rightarrow> (nat \<Rightarrow> ('w, 'r) process_world) \<Rightarrow> nat
      \<Rightarrow> ((process_error + process_record option) \<times> process_subscription) option" where
  "next_change h sub moment poll =
    (case fst (host_status h (psb_scope sub) (psb_process_id sub) (moment poll)) of
       Err e \<Rightarrow> Some (Err e, sub)
     | Ok None \<Rightarrow> Some (Err (UnknownProcess (psb_process_id sub)), sub)
     | Ok (Some r) \<Rightarrow>
        if Some (pr_status r) \<noteq> psb_last_status sub
        then Some (Ok (Some r), sub\<lparr>psb_last_status := Some (pr_status r),
               psb_finished := (process_is_terminal (pr_status r) \<or> psb_finished sub)\<rparr>)
        else next_change h sub moment (Suc poll))"

definition subscription_next ::
    "('w, 'r) process_host \<Rightarrow> process_subscription \<Rightarrow> (nat \<Rightarrow> ('w, 'r) process_world) \<Rightarrow> nat
      \<Rightarrow> ((process_error + process_record option) \<times> process_subscription) option" where
  "subscription_next h sub moment poll =
    (case psb_pending_initial sub of
       Some r \<Rightarrow> Some (Ok (Some r), sub\<lparr>psb_pending_initial := None,
           psb_finished := (process_is_terminal (pr_status r) \<or> psb_finished sub)\<rparr>)
     | None \<Rightarrow> if psb_finished sub then Some (Ok None, sub) else next_change h sub moment poll)"

section \<open>The background manager (services.rs)\<close>

text \<open>The parts of a manager, next to the executor and the error handler.\<close>

record ('w, 'r) background_process_manager =
  bm_store :: "'w process_store"
  bm_with_cancellation_registry :: bool
  bm_result_store :: "'r process_result_store option"

record process_execution_request =
  per_process_id :: process_id
  per_invocation_id :: invocation_id
  per_scope :: resource_scope
  per_extension_id :: extension_id
  per_capability_id :: capability_id
  per_runtime :: runtime_kind
  per_estimate :: resource_estimate
  per_mounts :: mount_view
  per_resource_reservation :: "resource_reservation option"
  per_input :: json
  per_cancellation :: cancellation_token

datatype background_failure_stage =
    StoreLookup | StoreComplete | StoreFail | ResultStoreComplete | ResultStoreFail

text \<open>What the error handler is told, for the scope and id of the task.\<close>

type_synonym background_failure = "background_failure_stage \<times> process_error"

text \<open>How the executor ends: with an output, with an error kind, or by a panic.\<close>

datatype execution_outcome = ExecutedOk json | ExecutedErr string | ExecutorPanicked

definition execution_request :: "process_record \<Rightarrow> json \<Rightarrow> cancellation_token \<Rightarrow> process_execution_request" where
  "execution_request r input token =
    \<lparr>per_process_id = pr_process_id r, per_invocation_id = pr_invocation_id r, per_scope = pr_scope r,
     per_extension_id = pr_extension_id r, per_capability_id = pr_capability_id r, per_runtime = pr_runtime r,
     per_estimate = pr_estimated_resources r, per_mounts = pr_mounts r,
     per_resource_reservation = map_option (\<lambda>i. \<lparr>rv_id = i, rv_scope = pr_scope r, rv_estimate = pr_estimated_resources r\<rparr>)
       (pr_resource_reservation_id r),
     per_input = input, per_cancellation = token\<rparr>"

text \<open>\<^verbatim>\<open>spawn\<close>: the record of the started process and the request the detached task runs.\<close>

definition manager_spawn ::
    "('w, 'r) background_process_manager \<Rightarrow> process_start \<Rightarrow> ('w, 'r) process_world
      \<Rightarrow> (process_error + process_record \<times> process_execution_request) \<times> ('w, 'r) process_world" where
  "manager_spawn b start w =
    (case ps_start (bm_store b) start (pw_store w) of
       (Err e, s) \<Rightarrow> (Err e, w\<lparr>pw_store := s\<rparr>)
     | (Ok r, s) \<Rightarrow>
        (let (token, c) = (if bm_with_cancellation_registry b then cancellation_register (pr_scope r) (pr_process_id r) (pw_registry w)
                           else token_new (pw_registry w)) in
         (Ok (r, execution_request r (pst_input start) token), w\<lparr>pw_store := s, pw_registry := c\<rparr>)))"

text \<open>The detached task once the executor has ended: the probe of the status, the write of the result, the write
  of the status and the removal of the token, each with what it reports.\<close>

definition task_probe ::
    "'w process_store \<Rightarrow> resource_scope \<Rightarrow> process_id \<Rightarrow> 'w \<Rightarrow> bool \<times> background_failure list \<times> 'w" where
  "task_probe S scope i s =
    (case ps_get S scope i s of
       (Ok (Some r), s) \<Rightarrow> (pr_status r = PsRunning, [], s)
     | (Ok None, s) \<Rightarrow> (False, [], s)
     | (Err e, s) \<Rightarrow> (False, [(StoreLookup, e)], s))"

definition panic_kind :: string where "panic_kind = ''runtime_panic''"

definition task_write_result ::
    "'r process_result_store option \<Rightarrow> execution_outcome \<Rightarrow> resource_scope \<Rightarrow> process_id \<Rightarrow> 'r
      \<Rightarrow> bool \<times> background_failure list \<times> 'r" where
  "task_write_result R outcome scope i rs =
    (case R of
       None \<Rightarrow> (True, [], rs)
     | Some R \<Rightarrow>
        (case outcome of
           ExecutedOk out \<Rightarrow>
             (case prs_complete R scope i out rs of (Ok _, rs) \<Rightarrow> (True, [], rs) | (Err e, rs) \<Rightarrow> (False, [(ResultStoreComplete, e)], rs))
         | ExecutedErr kind \<Rightarrow>
             (case prs_fail R scope i (sanitize_error_kind kind) rs of
                (Ok _, rs) \<Rightarrow> (True, [], rs) | (Err e, rs) \<Rightarrow> (False, [(ResultStoreFail, e)], rs))
         | ExecutorPanicked \<Rightarrow>
             (case prs_fail R scope i panic_kind rs of
                (Ok _, rs) \<Rightarrow> (True, [], rs) | (Err e, rs) \<Rightarrow> (False, [(ResultStoreFail, e)], rs))))"

definition task_write_status ::
    "'w process_store \<Rightarrow> execution_outcome \<Rightarrow> resource_scope \<Rightarrow> process_id \<Rightarrow> 'w \<Rightarrow> background_failure list \<times> 'w" where
  "task_write_status S outcome scope i s =
    (case outcome of
       ExecutedOk _ \<Rightarrow>
         (case ps_complete S scope i s of (Ok _, s) \<Rightarrow> ([], s) | (Err e, s) \<Rightarrow> ([(StoreComplete, e)], s))
     | ExecutedErr kind \<Rightarrow>
         (case ps_fail S scope i (sanitize_error_kind kind) s of (Ok _, s) \<Rightarrow> ([], s) | (Err e, s) \<Rightarrow> ([(StoreFail, e)], s))
     | ExecutorPanicked \<Rightarrow>
         (case ps_fail S scope i panic_kind s of (Ok _, s) \<Rightarrow> ([], s) | (Err e, s) \<Rightarrow> ([(StoreFail, e)], s)))"

text \<open>The task without interruption.\<close>

definition background_task ::
    "('w, 'r) background_process_manager \<Rightarrow> execution_outcome \<Rightarrow> resource_scope \<Rightarrow> process_id \<Rightarrow> ('w, 'r) process_world
      \<Rightarrow> background_failure list \<times> ('w, 'r) process_world" where
  "background_task b outcome scope i w =
    (let (running, lookup, s) = task_probe (bm_store b) scope i (pw_store w);
         w = w\<lparr>pw_store := s\<rparr>;
         (reports, w) =
           (if \<not> running then ([], w)
            else let (persisted, failed, rs) = task_write_result (bm_result_store b) outcome scope i (pw_results w);
                     w = w\<lparr>pw_results := rs\<rparr> in
              if \<not> persisted then (failed, w)
              else let (failures, s) = task_write_status (bm_store b) outcome scope i (pw_store w) in
                (failed @ failures, w\<lparr>pw_store := s\<rparr>)) in
     (lookup @ reports,
      if bm_with_cancellation_registry b then w\<lparr>pw_registry := registry_unregister scope i (pw_registry w)\<rparr> else w))"

text \<open>\<^verbatim>\<open>ProcessServices::host\<close> and \<^verbatim>\<open>background_manager\<close> share the stores and the registry.\<close>

definition services_host :: "'w process_store \<Rightarrow> 'r process_result_store \<Rightarrow> ('w, 'r) process_host" where
  "services_host S R = \<lparr>ph_store = S, ph_with_cancellation_registry = True, ph_result_store = Some R\<rparr>"

definition services_manager :: "'w process_store \<Rightarrow> 'r process_result_store \<Rightarrow> ('w, 'r) background_process_manager" where
  "services_manager S R = \<lparr>bm_store = S, bm_with_cancellation_registry = True, bm_result_store = Some R\<rparr>"

text \<open>\<^verbatim>\<open>ProcessServices::in_memory\<close> with an empty world.\<close>

definition services_in_memory :: "(process_map, result_map) process_world" where
  "services_in_memory = \<lparr>pw_store = [], pw_results = [], pw_registry = cancellation_registry_new\<rparr>"

end
