(* ===== verification/Process_Guarantees.thy ===== *)
theory Process_Guarantees
  imports Process_Host Governor_Guarantees
begin

text \<open>
  Guarantees of process stores: whatever decorators a store is wrapped in, a process ends at most once and
  an ended process keeps its record; and the resource-managed store holds a reservation exactly
  while a process runs.
\<close>

section \<open>The contract of a process store\<close>

text \<open>A transition of the records: nothing, or the running record of the key ends.\<close>

definition process_moves ::
    "process_key \<Rightarrow> process_status \<Rightarrow> (process_key \<rightharpoonup> process_record) \<Rightarrow> (process_key \<rightharpoonup> process_record) \<Rightarrow> bool" where
  "process_moves k to f f' \<longleftrightarrow> f' = f
    \<or> (\<exists>r kind. f k = Some r \<and> pr_status r = PsRunning \<and> f' = f(k \<mapsto> r\<lparr>pr_status := to, pr_error_kind := kind\<rparr>))"

definition ends_as ::
    "process_key \<Rightarrow> process_status \<Rightarrow> process_error + process_record \<Rightarrow> (process_key \<rightharpoonup> process_record)
      \<Rightarrow> (process_key \<rightharpoonup> process_record) \<Rightarrow> bool" where
  "ends_as k to x f f' \<longleftrightarrow> process_moves k to f f'
    \<and> (\<forall>r. x = Ok r \<longrightarrow> f' k = Some r \<and> pr_status r = to \<and> (\<exists>r'. f k = Some r' \<and> pr_status r' = PsRunning))"

definition starts_as ::
    "process_key \<Rightarrow> process_error + process_record \<Rightarrow> (process_key \<rightharpoonup> process_record) \<Rightarrow> (process_key \<rightharpoonup> process_record) \<Rightarrow> bool" where
  "starts_as k x f f' \<longleftrightarrow> (f' = f \<and> \<not> is_ok x) \<or> (\<exists>r. f k = None \<and> pr_status r = PsRunning \<and> f' = f(k \<mapsto> r))"

text \<open>The store of a moment, that is with the clock and the ids of that moment, and the records in its state.\<close>

locale process_lifecycle =
  fixes S :: "'t \<Rightarrow> 'w process_store" and view :: "'w \<Rightarrow> process_key \<rightharpoonup> process_record"
  assumes get_view: "ps_get (S t) scope i w = (Ok (view w (process_key_new scope i)), w)"
    and start_view: "ps_start (S t) s w = (x, w') \<Longrightarrow>
      starts_as (process_key_new (pst_scope s) (pst_process_id s)) x (view w) (view w')"
    and complete_view: "ps_complete (S t) scope i w = (x, w') \<Longrightarrow>
      ends_as (process_key_new scope i) PsCompleted x (view w) (view w')"
    and fail_view: "ps_fail (S t) scope i kind w = (x, w') \<Longrightarrow>
      ends_as (process_key_new scope i) PsFailed x (view w) (view w')"
    and kill_view: "ps_kill (S t) scope i w = (x, w') \<Longrightarrow>
      ends_as (process_key_new scope i) PsKilled x (view w) (view w')"

datatype process_op =
    POpStart process_start
  | POpComplete resource_scope process_id
  | POpFail resource_scope process_id string
  | POpKill resource_scope process_id

fun process_step :: "'w process_store \<Rightarrow> process_op \<Rightarrow> 'w \<Rightarrow> (process_error + process_record) \<times> 'w" where
  "process_step S (POpStart s) w = ps_start S s w"
| "process_step S (POpComplete scope i) w = ps_complete S scope i w"
| "process_step S (POpFail scope i kind) w = ps_fail S scope i kind w"
| "process_step S (POpKill scope i) w = ps_kill S scope i w"

fun ends_key :: "process_key \<Rightarrow> process_op \<Rightarrow> bool" where
  "ends_key k (POpStart s) = False"
| "ends_key k (POpComplete scope i) = (process_key_new scope i = k)"
| "ends_key k (POpFail scope i kind) = (process_key_new scope i = k)"
| "ends_key k (POpKill scope i) = (process_key_new scope i = k)"

text \<open>The state after a history of operations, each at its moment, and how often it ended the process of a key.\<close>

fun process_history :: "('t \<Rightarrow> 'w process_store) \<Rightarrow> ('t \<times> process_op) list \<Rightarrow> 'w \<Rightarrow> 'w" where
  "process_history S [] w = w"
| "process_history S ((t, op) # ops) w = process_history S ops (snd (process_step (S t) op w))"

fun times_ended :: "('t \<Rightarrow> 'w process_store) \<Rightarrow> process_key \<Rightarrow> ('t \<times> process_op) list \<Rightarrow> 'w \<Rightarrow> nat" where
  "times_ended S k [] w = 0"
| "times_ended S k ((t, op) # ops) w =
    (case process_step (S t) op w of
       (x, w') \<Rightarrow> (if ends_key k op \<and> is_ok x then 1 else 0) + times_ended S k ops w')"

lemma ends_as_final:
  assumes "ends_as k' to x f f'" "f k = Some r" "process_is_terminal (pr_status r)"
  shows "f' k = Some r" "k = k' \<Longrightarrow> \<not> is_ok x"
  using assms by (cases x; auto simp: ends_as_def process_moves_def process_is_terminal_def)+

lemma ends_as_Ok:
  assumes "ends_as k to (Ok r) f f'" "to \<noteq> PsRunning"
  shows "f' k = Some r" "process_is_terminal (pr_status r)"
  using assms by (auto simp: ends_as_def process_is_terminal_def)

lemma starts_as_final: "starts_as k' x f f' \<Longrightarrow> f k = Some r \<Longrightarrow> f' k = Some r"
  by (auto simp: starts_as_def)

context process_lifecycle
begin

lemma step_view:
  assumes "process_step (S t) op w = (x, w')"
  obtains (started) k' where "starts_as k' x (view w) (view w')" "\<And>k. \<not> ends_key k op"
  | (ended) k' to where "to \<noteq> PsRunning" "ends_as k' to x (view w) (view w')" "\<And>k. ends_key k op = (k = k')"
proof (cases op)
  case (POpStart s)
  then show thesis using assms by (intro started [OF start_view [of t s w x w']]) auto
next
  case (POpComplete scope i)
  then show thesis using assms by (intro ended [OF _ complete_view [of t scope i w x w']]) auto
next
  case (POpFail scope i kind)
  then show thesis using assms by (intro ended [OF _ fail_view [of t scope i kind w x w']]) auto
next
  case (POpKill scope i)
  then show thesis using assms by (intro ended [OF _ kill_view [of t scope i w x w']]) auto
qed

lemma step_final:
  assumes "process_step (S t) op w = (x, w')" "view w k = Some r" "process_is_terminal (pr_status r)"
  shows "view w' k = Some r" "ends_key k op \<Longrightarrow> \<not> is_ok x"
proof -
  have "view w' k = Some r \<and> (ends_key k op \<longrightarrow> \<not> is_ok x)"
    using assms(1)
  proof (rule step_view)
    fix k' to assume "ends_as k' to x (view w) (view w')" "\<And>k. ends_key k op = (k = k')"
    then show ?thesis using ends_as_final [where f = "view w" and k = k and r = r] assms(2,3) by blast
  next
    fix k' assume "starts_as k' x (view w) (view w')" "\<And>k. \<not> ends_key k op"
    then show ?thesis using starts_as_final [where f = "view w" and k = k and r = r] assms(2) by blast
  qed
  then show "view w' k = Some r" "ends_key k op \<Longrightarrow> \<not> is_ok x" by blast+
qed

lemma step_ends:
  assumes "process_step (S t) op w = (x, w')" "ends_key k op" "is_ok x"
  shows "\<exists>r. view w' k = Some r \<and> process_is_terminal (pr_status r)"
proof -
  obtain r where x: "x = Ok r" using assms(3) by (cases x) auto
  from assms(1) show ?thesis
  proof (rule step_view)
    fix k' to assume "to \<noteq> PsRunning" "ends_as k' to x (view w) (view w')" "\<And>k. ends_key k op = (k = k')"
    then show ?thesis using assms(2) x ends_as_Ok by metis
  qed (use assms(2) in blast)
qed

lemma history_final:
  "view w k = Some r \<Longrightarrow> process_is_terminal (pr_status r) \<Longrightarrow> view (process_history S ops w) k = Some r"
proof (induction ops arbitrary: w)
  case (Cons top ops)
  obtain t op where top: "top = (t, op)" by fastforce
  obtain x w' where step: "process_step (S t) op w = (x, w')" by fastforce
  show ?case using Cons.IH [OF step_final(1) [OF step Cons.prems] Cons.prems(2)] top step by simp
qed simp

lemma ended_never_again:
  "view w k = Some r \<Longrightarrow> process_is_terminal (pr_status r) \<Longrightarrow> times_ended S k ops w = 0"
proof (induction ops arbitrary: w)
  case (Cons top ops)
  obtain t op where top: "top = (t, op)" by fastforce
  obtain x w' where step: "process_step (S t) op w = (x, w')" by fastforce
  have "view w' k = Some r" "ends_key k op \<Longrightarrow> \<not> is_ok x"
    using step_final [OF step Cons.prems] by (auto split: sum.splits)
  then show ?case using Cons step top by auto
qed simp

lemma ends_at_most_once: "times_ended S k ops w \<le> 1"
proof (induction ops arbitrary: w)
  case (Cons top ops)
  obtain t op where top: "top = (t, op)" by fastforce
  obtain x w' where step: "process_step (S t) op w = (x, w')" by fastforce
  show ?case
  proof (cases "ends_key k op \<and> is_ok x")
    case True
    then obtain r where "view w' k = Some r" "process_is_terminal (pr_status r)" using step_ends [OF step] by blast
    then show ?thesis using True top step ended_never_again by simp
  next
    case False
    then show ?thesis using Cons [of w'] top step by auto
  qed
qed simp

end

section \<open>The stores keep the contract\<close>

lemma process_record_of_simps [simp]:
  "pr_status (process_record_of s) = PsRunning" "pr_scope (process_record_of s) = pst_scope s"
  "pr_process_id (process_record_of s) = pst_process_id s"
  "pr_resource_reservation_id (process_record_of s) = pst_resource_reservation_id s"
  "pr_estimated_resources (process_record_of s) = pst_estimated_resources s"
  by (simp_all add: process_record_of_def)

lemma memory_process_store_sel [simp]:
  "ps_start memory_process_store = memory_process_start"
  "ps_complete memory_process_store scope i = process_update_status scope i PsCompleted None"
  "ps_fail memory_process_store scope i kind = process_update_status scope i PsFailed (Some (sanitize_error_kind kind))"
  "ps_kill memory_process_store scope i = process_update_status scope i PsKilled None"
  "ps_get memory_process_store scope i m = (Ok (hm_get m (process_key_new scope i)), m)"
  by (simp_all add: memory_process_store_def)

lemma managed_process_store_sel [simp]:
  "ps_start (managed_process_store S G usage) = managed_start S G"
  "ps_complete (managed_process_store S G usage) scope i =
     managed_finish S (reconcile_reservation G usage) (ps_complete S scope i) scope i"
  "ps_fail (managed_process_store S G usage) scope i kind = managed_finish S (release_reservation G) (ps_fail S scope i kind) scope i"
  "ps_kill (managed_process_store S G usage) scope i = managed_finish S (release_reservation G) (ps_kill S scope i) scope i"
  by (simp_all add: managed_process_store_def)

lemma memory_update_ends:
  "process_update_status scope i to kind m = (x, m') \<Longrightarrow> ends_as (process_key_new scope i) to x (hm_get m) (hm_get m')"
  by (force simp: process_update_status_def ensure_status_transition_def ends_as_def process_moves_def Let_def hm_get_insert_fun
    split: option.splits sum.splits if_splits)

interpretation memory_processes: process_lifecycle "\<lambda>_ :: unit. memory_process_store" hm_get
proof unfold_locales
  fix s :: process_start and w w' :: process_map and x
  assume "ps_start memory_process_store s w = (x, w')"
  then show "starts_as (process_key_new (pst_scope s) (pst_process_id s)) x (hm_get w) (hm_get w')"
    by (auto simp: memory_process_store_def memory_process_start_def starts_as_def hm_contains_key_def
      hm_get_insert_fun Let_def split: if_splits intro!: exI [of _ "process_record_of s"])
qed (auto simp: memory_process_store_def intro: memory_update_ends)

text \<open>The decorators keep it.\<close>

lemma emitting_inner:
  "emitting sink i now payload op we = (x, we') \<Longrightarrow> op (fst we) = (x, fst we')"
  by (cases we; cases "op (fst we)") (auto simp: emitting_def split: sum.splits)

lemma eventing_lifecycle:
  assumes "process_lifecycle S view"
  shows "process_lifecycle (\<lambda>(t, i, now). eventing_process_store sink i now (S t)) (\<lambda>w. view (fst w))"
proof unfold_locales
  fix tin :: "'a \<times> uuid \<times> timestamp" and scope i and w w' :: "'b \<times> 'c" and x kind s
  obtain t j now where tin: "tin = (t, j, now)" by (cases tin) auto
  let ?S = "(\<lambda>(t, i, now). eventing_process_store sink i now (S t)) tin"
  show "ps_get ?S scope i w = (Ok (view (fst w) (process_key_new scope i)), w)"
    by (cases w) (simp add: tin eventing_process_store_def process_lifecycle.get_view [OF assms])
  show "ps_start ?S s w = (x, w') \<Longrightarrow>
      starts_as (process_key_new (pst_scope s) (pst_process_id s)) x (view (fst w)) (view (fst w'))"
    by (auto simp: tin eventing_process_store_def dest!: emitting_inner intro: process_lifecycle.start_view [OF assms])
  show "ps_complete ?S scope i w = (x, w') \<Longrightarrow> ends_as (process_key_new scope i) PsCompleted x (view (fst w)) (view (fst w'))"
    by (auto simp: tin eventing_process_store_def dest!: emitting_inner intro: process_lifecycle.complete_view [OF assms])
  show "ps_fail ?S scope i kind w = (x, w') \<Longrightarrow> ends_as (process_key_new scope i) PsFailed x (view (fst w)) (view (fst w'))"
    by (auto simp: tin eventing_process_store_def dest!: emitting_inner intro: process_lifecycle.fail_view [OF assms])
  show "ps_kill ?S scope i w = (x, w') \<Longrightarrow> ends_as (process_key_new scope i) PsKilled x (view (fst w)) (view (fst w'))"
    by (auto simp: tin eventing_process_store_def dest!: emitting_inner intro: process_lifecycle.kill_view [OF assms])
qed

lemma managed_start_view:
  assumes "process_lifecycle S view" "managed_start (S t) G s m = (x, m')"
  shows "starts_as (process_key_new (pst_scope s) (pst_process_id s)) x (view (mp_inner m)) (view (mp_inner m'))"
proof -
  note inner = process_lifecycle.start_view [OF assms(1), where t = t]
  show ?thesis using assms(2)
    by (auto simp: managed_start_def Let_def starts_as_def split: option.splits sum.splits prod.splits if_splits
      dest!: inner)
qed

lemma managed_finish_view:
  assumes "process_lifecycle S view" "managed_finish (S t) cls transition scope i m = (x, m')"
    and inner: "\<And>w x w'. transition w = (x, w') \<Longrightarrow> ends_as (process_key_new scope i) to x (view w) (view w')"
  shows "ends_as (process_key_new scope i) to x (view (mp_inner m)) (view (mp_inner m'))"
proof -
  have weaken: "ends_as k to y f f' \<Longrightarrow> ends_as k to (Err e) f f'" for k y e f f'
    by (simp add: ends_as_def)
  have refl: "ends_as k to (Err e) f f" for k e f
    by (simp add: ends_as_def process_moves_def)
  show ?thesis using assms(2)
    by (auto simp: managed_finish_def process_lifecycle.get_view [OF assms(1)] Let_def refl
      split: option.splits sum.splits prod.splits if_splits dest!: inner intro: weaken)
qed

lemma managed_lifecycle:
  assumes "process_lifecycle S view"
  shows "process_lifecycle (\<lambda>(t, G). managed_process_store (S t) G usage) (\<lambda>m. view (mp_inner m))"
proof unfold_locales
  fix tG :: "'a \<times> 'c resource_governor" and scope i and w w' :: "('b, 'c) managed_processes" and x kind s
  obtain t G where tG: "tG = (t, G)" by fastforce
  note laws = process_lifecycle.complete_view [OF assms, where t = t] process_lifecycle.fail_view [OF assms, where t = t]
    process_lifecycle.kill_view [OF assms, where t = t]
  let ?S = "(\<lambda>(t, G). managed_process_store (S t) G usage) tG"
  show "ps_get ?S scope i w = (Ok (view (mp_inner w) (process_key_new scope i)), w)"
    by (simp add: tG managed_process_store_def process_lifecycle.get_view [OF assms])
  show "ps_start ?S s w = (x, w') \<Longrightarrow>
      starts_as (process_key_new (pst_scope s) (pst_process_id s)) x (view (mp_inner w)) (view (mp_inner w'))"
    by (auto simp: tG managed_process_store_def intro: managed_start_view [OF assms])
  show "ps_complete ?S scope i w = (x, w') \<Longrightarrow>
      ends_as (process_key_new scope i) PsCompleted x (view (mp_inner w)) (view (mp_inner w'))"
    "ps_fail ?S scope i kind w = (x, w') \<Longrightarrow>
      ends_as (process_key_new scope i) PsFailed x (view (mp_inner w)) (view (mp_inner w'))"
    "ps_kill ?S scope i w = (x, w') \<Longrightarrow>
      ends_as (process_key_new scope i) PsKilled x (view (mp_inner w)) (view (mp_inner w'))"
    by (auto simp: tG managed_process_store_def intro: managed_finish_view [OF assms] laws)
qed

text \<open>The stack of the production composition: events around reservations around the records. A moment is an event id,
  a time and the governor of that time.\<close>

definition process_stack ::
    "'e event_sink \<Rightarrow> resource_usage \<Rightarrow> (unit \<times> 'g resource_governor) \<times> uuid \<times> timestamp
      \<Rightarrow> ((process_map, 'g) managed_processes \<times> 'e) process_store" where
  "process_stack sink usage = (\<lambda>(t, i, now). eventing_process_store sink i now
     ((\<lambda>(_, G). managed_process_store memory_process_store G usage) t))"

interpretation stacked: process_lifecycle "process_stack sink usage" "\<lambda>w. hm_get (mp_inner (fst w))" for sink usage
  unfolding process_stack_def
  by (intro eventing_lifecycle managed_lifecycle memory_processes.process_lifecycle_axioms)

text \<open>C33. In the composed process store, with any governor and any event sink, and in any history of starts, completions,
  failures and kills, a process is ended at most once; and once it has ended, nothing changes its record
  any more, neither its status and error kind nor its identity, grants or reservation. The plain
  in-memory store keeps the same.\<close>

theorem process_ends_once:
  "times_ended (process_stack sink usage) k ops w \<le> 1
    \<and> (hm_get (mp_inner (fst w)) k = Some r \<and> process_is_terminal (pr_status r) \<longrightarrow>
        hm_get (mp_inner (fst (process_history (process_stack sink usage) ops w))) k = Some r)
    \<and> times_ended (\<lambda>_ :: unit. memory_process_store) k ops' m \<le> 1
    \<and> (hm_get m k = Some r \<and> process_is_terminal (pr_status r) \<longrightarrow>
        hm_get (process_history (\<lambda>_ :: unit. memory_process_store) ops' m) k = Some r)"
proof (intro conjI impI)
  show "times_ended (process_stack sink usage) k ops w \<le> 1" by (rule stacked.ends_at_most_once)
  show "times_ended (\<lambda>_ :: unit. memory_process_store) k ops' m \<le> 1" by (rule memory_processes.ends_at_most_once)
qed (auto intro: stacked.history_final memory_processes.history_final)

section \<open>Reservations\<close>

text \<open>The reservations a governor knows.\<close>

definition reservations_of :: "governor \<Rightarrow> resource_reservation_id \<rightharpoonup> reservation_record" where
  "reservations_of v = hm_get (gs_reservations (gov_state v))"

definition settled_as :: "process_status \<Rightarrow> reservation_status" where
  "settled_as s = (case s of PsRunning \<Rightarrow> RvActive | PsCompleted \<Rightarrow> RvReconciled | PsFailed \<Rightarrow> RvReleased | PsKilled \<Rightarrow> RvReleased)"

text \<open>The reservation of a process has the state its status asks for.\<close>

definition backed :: "(resource_reservation_id \<rightharpoonup> reservation_record) \<Rightarrow> process_record \<Rightarrow> bool" where
  "backed R r \<longleftrightarrow> (\<exists>i v. pr_resource_reservation_id r = Some i \<and> R i = Some v \<and> rrec_status v = settled_as (pr_status r)
     \<and> rrec_reservation v = \<lparr>rv_id = i, rv_scope = pr_scope r, rv_estimate = pr_estimated_resources r\<rparr>)"

text \<open>Records, reservations and ownership agree.\<close>

definition accounts_ok ::
    "(process_key \<rightharpoonup> process_record) \<Rightarrow> (resource_reservation_id \<rightharpoonup> reservation_record)
      \<Rightarrow> (process_key \<rightharpoonup> resource_reservation_id) \<Rightarrow> bool" where
  "accounts_ok f R own \<longleftrightarrow>
    (\<forall>k r. f k = Some r \<longrightarrow> backed R r)
    \<and> (\<forall>i v. R i = Some v \<longrightarrow> rrec_status v = RvActive \<longrightarrow> (\<exists>k r. f k = Some r \<and> pr_resource_reservation_id r = Some i))
    \<and> (\<forall>k k' r r'. f k = Some r \<longrightarrow> f k' = Some r' \<longrightarrow> pr_resource_reservation_id r = pr_resource_reservation_id r' \<longrightarrow> k = k')
    \<and> (\<forall>k i. own k = Some i \<longleftrightarrow> (\<exists>r. f k = Some r \<and> pr_status r = PsRunning \<and> pr_resource_reservation_id r = Some i))"

lemma accounts_okD:
  assumes "accounts_ok f R own" "f k = Some r"
  shows "backed R r" "f k' = Some r' \<Longrightarrow> pr_resource_reservation_id r' = pr_resource_reservation_id r \<Longrightarrow> k' = k"
    "own k = (if pr_status r = PsRunning then pr_resource_reservation_id r else None)"
proof -
  show b: "backed R r" using assms by (simp add: accounts_ok_def)
  show "f k' = Some r' \<Longrightarrow> pr_resource_reservation_id r' = pr_resource_reservation_id r \<Longrightarrow> k' = k"
    using assms unfolding accounts_ok_def by metis
  have "own k = Some i \<longleftrightarrow> pr_status r = PsRunning \<and> pr_resource_reservation_id r = Some i" for i
    using assms unfolding accounts_ok_def by simp
  then show "own k = (if pr_status r = PsRunning then pr_resource_reservation_id r else None)"
    by (metis option.exhaust)
qed

lemma backed_elsewhere: "backed R r \<Longrightarrow> pr_resource_reservation_id r \<noteq> Some i \<Longrightarrow> backed (R(i \<mapsto> v)) r"
  by (auto simp: backed_def)

lemma backed_known: "backed R r \<Longrightarrow> pr_resource_reservation_id r = Some i \<Longrightarrow> R i \<noteq> None"
  by (auto simp: backed_def)

lemma accounts_okI:
  assumes "\<And>k r. f k = Some r \<Longrightarrow> backed R r"
    "\<And>i v. R i = Some v \<Longrightarrow> rrec_status v = RvActive \<Longrightarrow> \<exists>k r. f k = Some r \<and> pr_resource_reservation_id r = Some i"
    "\<And>k k' r r'. f k = Some r \<Longrightarrow> f k' = Some r' \<Longrightarrow> pr_resource_reservation_id r = pr_resource_reservation_id r' \<Longrightarrow> k = k'"
    "\<And>k i. own k = Some i \<longleftrightarrow> (\<exists>r. f k = Some r \<and> pr_status r = PsRunning \<and> pr_resource_reservation_id r = Some i)"
  shows "accounts_ok f R own"
  unfolding accounts_ok_def using assms by blast

lemma accounts_active:
  "accounts_ok f R own \<Longrightarrow> R i = Some v \<Longrightarrow> rrec_status v = RvActive \<Longrightarrow> \<exists>k r. f k = Some r \<and> pr_resource_reservation_id r = Some i"
  by (simp add: accounts_ok_def)

lemma accounts_owned:
  "accounts_ok f R own \<Longrightarrow> own k = Some i \<longleftrightarrow> (\<exists>r. f k = Some r \<and> pr_status r = PsRunning \<and> pr_resource_reservation_id r = Some i)"
  by (simp add: accounts_ok_def)

lemma accounts_started:
  assumes ok: "accounts_ok f R own" and "f k = None" "R i = None" "pr_status r = PsRunning" "pr_resource_reservation_id r = Some i"
    "rrec_status v = RvActive" "rrec_reservation v = \<lparr>rv_id = i, rv_scope = pr_scope r, rv_estimate = pr_estimated_resources r\<rparr>"
  shows "accounts_ok (f(k \<mapsto> r)) (R(i \<mapsto> v)) (own(k \<mapsto> i))"
proof (rule accounts_okI)
  have new: "pr_resource_reservation_id r' \<noteq> Some i" if "f k' = Some r'" for k' r'
    using accounts_okD(1) [OF ok that] backed_known assms(3) by blast
  show "backed (R(i \<mapsto> v)) q" if "(f(k \<mapsto> r)) j = Some q" for j q
  proof (cases "j = k")
    case True
    then show ?thesis using that assms(4-7) by (auto simp: backed_def settled_as_def)
  next
    case False
    then show ?thesis using that new accounts_okD(1) [OF ok] backed_elsewhere by auto
  qed
  show "\<exists>k' r'. (f(k \<mapsto> r)) k' = Some r' \<and> pr_resource_reservation_id r' = Some j"
    if act: "(R(i \<mapsto> v)) j = Some u" "rrec_status u = RvActive" for j u
  proof (cases "j = i")
    case False
    then obtain k' r' where "f k' = Some r'" "pr_resource_reservation_id r' = Some j" using accounts_active [OF ok, of j u] act by auto
    moreover from this have "k' \<noteq> k" using assms(2) by auto
    ultimately show ?thesis by (intro exI [of _ k'] exI [of _ r']) simp
  qed (use assms(5) in auto)
  show "j = j'" if "(f(k \<mapsto> r)) j = Some q" "(f(k \<mapsto> r)) j' = Some q'"
      "pr_resource_reservation_id q = pr_resource_reservation_id q'" for j j' q q'
    using that new assms(5) accounts_okD(2) [OF ok] by (auto split: if_splits)
  show "(own(k \<mapsto> i)) j = Some u \<longleftrightarrow>
      (\<exists>q. (f(k \<mapsto> r)) j = Some q \<and> pr_status q = PsRunning \<and> pr_resource_reservation_id q = Some u)" for j u
    using accounts_owned [OF ok] assms(4,5) by auto
qed

lemma accounts_refused:
  assumes ok: "accounts_ok f R own" and "R i = None" "rrec_status v \<noteq> RvActive"
  shows "accounts_ok f (R(i \<mapsto> v)) own"
proof (rule accounts_okI)
  show "backed (R(i \<mapsto> v)) q" if "f j = Some q" for j q
    using accounts_okD(1) [OF ok that] backed_known [of R q i] backed_elsewhere assms(2) by blast
qed (use assms accounts_active [OF ok] accounts_okD(2) [OF ok] accounts_owned [OF ok] in \<open>auto split: if_splits\<close>)

lemma accounts_finished:
  assumes ok: "accounts_ok f R own" and "f k = Some r" "pr_status r = PsRunning" "pr_resource_reservation_id r = Some i"
    "R i = Some v" "to \<noteq> PsRunning" "rrec_status v' = settled_as to" "rrec_reservation v' = rrec_reservation v"
  shows "accounts_ok (f(k \<mapsto> r\<lparr>pr_status := to, pr_error_kind := kind\<rparr>)) (R(i \<mapsto> v')) (own(k := None))" (is "accounts_ok ?f ?R ?own")
proof (rule accounts_okI)
  have other: "pr_resource_reservation_id q \<noteq> Some i" if "f j = Some q" "j \<noteq> k" for j q
    using accounts_okD(2) [OF ok assms(2) that(1)] that(2) assms(4) by auto
  have inactive: "rrec_status v' \<noteq> RvActive" using assms(6,7) by (auto simp: settled_as_def split: process_status.splits)
  show "backed ?R q" if "?f j = Some q" for j q
  proof (cases "j = k")
    case True
    then show ?thesis using that assms(4,5,7,8) accounts_okD(1) [OF ok assms(2)] by (auto simp: backed_def)
  next
    case False
    then show ?thesis using that other accounts_okD(1) [OF ok] backed_elsewhere by auto
  qed
  show "\<exists>k' r'. ?f k' = Some r' \<and> pr_resource_reservation_id r' = Some j" if act: "?R j = Some u" "rrec_status u = RvActive" for j u
  proof -
    have "j \<noteq> i" using act inactive by auto
    then obtain k' r' where "f k' = Some r'" "pr_resource_reservation_id r' = Some j" using accounts_active [OF ok, of j u] act by auto
    then have "?f k' = Some (if k' = k then r\<lparr>pr_status := to, pr_error_kind := kind\<rparr> else r')"
      "pr_resource_reservation_id (if k' = k then r\<lparr>pr_status := to, pr_error_kind := kind\<rparr> else r') = Some j"
      using assms(2) by auto
    then show ?thesis by blast
  qed
  show "j = j'" if "?f j = Some q" "?f j' = Some q'" "pr_resource_reservation_id q = pr_resource_reservation_id q'" for j j' q q'
    using that other [of j q] other [of j' q'] assms(4) accounts_okD(2) [OF ok, of j' q' j q] by (auto split: if_splits)
  show "?own j = Some u \<longleftrightarrow> (\<exists>q. ?f j = Some q \<and> pr_status q = PsRunning \<and> pr_resource_reservation_id q = Some u)" for j u
    using accounts_owned [OF ok] assms(6) by auto
qed

text \<open>What the in-memory governor does to its reservations.\<close>

lemma governor_reserves:
  assumes "rg_reserve (memory_governor g now i) scope e v = (x, v')"
  obtains (refused) err where "x = Err err" "reservations_of v' = reservations_of v"
  | (reserved) rec where "x = Ok \<lparr>rv_id = i, rv_scope = scope, rv_estimate = e\<rparr>" "reservations_of v i = None"
      "reservations_of v' = (reservations_of v)(i \<mapsto> rec)" "rrec_status rec = RvActive"
      "rrec_reservation rec = \<lparr>rv_id = i, rv_scope = scope, rv_estimate = e\<rparr>"
proof (cases "reserve_with_outcome_in_state g scope e i now (gov_state v)")
  case (Pair y s)
  show thesis
  proof (cases y)
    case (Inl err)
    then have "s = gov_state v \<or> s = roll g now (cascade scope) (gov_state v)" using reserve_Err Pair by blast
    then have "gs_reservations s = gs_reservations (gov_state v)" by auto
    then show thesis using refused assms Pair Inl
      by (auto simp: memory_governor_def reserve_with_id_and_outcome_def reservations_of_def)
  next
    case (Inr out)
    note granted = reserve_granted [OF Pair [unfolded Inr]]
    then have "gs_reservations s = hm_insert i \<lparr>rrec_reservation = ro_reservation out, rrec_accounts = cascade scope,
        rrec_tally = from_estimate e, rrec_status = RvActive, rrec_actual = None\<rparr> (gs_reservations (gov_state v))"
      by (simp add: Let_def)
    then show thesis using reserved granted(1,3) assms Pair Inr
      by (auto simp: memory_governor_def reserve_with_id_and_outcome_def reservations_of_def hm_get_insert_fun)
  qed
qed

lemma governor_closes:
  assumes "reservations_of v i = Some rec" "rrec_status rec = RvActive" "\<And>u. used = Some u \<Longrightarrow> validate_usage u = Ok ()"
  shows "\<exists>v'. (case used of Some u \<Rightarrow> reconcile_reservation (memory_governor g now fresh) u i v
       | None \<Rightarrow> release_reservation (memory_governor g now fresh) i v) = (Ok (), v')
     \<and> reservations_of v' = (reservations_of v)(i \<mapsto> closed_record used rec)"
proof -
  obtain res s where op: "close_op g i used now (gov_state v) = (res, s)" by fastforce
  have ok: "is_ok res"
    using op assms by (auto simp: close_op_def reconcile_in_state_def release_in_state_def reservations_of_def Let_def
      split: option.splits)
  from op have R: "hm_get (gs_reservations s) = (reservations_of v)(i \<mapsto> closed_record used rec)"
  proof (cases rule: close_cases)
    case (closed r c m)
    then show ?thesis using assms(1) by (simp add: reservations_of_def)
  qed (use ok in simp)
  obtain c where "res = Ok c" using ok by (cases res) auto
  then show ?thesis using op R
    by (cases used) (simp_all add: close_op_def reconcile_reservation_def release_reservation_def memory_governor_def
      governor_reconcile_def governor_release_def reservations_of_def)
qed


text \<open>The store at a moment, with the in-memory governor.\<close>

definition managed_memory ::
    "governor_env \<Rightarrow> resource_usage \<Rightarrow> timestamp \<times> resource_reservation_id \<Rightarrow> (process_map, governor) managed_processes process_store" where
  "managed_memory g usage = (\<lambda>(now, fresh). managed_process_store memory_process_store (memory_governor g now fresh) usage)"

definition managed_ok :: "(process_map, governor) managed_processes \<Rightarrow> bool" where
  "managed_ok m = accounts_ok (hm_get (mp_inner m)) (reservations_of (mp_governor m)) (hm_get (mp_owned_reservations m))"

lemma managed_start_ok:
  assumes ok: "managed_ok m" and run: "managed_start memory_process_store (memory_governor g now i) s m = (x, m')"
  shows "managed_ok m'"
proof (cases "pst_resource_reservation_id s")
  case (Some j)
  then show ?thesis using run ok by (simp add: managed_start_def)
next
  case None
  obtain y v where res: "rg_reserve (memory_governor g now i) (pst_scope s) (pst_estimated_resources s) (mp_governor m) = (y, v)"
    by fastforce
  from res show ?thesis
  proof (cases rule: governor_reserves)
    case (refused err)
    then show ?thesis using run res None ok by (auto simp: managed_start_def managed_ok_def)
  next
    case (reserved rec)
    let ?s = "s\<lparr>pst_resource_reservation_id := Some i\<rparr>" and ?k = "process_key_new (pst_scope s) (pst_process_id s)"
    show ?thesis
    proof (cases "hm_get (mp_inner m) ?k")
      case fresh: None
      then have "managed_ok (m\<lparr>mp_governor := v, mp_inner := hm_insert ?k (process_record_of ?s) (mp_inner m),
          mp_owned_reservations := hm_insert ?k i (mp_owned_reservations m)\<rparr>)"
        using ok reserved accounts_started [of "hm_get (mp_inner m)" "reservations_of (mp_governor m)" _ ?k i "process_record_of ?s" rec]
        by (simp add: managed_ok_def hm_get_insert_fun)
      moreover have "m' = m\<lparr>mp_governor := v, mp_inner := hm_insert ?k (process_record_of ?s) (mp_inner m),
          mp_owned_reservations := hm_insert ?k i (mp_owned_reservations m)\<rparr>"
        using run res None reserved fresh
        by (simp add: managed_start_def memory_process_store_def memory_process_start_def hm_contains_key_def Let_def
          record_owned_reservation_def)
      ultimately show ?thesis by simp
    next
      case taken: (Some r)
      obtain v' where rel: "release_reservation (memory_governor g now i) i v = (Ok (), v')"
        "reservations_of v' = (reservations_of v)(i \<mapsto> closed_record None rec)"
        using governor_closes [of v i rec None g now i] reserved by auto
      have "managed_ok (m\<lparr>mp_governor := v'\<rparr>)"
        using ok rel reserved accounts_refused by (simp add: managed_ok_def closed_record_def)
      moreover have "m' = m\<lparr>mp_governor := v'\<rparr>"
        using run res None reserved taken rel(1)
        by (simp add: managed_start_def memory_process_store_def memory_process_start_def hm_contains_key_def Let_def
          settle_after_error_def)
      ultimately show ?thesis by simp
    qed
  qed
qed

lemma managed_finish_ok:
  assumes ok: "managed_ok m" and to: "to \<noteq> PsRunning"
    and run: "managed_finish memory_process_store cls (process_update_status scope i to kind) scope i m = (x, m')"
    and closes: "\<And>j v rec. reservations_of v j = Some rec \<Longrightarrow> rrec_status rec = RvActive \<Longrightarrow>
      \<exists>v' rec'. cls j v = (Ok (), v') \<and> reservations_of v' = (reservations_of v)(j \<mapsto> rec')
        \<and> rrec_status rec' = settled_as to \<and> rrec_reservation rec' = rrec_reservation rec"
  shows "managed_ok m'"
proof -
  let ?k = "process_key_new scope i"
  have acc: "accounts_ok (hm_get (mp_inner m)) (reservations_of (mp_governor m)) (hm_get (mp_owned_reservations m))"
    using ok by (simp add: managed_ok_def)
  note finish = run [unfolded managed_finish_def, simplified]
  show ?thesis
  proof (cases "hm_get (mp_owned_reservations m) ?k")
    case None
    then have "mp_inner m' = mp_inner m \<and> mp_governor m' = mp_governor m \<and> mp_owned_reservations m' = mp_owned_reservations m"
      using finish by (auto simp: take_owned_reservation_def split: option.splits)
    then show ?thesis using ok by (simp add: managed_ok_def)
  next
    case (Some j)
    then obtain r where r: "hm_get (mp_inner m) ?k = Some r" "pr_status r = PsRunning" "pr_resource_reservation_id r = Some j"
      using accounts_owned [OF acc] by auto
    then obtain rec where rec: "reservations_of (mp_governor m) j = Some rec" "rrec_status rec = RvActive"
      using accounts_okD(1) [OF acc r(1)] by (auto simp: backed_def settled_as_def)
    obtain v' rec' where cl: "cls j (mp_governor m) = (Ok (), v')" "reservations_of v' = (reservations_of (mp_governor m))(j \<mapsto> rec')"
      "rrec_status rec' = settled_as to" "rrec_reservation rec' = rrec_reservation rec"
      using closes [OF rec] by blast
    have "mp_inner m' = hm_insert ?k (r\<lparr>pr_status := to, pr_error_kind := kind\<rparr>) (mp_inner m)" "mp_governor m' = v'"
      "mp_owned_reservations m' = hm_remove ?k (mp_owned_reservations m)"
      using finish Some r cl(1)
      by (auto simp: take_owned_reservation_def process_update_status_def ensure_status_transition_def Let_def)
    moreover have "hm_get (hm_remove ?k (mp_owned_reservations m)) = (hm_get (mp_owned_reservations m))(?k := None)"
      by (simp add: fun_eq_iff)
    ultimately show ?thesis
      using accounts_finished [OF acc r rec(1) to cl(3,4)] cl(2) by (simp add: managed_ok_def hm_get_insert_fun)
  qed
qed

lemma managed_step_ok:
  assumes "managed_ok m" "validate_usage usage = Ok ()" "process_step (managed_memory g usage t) op m = (x, m')"
  shows "managed_ok m'"
proof -
  obtain now fresh where t: "t = (now, fresh)" by fastforce
  have released: "\<exists>v' rec'. release_reservation (memory_governor g now fresh) j v = (Ok (), v')
      \<and> reservations_of v' = (reservations_of v)(j \<mapsto> rec') \<and> rrec_status rec' = RvReleased \<and> rrec_reservation rec' = rrec_reservation rec"
    if "reservations_of v j = Some rec" "rrec_status rec = RvActive" for j v rec
    using governor_closes [OF that, of None g now fresh] by (fastforce simp: closed_record_def)
  have reconciled: "\<exists>v' rec'. reconcile_reservation (memory_governor g now fresh) usage j v = (Ok (), v')
      \<and> reservations_of v' = (reservations_of v)(j \<mapsto> rec') \<and> rrec_status rec' = RvReconciled \<and> rrec_reservation rec' = rrec_reservation rec"
    if "reservations_of v j = Some rec" "rrec_status rec = RvActive" for j v rec
    using governor_closes [OF that, of "Some usage" g now fresh] assms(2) by (fastforce simp: closed_record_def)
  note step = assms(3) [unfolded t managed_memory_def prod.case]
  show ?thesis
  proof (cases op)
    case (POpStart s)
    then show ?thesis using managed_start_ok [OF assms(1)] step by simp
  next
    case (POpComplete scope i)
    then show ?thesis using managed_finish_ok [OF assms(1), of PsCompleted] reconciled step by (simp add: settled_as_def)
  next
    case (POpFail scope i kind)
    then show ?thesis using managed_finish_ok [OF assms(1), of PsFailed] released step by (simp add: settled_as_def)
  next
    case (POpKill scope i)
    then show ?thesis using managed_finish_ok [OF assms(1), of PsKilled] released step by (simp add: settled_as_def)
  qed
qed

lemma managed_history_ok:
  "managed_ok m \<Longrightarrow> validate_usage usage = Ok () \<Longrightarrow> managed_ok (process_history (managed_memory g usage) ops m)"
proof (induction ops arbitrary: m)
  case (Cons top ops)
  obtain t op where top: "top = (t, op)" by fastforce
  obtain x m' where step: "process_step (managed_memory g usage t) op m = (x, m')" by fastforce
  show ?case using Cons.IH [OF managed_step_ok [OF Cons.prems step] Cons.prems(2)] top step by simp
qed simp

definition no_processes :: "(process_map, governor) managed_processes" where
  "no_processes = \<lparr>mp_inner = [], mp_governor = new_governor, mp_owned_reservations = []\<rparr>"

lemma no_processes_ok: "managed_ok no_processes"
  by (simp add: managed_ok_def no_processes_def new_governor_def reservations_of_def resource_state_default_def accounts_ok_def)

text \<open>C34. Resources are held exactly while processes run. In any history of the resource-managed store over a fresh
  in-memory governor, every process has a reservation of its own for its scope and estimate, which
  is active while the process runs, reconciled once it has completed and released once it has
  failed or was killed; and no other reservation is active, whichever starts were refused and
  whichever operations failed. The usage charged on completion must be a valid one.\<close>

theorem reservations_follow_processes:
  assumes "validate_usage usage = Ok ()" "m = process_history (managed_memory g usage) ops no_processes"
  shows "(\<forall>k r. hm_get (mp_inner m) k = Some r \<longrightarrow>
      (\<exists>i v. pr_resource_reservation_id r = Some i \<and> reservations_of (mp_governor m) i = Some v
        \<and> rrec_reservation v = \<lparr>rv_id = i, rv_scope = pr_scope r, rv_estimate = pr_estimated_resources r\<rparr>
        \<and> rrec_status v = (case pr_status r of PsRunning \<Rightarrow> RvActive | PsCompleted \<Rightarrow> RvReconciled | _ \<Rightarrow> RvReleased)
        \<and> (\<forall>k' r'. hm_get (mp_inner m) k' = Some r' \<longrightarrow> pr_resource_reservation_id r' = Some i \<longrightarrow> k' = k)))
    \<and> (\<forall>i v. reservations_of (mp_governor m) i = Some v \<longrightarrow> rrec_status v = RvActive \<longrightarrow>
        (\<exists>k r. hm_get (mp_inner m) k = Some r \<and> pr_status r = PsRunning \<and> pr_resource_reservation_id r = Some i))"
proof (intro conjI allI impI)
  have ok: "accounts_ok (hm_get (mp_inner m)) (reservations_of (mp_governor m)) (hm_get (mp_owned_reservations m))"
    using managed_history_ok [OF no_processes_ok assms(1)] assms(2) by (simp add: managed_ok_def)
  fix k r assume r: "hm_get (mp_inner m) k = Some r"
  then show "\<exists>i v. pr_resource_reservation_id r = Some i \<and> reservations_of (mp_governor m) i = Some v
        \<and> rrec_reservation v = \<lparr>rv_id = i, rv_scope = pr_scope r, rv_estimate = pr_estimated_resources r\<rparr>
        \<and> rrec_status v = (case pr_status r of PsRunning \<Rightarrow> RvActive | PsCompleted \<Rightarrow> RvReconciled | _ \<Rightarrow> RvReleased)
        \<and> (\<forall>k' r'. hm_get (mp_inner m) k' = Some r' \<longrightarrow> pr_resource_reservation_id r' = Some i \<longrightarrow> k' = k)"
  proof -
    obtain i v where i: "pr_resource_reservation_id r = Some i" "reservations_of (mp_governor m) i = Some v"
        "rrec_status v = settled_as (pr_status r)"
        "rrec_reservation v = \<lparr>rv_id = i, rv_scope = pr_scope r, rv_estimate = pr_estimated_resources r\<rparr>"
      using accounts_okD(1) [OF ok r] unfolding backed_def by blast
    have "\<forall>k' r'. hm_get (mp_inner m) k' = Some r' \<longrightarrow> pr_resource_reservation_id r' = Some i \<longrightarrow> k' = k"
      using accounts_okD(2) [OF ok r] i(1) by metis
    with i show ?thesis unfolding settled_as_def by blast
  qed
next
  have ok: "accounts_ok (hm_get (mp_inner m)) (reservations_of (mp_governor m)) (hm_get (mp_owned_reservations m))"
    using managed_history_ok [OF no_processes_ok assms(1)] assms(2) by (simp add: managed_ok_def)
  fix i v assume v: "reservations_of (mp_governor m) i = Some v" "rrec_status v = RvActive"
  then obtain k r where r: "hm_get (mp_inner m) k = Some r" "pr_resource_reservation_id r = Some i" using accounts_active [OF ok] by blast
  then have "rrec_status v = settled_as (pr_status r)" using accounts_okD(1) [OF ok r(1)] v(1) by (auto simp: backed_def)
  then have "pr_status r = PsRunning" using v(2) by (auto simp: settled_as_def split: process_status.splits)
  then show "\<exists>k r. hm_get (mp_inner m) k = Some r \<and> pr_status r = PsRunning \<and> pr_resource_reservation_id r = Some i"
    using r by blast
qed

text \<open>A process that is killed, and an attempt to complete it afterwards.\<close>

definition sample_start :: process_start where
  "sample_start = \<lparr>pst_process_id = 5, pst_parent_process_id = None, pst_invocation_id = 1, pst_scope = plain_scope,
     pst_extension_id = ''ext'', pst_capability_id = ''ext.run'', pst_runtime = RtWasm, pst_grants = [], pst_mounts = [],
     pst_estimated_resources = token_estimate 10, pst_resource_reservation_id = None, pst_input = JNull\<rparr>"

definition sample_killed :: process_record where
  "sample_killed = (process_record_of sample_start)\<lparr>pr_status := PsKilled\<rparr>"

theorem process_ends_once_witness:
  "process_is_terminal (pr_status sample_killed)
    \<and> hm_get (process_history (\<lambda>_ :: unit. memory_process_store) [((), POpComplete plain_scope 5)]
          [(process_key_new plain_scope 5, sample_killed)]) (process_key_new plain_scope 5) = Some sample_killed"
proof -
  have killed: "process_is_terminal (pr_status sample_killed)" by (simp add: sample_killed_def process_is_terminal_def)
  have "hm_get [(process_key_new plain_scope 5, sample_killed)] (process_key_new plain_scope 5) = Some sample_killed"
    by (simp add: hm_get_def)
  with killed process_ends_once [where k = "process_key_new plain_scope 5" and r = sample_killed
      and m = "[(process_key_new plain_scope 5, sample_killed)]" and ops' = "[((), POpComplete plain_scope 5)]"]
  show ?thesis by blast
qed

definition sample_history :: "((timestamp \<times> resource_reservation_id) \<times> process_op) list" where
  "sample_history = [((0, 7), POpStart sample_start), ((1, 8), POpKill plain_scope 5)]"

theorem reservations_follow_processes_witness:
  "\<exists>m v. m = process_history (managed_memory sample_governor_env (token_usage 0)) sample_history no_processes
    \<and> reservations_of (mp_governor m) 7 = Some v \<and> rrec_status v = RvReleased"
proof -
  let ?m = "process_history (managed_memory sample_governor_env (token_usage 0)) sample_history no_processes"
  have "validate_usage (token_usage 0) = Ok ()" by code_simp
  note follow = reservations_follow_processes [OF this refl, of sample_governor_env sample_history]
  have "map_option (\<lambda>r. (pr_status r, pr_resource_reservation_id r)) (hm_get (mp_inner ?m) (process_key_new plain_scope 5))
      = Some (PsKilled, Some 7)"
    by code_simp
  then obtain r where "hm_get (mp_inner ?m) (process_key_new plain_scope 5) = Some r" "pr_status r = PsKilled"
      "pr_resource_reservation_id r = Some 7"
    by auto
  with follow show ?thesis by fastforce
qed

end
