(* ===== verification/Process_Races.thy ===== *)
theory Process_Races
  imports Process_Guarantees
begin

text \<open>
  Processes, their background tasks and their killers side by side. The state machine has one action per
  access to a store or to the registry (each is one lock region), so that its histories are the
  interleavings of any number of spawned tasks and of kills by the host, over the in-memory
  stores of \<^verbatim>\<open>ProcessServices::in_memory\<close>.
\<close>

section \<open>The machine\<close>

text \<open>Where the task of a process is: before its token is registered, in the executor, after it, past the probe, past
  the write of the result, past the write of the status.\<close>

datatype task_state =
    TaskStarting
  | TaskExecuting cancellation_token
  | TaskEnded execution_outcome
  | TaskWriting execution_outcome
  | TaskPersisted execution_outcome
  | TaskLeaving

text \<open>Where a call of \<^verbatim>\<open>ProcessHost::kill\<close> is: after a refused transition, or with a killed record, before each of the two side
  effects.\<close>

datatype pending_kill =
    KillChecking resource_scope process_id
  | KillCancelling process_record
  | KillRecording process_record

record process_machine =
  pm_world :: "(process_map, result_map) process_world"
  pm_tasks :: "process_key \<rightharpoonup> resource_scope \<times> process_id \<times> task_state"
  pm_kills :: "pending_kill list"

definition initial_machine :: process_machine where
  "initial_machine = \<lparr>pm_world = services_in_memory, pm_tasks = (\<lambda>_. None), pm_kills = []\<rparr>"

datatype process_action =
    ActSpawn process_start
  | ActTask process_key
  | ActExecuted process_key execution_outcome
  | ActKill resource_scope process_id
  | ActKillNext nat

definition set_task :: "process_key \<Rightarrow> resource_scope \<Rightarrow> process_id \<Rightarrow> task_state \<Rightarrow> process_machine \<Rightarrow> process_machine" where
  "set_task k scope i t m = m\<lparr>pm_tasks := (pm_tasks m)(k \<mapsto> (scope, i, t))\<rparr>"

text \<open>The next access of a task.\<close>

fun task_action :: "process_key \<Rightarrow> resource_scope \<Rightarrow> process_id \<Rightarrow> task_state \<Rightarrow> process_machine \<Rightarrow> process_machine option" where
  "task_action k scope i TaskStarting m =
    (let (token, c) = cancellation_register scope i (pw_registry (pm_world m)) in
     Some (set_task k scope i (TaskExecuting token) (m\<lparr>pm_world := (pm_world m)\<lparr>pw_registry := c\<rparr>\<rparr>)))"
| "task_action k scope i (TaskExecuting token) m = None"
| "task_action k scope i (TaskEnded outcome) m =
    (let (running, reports, s) = task_probe memory_process_store scope i (pw_store (pm_world m)) in
     Some (set_task k scope i (if running then TaskWriting outcome else TaskLeaving) (m\<lparr>pm_world := (pm_world m)\<lparr>pw_store := s\<rparr>\<rparr>)))"
| "task_action k scope i (TaskWriting outcome) m =
    (let (persisted, reports, rs) = task_write_result (Some memory_result_store) outcome scope i (pw_results (pm_world m)) in
     Some (set_task k scope i (if persisted then TaskPersisted outcome else TaskLeaving) (m\<lparr>pm_world := (pm_world m)\<lparr>pw_results := rs\<rparr>\<rparr>)))"
| "task_action k scope i (TaskPersisted outcome) m =
    (let (reports, s) = task_write_status memory_process_store outcome scope i (pw_store (pm_world m)) in
     Some (set_task k scope i TaskLeaving (m\<lparr>pm_world := (pm_world m)\<lparr>pw_store := s\<rparr>\<rparr>)))"
| "task_action k scope i TaskLeaving m =
    Some (m\<lparr>pm_world := (pm_world m)\<lparr>pw_registry := registry_unregister scope i (pw_registry (pm_world m))\<rparr>,
            pm_tasks := (pm_tasks m)(k := None)\<rparr>)"

text \<open>The first access of a kill and the following ones.\<close>

definition kill_action :: "resource_scope \<Rightarrow> process_id \<Rightarrow> process_machine \<Rightarrow> process_machine" where
  "kill_action scope i m =
    (case ps_kill memory_process_store scope i (pw_store (pm_world m)) of
       (Ok r, s) \<Rightarrow> m\<lparr>pm_world := (pm_world m)\<lparr>pw_store := s\<rparr>, pm_kills := KillCancelling r # pm_kills m\<rparr>
     | (Err _, s) \<Rightarrow> m\<lparr>pm_world := (pm_world m)\<lparr>pw_store := s\<rparr>, pm_kills := KillChecking scope i # pm_kills m\<rparr>)"

fun kill_next :: "pending_kill \<Rightarrow> process_machine \<Rightarrow> pending_kill list \<times> process_machine" where
  "kill_next (KillChecking scope i) m =
    (case ps_get memory_process_store scope i (pw_store (pm_world m)) of
       (Ok (Some r), s) \<Rightarrow> (if pr_status r = PsKilled then [KillCancelling r] else [], m\<lparr>pm_world := (pm_world m)\<lparr>pw_store := s\<rparr>\<rparr>)
     | (_, s) \<Rightarrow> ([], m\<lparr>pm_world := (pm_world m)\<lparr>pw_store := s\<rparr>\<rparr>))"
| "kill_next (KillCancelling r) m =
    ([KillRecording r],
     m\<lparr>pm_world := (pm_world m)\<lparr>pw_registry := snd (registry_cancel (pr_scope r) (pr_process_id r) (pw_registry (pm_world m)))\<rparr>\<rparr>)"
| "kill_next (KillRecording r) m =
    ([], m\<lparr>pm_world := (pm_world m)\<lparr>pw_results := snd (prs_kill memory_result_store (pr_scope r) (pr_process_id r) (pw_results (pm_world m)))\<rparr>\<rparr>)"

definition start_action :: "process_start \<Rightarrow> process_machine \<Rightarrow> process_machine" where
  "start_action s m =
    (case ps_start memory_process_store s (pw_store (pm_world m)) of
       (Err _, st) \<Rightarrow> m\<lparr>pm_world := (pm_world m)\<lparr>pw_store := st\<rparr>\<rparr>
     | (Ok r, st) \<Rightarrow> set_task (process_key_new (pr_scope r) (pr_process_id r)) (pr_scope r) (pr_process_id r) TaskStarting
         (m\<lparr>pm_world := (pm_world m)\<lparr>pw_store := st\<rparr>\<rparr>))"

fun machine_action :: "process_action \<Rightarrow> process_machine \<Rightarrow> process_machine option" where
  "machine_action (ActSpawn s) m = Some (start_action s m)"
| "machine_action (ActTask k) m = (case pm_tasks m k of None \<Rightarrow> None | Some (scope, i, t) \<Rightarrow> task_action k scope i t m)"
| "machine_action (ActExecuted k outcome) m =
    (case pm_tasks m k of Some (scope, i, TaskExecuting _) \<Rightarrow> Some (set_task k scope i (TaskEnded outcome) m) | _ \<Rightarrow> None)"
| "machine_action (ActKill scope i) m = Some (kill_action scope i m)"
| "machine_action (ActKillNext n) m =
    (if n < length (pm_kills m)
     then case kill_next (pm_kills m ! n) m of
         (now, m') \<Rightarrow> Some (m'\<lparr>pm_kills := take n (pm_kills m) @ now @ drop (Suc n) (pm_kills m)\<rparr>)
     else None)"

fun machine_run :: "process_action list \<Rightarrow> process_machine \<Rightarrow> process_machine option" where
  "machine_run [] m = Some m"
| "machine_run (a # as) m = (case machine_action a m of None \<Rightarrow> None | Some m' \<Rightarrow> machine_run as m')"

inductive machine_reachable :: "process_machine \<Rightarrow> bool" where
  initially: "machine_reachable initial_machine"
| acting: "machine_reachable m \<Longrightarrow> machine_action a m = Some m' \<Longrightarrow> machine_reachable m'"

lemma reachable_run: "machine_reachable m \<Longrightarrow> machine_run as m = Some m' \<Longrightarrow> machine_reachable m'"
  by (induction as m rule: machine_run.induct) (auto split: option.splits intro: acting)

section \<open>The invariant\<close>

definition outcome_status :: "execution_outcome \<Rightarrow> process_status" where
  "outcome_status x = (case x of ExecutedOk _ \<Rightarrow> PsCompleted | _ \<Rightarrow> PsFailed)"

definition outcome_kind :: "execution_outcome \<Rightarrow> string option" where
  "outcome_kind x = (case x of ExecutedOk _ \<Rightarrow> None | ExecutedErr kind \<Rightarrow> Some (sanitize_error_kind (sanitize_error_kind kind))
     | ExecutorPanicked \<Rightarrow> Some (sanitize_error_kind panic_kind))"

definition outcome_output :: "execution_outcome \<Rightarrow> json option" where
  "outcome_output x = (case x of ExecutedOk out \<Rightarrow> Some out | _ \<Rightarrow> None)"

lemma write_result_memory:
  "task_write_result (Some memory_result_store) outcome scope i rs =
    (True, [], snd (store_result scope i (outcome_status outcome) (outcome_output outcome) (outcome_kind outcome) rs))"
  by (cases outcome) (simp_all add: task_write_result_def memory_result_store_def outcome_status_def outcome_output_def
    outcome_kind_def store_result_def Let_def)

lemma write_status_memory:
  "snd (task_write_status memory_process_store outcome scope i s) =
    snd (process_update_status scope i (outcome_status outcome) (outcome_kind outcome) s)"
  by (cases outcome) (simp_all add: task_write_status_def outcome_status_def outcome_kind_def split: prod.splits sum.splits)

lemma probe_memory:
  "task_probe memory_process_store scope i s =
    ((case hm_get s (process_key_new scope i) of Some r \<Rightarrow> pr_status r = PsRunning | None \<Rightarrow> False), [], s)"
  by (simp add: task_probe_def split: option.split)

definition result_shows :: "process_status \<Rightarrow> string option \<Rightarrow> process_result_record \<Rightarrow> bool" where
  "result_shows status kind x \<longleftrightarrow> prr_status x = status \<and> prr_error_kind x = kind \<and> (status = PsCompleted \<longrightarrow> prr_output x \<noteq> None)"

definition task_ok ::
    "process_key \<Rightarrow> process_record option \<Rightarrow> process_result_record option \<Rightarrow> resource_scope \<times> process_id \<times> task_state \<Rightarrow> bool" where
  "task_ok k rec res = (\<lambda>(scope, i, t). k = process_key_new scope i
     \<and> (case rec of
          None \<Rightarrow> False
        | Some r \<Rightarrow> (t = TaskLeaving \<or> pr_status r = PsRunning \<or> pr_status r = PsKilled)
            \<and> (\<forall>outcome. t = TaskPersisted outcome \<longrightarrow> pr_status r = PsRunning \<longrightarrow>
                 (\<exists>x. res = Some x \<and> result_shows (outcome_status outcome) (outcome_kind outcome) x))))"

definition record_ok :: "process_record \<Rightarrow> process_result_record option \<Rightarrow> bool" where
  "record_ok r res \<longleftrightarrow> (pr_status r = PsCompleted \<or> pr_status r = PsFailed \<longrightarrow>
     (\<exists>x. res = Some x \<and> result_shows (pr_status r) (pr_error_kind r) x))"

fun kill_ok :: "(process_key \<rightharpoonup> process_record) \<Rightarrow> pending_kill \<Rightarrow> bool" where
  "kill_ok f (KillChecking scope i) = True"
| "kill_ok f (KillCancelling r) = (f (process_key_new (pr_scope r) (pr_process_id r)) = Some r \<and> pr_status r = PsKilled)"
| "kill_ok f (KillRecording r) = (f (process_key_new (pr_scope r) (pr_process_id r)) = Some r \<and> pr_status r = PsKilled)"

text \<open>All there is under one key, and the whole machine.\<close>

definition slot_ok ::
    "process_key \<Rightarrow> process_record option \<Rightarrow> process_result_record option \<Rightarrow> (resource_scope \<times> process_id \<times> task_state) option \<Rightarrow> bool" where
  "slot_ok k rec res task \<longleftrightarrow> (\<forall>r. rec = Some r \<longrightarrow> k = process_key_new (pr_scope r) (pr_process_id r) \<and> record_ok r res)
     \<and> (\<forall>t. task = Some t \<longrightarrow> task_ok k rec res t)"

definition machine_ok :: "process_machine \<Rightarrow> bool" where
  "machine_ok m \<longleftrightarrow>
    (\<forall>k. slot_ok k (hm_get (pw_store (pm_world m)) k) (hm_get (pw_results (pm_world m)) k) (pm_tasks m k))
    \<and> (\<forall>p \<in> set (pm_kills m). kill_ok (hm_get (pw_store (pm_world m))) p)"

text \<open>A change under one key that keeps the record of a killed process.\<close>

lemma machine_ok_upd:
  assumes "machine_ok m"
    and "hm_get (pw_store (pm_world m')) = (hm_get (pw_store (pm_world m)))(k := rec)"
    and "hm_get (pw_results (pm_world m')) = (hm_get (pw_results (pm_world m)))(k := res)"
    and "pm_tasks m' = (pm_tasks m)(k := task)" "slot_ok k rec res task"
    and keeps: "\<And>r. hm_get (pw_store (pm_world m)) k = Some r \<Longrightarrow> pr_status r = PsKilled \<Longrightarrow> rec = Some r"
    and new: "\<And>p. p \<in> set (pm_kills m') \<Longrightarrow> p \<in> set (pm_kills m) \<or> kill_ok (hm_get (pw_store (pm_world m'))) p"
  shows "machine_ok m'"
  unfolding machine_ok_def
proof (intro conjI allI ballI)
  show "slot_ok j (hm_get (pw_store (pm_world m')) j) (hm_get (pw_results (pm_world m')) j) (pm_tasks m' j)" for j
    using assms(1-5) by (simp add: machine_ok_def)
  fix p assume "p \<in> set (pm_kills m')"
  moreover have "kill_ok (hm_get (pw_store (pm_world m'))) p" if "kill_ok (hm_get (pw_store (pm_world m))) p"
    using that keeps assms(2) by (cases p) auto
  ultimately show "kill_ok (hm_get (pw_store (pm_world m'))) p" using new assms(1) by (auto simp: machine_ok_def)
qed

lemma machine_okD:
  assumes "machine_ok m"
  shows "slot_ok k (hm_get (pw_store (pm_world m)) k) (hm_get (pw_results (pm_world m)) k) (pm_tasks m k)"
    "p \<in> set (pm_kills m) \<Longrightarrow> kill_ok (hm_get (pw_store (pm_world m))) p"
  using assms by (auto simp: machine_ok_def)

lemma update_status_running:
  "hm_get s (process_key_new scope i) = Some r \<Longrightarrow> pr_status r = PsRunning \<Longrightarrow>
    process_update_status scope i to kind s = (Ok (r\<lparr>pr_status := to, pr_error_kind := kind\<rparr>),
      hm_insert (process_key_new scope i) (r\<lparr>pr_status := to, pr_error_kind := kind\<rparr>) s)"
  by (simp add: process_update_status_def ensure_status_transition_def Let_def)

lemma update_status_refused:
  "(\<And>r. hm_get s (process_key_new scope i) = Some r \<Longrightarrow> pr_status r \<noteq> PsRunning) \<Longrightarrow>
    \<exists>e. process_update_status scope i to kind s = (Err e, s)"
  by (auto simp: process_update_status_def ensure_status_transition_def Let_def split: option.split)

lemma start_action_ok:
  assumes "machine_ok m"
  shows "machine_ok (start_action s m)"
proof (cases "hm_get (pw_store (pm_world m)) (process_key_new (pst_scope s) (pst_process_id s))")
  case (Some r)
  then have "start_action s m = m" by (simp add: start_action_def memory_process_start_def hm_contains_key_def Let_def)
  then show ?thesis using assms by simp
next
  case None
  let ?k = "process_key_new (pst_scope s) (pst_process_id s)"
  have "start_action s m = set_task ?k (pst_scope s) (pst_process_id s) TaskStarting
      (m\<lparr>pm_world := (pm_world m)\<lparr>pw_store := hm_insert ?k (process_record_of s) (pw_store (pm_world m))\<rparr>\<rparr>)"
    using None by (simp add: start_action_def memory_process_start_def hm_contains_key_def Let_def)
  then show ?thesis
    by (intro machine_ok_upd [OF assms, where k = ?k and rec = "Some (process_record_of s)"
        and res = "hm_get (pw_results (pm_world m)) ?k" and task = "Some (pst_scope s, pst_process_id s, TaskStarting)"])
      (auto simp: None set_task_def hm_get_insert_fun slot_ok_def record_ok_def task_ok_def)
qed

lemma task_action_ok:
  assumes ok: "machine_ok m" and task: "pm_tasks m k = Some (scope, i, t)" and act: "task_action k scope i t m = Some m'"
  shows "machine_ok m'"
proof -
  let ?rec = "hm_get (pw_store (pm_world m)) k" and ?res = "hm_get (pw_results (pm_world m)) k"
  have slot: "slot_ok k ?rec ?res (Some (scope, i, t))" using machine_okD(1) [OF ok, of k] task by simp
  then have k: "k = process_key_new scope i" by (auto simp: slot_ok_def task_ok_def)
  obtain r where r: "?rec = Some r" using slot by (auto simp: slot_ok_def task_ok_def split: option.splits)
  note facts = slot [unfolded slot_ok_def task_ok_def r, simplified]
  note upd = machine_ok_upd [OF ok, where k = k]
  show ?thesis
  proof (cases t)
    case TaskStarting
    then show ?thesis using act facts r
      by (intro upd [where rec = ?rec and res = ?res])
        (auto simp: set_task_def cancellation_register_def token_new_def Let_def slot_ok_def task_ok_def)
  next
    case (TaskExecuting token)
    then show ?thesis using act by simp
  next
    case (TaskEnded x)
    then show ?thesis using act facts r
      by (intro upd [where rec = ?rec and res = ?res
            and task = "Some (scope, i, if pr_status r = PsRunning then TaskWriting x else TaskLeaving)"])
        (auto simp: set_task_def probe_memory slot_ok_def task_ok_def)
  next
    case (TaskWriting x)
    let ?x = "fst (store_result scope i (outcome_status x) (outcome_output x) (outcome_kind x) (pw_results (pm_world m)))"
    have x: "result_shows (outcome_status x) (outcome_kind x) ?x"
      by (cases x) (simp_all add: result_shows_def store_result_def outcome_status_def outcome_output_def Let_def)
    have slot': "slot_ok k ?rec (Some ?x) (Some (scope, i, TaskPersisted x))"
      using facts r TaskWriting x by (auto simp: slot_ok_def task_ok_def record_ok_def)
    have "m' = set_task k scope i (TaskPersisted x)
        (m\<lparr>pm_world := (pm_world m)\<lparr>pw_results := hm_insert k ?x (pw_results (pm_world m))\<rparr>\<rparr>)"
      using act TaskWriting k by (simp add: write_result_memory store_result_def Let_def)
    then show ?thesis by (intro upd [OF _ _ _ slot']) (simp_all add: set_task_def hm_get_insert_fun)
  next
    case (TaskPersisted x)
    obtain reports st where w: "task_write_status memory_process_store x scope i (pw_store (pm_world m)) = (reports, st)" by fastforce
    then have st: "st = snd (process_update_status scope i (outcome_status x) (outcome_kind x) (pw_store (pm_world m)))"
      using write_status_memory [of x scope i "pw_store (pm_world m)"] by simp
    have m': "m' = set_task k scope i TaskLeaving (m\<lparr>pm_world := (pm_world m)\<lparr>pw_store := st\<rparr>\<rparr>)"
      using act TaskPersisted w by simp
    show ?thesis
    proof (cases "pr_status r = PsRunning")
      case True
      then have "st = hm_insert k (r\<lparr>pr_status := outcome_status x, pr_error_kind := outcome_kind x\<rparr>) (pw_store (pm_world m))"
        using st update_status_running r k by simp
      then show ?thesis using m' facts r True TaskPersisted
        by (intro upd [where rec = "Some (r\<lparr>pr_status := outcome_status x, pr_error_kind := outcome_kind x\<rparr>)" and res = ?res])
          (auto simp: set_task_def hm_get_insert_fun slot_ok_def task_ok_def record_ok_def)
    next
      case False
      then have "st = pw_store (pm_world m)" using st update_status_refused r k by (metis option.inject snd_conv)
      then show ?thesis using m' facts r
        by (intro upd [where rec = ?rec and res = ?res]) (auto simp: set_task_def slot_ok_def task_ok_def)
    qed
  next
    case TaskLeaving
    then show ?thesis using act facts r
      by (intro upd [where rec = ?rec and res = ?res and task = None]) (auto simp: slot_ok_def)
  qed
qed

lemma executed_ok:
  assumes ok: "machine_ok m" and task: "pm_tasks m k = Some (scope, i, TaskExecuting token)"
  shows "machine_ok (set_task k scope i (TaskEnded x) m)"
proof -
  have "slot_ok k (hm_get (pw_store (pm_world m)) k) (hm_get (pw_results (pm_world m)) k) (Some (scope, i, TaskExecuting token))"
    using machine_okD(1) [OF ok, of k] task by simp
  then show ?thesis
    by (intro machine_ok_upd [OF ok, where k = k and rec = "hm_get (pw_store (pm_world m)) k" and res = "hm_get (pw_results (pm_world m)) k"])
      (auto simp: set_task_def slot_ok_def task_ok_def split: option.splits)
qed

lemma kill_action_ok:
  assumes ok: "machine_ok m"
  shows "machine_ok (kill_action scope i m)"
proof -
  let ?k = "process_key_new scope i"
  let ?rec = "hm_get (pw_store (pm_world m)) ?k" and ?res = "hm_get (pw_results (pm_world m)) ?k"
  have slot: "slot_ok ?k ?rec ?res (pm_tasks m ?k)" using machine_okD(1) [OF ok] .
  show ?thesis
  proof (cases "\<exists>r. ?rec = Some r \<and> pr_status r = PsRunning")
    case True
    then obtain r where r: "?rec = Some r" "pr_status r = PsRunning" by blast
    let ?r = "r\<lparr>pr_status := PsKilled, pr_error_kind := None\<rparr>"
    have key: "process_key_new (pr_scope r) (pr_process_id r) = ?k" using slot r(1) by (simp add: slot_ok_def)
    have "kill_action scope i m = m\<lparr>pm_world := (pm_world m)\<lparr>pw_store := hm_insert ?k ?r (pw_store (pm_world m))\<rparr>,
        pm_kills := KillCancelling ?r # pm_kills m\<rparr>"
      using update_status_running [OF r] by (simp add: kill_action_def)
    moreover have "slot_ok ?k (Some ?r) ?res (pm_tasks m ?k)"
      using slot r by (auto simp: slot_ok_def task_ok_def record_ok_def)
    ultimately show ?thesis using key r
      by (intro machine_ok_upd [OF ok, where k = ?k and rec = "Some ?r" and res = ?res and task = "pm_tasks m ?k"])
        (auto simp: hm_get_insert_fun)
  next
    case False
    then obtain e where "process_update_status scope i PsKilled None (pw_store (pm_world m)) = (Err e, pw_store (pm_world m))"
      using update_status_refused by metis
    then have "kill_action scope i m = m\<lparr>pm_kills := KillChecking scope i # pm_kills m\<rparr>" by (simp add: kill_action_def)
    then show ?thesis using ok by (auto simp: machine_ok_def)
  qed
qed

lemma machine_ok_kill:
  "machine_ok m \<Longrightarrow> kill_ok (hm_get (pw_store (pm_world m))) p \<Longrightarrow> machine_ok (m\<lparr>pm_kills := p # pm_kills m\<rparr>)"
  by (simp add: machine_ok_def)

lemma kill_next_ok:
  assumes ok: "machine_ok m" and p: "kill_ok (hm_get (pw_store (pm_world m))) p" and act: "kill_next p m = (now, m')"
  shows "machine_ok (m'\<lparr>pm_kills := now @ pm_kills m\<rparr>)"
proof (cases p)
  case (KillChecking scope i)
  let ?rec = "hm_get (pw_store (pm_world m)) (process_key_new scope i)"
  have m': "m' = m" using act KillChecking by (auto split: option.splits)
  show ?thesis
  proof (cases "\<exists>r. ?rec = Some r \<and> pr_status r = PsKilled")
    case True
    then obtain r where r: "?rec = Some r" "pr_status r = PsKilled" by blast
    then have "process_key_new (pr_scope r) (pr_process_id r) = process_key_new scope i"
      using machine_okD(1) [OF ok, of "process_key_new scope i"] by (simp add: slot_ok_def)
    then show ?thesis using machine_ok_kill [OF ok, of "KillCancelling r"] r act KillChecking m' by auto
  next
    case False
    then have "now = []" using act KillChecking by (auto split: option.splits)
    then show ?thesis using ok m' by simp
  qed
next
  case (KillCancelling r)
  then have "now = [KillRecording r]" "pw_store (pm_world m') = pw_store (pm_world m)" "pw_results (pm_world m') = pw_results (pm_world m)"
    "pm_tasks m' = pm_tasks m" using act by auto
  then show ?thesis using machine_ok_kill [OF ok, of "KillRecording r"] p KillCancelling by (simp add: machine_ok_def)
next
  case (KillRecording r)
  let ?k = "process_key_new (pr_scope r) (pr_process_id r)"
  let ?x = "fst (store_result (pr_scope r) (pr_process_id r) PsKilled None None (pw_results (pm_world m)))"
  have r: "hm_get (pw_store (pm_world m)) ?k = Some r" "pr_status r = PsKilled" using p KillRecording by auto
  then have slot: "slot_ok ?k (Some r) (Some ?x) (pm_tasks m ?k)"
    using machine_okD(1) [OF ok, of ?k] by (auto simp: slot_ok_def record_ok_def task_ok_def)
  have now: "now = []" "pm_tasks m' = pm_tasks m" "pw_store (pm_world m') = pw_store (pm_world m)"
    "pw_results (pm_world m') = hm_insert ?k ?x (pw_results (pm_world m))"
    using act KillRecording by (auto simp: memory_result_store_def store_result_def Let_def)
  show ?thesis
    by (rule machine_ok_upd [OF ok _ _ _ slot]) (use now r in \<open>simp_all add: hm_get_insert_fun fun_upd_idem\<close>)
qed

lemma machine_action_ok:
  assumes ok: "machine_ok m" and act: "machine_action a m = Some m'"
  shows "machine_ok m'"
proof (cases a)
  case (ActSpawn s)
  then show ?thesis using act start_action_ok [OF ok] by auto
next
  case (ActTask k)
  then show ?thesis using act task_action_ok [OF ok] by (auto split: option.splits)
next
  case (ActExecuted k x)
  then show ?thesis using act executed_ok [OF ok] by (auto split: option.splits task_state.splits)
next
  case (ActKill scope i)
  then show ?thesis using act kill_action_ok [OF ok] by auto
next
  case (ActKillNext n)
  then obtain now m'' where n: "n < length (pm_kills m)" and nxt: "kill_next (pm_kills m ! n) m = (now, m'')"
    and m': "m' = m''\<lparr>pm_kills := take n (pm_kills m) @ now @ drop (Suc n) (pm_kills m)\<rparr>"
    using act by (auto split: if_splits prod.splits)
  have "machine_ok (m''\<lparr>pm_kills := now @ pm_kills m\<rparr>)"
    using kill_next_ok [OF ok _ nxt] machine_okD(2) [OF ok] n by simp
  then show ?thesis unfolding m' machine_ok_def using set_take_subset [of n "pm_kills m"] set_drop_subset [of "Suc n" "pm_kills m"]
    by auto
qed

lemma reachable_ok: "machine_reachable m \<Longrightarrow> machine_ok m"
proof (induction rule: machine_reachable.induct)
  case initially
  show ?case by (simp add: machine_ok_def initial_machine_def services_in_memory_def slot_ok_def)
qed (rule machine_action_ok)

text \<open>C35. Whatever tasks and kills run side by side, a process that is seen as completed or failed has its result:
  a record of the same status and error kind, with an output if it completed. So a caller who waits for
  the result of a process that its executor ended does not miss it.\<close>

theorem finished_processes_have_results:
  assumes "machine_reachable m" "hm_get (pw_store (pm_world m)) k = Some r" "pr_status r = PsCompleted \<or> pr_status r = PsFailed"
  shows "\<exists>x. hm_get (pw_results (pm_world m)) k = Some x \<and> prr_status x = pr_status r \<and> prr_error_kind x = pr_error_kind r
    \<and> (pr_status r = PsCompleted \<longrightarrow> prr_output x \<noteq> None)"
  using machine_okD(1) [OF reachable_ok [OF assms(1)], of k] assms(2,3)
  by (auto simp: slot_ok_def record_ok_def result_shows_def)

text \<open>A concrete process and what can happen to it.\<close>

abbreviation sample_key :: process_key where
  "sample_key \<equiv> process_key_new plain_scope 5"

definition late_result :: "process_action list" where
  "late_result = [ActSpawn sample_start, ActTask sample_key, ActExecuted sample_key (ExecutedOk JNull), ActTask sample_key,
     ActKill plain_scope 5, ActKillNext 0, ActKillNext 0, ActTask sample_key, ActTask sample_key, ActTask sample_key]"

definition early_kill :: "process_action list" where
  "early_kill = [ActSpawn sample_start, ActKill plain_scope 5, ActKillNext 0, ActKillNext 0, ActTask sample_key]"

definition plain_finish :: "process_action list" where
  "plain_finish = [ActSpawn sample_start, ActTask sample_key, ActExecuted sample_key (ExecutedErr ''timeout''), ActTask sample_key,
     ActTask sample_key, ActTask sample_key, ActTask sample_key]"

lemma late_result_outcome:
  "case machine_run late_result initial_machine of
     None \<Rightarrow> False
   | Some m \<Rightarrow> pm_tasks m sample_key = None \<and> pm_kills m = []
       \<and> map_option pr_status (hm_get (pw_store (pm_world m)) sample_key) = Some PsKilled
       \<and> map_option (\<lambda>x. (prr_status x, prr_output x)) (hm_get (pw_results (pm_world m)) sample_key) = Some (PsCompleted, Some JNull)"
  by code_simp

lemma early_kill_outcome:
  "case machine_run early_kill initial_machine of
     None \<Rightarrow> False
   | Some m \<Rightarrow> pm_tasks m sample_key = Some (plain_scope, 5, TaskExecuting 0) \<and> pm_kills m = []
       \<and> map_option pr_status (hm_get (pw_store (pm_world m)) sample_key) = Some PsKilled
       \<and> map_option prr_status (hm_get (pw_results (pm_world m)) sample_key) = Some PsKilled
       \<and> \<not> token_is_cancelled 0 (pw_registry (pm_world m))"
  by code_simp

theorem finished_processes_have_results_witness:
  "\<exists>m r x. machine_reachable m \<and> hm_get (pw_store (pm_world m)) sample_key = Some r \<and> pr_status r = PsFailed
    \<and> hm_get (pw_results (pm_world m)) sample_key = Some x \<and> prr_status x = PsFailed"
proof -
  have "case machine_run plain_finish initial_machine of
      None \<Rightarrow> False | Some m \<Rightarrow> map_option pr_status (hm_get (pw_store (pm_world m)) sample_key) = Some PsFailed"
    by code_simp
  then obtain m r where m: "machine_run plain_finish initial_machine = Some m"
      and r: "hm_get (pw_store (pm_world m)) sample_key = Some r" "pr_status r = PsFailed"
    by (auto split: option.splits)
  from m have reach: "machine_reachable m" by (rule reachable_run [OF initially])
  with finished_processes_have_results [OF reach r(1)] r show ?thesis by auto
qed


section \<open>Waiting\<close>

lemma step_known:
  assumes "process_step memory_process_store op s = (x, s')" "hm_get s k \<noteq> None"
  shows "hm_get s' k \<noteq> None"
  using assms(1)
proof (rule memory_processes.step_view)
  fix k' assume "starts_as k' x (hm_get s) (hm_get s')"
  then show ?thesis using assms(2) by (auto simp: starts_as_def)
next
  fix k' to assume "ends_as k' to x (hm_get s) (hm_get s')"
  then show ?thesis using assms(2) by (auto simp: ends_as_def process_moves_def)
qed

text \<open>An action changes the records by at most one operation of the store.\<close>

lemma status_write_step:
  "\<exists>op x. process_step memory_process_store op s = (x, snd (task_write_status memory_process_store outcome scope i s))"
proof (cases outcome)
  case (ExecutedOk out)
  then show ?thesis using write_status_memory [of outcome scope i s]
    by (intro exI [of _ "POpComplete scope i"]) (simp add: outcome_status_def outcome_kind_def prod_eq_iff)
next
  case (ExecutedErr kind)
  then show ?thesis using write_status_memory [of outcome scope i s]
    by (intro exI [of _ "POpFail scope i (sanitize_error_kind kind)"]) (simp add: outcome_status_def outcome_kind_def prod_eq_iff)
next
  case ExecutorPanicked
  then show ?thesis using write_status_memory [of outcome scope i s]
    by (intro exI [of _ "POpFail scope i panic_kind"]) (simp add: outcome_status_def outcome_kind_def prod_eq_iff)
qed

lemma kill_next_store: "kill_next p m = (now, m') \<Longrightarrow> pw_store (pm_world m') = pw_store (pm_world m)"
  by (cases p) (auto split: option.splits)

lemma action_store:
  assumes "machine_action a m = Some m'"
  obtains "pw_store (pm_world m') = pw_store (pm_world m)"
  | op x where "process_step memory_process_store op (pw_store (pm_world m)) = (x, pw_store (pm_world m'))"
proof (cases a)
  case (ActSpawn s)
  then have "process_step memory_process_store (POpStart s) (pw_store (pm_world m))
      = (fst (memory_process_start s (pw_store (pm_world m))), pw_store (pm_world m'))"
    using assms by (auto simp: start_action_def set_task_def prod_eq_iff split: prod.splits sum.splits)
  then show thesis by (rule that)
next
  case (ActTask k)
  then obtain scope i t where t: "task_action k scope i t m = Some m'" using assms by (auto split: option.splits)
  show thesis
  proof (cases "\<exists>outcome. t = TaskPersisted outcome")
    case True
    then obtain outcome where "t = TaskPersisted outcome" by blast
    then have "pw_store (pm_world m') = snd (task_write_status memory_process_store outcome scope i (pw_store (pm_world m)))"
      using t by (auto simp: set_task_def split: prod.splits)
    then show thesis using status_write_step that by metis
  next
    case False
    then have "pw_store (pm_world m') = pw_store (pm_world m)"
      using t by (cases t) (auto simp: set_task_def probe_memory write_result_memory cancellation_register_def token_new_def Let_def)
    then show thesis by (rule that)
  qed
next
  case (ActExecuted k outcome)
  then show thesis using assms that by (auto simp: set_task_def split: option.splits task_state.splits)
next
  case (ActKill scope i)
  then have "process_step memory_process_store (POpKill scope i) (pw_store (pm_world m))
      = (fst (process_update_status scope i PsKilled None (pw_store (pm_world m))), pw_store (pm_world m'))"
    using assms by (auto simp: kill_action_def prod_eq_iff split: prod.splits sum.splits)
  then show thesis by (rule that)
next
  case (ActKillNext n)
  then obtain now m'' where "kill_next (pm_kills m ! n) m = (now, m'')" "pm_world m' = pm_world m''"
    using assms by (auto split: if_splits prod.splits)
  then have "pw_store (pm_world m') = pw_store (pm_world m)" using kill_next_store by metis
  then show thesis by (rule that)
qed

lemma action_keeps:
  assumes "machine_action a m = Some m'" "hm_get (pw_store (pm_world m)) k = Some r"
  shows "\<exists>r'. hm_get (pw_store (pm_world m')) k = Some r' \<and> (process_is_terminal (pr_status r) \<longrightarrow> r' = r)"
  using assms(1)
proof (rule action_store)
  fix op x assume step: "process_step memory_process_store op (pw_store (pm_world m)) = (x, pw_store (pm_world m'))"
  obtain r' where "hm_get (pw_store (pm_world m')) k = Some r'" using step_known [OF step] assms(2) by fastforce
  then show ?thesis using memory_processes.step_final(1) [OF step assms(2)] by auto
qed (use assms(2) in simp)

lemma run_keeps:
  "machine_run as m = Some m' \<Longrightarrow> hm_get (pw_store (pm_world m)) k = Some r \<Longrightarrow>
    \<exists>r'. hm_get (pw_store (pm_world m')) k = Some r' \<and> (process_is_terminal (pr_status r) \<longrightarrow> r' = r)"
proof (induction as arbitrary: m r)
  case (Cons a as)
  then obtain m1 where m1: "machine_action a m = Some m1" "machine_run as m1 = Some m'" by (auto split: option.splits)
  obtain r1 where "hm_get (pw_store (pm_world m1)) k = Some r1" "process_is_terminal (pr_status r) \<longrightarrow> r1 = r"
    using action_keeps [OF m1(1) Cons.prems(2)] by blast
  then show ?case using Cons.IH [OF m1(2)] by metis
qed simp

text \<open>A history without end: between one moment and the next any actions may happen.\<close>

definition process_timeline :: "(nat \<Rightarrow> process_machine) \<Rightarrow> bool" where
  "process_timeline w \<longleftrightarrow> machine_reachable (w 0) \<and> (\<forall>n. \<exists>as. machine_run as (w n) = Some (w (Suc n)))"

lemma timeline_reachable: "process_timeline w \<Longrightarrow> machine_reachable (w n)"
  by (induction n) (auto simp: process_timeline_def dest: reachable_run)

lemma timeline_keeps:
  assumes "process_timeline w" "hm_get (pw_store (pm_world (w n))) k = Some r" "n \<le> n'"
  shows "\<exists>r'. hm_get (pw_store (pm_world (w n'))) k = Some r' \<and> (process_is_terminal (pr_status r) \<longrightarrow> r' = r)"
  using assms(3)
proof (induction rule: dec_induct)
  case (step j)
  then obtain r' where r': "hm_get (pw_store (pm_world (w j))) k = Some r'" "process_is_terminal (pr_status r) \<longrightarrow> r' = r" by blast
  obtain as where as: "machine_run as (w j) = Some (w (Suc j))" using assms(1) by (auto simp: process_timeline_def)
  show ?case using run_keeps [OF as r'(1)] r'(2) by auto
qed (use assms(2) in auto)

lemma timeline_terminal:
  assumes "process_timeline w" "hm_get (pw_store (pm_world (w n))) k = Some r" "process_is_terminal (pr_status r)"
    "hm_get (pw_store (pm_world (w n'))) k = Some q" "process_is_terminal (pr_status q)"
  shows "q = r"
  using timeline_keeps [OF assms(1,2), of n'] timeline_keeps [OF assms(1,4), of n] assms(2-5) by (cases n n' rule: le_cases) auto

abbreviation memory_host :: "(process_map, result_map) process_host" where
  "memory_host \<equiv> services_host memory_process_store memory_result_store"

lemma memory_host_reads [simp]:
  "fst (host_status memory_host scope i w) = Ok (hm_get (pw_store w) (process_key_new scope i))"
  "fst (host_result memory_host scope i w) = Ok (hm_get (pw_results w) (process_key_new scope i))"
  "ph_result_store memory_host \<noteq> None"
  by (simp_all add: host_status_def host_result_def services_host_def memory_result_store_def)

lemma await_process_ends:
  assumes line: "process_timeline w" and known: "hm_get (pw_store (pm_world (w 0))) (process_key_new scope i) \<noteq> None"
    and r: "hm_get (pw_store (pm_world (w n))) (process_key_new scope i) = Some r" "process_is_terminal (pr_status r)" and "poll \<le> n"
  shows "await_process memory_host scope i (\<lambda>j. pm_world (w j)) poll = Some (Ok (from_terminal r))"
  using \<open>poll \<le> n\<close>
proof (induction "n - poll" arbitrary: poll)
  case 0
  then show ?case using r by (simp add: await_process.simps)
next
  case (Suc d)
  obtain q where q: "hm_get (pw_store (pm_world (w poll))) (process_key_new scope i) = Some q"
    using known timeline_keeps [OF line, of 0 _ _ poll] by fastforce
  have "await_process memory_host scope i (\<lambda>j. pm_world (w j)) (Suc poll) = Some (Ok (from_terminal r))"
    using Suc by (intro Suc.hyps(1)) auto
  moreover have "process_is_terminal (pr_status q) \<Longrightarrow> q = r" using timeline_terminal [OF line r q] .
  ultimately show ?case using q by (subst await_process.simps) auto
qed

text \<open>A poll for a result reads the results at an even moment and the record at the next one.\<close>

abbreviation result_moments :: "(nat \<Rightarrow> process_machine) \<Rightarrow> nat \<Rightarrow> (process_map, result_map) process_world \<times> (process_map, result_map) process_world" where
  "result_moments w \<equiv> (\<lambda>j. (pm_world (w (2 * j)), pm_world (w (2 * j + 1))))"

lemma await_result_step:
  assumes "hm_get (pw_store (pm_world (w (2 * poll + 1)))) (process_key_new scope i) = Some q"
  shows "await_result memory_host scope i (result_moments w) seen poll =
    (case hm_get (pw_results (pm_world (w (2 * poll)))) (process_key_new scope i) of
       Some x \<Rightarrow> Some (Ok x)
     | None \<Rightarrow> if process_is_terminal (pr_status q)
         then (if seen then Some (Err (ProcessResultUnavailable i)) else await_result memory_host scope i (result_moments w) True (Suc poll))
         else await_result memory_host scope i (result_moments w) False (Suc poll))"
  using assms by (subst await_result.simps) (simp split: option.split)

text \<open>From the moment at which the process has ended, two polls are enough; and they find the result of a process that
  has completed or failed.\<close>

lemma await_result_after:
  assumes line: "process_timeline w" and r: "hm_get (pw_store (pm_world (w n))) (process_key_new scope i) = Some r"
    "process_is_terminal (pr_status r)" and "n \<le> 2 * poll + 1" and seen: "seen \<longrightarrow> n \<le> 2 * poll"
  shows "\<exists>x. await_result memory_host scope i (result_moments w) seen poll = Some x \<and> (pr_status r \<noteq> PsKilled \<longrightarrow> is_ok x)"
proof -
  have rec: "hm_get (pw_store (pm_world (w j))) (process_key_new scope i) = Some r" if "n \<le> j" for j
    using timeline_keeps [OF line r(1) that] r(2) by auto
  have res: "hm_get (pw_results (pm_world (w j))) (process_key_new scope i) \<noteq> None" if "n \<le> j" "pr_status r \<noteq> PsKilled" for j
  proof -
    have "pr_status r = PsCompleted \<or> pr_status r = PsFailed"
      using that(2) r(2) by (cases "pr_status r") (auto simp: process_is_terminal_def)
    then show ?thesis using machine_okD(1) [OF reachable_ok [OF timeline_reachable [OF line]], of "process_key_new scope i" j] rec [OF that(1)]
      by (auto simp: slot_ok_def record_ok_def)
  qed
  have second: "\<exists>x. await_result memory_host scope i (result_moments w) b p = Some x \<and> (pr_status r \<noteq> PsKilled \<longrightarrow> is_ok x)"
    if "n \<le> 2 * p" "b" for b p
    using res [of "2 * p"] rec [of "2 * p + 1"] r(2) that
    by (cases "pr_status r = PsKilled"; subst await_result_step [where q = r]; auto split: option.split)
  show ?thesis
  proof (cases "seen")
    case True
    then show ?thesis using second seen by blast
  next
    case False
    then show ?thesis using second [of "Suc poll" True] rec assms(4) r(2)
      by (subst await_result_step [where q = r]) (auto split: option.split)
  qed
qed

lemma await_result_ends:
  assumes line: "process_timeline w" and known: "hm_get (pw_store (pm_world (w 0))) (process_key_new scope i) \<noteq> None"
    and r: "hm_get (pw_store (pm_world (w n))) (process_key_new scope i) = Some r" "process_is_terminal (pr_status r)"
    and "seen \<longrightarrow> n \<le> 2 * poll"
  shows "\<exists>x. await_result memory_host scope i (result_moments w) seen poll = Some x \<and> (pr_status r \<noteq> PsKilled \<longrightarrow> is_ok x)"
  using assms(5)
proof (induction "n - poll" arbitrary: poll seen)
  case 0
  then show ?case using await_result_after [OF line r] by simp
next
  case (Suc d)
  show ?case
  proof (cases "n \<le> 2 * poll + 1")
    case True
    then show ?thesis using Suc.prems await_result_after [OF line r True] by blast
  next
    case False
    let ?n = "2 * poll + 1"
    obtain q where q: "hm_get (pw_store (pm_world (w ?n))) (process_key_new scope i) = Some q"
      using known timeline_keeps [OF line, of 0 _ _ ?n] by fastforce
    show ?thesis
    proof (cases "process_is_terminal (pr_status q)")
      case True
      then have "q = r" using timeline_terminal [OF line r q] by blast
      then show ?thesis using await_result_after [OF line, of ?n scope i q poll seen] q True False Suc.prems by auto
    next
      case running: False
      have "\<exists>x. await_result memory_host scope i (result_moments w) False (Suc poll) = Some x \<and> (pr_status r \<noteq> PsKilled \<longrightarrow> is_ok x)"
        using Suc.hyps by (intro Suc.hyps(1)) auto
      then show ?thesis using running by (subst await_result_step [where w = w and poll = poll, OF q]) (auto split: option.split)
    qed
  qed
qed

lemma await_process_forever:
  assumes "\<And>n. \<exists>r. hm_get (pw_store (pm_world (w n))) (process_key_new scope i) = Some r \<and> pr_status r = PsRunning"
  shows "await_process memory_host scope i (\<lambda>j. pm_world (w j)) poll = None"
proof (rule ccontr)
  let ?moment = "\<lambda>j. pm_world (w j)"
  let ?P = "\<lambda>h s j moment p (y :: process_error + process_exit). \<not> (h = memory_host \<and> s = scope \<and> j = i \<and> moment = ?moment)"
  assume "await_process memory_host scope i ?moment poll \<noteq> None"
  then obtain y where "await_process memory_host scope i ?moment poll = Some y" by blast
  then have "?P memory_host scope i ?moment poll y"
  proof (rule await_process.raw_induct [where P = ?P, rotated])
    fix await h s j moment p y
    assume ih: "\<And>h s j moment p y. await h s j moment p = Some y \<Longrightarrow> ?P h s j moment p y"
      and body: "(case fst (host_status h s j (moment p)) of
         Err e \<Rightarrow> Some (Err e)
       | Ok None \<Rightarrow> Some (Err (UnknownProcess j))
       | Ok (Some r) \<Rightarrow> if process_is_terminal (pr_status r) then Some (Ok (from_terminal r)) else await h s j moment (Suc p)) = Some y"
    show "?P h s j moment p y"
    proof
      assume "h = memory_host \<and> s = scope \<and> j = i \<and> moment = ?moment"
      then show False using ih [of h s j moment "Suc p" y] body assms [of p] by (auto simp: process_is_terminal_def)
    qed
  qed
  then show False by simp
qed

text \<open>C36. Waiting ends. In any endless history of tasks and kills, once the process has ended at some moment, a
  caller that awaits it returns with its final record, and a caller that awaits its result returns as
  well, with a result if the process completed or failed. A caller that awaits a process which runs
  for ever does not return.\<close>

theorem waiting_ends_with_the_process:
  assumes "process_timeline w" "hm_get (pw_store (pm_world (w 0))) (process_key_new scope i) \<noteq> None"
  shows "(\<forall>n r. hm_get (pw_store (pm_world (w n))) (process_key_new scope i) = Some r \<and> process_is_terminal (pr_status r) \<longrightarrow>
      await_process memory_host scope i (\<lambda>j. pm_world (w j)) 0 = Some (Ok (from_terminal r))
      \<and> (\<exists>x. await_result memory_host scope i (\<lambda>j. (pm_world (w (2 * j)), pm_world (w (2 * j + 1)))) False 0 = Some x
           \<and> (pr_status r \<noteq> PsKilled \<longrightarrow> is_ok x)))
    \<and> ((\<forall>n. map_option pr_status (hm_get (pw_store (pm_world (w n))) (process_key_new scope i)) = Some PsRunning) \<longrightarrow>
        await_process memory_host scope i (\<lambda>j. pm_world (w j)) 0 = None)"
proof (intro conjI allI impI)
  fix n r assume "hm_get (pw_store (pm_world (w n))) (process_key_new scope i) = Some r \<and> process_is_terminal (pr_status r)"
  then have r: "hm_get (pw_store (pm_world (w n))) (process_key_new scope i) = Some r" "process_is_terminal (pr_status r)" by auto
  show "await_process memory_host scope i (\<lambda>j. pm_world (w j)) 0 = Some (Ok (from_terminal r))"
    by (rule await_process_ends [OF assms r]) simp
  show "\<exists>x. await_result memory_host scope i (result_moments w) False 0 = Some x \<and> (pr_status r \<noteq> PsKilled \<longrightarrow> is_ok x)"
    by (rule await_result_ends [OF assms r]) simp
next
  assume "\<forall>n. map_option pr_status (hm_get (pw_store (pm_world (w n))) (process_key_new scope i)) = Some PsRunning"
  then show "await_process memory_host scope i (\<lambda>j. pm_world (w j)) 0 = None"
    by (intro await_process_forever) auto
qed

text \<open>A process is started, runs to its end, and nothing happens afterwards.\<close>

theorem waiting_ends_with_the_process_witness:
  "\<exists>w r. process_timeline w \<and> await_process memory_host plain_scope 5 (\<lambda>j. pm_world (w j)) 0 = Some (Ok (from_terminal r))
    \<and> pr_status r = PsFailed"
proof -
  let ?start = "start_action sample_start initial_machine"
  have "case machine_run (tl plain_finish) ?start of
      None \<Rightarrow> False | Some m \<Rightarrow> map_option pr_status (hm_get (pw_store (pm_world m)) sample_key) = Some PsFailed"
    by code_simp
  then obtain m r where m: "machine_run (tl plain_finish) ?start = Some m"
      and r: "hm_get (pw_store (pm_world m)) sample_key = Some r" "pr_status r = PsFailed"
    by (auto split: option.splits)
  define w where "w n = (if n = 0 then ?start else m)" for n :: nat
  have "machine_reachable ?start" by (rule acting [OF initially, of "ActSpawn sample_start"]) simp
  moreover have "\<exists>as. machine_run as (w n) = Some (w (Suc n))" for n
  proof (cases n)
    case 0
    then show ?thesis using m by (auto simp: w_def)
  next
    case (Suc d)
    then show ?thesis by (intro exI [of _ "[]"]) (simp add: w_def)
  qed
  ultimately have line: "process_timeline w" by (simp add: process_timeline_def w_def)
  have "hm_get (pw_store (pm_world ?start)) sample_key \<noteq> None" by code_simp
  then have known: "hm_get (pw_store (pm_world (w 0))) sample_key \<noteq> None" by (simp add: w_def)
  have "hm_get (pw_store (pm_world (w 1))) sample_key = Some r" "process_is_terminal (pr_status r)"
    using r by (simp_all add: w_def process_is_terminal_def)
  then show ?thesis using waiting_ends_with_the_process [OF line known] line r(2) by blast
qed

section \<open>Killing twice\<close>

lemma side_effects_memory:
  "fst (record_kill_side_effects (services_host S memory_result_store) r w) = Ok ()"
  by (simp add: record_kill_side_effects_def services_host_def memory_result_store_def store_result_def Let_def)

text \<open>Killing a process that has been killed already succeeds again over the plain store and reports the record;
  over the resource-managed store the same call fails, since the reservation of an ended process is
  no longer owned, although the process is killed and the side effects of the kill are repeated.\<close>

theorem repeated_kill_depends_on_the_store:
  assumes "hm_get (pw_store w) (process_key_new scope i) = Some r" "pr_status r = PsKilled"
    and "validate_usage usage = Ok ()" "pw_store v = process_history (managed_memory g usage) ops no_processes"
    and "hm_get (mp_inner (pw_store v)) (process_key_new scope i) = Some q" "pr_status q = PsKilled"
  shows "fst (host_kill (services_host memory_process_store memory_result_store) scope i w) = Ok r
    \<and> fst (host_kill (services_host (managed_memory g usage t) memory_result_store) scope i v)
        = Err (ResourceReservationNotOwned i (pr_resource_reservation_id q))"
proof
  show "fst (host_kill memory_host scope i w) = Ok r"
    using assms(1,2) side_effects_memory [of memory_process_store r w]
    by (auto simp: host_kill_def services_host_def process_update_status_def ensure_status_transition_def Let_def
      split: prod.splits sum.splits)
next
  let ?S = "managed_memory g usage t" and ?k = "process_key_new scope i"
  have "managed_ok (pw_store v)" using managed_history_ok [OF no_processes_ok assms(3)] assms(4) by simp
  then have own: "hm_get (mp_owned_reservations (pw_store v)) ?k = None"
    using accounts_okD(3) [where f = "hm_get (mp_inner (pw_store v))" and k = ?k, OF _ assms(5)] assms(6) by (auto simp: managed_ok_def)
  have get: "ps_get ?S scope i s = (Ok (hm_get (mp_inner s) ?k), s)" for s
    by (cases t) (simp add: managed_memory_def managed_process_store_def)
  have kill: "ps_kill ?S scope i (pw_store v) = (Err (ResourceReservationNotOwned i (pr_resource_reservation_id q)), pw_store v)"
    using own assms(5)
    by (cases t) (simp add: managed_memory_def managed_finish_def take_owned_reservation_def)
  show "fst (host_kill (services_host ?S memory_result_store) scope i v)
      = Err (ResourceReservationNotOwned i (pr_resource_reservation_id q))"
    using kill get assms(5,6) side_effects_memory [of ?S q v]
    by (auto simp: host_kill_def services_host_def split: prod.splits sum.splits)
qed

theorem repeated_kill_depends_on_the_store_witness:
  "\<exists>m. m = process_history (managed_memory sample_governor_env (token_usage 0)) sample_history no_processes
    \<and> fst (host_kill (services_host (managed_memory sample_governor_env (token_usage 0) (2, 9)) memory_result_store) plain_scope 5
        \<lparr>pw_store = m, pw_results = ([] :: result_map), pw_registry = cancellation_registry_new\<rparr>) = Err (ResourceReservationNotOwned 5 (Some 7))"
proof -
  let ?m = "process_history (managed_memory sample_governor_env (token_usage 0)) sample_history no_processes"
  let ?v = "\<lparr>pw_store = ?m, pw_results = ([] :: result_map), pw_registry = cancellation_registry_new\<rparr>"
  let ?w = "\<lparr>pw_store = [(sample_key, sample_killed)], pw_results = ([] :: result_map), pw_registry = cancellation_registry_new\<rparr>"
  have w: "hm_get (pw_store ?w) sample_key = Some sample_killed" "pr_status sample_killed = PsKilled"
    by (simp_all add: hm_get_def sample_killed_def)
  have usage: "validate_usage (token_usage 0) = Ok ()" by code_simp
  have v: "pw_store ?v = ?m" by simp
  have "map_option (\<lambda>r. (pr_status r, pr_resource_reservation_id r)) (hm_get (mp_inner ?m) sample_key) = Some (PsKilled, Some 7)"
    by code_simp
  then obtain q where q: "hm_get (mp_inner (pw_store ?v)) sample_key = Some q" "pr_status q = PsKilled"
      "pr_resource_reservation_id q = Some 7"
    by auto
  show ?thesis using repeated_kill_depends_on_the_store [OF w usage v q(1,2), of "(2, 9)"] q(3) by auto
qed

end
