(* ===== verification/Runtime_Policy.thy ===== *)
theory Runtime_Policy
  imports Text
begin

text \<open>
  Runtime profiles: the vocabulary of \<^verbatim>\<open>ironclaw_host_api/src/runtime_policy.rs\<close> and the resolver of
  \<^verbatim>\<open>ironclaw_runtime_policy/src/resolver.rs\<close>, which turns a deployment, a requested profile and the constraints of
  an organization into the policy a host enforces; what a resolved policy guarantees.
\<close>

section \<open>Vocabulary (runtime\_policy.rs)\<close>

datatype deployment_mode = LocalSingleUser | HostedMultiTenant | EnterpriseDedicated

datatype runtime_profile =
    SecureDefault | LocalSafe | LocalDev | LocalYolo | HostedSafe | HostedDev | HostedYoloTenantScoped
  | EnterpriseSafe | EnterpriseDev | EnterpriseYoloDedicated | Sandboxed | Experiment

datatype filesystem_backend_kind =
    ScopedVirtual | HostWorkspace | HostWorkspaceAndHome | TenantWorkspace | OrgDedicatedWorkspace

datatype process_backend_kind =
    NoProcess | DockerProcess | SrtProcess | SmolVmProcess | LocalHostProcess | TenantSandboxProcess | OrgDedicatedRunner

datatype network_mode = NetDeny | NetBrokered | NetAllowlist | NetDirectLogged | NetDirect

datatype secret_mode = SecretDeny | BrokeredHandles | TenantBroker | OrgBroker | ScrubbedEnv | InheritedEnv

datatype approval_policy = AskAlways | AskWrites | AskDestructive | ApprovalOrgPolicy | ApprovalMinimal

datatype audit_mode = AuditLocalMinimal | AuditStandard | AuditOrgPolicy

definition deployment_mode_as_str :: "deployment_mode \<Rightarrow> string" where
  "deployment_mode_as_str d = (case d of LocalSingleUser \<Rightarrow> ''local_single_user'' | HostedMultiTenant \<Rightarrow> ''hosted_multi_tenant''
     | EnterpriseDedicated \<Rightarrow> ''enterprise_dedicated'')"

record parse_enum_error =
  pee_kind :: string
  pee_value :: string

definition deployment_mode_from_str :: "string \<Rightarrow> parse_enum_error + deployment_mode" where
  "deployment_mode_from_str v =
    (if v = ''local_single_user'' then Ok LocalSingleUser
     else if v = ''hosted_multi_tenant'' then Ok HostedMultiTenant
     else if v = ''enterprise_dedicated'' then Ok EnterpriseDedicated
     else Err \<lparr>pee_kind = ''deployment mode'', pee_value = v\<rparr>)"

definition runtime_profile_as_str :: "runtime_profile \<Rightarrow> string" where
  "runtime_profile_as_str p =
    (case p of SecureDefault \<Rightarrow> ''secure_default'' | LocalSafe \<Rightarrow> ''local_safe'' | LocalDev \<Rightarrow> ''local_dev'' | LocalYolo \<Rightarrow> ''local_yolo''
     | HostedSafe \<Rightarrow> ''hosted_safe'' | HostedDev \<Rightarrow> ''hosted_dev'' | HostedYoloTenantScoped \<Rightarrow> ''hosted_yolo_tenant_scoped''
     | EnterpriseSafe \<Rightarrow> ''enterprise_safe'' | EnterpriseDev \<Rightarrow> ''enterprise_dev''
     | EnterpriseYoloDedicated \<Rightarrow> ''enterprise_yolo_dedicated'' | Sandboxed \<Rightarrow> ''sandboxed'' | Experiment \<Rightarrow> ''experiment'')"

definition runtime_profile_from_str :: "string \<Rightarrow> parse_enum_error + runtime_profile" where
  "runtime_profile_from_str v =
    (if v = ''secure_default'' then Ok SecureDefault
     else if v = ''local_safe'' then Ok LocalSafe
     else if v = ''local_dev'' then Ok LocalDev
     else if v = ''local_yolo'' then Ok LocalYolo
     else if v = ''hosted_safe'' then Ok HostedSafe
     else if v = ''hosted_dev'' then Ok HostedDev
     else if v = ''hosted_yolo_tenant_scoped'' then Ok HostedYoloTenantScoped
     else if v = ''enterprise_safe'' then Ok EnterpriseSafe
     else if v = ''enterprise_dev'' then Ok EnterpriseDev
     else if v = ''enterprise_yolo_dedicated'' then Ok EnterpriseYoloDedicated
     else if v = ''sandboxed'' then Ok Sandboxed
     else if v = ''experiment'' then Ok Experiment
     else Err \<lparr>pee_kind = ''runtime profile'', pee_value = v\<rparr>)"

definition profile_is_local :: "runtime_profile \<Rightarrow> bool" where
  "profile_is_local p = (p \<in> {LocalSafe, LocalDev, LocalYolo})"

definition profile_is_hosted :: "runtime_profile \<Rightarrow> bool" where
  "profile_is_hosted p = (p \<in> {HostedSafe, HostedDev, HostedYoloTenantScoped})"

definition profile_is_enterprise :: "runtime_profile \<Rightarrow> bool" where
  "profile_is_enterprise p = (p \<in> {EnterpriseSafe, EnterpriseDev, EnterpriseYoloDedicated})"

definition profile_is_yolo :: "runtime_profile \<Rightarrow> bool" where
  "profile_is_yolo p = (p \<in> {LocalYolo, HostedYoloTenantScoped, EnterpriseYoloDedicated})"

record effective_runtime_policy =
  erp_deployment :: deployment_mode
  erp_requested_profile :: runtime_profile
  erp_resolved_profile :: runtime_profile
  erp_filesystem_backend :: filesystem_backend_kind
  erp_process_backend :: process_backend_kind
  erp_network_mode :: network_mode
  erp_secret_mode :: secret_mode
  erp_approval_policy :: approval_policy
  erp_audit_mode :: audit_mode

definition was_reduced :: "effective_runtime_policy \<Rightarrow> bool" where
  "was_reduced p = (erp_requested_profile p \<noteq> erp_resolved_profile p)"

section \<open>The resolver (resolver.rs)\<close>

record org_policy_constraints =
  opc_max_profile :: "runtime_profile option"
  opc_admin_approves_dedicated_yolo :: bool

record resolve_request =
  rq_deployment :: deployment_mode
  rq_requested_profile :: runtime_profile
  rq_org_policy :: org_policy_constraints
  rq_yolo_disclosure_acknowledged :: bool

definition resolve_request_new :: "deployment_mode \<Rightarrow> runtime_profile \<Rightarrow> resolve_request" where
  "resolve_request_new d p = \<lparr>rq_deployment = d, rq_requested_profile = p,
     rq_org_policy = \<lparr>opc_max_profile = None, opc_admin_approves_dedicated_yolo = False\<rparr>, rq_yolo_disclosure_acknowledged = False\<rparr>"

datatype resolve_error =
    IncompatibleDeployment deployment_mode runtime_profile
  | YoloRequiresDisclosure runtime_profile
  | DedicatedYoloRequiresOrgAdminApproval
  | OrgPolicyCeilingFamilyMismatch runtime_profile runtime_profile

fun is_compatible :: "deployment_mode \<Rightarrow> runtime_profile \<Rightarrow> bool" where
  "is_compatible _ SecureDefault = True"
| "is_compatible _ Sandboxed = True"
| "is_compatible _ Experiment = True"
| "is_compatible LocalSingleUser LocalSafe = True"
| "is_compatible LocalSingleUser LocalDev = True"
| "is_compatible LocalSingleUser LocalYolo = True"
| "is_compatible HostedMultiTenant HostedSafe = True"
| "is_compatible HostedMultiTenant HostedDev = True"
| "is_compatible HostedMultiTenant HostedYoloTenantScoped = True"
| "is_compatible EnterpriseDedicated EnterpriseSafe = True"
| "is_compatible EnterpriseDedicated EnterpriseDev = True"
| "is_compatible EnterpriseDedicated EnterpriseYoloDedicated = True"
| "is_compatible _ _ = False"

datatype profile_family = LocalFamily | HostedFamily | EnterpriseFamily

fun family_rank :: "runtime_profile \<Rightarrow> (profile_family \<times> nat) option" where
  "family_rank LocalSafe = Some (LocalFamily, 1)"
| "family_rank LocalDev = Some (LocalFamily, 2)"
| "family_rank LocalYolo = Some (LocalFamily, 3)"
| "family_rank HostedSafe = Some (HostedFamily, 1)"
| "family_rank HostedDev = Some (HostedFamily, 2)"
| "family_rank HostedYoloTenantScoped = Some (HostedFamily, 3)"
| "family_rank EnterpriseSafe = Some (EnterpriseFamily, 1)"
| "family_rank EnterpriseDev = Some (EnterpriseFamily, 2)"
| "family_rank EnterpriseYoloDedicated = Some (EnterpriseFamily, 3)"
| "family_rank _ = None"

definition narrow_to_ceiling :: "runtime_profile \<Rightarrow> runtime_profile \<Rightarrow> resolve_error + runtime_profile" where
  "narrow_to_ceiling requested ceiling =
    (case family_rank requested of
       None \<Rightarrow> Err (OrgPolicyCeilingFamilyMismatch requested ceiling)
     | Some (req_family, req_rank) \<Rightarrow>
    (case family_rank ceiling of
       None \<Rightarrow> Err (OrgPolicyCeilingFamilyMismatch requested ceiling)
     | Some (ceil_family, ceil_rank) \<Rightarrow>
        if req_family \<noteq> ceil_family then Err (OrgPolicyCeilingFamilyMismatch requested ceiling)
        else if ceil_rank < req_rank then Ok ceiling
        else Ok requested))"

definition sandboxed_filesystem_for :: "deployment_mode \<Rightarrow> filesystem_backend_kind" where
  "sandboxed_filesystem_for d =
    (case d of LocalSingleUser \<Rightarrow> ScopedVirtual | HostedMultiTenant \<Rightarrow> TenantWorkspace | EnterpriseDedicated \<Rightarrow> OrgDedicatedWorkspace)"

definition sandboxed_secret_for :: "deployment_mode \<Rightarrow> secret_mode" where
  "sandboxed_secret_for d = (case d of LocalSingleUser \<Rightarrow> BrokeredHandles | HostedMultiTenant \<Rightarrow> TenantBroker | EnterpriseDedicated \<Rightarrow> OrgBroker)"

definition audit_for :: "deployment_mode \<Rightarrow> audit_mode" where
  "audit_for d = (case d of LocalSingleUser \<Rightarrow> AuditLocalMinimal | HostedMultiTenant \<Rightarrow> AuditStandard | EnterpriseDedicated \<Rightarrow> AuditOrgPolicy)"

fun backends_for ::
    "deployment_mode \<Rightarrow> runtime_profile
      \<Rightarrow> filesystem_backend_kind \<times> process_backend_kind \<times> network_mode \<times> secret_mode \<times> approval_policy \<times> audit_mode" where
  "backends_for d SecureDefault = (ScopedVirtual, NoProcess, NetBrokered, BrokeredHandles, AskAlways, audit_for d)"
| "backends_for d LocalSafe = (HostWorkspace, LocalHostProcess, NetBrokered, ScrubbedEnv, AskWrites, AuditLocalMinimal)"
| "backends_for d LocalDev = (HostWorkspace, LocalHostProcess, NetDirectLogged, ScrubbedEnv, AskDestructive, AuditLocalMinimal)"
| "backends_for d LocalYolo = (HostWorkspaceAndHome, LocalHostProcess, NetDirect, InheritedEnv, ApprovalMinimal, AuditLocalMinimal)"
| "backends_for d HostedSafe = (TenantWorkspace, TenantSandboxProcess, NetBrokered, TenantBroker, AskWrites, AuditStandard)"
| "backends_for d HostedDev = (TenantWorkspace, TenantSandboxProcess, NetAllowlist, TenantBroker, AskDestructive, AuditStandard)"
| "backends_for d HostedYoloTenantScoped = (TenantWorkspace, TenantSandboxProcess, NetAllowlist, TenantBroker, ApprovalMinimal, AuditStandard)"
| "backends_for d EnterpriseSafe = (OrgDedicatedWorkspace, OrgDedicatedRunner, NetBrokered, OrgBroker, ApprovalOrgPolicy, AuditOrgPolicy)"
| "backends_for d EnterpriseDev = (OrgDedicatedWorkspace, OrgDedicatedRunner, NetAllowlist, OrgBroker, ApprovalOrgPolicy, AuditOrgPolicy)"
| "backends_for d EnterpriseYoloDedicated =
    (OrgDedicatedWorkspace, OrgDedicatedRunner, NetDirectLogged, OrgBroker, ApprovalOrgPolicy, AuditOrgPolicy)"
| "backends_for d Sandboxed =
    (sandboxed_filesystem_for d, SrtProcess, NetBrokered, sandboxed_secret_for d, AskWrites, audit_for d)"
| "backends_for d Experiment =
    (sandboxed_filesystem_for d, SmolVmProcess, NetAllowlist, sandboxed_secret_for d, AskDestructive, audit_for d)"

definition map_to_effective :: "deployment_mode \<Rightarrow> runtime_profile \<Rightarrow> runtime_profile \<Rightarrow> effective_runtime_policy" where
  "map_to_effective d requested resolved =
    (case backends_for d resolved of (fs, pb, nm, sm, ap, au) \<Rightarrow>
       \<lparr>erp_deployment = d, erp_requested_profile = requested, erp_resolved_profile = resolved, erp_filesystem_backend = fs,
        erp_process_backend = pb, erp_network_mode = nm, erp_secret_mode = sm, erp_approval_policy = ap, erp_audit_mode = au\<rparr>)"

definition resolve_runtime_policy :: "resolve_request \<Rightarrow> resolve_error + effective_runtime_policy" where
  "resolve_runtime_policy q =
    (if \<not> is_compatible (rq_deployment q) (rq_requested_profile q)
     then Err (IncompatibleDeployment (rq_deployment q) (rq_requested_profile q))
     else if profile_is_yolo (rq_requested_profile q) \<and> \<not> rq_yolo_disclosure_acknowledged q
     then Err (YoloRequiresDisclosure (rq_requested_profile q))
     else if rq_requested_profile q = EnterpriseYoloDedicated \<and> \<not> opc_admin_approves_dedicated_yolo (rq_org_policy q)
     then Err DedicatedYoloRequiresOrgAdminApproval
     else case (case opc_max_profile (rq_org_policy q) of
           Some ceiling \<Rightarrow> narrow_to_ceiling (rq_requested_profile q) ceiling
         | None \<Rightarrow> Ok (rq_requested_profile q)) of
         Err e \<Rightarrow> Err e
       | Ok resolved \<Rightarrow> Ok (map_to_effective (rq_deployment q) (rq_requested_profile q) resolved))"

section \<open>What a resolved policy guarantees\<close>

text \<open>How far each choice reaches: to the host, to the network, to secrets, and without asking.\<close>

definition fs_reach :: "filesystem_backend_kind \<Rightarrow> nat" where
  "fs_reach x = (case x of ScopedVirtual \<Rightarrow> 0 | TenantWorkspace \<Rightarrow> 1 | OrgDedicatedWorkspace \<Rightarrow> 1 | HostWorkspace \<Rightarrow> 2 | HostWorkspaceAndHome \<Rightarrow> 3)"

definition network_reach :: "network_mode \<Rightarrow> nat" where
  "network_reach x = (case x of NetDeny \<Rightarrow> 0 | NetBrokered \<Rightarrow> 1 | NetAllowlist \<Rightarrow> 2 | NetDirectLogged \<Rightarrow> 3 | NetDirect \<Rightarrow> 4)"

definition secret_reach :: "secret_mode \<Rightarrow> nat" where
  "secret_reach x = (case x of SecretDeny \<Rightarrow> 0 | BrokeredHandles \<Rightarrow> 1 | TenantBroker \<Rightarrow> 1 | OrgBroker \<Rightarrow> 1 | ScrubbedEnv \<Rightarrow> 2 | InheritedEnv \<Rightarrow> 3)"

definition unasked_reach :: "approval_policy \<Rightarrow> nat" where
  "unasked_reach x = (case x of AskAlways \<Rightarrow> 0 | AskWrites \<Rightarrow> 1 | AskDestructive \<Rightarrow> 2 | ApprovalOrgPolicy \<Rightarrow> 2 | ApprovalMinimal \<Rightarrow> 3)"

definition no_wider_than :: "effective_runtime_policy \<Rightarrow> effective_runtime_policy \<Rightarrow> bool" where
  "no_wider_than p p' \<longleftrightarrow> fs_reach (erp_filesystem_backend p) \<le> fs_reach (erp_filesystem_backend p')
     \<and> network_reach (erp_network_mode p) \<le> network_reach (erp_network_mode p')
     \<and> secret_reach (erp_secret_mode p) \<le> secret_reach (erp_secret_mode p')
     \<and> unasked_reach (erp_approval_policy p) \<le> unasked_reach (erp_approval_policy p')
     \<and> erp_process_backend p = erp_process_backend p' \<and> erp_audit_mode p = erp_audit_mode p'"

definition touches_host :: "effective_runtime_policy \<Rightarrow> bool" where
  "touches_host p \<longleftrightarrow> erp_filesystem_backend p \<in> {HostWorkspace, HostWorkspaceAndHome} \<or> erp_process_backend p = LocalHostProcess
     \<or> erp_secret_mode p \<in> {ScrubbedEnv, InheritedEnv}"

lemma enum_wire_names:
  "deployment_mode_from_str (deployment_mode_as_str d) = Ok d"
  "runtime_profile_from_str (runtime_profile_as_str p) = Ok p"
  "deployment_mode_from_str v = Ok d \<Longrightarrow> deployment_mode_as_str d = v"
  "runtime_profile_from_str v = Ok p \<Longrightarrow> runtime_profile_as_str p = v"
proof -
  show "deployment_mode_from_str (deployment_mode_as_str d) = Ok d"
    by (cases d) (simp_all add: deployment_mode_from_str_def deployment_mode_as_str_def)
  show "runtime_profile_from_str (runtime_profile_as_str p) = Ok p"
    by (cases p) (simp_all add: runtime_profile_from_str_def runtime_profile_as_str_def)
  show "deployment_mode_from_str v = Ok d \<Longrightarrow> deployment_mode_as_str d = v"
    by (auto simp: deployment_mode_from_str_def deployment_mode_as_str_def split: if_splits)
  show "runtime_profile_from_str v = Ok p \<Longrightarrow> runtime_profile_as_str p = v"
    by (auto simp: runtime_profile_from_str_def runtime_profile_as_str_def split: if_splits)
qed

lemmas reach_defs = fs_reach_def network_reach_def secret_reach_def unasked_reach_def

text \<open>Every pair of profiles that narrowing can meet.\<close>

lemma narrowed:
  assumes "narrow_to_ceiling p c = Ok x"
  shows "x \<in> {p, c}" "is_compatible d p \<Longrightarrow> is_compatible d x" "profile_is_yolo x \<Longrightarrow> profile_is_yolo p"
    "x = EnterpriseYoloDedicated \<Longrightarrow> p = EnterpriseYoloDedicated"
    "no_wider_than (map_to_effective d p x) (map_to_effective d p p)"
    "no_wider_than (map_to_effective d p x) (map_to_effective d p c)"
  using assms
  by (cases p; cases c; simp add: narrow_to_ceiling_def profile_is_yolo_def no_wider_than_def map_to_effective_def reach_defs;
      cases d; simp)+

lemma narrow_is_ok: "is_ok (narrow_to_ceiling p c) \<longleftrightarrow> (\<exists>f n m. family_rank p = Some (f, n) \<and> family_rank c = Some (f, m))"
  by (auto simp: narrow_to_ceiling_def split: option.splits prod.splits if_splits)

lemma map_to_effective_profiles [simp]:
  "erp_deployment (map_to_effective d p x) = d" "erp_requested_profile (map_to_effective d p x) = p"
  "erp_resolved_profile (map_to_effective d p x) = x"
  by (simp_all add: map_to_effective_def split: prod.splits)

lemma profile_bounds:
  assumes "is_compatible d x"
  shows "touches_host (map_to_effective d p x) \<Longrightarrow> d = LocalSingleUser"
    "erp_filesystem_backend (map_to_effective d p x) = HostWorkspaceAndHome \<or> erp_secret_mode (map_to_effective d p x) = InheritedEnv
      \<or> erp_network_mode (map_to_effective d p x) = NetDirect \<Longrightarrow> x = LocalYolo"
  using assms
  by (cases d; cases x; simp add: touches_host_def map_to_effective_def sandboxed_filesystem_for_def sandboxed_secret_for_def)+

lemma resolve_Ok:
  assumes "resolve_runtime_policy q = Ok p"
  obtains x where "p = map_to_effective (rq_deployment q) (rq_requested_profile q) x"
    "is_compatible (rq_deployment q) (rq_requested_profile q)"
    "profile_is_yolo (rq_requested_profile q) \<longrightarrow> rq_yolo_disclosure_acknowledged q"
    "opc_max_profile (rq_org_policy q) = None \<longrightarrow> x = rq_requested_profile q"
    "\<forall>c. opc_max_profile (rq_org_policy q) = Some c \<longrightarrow> narrow_to_ceiling (rq_requested_profile q) c = Ok x"
  using assms by (auto simp: resolve_runtime_policy_def split: if_splits sum.splits option.splits)

lemma resolve_is_ok:
  "is_ok (resolve_runtime_policy q) \<longleftrightarrow> is_compatible (rq_deployment q) (rq_requested_profile q)
     \<and> (profile_is_yolo (rq_requested_profile q) \<longrightarrow> rq_yolo_disclosure_acknowledged q)
     \<and> (rq_requested_profile q = EnterpriseYoloDedicated \<longrightarrow> opc_admin_approves_dedicated_yolo (rq_org_policy q))
     \<and> (\<forall>c. opc_max_profile (rq_org_policy q) = Some c \<longrightarrow> is_ok (narrow_to_ceiling (rq_requested_profile q) c))"
  by (auto simp: resolve_runtime_policy_def split: sum.split option.split)

text \<open>C38. A runtime policy is resolved exactly when the deployment admits the requested profile, a profile with reduced
  approvals was disclosed, the dedicated one was approved by the administrator, and a ceiling of the
  organization is of the same family. A resolved policy then never reaches further, in files,
  network, secrets or unasked actions, than the requested profile or the ceiling by itself; the files,
  processes and environment of the host are reachable only in the local deployment; and the whole
  home directory, the inherited environment and unlogged direct network only for the disclosed
  local profile without approvals.\<close>

theorem runtime_policy_stays_in_bounds:
  "(is_ok (resolve_runtime_policy q) \<longleftrightarrow>
      is_compatible (rq_deployment q) (rq_requested_profile q)
      \<and> (profile_is_yolo (rq_requested_profile q) \<longrightarrow> rq_yolo_disclosure_acknowledged q)
      \<and> (rq_requested_profile q = EnterpriseYoloDedicated \<longrightarrow> opc_admin_approves_dedicated_yolo (rq_org_policy q))
      \<and> (\<forall>c. opc_max_profile (rq_org_policy q) = Some c \<longrightarrow>
           (\<exists>f n m. family_rank (rq_requested_profile q) = Some (f, n) \<and> family_rank c = Some (f, m))))
    \<and> (\<forall>p. resolve_runtime_policy q = Ok p \<longrightarrow>
        erp_deployment p = rq_deployment q \<and> erp_requested_profile p = rq_requested_profile q
        \<and> is_compatible (rq_deployment q) (erp_resolved_profile p)
        \<and> no_wider_than p (map_to_effective (rq_deployment q) (rq_requested_profile q) (rq_requested_profile q))
        \<and> (\<forall>c. opc_max_profile (rq_org_policy q) = Some c \<longrightarrow> no_wider_than p (map_to_effective (rq_deployment q) (rq_requested_profile q) c))
        \<and> (touches_host p \<longrightarrow> rq_deployment q = LocalSingleUser)
        \<and> (erp_filesystem_backend p = HostWorkspaceAndHome \<or> erp_secret_mode p = InheritedEnv \<or> erp_network_mode p = NetDirect \<longrightarrow>
             erp_resolved_profile p = LocalYolo \<and> rq_yolo_disclosure_acknowledged q)
        \<and> (was_reduced p \<longrightarrow> opc_max_profile (rq_org_policy q) = Some (erp_resolved_profile p)))"
proof (intro conjI allI impI)
  fix p assume "resolve_runtime_policy q = Ok p"
  then obtain x where p: "p = map_to_effective (rq_deployment q) (rq_requested_profile q) x"
    and compat: "is_compatible (rq_deployment q) (rq_requested_profile q)"
    and yolo: "profile_is_yolo (rq_requested_profile q) \<longrightarrow> rq_yolo_disclosure_acknowledged q"
    and free: "opc_max_profile (rq_org_policy q) = None \<longrightarrow> x = rq_requested_profile q"
    and bound: "\<forall>c. opc_max_profile (rq_org_policy q) = Some c \<longrightarrow> narrow_to_ceiling (rq_requested_profile q) c = Ok x"
    by (rule resolve_Ok)
  show "erp_deployment p = rq_deployment q" "erp_requested_profile p = rq_requested_profile q" by (simp_all add: p)
  have x: "is_compatible (rq_deployment q) x \<and> (profile_is_yolo x \<longrightarrow> profile_is_yolo (rq_requested_profile q))
      \<and> no_wider_than p (map_to_effective (rq_deployment q) (rq_requested_profile q) (rq_requested_profile q))
      \<and> (x \<noteq> rq_requested_profile q \<longrightarrow> opc_max_profile (rq_org_policy q) = Some x)"
  proof (cases "opc_max_profile (rq_org_policy q)")
    case None
    then show ?thesis using free compat by (simp add: p no_wider_than_def)
  next
    case (Some c)
    then show ?thesis using narrowed [OF bound [rule_format, OF Some]] compat by (auto simp: p)
  qed
  then show "is_compatible (rq_deployment q) (erp_resolved_profile p)"
    "no_wider_than p (map_to_effective (rq_deployment q) (rq_requested_profile q) (rq_requested_profile q))"
    "was_reduced p \<Longrightarrow> opc_max_profile (rq_org_policy q) = Some (erp_resolved_profile p)"
    by (auto simp: p was_reduced_def)
  show "no_wider_than p (map_to_effective (rq_deployment q) (rq_requested_profile q) c)"
    if "opc_max_profile (rq_org_policy q) = Some c" for c
    using narrowed(6) [OF bound [rule_format, OF that]] by (simp add: p)
  show "touches_host p \<Longrightarrow> rq_deployment q = LocalSingleUser" using x profile_bounds(1) unfolding p by blast
  assume "erp_filesystem_backend p = HostWorkspaceAndHome \<or> erp_secret_mode p = InheritedEnv \<or> erp_network_mode p = NetDirect"
  then have "x = LocalYolo" using x profile_bounds(2) unfolding p by blast
  then show "erp_resolved_profile p = LocalYolo" "rq_yolo_disclosure_acknowledged q"
    using x yolo by (simp_all add: p profile_is_yolo_def)
qed (simp add: resolve_is_ok narrow_is_ok)

text \<open>The profile without approvals, disclosed and under a ceiling.\<close>

theorem runtime_policy_stays_in_bounds_witness:
  "\<exists>q p. resolve_runtime_policy q = Ok p \<and> rq_requested_profile q = LocalYolo \<and> erp_resolved_profile p = LocalDev
    \<and> is_compatible (rq_deployment q) (erp_resolved_profile p) \<and> touches_host p \<and> rq_deployment q = LocalSingleUser"
proof -
  define q where "q = (resolve_request_new LocalSingleUser LocalYolo)\<lparr>rq_yolo_disclosure_acknowledged := True,
    rq_org_policy := \<lparr>opc_max_profile = Some LocalDev, opc_admin_approves_dedicated_yolo = False\<rparr>\<rparr>"
  let ?p = "map_to_effective LocalSingleUser LocalYolo LocalDev"
  have q: "resolve_runtime_policy q = Ok ?p"
    by (simp add: q_def resolve_request_new_def resolve_runtime_policy_def profile_is_yolo_def narrow_to_ceiling_def)
  have "touches_host ?p" by (simp add: touches_host_def map_to_effective_def)
  with q runtime_policy_stays_in_bounds [of q] show ?thesis
    by (intro exI [of _ q] exI [of _ ?p]) (simp add: q_def resolve_request_new_def)
qed

end
