(* ===== verification/Spec2Isabelle.thy ===== *)
theory Spec2Isabelle
  imports Turn_Guarantees Turn_Operations Turn_Reads Turn_Projection Loop_Exit_Safety
    Turn_Publication Profile_Guarantees Snapshot_Guarantees Approval_Guarantees Host_Path_Safety Governor_Guarantees
    Trust_Guarantees Network_Guarantees Process_Races Runtime_Policy
begin

text \<open>
  A verification development for OfflineOS (an additive fork of IronClaw): its turn coordination
  kernel, \<^verbatim>\<open>crates/ironclaw_turns\<close>, the authority chain of its host, \<^verbatim>\<open>crates/ironclaw_host_api\<close>,
  \<^verbatim>\<open>ironclaw_trust\<close>, \<^verbatim>\<open>ironclaw_authorization\<close>, \<^verbatim>\<open>ironclaw_run_state\<close> and \<^verbatim>\<open>ironclaw_approvals\<close>, its resource
  governor, \<^verbatim>\<open>ironclaw_resources\<close>, its network boundary, \<^verbatim>\<open>ironclaw_network\<close>, its processes, \<^verbatim>\<open>ironclaw_processes\<close>, and the
  resolver of runtime profiles, \<^verbatim>\<open>ironclaw_runtime_policy\<close>.

  \<^bold>\<open>The program.\<close> Users submit turns on conversation threads. The coordinator hands a turn to a
  store, which admits it under capacity limits, resolves the profile it may run with, queues it
  and locks its thread. Runners claim queued runs under a lease, keep the lease alive, block on
  gates (approvals, authentication, resources, other runs), spawn child runs, and finally complete, fail
  or are cancelled; a loop driver reports its exit as a claim that is believed only on evidence.
  Every change is an event that readers page through and subscribers are told of. While it runs, a
  turn invokes capabilities: the trust policy assigns the package of a capability a class and a
  ceiling, the authorizer decides on grants and leases below a trust ceiling,
  an approval turns into a lease bound to the fingerprint of one invocation, file access goes
  through mount views, resources are reserved on a cascade of budget accounts and reconciled
  afterwards, background processes hold a reservation while they run, and HTTP requests leave only
  through the network boundary. Which backends a host offers at all is resolved from its deployment
  and the requested profile.

  \<^bold>\<open>Foundations.\<close>
  \<^item> \<^verbatim>\<open>Prelude\<close>: results (\<^verbatim>\<open>Result\<close> as a sum, \<^verbatim>\<open>Err\<close> left), 64-, 32- and 16-bit words with saturating and checked
    arithmetic, hash maps as association lists behind the locale \<^verbatim>\<open>hash_map\<close>, queues.
  \<^item> \<^verbatim>\<open>Text\<close>: strings as UTF-8 bytes and the string functions the sources use. \<^verbatim>\<open>Float64\<close>: binary64 with
    rounding to nearest even, as rationals.

  \<^bold>\<open>The turn kernel\<close> (\<^verbatim>\<open>crates/ironclaw_turns/src\<close>). One theory per group of the source, in its order:
  \<^item> \<^verbatim>\<open>Turn_Ids\<close> (\<^verbatim>\<open>ids.rs\<close>, \<^verbatim>\<open>scope.rs\<close>, \<^verbatim>\<open>run_profile/refs.rs\<close>), \<^verbatim>\<open>Turn_Admission\<close> (\<^verbatim>\<open>admission.rs\<close>),
    \<^verbatim>\<open>Run_Profile\<close> (\<^verbatim>\<open>run_profile/{policy,snapshot,driver,resolver}.rs\<close>), \<^verbatim>\<open>Model_Route\<close> (\<^verbatim>\<open>run_profile/host.rs\<close>, the
    model route only), \<^verbatim>\<open>Turn_Types\<close> (\<^verbatim>\<open>status.rs\<close>, \<^verbatim>\<open>request.rs\<close>, \<^verbatim>\<open>response.rs\<close>, \<^verbatim>\<open>runner.rs\<close>,
    \<^verbatim>\<open>checkpoint_state.rs\<close>), \<^verbatim>\<open>Turn_Events\<close> (\<^verbatim>\<open>events.rs\<close>), \<^verbatim>\<open>Turn_Records\<close> (\<^verbatim>\<open>store.rs\<close>).
  \<^item> \<^verbatim>\<open>memory.rs\<close>, the in-memory store: the state \<^verbatim>\<open>Inner\<close> is the record \<^verbatim>\<open>inner\<close> of \<^verbatim>\<open>Turn_Store\<close> with the
    private helpers; \<^verbatim>\<open>Turn_Transitions\<close> has the operations of runners and the single-shot
    resume and cancel, \<^verbatim>\<open>Turn_Idempotency\<close> their replaying forms, \<^verbatim>\<open>Turn_Submit\<close> the submissions,
    \<^verbatim>\<open>Turn_Tree\<close> spawn trees and reads, \<^verbatim>\<open>Turn_Snapshot\<close> saving and restoring.
  \<^item> \<^verbatim>\<open>Loop_Exit\<close> (\<^verbatim>\<open>loop_exit.rs\<close>), \<^verbatim>\<open>Turn_Lifecycle\<close> (\<^verbatim>\<open>lifecycle.rs\<close>), \<^verbatim>\<open>Turn_Coordinator\<close> (\<^verbatim>\<open>coordinator.rs\<close>).

  Every operation is a function from the state to a result and a state. Clocks, fresh ids, admission
  policies, limit providers, profile resolvers, evidence ports, observers and sinks are arguments.
  A mutex makes each lock region atomic: \<^verbatim>\<open>Turn_Machine\<close> has one step of the inductive
  relation \<^verbatim>\<open>store_step\<close> per lock region, so that reachability covers every interleaving of
  concurrent callers. Waiting on the condition variable for a submission in flight is the answer
  None of \<^verbatim>\<open>submit_begin\<close>.

  \<^bold>\<open>The authority chain.\<close>
  \<^item> \<^verbatim>\<open>Host_Path\<close> (\<^verbatim>\<open>ironclaw_host_api/src/{path,mount,error}.rs\<close>), \<^verbatim>\<open>Host_Authority\<close>
    (\<^verbatim>\<open>{ids,resource,runtime,scope,capability,action,approval,decision}.rs\<close> there and \<^verbatim>\<open>ironclaw_trust/src/decision.rs\<close>),
    \<^verbatim>\<open>Host_Audit\<close> (\<^verbatim>\<open>audit.rs\<close>).
  \<^item> \<^verbatim>\<open>Trust_Policy\<close> and \<^verbatim>\<open>Trust_Mutation\<close> (\<^verbatim>\<open>ironclaw_host_api/src/trust.rs\<close> and \<^verbatim>\<open>ironclaw_trust/src/{policy,sources,invalidation}.rs\<close>): the
    chain of policy sources, its mutation with staging and commit, the bus of trust changes, and the
    gate between threads as the step relation \<^verbatim>\<open>trust_step\<close>.
  \<^item> \<^verbatim>\<open>Capability_Lease\<close> (\<^verbatim>\<open>ironclaw_authorization/src/lib.rs\<close>): limits, obligations, both authorizers,
    leases and their in-memory store. \<^verbatim>\<open>Invocation_State\<close> (\<^verbatim>\<open>ironclaw_run_state/src/lib.rs\<close>): the in-memory
    stores of run records and approval requests. \<^verbatim>\<open>Approval_Resolver\<close> (\<^verbatim>\<open>ironclaw_approvals/src/lib.rs\<close>),
    generic in both stores.

  \<^bold>\<open>The resource governor\<close> (\<^verbatim>\<open>ironclaw_resources/src\<close>): \<^verbatim>\<open>Resource_Accounts\<close> (\<^verbatim>\<open>period.rs\<close> and the data of \<^verbatim>\<open>lib.rs\<close>),
  \<^verbatim>\<open>Resource_Governor\<close> (checks and transitions of \<^verbatim>\<open>ResourceState\<close>), \<^verbatim>\<open>Budget_Gate\<close> (\<^verbatim>\<open>gate.rs\<close>, \<^verbatim>\<open>event.rs\<close> and
  \<^verbatim>\<open>InMemoryResourceGovernor\<close>). Calendars and decimal arithmetic of third-party crates are fields of
  \<^verbatim>\<open>governor_env\<close>.

  \<^bold>\<open>The network boundary\<close> (\<^verbatim>\<open>ironclaw_network/src\<close>): \<^verbatim>\<open>Ip_Addr\<close> has what is used of \<^verbatim>\<open>std::net\<close>, \<^verbatim>\<open>Network_Egress\<close> the
  policy (\<^verbatim>\<open>policy.rs\<close>), targets of URLs (\<^verbatim>\<open>url_target.rs\<close>), resolution (\<^verbatim>\<open>resolver.rs\<close>), the egress path
  (\<^verbatim>\<open>egress.rs\<close>) and the transport with its client cache (\<^verbatim>\<open>transport.rs\<close>). The URL parser, name lookup
  and the HTTP client are arguments.

  \<^bold>\<open>Processes\<close> (\<^verbatim>\<open>ironclaw_processes/src\<close>): \<^verbatim>\<open>Process_Store\<close> has the records, the in-memory stores and the decorators that emit
  events and hold reservations (\<^verbatim>\<open>types.rs\<close>, \<^verbatim>\<open>memory_store.rs\<close>, \<^verbatim>\<open>wrappers.rs\<close> and the process events of
  \<^verbatim>\<open>ironclaw_events/src/runtime_event.rs\<close>); \<^verbatim>\<open>Process_Host\<close> cancellation, the host and the background manager
  (\<^verbatim>\<open>cancellation.rs\<close>, \<^verbatim>\<open>host.rs\<close>, \<^verbatim>\<open>services.rs\<close>). A store is a record of operations on its state, so that
  decorators compose. \<^verbatim>\<open>Process_Races\<close> has the machine whose actions are the single accesses of tasks and
  killers.

  \<^bold>\<open>Runtime profiles\<close>: \<^verbatim>\<open>Runtime_Policy\<close> (\<^verbatim>\<open>ironclaw_host_api/src/runtime_policy.rs\<close> and \<^verbatim>\<open>ironclaw_runtime_policy/src/resolver.rs\<close>).

  \<^bold>\<open>Interfaces\<close> are locales, interpreted on the model: \<^verbatim>\<open>hash_map\<close>, \<^verbatim>\<open>uniform_limits\<close> (limit providers),
  \<^verbatim>\<open>run_state_store\<close> (scoped lookup of runs), \<^verbatim>\<open>replay_cache\<close> (the three idempotency caches),
  \<^verbatim>\<open>event_projection_source\<close> (the event feed), \<^verbatim>\<open>exit_transition_port\<close> (loop exits), \<^verbatim>\<open>profile_registry\<close>,
  \<^verbatim>\<open>approval_request_store\<close> (what the resolver needs of approvals), \<^verbatim>\<open>trust_source\<close> (a policy source),
  \<^verbatim>\<open>http_transport\<close> (what the egress path needs of a transport) and \<^verbatim>\<open>process_lifecycle\<close> (a process store, interpreted on
  the plain store and on the composed one).

  \<^bold>\<open>What is shown.\<close>
  \<^item> \<^verbatim>\<open>Turn_Invariant\<close>, \<^verbatim>\<open>Turn_Safety\<close>, \<^verbatim>\<open>Turn_Submit_Safety\<close>: the invariant \<^verbatim>\<open>store_inv\<close> of the store and its
    preservation by every operation on every branch. \<^verbatim>\<open>Turn_Evolution\<close>: each operation refines the
    automaton of run statuses. \<^verbatim>\<open>Turn_Scenario\<close>: a concrete history for witnesses.
  \<^item> \<^verbatim>\<open>Turn_Guarantees\<close>: one live run per thread, exact claims, leases, admission limits, bounded
    logs and retention, replay. \<^verbatim>\<open>Turn_Operations\<close>: recovery, cancellation, resumption, terminal
    transitions and child runs on every branch. \<^verbatim>\<open>Turn_Reads\<close>: tree capacity and hidden runs.
  \<^item> \<^verbatim>\<open>Turn_Projection\<close>: paging delivers every visible event once; pages reveal only public data.
    \<^verbatim>\<open>Loop_Exit_Safety\<close>: completion needs evidence. \<^verbatim>\<open>Turn_Publication\<close>: prepared ids and delivery of events.
    \<^verbatim>\<open>Profile_Guarantees\<close>: authority of profiles and replay of outcomes. \<^verbatim>\<open>Snapshot_Guarantees\<close>: the round trip
    through persistence.
  \<^item> \<^verbatim>\<open>Host_Path_Safety\<close>: canonical paths, resolution inside a mount. \<^verbatim>\<open>Authority_Guarantees\<close>: no allowance
    without a covering grant, composition of ceilings, bounded use of leases. \<^verbatim>\<open>Approval_Guarantees\<close>: an
    approval is decided once, yields a lease for exactly the approved invocation, and that
    lease is used at most once.
  \<^item> \<^verbatim>\<open>Trust_Guarantees\<close>: trust comes only from entries for exactly the package, a mutation is all or nothing
    and announces every loss of authority of the package it names (and of no other), and no other
    thread evaluates before the listeners were told.
  \<^item> \<^verbatim>\<open>Governor_Guarantees\<close>: reservations fit every account, budgets hold under honest reconciliation, a
    reservation closes once, and a limit change carries expired usage along.
  \<^item> \<^verbatim>\<open>Network_Guarantees\<close>: requests reach only listed targets at checked addresses, responses are bounded,
    and the private ranges are a table of address blocks.
  \<^item> \<^verbatim>\<open>Process_Guarantees\<close>: a process ends once, through every decorator, and holds a reservation exactly
    while it runs. \<^verbatim>\<open>Process_Races\<close>: finished processes have their result, waiting ends, and what a concurrent
    kill does not rule out. \<^verbatim>\<open>Runtime_Policy\<close>: a resolved policy stays within profile, ceiling and deployment.

  \<^bold>\<open>Bounds and termination.\<close> No definition needs fuel: apart from the polling loops every loop of the
  modelled code is structural or runs over a list whose length is fixed when it starts (the queue scan takes
  the queue's length, pruning removes one entry per round). The polling loops of the process host may
  run for ever; they are partial functions into options, and when they return is proved. Cursors, counters and limits are words of
  their width; that a cursor does not wrap is a named premise where it matters. Strings are unbounded
  lists where the source does not bound them. Collection sizes (\<^verbatim>\<open>usize\<close>) are natural numbers.

  \<^bold>\<open>Not modelled.\<close> The filesystem-backed stores (turn state, leases, run state, approvals, budgets, processes): asynchronous
  file I/O with compare-and-swap retries around the same rules. Prompt and instruction assembly of
  \<^verbatim>\<open>run_profile\<close>, which only builds text for language models. Serialization derives. The invocation
  fingerprint (SHA-256 of canonical JSON) is an opaque string. Hooks,
  triggers, the capability host, extension runtimes, the loop drivers, adapters, the desktop
  companion and the legacy application under \<^verbatim>\<open>src/\<close> are listed in the manifest with the reason.
\<close>

end
